(* ===== verification/BmwPrelude.thy ===== *)
theory BmwPrelude
  imports Main "HOL-Library.Word"
begin

text \<open>
  Shared vocabulary of the development: the fixed-width integer types of the C++ code, the
  little-endian byte accessors that the settings modules repeat, the wrap-around "strictly newer"
  comparison of 32-bit counters, and the \<open>named_theorems\<close> collections the component theories
  extend.  Pointers into byte buffers are modelled as a list and an offset.
\<close>

unbundle bit_operations_syntax

section \<open>Machine integers\<close>

type_synonym u8 = "8 word"
type_synonym u16 = "16 word"
type_synonym u32 = "32 word"
type_synonym u64 = "64 word"
type_synonym i16 = "16 word"
type_synonym i32 = "32 word"

named_theorems wire_simps "reads over writes in byte buffers"
named_theorems step_defs "unfolding the operations of a component"

section \<open>Little-endian accessors on byte buffers\<close>

definition writeU16 :: "u8 list \<Rightarrow> nat \<Rightarrow> u16 \<Rightarrow> u8 list" where
  "writeU16 destination off value =
     destination[off := ucast (value AND 0xFF),
                 off + 1 := ucast (drop_bit 8 value AND 0xFF)]"

definition readU16 :: "u8 list \<Rightarrow> nat \<Rightarrow> u16" where
  "readU16 source off =
     (ucast (source ! off) :: u16) OR push_bit 8 (ucast (source ! (off + 1)) :: u16)"

definition writeU32 :: "u8 list \<Rightarrow> nat \<Rightarrow> u32 \<Rightarrow> u8 list" where
  "writeU32 destination off value =
     destination[off := ucast (value AND 0xFF),
                 off + 1 := ucast (drop_bit 8 value AND 0xFF),
                 off + 2 := ucast (drop_bit 16 value AND 0xFF),
                 off + 3 := ucast (drop_bit 24 value AND 0xFF)]"

definition readU32 :: "u8 list \<Rightarrow> nat \<Rightarrow> u32" where
  "readU32 source off =
     (ucast (source ! off) :: u32) OR
     push_bit 8 (ucast (source ! (off + 1)) :: u32) OR
     push_bit 16 (ucast (source ! (off + 2)) :: u32) OR
     push_bit 24 (ucast (source ! (off + 3)) :: u32)"

definition writeU64 :: "u8 list \<Rightarrow> nat \<Rightarrow> u64 \<Rightarrow> u8 list" where
  "writeU64 destination off value =
     writeU32 (writeU32 destination off (ucast (value AND 0xFFFFFFFF)))
       (off + 4) (ucast (drop_bit 32 value))"

definition readU64 :: "u8 list \<Rightarrow> nat \<Rightarrow> u64" where
  "readU64 source off =
     (ucast (readU32 source off) :: u64) OR
     push_bit 32 (ucast (readU32 source (off + 4)) :: u64)"

text \<open>Copying a run of bytes, as the index loops of the codecs do.\<close>

definition blit :: "'a list \<Rightarrow> nat \<Rightarrow> 'a list \<Rightarrow> 'a list" where
  "blit destination off bytes =
     take off destination @ bytes @ drop (off + length bytes) destination"

subsection \<open>Lengths\<close>

lemma length_writeU16 [simp]: "length (writeU16 b off v) = length b"
  by (simp add: writeU16_def)

lemma length_writeU32 [simp]: "length (writeU32 b off v) = length b"
  by (simp add: writeU32_def)

lemma length_writeU64 [simp]: "length (writeU64 b off v) = length b"
  by (simp add: writeU64_def)

lemma length_blit [simp]: "off + length bs \<le> length b \<Longrightarrow> length (blit b off bs) = length b"
  by (simp add: blit_def)

subsection \<open>Words from their bytes\<close>

lemma and_FF_u16: "(v :: u16) AND 0xFF = take_bit 8 v"
  by (simp add: take_bit_eq_mask mask_eq_exp_minus_1)

lemma and_FF_u32: "(v :: u32) AND 0xFF = take_bit 8 v"
  by (simp add: take_bit_eq_mask mask_eq_exp_minus_1)

lemma and_FFFFFFFF_u64: "(v :: u64) AND 0xFFFFFFFF = take_bit 32 v"
  by (simp add: take_bit_eq_mask mask_eq_exp_minus_1)

lemma u16_from_bytes:
  "(ucast (ucast (v AND 0xFF) :: u8) :: u16) OR
   push_bit 8 (ucast (ucast (drop_bit 8 v AND 0xFF) :: u8) :: u16) = (v :: u16)"
  unfolding and_FF_u16 by (rule bit_word_eqI) (auto simp: bit_simps)

lemma u32_from_bytes:
  "(ucast (ucast (v AND 0xFF) :: u8) :: u32) OR
   push_bit 8 (ucast (ucast (drop_bit 8 v AND 0xFF) :: u8) :: u32) OR
   push_bit 16 (ucast (ucast (drop_bit 16 v AND 0xFF) :: u8) :: u32) OR
   push_bit 24 (ucast (ucast (drop_bit 24 v AND 0xFF) :: u8) :: u32) = (v :: u32)"
proof (unfold and_FF_u32, rule bit_word_eqI)
  fix n :: nat
  assume "n < LENGTH(32)"
  then consider "n < 8" | "8 \<le> n" "n < 16" | "16 \<le> n" "n < 24" | "24 \<le> n" "n < 32"
    by fastforce
  then show "bit ((ucast (ucast (take_bit 8 v) :: u8) :: u32) OR
     push_bit 8 (ucast (ucast (take_bit 8 (drop_bit 8 v)) :: u8) :: u32) OR
     push_bit 16 (ucast (ucast (take_bit 8 (drop_bit 16 v)) :: u8) :: u32) OR
     push_bit 24 (ucast (ucast (take_bit 8 (drop_bit 24 v)) :: u8) :: u32)) n = bit v n"
    by cases (auto simp: bit_simps)
qed

lemma u64_from_halves:
  "(ucast (ucast (v AND 0xFFFFFFFF) :: u32) :: u64) OR
   push_bit 32 (ucast (ucast (drop_bit 32 v) :: u32) :: u64) = (v :: u64)"
  unfolding and_FFFFFFFF_u64 by (rule bit_word_eqI) (auto simp: bit_simps)

text \<open>The converse direction: the bytes of an assembled word are the bytes it was made of.\<close>

lemma u16_bytes:
  fixes a b :: u8
  defines "w \<equiv> (ucast a :: u16) OR push_bit 8 (ucast b :: u16)"
  shows "ucast (w AND 0xFF) = a" "ucast (drop_bit 8 w AND 0xFF) = b"
  unfolding w_def and_FF_u16
  by (rule bit_word_eqI; auto simp: bit_simps dest: bit_imp_le_length)+

lemma u32_bytes:
  fixes a b c d :: u8
  defines "w \<equiv> (ucast a :: u32) OR push_bit 8 (ucast b :: u32) OR
     push_bit 16 (ucast c :: u32) OR push_bit 24 (ucast d :: u32)"
  shows "ucast (w AND 0xFF) = a" "ucast (drop_bit 8 w AND 0xFF) = b"
    "ucast (drop_bit 16 w AND 0xFF) = c" "ucast (drop_bit 24 w AND 0xFF) = d"
  unfolding w_def and_FF_u32
  by (rule bit_word_eqI; auto simp: bit_simps dest: bit_imp_le_length)+

subsection \<open>Reads over writes\<close>

lemma readU16_writeU16 [wire_simps]:
  "off + 1 < length b \<Longrightarrow> readU16 (writeU16 b off v) off = v"
  by (simp add: readU16_def writeU16_def u16_from_bytes del: and.right_idem)

lemma readU32_writeU32 [wire_simps]:
  "off + 3 < length b \<Longrightarrow> readU32 (writeU32 b off v) off = v"
  using u32_from_bytes [of v] by (simp add: readU32_def writeU32_def)

lemma nth_writeU16 [wire_simps]:
  "i < off \<or> off + 1 < i \<Longrightarrow> writeU16 b off v ! i = b ! i"
  by (auto simp: writeU16_def)

lemma nth_writeU32 [wire_simps]:
  "i < off \<or> off + 3 < i \<Longrightarrow> writeU32 b off v ! i = b ! i"
  by (auto simp: writeU32_def)

lemma nth_writeU64 [wire_simps]:
  "i < off \<or> off + 7 < i \<Longrightarrow> writeU64 b off v ! i = b ! i"
  by (auto simp: writeU64_def nth_writeU32)

lemma readU16_frame [wire_simps]:
  "i + 1 < off \<or> off + 1 < i \<Longrightarrow> readU16 (writeU16 b off v) i = readU16 b i"
  "i + 1 < off \<or> off + 3 < i \<Longrightarrow> readU16 (writeU32 b off w) i = readU16 b i"
  "i + 1 < off \<or> off + 7 < i \<Longrightarrow> readU16 (writeU64 b off x) i = readU16 b i"
  by (auto simp: readU16_def wire_simps)

lemma readU32_frame [wire_simps]:
  "i + 3 < off \<or> off + 1 < i \<Longrightarrow> readU32 (writeU16 b off v) i = readU32 b i"
  "i + 3 < off \<or> off + 3 < i \<Longrightarrow> readU32 (writeU32 b off w) i = readU32 b i"
  "i + 3 < off \<or> off + 7 < i \<Longrightarrow> readU32 (writeU64 b off x) i = readU32 b i"
  by (auto simp: readU32_def wire_simps)

lemma readU64_writeU64 [wire_simps]:
  "off + 7 < length b \<Longrightarrow> readU64 (writeU64 b off v) off = v"
  using u64_from_halves [of v] by (simp add: readU64_def writeU64_def wire_simps)

lemma readU64_frame [wire_simps]:
  "i + 7 < off \<or> off + 1 < i \<Longrightarrow> readU64 (writeU16 b off v) i = readU64 b i"
  "i + 7 < off \<or> off + 3 < i \<Longrightarrow> readU64 (writeU32 b off w) i = readU64 b i"
  by (auto simp: readU64_def wire_simps)

lemma readU_list_update [wire_simps]:
  "j < i \<or> i + 1 < j \<Longrightarrow> readU16 (b[j := v]) i = readU16 b i"
  "j < i \<or> i + 3 < j \<Longrightarrow> readU32 (b[j := v]) i = readU32 b i"
  "j < i \<or> i + 7 < j \<Longrightarrow> readU64 (b[j := v]) i = readU64 b i"
  by (auto simp: readU16_def readU32_def readU64_def)

lemma nth_blit:
  "off + length bs \<le> length b \<Longrightarrow> i < length b \<Longrightarrow>
     blit b off bs ! i = (if off \<le> i \<and> i < off + length bs then bs ! (i - off) else b ! i)"
  by (auto simp: blit_def nth_append min_def)

section \<open>Wrap-around order on 32-bit counters\<close>

definition HalfCounterRange :: u32 where
  "HalfCounterRange = 0x80000000"

definition strictlyNewer :: "u32 \<Rightarrow> u32 \<Rightarrow> bool" where
  "strictlyNewer candidate previous =
     (let distance = candidate - previous in distance \<noteq> 0 \<and> distance < HalfCounterRange)"

lemma strictlyNewer_irrefl [simp]: "\<not> strictlyNewer x x"
  by (simp add: strictlyNewer_def)

lemma half_range_neg:
  "d \<noteq> 0 \<Longrightarrow> d < 0x80000000 \<Longrightarrow> \<not> (- d < (0x80000000 :: u32))"
  by (simp add: word_less_def uint_word_ariths zmod_zminus1_eq_if uint_0_iff)

lemma strictlyNewer_antisym: "strictlyNewer a b \<Longrightarrow> \<not> strictlyNewer b a"
  using half_range_neg [of "a - b"] by (auto simp: strictlyNewer_def HalfCounterRange_def Let_def)

text \<open>Between two 32-bit timestamps that do not wrap, subtraction is exact.\<close>

lemma unat_minus_exact: "b \<le> a \<Longrightarrow> unat (a - b :: u32) = unat a - unat b"
  by unat_arith

end
