(* ===== verification/VehicleModel.thy ===== *)
theory VehicleModel
  imports BmwPrelude
begin

text \<open>
  The domain layer: vehicle signals, observed values with their quality, the vehicle state
  (\<^verbatim>\<open>domain/vehicle_state.hpp\<close>, \<^verbatim>\<open>vehicle_signal.hpp/.cpp\<close>), vehicle
  profiles with their registry (\<^verbatim>\<open>vehicle_profile.hpp/.cpp\<close>) and the shipped reference
  profile (\<^verbatim>\<open>reference_profiles.cpp\<close>).  Fixed arrays are lists of the array's length; a
  nullable pointer is an option.
\<close>

section \<open>Vehicle signals\<close>

datatype VehicleSignal =
    VS_BatteryMillivolts | VS_EngineRpm | VS_CoolantTemperatureC | VS_EngineOilTemperatureC
  | VS_TransmissionOilTemperatureC | VS_DpfRegenerationActive | VS_HoodClosed | VS_DoorsClosed
  | VS_TrunkClosed | VS_BrakePressed | VS_ParkingBrakeApplied | VS_Transmission | VS_Gear
  | VS_CriticalFaultPresent | VS_Count

fun signalIndex :: "VehicleSignal \<Rightarrow> nat" where
  "signalIndex VS_BatteryMillivolts = 0"
| "signalIndex VS_EngineRpm = 1"
| "signalIndex VS_CoolantTemperatureC = 2"
| "signalIndex VS_EngineOilTemperatureC = 3"
| "signalIndex VS_TransmissionOilTemperatureC = 4"
| "signalIndex VS_DpfRegenerationActive = 5"
| "signalIndex VS_HoodClosed = 6"
| "signalIndex VS_DoorsClosed = 7"
| "signalIndex VS_TrunkClosed = 8"
| "signalIndex VS_BrakePressed = 9"
| "signalIndex VS_ParkingBrakeApplied = 10"
| "signalIndex VS_Transmission = 11"
| "signalIndex VS_Gear = 12"
| "signalIndex VS_CriticalFaultPresent = 13"
| "signalIndex VS_Count = 14"

definition vehicleSignalCount :: nat where
  "vehicleSignalCount = signalIndex VS_Count"

fun VehicleSignal_toString :: "VehicleSignal \<Rightarrow> string" where
  "VehicleSignal_toString VS_BatteryMillivolts = ''battery_millivolts''"
| "VehicleSignal_toString VS_EngineRpm = ''engine_rpm''"
| "VehicleSignal_toString VS_CoolantTemperatureC = ''coolant_temperature_c''"
| "VehicleSignal_toString VS_EngineOilTemperatureC = ''engine_oil_temperature_c''"
| "VehicleSignal_toString VS_TransmissionOilTemperatureC = ''transmission_oil_temperature_c''"
| "VehicleSignal_toString VS_DpfRegenerationActive = ''dpf_regeneration_active''"
| "VehicleSignal_toString VS_HoodClosed = ''hood_closed''"
| "VehicleSignal_toString VS_DoorsClosed = ''doors_closed''"
| "VehicleSignal_toString VS_TrunkClosed = ''trunk_closed''"
| "VehicleSignal_toString VS_BrakePressed = ''brake_pressed''"
| "VehicleSignal_toString VS_ParkingBrakeApplied = ''parking_brake_applied''"
| "VehicleSignal_toString VS_Transmission = ''transmission''"
| "VehicleSignal_toString VS_Gear = ''gear''"
| "VehicleSignal_toString VS_CriticalFaultPresent = ''critical_fault_present''"
| "VehicleSignal_toString VS_Count = ''unknown''"

section \<open>Observed values and the vehicle state\<close>

datatype SignalQuality = SQ_Unavailable | SQ_Stale | SQ_Fresh

record 'a Observed =
  obs_value :: 'a
  quality :: SignalQuality

definition isFresh :: "'a Observed \<Rightarrow> bool" where
  "isFresh o' = (quality o' = SQ_Fresh)"

definition Observed_fresh :: "'a \<Rightarrow> 'a Observed" where
  "Observed_fresh v = \<lparr>obs_value = v, quality = SQ_Fresh\<rparr>"

text \<open>A value-initialised \<open>Observed<T>\<close>; the parameter is \<open>T{}\<close>.\<close>

definition Observed_default :: "'a \<Rightarrow> 'a Observed" where
  "Observed_default v0 = \<lparr>obs_value = v0, quality = SQ_Unavailable\<rparr>"

lemma Observed_simps [simp]:
  "isFresh (Observed_fresh v)" "obs_value (Observed_fresh v) = v"
  "\<not> isFresh (Observed_default v)"
  by (simp_all add: isFresh_def Observed_fresh_def Observed_default_def)

datatype Transmission = TR_Unknown | TR_Automatic | TR_Manual

datatype Gear = GE_Unknown | GE_Park | GE_Neutral | GE_Reverse | GE_Drive

record VehicleState =
  vs_batteryMillivolts :: "u16 Observed"
  vs_engineRpm :: "u16 Observed"
  vs_coolantTemperatureC :: "i16 Observed"
  vs_engineOilTemperatureC :: "i16 Observed"
  vs_transmissionOilTemperatureC :: "i16 Observed"
  vs_dpfRegenerationActive :: "bool Observed"
  vs_hoodClosed :: "bool Observed"
  vs_doorsClosed :: "bool Observed"
  vs_trunkClosed :: "bool Observed"
  vs_brakePressed :: "bool Observed"
  vs_parkingBrakeApplied :: "bool Observed"
  vs_transmission :: "Transmission Observed"
  vs_gear :: "Gear Observed"
  vs_criticalFaultPresent :: "bool Observed"

definition VehicleState_default :: VehicleState where
  "VehicleState_default =
     \<lparr>vs_batteryMillivolts = Observed_default 0, vs_engineRpm = Observed_default 0,
      vs_coolantTemperatureC = Observed_default 0, vs_engineOilTemperatureC = Observed_default 0,
      vs_transmissionOilTemperatureC = Observed_default 0,
      vs_dpfRegenerationActive = Observed_default False, vs_hoodClosed = Observed_default False,
      vs_doorsClosed = Observed_default False, vs_trunkClosed = Observed_default False,
      vs_brakePressed = Observed_default False, vs_parkingBrakeApplied = Observed_default False,
      vs_transmission = Observed_default TR_Unknown, vs_gear = Observed_default GE_Unknown,
      vs_criticalFaultPresent = Observed_default False\<rparr>"

section \<open>Vehicle profiles\<close>

datatype VehiclePlatform = VP_Unknown | VP_BmwE9x

datatype BodyVariant = BV_Unknown | BV_E90 | BV_E91 | BV_E92 | BV_E93

datatype FuelType = FT_Unknown | FT_Gasoline | FT_Diesel

datatype QualificationStage =
  QS_Discovery | QS_ReadOnlyValidated | QS_BenchValidated | QS_VehicleQualified

datatype SignalSupport = SS_Unavailable | SS_Candidate | SS_Verified

datatype HoodInterlockSource =
  HI_Unspecified | HI_NotAvailable | HI_VehicleSignal | HI_ExternalDiscreteInput | HI_Synthetic

text \<open>Scoped enumerations compare by their underlying value: declaration order.\<close>

fun stageRank :: "QualificationStage \<Rightarrow> nat" where
  "stageRank QS_Discovery = 0"
| "stageRank QS_ReadOnlyValidated = 1"
| "stageRank QS_BenchValidated = 2"
| "stageRank QS_VehicleQualified = 3"

lemma stageRank_inj: "stageRank a = stageRank b \<longleftrightarrow> a = b"
  by (cases a; cases b) simp_all

instantiation QualificationStage :: linorder
begin
definition less_eq_QualificationStage :: "QualificationStage \<Rightarrow> QualificationStage \<Rightarrow> bool" where
  "less_eq_QualificationStage a b = (stageRank a \<le> stageRank b)"
definition less_QualificationStage :: "QualificationStage \<Rightarrow> QualificationStage \<Rightarrow> bool" where
  "less_QualificationStage a b = (stageRank a < stageRank b)"
instance
  by standard
    (auto simp: less_eq_QualificationStage_def less_QualificationStage_def stageRank_inj
      dest: antisym)
end

record VehicleProfile =
  vp_id :: "string option"
  vp_displayName :: "string option"
  vp_platform :: VehiclePlatform
  vp_body :: BodyVariant
  vp_firstModelYear :: u16
  vp_lastModelYear :: u16
  vp_engineCode :: "string option"
  vp_fuel :: FuelType
  vp_transmission :: Transmission
  vp_qualification :: QualificationStage
  vp_hoodInterlockSource :: HoodInterlockSource
  vp_signals :: "SignalSupport list"

definition VehicleProfile_support :: "VehicleProfile \<Rightarrow> VehicleSignal \<Rightarrow> SignalSupport" where
  "VehicleProfile_support profile signal =
     (let index = signalIndex signal in
      if index < length (vp_signals profile) then vp_signals profile ! index
      else SS_Unavailable)"

text \<open>The registry is a pointer to an array of \<open>profileCount\<close> profiles.\<close>

record VehicleProfileRegistry =
  reg_profiles :: "VehicleProfile list option"
  reg_profileCount :: nat

fun findInProfiles :: "VehicleProfile list \<Rightarrow> string \<Rightarrow> VehicleProfile option" where
  "findInProfiles [] ident = None"
| "findInProfiles (p # ps) ident =
     (if vp_id p \<noteq> None \<and> the (vp_id p) = ident then Some p else findInProfiles ps ident)"

definition VehicleProfileRegistry_find ::
    "VehicleProfileRegistry \<Rightarrow> string option \<Rightarrow> VehicleProfile option" where
  "VehicleProfileRegistry_find registry ident =
     (case (ident, reg_profiles registry) of
        (Some i, Some ps) \<Rightarrow> findInProfiles (take (reg_profileCount registry) ps) i
      | _ \<Rightarrow> None)"

fun VehiclePlatform_toString :: "VehiclePlatform \<Rightarrow> string" where
  "VehiclePlatform_toString VP_Unknown = ''unknown''"
| "VehiclePlatform_toString VP_BmwE9x = ''bmw_e9x''"

fun BodyVariant_toString :: "BodyVariant \<Rightarrow> string" where
  "BodyVariant_toString BV_Unknown = ''unknown''"
| "BodyVariant_toString BV_E90 = ''e90''"
| "BodyVariant_toString BV_E91 = ''e91''"
| "BodyVariant_toString BV_E92 = ''e92''"
| "BodyVariant_toString BV_E93 = ''e93''"

fun QualificationStage_toString :: "QualificationStage \<Rightarrow> string" where
  "QualificationStage_toString QS_Discovery = ''discovery''"
| "QualificationStage_toString QS_ReadOnlyValidated = ''read_only_validated''"
| "QualificationStage_toString QS_BenchValidated = ''bench_validated''"
| "QualificationStage_toString QS_VehicleQualified = ''vehicle_qualified''"

fun SignalSupport_toString :: "SignalSupport \<Rightarrow> string" where
  "SignalSupport_toString SS_Unavailable = ''unavailable''"
| "SignalSupport_toString SS_Candidate = ''candidate''"
| "SignalSupport_toString SS_Verified = ''verified''"

fun HoodInterlockSource_toString :: "HoodInterlockSource \<Rightarrow> string" where
  "HoodInterlockSource_toString HI_Unspecified = ''unspecified''"
| "HoodInterlockSource_toString HI_NotAvailable = ''not_available''"
| "HoodInterlockSource_toString HI_VehicleSignal = ''vehicle_signal''"
| "HoodInterlockSource_toString HI_ExternalDiscreteInput = ''external_discrete_input''"
| "HoodInterlockSource_toString HI_Synthetic = ''synthetic''"

section \<open>The shipped reference profile\<close>

definition ReferenceSignals :: "SignalSupport list" where
  "ReferenceSignals =
     [SS_Candidate, SS_Candidate, SS_Candidate, SS_Candidate, SS_Candidate, SS_Candidate,
      SS_Unavailable, SS_Candidate, SS_Candidate, SS_Candidate, SS_Candidate, SS_Candidate,
      SS_Candidate, SS_Candidate]"

definition e90_2009_n47d20c_automatic :: VehicleProfile where
  "e90_2009_n47d20c_automatic =
     \<lparr>vp_id = Some ''bmw-e90-2009-n47d20c-automatic'',
      vp_displayName = Some ''BMW E90 2009 N47D20C automatic'',
      vp_platform = VP_BmwE9x, vp_body = BV_E90,
      vp_firstModelYear = 2009, vp_lastModelYear = 2009,
      vp_engineCode = Some ''N47D20C'', vp_fuel = FT_Diesel,
      vp_transmission = TR_Automatic, vp_qualification = QS_Discovery,
      vp_hoodInterlockSource = HI_NotAvailable, vp_signals = ReferenceSignals\<rparr>"

definition profiles_registry :: VehicleProfileRegistry where
  "profiles_registry =
     \<lparr>reg_profiles = Some [e90_2009_n47d20c_automatic], reg_profileCount = 1\<rparr>"

section \<open>Facts about profiles\<close>

lemma signalIndex_inj: "signalIndex a = signalIndex b \<longleftrightarrow> a = b"
  by (cases a; cases b) simp_all

lemma signalIndex_range: "signal \<noteq> VS_Count \<longleftrightarrow> signalIndex signal < vehicleSignalCount"
  by (cases signal) (simp_all add: vehicleSignalCount_def)

lemma findInProfiles_Some:
  "findInProfiles ps i = Some p \<Longrightarrow> p \<in> set ps \<and> vp_id p = Some i"
  by (induction ps) (auto split: if_splits)

lemma findInProfiles_None:
  "findInProfiles ps i = None \<longleftrightarrow> (\<forall>p \<in> set ps. vp_id p \<noteq> Some i)"
  by (induction ps) auto

lemma findInProfiles_first:
  "findInProfiles ps i = Some p \<Longrightarrow>
     \<exists>k < length ps. ps ! k = p \<and> vp_id p = Some i \<and> (\<forall>j < k. vp_id (ps ! j) \<noteq> Some i)"
proof (induction ps)
  case Nil
  then show ?case by simp
next
  case (Cons q ps)
  show ?case
  proof (cases "vp_id q = Some i")
    case True
    with Cons.prems show ?thesis by (intro exI [of _ 0]) auto
  next
    case False
    with Cons.prems have "findInProfiles ps i = Some p" by (auto split: if_splits)
    then obtain k where "k < length ps" "ps ! k = p" "vp_id p = Some i"
      "\<forall>j < k. vp_id (ps ! j) \<noteq> Some i"
      using Cons.IH by blast
    with False show ?thesis by (intro exI [of _ "Suc k"]) (auto simp: less_Suc_eq_0_disj)
  qed
qed

section \<open>Properties\<close>

text \<open>Looking a profile up by identifier returns the first profile of the registry with that
  identifier, nothing when there is none, and never reads past the profile count.\<close>

theorem registry_find_first:
  assumes "reg_profiles registry = Some ps" and "reg_profileCount registry \<le> length ps"
  shows "case VehicleProfileRegistry_find registry (Some i) of
      Some p \<Rightarrow> \<exists>k < reg_profileCount registry. ps ! k = p \<and> vp_id p = Some i \<and>
        (\<forall>j < k. vp_id (ps ! j) \<noteq> Some i)
    | None \<Rightarrow> \<forall>k < reg_profileCount registry. vp_id (ps ! k) \<noteq> Some i"
proof (cases "VehicleProfileRegistry_find registry (Some i)")
  case None
  then have "findInProfiles (take (reg_profileCount registry) ps) i = None"
    using assms(1) by (simp add: VehicleProfileRegistry_find_def)
  with assms(2) have "\<forall>k < reg_profileCount registry. vp_id (ps ! k) \<noteq> Some i"
    unfolding findInProfiles_None by (metis in_set_conv_nth length_take min.absorb2 nth_take)
  with None show ?thesis by simp
next
  case (Some p)
  then have "findInProfiles (take (reg_profileCount registry) ps) i = Some p"
    using assms(1) by (simp add: VehicleProfileRegistry_find_def)
  from findInProfiles_first [OF this] Some assms(2) show ?thesis by fastforce
qed

lemma registry_find_first_witness:
  "VehicleProfileRegistry_find profiles_registry (Some ''bmw-e90-2009-n47d20c-automatic'') =
     Some e90_2009_n47d20c_automatic \<and>
   (case VehicleProfileRegistry_find profiles_registry (Some ''bmw'') of
      Some p \<Rightarrow> vp_id p = Some ''bmw'' | None \<Rightarrow> True)"
  using registry_find_first [of profiles_registry "[e90_2009_n47d20c_automatic]" "''bmw''"]
  by (auto simp: profiles_registry_def VehicleProfileRegistry_find_def
      e90_2009_n47d20c_automatic_def split: option.splits)

end
