(* ===== verification/StartObservation.thy ===== *)
theory StartObservation
  imports BmwPrelude Complex_Main
begin

text \<open>
  Read-only start observation: the diagnostic signals and CAS decoders of
  \<^verbatim>\<open>domain/start_observation.hpp/.cpp\<close> and the observer of
  \<^verbatim>\<open>application/vehicle_start_observer.hpp/.cpp\<close>.  The engine speed is a C++
  \<open>float\<close> that the code only compares with zero; it is modelled by its IEEE class and, for a
  finite value, the rational it denotes.
\<close>

section \<open>Diagnostic signals\<close>

datatype f32 = F_NaN | F_PosInf | F_NegInf | F_Finite rat

fun f32_is_zero :: "f32 \<Rightarrow> bool" where
  "f32_is_zero (F_Finite q) = (q = 0)"
| "f32_is_zero _ = False"

fun f32_gt_zero :: "f32 \<Rightarrow> bool" where
  "f32_gt_zero (F_Finite q) = (q > 0)"
| "f32_gt_zero F_PosInf = True"
| "f32_gt_zero _ = False"

datatype DiagnosticAvailability =
  DA_Known | DA_Unknown | DA_CommunicationError | DA_NotCaptured

datatype DiagnosticSource =
    DS_None | DS_CasStatusDiagnose | DS_CasStatusFzgZustand | DS_CasStatusKlemmenverhinderer
  | DS_DdeStatusMotordrehzahl

record AcquisitionInterval =
  startedAtMs :: u64
  endedAtMs :: u64
  captured :: bool

definition AcquisitionInterval_default :: AcquisitionInterval where
  "AcquisitionInterval_default = \<lparr>startedAtMs = 0, endedAtMs = 0, captured = False\<rparr>"

definition AcquisitionInterval_valid :: "AcquisitionInterval \<Rightarrow> bool" where
  "AcquisitionInterval_valid i = (captured i \<and> startedAtMs i \<le> endedAtMs i)"

record 'a DiagnosticSignal =
  availability :: DiagnosticAvailability
  ds_value :: 'a
  ds_interval :: AcquisitionInterval
  ds_source :: DiagnosticSource

definition known :: "'a DiagnosticSignal \<Rightarrow> bool" where
  "known s = (availability s = DA_Known \<and> AcquisitionInterval_valid (ds_interval s) \<and>
              ds_source s \<noteq> DS_None)"

definition knownValue :: "'a \<Rightarrow> DiagnosticSource \<Rightarrow> u64 \<Rightarrow> u64 \<Rightarrow> 'a DiagnosticSignal" where
  "knownValue v src started ended =
     \<lparr>availability = DA_Known, ds_value = v,
      ds_interval = \<lparr>startedAtMs = started, endedAtMs = ended, captured = True\<rparr>,
      ds_source = src\<rparr>"

text \<open>\<open>unavailable\<close> value-initialises the payload; the second argument is \<open>T{}\<close>.\<close>

definition unavailable :: "DiagnosticAvailability \<Rightarrow> 'a \<Rightarrow> 'a DiagnosticSignal" where
  "unavailable a v0 =
     \<lparr>availability = a, ds_value = v0, ds_interval = AcquisitionInterval_default,
      ds_source = DS_None\<rparr>"

lemma known_knownValue:
  "known (knownValue v src started ended) \<longleftrightarrow> started \<le> ended \<and> src \<noteq> DS_None"
  by (auto simp: known_def knownValue_def AcquisitionInterval_valid_def)

lemma known_unavailable [simp]: "\<not> known (unavailable a v)"
  by (simp add: known_def unavailable_def)

section \<open>CAS decoders\<close>

datatype TerminalPairState = TP_Off | TP_On | TP_UndocumentedEncoding | TP_Invalid

datatype KeyValidityState =
    KV_NoKeyDetected | KV_ValidKeyDetected | KV_InvalidOrMissingKeyDetected
  | KV_UndocumentedEncoding

record KlemmenstatusDecoded =
  kd_raw :: u8
  terminalR :: TerminalPairState
  terminal15 :: TerminalPairState
  terminal50 :: TerminalPairState
  keyValidity :: KeyValidityState
  rawValueObservedOnTestVehicle :: bool
  allFieldsDocumented :: bool

definition decodeTerminalPair :: "u8 \<Rightarrow> TerminalPairState" where
  "decodeTerminalPair v =
     (if v = 0 then TP_Off else if v = 1 then TP_On else if v = 3 then TP_Invalid
      else TP_UndocumentedEncoding)"

definition decodeKeyValidity :: "u8 \<Rightarrow> KeyValidityState" where
  "decodeKeyValidity v =
     (if v = 0 then KV_NoKeyDetected else if v = 1 then KV_ValidKeyDetected
      else if v = 2 then KV_InvalidOrMissingKeyDetected else KV_UndocumentedEncoding)"

definition decodeKlemmenstatus :: "u8 \<Rightarrow> KlemmenstatusDecoded" where
  "decodeKlemmenstatus raw =
     (let tr = decodeTerminalPair (raw AND 0x03);
          t15 = decodeTerminalPair (drop_bit 2 raw AND 0x03);
          t50 = decodeTerminalPair (drop_bit 4 raw AND 0x03);
          kv = decodeKeyValidity (drop_bit 6 raw AND 0x03)
      in \<lparr>kd_raw = raw, terminalR = tr, terminal15 = t15, terminal50 = t50, keyValidity = kv,
          rawValueObservedOnTestVehicle =
            (raw = 0x40 \<or> raw = 0x41 \<or> raw = 0x45 \<or> raw = 0x55),
          allFieldsDocumented =
            (tr \<noteq> TP_UndocumentedEncoding \<and> t15 \<noteq> TP_UndocumentedEncoding \<and>
             t50 \<noteq> TP_UndocumentedEncoding \<and> kv \<noteq> KV_UndocumentedEncoding)\<rparr>)"

datatype Kl15EnableInhibitor =
    K15E_NoBlocker | K15E_CurrentKeyInvalid | K15E_ElvControlOrQueryError
  | K15E_ElvErrorCounterMaximum | K15E_KeyNotLatched | K15E_UnknownDocumentedValue

datatype Kl15DisableInhibitor =
    K15D_NoBlocker | K15D_VehicleSpeedDetected | K15D_VehicleSpeedImplausible
  | K15D_DriveEngagementDetected | K15D_UnknownDocumentedValue

datatype Kl50EnableInhibitor =
    K50E_NoBlocker | K50E_NoValidKey | K50E_BrakeNotPressed
  | K50E_BrakeImplausibleOrPressureInsufficient | K50E_ClutchNotPressed | K50E_ClutchImplausible
  | K50E_DmeDdeAbortEngineRunningOrStartNotAllowed | K50E_ParkOrNeutralNotEngaged
  | K50E_TransponderNotLocked | K50E_Kl50AssemblyMode | K50E_ElvControlOrQueryError
  | K50E_ElvErrorCounterMaximum | K50E_KeyNotLatched | K50E_UnknownDocumentedValue

definition decodeKl15EnableInhibitor :: "u8 \<Rightarrow> Kl15EnableInhibitor" where
  "decodeKl15EnableInhibitor raw =
     (if raw = 0 then K15E_NoBlocker else if raw = 1 then K15E_CurrentKeyInvalid
      else if raw = 14 then K15E_ElvControlOrQueryError
      else if raw = 15 then K15E_ElvErrorCounterMaximum
      else if raw = 16 then K15E_KeyNotLatched else K15E_UnknownDocumentedValue)"

definition decodeKl15DisableInhibitor :: "u8 \<Rightarrow> Kl15DisableInhibitor" where
  "decodeKl15DisableInhibitor raw =
     (if raw = 0 then K15D_NoBlocker else if raw = 3 then K15D_VehicleSpeedDetected
      else if raw = 4 then K15D_VehicleSpeedImplausible
      else if raw = 10 then K15D_DriveEngagementDetected else K15D_UnknownDocumentedValue)"

definition decodeKl50EnableInhibitor :: "u8 \<Rightarrow> Kl50EnableInhibitor" where
  "decodeKl50EnableInhibitor raw =
     (if raw = 0 then K50E_NoBlocker else if raw = 1 then K50E_NoValidKey
      else if raw = 5 then K50E_BrakeNotPressed
      else if raw = 6 then K50E_BrakeImplausibleOrPressureInsufficient
      else if raw = 7 then K50E_ClutchNotPressed else if raw = 8 then K50E_ClutchImplausible
      else if raw = 9 then K50E_DmeDdeAbortEngineRunningOrStartNotAllowed
      else if raw = 10 then K50E_ParkOrNeutralNotEngaged
      else if raw = 12 then K50E_TransponderNotLocked
      else if raw = 13 then K50E_Kl50AssemblyMode
      else if raw = 14 then K50E_ElvControlOrQueryError
      else if raw = 15 then K50E_ElvErrorCounterMaximum
      else if raw = 16 then K50E_KeyNotLatched else K50E_UnknownDocumentedValue)"

section \<open>Signal snapshots\<close>

datatype StartSignalId =
    SI_SstA | SI_SstB | SI_KeyRast | SI_Brake | SI_ParkNeutralOrClutch | SI_Mfs | SI_StartDme
  | SI_StartRelease | SI_Klemmenstatus | SI_Kl15EnableInhibitor | SI_Kl15DisableInhibitor
  | SI_Kl50EnableInhibitor | SI_EngineRpm | SI_Count

record StartSignalSnapshot =
  ss_sstA :: "bool DiagnosticSignal"
  ss_sstB :: "bool DiagnosticSignal"
  ss_keyRast :: "bool DiagnosticSignal"
  ss_brake :: "bool DiagnosticSignal"
  ss_parkNeutralOrClutch :: "bool DiagnosticSignal"
  ss_mfs :: "bool DiagnosticSignal"
  ss_startDme :: "bool DiagnosticSignal"
  ss_startRelease :: "bool DiagnosticSignal"
  ss_klemmenstatus :: "u8 DiagnosticSignal"
  ss_kl15EnableInhibitor :: "u8 DiagnosticSignal"
  ss_kl15DisableInhibitor :: "u8 DiagnosticSignal"
  ss_kl50EnableInhibitor :: "u8 DiagnosticSignal"
  ss_engineRpm :: "f32 DiagnosticSignal"

definition StartSignalSnapshot_default :: StartSignalSnapshot where
  "StartSignalSnapshot_default =
     (let b = unavailable DA_NotCaptured False; w = unavailable DA_NotCaptured 0 in
      \<lparr>ss_sstA = b, ss_sstB = b, ss_keyRast = b, ss_brake = b, ss_parkNeutralOrClutch = b,
       ss_mfs = b, ss_startDme = b, ss_startRelease = b, ss_klemmenstatus = w,
       ss_kl15EnableInhibitor = w, ss_kl15DisableInhibitor = w, ss_kl50EnableInhibitor = w,
       ss_engineRpm = unavailable DA_NotCaptured (F_Finite 0)\<rparr>)"

record CasStartConditions =
  canObserveStartConditions :: bool
  kl15Enable :: Kl15EnableInhibitor
  kl15Disable :: Kl15DisableInhibitor
  kl50Enable :: Kl50EnableInhibitor

definition observeCasStartConditions :: "StartSignalSnapshot \<Rightarrow> CasStartConditions" where
  "observeCasStartConditions s =
     \<lparr>canObserveStartConditions =
        (known (ss_kl15EnableInhibitor s) \<and> known (ss_kl15DisableInhibitor s) \<and>
         known (ss_kl50EnableInhibitor s)),
      kl15Enable = (if known (ss_kl15EnableInhibitor s)
        then decodeKl15EnableInhibitor (ds_value (ss_kl15EnableInhibitor s))
        else K15E_UnknownDocumentedValue),
      kl15Disable = (if known (ss_kl15DisableInhibitor s)
        then decodeKl15DisableInhibitor (ds_value (ss_kl15DisableInhibitor s))
        else K15D_UnknownDocumentedValue),
      kl50Enable = (if known (ss_kl50EnableInhibitor s)
        then decodeKl50EnableInhibitor (ds_value (ss_kl50EnableInhibitor s))
        else K50E_UnknownDocumentedValue)\<rparr>"

section \<open>The start observer\<close>

datatype VehicleStartObservedState =
    VO_Unknown | VO_VehicleRest | VO_KeyPresent | VO_TerminalReady | VO_CrankingObserved
  | VO_EngineRotatingObserved | VO_EngineRunningObserved | VO_ShutdownObserved
  | VO_EngineStoppedObserved

datatype StartObservationQualification =
  OQ_Unknown | OQ_DocumentedNotVehicleValidated | OQ_ConfirmedPhase3dSequence

record StartObservationEvidence =
  ev_signal :: StartSignalId
  ev_source :: DiagnosticSource
  ev_interval :: AcquisitionInterval

record DocumentedSignalObservation =
  do_signal :: StartSignalId
  do_rawValue :: bool
  do_qualification :: StartObservationQualification
  do_evidence :: StartObservationEvidence

text \<open>
  The three fixed arrays with their counters are lists; \<open>length\<close> is the counter.  The capacity
  tests of the code are kept where the code has them: \<open>missingSignals\<close> has none.
\<close>

record VehicleStartObservation =
  primaryVehicleState :: VehicleStartObservedState
  primaryStateQualification :: StartObservationQualification
  observedSignals :: "DocumentedSignalObservation list"
  supportingSignals :: "StartObservationEvidence list"
  missingSignals :: "StartSignalId list"

definition VehicleStartObservation_default :: VehicleStartObservation where
  "VehicleStartObservation_default =
     \<lparr>primaryVehicleState = VO_Unknown, primaryStateQualification = OQ_Unknown,
      observedSignals = [], supportingSignals = [], missingSignals = []\<rparr>"

definition evidenceOf :: "StartSignalId \<Rightarrow> 'a DiagnosticSignal \<Rightarrow> StartObservationEvidence" where
  "evidenceOf i s = \<lparr>ev_signal = i, ev_source = ds_source s, ev_interval = ds_interval s\<rparr>"

definition addEvidence ::
    "StartSignalId \<Rightarrow> 'a DiagnosticSignal \<Rightarrow> VehicleStartObservation \<Rightarrow> VehicleStartObservation" where
  "addEvidence i s r =
     (if known s \<and> length (supportingSignals r) < 4
      then r\<lparr>supportingSignals := supportingSignals r @ [evidenceOf i s]\<rparr> else r)"

definition addDocumentedSignal ::
    "StartSignalId \<Rightarrow> bool DiagnosticSignal \<Rightarrow> VehicleStartObservation \<Rightarrow>
       VehicleStartObservation" where
  "addDocumentedSignal i s r =
     (if known s \<and> length (observedSignals r) < 8
      then r\<lparr>observedSignals := observedSignals r @
             [\<lparr>do_signal = i, do_rawValue = ds_value s,
               do_qualification = OQ_DocumentedNotVehicleValidated,
               do_evidence = evidenceOf i s\<rparr>]\<rparr>
      else r)"

definition collectDocumentedSignals ::
    "StartSignalSnapshot \<Rightarrow> VehicleStartObservation \<Rightarrow> VehicleStartObservation" where
  "collectDocumentedSignals s r =
     (let r = addDocumentedSignal SI_SstA (ss_sstA s) r;
          r = addDocumentedSignal SI_SstB (ss_sstB s) r;
          r = addDocumentedSignal SI_KeyRast (ss_keyRast s) r;
          r = addDocumentedSignal SI_Brake (ss_brake s) r;
          r = addDocumentedSignal SI_ParkNeutralOrClutch (ss_parkNeutralOrClutch s) r;
          r = addDocumentedSignal SI_Mfs (ss_mfs s) r;
          r = addDocumentedSignal SI_StartDme (ss_startDme s) r
      in addDocumentedSignal SI_StartRelease (ss_startRelease s) r)"

definition addMissing ::
    "StartSignalId \<Rightarrow> 'a DiagnosticSignal \<Rightarrow> VehicleStartObservation \<Rightarrow> VehicleStartObservation" where
  "addMissing i s r =
     (if \<not> known s then r\<lparr>missingSignals := missingSignals r @ [i]\<rparr> else r)"

definition collectMissing ::
    "StartSignalSnapshot \<Rightarrow> VehicleStartObservation \<Rightarrow> VehicleStartObservation" where
  "collectMissing s r =
     (let r = addMissing SI_SstA (ss_sstA s) r;
          r = addMissing SI_SstB (ss_sstB s) r;
          r = addMissing SI_KeyRast (ss_keyRast s) r;
          r = addMissing SI_Brake (ss_brake s) r;
          r = addMissing SI_ParkNeutralOrClutch (ss_parkNeutralOrClutch s) r;
          r = addMissing SI_Mfs (ss_mfs s) r;
          r = addMissing SI_StartDme (ss_startDme s) r;
          r = addMissing SI_StartRelease (ss_startRelease s) r;
          r = addMissing SI_Klemmenstatus (ss_klemmenstatus s) r;
          r = addMissing SI_Kl15EnableInhibitor (ss_kl15EnableInhibitor s) r;
          r = addMissing SI_Kl15DisableInhibitor (ss_kl15DisableInhibitor s) r;
          r = addMissing SI_Kl50EnableInhibitor (ss_kl50EnableInhibitor s) r
      in addMissing SI_EngineRpm (ss_engineRpm s) r)"

definition hasCommunicationError :: "StartSignalSnapshot \<Rightarrow> bool" where
  "hasCommunicationError s =
     (availability (ss_klemmenstatus s) = DA_CommunicationError \<or>
      availability (ss_engineRpm s) = DA_CommunicationError)"

definition isKnownPair :: "StartSignalSnapshot \<Rightarrow> bool" where
  "isKnownPair s = (known (ss_klemmenstatus s) \<and> known (ss_engineRpm s))"

definition keyRastFallback ::
    "StartSignalSnapshot \<Rightarrow> VehicleStartObservation \<Rightarrow> VehicleStartObservation" where
  "keyRastFallback current r =
     (if known (ss_keyRast current) \<and> ds_value (ss_keyRast current)
      then addEvidence SI_KeyRast (ss_keyRast current)
             (r\<lparr>primaryVehicleState := VO_KeyPresent,
                primaryStateQualification := OQ_DocumentedNotVehicleValidated\<rparr>)
      else r)"

text \<open>The part of \<open>observe\<close> for a documented terminal byte seen on the test vehicle.\<close>

definition observeConfirmedPair ::
    "StartSignalSnapshot \<Rightarrow> StartSignalSnapshot option \<Rightarrow> VehicleStartObservation \<Rightarrow>
       VehicleStartObservation" where
  "observeConfirmedPair current previous result =
     (let terminals = decodeKlemmenstatus (ds_value (ss_klemmenstatus current));
          result = addEvidence SI_Klemmenstatus (ss_klemmenstatus current) result;
          result = addEvidence SI_EngineRpm (ss_engineRpm current) result;
          result = result\<lparr>primaryStateQualification := OQ_ConfirmedPhase3dSequence\<rparr>;
          rpmZero = f32_is_zero (ds_value (ss_engineRpm current));
          previousPairKnown = (case previous of None \<Rightarrow> False | Some p \<Rightarrow> isKnownPair p);
          previousRaw = (case previous of
              Some p \<Rightarrow> (if previousPairKnown
                then kd_raw (decodeKlemmenstatus (ds_value (ss_klemmenstatus p))) else 0)
            | None \<Rightarrow> 0);
          previousRpmPositive = (case previous of
              Some p \<Rightarrow> f32_gt_zero (ds_value (ss_engineRpm p)) | None \<Rightarrow> False)
      in
      if kd_raw terminals = 0x40 then
        (if \<not> rpmZero \<and> previousPairKnown \<and> previousRaw = 0x45
         then result\<lparr>primaryVehicleState := VO_ShutdownObserved\<rparr>
         else if rpmZero \<and> previousPairKnown \<and> previousRaw = 0x40 \<and> previousRpmPositive
         then result\<lparr>primaryVehicleState := VO_EngineStoppedObserved\<rparr>
         else if rpmZero then result\<lparr>primaryVehicleState := VO_VehicleRest\<rparr>
         else result)
      else if kd_raw terminals = 0x41 \<and> rpmZero
      then result\<lparr>primaryVehicleState := VO_KeyPresent\<rparr>
      else if kd_raw terminals = 0x45 then
        (if rpmZero then result\<lparr>primaryVehicleState := VO_TerminalReady\<rparr>
         else if previousPairKnown \<and> previousRaw = 0x55
         then result\<lparr>primaryVehicleState := VO_EngineRotatingObserved\<rparr>
         else if previousPairKnown \<and> previousRaw = 0x45 \<and> previousRpmPositive
         then result\<lparr>primaryVehicleState := VO_EngineRunningObserved\<rparr>
         else result)
      else if kd_raw terminals = 0x55 \<and> f32_gt_zero (ds_value (ss_engineRpm current))
      then result\<lparr>primaryVehicleState := VO_CrankingObserved\<rparr>
      else keyRastFallback current result)"

definition VehicleStartObserver_observe ::
    "StartSignalSnapshot \<Rightarrow> StartSignalSnapshot option \<Rightarrow> VehicleStartObservation" where
  "VehicleStartObserver_observe current previous =
     (let result = collectDocumentedSignals current
                     (collectMissing current VehicleStartObservation_default) in
      if hasCommunicationError current then result
      else if isKnownPair current then
        (let terminals = decodeKlemmenstatus (ds_value (ss_klemmenstatus current)) in
         if \<not> allFieldsDocumented terminals \<or> \<not> rawValueObservedOnTestVehicle terminals
         then result else observeConfirmedPair current previous result)
      else keyRastFallback current result)"

section \<open>What an observation can claim\<close>

lemma adders_frame [simp]:
  "primaryVehicleState (addEvidence i s r) = primaryVehicleState r"
  "primaryStateQualification (addEvidence i s r) = primaryStateQualification r"
  "observedSignals (addEvidence i s r) = observedSignals r"
  "missingSignals (addEvidence i s r) = missingSignals r"
  "primaryVehicleState (addDocumentedSignal i b r) = primaryVehicleState r"
  "primaryStateQualification (addDocumentedSignal i b r) = primaryStateQualification r"
  "supportingSignals (addDocumentedSignal i b r) = supportingSignals r"
  "missingSignals (addDocumentedSignal i b r) = missingSignals r"
  "primaryVehicleState (addMissing i s r) = primaryVehicleState r"
  "primaryStateQualification (addMissing i s r) = primaryStateQualification r"
  "supportingSignals (addMissing i s r) = supportingSignals r"
  "observedSignals (addMissing i s r) = observedSignals r"
  by (simp_all add: addEvidence_def addDocumentedSignal_def addMissing_def)

lemma collect_frame [simp]:
  "primaryVehicleState (collectDocumentedSignals s r) = primaryVehicleState r"
  "primaryStateQualification (collectDocumentedSignals s r) = primaryStateQualification r"
  "supportingSignals (collectDocumentedSignals s r) = supportingSignals r"
  "missingSignals (collectDocumentedSignals s r) = missingSignals r"
  "primaryVehicleState (collectMissing s r) = primaryVehicleState r"
  "primaryStateQualification (collectMissing s r) = primaryStateQualification r"
  "supportingSignals (collectMissing s r) = supportingSignals r"
  "observedSignals (collectMissing s r) = observedSignals r"
  by (simp_all add: collectDocumentedSignals_def collectMissing_def Let_def)

lemma keyRastFallback_frame [simp]:
  "missingSignals (keyRastFallback s r) = missingSignals r"
  "observedSignals (keyRastFallback s r) = observedSignals r"
  by (simp_all add: keyRastFallback_def)

subsection \<open>Missing and documented signals\<close>

definition missing_ids :: "StartSignalSnapshot \<Rightarrow> StartSignalId list" where
  "missing_ids s =
     map fst (filter (\<lambda>(i, k). \<not> k)
       [(SI_SstA, known (ss_sstA s)), (SI_SstB, known (ss_sstB s)),
        (SI_KeyRast, known (ss_keyRast s)), (SI_Brake, known (ss_brake s)),
        (SI_ParkNeutralOrClutch, known (ss_parkNeutralOrClutch s)), (SI_Mfs, known (ss_mfs s)),
        (SI_StartDme, known (ss_startDme s)), (SI_StartRelease, known (ss_startRelease s)),
        (SI_Klemmenstatus, known (ss_klemmenstatus s)),
        (SI_Kl15EnableInhibitor, known (ss_kl15EnableInhibitor s)),
        (SI_Kl15DisableInhibitor, known (ss_kl15DisableInhibitor s)),
        (SI_Kl50EnableInhibitor, known (ss_kl50EnableInhibitor s)),
        (SI_EngineRpm, known (ss_engineRpm s))])"

lemma addMissing_missing:
  "missingSignals (addMissing i s r) = missingSignals r @ (if known s then [] else [i])"
  by (simp add: addMissing_def)

lemma collectMissing_ids:
  "missingSignals (collectMissing s VehicleStartObservation_default) = missing_ids s"
  by (simp add: collectMissing_def missing_ids_def addMissing_missing Let_def
      VehicleStartObservation_default_def)

lemma length_missing_ids: "length (missing_ids s) \<le> 13"
  unfolding missing_ids_def length_map by (rule order_trans [OF length_filter_le]) simp

lemma missing_if:
  "missingSignals a = m \<Longrightarrow> missingSignals b = m \<Longrightarrow> missingSignals (if c then a else b) = m"
  by simp

lemma observeConfirmedPair_missing [simp]:
  "missingSignals (observeConfirmedPair s p r) = missingSignals r"
  unfolding observeConfirmedPair_def Let_def by (intro missing_if) simp_all

lemma observe_missing:
  "missingSignals (VehicleStartObserver_observe current previous) = missing_ids current"
  by (simp add: VehicleStartObserver_observe_def Let_def collectMissing_ids)

lemma addDocumentedSignal_length:
  "length (observedSignals (addDocumentedSignal i s r)) \<le>
     (if known s then Suc (length (observedSignals r)) else length (observedSignals r))"
  by (simp add: addDocumentedSignal_def)

subsection \<open>The raw values with a confirmed meaning\<close>

lemma confirmed_raw:
  "rawValueObservedOnTestVehicle (decodeKlemmenstatus raw) \<longleftrightarrow> raw \<in> {0x40, 0x41, 0x45, 0x55}"
  by (simp add: decodeKlemmenstatus_def Let_def)

lemma confirmed_documented:
  "raw \<in> {0x40, 0x41, 0x45, 0x55} \<Longrightarrow> allFieldsDocumented (decodeKlemmenstatus raw)"
  by (elim insertE) (simp_all add: decodeKlemmenstatus_def decodeTerminalPair_def
      decodeKeyValidity_def Let_def)

lemma kd_raw_decode [simp]: "kd_raw (decodeKlemmenstatus raw) = raw"
  by (simp add: decodeKlemmenstatus_def Let_def)

text \<open>A trustworthy pair: both signals known, the terminal byte is \<open>raw\<close>, the speed satisfies \<open>P\<close>.\<close>

definition observed_pair :: "StartSignalSnapshot \<Rightarrow> u8 \<Rightarrow> (f32 \<Rightarrow> bool) \<Rightarrow> bool" where
  "observed_pair s raw P \<longleftrightarrow>
     isKnownPair s \<and> ds_value (ss_klemmenstatus s) = raw \<and> P (ds_value (ss_engineRpm s))"

definition previous_pair :: "StartSignalSnapshot option \<Rightarrow> u8 \<Rightarrow> (f32 \<Rightarrow> bool) \<Rightarrow> bool" where
  "previous_pair previous raw P = (case previous of None \<Rightarrow> False | Some p \<Rightarrow> observed_pair p raw P)"

text \<open>The classification of a confirmed pair, as a table.\<close>

definition classify_pair ::
    "StartSignalSnapshot \<Rightarrow> StartSignalSnapshot option \<Rightarrow> VehicleStartObservedState" where
  "classify_pair s p =
     (if observed_pair s 0x55 f32_gt_zero then VO_CrankingObserved
      else if observed_pair s 0x41 f32_is_zero then VO_KeyPresent
      else if observed_pair s 0x45 f32_is_zero then VO_TerminalReady
      else if observed_pair s 0x45 (\<lambda>r. \<not> f32_is_zero r) \<and> previous_pair p 0x55 (\<lambda>_. True)
      then VO_EngineRotatingObserved
      else if observed_pair s 0x45 (\<lambda>r. \<not> f32_is_zero r) \<and> previous_pair p 0x45 f32_gt_zero
      then VO_EngineRunningObserved
      else if observed_pair s 0x40 (\<lambda>r. \<not> f32_is_zero r) \<and> previous_pair p 0x45 (\<lambda>_. True)
      then VO_ShutdownObserved
      else if observed_pair s 0x40 f32_is_zero \<and> previous_pair p 0x40 f32_gt_zero
      then VO_EngineStoppedObserved
      else if observed_pair s 0x40 f32_is_zero then VO_VehicleRest
      else VO_Unknown)"

definition key_in_slot :: "StartSignalSnapshot \<Rightarrow> bool" where
  "key_in_slot s \<longleftrightarrow> known (ss_keyRast s) \<and> ds_value (ss_keyRast s)"

lemma keyRastFallback_state:
  "primaryVehicleState r = VO_Unknown \<Longrightarrow>
     primaryVehicleState (keyRastFallback s r) =
       (if key_in_slot s then VO_KeyPresent else VO_Unknown)"
  by (simp add: keyRastFallback_def key_in_slot_def)

lemma default_state [simp]: "primaryVehicleState VehicleStartObservation_default = VO_Unknown"
  by (simp add: VehicleStartObservation_default_def)

lemma confirmed_pair_state:
  assumes raw: "ds_value (ss_klemmenstatus s) \<in> {0x40, 0x41, 0x45, 0x55}"
    and pair: "isKnownPair s" and unknown: "primaryVehicleState r = VO_Unknown"
  shows "primaryVehicleState (observeConfirmedPair s p r) =
    (if classify_pair s p = VO_Unknown \<and> key_in_slot s \<and>
        ds_value (ss_klemmenstatus s) \<in> {0x41, 0x55}
     then VO_KeyPresent else classify_pair s p)"
proof -
  note defs = observeConfirmedPair_def classify_pair_def Let_def keyRastFallback_state
    observed_pair_def previous_pair_def
  from raw consider "ds_value (ss_klemmenstatus s) = 0x40" | "ds_value (ss_klemmenstatus s) = 0x41"
    | "ds_value (ss_klemmenstatus s) = 0x45" | "ds_value (ss_klemmenstatus s) = 0x55"
    by blast
  then show ?thesis
  proof cases
    case 1
    with pair unknown show ?thesis by (cases p) (simp_all add: defs)
  next
    case 2
    with pair unknown show ?thesis by (cases p) (simp_all add: defs)
  next
    case 3
    with pair unknown show ?thesis by (cases p) (simp_all add: defs)
  next
    case 4
    with pair unknown show ?thesis by (cases p) (simp_all add: defs)
  qed
qed

lemma observe_state:
  "primaryVehicleState (VehicleStartObserver_observe s p) =
    (if hasCommunicationError s then VO_Unknown
     else if isKnownPair s then
       (if ds_value (ss_klemmenstatus s) \<notin> {0x40, 0x41, 0x45, 0x55} then VO_Unknown
        else if classify_pair s p = VO_Unknown \<and> key_in_slot s \<and>
          ds_value (ss_klemmenstatus s) \<in> {0x41, 0x55}
        then VO_KeyPresent else classify_pair s p)
     else if key_in_slot s then VO_KeyPresent else VO_Unknown)"
proof -
  let ?r = "collectDocumentedSignals s (collectMissing s VehicleStartObservation_default)"
  have unknown: "primaryVehicleState ?r = VO_Unknown" by simp
  have "\<not> allFieldsDocumented (decodeKlemmenstatus (ds_value (ss_klemmenstatus s))) \<or>
      \<not> rawValueObservedOnTestVehicle (decodeKlemmenstatus (ds_value (ss_klemmenstatus s))) \<longleftrightarrow>
      ds_value (ss_klemmenstatus s) \<notin> {0x40, 0x41, 0x45, 0x55}"
    using confirmed_documented confirmed_raw by blast
  then have "VehicleStartObserver_observe s p =
      (if hasCommunicationError s then ?r
       else if isKnownPair s then
         (if ds_value (ss_klemmenstatus s) \<notin> {0x40, 0x41, 0x45, 0x55} then ?r
          else observeConfirmedPair s p ?r)
       else keyRastFallback s ?r)"
    by (simp only: VehicleStartObserver_observe_def Let_def)
  then show ?thesis
    using unknown keyRastFallback_state [OF unknown] confirmed_pair_state [OF _ _ unknown, of s p]
    by (cases "hasCommunicationError s"; cases "isKnownPair s";
        cases "ds_value (ss_klemmenstatus s) \<in> {0x40, 0x41, 0x45, 0x55}";
        simp del: insert_iff)
qed

section \<open>Properties\<close>

text \<open>The start observer classifies the vehicle exactly by the table of confirmed
  terminal-byte and engine-speed pairs and the previous pair: no state but "key present" is
  reported without a known pair, a communication error or a byte never seen on the test vehicle
  gives "unknown", and the list of missing signals names exactly the signals that are not known,
  at most the thirteen its array holds.\<close>

theorem observer_classifies_exactly:
  "primaryVehicleState (VehicleStartObserver_observe s p) =
    (if hasCommunicationError s then VO_Unknown
     else if isKnownPair s then
       (if ds_value (ss_klemmenstatus s) \<notin> {0x40, 0x41, 0x45, 0x55} then VO_Unknown
        else if classify_pair s p = VO_Unknown \<and> key_in_slot s \<and>
          ds_value (ss_klemmenstatus s) \<in> {0x41, 0x55}
        then VO_KeyPresent else classify_pair s p)
     else if key_in_slot s then VO_KeyPresent else VO_Unknown) \<and>
   missingSignals (VehicleStartObserver_observe s p) = missing_ids s \<and>
   length (missing_ids s) \<le> 13"
  by (simp only: observe_state observe_missing length_missing_ids simp_thms)

text \<open>
  An observation may carry the qualification of a confirmed sequence with an unknown state: at
  rest (0x40) with the engine turning and no previous terminal-15 pair.
\<close>

lemma unknown_state_marked_confirmed:
  "\<exists>s. primaryVehicleState (VehicleStartObserver_observe s None) = VO_Unknown \<and>
     primaryStateQualification (VehicleStartObserver_observe s None) =
       OQ_ConfirmedPhase3dSequence"
proof (intro exI conjI)
  let ?s = "StartSignalSnapshot_default
    \<lparr>ss_klemmenstatus := knownValue 0x40 DS_CasStatusDiagnose 1 2,
     ss_engineRpm := knownValue (F_Finite 700) DS_DdeStatusMotordrehzahl 1 2\<rparr>"
  show "primaryVehicleState (VehicleStartObserver_observe ?s None) = VO_Unknown"
    by code_simp
  show "primaryStateQualification (VehicleStartObserver_observe ?s None) =
      OQ_ConfirmedPhase3dSequence"
    by code_simp
qed

end
