(* ===== verification/SafetyPolicy.thy ===== *)
theory SafetyPolicy
  imports VehicleModel
begin

text \<open>
  The safety policy (\<^verbatim>\<open>application/safety_policy.hpp/.cpp\<close>) and the profile readiness guard
  (\<^verbatim>\<open>application/profile_readiness.hpp/.cpp\<close>).  Both accumulate reasons in a bit mask; the
  lemmas give, for each assessment, exactly which reasons are reported and exactly when the
  assessment approves.
\<close>

section \<open>Safety assessments\<close>

datatype SafetyReason =
    SR_None | SR_SignalUnavailable | SR_BatteryTooLow | SR_HoodOpen | SR_DoorOpen | SR_TrunkOpen
  | SR_BrakePressed | SR_ParkingBrakeReleased | SR_TransmissionUnsafe | SR_EngineAlreadyRunning
  | SR_EngineNotRunning | SR_CriticalVehicleFault

fun SafetyReason_mask :: "SafetyReason \<Rightarrow> u16" where
  "SafetyReason_mask SR_None = 0"
| "SafetyReason_mask SR_SignalUnavailable = push_bit 0 1"
| "SafetyReason_mask SR_BatteryTooLow = push_bit 1 1"
| "SafetyReason_mask SR_HoodOpen = push_bit 2 1"
| "SafetyReason_mask SR_DoorOpen = push_bit 3 1"
| "SafetyReason_mask SR_TrunkOpen = push_bit 4 1"
| "SafetyReason_mask SR_BrakePressed = push_bit 5 1"
| "SafetyReason_mask SR_ParkingBrakeReleased = push_bit 6 1"
| "SafetyReason_mask SR_TransmissionUnsafe = push_bit 7 1"
| "SafetyReason_mask SR_EngineAlreadyRunning = push_bit 8 1"
| "SafetyReason_mask SR_EngineNotRunning = push_bit 9 1"
| "SafetyReason_mask SR_CriticalVehicleFault = push_bit 10 1"

record SafetyAssessment =
  sa_reasons :: u16

definition SafetyAssessment_default :: SafetyAssessment where
  "SafetyAssessment_default = \<lparr>sa_reasons = SafetyReason_mask SR_None\<rparr>"

definition approved :: "SafetyAssessment \<Rightarrow> bool" where
  "approved a = (sa_reasons a = SafetyReason_mask SR_None)"

definition SafetyAssessment_contains :: "SafetyAssessment \<Rightarrow> SafetyReason \<Rightarrow> bool" where
  "SafetyAssessment_contains a r = ((sa_reasons a AND SafetyReason_mask r) \<noteq> 0)"

definition SafetyAssessment_add :: "SafetyReason \<Rightarrow> SafetyAssessment \<Rightarrow> SafetyAssessment" where
  "SafetyAssessment_add r a = a\<lparr>sa_reasons := sa_reasons a OR SafetyReason_mask r\<rparr>"

text \<open>\<open>if (c) assessment.add(r);\<close>\<close>

definition safety_add_if :: "bool \<Rightarrow> SafetyReason \<Rightarrow> SafetyAssessment \<Rightarrow> SafetyAssessment" where
  "safety_add_if c r a = (if c then SafetyAssessment_add r a else a)"

record SafetyPolicyConfig =
  minimumBatteryMillivolts :: u16
  cfg_runningRpmThreshold :: u16
  sp_requireVehicleSecured :: bool
  requireHoodClosed :: bool
  sp_allowManualTransmission :: bool

definition SafetyPolicyConfig_default :: SafetyPolicyConfig where
  "SafetyPolicyConfig_default =
     \<lparr>minimumBatteryMillivolts = 11800, cfg_runningRpmThreshold = 500,
      sp_requireVehicleSecured = True, requireHoodClosed = True,
      sp_allowManualTransmission = False\<rparr>"

definition requireFresh :: "'a Observed \<Rightarrow> SafetyAssessment \<Rightarrow> SafetyAssessment" where
  "requireFresh signal a = safety_add_if (\<not> isFresh signal) SR_SignalUnavailable a"

definition transmissionIsSafe :: "SafetyPolicyConfig \<Rightarrow> VehicleState \<Rightarrow> bool" where
  "transmissionIsSafe config vehicle =
     (case obs_value (vs_transmission vehicle) of
        TR_Automatic \<Rightarrow> obs_value (vs_gear vehicle) = GE_Park
      | TR_Manual \<Rightarrow> sp_allowManualTransmission config \<and> obs_value (vs_gear vehicle) = GE_Neutral
      | TR_Unknown \<Rightarrow> False)"

definition assessCommon ::
    "SafetyPolicyConfig \<Rightarrow> VehicleState \<Rightarrow> bool \<Rightarrow> bool \<Rightarrow> bool \<Rightarrow> SafetyAssessment" where
  "assessCommon config vehicle requireDoorsClosed requireTrunkClosed prohibitBrake =
     (let a = SafetyAssessment_default;
          a = requireFresh (vs_batteryMillivolts vehicle) a;
          a = requireFresh (vs_parkingBrakeApplied vehicle) a;
          a = requireFresh (vs_transmission vehicle) a;
          a = requireFresh (vs_gear vehicle) a;
          a = requireFresh (vs_criticalFaultPresent vehicle) a;
          a = (if prohibitBrake then requireFresh (vs_brakePressed vehicle) a else a);
          a = (if requireHoodClosed config then requireFresh (vs_hoodClosed vehicle) a else a);
          a = (if requireDoorsClosed then requireFresh (vs_doorsClosed vehicle) a else a);
          a = (if requireTrunkClosed then requireFresh (vs_trunkClosed vehicle) a else a);
          a = safety_add_if (isFresh (vs_batteryMillivolts vehicle) \<and>
                obs_value (vs_batteryMillivolts vehicle) < minimumBatteryMillivolts config)
                SR_BatteryTooLow a;
          a = safety_add_if (requireHoodClosed config \<and> isFresh (vs_hoodClosed vehicle) \<and>
                \<not> obs_value (vs_hoodClosed vehicle)) SR_HoodOpen a;
          a = safety_add_if (requireDoorsClosed \<and> isFresh (vs_doorsClosed vehicle) \<and>
                \<not> obs_value (vs_doorsClosed vehicle)) SR_DoorOpen a;
          a = safety_add_if (requireTrunkClosed \<and> isFresh (vs_trunkClosed vehicle) \<and>
                \<not> obs_value (vs_trunkClosed vehicle)) SR_TrunkOpen a;
          a = safety_add_if (prohibitBrake \<and> isFresh (vs_brakePressed vehicle) \<and>
                obs_value (vs_brakePressed vehicle)) SR_BrakePressed a;
          a = safety_add_if (isFresh (vs_parkingBrakeApplied vehicle) \<and>
                \<not> obs_value (vs_parkingBrakeApplied vehicle)) SR_ParkingBrakeReleased a;
          a = safety_add_if (isFresh (vs_criticalFaultPresent vehicle) \<and>
                obs_value (vs_criticalFaultPresent vehicle)) SR_CriticalVehicleFault a
      in safety_add_if (isFresh (vs_transmission vehicle) \<and> isFresh (vs_gear vehicle) \<and>
           \<not> transmissionIsSafe config vehicle) SR_TransmissionUnsafe a)"

definition assessStart :: "SafetyPolicyConfig \<Rightarrow> VehicleState \<Rightarrow> SafetyAssessment" where
  "assessStart config vehicle =
     (let a = assessCommon config vehicle (sp_requireVehicleSecured config)
                (sp_requireVehicleSecured config) True;
          a = requireFresh (vs_engineRpm vehicle) a
      in safety_add_if (isFresh (vs_engineRpm vehicle) \<and>
           obs_value (vs_engineRpm vehicle) \<ge> cfg_runningRpmThreshold config)
           SR_EngineAlreadyRunning a)"

definition assessCranking :: "SafetyPolicyConfig \<Rightarrow> VehicleState \<Rightarrow> SafetyAssessment" where
  "assessCranking config vehicle =
     requireFresh (vs_engineRpm vehicle)
       (assessCommon config vehicle (sp_requireVehicleSecured config)
          (sp_requireVehicleSecured config) True)"

definition assessRemoteRun :: "SafetyPolicyConfig \<Rightarrow> VehicleState \<Rightarrow> SafetyAssessment" where
  "assessRemoteRun config vehicle =
     (let a = assessCommon config vehicle (sp_requireVehicleSecured config)
                (sp_requireVehicleSecured config) True;
          a = requireFresh (vs_engineRpm vehicle) a
      in safety_add_if (isFresh (vs_engineRpm vehicle) \<and>
           obs_value (vs_engineRpm vehicle) < cfg_runningRpmThreshold config)
           SR_EngineNotRunning a)"

definition assessDriverTakeover :: "SafetyPolicyConfig \<Rightarrow> VehicleState \<Rightarrow> SafetyAssessment" where
  "assessDriverTakeover config vehicle =
     (let a = assessCommon config vehicle False (sp_requireVehicleSecured config) False;
          a = requireFresh (vs_engineRpm vehicle) a
      in safety_add_if (isFresh (vs_engineRpm vehicle) \<and>
           obs_value (vs_engineRpm vehicle) < cfg_runningRpmThreshold config)
           SR_EngineNotRunning a)"

section \<open>The bit masks behave as sets of reasons\<close>

lemma SafetyReason_mask_disjoint:
  "(SafetyReason_mask r AND SafetyReason_mask r' \<noteq> 0) \<longleftrightarrow> r = r' \<and> r \<noteq> SR_None"
  by (cases r; cases r') simp_all

lemma SafetyReason_mask_zero: "SafetyReason_mask r = 0 \<longleftrightarrow> r = SR_None"
  by (cases r) simp_all

lemma contains_default [simp]: "\<not> SafetyAssessment_contains SafetyAssessment_default r"
  by (simp add: SafetyAssessment_contains_def SafetyAssessment_default_def)

lemma approved_default [simp]: "approved SafetyAssessment_default"
  by (simp add: approved_def SafetyAssessment_default_def)

lemma contains_add_if [simp]:
  "SafetyAssessment_contains (safety_add_if c r a) r' \<longleftrightarrow>
     SafetyAssessment_contains a r' \<or> (c \<and> r = r' \<and> r \<noteq> SR_None)"
proof (cases c)
  case True
  have "((sa_reasons a OR SafetyReason_mask r) AND SafetyReason_mask r' = 0) \<longleftrightarrow>
      sa_reasons a AND SafetyReason_mask r' = 0 \<and> SafetyReason_mask r AND SafetyReason_mask r' = 0"
    by (simp add: bit.conj_disj_distrib2 or_eq_0_iff)
  with True show ?thesis
    using SafetyReason_mask_disjoint [of r r']
    by (auto simp: safety_add_if_def SafetyAssessment_add_def SafetyAssessment_contains_def)
qed (simp add: safety_add_if_def)

lemma approved_add_if [simp]:
  "approved (safety_add_if c r a) \<longleftrightarrow> approved a \<and> (c \<longrightarrow> r = SR_None)"
  by (simp add: safety_add_if_def SafetyAssessment_add_def approved_def or_eq_0_iff
      SafetyReason_mask_zero)

lemma requireFresh_simps [simp]:
  "SafetyAssessment_contains (requireFresh s a) r \<longleftrightarrow>
     SafetyAssessment_contains a r \<or> (\<not> isFresh s \<and> r = SR_SignalUnavailable)"
  "approved (requireFresh s a) \<longleftrightarrow> approved a \<and> isFresh s"
  by (auto simp: requireFresh_def)

section \<open>When the policy approves\<close>

text \<open>Reading an observation fail-closed: it counts only when it is fresh.\<close>

definition fresh_and :: "'a Observed \<Rightarrow> ('a \<Rightarrow> bool) \<Rightarrow> bool" where
  "fresh_and s P \<longleftrightarrow> isFresh s \<and> P (obs_value s)"

text \<open>The abstract specification of the common interlocks.\<close>

definition common_interlocks ::
    "SafetyPolicyConfig \<Rightarrow> bool \<Rightarrow> bool \<Rightarrow> bool \<Rightarrow> VehicleState \<Rightarrow> bool" where
  "common_interlocks config doors trunk brake v \<longleftrightarrow>
     fresh_and (vs_batteryMillivolts v) (\<lambda>mv. minimumBatteryMillivolts config \<le> mv) \<and>
     fresh_and (vs_parkingBrakeApplied v) (\<lambda>b. b) \<and>
     fresh_and (vs_criticalFaultPresent v) Not \<and>
     isFresh (vs_transmission v) \<and> isFresh (vs_gear v) \<and> transmissionIsSafe config v \<and>
     (brake \<longrightarrow> fresh_and (vs_brakePressed v) Not) \<and>
     (requireHoodClosed config \<longrightarrow> fresh_and (vs_hoodClosed v) (\<lambda>b. b)) \<and>
     (doors \<longrightarrow> fresh_and (vs_doorsClosed v) (\<lambda>b. b)) \<and>
     (trunk \<longrightarrow> fresh_and (vs_trunkClosed v) (\<lambda>b. b))"

lemma approved_assessCommon:
  "approved (assessCommon config v doors trunk brake) \<longleftrightarrow>
     common_interlocks config doors trunk brake v"
  by (auto simp: assessCommon_def Let_def common_interlocks_def fresh_and_def not_less)

lemma approved_assessStart:
  "approved (assessStart config v) \<longleftrightarrow>
     common_interlocks config (sp_requireVehicleSecured config) (sp_requireVehicleSecured config)
       True v \<and>
     fresh_and (vs_engineRpm v) (\<lambda>rpm. rpm < cfg_runningRpmThreshold config)"
  by (auto simp: assessStart_def Let_def approved_assessCommon fresh_and_def not_le)

lemma approved_assessCranking:
  "approved (assessCranking config v) \<longleftrightarrow>
     common_interlocks config (sp_requireVehicleSecured config) (sp_requireVehicleSecured config)
       True v \<and>
     isFresh (vs_engineRpm v)"
  by (simp add: assessCranking_def approved_assessCommon)

lemma approved_assessRemoteRun:
  "approved (assessRemoteRun config v) \<longleftrightarrow>
     common_interlocks config (sp_requireVehicleSecured config) (sp_requireVehicleSecured config)
       True v \<and>
     fresh_and (vs_engineRpm v) (\<lambda>rpm. cfg_runningRpmThreshold config \<le> rpm)"
  by (auto simp: assessRemoteRun_def Let_def approved_assessCommon fresh_and_def not_less)

lemma approved_assessDriverTakeover:
  "approved (assessDriverTakeover config v) \<longleftrightarrow>
     common_interlocks config False (sp_requireVehicleSecured config) False v \<and>
     fresh_and (vs_engineRpm v) (\<lambda>rpm. cfg_runningRpmThreshold config \<le> rpm)"
  by (auto simp: assessDriverTakeover_def Let_def approved_assessCommon fresh_and_def not_less)

lemmas policy_approval =
  approved_assessStart approved_assessCranking approved_assessRemoteRun
  approved_assessDriverTakeover

section \<open>Profile readiness\<close>

datatype ProfileReadinessReason =
    PR_None | PR_MissingRequiredSignal | PR_UnverifiedRequiredSignal | PR_QualificationTooLow
  | PR_TransmissionUnknown | PR_ManualTransmissionNotAllowed | PR_ProfileNotSelected
  | PR_HoodInterlockUnavailable

fun ProfileReadinessReason_mask :: "ProfileReadinessReason \<Rightarrow> u8" where
  "ProfileReadinessReason_mask PR_None = 0"
| "ProfileReadinessReason_mask PR_MissingRequiredSignal = push_bit 0 1"
| "ProfileReadinessReason_mask PR_UnverifiedRequiredSignal = push_bit 1 1"
| "ProfileReadinessReason_mask PR_QualificationTooLow = push_bit 2 1"
| "ProfileReadinessReason_mask PR_TransmissionUnknown = push_bit 3 1"
| "ProfileReadinessReason_mask PR_ManualTransmissionNotAllowed = push_bit 4 1"
| "ProfileReadinessReason_mask PR_ProfileNotSelected = push_bit 5 1"
| "ProfileReadinessReason_mask PR_HoodInterlockUnavailable = push_bit 6 1"

record ProfileReadinessAssessment =
  pra_reasons :: u8

definition ProfileReadinessAssessment_default :: ProfileReadinessAssessment where
  "ProfileReadinessAssessment_default = \<lparr>pra_reasons = ProfileReadinessReason_mask PR_None\<rparr>"

definition ready :: "ProfileReadinessAssessment \<Rightarrow> bool" where
  "ready a = (pra_reasons a = ProfileReadinessReason_mask PR_None)"

definition ProfileReadinessAssessment_contains ::
    "ProfileReadinessAssessment \<Rightarrow> ProfileReadinessReason \<Rightarrow> bool" where
  "ProfileReadinessAssessment_contains a r =
     ((pra_reasons a AND ProfileReadinessReason_mask r) \<noteq> 0)"

definition ProfileReadinessAssessment_add ::
    "ProfileReadinessReason \<Rightarrow> ProfileReadinessAssessment \<Rightarrow> ProfileReadinessAssessment" where
  "ProfileReadinessAssessment_add r a =
     a\<lparr>pra_reasons := pra_reasons a OR ProfileReadinessReason_mask r\<rparr>"

record ProfileReadinessPolicy =
  pp_requireVehicleSecured :: bool
  pp_allowManualTransmission :: bool

definition ProfileReadinessPolicy_default :: ProfileReadinessPolicy where
  "ProfileReadinessPolicy_default =
     \<lparr>pp_requireVehicleSecured = True, pp_allowManualTransmission = False\<rparr>"

definition CoreRequiredSignals :: "VehicleSignal list" where
  "CoreRequiredSignals =
     [VS_BatteryMillivolts, VS_EngineRpm, VS_BrakePressed, VS_ParkingBrakeApplied,
      VS_Transmission, VS_Gear, VS_CriticalFaultPresent]"

definition assessSignal ::
    "VehicleProfile \<Rightarrow> VehicleSignal \<Rightarrow> ProfileReadinessAssessment \<Rightarrow>
       ProfileReadinessAssessment" where
  "assessSignal profile signal a =
     (case VehicleProfile_support profile signal of
        SS_Unavailable \<Rightarrow> ProfileReadinessAssessment_add PR_MissingRequiredSignal a
      | SS_Candidate \<Rightarrow> ProfileReadinessAssessment_add PR_UnverifiedRequiredSignal a
      | SS_Verified \<Rightarrow> a)"

definition assessProfileReadiness ::
    "VehicleProfile \<Rightarrow> ProfileReadinessPolicy \<Rightarrow> bool \<Rightarrow> ProfileReadinessAssessment" where
  "assessProfileReadiness profile policy hood =
     (let a = ProfileReadinessAssessment_default;
          a = fold (assessSignal profile) CoreRequiredSignals a;
          a = (if hood then assessSignal profile VS_HoodClosed a else a);
          a = (if pp_requireVehicleSecured policy
               then assessSignal profile VS_TrunkClosed (assessSignal profile VS_DoorsClosed a)
               else a);
          a = (if vp_qualification profile < QS_ReadOnlyValidated
               then ProfileReadinessAssessment_add PR_QualificationTooLow a else a);
          a = (if hood \<and> (vp_hoodInterlockSource profile = HI_Unspecified \<or>
                          vp_hoodInterlockSource profile = HI_NotAvailable)
               then ProfileReadinessAssessment_add PR_HoodInterlockUnavailable a else a)
      in if vp_transmission profile = TR_Unknown
         then ProfileReadinessAssessment_add PR_TransmissionUnknown a
         else if vp_transmission profile = TR_Manual \<and> \<not> pp_allowManualTransmission policy
         then ProfileReadinessAssessment_add PR_ManualTransmissionNotAllowed a
         else a)"

definition assessRemoteStartReadiness ::
    "VehicleProfile option \<Rightarrow> ProfileReadinessPolicy \<Rightarrow> bool \<Rightarrow> ProfileReadinessAssessment" where
  "assessRemoteStartReadiness profile policy hood =
     (case profile of
        Some p \<Rightarrow> assessProfileReadiness p policy hood
      | None \<Rightarrow>
          ProfileReadinessAssessment_add PR_ProfileNotSelected ProfileReadinessAssessment_default)"

section \<open>When a profile is ready\<close>

lemma ProfileReadinessReason_mask_zero: "ProfileReadinessReason_mask r = 0 \<longleftrightarrow> r = PR_None"
  by (cases r) simp_all

lemma ready_add [simp]:
  "ready (ProfileReadinessAssessment_add r a) \<longleftrightarrow> ready a \<and> r = PR_None"
  by (simp add: ready_def ProfileReadinessAssessment_add_def or_eq_0_iff
      ProfileReadinessReason_mask_zero)

lemma ready_default [simp]: "ready ProfileReadinessAssessment_default"
  by (simp add: ready_def ProfileReadinessAssessment_default_def)

lemma ready_assessSignal [simp]:
  "ready (assessSignal p s a) \<longleftrightarrow> ready a \<and> VehicleProfile_support p s = SS_Verified"
  by (simp add: assessSignal_def split: SignalSupport.split)

lemma ready_fold_assessSignal:
  "ready (fold (assessSignal p) ss a) \<longleftrightarrow>
     ready a \<and> (\<forall>s \<in> set ss. VehicleProfile_support p s = SS_Verified)"
  by (induction ss arbitrary: a) auto

text \<open>The abstract specification: which signals a policy needs verified.\<close>

definition required_signals :: "ProfileReadinessPolicy \<Rightarrow> bool \<Rightarrow> VehicleSignal set" where
  "required_signals policy hood =
     set CoreRequiredSignals \<union> (if hood then {VS_HoodClosed} else {}) \<union>
     (if pp_requireVehicleSecured policy then {VS_DoorsClosed, VS_TrunkClosed} else {})"

lemma ready_assessProfileReadiness:
  "ready (assessProfileReadiness p policy hood) \<longleftrightarrow>
     (\<forall>s \<in> required_signals policy hood. VehicleProfile_support p s = SS_Verified) \<and>
     QS_ReadOnlyValidated \<le> vp_qualification p \<and>
     (hood \<longrightarrow> vp_hoodInterlockSource p \<notin> {HI_Unspecified, HI_NotAvailable}) \<and>
     vp_transmission p \<noteq> TR_Unknown \<and>
     (vp_transmission p = TR_Manual \<longrightarrow> pp_allowManualTransmission policy)"
  by (auto simp: assessProfileReadiness_def Let_def ready_fold_assessSignal required_signals_def
      not_less)

section \<open>Properties\<close>

text \<open>C38: The four safety assessments approve exactly when their interlocks hold, an unavailable
  or stale observation counting as a failure: a start needs the engine stopped, cranking a fresh
  engine speed, a remote run and a driver takeover the engine running; the takeover alone
  tolerates an open door and a pressed brake.\<close>

theorem policy_approves_iff_interlocks:
  "(approved (assessStart config v) \<longleftrightarrow>
      common_interlocks config (sp_requireVehicleSecured config) (sp_requireVehicleSecured config)
        True v \<and>
      fresh_and (vs_engineRpm v) (\<lambda>rpm. rpm < cfg_runningRpmThreshold config)) \<and>
   (approved (assessCranking config v) \<longleftrightarrow>
      common_interlocks config (sp_requireVehicleSecured config) (sp_requireVehicleSecured config)
        True v \<and>
      isFresh (vs_engineRpm v)) \<and>
   (approved (assessRemoteRun config v) \<longleftrightarrow>
      common_interlocks config (sp_requireVehicleSecured config) (sp_requireVehicleSecured config)
        True v \<and>
      fresh_and (vs_engineRpm v) (\<lambda>rpm. cfg_runningRpmThreshold config \<le> rpm)) \<and>
   (approved (assessDriverTakeover config v) \<longleftrightarrow>
      common_interlocks config False (sp_requireVehicleSecured config) False v \<and>
      fresh_and (vs_engineRpm v) (\<lambda>rpm. cfg_runningRpmThreshold config \<le> rpm))"
  unfolding policy_approval by simp

text \<open>A profile is ready for a remote start exactly when every required signal is verified,
  it is at least read-only validated, the hood interlock has a real source when it is required,
  and its transmission is known and allowed; without a profile nothing is ready.\<close>

theorem readiness_iff_verified:
  "ready (assessRemoteStartReadiness profile policy hood) \<longleftrightarrow>
     (\<exists>p. profile = Some p \<and>
        (\<forall>s \<in> required_signals policy hood. VehicleProfile_support p s = SS_Verified) \<and>
        QS_ReadOnlyValidated \<le> vp_qualification p \<and>
        (hood \<longrightarrow> vp_hoodInterlockSource p \<notin> {HI_Unspecified, HI_NotAvailable}) \<and>
        vp_transmission p \<noteq> TR_Unknown \<and>
        (vp_transmission p = TR_Manual \<longrightarrow> pp_allowManualTransmission policy))"
  by (cases profile) (auto simp: assessRemoteStartReadiness_def ready_assessProfileReadiness)

lemma readiness_iff_verified_witness:
  "ready (assessRemoteStartReadiness
     (Some (e90_2009_n47d20c_automatic
        \<lparr>vp_qualification := QS_ReadOnlyValidated, vp_hoodInterlockSource := HI_VehicleSignal,
         vp_signals := replicate vehicleSignalCount SS_Verified\<rparr>))
     ProfileReadinessPolicy_default True)"
  unfolding readiness_iff_verified
  by (simp add: e90_2009_n47d20c_automatic_def required_signals_def CoreRequiredSignals_def
      ProfileReadinessPolicy_default_def VehicleProfile_support_def vehicleSignalCount_def Let_def)

end
