(* ===== verification/Controller.thy ===== *)
theory Controller
  imports SafetyPolicy
begin

text \<open>
  The remote-start state machine (\<^verbatim>\<open>application/controller.hpp/.cpp\<close>): its state, the
  decision with its bounded action list, and one definition per handler.  Every handler takes and
  returns the pair of the controller and the decision under construction, as the member functions
  mutate both.  The \<open>std::array\<close> of eight actions with its counter is the list of the actions
  added so far; \<open>Decision_add\<close> keeps the capacity test.
\<close>

section \<open>Types\<close>

datatype ControllerState =
    CS_Idle | CS_Authorizing | CS_Preparing | CS_Cranking | CS_Running | CS_AwaitingTakeover
  | CS_DriverControl | CS_Stopping | CS_Fault

datatype FaultCode =
    FC_None | FC_SafetyInterlock | FC_VehicleCommunication | FC_AuthorizationTimeout
  | FC_CrankTimeout | FC_StopTimeout | FC_ActuatorFailure | FC_TimerFailure | FC_InternalError

datatype EventType =
    ET_RemoteStartRequested | ET_RemoteStopRequested | ET_VehicleStateUpdated | ET_TimerElapsed
  | ET_DriverTakeoverConfirmed | ET_InfrastructureFailure | ET_ResetRequested

record Event =
  ev_type :: EventType
  ev_fault :: FaultCode

definition Event_of :: "EventType \<Rightarrow> Event" where
  "Event_of t = \<lparr>ev_type = t, ev_fault = FC_None\<rparr>"

definition infrastructureFailure :: "FaultCode \<Rightarrow> Event" where
  "infrastructureFailure code = \<lparr>ev_type = ET_InfrastructureFailure, ev_fault = code\<rparr>"

datatype ActionType =
    AT_RequestVehicleState | AT_EnableIgnition | AT_EngageStarter | AT_DisengageStarter
  | AT_ReleaseRemoteControl | AT_SecureOutputs | AT_ArmTimer | AT_CancelTimer
  | AT_NotifyProfileRejected | AT_NotifyRemoteStartDisabled | AT_NotifyStartAccepted
  | AT_NotifyStartRejected | AT_NotifyRunning | AT_NotifyTakeoverPending
  | AT_NotifyTakeoverComplete | AT_NotifyStopping | AT_NotifyStopped | AT_NotifyFault
  | AT_NotifyReady | AT_NotifyRequestIgnored | AT_NotifyResetRejected

record Action =
  act_type :: ActionType
  act_durationMs :: u32

record Decision =
  previousState :: ControllerState
  d_state :: ControllerState
  previousFault :: FaultCode
  d_fault :: FaultCode
  d_safety :: SafetyAssessment
  d_profileReadiness :: ProfileReadinessAssessment
  actions :: "Action list"

definition MaximumActions :: nat where
  "MaximumActions = 8"

definition Decision_default :: Decision where
  "Decision_default =
     \<lparr>previousState = CS_Idle, d_state = CS_Idle, previousFault = FC_None, d_fault = FC_None,
      d_safety = SafetyAssessment_default,
      d_profileReadiness = ProfileReadinessAssessment_default, actions = []\<rparr>"

fun actions_contain :: "Action list \<Rightarrow> ActionType \<Rightarrow> bool" where
  "actions_contain [] t = False"
| "actions_contain (a # as) t = (if act_type a = t then True else actions_contain as t)"

definition Decision_contains :: "Decision \<Rightarrow> ActionType \<Rightarrow> bool" where
  "Decision_contains d t = actions_contain (actions d) t"

definition Decision_add :: "ActionType \<Rightarrow> u32 \<Rightarrow> Decision \<Rightarrow> Decision" where
  "Decision_add t ms d =
     (if length (actions d) < MaximumActions
      then d\<lparr>actions := actions d @ [\<lparr>act_type = t, act_durationMs = ms\<rparr>]\<rparr> else d)"

datatype DriverEntryMode = DE_RequireTakeover | DE_StopImmediately | DE_Unnamed u8

record ControllerConfig =
  vehicleProfile :: "VehicleProfile option"
  profilePolicy :: ProfileReadinessPolicy
  cc_safety :: SafetyPolicyConfig
  cc_remoteStartEnabled :: bool
  cc_driverEntryMode :: DriverEntryMode
  authorizationTimeoutMs :: u32
  preparationDelayMs :: u32
  maximumCrankTimeMs :: u32
  cc_maximumRemoteRunTimeMs :: u32
  cc_driverTakeoverTimeoutMs :: u32
  stopConfirmationTimeoutMs :: u32

definition ControllerConfig_default :: ControllerConfig where
  "ControllerConfig_default =
     \<lparr>vehicleProfile = None, profilePolicy = ProfileReadinessPolicy_default,
      cc_safety = SafetyPolicyConfig_default, cc_remoteStartEnabled = True,
      cc_driverEntryMode = DE_RequireTakeover, authorizationTimeoutMs = 2000,
      preparationDelayMs = 1500, maximumCrankTimeMs = 5000,
      cc_maximumRemoteRunTimeMs = 15 * 60 * 1000, cc_driverTakeoverTimeoutMs = 60000,
      stopConfirmationTimeoutMs = 3000\<rparr>"

record Controller =
  c_config :: ControllerConfig
  c_safetyPolicy :: SafetyPolicyConfig
  c_profileReadiness :: ProfileReadinessAssessment
  c_state :: ControllerState
  c_fault :: FaultCode

definition mkController :: "ControllerConfig \<Rightarrow> Controller" where
  "mkController config =
     \<lparr>c_config = config, c_safetyPolicy = cc_safety config,
      c_profileReadiness = assessRemoteStartReadiness (vehicleProfile config)
        (profilePolicy config) (requireHoodClosed (cc_safety config)),
      c_state = CS_Idle, c_fault = FC_None\<rparr>"

section \<open>Handlers\<close>

type_synonym handler = "Controller \<times> Decision \<Rightarrow> Controller \<times> Decision"

definition add :: "ActionType \<Rightarrow> handler" where
  "add t = (\<lambda>(c, d). (c, Decision_add t 0 d))"

definition addTimed :: "ActionType \<Rightarrow> u32 \<Rightarrow> handler" where
  "addTimed t ms = (\<lambda>(c, d). (c, Decision_add t ms d))"

definition transition :: "ControllerState \<Rightarrow> handler" where
  "transition next = (\<lambda>(c, d). (c\<lparr>c_state := next\<rparr>, d\<lparr>d_state := next\<rparr>))"

definition set_fault :: "FaultCode \<Rightarrow> handler" where
  "set_fault f = (\<lambda>(c, d). (c\<lparr>c_fault := f\<rparr>, d))"

definition set_safety :: "SafetyAssessment \<Rightarrow> handler" where
  "set_safety a = (\<lambda>(c, d). (c, d\<lparr>d_safety := a\<rparr>))"

text \<open>Sequencing of statements: \<open>run [f, g, h]\<close> executes \<open>f; g; h;\<close>\<close>

definition run :: "handler list \<Rightarrow> handler" where
  "run hs = fold (\<lambda>h x. h x) hs"

definition engineIsRunning :: "Controller \<Rightarrow> VehicleState \<Rightarrow> bool" where
  "engineIsRunning c vehicle =
     (isFresh (vs_engineRpm vehicle) \<and>
      obs_value (vs_engineRpm vehicle) \<ge> cfg_runningRpmThreshold (c_safetyPolicy c))"

definition driverEntryDetected :: "VehicleState \<Rightarrow> bool" where
  "driverEntryDetected vehicle =
     (isFresh (vs_doorsClosed vehicle) \<and> \<not> obs_value (vs_doorsClosed vehicle))"

definition beginPreparing :: handler where
  "beginPreparing = (\<lambda>(c, d). run
     [transition CS_Preparing, add AT_CancelTimer, add AT_EnableIgnition,
      add AT_NotifyStartAccepted, addTimed AT_ArmTimer (preparationDelayMs (c_config c))] (c, d))"

definition beginCranking :: handler where
  "beginCranking = (\<lambda>(c, d). run
     [transition CS_Cranking, add AT_CancelTimer, add AT_EngageStarter,
      addTimed AT_ArmTimer (maximumCrankTimeMs (c_config c))] (c, d))"

definition beginRunning :: handler where
  "beginRunning = (\<lambda>(c, d). run
     [transition CS_Running, add AT_CancelTimer, add AT_DisengageStarter, add AT_NotifyRunning,
      addTimed AT_ArmTimer (cc_maximumRemoteRunTimeMs (c_config c))] (c, d))"

definition beginAwaitingTakeover :: handler where
  "beginAwaitingTakeover = (\<lambda>(c, d). run
     [transition CS_AwaitingTakeover, add AT_CancelTimer, add AT_NotifyTakeoverPending,
      addTimed AT_ArmTimer (cc_driverTakeoverTimeoutMs (c_config c))] (c, d))"

definition completeDriverTakeover :: handler where
  "completeDriverTakeover = run
     [transition CS_DriverControl, add AT_CancelTimer, add AT_DisengageStarter,
      add AT_ReleaseRemoteControl, add AT_NotifyTakeoverComplete]"

definition beginStopping :: handler where
  "beginStopping = (\<lambda>(c, d). run
     [transition CS_Stopping, add AT_CancelTimer, add AT_DisengageStarter, add AT_SecureOutputs,
      add AT_NotifyStopping,
      addTimed AT_ArmTimer (stopConfirmationTimeoutMs (c_config c))] (c, d))"

definition completeStop :: handler where
  "completeStop = run
     [transition CS_Idle, set_fault FC_None, add AT_CancelTimer, add AT_DisengageStarter,
      add AT_SecureOutputs, add AT_NotifyStopped]"

definition enterFault :: "FaultCode \<Rightarrow> handler" where
  "enterFault fault = run
     [transition CS_Fault, set_fault fault, add AT_CancelTimer, add AT_DisengageStarter,
      add AT_SecureOutputs, add AT_NotifyFault]"

definition handleStartRequest :: handler where
  "handleStartRequest = (\<lambda>(c, d).
     if c_state c \<noteq> CS_Idle then add AT_NotifyRequestIgnored (c, d)
     else if \<not> cc_remoteStartEnabled (c_config c)
     then run [add AT_SecureOutputs, add AT_NotifyRemoteStartDisabled] (c, d)
     else if \<not> ready (c_profileReadiness c)
     then run [add AT_SecureOutputs, add AT_NotifyProfileRejected] (c, d)
     else run [transition CS_Authorizing, add AT_RequestVehicleState,
               addTimed AT_ArmTimer (authorizationTimeoutMs (c_config c))] (c, d))"

definition handleStopRequest :: handler where
  "handleStopRequest = (\<lambda>(c, d).
     case c_state c of
       CS_Authorizing \<Rightarrow> completeStop (c, d)
     | CS_Preparing \<Rightarrow> completeStop (c, d)
     | CS_Cranking \<Rightarrow> completeStop (c, d)
     | CS_Running \<Rightarrow> beginStopping (c, d)
     | CS_AwaitingTakeover \<Rightarrow> beginStopping (c, d)
     | CS_DriverControl \<Rightarrow> add AT_NotifyRequestIgnored (c, d)
     | CS_Fault \<Rightarrow> run [add AT_SecureOutputs, add AT_NotifyRequestIgnored] (c, d)
     | CS_Idle \<Rightarrow> add AT_NotifyStopped (c, d)
     | CS_Stopping \<Rightarrow> add AT_NotifyRequestIgnored (c, d))"

definition handleVehicleUpdate :: "VehicleState \<Rightarrow> handler" where
  "handleVehicleUpdate vehicle = (\<lambda>(c, d).
     case c_state c of
       CS_Authorizing \<Rightarrow>
         (let a = assessStart (c_safetyPolicy c) vehicle in
          if approved a then run [set_safety a, beginPreparing] (c, d)
          else run [set_safety a, transition CS_Idle, set_fault FC_None, add AT_CancelTimer,
                    add AT_SecureOutputs, add AT_NotifyStartRejected] (c, d))
     | CS_Preparing \<Rightarrow>
         (let a = assessStart (c_safetyPolicy c) vehicle in
          if \<not> approved a then run [set_safety a, enterFault FC_SafetyInterlock] (c, d)
          else set_safety a (c, d))
     | CS_Cranking \<Rightarrow>
         (let a = assessCranking (c_safetyPolicy c) vehicle in
          if \<not> approved a then run [set_safety a, enterFault FC_SafetyInterlock] (c, d)
          else if engineIsRunning c vehicle then run [set_safety a, beginRunning] (c, d)
          else set_safety a (c, d))
     | CS_Running \<Rightarrow>
         (if driverEntryDetected vehicle then
            (if cc_driverEntryMode (c_config c) = DE_RequireTakeover then
               (let a = assessDriverTakeover (c_safetyPolicy c) vehicle in
                if approved a then run [set_safety a, beginAwaitingTakeover] (c, d)
                else run [set_safety a, enterFault FC_SafetyInterlock] (c, d))
             else beginStopping (c, d))
          else
            (let a = assessRemoteRun (c_safetyPolicy c) vehicle in
             if \<not> approved a then run [set_safety a, enterFault FC_SafetyInterlock] (c, d)
             else set_safety a (c, d)))
     | CS_AwaitingTakeover \<Rightarrow>
         (let a = assessDriverTakeover (c_safetyPolicy c) vehicle in
          if \<not> approved a then run [set_safety a, enterFault FC_SafetyInterlock] (c, d)
          else set_safety a (c, d))
     | CS_DriverControl \<Rightarrow>
         (if isFresh (vs_engineRpm vehicle) \<and> \<not> engineIsRunning c vehicle
          then run [transition CS_Idle, add AT_NotifyReady] (c, d) else (c, d))
     | CS_Stopping \<Rightarrow>
         (if isFresh (vs_engineRpm vehicle) \<and> \<not> engineIsRunning c vehicle
          then completeStop (c, d) else (c, d))
     | CS_Idle \<Rightarrow> (c, d)
     | CS_Fault \<Rightarrow> (c, d))"

definition handleTimer :: "VehicleState \<Rightarrow> handler" where
  "handleTimer vehicle = (\<lambda>(c, d).
     case c_state c of
       CS_Authorizing \<Rightarrow> enterFault FC_AuthorizationTimeout (c, d)
     | CS_Preparing \<Rightarrow>
         (let a = assessStart (c_safetyPolicy c) vehicle in
          if approved a then run [set_safety a, beginCranking] (c, d)
          else run [set_safety a, enterFault FC_SafetyInterlock] (c, d))
     | CS_Cranking \<Rightarrow> enterFault FC_CrankTimeout (c, d)
     | CS_Running \<Rightarrow> beginStopping (c, d)
     | CS_AwaitingTakeover \<Rightarrow> beginStopping (c, d)
     | CS_DriverControl \<Rightarrow> (c, d)
     | CS_Stopping \<Rightarrow> enterFault FC_StopTimeout (c, d)
     | CS_Idle \<Rightarrow> (c, d)
     | CS_Fault \<Rightarrow> (c, d))"

definition handleDriverTakeover :: "VehicleState \<Rightarrow> handler" where
  "handleDriverTakeover vehicle = (\<lambda>(c, d).
     if c_state c \<noteq> CS_AwaitingTakeover then add AT_NotifyRequestIgnored (c, d)
     else
       (let a = assessDriverTakeover (c_safetyPolicy c) vehicle in
        if \<not> approved a then run [set_safety a, enterFault FC_SafetyInterlock] (c, d)
        else run [set_safety a, completeDriverTakeover] (c, d)))"

definition handleReset :: "VehicleState \<Rightarrow> handler" where
  "handleReset vehicle = (\<lambda>(c, d).
     if c_state c \<noteq> CS_Fault then add AT_NotifyRequestIgnored (c, d)
     else
       (let engineStopped = isFresh (vs_engineRpm vehicle) \<and> \<not> engineIsRunning c vehicle;
            noCriticalFault = isFresh (vs_criticalFaultPresent vehicle) \<and>
                              \<not> obs_value (vs_criticalFaultPresent vehicle)
        in if \<not> engineStopped \<or> \<not> noCriticalFault
           then run [add AT_SecureOutputs, add AT_NotifyResetRejected] (c, d)
           else run [transition CS_Idle, set_fault FC_None, add AT_CancelTimer,
                     add AT_SecureOutputs, add AT_NotifyReady] (c, d)))"

definition Controller_handle :: "Event \<Rightarrow> VehicleState \<Rightarrow> Controller \<Rightarrow> Controller \<times> Decision" where
  "Controller_handle event vehicle c =
     (let d = Decision_default\<lparr>previousState := c_state c, d_state := c_state c,
                previousFault := c_fault c, d_fault := c_fault c,
                d_profileReadiness := c_profileReadiness c\<rparr>;
          (c', d') =
            (case ev_type event of
               ET_RemoteStartRequested \<Rightarrow> handleStartRequest (c, d)
             | ET_RemoteStopRequested \<Rightarrow> handleStopRequest (c, d)
             | ET_VehicleStateUpdated \<Rightarrow> handleVehicleUpdate vehicle (c, d)
             | ET_TimerElapsed \<Rightarrow> handleTimer vehicle (c, d)
             | ET_DriverTakeoverConfirmed \<Rightarrow> handleDriverTakeover vehicle (c, d)
             | ET_InfrastructureFailure \<Rightarrow>
                 enterFault (if ev_fault event = FC_None then FC_InternalError
                             else ev_fault event) (c, d)
             | ET_ResetRequested \<Rightarrow> handleReset vehicle (c, d))
      in (c', d'\<lparr>d_state := c_state c', d_fault := c_fault c'\<rparr>))"

section \<open>Names\<close>

fun ControllerState_toString :: "ControllerState \<Rightarrow> string" where
  "ControllerState_toString CS_Idle = ''idle''"
| "ControllerState_toString CS_Authorizing = ''authorizing''"
| "ControllerState_toString CS_Preparing = ''preparing''"
| "ControllerState_toString CS_Cranking = ''cranking''"
| "ControllerState_toString CS_Running = ''running''"
| "ControllerState_toString CS_AwaitingTakeover = ''awaiting_takeover''"
| "ControllerState_toString CS_DriverControl = ''driver_control''"
| "ControllerState_toString CS_Stopping = ''stopping''"
| "ControllerState_toString CS_Fault = ''fault''"

fun FaultCode_toString :: "FaultCode \<Rightarrow> string" where
  "FaultCode_toString FC_None = ''none''"
| "FaultCode_toString FC_SafetyInterlock = ''safety_interlock''"
| "FaultCode_toString FC_VehicleCommunication = ''vehicle_communication''"
| "FaultCode_toString FC_AuthorizationTimeout = ''authorization_timeout''"
| "FaultCode_toString FC_CrankTimeout = ''crank_timeout''"
| "FaultCode_toString FC_StopTimeout = ''stop_timeout''"
| "FaultCode_toString FC_ActuatorFailure = ''actuator_failure''"
| "FaultCode_toString FC_TimerFailure = ''timer_failure''"
| "FaultCode_toString FC_InternalError = ''internal_error''"

fun EventType_toString :: "EventType \<Rightarrow> string" where
  "EventType_toString ET_RemoteStartRequested = ''remote_start_requested''"
| "EventType_toString ET_RemoteStopRequested = ''remote_stop_requested''"
| "EventType_toString ET_VehicleStateUpdated = ''vehicle_state_updated''"
| "EventType_toString ET_TimerElapsed = ''timer_elapsed''"
| "EventType_toString ET_DriverTakeoverConfirmed = ''driver_takeover_confirmed''"
| "EventType_toString ET_InfrastructureFailure = ''infrastructure_failure''"
| "EventType_toString ET_ResetRequested = ''reset_requested''"

fun ActionType_toString :: "ActionType \<Rightarrow> string" where
  "ActionType_toString AT_RequestVehicleState = ''request_vehicle_state''"
| "ActionType_toString AT_EnableIgnition = ''enable_ignition''"
| "ActionType_toString AT_EngageStarter = ''engage_starter''"
| "ActionType_toString AT_DisengageStarter = ''disengage_starter''"
| "ActionType_toString AT_ReleaseRemoteControl = ''release_remote_control''"
| "ActionType_toString AT_SecureOutputs = ''secure_outputs''"
| "ActionType_toString AT_ArmTimer = ''arm_timer''"
| "ActionType_toString AT_CancelTimer = ''cancel_timer''"
| "ActionType_toString AT_NotifyProfileRejected = ''notify_profile_rejected''"
| "ActionType_toString AT_NotifyRemoteStartDisabled = ''notify_remote_start_disabled''"
| "ActionType_toString AT_NotifyStartAccepted = ''notify_start_accepted''"
| "ActionType_toString AT_NotifyStartRejected = ''notify_start_rejected''"
| "ActionType_toString AT_NotifyRunning = ''notify_running''"
| "ActionType_toString AT_NotifyTakeoverPending = ''notify_takeover_pending''"
| "ActionType_toString AT_NotifyTakeoverComplete = ''notify_takeover_complete''"
| "ActionType_toString AT_NotifyStopping = ''notify_stopping''"
| "ActionType_toString AT_NotifyStopped = ''notify_stopped''"
| "ActionType_toString AT_NotifyFault = ''notify_fault''"
| "ActionType_toString AT_NotifyReady = ''notify_ready''"
| "ActionType_toString AT_NotifyRequestIgnored = ''notify_request_ignored''"
| "ActionType_toString AT_NotifyResetRejected = ''notify_reset_rejected''"

end
