(* ===== verification/Samples.thy ===== *)
theory Samples
  imports Controller
begin

text \<open>
  Concrete profiles, vehicle states and configurations on which the properties are instantiated:
  a fully qualified profile, the same vehicle parked and secured, cranking, running, and with the
  driver's door open.
\<close>

definition sample_profile :: VehicleProfile where
  "sample_profile =
     e90_2009_n47d20c_automatic
       \<lparr>vp_qualification := QS_ReadOnlyValidated, vp_hoodInterlockSource := HI_VehicleSignal,
        vp_signals := replicate vehicleSignalCount SS_Verified\<rparr>"

definition parked_vehicle :: VehicleState where
  "parked_vehicle =
     VehicleState_default
       \<lparr>vs_batteryMillivolts := Observed_fresh 12600, vs_engineRpm := Observed_fresh 0,
        vs_hoodClosed := Observed_fresh True, vs_doorsClosed := Observed_fresh True,
        vs_trunkClosed := Observed_fresh True, vs_brakePressed := Observed_fresh False,
        vs_parkingBrakeApplied := Observed_fresh True,
        vs_transmission := Observed_fresh TR_Automatic, vs_gear := Observed_fresh GE_Park,
        vs_criticalFaultPresent := Observed_fresh False\<rparr>"

definition running_vehicle :: VehicleState where
  "running_vehicle = parked_vehicle\<lparr>vs_engineRpm := Observed_fresh 800\<rparr>"

definition entered_vehicle :: VehicleState where
  "entered_vehicle = running_vehicle\<lparr>vs_doorsClosed := Observed_fresh False\<rparr>"

definition sample_config :: ControllerConfig where
  "sample_config = ControllerConfig_default\<lparr>vehicleProfile := Some sample_profile\<rparr>"

lemmas sample_defs =
  sample_profile_def parked_vehicle_def running_vehicle_def entered_vehicle_def sample_config_def

lemma sample_signals [simp]:
  "vs_engineRpm parked_vehicle = Observed_fresh 0"
  "vs_engineRpm running_vehicle = Observed_fresh 800"
  "vs_criticalFaultPresent parked_vehicle = Observed_fresh False"
  "vs_criticalFaultPresent running_vehicle = Observed_fresh False"
  by (simp_all add: sample_defs)

end
