(* ===== verification/ControllerSafety.thy ===== *)
theory ControllerSafety
  imports Samples
begin

text \<open>
  Behaviour of the remote-start controller: one lemma per question about a single step (which
  transitions exist, which actions are emitted under which guard), then the same facts along every
  event sequence.  The abstract specification is \<open>outputs_for\<close>: what ignition, starter and timer
  must be in each controller state.
\<close>

section \<open>Unfolding one step\<close>

lemmas handler_defs =
  run_def add_def addTimed_def transition_def set_fault_def set_safety_def
  beginPreparing_def beginCranking_def beginRunning_def beginAwaitingTakeover_def
  completeDriverTakeover_def beginStopping_def completeStop_def enterFault_def
  handleStartRequest_def handleStopRequest_def handleVehicleUpdate_def handleTimer_def
  handleDriverTakeover_def handleReset_def

lemmas step_unfold =
  Controller_handle_def handler_defs Decision_default_def Decision_add_def MaximumActions_def Let_def

lemma actions_contain_set: "actions_contain as t \<longleftrightarrow> t \<in> act_type ` set as"
  by (induction as) auto

definition next_controller :: "Event \<Rightarrow> VehicleState \<Rightarrow> Controller \<Rightarrow> Controller" where
  "next_controller e v c = fst (Controller_handle e v c)"

definition decision_of :: "Event \<Rightarrow> VehicleState \<Rightarrow> Controller \<Rightarrow> Decision" where
  "decision_of e v c = snd (Controller_handle e v c)"

lemma Controller_handle_pair:
  "Controller_handle e v c = (next_controller e v c, decision_of e v c)"
  by (simp add: next_controller_def decision_of_def)

text \<open>The configuration and the profile assessment never change.\<close>

definition fixed_part :: "Controller \<times> Decision \<Rightarrow>
    ControllerConfig \<times> SafetyPolicyConfig \<times> ProfileReadinessAssessment \<times> ControllerState \<times> FaultCode \<times>
      ProfileReadinessAssessment" where
  "fixed_part = (\<lambda>(c, d).
     (c_config c, c_safetyPolicy c, c_profileReadiness c, previousState d, previousFault d,
      d_profileReadiness d))"

lemma fixed_steps [simp]:
  "fixed_part (add t x) = fixed_part x" "fixed_part (addTimed t ms x) = fixed_part x"
  "fixed_part (transition s x) = fixed_part x" "fixed_part (set_fault f x) = fixed_part x"
  "fixed_part (set_safety a x) = fixed_part x"
  "fixed_part (run [] x) = fixed_part x" "fixed_part (run (h # hs) x) = fixed_part (run hs (h x))"
  by (cases x; simp add: fixed_part_def add_def addTimed_def Decision_add_def transition_def
      set_fault_def set_safety_def run_def)+

lemma fixed_begins [simp]:
  "fixed_part (beginPreparing x) = fixed_part x" "fixed_part (beginCranking x) = fixed_part x"
  "fixed_part (beginRunning x) = fixed_part x" "fixed_part (beginAwaitingTakeover x) = fixed_part x"
  "fixed_part (completeDriverTakeover x) = fixed_part x" "fixed_part (beginStopping x) = fixed_part x"
  "fixed_part (completeStop x) = fixed_part x" "fixed_part (enterFault f x) = fixed_part x"
  by (cases x; simp add: beginPreparing_def beginCranking_def beginRunning_def
      beginAwaitingTakeover_def completeDriverTakeover_def beginStopping_def completeStop_def
      enterFault_def)+

lemma fixed_handlers [simp]:
  "fixed_part (handleStartRequest x) = fixed_part x" "fixed_part (handleStopRequest x) = fixed_part x"
  "fixed_part (handleVehicleUpdate v x) = fixed_part x" "fixed_part (handleTimer v x) = fixed_part x"
  "fixed_part (handleDriverTakeover v x) = fixed_part x" "fixed_part (handleReset v x) = fixed_part x"
  by (cases x; simp add: handleStartRequest_def handleStopRequest_def handleVehicleUpdate_def
      handleTimer_def handleDriverTakeover_def handleReset_def Let_def split: ControllerState.split)+

lemma fixed_final:
  "fixed_part (case x of (c, d) \<Rightarrow> (c, d\<lparr>d_state := s c, d_fault := f c\<rparr>)) = fixed_part x"
  by (cases x) (simp add: fixed_part_def)

lemma handle_preserves:
  "c_config (fst (Controller_handle e v c)) = c_config c \<and>
   c_safetyPolicy (fst (Controller_handle e v c)) = c_safetyPolicy c \<and>
   c_profileReadiness (fst (Controller_handle e v c)) = c_profileReadiness c \<and>
   previousState (snd (Controller_handle e v c)) = c_state c \<and>
   previousFault (snd (Controller_handle e v c)) = c_fault c \<and>
   d_profileReadiness (snd (Controller_handle e v c)) = c_profileReadiness c"
proof -
  let ?d = "Decision_default\<lparr>previousState := c_state c, d_state := c_state c,
    previousFault := c_fault c, d_fault := c_fault c, d_profileReadiness := c_profileReadiness c\<rparr>"
  have "fixed_part (Controller_handle e v c) = fixed_part (c, ?d)"
    by (cases "ev_type e") (simp_all add: Controller_handle_def Let_def fixed_final)
  then show ?thesis by (simp add: fixed_part_def case_prod_unfold)
qed

lemma handle_config [simp]:
  "c_config (next_controller e v c) = c_config c"
  "c_safetyPolicy (next_controller e v c) = c_safetyPolicy c"
  "c_profileReadiness (next_controller e v c) = c_profileReadiness c"
  using handle_preserves [of e v c] by (simp_all add: next_controller_def)

lemma handle_frame [simp]:
  "previousState (decision_of e v c) = c_state c"
  "previousFault (decision_of e v c) = c_fault c"
  "d_state (decision_of e v c) = c_state (next_controller e v c)"
  "d_fault (decision_of e v c) = c_fault (next_controller e v c)"
  "d_profileReadiness (decision_of e v c) = c_profileReadiness c"
  using handle_preserves [of e v c]
  by (simp_all add: next_controller_def decision_of_def Controller_handle_def Let_def
      case_prod_unfold)

lemma handle_action_bound: "length (actions (decision_of e v c)) \<le> 5"
  unfolding decision_of_def
  by (cases "ev_type e"; cases "c_state c"; simp add: step_unfold)

section \<open>The transition diagram\<close>

text \<open>Every state change the code can make, with the event that makes it.\<close>

inductive ctrl_edge :: "EventType \<Rightarrow> ControllerState \<Rightarrow> ControllerState \<Rightarrow> bool" where
  start: "ctrl_edge ET_RemoteStartRequested CS_Idle CS_Authorizing"
| accept: "ctrl_edge ET_VehicleStateUpdated CS_Authorizing CS_Preparing"
| refuse: "ctrl_edge ET_VehicleStateUpdated CS_Authorizing CS_Idle"
| crank: "ctrl_edge ET_TimerElapsed CS_Preparing CS_Cranking"
| started: "ctrl_edge ET_VehicleStateUpdated CS_Cranking CS_Running"
| entry: "ctrl_edge ET_VehicleStateUpdated CS_Running CS_AwaitingTakeover"
| entry_stop: "ctrl_edge ET_VehicleStateUpdated CS_Running CS_Stopping"
| takeover: "ctrl_edge ET_DriverTakeoverConfirmed CS_AwaitingTakeover CS_DriverControl"
| driver_stop: "ctrl_edge ET_VehicleStateUpdated CS_DriverControl CS_Idle"
| stopped: "ctrl_edge ET_VehicleStateUpdated CS_Stopping CS_Idle"
| abort: "s \<in> {CS_Authorizing, CS_Preparing, CS_Cranking} \<Longrightarrow>
     ctrl_edge ET_RemoteStopRequested s CS_Idle"
| stop: "s \<in> {CS_Running, CS_AwaitingTakeover} \<Longrightarrow>
     ctrl_edge ET_RemoteStopRequested s CS_Stopping"
| timeout_stop: "s \<in> {CS_Running, CS_AwaitingTakeover} \<Longrightarrow>
     ctrl_edge ET_TimerElapsed s CS_Stopping"
| timeout_fault: "s \<in> {CS_Authorizing, CS_Preparing, CS_Cranking, CS_Stopping} \<Longrightarrow>
     ctrl_edge ET_TimerElapsed s CS_Fault"
| interlock: "s \<in> {CS_Preparing, CS_Cranking, CS_Running, CS_AwaitingTakeover} \<Longrightarrow>
     ctrl_edge ET_VehicleStateUpdated s CS_Fault"
| takeover_fault: "ctrl_edge ET_DriverTakeoverConfirmed CS_AwaitingTakeover CS_Fault"
| failure: "ctrl_edge ET_InfrastructureFailure s CS_Fault"
| reset: "ctrl_edge ET_ResetRequested CS_Fault CS_Idle"

inductive_simps ctrl_edge_simps: "ctrl_edge e s s'"
inductive_cases ctrl_edge_from_FaultE: "ctrl_edge e CS_Fault s'"

lemma handle_edge:
  "c_state (next_controller e v c) = c_state c \<or>
   ctrl_edge (ev_type e) (c_state c) (c_state (next_controller e v c))"
  unfolding next_controller_def
  by (cases "ev_type e"; cases "c_state c"; simp add: step_unfold ctrl_edge.intros)

lemma fault_latched:
  "c_state c = CS_Fault \<Longrightarrow> c_state (next_controller e v c) \<noteq> CS_Fault \<Longrightarrow>
     ev_type e = ET_ResetRequested \<and> c_state (next_controller e v c) = CS_Idle"
  using handle_edge [of e v c] by (auto elim: ctrl_edge_from_FaultE)

section \<open>Guards of the dangerous actions\<close>

lemma engage_guard:
  "AT_EngageStarter \<in> act_type ` set (actions (decision_of e v c)) \<longleftrightarrow>
     c_state c = CS_Preparing \<and> ev_type e = ET_TimerElapsed \<and>
     approved (assessStart (c_safetyPolicy c) v)"
  unfolding decision_of_def
  by (cases "ev_type e"; cases "c_state c"; simp add: step_unfold)

lemma ignition_guard:
  "AT_EnableIgnition \<in> act_type ` set (actions (decision_of e v c)) \<longleftrightarrow>
     c_state c = CS_Authorizing \<and> ev_type e = ET_VehicleStateUpdated \<and>
     approved (assessStart (c_safetyPolicy c) v)"
  unfolding decision_of_def
  by (cases "ev_type e"; cases "c_state c"; simp add: step_unfold)

lemma start_guard:
  "c_state c = CS_Idle \<Longrightarrow> c_state (next_controller e v c) \<notin> {CS_Idle, CS_Fault} \<Longrightarrow>
     ev_type e = ET_RemoteStartRequested \<and> cc_remoteStartEnabled (c_config c) \<and>
     ready (c_profileReadiness c)"
  unfolding next_controller_def
  by (cases "ev_type e"; simp add: step_unfold split: if_splits)

lemma reset_guard:
  "c_state c = CS_Fault \<Longrightarrow> c_state (next_controller e v c) = CS_Idle \<longleftrightarrow>
     ev_type e = ET_ResetRequested \<and>
     fresh_and (vs_engineRpm v) (\<lambda>rpm. rpm < cfg_runningRpmThreshold (c_safetyPolicy c)) \<and>
     fresh_and (vs_criticalFaultPresent v) Not"
  unfolding next_controller_def
  by (cases "ev_type e"; simp add: step_unfold fresh_and_def engineIsRunning_def not_le)

section \<open>What the actions do to the outputs\<close>

text \<open>
  The meaning of an executed action for ignition, starter and the one-shot timer, as the ports
  document it.
\<close>

record Outputs =
  out_ignition :: bool
  out_starter :: bool
  out_timer :: "u32 option"

definition outputs_off :: Outputs where
  "outputs_off = \<lparr>out_ignition = False, out_starter = False, out_timer = None\<rparr>"

definition apply_action :: "Action \<Rightarrow> Outputs \<Rightarrow> Outputs" where
  "apply_action a out =
     (case act_type a of
        AT_EnableIgnition \<Rightarrow> out\<lparr>out_ignition := True\<rparr>
      | AT_EngageStarter \<Rightarrow> out\<lparr>out_starter := True\<rparr>
      | AT_DisengageStarter \<Rightarrow> out\<lparr>out_starter := False\<rparr>
      | AT_ReleaseRemoteControl \<Rightarrow> out\<lparr>out_ignition := False, out_starter := False\<rparr>
      | AT_SecureOutputs \<Rightarrow> out\<lparr>out_ignition := False, out_starter := False\<rparr>
      | AT_ArmTimer \<Rightarrow> out\<lparr>out_timer := Some (act_durationMs a)\<rparr>
      | AT_CancelTimer \<Rightarrow> out\<lparr>out_timer := None\<rparr>
      | _ \<Rightarrow> out)"

definition outputs_for :: "ControllerConfig \<Rightarrow> ControllerState \<Rightarrow> Outputs" where
  "outputs_for config s =
     \<lparr>out_ignition = (s \<in> {CS_Preparing, CS_Cranking, CS_Running, CS_AwaitingTakeover}),
      out_starter = (s = CS_Cranking),
      out_timer =
        (case s of
           CS_Authorizing \<Rightarrow> Some (authorizationTimeoutMs config)
         | CS_Preparing \<Rightarrow> Some (preparationDelayMs config)
         | CS_Cranking \<Rightarrow> Some (maximumCrankTimeMs config)
         | CS_Running \<Rightarrow> Some (cc_maximumRemoteRunTimeMs config)
         | CS_AwaitingTakeover \<Rightarrow> Some (cc_driverTakeoverTimeoutMs config)
         | CS_Stopping \<Rightarrow> Some (stopConfirmationTimeoutMs config)
         | _ \<Rightarrow> None)\<rparr>"

text \<open>A \<open>TimerElapsed\<close> event is the expiry of the one-shot timer: it is no longer pending.\<close>

definition expire :: "Event \<Rightarrow> Outputs \<Rightarrow> Outputs" where
  "expire e out = (if ev_type e = ET_TimerElapsed then out\<lparr>out_timer := None\<rparr> else out)"

lemma handle_outputs:
  "fold apply_action (actions (decision_of e v c)) (expire e (outputs_for (c_config c) (c_state c)))
   = outputs_for (c_config c) (c_state (next_controller e v c))"
  unfolding decision_of_def next_controller_def
  by (cases "ev_type e"; cases "c_state c";
      simp add: step_unfold expire_def apply_action_def outputs_for_def)

section \<open>Event sequences\<close>

type_synonym stimulus = "Event \<times> VehicleState"

fun ctrl_run :: "stimulus list \<Rightarrow> Controller \<times> Outputs \<Rightarrow> Controller \<times> Outputs" where
  "ctrl_run [] x = x"
| "ctrl_run ((e, v) # es) (c, out) =
     ctrl_run es (next_controller e v c,
                  fold apply_action (actions (decision_of e v c)) (expire e out))"

lemma ctrl_run_config: "c_config (fst (ctrl_run es (c, out))) = c_config c"
  by (induction es "(c, out)" arbitrary: c out rule: ctrl_run.induct) auto

lemma ctrl_run_append: "ctrl_run (es @ es') x = ctrl_run es' (ctrl_run es x)"
  by (induction es x rule: ctrl_run.induct) auto

lemma ctrl_run_outputs:
  "out = outputs_for (c_config c) (c_state c) \<Longrightarrow>
     snd (ctrl_run es (c, out)) = outputs_for (c_config c) (c_state (fst (ctrl_run es (c, out))))"
proof (induction es arbitrary: c out)
  case Nil
  then show ?case by simp
next
  case (Cons x es)
  obtain e v where x: "x = (e, v)" by (cases x)
  from Cons.prems show ?case
    by (simp add: x handle_outputs Cons.IH)
qed

lemma outputs_for_Idle [simp]: "outputs_for config CS_Idle = outputs_off"
  by (simp add: outputs_for_def outputs_off_def)

lemma mkController_simps [simp]:
  "c_config (mkController config) = config"
  "c_state (mkController config) = CS_Idle"
  "c_fault (mkController config) = FC_None"
  "c_safetyPolicy (mkController config) = cc_safety config"
  by (simp_all add: mkController_def)

lemma fresh_run_outputs:
  "snd (ctrl_run es (mkController config, outputs_off)) =
     outputs_for config (c_state (fst (ctrl_run es (mkController config, outputs_off))))"
  using ctrl_run_outputs [of outputs_off "mkController config" es]
  by (simp add: ctrl_run_config)

section \<open>Invariants of every run\<close>

definition fault_inv :: "Controller \<Rightarrow> bool" where
  "fault_inv c \<longleftrightarrow> (c_state c = CS_Fault \<longleftrightarrow> c_fault c \<noteq> FC_None)"

lemma handle_fault_inv: "fault_inv c \<Longrightarrow> fault_inv (next_controller e v c)"
  unfolding next_controller_def fault_inv_def
  by (cases "ev_type e"; cases "c_state c"; simp add: step_unfold)

lemma ctrl_run_invariant:
  assumes step: "\<And>e v c. I c \<Longrightarrow> I (next_controller e v c)"
  shows "I c \<Longrightarrow> I (fst (ctrl_run es (c, out)))"
proof (induction es arbitrary: c out)
  case Nil
  then show ?case by simp
next
  case (Cons x es)
  then show ?case by (cases x) (simp add: step)
qed

lemma ctrl_run_fault_inv: "fault_inv (fst (ctrl_run es (mkController config, out)))"
  by (rule ctrl_run_invariant) (simp_all add: handle_fault_inv, simp add: fault_inv_def)

text \<open>A controller that cannot start: disabled by the user or without a ready profile.\<close>

definition never_started :: "Controller \<Rightarrow> bool" where
  "never_started c \<longleftrightarrow>
     (\<not> cc_remoteStartEnabled (c_config c) \<or> \<not> ready (c_profileReadiness c)) \<and>
     c_state c \<in> {CS_Idle, CS_Fault}"

lemma handle_never_started: "never_started c \<Longrightarrow> never_started (next_controller e v c)"
  using start_guard [of c e v] fault_latched [of c e v]
  by (auto simp: never_started_def)

lemma ctrl_run_never_started:
  "never_started c \<Longrightarrow> never_started (fst (ctrl_run es (c, out)))"
  by (rule ctrl_run_invariant) (simp_all add: handle_never_started)

section \<open>Timers force every session to end\<close>

text \<open>How many expiries separate a state from one with nothing energised and no timer.\<close>

fun expiry_rank :: "ControllerState \<Rightarrow> nat" where
  "expiry_rank CS_Preparing = 2"
| "expiry_rank CS_Authorizing = 1"
| "expiry_rank CS_Cranking = 1"
| "expiry_rank CS_Running = 2"
| "expiry_rank CS_AwaitingTakeover = 2"
| "expiry_rank CS_Stopping = 1"
| "expiry_rank CS_Idle = 0"
| "expiry_rank CS_DriverControl = 0"
| "expiry_rank CS_Fault = 0"

lemma expiry_rank_decreases:
  "ev_type e = ET_TimerElapsed \<Longrightarrow>
     expiry_rank (c_state (next_controller e v c)) \<le> expiry_rank (c_state c) - 1"
  unfolding next_controller_def by (cases "c_state c"; simp add: step_unfold)

lemma expiry_rank_bound: "expiry_rank s \<le> 2"
  by (cases s) simp_all

lemma expiries_run:
  "\<forall>(e, v) \<in> set es. ev_type e = ET_TimerElapsed \<Longrightarrow>
     expiry_rank (c_state (fst (ctrl_run es (c, out)))) \<le> expiry_rank (c_state c) - length es"
proof (induction es arbitrary: c out)
  case Nil
  then show ?case by simp
next
  case (Cons x es)
  obtain e v where x: "x = (e, v)" by (cases x)
  with Cons.prems have e: "ev_type e = ET_TimerElapsed" by simp
  let ?c = "next_controller e v c"
  let ?out = "fold apply_action (actions (decision_of e v c)) (expire e out)"
  have "expiry_rank (c_state (fst (ctrl_run es (?c, ?out)))) \<le> expiry_rank (c_state ?c) - length es"
    using Cons.prems by (intro Cons.IH) simp
  with expiry_rank_decreases [OF e, of v c] show ?case by (simp add: x)
qed

lemma expiry_rank_zero: "expiry_rank s = 0 \<longleftrightarrow> s \<in> {CS_Idle, CS_DriverControl, CS_Fault}"
  by (cases s) simp_all

section \<open>Properties of the controller\<close>

text \<open>C3: Along every event sequence, the ignition, the starter and the one-shot timer commanded by
  the executed actions are exactly those of the controller's state: the starter only while
  cranking, ignition only from preparation to takeover, and a timer pending in every state that
  has something energised.\<close>

theorem outputs_follow_state:
  "snd (ctrl_run es (mkController config, outputs_off)) =
     outputs_for config (c_state (fst (ctrl_run es (mkController config, outputs_off))))"
  by (rule fresh_run_outputs)

text \<open>C4: The starter is engaged only on the expiry of the preparation timer, and ignition is
  enabled only on the vehicle update that follows an authorised request; both need every start
  interlock, read fail-closed: battery, parking brake, no critical fault, transmission, brake
  pedal, and, as configured, hood, doors and trunk, with the engine speed below the threshold.\<close>

theorem energising_needs_every_interlock:
  "(Decision_contains (decision_of e v c) AT_EngageStarter \<longleftrightarrow>
      c_state c = CS_Preparing \<and> ev_type e = ET_TimerElapsed \<and>
      common_interlocks (c_safetyPolicy c) (sp_requireVehicleSecured (c_safetyPolicy c))
        (sp_requireVehicleSecured (c_safetyPolicy c)) True v \<and>
      fresh_and (vs_engineRpm v) (\<lambda>rpm. rpm < cfg_runningRpmThreshold (c_safetyPolicy c))) \<and>
   (Decision_contains (decision_of e v c) AT_EnableIgnition \<longleftrightarrow>
      c_state c = CS_Authorizing \<and> ev_type e = ET_VehicleStateUpdated \<and>
      common_interlocks (c_safetyPolicy c) (sp_requireVehicleSecured (c_safetyPolicy c))
        (sp_requireVehicleSecured (c_safetyPolicy c)) True v \<and>
      fresh_and (vs_engineRpm v) (\<lambda>rpm. rpm < cfg_runningRpmThreshold (c_safetyPolicy c)))"
  unfolding Decision_contains_def actions_contain_set engage_guard ignition_guard
    approved_assessStart by simp


definition faulted_controller :: Controller where
  "faulted_controller =
     (mkController sample_config)\<lparr>c_state := CS_Fault, c_fault := FC_CrankTimeout\<rparr>"


text \<open>C6: Timers bound every session: whatever happened before, two consecutive timer expiries,
  with any vehicle states, leave the controller in idle, driver control or fault, with ignition
  and starter off and no timer pending.\<close>

theorem two_expiries_secure:
  assumes "ev_type e1 = ET_TimerElapsed" and "ev_type e2 = ET_TimerElapsed"
    and final_def: "final = ctrl_run (es @ [(e1, v1), (e2, v2)]) (mkController config, outputs_off)"
  shows "c_state (fst final) \<in> {CS_Idle, CS_DriverControl, CS_Fault} \<and> snd final = outputs_off"
proof -
  let ?mid = "ctrl_run es (mkController config, outputs_off)"
  have final: "final = ctrl_run [(e1, v1), (e2, v2)] ?mid"
    unfolding final_def by (rule ctrl_run_append)
  have "expiry_rank (c_state (fst final)) \<le> expiry_rank (c_state (fst ?mid)) - 2"
    using expiries_run [of "[(e1, v1), (e2, v2)]" "fst ?mid" "snd ?mid"] assms
    by (simp add: final)
  then have state: "c_state (fst final) \<in> {CS_Idle, CS_DriverControl, CS_Fault}"
    using expiry_rank_bound [of "c_state (fst ?mid)"] expiry_rank_zero by force
  moreover have "snd final = outputs_for config (c_state (fst final))"
    unfolding final_def by (rule fresh_run_outputs)
  ultimately show ?thesis by (auto simp: outputs_for_def outputs_off_def)
qed

definition to_preparing :: "stimulus list" where
  "to_preparing =
     [(Event_of ET_RemoteStartRequested, parked_vehicle),
      (Event_of ET_VehicleStateUpdated, parked_vehicle)]"

lemma two_expiries_secure_witness:
  "c_state (fst (ctrl_run to_preparing (mkController sample_config, outputs_off))) =
     CS_Preparing \<and>
   c_state (fst (ctrl_run (to_preparing @
        [(Event_of ET_TimerElapsed, parked_vehicle), (Event_of ET_TimerElapsed, parked_vehicle)])
      (mkController sample_config, outputs_off))) \<in> {CS_Idle, CS_DriverControl, CS_Fault}"
proof -
  have "c_state (fst (ctrl_run to_preparing (mkController sample_config, outputs_off))) =
      CS_Preparing"
    by code_simp
  then show ?thesis
    using two_expiries_secure [of "Event_of ET_TimerElapsed" "Event_of ET_TimerElapsed" _
        to_preparing parked_vehicle parked_vehicle sample_config, OF _ _ refl]
    by (simp add: Event_of_def)
qed

text \<open>Every state change the controller makes is one of the documented transitions, and a
  decision carries at most five of the eight actions its array can hold, so none is dropped.\<close>

theorem transition_diagram:
  "(c_state (next_controller e v c) = c_state c \<or>
    ctrl_edge (ev_type e) (c_state c) (c_state (next_controller e v c))) \<and>
   length (actions (decision_of e v c)) \<le> 5"
  using handle_edge [of e v c] handle_action_bound [of e v c] by blast

end
