(* ===== verification/LockGate.thy ===== *)
theory LockGate
  imports BmwPrelude "HOL-Library.Sublist"
begin

text \<open>
  The lock-press command path: the three-press detector
  (\<^verbatim>\<open>application/lock_sequence_detector.hpp/.cpp\<close>) and the evidence gate in front of it
  (\<^verbatim>\<open>application/lock_command_gate.hpp/.cpp\<close>).  The locale \<open>gesture_detector\<close> is the
  contract the gate relies on; it is interpreted on the detector.
\<close>

section \<open>The sequence detector\<close>

record LockSequenceConfig =
  requiredPresses :: u8
  minimumGapMs :: u32
  maximumGapMs :: u32
  maximumSequenceMs :: u32

definition LockSequenceConfig_default :: LockSequenceConfig where
  "LockSequenceConfig_default =
     \<lparr>requiredPresses = 3, minimumGapMs = 80, maximumGapMs = 1500, maximumSequenceMs = 3000\<rparr>"

datatype LockPressResult =
  LP_Accepted | LP_SequenceCompleted | LP_SequenceRestarted | LP_IgnoredDebounce
  | LP_InvalidConfiguration

record LockSequenceDetector =
  lsd_config :: LockSequenceConfig
  firstPressTimestampMs :: u32
  lastPressTimestampMs :: u32
  lsd_pressCount :: u8

definition mkLockSequenceDetector :: "LockSequenceConfig \<Rightarrow> LockSequenceDetector" where
  "mkLockSequenceDetector config =
     \<lparr>lsd_config = config, firstPressTimestampMs = 0, lastPressTimestampMs = 0,
      lsd_pressCount = 0\<rparr>"

definition sequenceConfigIsValid :: "LockSequenceConfig \<Rightarrow> bool" where
  "sequenceConfigIsValid config =
     (let requiredIntervals = (if requiredPresses config = 0 then (0 :: u32)
                               else ucast (requiredPresses config) - 1);
          minimumSequenceTime = (ucast requiredIntervals :: u64) * ucast (minimumGapMs config)
      in requiredPresses config \<noteq> 0 \<and>
         minimumGapMs config \<le> maximumGapMs config \<and>
         maximumGapMs config \<le> maximumSequenceMs config \<and>
         minimumSequenceTime \<le> ucast (maximumSequenceMs config))"

definition LockSequenceDetector_reset :: "LockSequenceDetector \<Rightarrow> LockSequenceDetector" where
  "LockSequenceDetector_reset d =
     d\<lparr>firstPressTimestampMs := 0, lastPressTimestampMs := 0, lsd_pressCount := 0\<rparr>"

text \<open>The end of \<open>observe\<close>: report the press, or reset when the count is reached.\<close>

definition finishPress ::
    "LockPressResult \<Rightarrow> LockSequenceDetector \<Rightarrow> LockPressResult \<times> LockSequenceDetector" where
  "finishPress result d =
     (if lsd_pressCount d < requiredPresses (lsd_config d) then (result, d)
      else (LP_SequenceCompleted, LockSequenceDetector_reset d))"

definition LockSequenceDetector_observe ::
    "u32 \<Rightarrow> LockSequenceDetector \<Rightarrow> LockPressResult \<times> LockSequenceDetector" where
  "LockSequenceDetector_observe timestampMs d =
     (if \<not> sequenceConfigIsValid (lsd_config d)
      then (LP_InvalidConfiguration, LockSequenceDetector_reset d)
      else if lsd_pressCount d = 0 then
        finishPress LP_Accepted
          (d\<lparr>firstPressTimestampMs := timestampMs, lastPressTimestampMs := timestampMs,
             lsd_pressCount := 1\<rparr>)
      else
        (let sinceLastPress = timestampMs - lastPressTimestampMs d;
             sinceFirstPress = timestampMs - firstPressTimestampMs d in
         if sinceLastPress < minimumGapMs (lsd_config d) then (LP_IgnoredDebounce, d)
         else if sinceLastPress > maximumGapMs (lsd_config d) \<or>
                 sinceFirstPress > maximumSequenceMs (lsd_config d) then
           finishPress LP_SequenceRestarted
             (d\<lparr>firstPressTimestampMs := timestampMs, lastPressTimestampMs := timestampMs,
                lsd_pressCount := 1\<rparr>)
         else
           finishPress LP_Accepted
             (d\<lparr>lastPressTimestampMs := timestampMs, lsd_pressCount := lsd_pressCount d + 1\<rparr>)))"

definition observeLockPress ::
    "u32 \<Rightarrow> LockSequenceDetector \<Rightarrow> bool \<times> LockSequenceDetector" where
  "observeLockPress timestampMs d =
     (let (r, d') = LockSequenceDetector_observe timestampMs d in (r = LP_SequenceCompleted, d'))"

fun LockPressResult_toString :: "LockPressResult \<Rightarrow> string" where
  "LockPressResult_toString LP_Accepted = ''accepted''"
| "LockPressResult_toString LP_SequenceCompleted = ''sequence_completed''"
| "LockPressResult_toString LP_SequenceRestarted = ''sequence_restarted''"
| "LockPressResult_toString LP_IgnoredDebounce = ''ignored_debounce''"
| "LockPressResult_toString LP_InvalidConfiguration = ''invalid_configuration''"

section \<open>The contract of a gesture detector\<close>

text \<open>
  \<open>trace d ts\<close>: the detector is in the middle of a gesture made of the presses \<open>ts\<close>, oldest
  first; \<open>complete ts\<close>: these presses are a whole gesture.
\<close>

locale gesture_detector =
  fixes observe :: "u32 \<Rightarrow> 'd \<Rightarrow> LockPressResult \<times> 'd"
    and reset :: "'d \<Rightarrow> 'd"
    and trace :: "'d \<Rightarrow> u32 list \<Rightarrow> bool"
    and complete :: "u32 list \<Rightarrow> bool"
  assumes trace_reset: "trace d ts \<Longrightarrow> trace (reset d) []"
    and observe_accepted: "trace d ts \<Longrightarrow> observe t d = (LP_Accepted, d') \<Longrightarrow> trace d' (ts @ [t])"
    and observe_restarted: "trace d ts \<Longrightarrow> observe t d = (LP_SequenceRestarted, d') \<Longrightarrow> trace d' [t]"
    and observe_completed:
      "trace d ts \<Longrightarrow> observe t d = (LP_SequenceCompleted, d') \<Longrightarrow> complete (ts @ [t]) \<and> trace d' []"
    and observe_debounced: "trace d ts \<Longrightarrow> observe t d = (LP_IgnoredDebounce, d') \<Longrightarrow> d' = d"
    and observe_invalid: "trace d ts \<Longrightarrow> observe t d = (LP_InvalidConfiguration, d') \<Longrightarrow> trace d' []"
begin

text \<open>
  A client that feeds the detector from a stream of evidence: the gesture in progress is backed by
  a subsequence of what the client received, every element of which satisfied the client's test.
\<close>

definition backed :: "('e \<Rightarrow> u32) \<Rightarrow> ('e \<Rightarrow> bool) \<Rightarrow> 'e list \<Rightarrow> 'd \<Rightarrow> bool" where
  "backed key ok es d \<longleftrightarrow> (\<exists>acc. subseq acc es \<and> list_all ok acc \<and> trace d (map key acc))"

definition gesture_in :: "('e \<Rightarrow> u32) \<Rightarrow> ('e \<Rightarrow> bool) \<Rightarrow> 'e list \<Rightarrow> 'e \<Rightarrow> bool" where
  "gesture_in key ok es e \<longleftrightarrow>
     (\<exists>acc. subseq acc es \<and> list_all ok (acc @ [e]) \<and> complete (map key (acc @ [e])))"

lemma backed_skip: "backed key ok es d \<Longrightarrow> backed key ok (es @ [e]) d"
  unfolding backed_def by (blast intro: subseq_order.trans list_emb_append2 subseq_rev_drop_many)

lemma backed_reset: "backed key ok es d \<Longrightarrow> backed key ok es' (reset d)"
  unfolding backed_def by (metis list.pred_inject(1) list.simps(8) list_emb_Nil trace_reset)

lemma backed_empty: "trace d [] \<Longrightarrow> backed key ok es d"
  unfolding backed_def by (metis list.pred_inject(1) list.simps(8) list_emb_Nil)

lemma backed_observe:
  assumes "backed key ok es d" and "ok e" and obs: "observe (key e) d = (r, d')"
  shows "backed key ok (es @ [e]) d' \<and> (r = LP_SequenceCompleted \<longrightarrow> gesture_in key ok es e)"
proof -
  from assms(1) obtain acc where
    acc: "subseq acc es" "list_all ok acc" "trace d (map key acc)"
    unfolding backed_def by blast
  show ?thesis
  proof (cases r)
    case LP_Accepted
    have "trace d' (map key (acc @ [e]))"
      using observe_accepted [OF acc(3)] obs LP_Accepted by simp
    moreover have "subseq (acc @ [e]) (es @ [e])" using acc(1) by simp
    moreover have "list_all ok (acc @ [e])" using acc(2) assms(2) by simp
    ultimately show ?thesis
      using LP_Accepted unfolding backed_def by blast
  next
    case LP_SequenceRestarted
    have "trace d' (map key [e])"
      using observe_restarted [OF acc(3)] obs LP_SequenceRestarted by simp
    moreover have "subseq [e] (es @ [e])" by (simp add: subseq_singleton_left)
    moreover have "list_all ok [e]" using assms(2) by simp
    ultimately show ?thesis
      using LP_SequenceRestarted unfolding backed_def by blast
  next
    case LP_SequenceCompleted
    then have *: "complete (map key acc @ [key e])" "trace d' []"
      using observe_completed [OF acc(3)] obs by auto
    then have "gesture_in key ok es e"
      using acc(1,2) assms(2) by (auto simp: gesture_in_def)
    with *(2) show ?thesis by (simp add: backed_empty)
  next
    case LP_IgnoredDebounce
    then show ?thesis
      using observe_debounced [OF acc(3)] obs assms(1) by (auto intro: backed_skip)
  next
    case LP_InvalidConfiguration
    then show ?thesis
      using observe_invalid [OF acc(3)] obs by (auto intro: backed_empty)
  qed
qed

end

section \<open>The detector meets the contract\<close>

text \<open>Consecutive presses of a gesture: gaps and total duration within the configured windows.\<close>

fun gaps_ok :: "LockSequenceConfig \<Rightarrow> u32 list \<Rightarrow> bool" where
  "gaps_ok cfg [] = True"
| "gaps_ok cfg [t] = True"
| "gaps_ok cfg (t # t' # ts) =
     (minimumGapMs cfg \<le> t' - t \<and> t' - t \<le> maximumGapMs cfg \<and> gaps_ok cfg (t' # ts))"

definition within_sequence :: "LockSequenceConfig \<Rightarrow> u32 list \<Rightarrow> bool" where
  "within_sequence cfg ts \<longleftrightarrow> gaps_ok cfg ts \<and> (\<forall>t \<in> set ts. t - hd ts \<le> maximumSequenceMs cfg)"

definition detector_trace :: "LockSequenceConfig \<Rightarrow> LockSequenceDetector \<Rightarrow> u32 list \<Rightarrow> bool" where
  "detector_trace cfg d ts \<longleftrightarrow>
     lsd_config d = cfg \<and> length ts = unat (lsd_pressCount d) \<and> within_sequence cfg ts \<and>
     (ts \<noteq> [] \<longrightarrow> hd ts = firstPressTimestampMs d \<and> last ts = lastPressTimestampMs d \<and>
        length ts < unat (requiredPresses cfg))"

definition gesture_complete :: "LockSequenceConfig \<Rightarrow> u32 list \<Rightarrow> bool" where
  "gesture_complete cfg ts \<longleftrightarrow>
     sequenceConfigIsValid cfg \<and> length ts = unat (requiredPresses cfg) \<and> within_sequence cfg ts"

lemma gaps_ok_snoc:
  "ts \<noteq> [] \<Longrightarrow> gaps_ok cfg (ts @ [t]) \<longleftrightarrow>
     gaps_ok cfg ts \<and> minimumGapMs cfg \<le> t - last ts \<and> t - last ts \<le> maximumGapMs cfg"
  by (induction cfg ts rule: gaps_ok.induct) auto

lemma within_sequence_snoc:
  "ts \<noteq> [] \<Longrightarrow> within_sequence cfg (ts @ [t]) \<longleftrightarrow>
     within_sequence cfg ts \<and> minimumGapMs cfg \<le> t - last ts \<and> t - last ts \<le> maximumGapMs cfg \<and>
     t - hd ts \<le> maximumSequenceMs cfg"
  by (auto simp: within_sequence_def gaps_ok_snoc)

lemma within_sequence_single [simp]: "within_sequence cfg [t]"
  by (simp add: within_sequence_def)

lemma within_sequence_Nil [simp]: "within_sequence cfg []"
  by (simp add: within_sequence_def)

lemma detector_trace_reset: "lsd_config d = cfg \<Longrightarrow> detector_trace cfg (LockSequenceDetector_reset d) []"
  by (simp add: detector_trace_def LockSequenceDetector_reset_def)

lemma detector_trace_resetI:
  "detector_trace cfg d ts \<Longrightarrow> detector_trace cfg (LockSequenceDetector_reset d) []"
  by (rule detector_trace_reset) (simp add: detector_trace_def)

lemma valid_config_presses: "sequenceConfigIsValid cfg \<Longrightarrow> 0 < unat (requiredPresses cfg)"
  by (simp add: sequenceConfigIsValid_def Let_def unat_gt_0)

lemma unat_suc_press:
  "(n :: u8) < m \<Longrightarrow> unat (n + 1) = unat n + 1"
  by unat_arith

lemma detector_observe_first:
  assumes "detector_trace cfg d []" "sequenceConfigIsValid cfg"
    and "LockSequenceDetector_observe t d = (r, d')"
  shows "(r = LP_Accepted \<and> detector_trace cfg d' [t]) \<or>
         (r = LP_SequenceCompleted \<and> gesture_complete cfg [t] \<and> detector_trace cfg d' [])"
proof -
  let ?d = "d\<lparr>firstPressTimestampMs := t, lastPressTimestampMs := t, lsd_pressCount := 1\<rparr>"
  have d: "lsd_config d = cfg" "lsd_pressCount d = 0"
    using assms(1) by (auto simp: detector_trace_def unat_eq_0)
  then have eq: "finishPress LP_Accepted ?d = (r, d')"
    using assms(2,3) by (simp add: LockSequenceDetector_observe_def)
  show ?thesis
  proof (cases "1 < requiredPresses cfg")
    case True
    then have "1 < unat (requiredPresses cfg)" by (simp add: word_less_nat_alt)
    with True eq d show ?thesis
      by (auto simp: finishPress_def detector_trace_def)
  next
    case False
    then have "unat (requiredPresses cfg) \<le> 1" by (simp add: word_less_nat_alt)
    with valid_config_presses [OF assms(2)] have "unat (requiredPresses cfg) = 1" by simp
    with False eq d assms(2) show ?thesis
      by (auto simp: finishPress_def gesture_complete_def intro: detector_trace_reset)
  qed
qed

lemma detector_observe_next:
  assumes tr: "detector_trace cfg d ts" and "ts \<noteq> []" and valid: "sequenceConfigIsValid cfg"
    and obs: "LockSequenceDetector_observe t d = (r, d')"
  shows "(r = LP_Accepted \<and> detector_trace cfg d' (ts @ [t])) \<or>
         (r = LP_SequenceCompleted \<and> gesture_complete cfg (ts @ [t]) \<and> detector_trace cfg d' []) \<or>
         (r = LP_SequenceRestarted \<and> detector_trace cfg d' [t]) \<or>
         (r = LP_IgnoredDebounce \<and> d' = d)"
proof -
  let ?restart = "d\<lparr>firstPressTimestampMs := t, lastPressTimestampMs := t, lsd_pressCount := 1\<rparr>"
  let ?next = "d\<lparr>lastPressTimestampMs := t, lsd_pressCount := lsd_pressCount d + 1\<rparr>"
  have d: "lsd_config d = cfg" "length ts = unat (lsd_pressCount d)" "within_sequence cfg ts"
    "hd ts = firstPressTimestampMs d" "last ts = lastPressTimestampMs d"
    "unat (lsd_pressCount d) < unat (requiredPresses cfg)"
    using tr \<open>ts \<noteq> []\<close> by (auto simp: detector_trace_def)
  have count: "lsd_pressCount d \<noteq> 0" using d(2) \<open>ts \<noteq> []\<close> by auto
  have one: "1 < requiredPresses cfg"
    using d(2,6) \<open>ts \<noteq> []\<close> by (cases ts) (auto simp: word_less_nat_alt)
  have less: "lsd_pressCount d < requiredPresses cfg" using d(6) by (simp add: word_less_nat_alt)
  note suc = unat_suc_press [OF less]
  consider (bounce) "t - lastPressTimestampMs d < minimumGapMs cfg"
    | (late) "minimumGapMs cfg \<le> t - lastPressTimestampMs d"
        "t - lastPressTimestampMs d > maximumGapMs cfg \<or>
         t - firstPressTimestampMs d > maximumSequenceMs cfg"
    | (good) "minimumGapMs cfg \<le> t - lastPressTimestampMs d"
        "t - lastPressTimestampMs d \<le> maximumGapMs cfg"
        "t - firstPressTimestampMs d \<le> maximumSequenceMs cfg"
    by (meson not_less)
  then show ?thesis
  proof cases
    case bounce
    with obs d valid count show ?thesis
      by (simp add: LockSequenceDetector_observe_def Let_def)
  next
    case late
    then have "finishPress LP_SequenceRestarted ?restart = (r, d')"
      using obs d valid count
      by (auto simp: LockSequenceDetector_observe_def Let_def not_less [symmetric] simp del: not_less)
    with one d show ?thesis
      by (auto simp: finishPress_def detector_trace_def word_less_nat_alt)
  next
    case good
    then have eq: "finishPress LP_Accepted ?next = (r, d')"
      using obs d valid count good [folded not_less]
      by (simp add: LockSequenceDetector_observe_def Let_def)
    have ws: "within_sequence cfg (ts @ [t])"
      using good d \<open>ts \<noteq> []\<close> by (simp add: within_sequence_snoc)
    show ?thesis
    proof (cases "lsd_pressCount d + 1 < requiredPresses cfg")
      case True
      then have "unat (lsd_pressCount d) + 1 < unat (requiredPresses cfg)"
        using suc by (simp add: word_less_nat_alt)
      with True eq d ws suc \<open>ts \<noteq> []\<close> show ?thesis
        by (auto simp: finishPress_def detector_trace_def)
    next
      case False
      then have "unat (requiredPresses cfg) = unat (lsd_pressCount d) + 1"
        using suc d(6) by (simp add: word_less_nat_alt)
      with False eq d ws valid show ?thesis
        by (auto simp: finishPress_def gesture_complete_def intro: detector_trace_reset)
    qed
  qed
qed

lemma detector_observe_good:
  assumes tr: "detector_trace cfg d ts" and valid: "sequenceConfigIsValid cfg"
    and ws: "within_sequence cfg (ts @ [t])"
    and obs: "LockSequenceDetector_observe t d = (r, d')"
  shows "if length ts + 1 < unat (requiredPresses cfg)
    then r = LP_Accepted \<and> detector_trace cfg d' (ts @ [t])
    else r = LP_SequenceCompleted \<and> length ts + 1 = unat (requiredPresses cfg) \<and>
      detector_trace cfg d' []"
proof -
  have "r \<noteq> LP_SequenceRestarted \<and> r \<noteq> LP_IgnoredDebounce" if "ts \<noteq> []"
  proof -
    have "lsd_config d = cfg" "lsd_pressCount d \<noteq> 0" "hd ts = firstPressTimestampMs d"
      "last ts = lastPressTimestampMs d"
      using tr that by (auto simp: detector_trace_def)
    then show ?thesis
      using obs valid ws [unfolded within_sequence_snoc [OF that]]
      by (auto simp: LockSequenceDetector_observe_def finishPress_def Let_def not_less [symmetric]
          simp del: not_less split: if_splits)
  qed
  then have "(r = LP_Accepted \<and> detector_trace cfg d' (ts @ [t])) \<or>
      (r = LP_SequenceCompleted \<and> gesture_complete cfg (ts @ [t]) \<and> detector_trace cfg d' [])"
    using detector_observe_first [of cfg d t r d'] detector_observe_next [OF tr _ valid obs]
      tr valid obs
    by (cases "ts = []") auto
  then show ?thesis by (auto simp: gesture_complete_def detector_trace_def)
qed

text \<open>Feeding a detector with a list of press times.\<close>

fun detector_run ::
    "u32 list \<Rightarrow> LockSequenceDetector \<Rightarrow> LockPressResult list \<times> LockSequenceDetector" where
  "detector_run [] d = ([], d)"
| "detector_run (t # ts) d =
     (let (r, d') = LockSequenceDetector_observe t d; (rs, d'') = detector_run ts d'
      in (r # rs, d''))"

lemma detector_run_snoc:
  "detector_run (ts @ [t]) d =
     (let (rs, d') = detector_run ts d; (r, d'') = LockSequenceDetector_observe t d'
      in (rs @ [r], d''))"
  by (induction ts arbitrary: d) (simp_all add: Let_def case_prod_unfold)

lemma within_sequence_prefix: "within_sequence cfg (ts @ [t]) \<Longrightarrow> within_sequence cfg ts"
  by (cases "ts = []") (simp_all add: within_sequence_snoc)

lemma detector_trace_start: "detector_trace cfg (mkLockSequenceDetector cfg) []"
  by (simp add: detector_trace_def mkLockSequenceDetector_def)

lemma detector_run_prefix:
  assumes "sequenceConfigIsValid cfg"
  shows "length ts < unat (requiredPresses cfg) \<Longrightarrow> within_sequence cfg ts \<Longrightarrow>
    \<exists>d. detector_run ts (mkLockSequenceDetector cfg) = (replicate (length ts) LP_Accepted, d) \<and>
      detector_trace cfg d ts"
proof (induction ts rule: rev_induct)
  case Nil
  then show ?case by (simp add: detector_trace_start)
next
  case (snoc t ts)
  then obtain d where d: "detector_run ts (mkLockSequenceDetector cfg) =
      (replicate (length ts) LP_Accepted, d)" "detector_trace cfg d ts"
    using within_sequence_prefix by fastforce
  obtain r d' where "LockSequenceDetector_observe t d = (r, d')" by fastforce
  with detector_observe_good [OF d(2) assms snoc.prems(2)] snoc.prems(1) d(1) show ?case
    by (simp add: detector_run_snoc replicate_append_same)
qed

lemma detector_run_gesture:
  assumes "sequenceConfigIsValid cfg" "length ts = unat (requiredPresses cfg)"
    and "within_sequence cfg ts"
  shows "fst (detector_run ts (mkLockSequenceDetector cfg)) =
    replicate (length ts - 1) LP_Accepted @ [LP_SequenceCompleted]"
proof -
  have "ts \<noteq> []" using valid_config_presses [OF assms(1)] assms(2) by auto
  then obtain us t where ts: "ts = us @ [t]" by (metis rev_exhaust)
  with assms obtain d where d: "detector_run us (mkLockSequenceDetector cfg) =
      (replicate (length us) LP_Accepted, d)" "detector_trace cfg d us"
    using detector_run_prefix [OF assms(1), of us] within_sequence_prefix [of cfg us t] by auto
  obtain r d' where "LockSequenceDetector_observe t d = (r, d')" by fastforce
  with detector_observe_good [OF d(2) assms(1) _ this] assms(2,3) d(1) ts show ?thesis
    by (simp add: detector_run_snoc)
qed

lemma detector_observe_invalid:
  assumes "detector_trace cfg d ts" "\<not> sequenceConfigIsValid cfg"
    and "LockSequenceDetector_observe t d = (r, d')"
  shows "r = LP_InvalidConfiguration \<and> detector_trace cfg d' []"
proof -
  have "lsd_config d = cfg" using assms(1) by (simp add: detector_trace_def)
  with assms(2,3) have "r = LP_InvalidConfiguration" "d' = LockSequenceDetector_reset d"
    by (simp_all add: LockSequenceDetector_observe_def)
  with assms(1) show ?thesis by (simp add: detector_trace_resetI)
qed

lemma detector_observe_cases:
  assumes "detector_trace cfg d ts" and "LockSequenceDetector_observe t d = (r, d')"
  shows "(r = LP_Accepted \<and> detector_trace cfg d' (ts @ [t])) \<or>
         (r = LP_SequenceCompleted \<and> gesture_complete cfg (ts @ [t]) \<and> detector_trace cfg d' []) \<or>
         (r = LP_SequenceRestarted \<and> detector_trace cfg d' [t]) \<or>
         (r = LP_IgnoredDebounce \<and> d' = d) \<or>
         (r = LP_InvalidConfiguration \<and> detector_trace cfg d' [])"
  using assms detector_observe_first [of cfg d t r d'] detector_observe_next [of cfg d ts t r d']
    detector_observe_invalid [of cfg d ts t r d']
  by (cases "ts = []"; cases "sequenceConfigIsValid cfg") auto

interpretation lsd: gesture_detector LockSequenceDetector_observe LockSequenceDetector_reset
  "detector_trace cfg" "gesture_complete cfg" for cfg
proof (unfold_locales, goal_cases)
  case (1 d ts)
  then show ?case by (rule detector_trace_resetI)
qed (drule (1) detector_observe_cases, simp)+

section \<open>The command gate\<close>

datatype LockCommandSource = LS_Unspecified | LS_VehicleAdapter | LS_SyntheticTest

datatype LockCommandTrust = LT_Unverified | LT_Candidate | LT_Verified

record LockCommandEvidence =
  le_source :: LockCommandSource
  le_trust :: LockCommandTrust
  le_sourceSequence :: u32
  le_observedAtMs :: u32
  le_vehicleSecured :: bool

definition LockCommandEvidence_default :: LockCommandEvidence where
  "LockCommandEvidence_default =
     \<lparr>le_source = LS_Unspecified, le_trust = LT_Unverified, le_sourceSequence = 0,
      le_observedAtMs = 0, le_vehicleSecured = False\<rparr>"

datatype LockCommandStatus =
    LC_PressAccepted | LC_SequenceRestarted | LC_RemoteStartRequested
  | LC_RejectedInvalidConfiguration | LC_RejectedUntrustedSource | LC_RejectedSyntheticSource
  | LC_RejectedVehicleNotSecured | LC_RejectedStaleEvidence | LC_RejectedFutureEvidence
  | LC_RejectedDuplicateSequence | LC_RejectedOutOfOrderSequence
  | LC_RejectedNonMonotonicEvidence | LC_RejectedClockRegression | LC_RejectedTiming

text \<open>\<open>LockCommandDecision\<close> holds the status alone.\<close>

definition command_accepted :: "LockCommandStatus \<Rightarrow> bool" where
  "command_accepted status =
     (status = LC_PressAccepted \<or> status = LC_SequenceRestarted \<or>
      status = LC_RemoteStartRequested)"

definition remoteStartRequested :: "LockCommandStatus \<Rightarrow> bool" where
  "remoteStartRequested status = (status = LC_RemoteStartRequested)"

record LockCommandGateConfig =
  gc_sequence :: LockSequenceConfig
  maximumEvidenceAgeMs :: u32
  allowSyntheticSource :: bool

definition MaximumEvidenceAgeLimitMs :: u32 where
  "MaximumEvidenceAgeLimitMs = 5000"

definition LockCommandGateConfig_default :: LockCommandGateConfig where
  "LockCommandGateConfig_default =
     \<lparr>gc_sequence = LockSequenceConfig_default, maximumEvidenceAgeMs = 500,
      allowSyntheticSource = False\<rparr>"

record LockCommandGate =
  lg_config :: LockCommandGateConfig
  detector :: LockSequenceDetector
  lastNowMs :: u32
  lastSourceSequence :: u32
  lastEvidenceTimestampMs :: u32
  clockInitialized :: bool
  evidenceInitialized :: bool

definition mkLockCommandGate :: "LockCommandGateConfig \<Rightarrow> LockCommandGate" where
  "mkLockCommandGate config =
     \<lparr>lg_config = config, detector = mkLockSequenceDetector (gc_sequence config), lastNowMs = 0,
      lastSourceSequence = 0, lastEvidenceTimestampMs = 0, clockInitialized = False,
      evidenceInitialized = False\<rparr>"

definition isFuture :: "u32 \<Rightarrow> u32 \<Rightarrow> bool" where
  "isFuture timestamp nowMs = (timestamp \<noteq> nowMs \<and> strictlyNewer timestamp nowMs)"

definition gateConfigIsValid :: "LockCommandGateConfig \<Rightarrow> bool" where
  "gateConfigIsValid config =
     (let sequence = gc_sequence config;
          requiredIntervals = (if requiredPresses sequence = 0 then (0 :: u32)
                               else ucast (requiredPresses sequence) - 1);
          minimumSequenceTime = (ucast requiredIntervals :: u64) * ucast (minimumGapMs sequence)
      in requiredPresses sequence \<noteq> 0 \<and>
         minimumGapMs sequence \<le> maximumGapMs sequence \<and>
         maximumGapMs sequence \<le> maximumSequenceMs sequence \<and>
         minimumSequenceTime \<le> ucast (maximumSequenceMs sequence) \<and>
         maximumEvidenceAgeMs config \<noteq> 0 \<and>
         maximumEvidenceAgeMs config \<le> MaximumEvidenceAgeLimitMs)"

definition LockCommandGate_reject ::
    "LockCommandStatus \<Rightarrow> LockCommandGate \<Rightarrow> LockCommandStatus \<times> LockCommandGate" where
  "LockCommandGate_reject status g =
     (status, g\<lparr>detector := LockSequenceDetector_reset (detector g)\<rparr>)"

text \<open>The switch on the detector's answer.\<close>

definition LockCommandGate_press ::
    "LockCommandEvidence \<Rightarrow> LockCommandGate \<Rightarrow> LockCommandStatus \<times> LockCommandGate" where
  "LockCommandGate_press evidence g =
     (let (r, d) = LockSequenceDetector_observe (le_observedAtMs evidence) (detector g);
          g = g\<lparr>detector := d\<rparr> in
      case r of
        LP_Accepted \<Rightarrow> (LC_PressAccepted, g)
      | LP_SequenceCompleted \<Rightarrow> (LC_RemoteStartRequested, g)
      | LP_SequenceRestarted \<Rightarrow> (LC_SequenceRestarted, g)
      | LP_IgnoredDebounce \<Rightarrow> (LC_RejectedTiming, g)
      | LP_InvalidConfiguration \<Rightarrow> LockCommandGate_reject LC_RejectedInvalidConfiguration g)"

definition LockCommandGate_process ::
    "LockCommandEvidence \<Rightarrow> u32 \<Rightarrow> LockCommandGate \<Rightarrow> LockCommandStatus \<times> LockCommandGate" where
  "LockCommandGate_process evidence nowMs g =
     (if \<not> gateConfigIsValid (lg_config g)
      then LockCommandGate_reject LC_RejectedInvalidConfiguration g
      else if clockInitialized g \<and> nowMs \<noteq> lastNowMs g \<and> \<not> strictlyNewer nowMs (lastNowMs g)
      then LockCommandGate_reject LC_RejectedClockRegression g
      else
       (let g = g\<lparr>lastNowMs := nowMs, clockInitialized := True\<rparr> in
        if le_trust evidence \<noteq> LT_Verified \<or> le_source evidence = LS_Unspecified
        then LockCommandGate_reject LC_RejectedUntrustedSource g
        else if le_source evidence = LS_SyntheticTest \<and> \<not> allowSyntheticSource (lg_config g)
        then LockCommandGate_reject LC_RejectedSyntheticSource g
        else if \<not> le_vehicleSecured evidence
        then LockCommandGate_reject LC_RejectedVehicleNotSecured g
        else if isFuture (le_observedAtMs evidence) nowMs
        then LockCommandGate_reject LC_RejectedFutureEvidence g
        else if nowMs - le_observedAtMs evidence > maximumEvidenceAgeMs (lg_config g)
        then LockCommandGate_reject LC_RejectedStaleEvidence g
        else if evidenceInitialized g \<and> le_sourceSequence evidence = lastSourceSequence g
        then LockCommandGate_reject LC_RejectedDuplicateSequence g
        else if evidenceInitialized g \<and>
                \<not> strictlyNewer (le_sourceSequence evidence) (lastSourceSequence g)
        then LockCommandGate_reject LC_RejectedOutOfOrderSequence g
        else if evidenceInitialized g \<and>
                (le_observedAtMs evidence = lastEvidenceTimestampMs g \<or>
                 \<not> strictlyNewer (le_observedAtMs evidence) (lastEvidenceTimestampMs g))
        then LockCommandGate_reject LC_RejectedNonMonotonicEvidence g
        else
          LockCommandGate_press evidence
            (g\<lparr>lastSourceSequence := le_sourceSequence evidence,
               lastEvidenceTimestampMs := le_observedAtMs evidence,
               evidenceInitialized := True\<rparr>)))"

definition LockCommandGate_reset :: "LockCommandGate \<Rightarrow> LockCommandGate" where
  "LockCommandGate_reset g =
     g\<lparr>detector := LockSequenceDetector_reset (detector g), lastNowMs := 0,
       lastSourceSequence := 0, lastEvidenceTimestampMs := 0, clockInitialized := False,
       evidenceInitialized := False\<rparr>"

fun LockCommandSource_toString :: "LockCommandSource \<Rightarrow> string" where
  "LockCommandSource_toString LS_Unspecified = ''unspecified''"
| "LockCommandSource_toString LS_VehicleAdapter = ''vehicle_adapter''"
| "LockCommandSource_toString LS_SyntheticTest = ''synthetic_test''"

fun LockCommandTrust_toString :: "LockCommandTrust \<Rightarrow> string" where
  "LockCommandTrust_toString LT_Unverified = ''unverified''"
| "LockCommandTrust_toString LT_Candidate = ''candidate''"
| "LockCommandTrust_toString LT_Verified = ''verified''"

fun LockCommandStatus_toString :: "LockCommandStatus \<Rightarrow> string" where
  "LockCommandStatus_toString LC_PressAccepted = ''press_accepted''"
| "LockCommandStatus_toString LC_SequenceRestarted = ''sequence_restarted''"
| "LockCommandStatus_toString LC_RemoteStartRequested = ''remote_start_requested''"
| "LockCommandStatus_toString LC_RejectedInvalidConfiguration = ''rejected_invalid_configuration''"
| "LockCommandStatus_toString LC_RejectedUntrustedSource = ''rejected_untrusted_source''"
| "LockCommandStatus_toString LC_RejectedSyntheticSource = ''rejected_synthetic_source''"
| "LockCommandStatus_toString LC_RejectedVehicleNotSecured = ''rejected_vehicle_not_secured''"
| "LockCommandStatus_toString LC_RejectedStaleEvidence = ''rejected_stale_evidence''"
| "LockCommandStatus_toString LC_RejectedFutureEvidence = ''rejected_future_evidence''"
| "LockCommandStatus_toString LC_RejectedDuplicateSequence = ''rejected_duplicate_sequence''"
| "LockCommandStatus_toString LC_RejectedOutOfOrderSequence = ''rejected_out_of_order_sequence''"
| "LockCommandStatus_toString LC_RejectedNonMonotonicEvidence = ''rejected_non_monotonic_evidence''"
| "LockCommandStatus_toString LC_RejectedClockRegression = ''rejected_clock_regression''"
| "LockCommandStatus_toString LC_RejectedTiming = ''rejected_timing''"

section \<open>What the gate lets through\<close>

text \<open>The evidence test, at the instant \<open>nowMs\<close> the evidence is presented.\<close>

definition evidence_ok :: "LockCommandGateConfig \<Rightarrow> LockCommandEvidence \<times> u32 \<Rightarrow> bool" where
  "evidence_ok config = (\<lambda>(e, nowMs).
     le_trust e = LT_Verified \<and> le_source e \<noteq> LS_Unspecified \<and>
     (le_source e = LS_SyntheticTest \<longrightarrow> allowSyntheticSource config) \<and> le_vehicleSecured e \<and>
     \<not> isFuture (le_observedAtMs e) nowMs \<and>
     nowMs - le_observedAtMs e \<le> maximumEvidenceAgeMs config)"

definition ordered_after :: "LockCommandGate \<Rightarrow> LockCommandEvidence \<Rightarrow> bool" where
  "ordered_after g e \<longleftrightarrow>
     (evidenceInitialized g \<longrightarrow>
        strictlyNewer (le_sourceSequence e) (lastSourceSequence g) \<and>
        strictlyNewer (le_observedAtMs e) (lastEvidenceTimestampMs g))"

text \<open>Every evaluation is either a rejection that clears the gesture or a press.\<close>

lemma process_cases:
  assumes "LockCommandGate_process e now g = (s, g')"
  obtains (rejected) "\<not> command_accepted s" "s \<noteq> LC_RejectedTiming"
      "detector g' = LockSequenceDetector_reset (detector g)" "lg_config g' = lg_config g"
      "evidenceInitialized g' = evidenceInitialized g"
      "lastSourceSequence g' = lastSourceSequence g"
      "lastEvidenceTimestampMs g' = lastEvidenceTimestampMs g"
  | (press) g1 where "gateConfigIsValid (lg_config g)" "evidence_ok (lg_config g) (e, now)"
      "ordered_after g e" "LockCommandGate_press e g1 = (s, g')" "detector g1 = detector g"
      "lg_config g1 = lg_config g" "evidenceInitialized g1"
      "lastSourceSequence g1 = le_sourceSequence e"
      "lastEvidenceTimestampMs g1 = le_observedAtMs e"
proof (cases "gateConfigIsValid (lg_config g) \<and> evidence_ok (lg_config g) (e, now) \<and>
    ordered_after g e \<and>
    \<not> (clockInitialized g \<and> now \<noteq> lastNowMs g \<and> \<not> strictlyNewer now (lastNowMs g))")
  case True
  let ?g1 = "g\<lparr>lastNowMs := now, clockInitialized := True,
    lastSourceSequence := le_sourceSequence e, lastEvidenceTimestampMs := le_observedAtMs e,
    evidenceInitialized := True\<rparr>"
  have neq: "evidenceInitialized g \<Longrightarrow> le_sourceSequence e \<noteq> lastSourceSequence g \<and>
      le_observedAtMs e \<noteq> lastEvidenceTimestampMs g"
    using True by (auto simp: ordered_after_def)
  have "LockCommandGate_process e now g = LockCommandGate_press e ?g1"
    using True neq
    by (cases "evidenceInitialized g")
       (auto simp: LockCommandGate_process_def evidence_ok_def [folded not_less] ordered_after_def
        Let_def simp del: not_less linorder_not_less)
  then have "LockCommandGate_press e ?g1 = (s, g')" using assms by simp
  with True show ?thesis by (intro press [of ?g1]) auto
next
  case False
  show ?thesis
    using False assms
    by (intro rejected)
       (auto simp: LockCommandGate_process_def evidence_ok_def [folded not_less] ordered_after_def
          Let_def LockCommandGate_reject_def command_accepted_def
        simp del: not_less linorder_not_less split: if_splits)
qed

lemma gateConfig_sequence: "gateConfigIsValid config \<Longrightarrow> sequenceConfigIsValid (gc_sequence config)"
  unfolding gateConfigIsValid_def sequenceConfigIsValid_def Let_def by blast

lemma press_result:
  assumes "LockCommandGate_press e g = (s, g')"
  obtains r d where "LockSequenceDetector_observe (le_observedAtMs e) (detector g) = (r, d)"
    "lg_config g' = lg_config g" "evidenceInitialized g' = evidenceInitialized g"
    "lastSourceSequence g' = lastSourceSequence g"
    "lastEvidenceTimestampMs g' = lastEvidenceTimestampMs g"
    "s = LC_RemoteStartRequested \<longleftrightarrow> r = LP_SequenceCompleted"
    "detector g' = d \<or> detector g' = LockSequenceDetector_reset d"
proof (cases "LockSequenceDetector_observe (le_observedAtMs e) (detector g)")
  case (Pair r d)
  then show ?thesis
    using assms
    by (intro that [of r d])
       (auto simp: LockCommandGate_press_def LockCommandGate_reject_def Let_def
        split: LockPressResult.splits)
qed

lemma press_pressed:
  assumes "LockCommandGate_press e g = (s, g')" and "sequenceConfigIsValid (lsd_config (detector g))"
  shows "command_accepted s \<or> s = LC_RejectedTiming"
proof (cases "LockSequenceDetector_observe (le_observedAtMs e) (detector g)")
  case (Pair r d)
  have "r \<noteq> LP_InvalidConfiguration"
    using Pair assms(2)
    by (auto simp: LockSequenceDetector_observe_def finishPress_def Let_def split: if_splits)
  with Pair assms(1) show ?thesis
    by (auto simp: LockCommandGate_press_def command_accepted_def Let_def
        split: LockPressResult.splits)
qed

subsection \<open>Runs of the gate\<close>

type_synonym presentation = "LockCommandEvidence \<times> u32"

fun gate_run :: "presentation list \<Rightarrow> LockCommandGate \<Rightarrow> LockCommandGate" where
  "gate_run [] g = g"
| "gate_run ((e, now) # es) g = gate_run es (snd (LockCommandGate_process e now g))"

text \<open>The presentations that reached the detector, in order.\<close>

fun pressed :: "presentation list \<Rightarrow> LockCommandGate \<Rightarrow> LockCommandEvidence list" where
  "pressed [] g = []"
| "pressed ((e, now) # es) g =
     (let (s, g') = LockCommandGate_process e now g in
      if command_accepted s \<or> s = LC_RejectedTiming then e # pressed es g' else pressed es g')"

abbreviation press_time :: "presentation \<Rightarrow> u32" where
  "press_time p \<equiv> le_observedAtMs (fst p)"

abbreviation gate_backed :: "LockCommandGateConfig \<Rightarrow> presentation list \<Rightarrow> LockCommandGate \<Rightarrow> bool" where
  "gate_backed config es g \<equiv>
     lg_config g = config \<and>
     lsd.backed (gc_sequence config) press_time (evidence_ok config) es (detector g)"

text \<open>
  The gate as a client of the detector, for any stream the evidence is taken from: \<open>x\<close> is the element
  of the stream behind the evidence \<open>e\<close>.
\<close>

lemma gate_step_backed:
  assumes "lg_config g = config" and "lsd.backed (gc_sequence config) key ok es (detector g)"
    and "LockCommandGate_process e now g = (s, g')"
    and "key x = le_observedAtMs e" and "evidence_ok config (e, now) \<Longrightarrow> ok x"
  shows "lg_config g' = config \<and> lsd.backed (gc_sequence config) key ok (es @ [x]) (detector g') \<and>
    (s = LC_RemoteStartRequested \<longrightarrow> lsd.gesture_in (gc_sequence config) key ok es x)"
  using assms(3)
proof (cases rule: process_cases)
  case rejected
  with assms(1,2) show ?thesis
    by (auto simp: command_accepted_def intro: lsd.backed_reset)
next
  case (press g1)
  from press(4) obtain r d where
    r: "LockSequenceDetector_observe (le_observedAtMs e) (detector g1) = (r, d)"
      "lg_config g' = lg_config g1" "s = LC_RemoteStartRequested \<longleftrightarrow> r = LP_SequenceCompleted"
      "detector g' = d \<or> detector g' = LockSequenceDetector_reset d"
    by (rule press_result) blast
  have "lsd.backed (gc_sequence config) key ok (es @ [x]) d \<and>
     (r = LP_SequenceCompleted \<longrightarrow> lsd.gesture_in (gc_sequence config) key ok es x)"
    by (rule lsd.backed_observe) (use assms press r(1) in auto)
  with r press assms(1) show ?thesis by (auto intro: lsd.backed_reset)
qed

lemma gate_backed_step:
  assumes "gate_backed config es g" and "LockCommandGate_process e now g = (s, g')"
  shows "gate_backed config (es @ [(e, now)]) g' \<and>
    (s = LC_RemoteStartRequested \<longrightarrow>
       lsd.gesture_in (gc_sequence config) press_time (evidence_ok config) es (e, now))"
  using gate_step_backed [OF _ _ assms(2), of config press_time "evidence_ok config" es "(e, now)"]
    assms(1) by auto

lemma gate_run_backed:
  "gate_backed config es0 g \<Longrightarrow> gate_backed config (es0 @ es) (gate_run es g)"
proof (induction es arbitrary: es0 g)
  case Nil
  then show ?case by simp
next
  case (Cons x es)
  obtain e now where x: "x = (e, now)" by (cases x)
  obtain s g' where "LockCommandGate_process e now g = (s, g')"
    by (cases "LockCommandGate_process e now g")
  with Cons.prems Cons.IH [of g' "es0 @ [x]"] show ?case
    using gate_backed_step [where es = es0 and g = g and g' = g'] by (simp add: x)
qed

lemma gate_backed_start: "gate_backed config [] (mkLockCommandGate config)"
proof -
  have "detector_trace (gc_sequence config) (mkLockSequenceDetector (gc_sequence config)) []"
    by (simp add: detector_trace_def mkLockSequenceDetector_def)
  then show ?thesis by (simp add: mkLockCommandGate_def lsd.backed_empty)
qed

lemma remote_start_gesture:
  assumes "fst (LockCommandGate_process e now (gate_run es (mkLockCommandGate config))) =
    LC_RemoteStartRequested"
  shows "lsd.gesture_in (gc_sequence config) press_time (evidence_ok config) es (e, now)"
proof (cases "LockCommandGate_process e now (gate_run es (mkLockCommandGate config))")
  case (Pair s g')
  have "gate_backed config es (gate_run es (mkLockCommandGate config))"
    using gate_run_backed [OF gate_backed_start] by fastforce
  from gate_backed_step [OF this Pair] assms Pair show ?thesis by simp
qed

subsection \<open>Order of the evidence that counts\<close>

definition newer_evidence :: "LockCommandEvidence \<Rightarrow> LockCommandEvidence \<Rightarrow> bool" where
  "newer_evidence a b \<longleftrightarrow>
     strictlyNewer (le_sourceSequence b) (le_sourceSequence a) \<and>
     strictlyNewer (le_observedAtMs b) (le_observedAtMs a)"

definition last_evidence :: "LockCommandGate \<Rightarrow> LockCommandEvidence \<Rightarrow> bool" where
  "last_evidence g e \<longleftrightarrow> evidenceInitialized g \<and> lastSourceSequence g = le_sourceSequence e \<and>
     lastEvidenceTimestampMs g = le_observedAtMs e"

definition gate_wf :: "LockCommandGate \<Rightarrow> bool" where
  "gate_wf g \<longleftrightarrow> lsd_config (detector g) = gc_sequence (lg_config g)"

lemma detector_config [simp]:
  "lsd_config (LockSequenceDetector_reset d) = lsd_config d"
  "lsd_config (snd (LockSequenceDetector_observe t d)) = lsd_config d"
  by (auto simp: LockSequenceDetector_reset_def LockSequenceDetector_observe_def finishPress_def
      Let_def)

lemma press_wf:
  assumes "LockCommandGate_press e g = (s, g')" and "gate_wf g"
  shows "gate_wf g'"
proof (rule press_result [OF assms(1)])
  fix r d
  assume "LockSequenceDetector_observe (le_observedAtMs e) (detector g) = (r, d)"
    and "lg_config g' = lg_config g"
    and "detector g' = d \<or> detector g' = LockSequenceDetector_reset d"
  moreover from this(1) have "lsd_config d = lsd_config (detector g)"
    using detector_config(2) [of "le_observedAtMs e" "detector g"] by simp
  ultimately show ?thesis using assms(2) by (auto simp: gate_wf_def)
qed

lemma process_wf:
  assumes "LockCommandGate_process e now g = (s, g')" and "gate_wf g"
  shows "gate_wf g'"
  using assms(1)
proof (cases rule: process_cases)
  case rejected
  with assms(2) show ?thesis by (simp add: gate_wf_def)
next
  case (press g1)
  with assms(2) show ?thesis by (intro press_wf [OF press(4)]) (simp add: gate_wf_def)
qed

lemma process_last_evidence:
  assumes "LockCommandGate_process e now g = (s, g')" and wf: "gate_wf g"
  shows "if command_accepted s \<or> s = LC_RejectedTiming
    then last_evidence g' e \<and> (\<forall>p. last_evidence g p \<longrightarrow> newer_evidence p e)
    else (\<forall>p. last_evidence g p \<longrightarrow> last_evidence g' p)"
  using assms(1)
proof (cases rule: process_cases)
  case rejected
  then show ?thesis by (auto simp: last_evidence_def)
next
  case (press g1)
  have "sequenceConfigIsValid (lsd_config (detector g1))"
    using press wf gateConfig_sequence by (simp add: gate_wf_def)
  with press(4) have "command_accepted s \<or> s = LC_RejectedTiming" by (rule press_pressed)
  moreover from press(4) have "last_evidence g' e"
    by (rule press_result) (use press in \<open>auto simp: last_evidence_def\<close>)
  moreover have "\<forall>p. last_evidence g p \<longrightarrow> newer_evidence p e"
    using press(3) by (auto simp: last_evidence_def newer_evidence_def ordered_after_def)
  ultimately show ?thesis by auto
qed

lemma pressed_ordered:
  "gate_wf g \<Longrightarrow> successively newer_evidence (pressed es g) \<and>
     (\<forall>p. last_evidence g p \<longrightarrow> pressed es g \<noteq> [] \<longrightarrow> newer_evidence p (hd (pressed es g)))"
proof (induction es arbitrary: g)
  case Nil
  then show ?case by simp
next
  case (Cons x es)
  obtain e now where x: "x = (e, now)" by (cases x)
  obtain s g' where proc: "LockCommandGate_process e now g = (s, g')"
    by (cases "LockCommandGate_process e now g")
  note IH = Cons.IH [OF process_wf [OF proc Cons.prems]]
  note last = process_last_evidence [OF proc Cons.prems]
  show ?case
  proof (cases "command_accepted s \<or> s = LC_RejectedTiming")
    case True
    then have "pressed (x # es) g = e # pressed es g'" by (simp add: x proc)
    with True IH last show ?thesis by (cases "pressed es g'") auto
  next
    case False
    then have "pressed (x # es) g = pressed es g'" by (simp add: x proc)
    with False IH last show ?thesis by auto
  qed
qed

lemma gate_wf_start [simp]: "gate_wf (mkLockCommandGate config)"
  by (simp add: gate_wf_def mkLockCommandGate_def mkLockSequenceDetector_def)

section \<open>Properties\<close>

text \<open>C7: A remote start is requested only on the last press of a complete gesture: among the
  presentations received so far there are exactly as many verified, allowed, secured, fresh and
  not-future presses as the configuration requires, with their gaps and their total duration
  within the configured windows.\<close>

theorem remote_start_needs_gesture:
  assumes "fst (LockCommandGate_process e now (gate_run es (mkLockCommandGate config))) =
    LC_RemoteStartRequested"
  shows "\<exists>acc. subseq acc es \<and> list_all (evidence_ok config) (acc @ [(e, now)]) \<and>
    sequenceConfigIsValid (gc_sequence config) \<and>
    length acc + 1 = unat (requiredPresses (gc_sequence config)) \<and>
    within_sequence (gc_sequence config) (map press_time (acc @ [(e, now)]))"
  using remote_start_gesture [OF assms]
  unfolding lsd.gesture_in_def gesture_complete_def by auto

definition sample_press :: "u32 \<Rightarrow> u32 \<Rightarrow> presentation" where
  "sample_press i t =
     (LockCommandEvidence_default
        \<lparr>le_source := LS_VehicleAdapter, le_trust := LT_Verified, le_vehicleSecured := True,
         le_sourceSequence := i, le_observedAtMs := t\<rparr>, t + 10)"

lemma remote_start_needs_gesture_witness:
  "\<exists>acc. subseq acc [sample_press 1 1000, sample_press 2 1500] \<and> length acc + 1 = 3"
proof -
  have "fst (LockCommandGate_process (fst (sample_press 3 2000)) (snd (sample_press 3 2000))
      (gate_run [sample_press 1 1000, sample_press 2 1500]
        (mkLockCommandGate LockCommandGateConfig_default))) = LC_RemoteStartRequested"
    by code_simp
  from remote_start_needs_gesture [OF this] show ?thesis
    by (auto simp: LockCommandGateConfig_default_def LockSequenceConfig_default_def)
qed

text \<open>Replay protection: the presses that reach the detector are ordered, each one with a
  source sequence number and an observation time strictly newer (modulo the counter range) than
  the one before, whatever is presented and however often.\<close>

theorem presses_strictly_ordered:
  "successively newer_evidence (pressed es (mkLockCommandGate config))"
  using pressed_ordered [OF gate_wf_start, of es config] by blast

text \<open>Any rejection other than a timing one forgets the gesture in progress and leaves the
  memory of the last accepted evidence alone, so a refused press can neither complete a gesture
  nor move the replay window.\<close>

theorem rejection_forgets_gesture:
  assumes "LockCommandGate_process e now g = (s, g')" and "gate_wf g"
    and "\<not> command_accepted s" and "s \<noteq> LC_RejectedTiming"
  shows "lsd_pressCount (detector g') = 0 \<and> evidenceInitialized g' = evidenceInitialized g \<and>
    lastSourceSequence g' = lastSourceSequence g \<and>
    lastEvidenceTimestampMs g' = lastEvidenceTimestampMs g"
  using assms(1)
proof (cases rule: process_cases)
  case rejected
  then show ?thesis by (simp add: LockSequenceDetector_reset_def)
next
  case (press g1)
  have "sequenceConfigIsValid (lsd_config (detector g1))"
    using press assms(2) gateConfig_sequence by (simp add: gate_wf_def)
  with press_pressed [OF press(4)] assms(3,4) show ?thesis by blast
qed

lemma rejection_forgets_gesture_witness:
  "lsd_pressCount (detector (snd (LockCommandGate_process (fst (sample_press 2 1500)) 9000
     (gate_run [sample_press 1 1000] (mkLockCommandGate LockCommandGateConfig_default))))) = 0"
proof -
  let ?g = "gate_run [sample_press 1 1000] (mkLockCommandGate LockCommandGateConfig_default)"
  have "fst (LockCommandGate_process (fst (sample_press 2 1500)) 9000 ?g) =
      LC_RejectedStaleEvidence"
    by code_simp
  moreover have "gate_wf ?g" unfolding gate_wf_def by code_simp
  ultimately show ?thesis
    using rejection_forgets_gesture [of "fst (sample_press 2 1500)" 9000 ?g
        LC_RejectedStaleEvidence]
    by (cases "LockCommandGate_process (fst (sample_press 2 1500)) 9000 ?g")
       (simp add: command_accepted_def)
qed

text \<open>The detector recognises every correct gesture: from a fresh start, presses whose gaps
  and duration respect a valid configuration are accepted one by one and the last one completes
  the sequence.\<close>

theorem correct_gesture_recognised:
  assumes "sequenceConfigIsValid cfg" and "length ts = unat (requiredPresses cfg)"
    and "within_sequence cfg ts"
  shows "fst (detector_run ts (mkLockSequenceDetector cfg)) =
    replicate (length ts - 1) LP_Accepted @ [LP_SequenceCompleted]"
  by (rule detector_run_gesture [OF assms])

lemma correct_gesture_recognised_witness:
  "fst (detector_run [1000, 1500, 2000] (mkLockSequenceDetector LockSequenceConfig_default)) =
     [LP_Accepted, LP_Accepted, LP_SequenceCompleted]"
proof -
  have "sequenceConfigIsValid LockSequenceConfig_default"
    "length [1000, 1500, 2000 :: u32] = unat (requiredPresses LockSequenceConfig_default)"
    "within_sequence LockSequenceConfig_default [1000, 1500, 2000]"
    by code_simp+
  from correct_gesture_recognised [OF this] show ?thesis by (simp add: numeral_2_eq_2)
qed

end
