(* ===== verification/Telemetry.thy ===== *)
theory Telemetry
  imports VehicleModel
begin

text \<open>
  The read-only feature catalogue (\<^verbatim>\<open>application/feature_catalog.hpp/.cpp\<close>) and the
  telemetry monitor (\<^verbatim>\<open>application/telemetry_monitor.hpp/.cpp\<close>): requests as a 64-bit
  mask, the resolution of a feature against what the runtime offers, and the three alert
  conditions with their transitions.  Temperatures are signed 16-bit words, compared through
  \<open>sint\<close>.
\<close>

section \<open>Feature catalogue\<close>

datatype FeatureId =
  FI_ColdEngineGuard | FI_DpfRegenerationIndicator | FI_TransmissionOverheatAlert | FI_Count

fun featureIndex :: "FeatureId \<Rightarrow> nat" where
  "featureIndex FI_ColdEngineGuard = 0"
| "featureIndex FI_DpfRegenerationIndicator = 1"
| "featureIndex FI_TransmissionOverheatAlert = 2"
| "featureIndex FI_Count = 3"

definition FeatureCount :: nat where
  "FeatureCount = featureIndex FI_Count"

datatype FeatureCategory =
  FK_SecurityAccess | FK_TelemetryCockpit | FK_Lighting | FK_ComfortAutomation | FK_SoftwareRule

datatype FeatureControlClass =
    FX_Informational | FX_ExternalOutput | FX_ComfortVehicleWrite
  | FX_SafetyCriticalVehicleControl

datatype FeatureReleaseTier = FR_V1ReadOnly | FR_FutureComfort | FR_BenchOnly

datatype FeatureCapability =
    FP_None | FP_VehicleStateRead | FP_BodyBusWrite | FP_PowertrainBusWrite
  | FP_SteeringWheelInput | FP_BleRadio | FP_WifiNetwork | FP_CellularNetwork | FP_SdStorage
  | FP_ExternalRgbOutput | FP_AndroidCompanion | FP_IosCompanion | FP_LinBus | FP_AlarmStatus
  | FP_RainSensor | FP_PassengerOccupancy | FP_AuthenticatedPhone

fun featureCapabilityMask :: "FeatureCapability \<Rightarrow> u32" where
  "featureCapabilityMask FP_None = 0"
| "featureCapabilityMask FP_VehicleStateRead = push_bit 0 1"
| "featureCapabilityMask FP_BodyBusWrite = push_bit 1 1"
| "featureCapabilityMask FP_PowertrainBusWrite = push_bit 2 1"
| "featureCapabilityMask FP_SteeringWheelInput = push_bit 3 1"
| "featureCapabilityMask FP_BleRadio = push_bit 4 1"
| "featureCapabilityMask FP_WifiNetwork = push_bit 5 1"
| "featureCapabilityMask FP_CellularNetwork = push_bit 6 1"
| "featureCapabilityMask FP_SdStorage = push_bit 7 1"
| "featureCapabilityMask FP_ExternalRgbOutput = push_bit 8 1"
| "featureCapabilityMask FP_AndroidCompanion = push_bit 9 1"
| "featureCapabilityMask FP_IosCompanion = push_bit 10 1"
| "featureCapabilityMask FP_LinBus = push_bit 11 1"
| "featureCapabilityMask FP_AlarmStatus = push_bit 12 1"
| "featureCapabilityMask FP_RainSensor = push_bit 13 1"
| "featureCapabilityMask FP_PassengerOccupancy = push_bit 14 1"
| "featureCapabilityMask FP_AuthenticatedPhone = push_bit 15 1"

record FeatureDescriptor =
  fd_id :: FeatureId
  fd_code :: string
  fd_displayName :: string
  fd_category :: FeatureCategory
  fd_controlClass :: FeatureControlClass
  fd_releaseTier :: FeatureReleaseTier
  fd_requiredCapabilities :: u32
  fd_anyCapability :: u32
  fd_requiresQualifiedVehicleSignals :: bool

definition Catalog :: "FeatureDescriptor list" where
  "Catalog =
     [\<lparr>fd_id = FI_ColdEngineGuard, fd_code = ''cold_engine_guard'',
       fd_displayName = ''Protection moteur froid'', fd_category = FK_TelemetryCockpit,
       fd_controlClass = FX_Informational, fd_releaseTier = FR_V1ReadOnly,
       fd_requiredCapabilities = featureCapabilityMask FP_VehicleStateRead,
       fd_anyCapability = 0, fd_requiresQualifiedVehicleSignals = True\<rparr>,
      \<lparr>fd_id = FI_DpfRegenerationIndicator, fd_code = ''dpf_regeneration_indicator'',
       fd_displayName = ''Indicateur regeneration FAP'', fd_category = FK_TelemetryCockpit,
       fd_controlClass = FX_Informational, fd_releaseTier = FR_V1ReadOnly,
       fd_requiredCapabilities = featureCapabilityMask FP_VehicleStateRead,
       fd_anyCapability = 0, fd_requiresQualifiedVehicleSignals = True\<rparr>,
      \<lparr>fd_id = FI_TransmissionOverheatAlert, fd_code = ''transmission_overheat_alert'',
       fd_displayName = ''Alerte temperature BVA'', fd_category = FK_TelemetryCockpit,
       fd_controlClass = FX_Informational, fd_releaseTier = FR_V1ReadOnly,
       fd_requiredCapabilities = featureCapabilityMask FP_VehicleStateRead,
       fd_anyCapability = 0, fd_requiresQualifiedVehicleSignals = True\<rparr>]"

definition findFeature :: "FeatureId \<Rightarrow> FeatureDescriptor option" where
  "findFeature i =
     (let index = featureIndex i in
      if index < length Catalog then Some (Catalog ! index) else None)"

fun findInCatalog :: "FeatureDescriptor list \<Rightarrow> string \<Rightarrow> FeatureDescriptor option" where
  "findInCatalog [] code = None"
| "findInCatalog (d # ds) code = (if code = fd_code d then Some d else findInCatalog ds code)"

definition findFeatureByCode :: "string option \<Rightarrow> FeatureDescriptor option" where
  "findFeatureByCode code =
     (case code of None \<Rightarrow> None | Some c \<Rightarrow> findInCatalog Catalog c)"

subsection \<open>Requests\<close>

record FeatureRequests =
  fr_mask :: u64

definition FeatureRequests_default :: FeatureRequests where
  "FeatureRequests_default = \<lparr>fr_mask = 0\<rparr>"

definition FeatureRequests_enabled :: "FeatureRequests \<Rightarrow> FeatureId \<Rightarrow> bool" where
  "FeatureRequests_enabled r i =
     (let index = featureIndex i in
      index < FeatureCount \<and> (fr_mask r AND push_bit index 1) \<noteq> 0)"

definition FeatureRequests_setEnabled ::
    "FeatureId \<Rightarrow> bool \<Rightarrow> FeatureRequests \<Rightarrow> bool \<times> FeatureRequests" where
  "FeatureRequests_setEnabled i enabledValue r =
     (let index = featureIndex i in
      if index \<ge> FeatureCount then (False, r)
      else (let bit = push_bit index 1 in
        (True, r\<lparr>fr_mask := (if enabledValue then fr_mask r OR bit else fr_mask r AND NOT bit)\<rparr>)))"

definition FeatureRequests_valid :: "FeatureRequests \<Rightarrow> bool" where
  "FeatureRequests_valid r =
     (let ValidMask = (if FeatureCount = 64 then NOT 0 else push_bit FeatureCount 1 - 1) in
      (fr_mask r AND NOT ValidMask) = 0)"

subsection \<open>Resolution\<close>

datatype FeatureExecutionTarget = FET_Simulation | FET_Vehicle

datatype FeatureResolutionStatus =
    FS_DisabledByUser | FS_NotImplemented | FS_MissingCapabilities | FS_SignalsUnqualified
  | FS_ComfortWritesUnqualified | FS_CriticalControlBlocked | FS_Simulated | FS_Available

record FeatureRuntimeContext =
  rc_target :: FeatureExecutionTarget
  implementedFeatures :: u64
  availableCapabilities :: u32
  vehicleSignalsQualified :: bool
  comfortWritesQualified :: bool
  criticalControlsQualified :: bool

definition FeatureRuntimeContext_default :: FeatureRuntimeContext where
  "FeatureRuntimeContext_default =
     \<lparr>rc_target = FET_Vehicle, implementedFeatures = 0, availableCapabilities = 0,
      vehicleSignalsQualified = False, comfortWritesQualified = False,
      criticalControlsQualified = False\<rparr>"

record FeatureResolution =
  fres_status :: FeatureResolutionStatus
  missingCapabilities :: u32

definition FeatureResolution_default :: FeatureResolution where
  "FeatureResolution_default = \<lparr>fres_status = FS_DisabledByUser, missingCapabilities = 0\<rparr>"

definition FeatureResolution_effective :: "FeatureResolution \<Rightarrow> bool" where
  "FeatureResolution_effective r = (fres_status r = FS_Simulated \<or> fres_status r = FS_Available)"

definition featureBit :: "FeatureId \<Rightarrow> u64" where
  "featureBit i = push_bit (featureIndex i) 1"

text \<open>The part of \<open>resolveFeature\<close> after the descriptor has been found and is requested.\<close>

definition resolveDescriptor ::
    "FeatureDescriptor \<Rightarrow> FeatureId \<Rightarrow> FeatureRuntimeContext \<Rightarrow> FeatureResolution" where
  "resolveDescriptor d i context =
     (if (implementedFeatures context AND featureBit i) = 0
      then \<lparr>fres_status = FS_NotImplemented, missingCapabilities = 0\<rparr>
      else if fd_releaseTier d = FR_BenchOnly \<and> rc_target context = FET_Vehicle
      then \<lparr>fres_status = FS_CriticalControlBlocked, missingCapabilities = 0\<rparr>
      else
       (let missing = fd_requiredCapabilities d AND NOT (availableCapabilities context);
            missing = (if fd_anyCapability d \<noteq> 0 \<and>
                          (fd_anyCapability d AND availableCapabilities context) = 0
                       then missing OR fd_anyCapability d else missing)
        in
        if missing \<noteq> 0 then \<lparr>fres_status = FS_MissingCapabilities, missingCapabilities = missing\<rparr>
        else if fd_requiresQualifiedVehicleSignals d \<and> \<not> vehicleSignalsQualified context
        then \<lparr>fres_status = FS_SignalsUnqualified, missingCapabilities = 0\<rparr>
        else if fd_controlClass d = FX_ComfortVehicleWrite \<and> \<not> comfortWritesQualified context
        then \<lparr>fres_status = FS_ComfortWritesUnqualified, missingCapabilities = 0\<rparr>
        else if fd_controlClass d = FX_SafetyCriticalVehicleControl \<and>
                \<not> criticalControlsQualified context
        then \<lparr>fres_status = FS_CriticalControlBlocked, missingCapabilities = 0\<rparr>
        else \<lparr>fres_status = (if rc_target context = FET_Simulation then FS_Simulated
                             else FS_Available),
              missingCapabilities = 0\<rparr>))"

definition resolveFeature ::
    "FeatureRequests \<Rightarrow> FeatureId \<Rightarrow> FeatureRuntimeContext \<Rightarrow> FeatureResolution" where
  "resolveFeature requests i context =
     (case findFeature i of
        None \<Rightarrow> \<lparr>fres_status = FS_DisabledByUser, missingCapabilities = 0\<rparr>
      | Some d \<Rightarrow>
          (if \<not> FeatureRequests_enabled requests i
           then \<lparr>fres_status = FS_DisabledByUser, missingCapabilities = 0\<rparr>
           else resolveDescriptor d i context))"

fun FeatureCategory_toString :: "FeatureCategory \<Rightarrow> string" where
  "FeatureCategory_toString FK_SecurityAccess = ''security_access''"
| "FeatureCategory_toString FK_TelemetryCockpit = ''telemetry_cockpit''"
| "FeatureCategory_toString FK_Lighting = ''lighting''"
| "FeatureCategory_toString FK_ComfortAutomation = ''comfort_automation''"
| "FeatureCategory_toString FK_SoftwareRule = ''software_rule''"

fun FeatureControlClass_toString :: "FeatureControlClass \<Rightarrow> string" where
  "FeatureControlClass_toString FX_Informational = ''informational''"
| "FeatureControlClass_toString FX_ExternalOutput = ''external_output''"
| "FeatureControlClass_toString FX_ComfortVehicleWrite = ''comfort_vehicle_write''"
| "FeatureControlClass_toString FX_SafetyCriticalVehicleControl =
     ''safety_critical_vehicle_control''"

fun FeatureReleaseTier_toString :: "FeatureReleaseTier \<Rightarrow> string" where
  "FeatureReleaseTier_toString FR_V1ReadOnly = ''v1_read_only''"
| "FeatureReleaseTier_toString FR_FutureComfort = ''future_comfort''"
| "FeatureReleaseTier_toString FR_BenchOnly = ''bench_only''"

fun FeatureResolutionStatus_toString :: "FeatureResolutionStatus \<Rightarrow> string" where
  "FeatureResolutionStatus_toString FS_DisabledByUser = ''disabled_by_user''"
| "FeatureResolutionStatus_toString FS_NotImplemented = ''not_implemented''"
| "FeatureResolutionStatus_toString FS_MissingCapabilities = ''missing_capabilities''"
| "FeatureResolutionStatus_toString FS_SignalsUnqualified = ''signals_unqualified''"
| "FeatureResolutionStatus_toString FS_ComfortWritesUnqualified = ''comfort_writes_unqualified''"
| "FeatureResolutionStatus_toString FS_CriticalControlBlocked = ''critical_control_blocked''"
| "FeatureResolutionStatus_toString FS_Simulated = ''simulated''"
| "FeatureResolutionStatus_toString FS_Available = ''available''"

section \<open>Telemetry monitor\<close>

datatype TelemetryConditionState = TC_Disabled | TC_Unavailable | TC_Normal | TC_Active

datatype TelemetryAlertType =
    TA_ColdEngineHighRpm | TA_ColdEngineRecovered | TA_DpfRegenerationStarted
  | TA_DpfRegenerationStopped | TA_TransmissionOverheat | TA_TransmissionTemperatureRecovered

record TelemetryMonitorConfig =
  tm_requestedFeatures :: FeatureRequests
  tm_runtime :: FeatureRuntimeContext
  tm_coldEngineMaximumRpm :: u16
  tm_engineWarmTemperatureC :: i16
  tm_transmissionOverheatTemperatureC :: i16
  tm_temperatureHysteresisC :: u8

definition TelemetryMonitorConfig_default :: TelemetryMonitorConfig where
  "TelemetryMonitorConfig_default =
     \<lparr>tm_requestedFeatures = FeatureRequests_default, tm_runtime = FeatureRuntimeContext_default,
      tm_coldEngineMaximumRpm = 2200, tm_engineWarmTemperatureC = 75,
      tm_transmissionOverheatTemperatureC = 110, tm_temperatureHysteresisC = 5\<rparr>"

text \<open>The constants of \<open>TelemetryMonitorLimits\<close>.\<close>

definition TML_MinimumColdEngineMaximumRpm :: u16 where "TML_MinimumColdEngineMaximumRpm = 1000"
definition TML_MaximumColdEngineMaximumRpm :: u16 where "TML_MaximumColdEngineMaximumRpm = 4500"
definition TML_MinimumEngineWarmTemperatureC :: i16 where "TML_MinimumEngineWarmTemperatureC = 40"
definition TML_MaximumEngineWarmTemperatureC :: i16 where "TML_MaximumEngineWarmTemperatureC = 110"
definition TML_MinimumTransmissionOverheatTemperatureC :: i16 where
  "TML_MinimumTransmissionOverheatTemperatureC = 80"
definition TML_MaximumTransmissionOverheatTemperatureC :: i16 where
  "TML_MaximumTransmissionOverheatTemperatureC = 150"
definition TML_MinimumTemperatureHysteresisC :: u8 where "TML_MinimumTemperatureHysteresisC = 1"
definition TML_MaximumTemperatureHysteresisC :: u8 where "TML_MaximumTemperatureHysteresisC = 20"

lemmas telemetry_limits =
  TML_MinimumColdEngineMaximumRpm_def TML_MaximumColdEngineMaximumRpm_def
  TML_MinimumEngineWarmTemperatureC_def TML_MaximumEngineWarmTemperatureC_def
  TML_MinimumTransmissionOverheatTemperatureC_def TML_MaximumTransmissionOverheatTemperatureC_def
  TML_MinimumTemperatureHysteresisC_def TML_MaximumTemperatureHysteresisC_def

definition validTelemetryMonitorConfig :: "TelemetryMonitorConfig \<Rightarrow> bool" where
  "validTelemetryMonitorConfig config =
     (FeatureRequests_valid (tm_requestedFeatures config) \<and>
      tm_coldEngineMaximumRpm config \<ge> TML_MinimumColdEngineMaximumRpm \<and>
      tm_coldEngineMaximumRpm config \<le> TML_MaximumColdEngineMaximumRpm \<and>
      sint (tm_engineWarmTemperatureC config) \<ge> sint TML_MinimumEngineWarmTemperatureC \<and>
      sint (tm_engineWarmTemperatureC config) \<le> sint TML_MaximumEngineWarmTemperatureC \<and>
      sint (tm_transmissionOverheatTemperatureC config)
        \<ge> sint TML_MinimumTransmissionOverheatTemperatureC \<and>
      sint (tm_transmissionOverheatTemperatureC config)
        \<le> sint TML_MaximumTransmissionOverheatTemperatureC \<and>
      tm_temperatureHysteresisC config \<ge> TML_MinimumTemperatureHysteresisC \<and>
      tm_temperatureHysteresisC config \<le> TML_MaximumTemperatureHysteresisC)"

text \<open>The fixed array of alerts with its counter is a list; \<open>addAlert\<close> tests the capacity.\<close>

definition MaximumAlerts :: nat where
  "MaximumAlerts = 6"

record TelemetryReport =
  tr_coldEngineGuard :: TelemetryConditionState
  tr_dpfRegeneration :: TelemetryConditionState
  tr_transmissionOverheat :: TelemetryConditionState
  tr_coldEngineFeature :: FeatureResolution
  tr_dpfFeature :: FeatureResolution
  tr_transmissionFeature :: FeatureResolution
  tr_alerts :: "TelemetryAlertType list"

definition TelemetryReport_default :: TelemetryReport where
  "TelemetryReport_default =
     \<lparr>tr_coldEngineGuard = TC_Disabled, tr_dpfRegeneration = TC_Disabled,
      tr_transmissionOverheat = TC_Disabled, tr_coldEngineFeature = FeatureResolution_default,
      tr_dpfFeature = FeatureResolution_default,
      tr_transmissionFeature = FeatureResolution_default, tr_alerts = []\<rparr>"

definition TelemetryReport_addAlert ::
    "TelemetryAlertType \<Rightarrow> TelemetryReport \<Rightarrow> bool \<times> TelemetryReport" where
  "TelemetryReport_addAlert t report =
     (if length (tr_alerts report) \<ge> MaximumAlerts then (False, report)
      else (True, report\<lparr>tr_alerts := tr_alerts report @ [t]\<rparr>))"

fun alerts_contain :: "TelemetryAlertType list \<Rightarrow> TelemetryAlertType \<Rightarrow> bool" where
  "alerts_contain [] t = False"
| "alerts_contain (a # as) t = (if a = t then True else alerts_contain as t)"

definition TelemetryReport_contains :: "TelemetryReport \<Rightarrow> TelemetryAlertType \<Rightarrow> bool" where
  "TelemetryReport_contains report t = alerts_contain (tr_alerts report) t"

record TelemetryMonitor =
  tm_config :: TelemetryMonitorConfig
  configValid :: bool
  previousColdEngine :: TelemetryConditionState
  previousDpf :: TelemetryConditionState
  previousTransmission :: TelemetryConditionState

definition mkTelemetryMonitor :: "TelemetryMonitorConfig \<Rightarrow> TelemetryMonitor" where
  "mkTelemetryMonitor config =
     \<lparr>tm_config = config, configValid = validTelemetryMonitorConfig config,
      previousColdEngine = TC_Disabled, previousDpf = TC_Disabled,
      previousTransmission = TC_Disabled\<rparr>"

definition TelemetryMonitor_reset :: "TelemetryMonitor \<Rightarrow> TelemetryMonitor" where
  "TelemetryMonitor_reset m =
     m\<lparr>previousColdEngine := TC_Disabled, previousDpf := TC_Disabled,
       previousTransmission := TC_Disabled\<rparr>"

definition evaluateColdEngine ::
    "TelemetryMonitor \<Rightarrow> VehicleState \<Rightarrow> FeatureResolution \<Rightarrow> TelemetryConditionState" where
  "evaluateColdEngine m vehicle resolution =
     (if \<not> configValid m \<or> \<not> FeatureResolution_effective resolution
      then (if fres_status resolution = FS_DisabledByUser then TC_Disabled else TC_Unavailable)
      else if \<not> isFresh (vs_engineRpm vehicle) then TC_Unavailable
      else
       (let warm = sint (tm_engineWarmTemperatureC (tm_config m));
            (temperatureAvailable, engineCold) = (False, False);
            (temperatureAvailable, engineCold) =
              (if isFresh (vs_engineOilTemperatureC vehicle)
               then (True, sint (obs_value (vs_engineOilTemperatureC vehicle)) < warm)
               else (temperatureAvailable, engineCold));
            (temperatureAvailable, engineCold) =
              (if isFresh (vs_coolantTemperatureC vehicle)
               then (True, engineCold \<or>
                       sint (obs_value (vs_coolantTemperatureC vehicle)) < warm)
               else (temperatureAvailable, engineCold))
        in if \<not> temperatureAvailable then TC_Unavailable
           else if engineCold \<and>
             obs_value (vs_engineRpm vehicle) > tm_coldEngineMaximumRpm (tm_config m)
           then TC_Active else TC_Normal))"

definition evaluateDpf ::
    "TelemetryMonitor \<Rightarrow> VehicleState \<Rightarrow> FeatureResolution \<Rightarrow> TelemetryConditionState" where
  "evaluateDpf m vehicle resolution =
     (if \<not> configValid m \<or> \<not> FeatureResolution_effective resolution
      then (if fres_status resolution = FS_DisabledByUser then TC_Disabled else TC_Unavailable)
      else if \<not> isFresh (vs_dpfRegenerationActive vehicle) then TC_Unavailable
      else if obs_value (vs_dpfRegenerationActive vehicle) then TC_Active else TC_Normal)"

text \<open>The subtraction is done in \<open>int\<close> and converted back to 16 bits.\<close>

definition overheat_threshold :: "TelemetryMonitor \<Rightarrow> i16" where
  "overheat_threshold m =
     (if previousTransmission m = TC_Active
      then word_of_int (sint (tm_transmissionOverheatTemperatureC (tm_config m)) -
                        uint (tm_temperatureHysteresisC (tm_config m)))
      else tm_transmissionOverheatTemperatureC (tm_config m))"

definition evaluateTransmission ::
    "TelemetryMonitor \<Rightarrow> VehicleState \<Rightarrow> FeatureResolution \<Rightarrow> TelemetryConditionState" where
  "evaluateTransmission m vehicle resolution =
     (if \<not> configValid m \<or> \<not> FeatureResolution_effective resolution
      then (if fres_status resolution = FS_DisabledByUser then TC_Disabled else TC_Unavailable)
      else if \<not> isFresh (vs_transmissionOilTemperatureC vehicle) then TC_Unavailable
      else if sint (obs_value (vs_transmissionOilTemperatureC vehicle))
                \<ge> sint (overheat_threshold m)
      then TC_Active else TC_Normal)"

definition appendTransitionAlerts ::
    "TelemetryConditionState \<Rightarrow> TelemetryConditionState \<Rightarrow> TelemetryAlertType \<Rightarrow>
       TelemetryAlertType \<Rightarrow> TelemetryReport \<Rightarrow> TelemetryReport" where
  "appendTransitionAlerts previous current activated recovered report =
     (if current = TC_Active \<and> previous \<noteq> TC_Active
      then snd (TelemetryReport_addAlert activated report)
      else if current = TC_Normal \<and> previous = TC_Active
      then snd (TelemetryReport_addAlert recovered report)
      else report)"

definition TelemetryMonitor_evaluate ::
    "VehicleState \<Rightarrow> TelemetryMonitor \<Rightarrow> TelemetryReport \<times> TelemetryMonitor" where
  "TelemetryMonitor_evaluate vehicle m =
     (let resolve = (\<lambda>i. resolveFeature (tm_requestedFeatures (tm_config m)) i
                           (tm_runtime (tm_config m)));
          report = TelemetryReport_default
            \<lparr>tr_coldEngineFeature := resolve FI_ColdEngineGuard,
             tr_dpfFeature := resolve FI_DpfRegenerationIndicator,
             tr_transmissionFeature := resolve FI_TransmissionOverheatAlert\<rparr>;
          report = report
            \<lparr>tr_coldEngineGuard := evaluateColdEngine m vehicle (tr_coldEngineFeature report),
             tr_dpfRegeneration := evaluateDpf m vehicle (tr_dpfFeature report),
             tr_transmissionOverheat :=
               evaluateTransmission m vehicle (tr_transmissionFeature report)\<rparr>;
          report = appendTransitionAlerts (previousColdEngine m) (tr_coldEngineGuard report)
            TA_ColdEngineHighRpm TA_ColdEngineRecovered report;
          report = appendTransitionAlerts (previousDpf m) (tr_dpfRegeneration report)
            TA_DpfRegenerationStarted TA_DpfRegenerationStopped report;
          report = appendTransitionAlerts (previousTransmission m)
            (tr_transmissionOverheat report)
            TA_TransmissionOverheat TA_TransmissionTemperatureRecovered report
      in (report,
          m\<lparr>previousColdEngine := tr_coldEngineGuard report,
            previousDpf := tr_dpfRegeneration report,
            previousTransmission := tr_transmissionOverheat report\<rparr>))"

fun TelemetryConditionState_toString :: "TelemetryConditionState \<Rightarrow> string" where
  "TelemetryConditionState_toString TC_Disabled = ''disabled''"
| "TelemetryConditionState_toString TC_Unavailable = ''unavailable''"
| "TelemetryConditionState_toString TC_Normal = ''normal''"
| "TelemetryConditionState_toString TC_Active = ''active''"

fun TelemetryAlertType_toString :: "TelemetryAlertType \<Rightarrow> string" where
  "TelemetryAlertType_toString TA_ColdEngineHighRpm = ''cold_engine_high_rpm''"
| "TelemetryAlertType_toString TA_ColdEngineRecovered = ''cold_engine_recovered''"
| "TelemetryAlertType_toString TA_DpfRegenerationStarted = ''dpf_regeneration_started''"
| "TelemetryAlertType_toString TA_DpfRegenerationStopped = ''dpf_regeneration_stopped''"
| "TelemetryAlertType_toString TA_TransmissionOverheat = ''transmission_overheat''"
| "TelemetryAlertType_toString TA_TransmissionTemperatureRecovered =
     ''transmission_temperature_recovered''"

section \<open>Facts about features\<close>

lemma findFeature_simps [simp]:
  "findFeature FI_ColdEngineGuard = Some (Catalog ! 0)"
  "findFeature FI_DpfRegenerationIndicator = Some (Catalog ! 1)"
  "findFeature FI_TransmissionOverheatAlert = Some (Catalog ! 2)"
  "findFeature FI_Count = None"
  by (simp_all add: findFeature_def Catalog_def)

lemma findFeature_requirements:
  "findFeature i = Some d \<Longrightarrow>
     fd_id d = i \<and> fd_requiredCapabilities d = featureCapabilityMask FP_VehicleStateRead \<and>
     fd_anyCapability d = 0 \<and> fd_requiresQualifiedVehicleSignals d \<and>
     fd_controlClass d = FX_Informational \<and> fd_releaseTier d = FR_V1ReadOnly"
  by (cases i) (auto simp: Catalog_def)

lemma one_and_not_zero_iff: "(1 AND NOT (x :: u32) \<noteq> 0) \<longleftrightarrow> \<not> bit x 0"
  using and_exp_eq_0_iff_not_bit [of "NOT x" 0] by (simp add: and.commute bit_simps)

text \<open>Every catalogued feature is informational: it is effective exactly when requested,
  implemented, fed by a vehicle-state source, and backed by qualified signals.\<close>

lemma resolveFeature_effective:
  "FeatureResolution_effective (resolveFeature requests i context) \<longleftrightarrow>
     FeatureRequests_enabled requests i \<and> (implementedFeatures context AND featureBit i) \<noteq> 0 \<and>
     bit (availableCapabilities context) 0 \<and> vehicleSignalsQualified context"
proof (cases "findFeature i")
  case None
  then have "i = FI_Count" by (cases i) simp_all
  then show ?thesis
    by (simp add: resolveFeature_def FeatureResolution_effective_def FeatureRequests_enabled_def
        FeatureCount_def)
next
  case (Some d)
  note req = findFeature_requirements [OF Some]
  show ?thesis
    using one_and_not_zero_iff [of "availableCapabilities context"]
    by (auto simp: resolveFeature_def Some resolveDescriptor_def req
        FeatureResolution_effective_def Let_def)
qed

lemma featureIndex_bound: "featureIndex i \<le> 3"
  by (cases i) simp_all

lemma featureIndex_inj: "featureIndex i = featureIndex j \<longleftrightarrow> i = j"
  by (cases i; cases j) simp_all

lemma FeatureRequests_enabled_bit:
  "FeatureRequests_enabled r i \<longleftrightarrow> featureIndex i < FeatureCount \<and> bit (fr_mask r) (featureIndex i)"
  by (simp add: FeatureRequests_enabled_def Let_def push_bit_of_1 and_exp_eq_0_iff_not_bit)

lemma FeatureRequests_valid_bits:
  "FeatureRequests_valid r \<longleftrightarrow> (\<forall>n. bit (fr_mask r) n \<longrightarrow> n < FeatureCount)"
proof -
  have mask: "push_bit FeatureCount 1 - 1 = (mask 3 :: u64)"
    by (simp add: FeatureCount_def mask_eq_exp_minus_1)
  have "FeatureRequests_valid r \<longleftrightarrow> (fr_mask r AND NOT (mask 3)) = 0"
    by (simp add: FeatureRequests_valid_def FeatureCount_def mask_eq_exp_minus_1)
  also have "\<dots> \<longleftrightarrow> (\<forall>n. bit (fr_mask r) n \<longrightarrow> n < 3)"
  proof
    assume "fr_mask r AND NOT (mask 3) = 0"
    then have *: "\<not> bit (fr_mask r AND NOT (mask 3)) n" for n by simp
    show "\<forall>n. bit (fr_mask r) n \<longrightarrow> n < 3"
      using * bit_imp_le_length by (fastforce simp: bit_and_iff bit_not_iff bit_mask_iff)
  next
    assume "\<forall>n. bit (fr_mask r) n \<longrightarrow> n < 3"
    then show "fr_mask r AND NOT (mask 3) = 0"
      by (intro bit_word_eqI) (auto simp: bit_simps)
  qed
  finally show ?thesis by (simp add: FeatureCount_def)
qed

section \<open>Facts about the monitor\<close>

text \<open>The alert a change of condition produces; \<open>addAlert\<close> never reaches its capacity.\<close>

definition transition_alert ::
    "TelemetryConditionState \<Rightarrow> TelemetryConditionState \<Rightarrow> 'a \<Rightarrow> 'a \<Rightarrow> 'a list" where
  "transition_alert previous current activated recovered =
     (if current = TC_Active \<and> previous \<noteq> TC_Active then [activated]
      else if current = TC_Normal \<and> previous = TC_Active then [recovered] else [])"

lemma appendTransitionAlerts_alerts:
  "length (tr_alerts report) < MaximumAlerts \<Longrightarrow>
     appendTransitionAlerts p c a r report =
       report\<lparr>tr_alerts := tr_alerts report @ transition_alert p c a r\<rparr>"
  by (simp add: appendTransitionAlerts_def TelemetryReport_addAlert_def transition_alert_def)

lemma length_transition_alert: "length (transition_alert p c a r) \<le> 1"
  by (simp add: transition_alert_def)

definition monitor_resolution :: "TelemetryMonitor \<Rightarrow> FeatureId \<Rightarrow> FeatureResolution" where
  "monitor_resolution m i =
     resolveFeature (tm_requestedFeatures (tm_config m)) i (tm_runtime (tm_config m))"

lemma monitor_resolution_update:
  "monitor_resolution (m\<lparr>previousColdEngine := a, previousDpf := b, previousTransmission := c\<rparr>) i =
     monitor_resolution m i"
  by (simp add: monitor_resolution_def)

lemma evaluate_eq:
  fixes v m
  defines "cold \<equiv> evaluateColdEngine m v (monitor_resolution m FI_ColdEngineGuard)"
    and "dpf \<equiv> evaluateDpf m v (monitor_resolution m FI_DpfRegenerationIndicator)"
    and "gbox \<equiv> evaluateTransmission m v (monitor_resolution m FI_TransmissionOverheatAlert)"
  shows "TelemetryMonitor_evaluate v m =
    (\<lparr>tr_coldEngineGuard = cold, tr_dpfRegeneration = dpf, tr_transmissionOverheat = gbox,
      tr_coldEngineFeature = monitor_resolution m FI_ColdEngineGuard,
      tr_dpfFeature = monitor_resolution m FI_DpfRegenerationIndicator,
      tr_transmissionFeature = monitor_resolution m FI_TransmissionOverheatAlert,
      tr_alerts =
        transition_alert (previousColdEngine m) cold TA_ColdEngineHighRpm TA_ColdEngineRecovered @
        transition_alert (previousDpf m) dpf TA_DpfRegenerationStarted TA_DpfRegenerationStopped @
        transition_alert (previousTransmission m) gbox TA_TransmissionOverheat
          TA_TransmissionTemperatureRecovered\<rparr>,
     m\<lparr>previousColdEngine := cold, previousDpf := dpf, previousTransmission := gbox\<rparr>)"
proof -
  have bound: "length (transition_alert p c a r) < MaximumAlerts"
    "length (transition_alert p c a r) + length (transition_alert p' c' a' r') < MaximumAlerts"
    for p c p' c' and a r a' r' :: TelemetryAlertType
    using length_transition_alert [of p c a r] length_transition_alert [of p' c' a' r']
    by (simp_all add: MaximumAlerts_def)
  have "(0 :: nat) < MaximumAlerts" by (simp add: MaximumAlerts_def)
  then show ?thesis
    unfolding cold_def dpf_def gbox_def TelemetryMonitor_evaluate_def Let_def
    by (simp add: TelemetryReport_default_def appendTransitionAlerts_alerts bound
        flip: monitor_resolution_def)
qed

fun monitor_run :: "VehicleState list \<Rightarrow> TelemetryMonitor \<Rightarrow>
    TelemetryReport list \<times> TelemetryMonitor" where
  "monitor_run [] m = ([], m)"
| "monitor_run (v # vs) m =
     (let (report, m') = TelemetryMonitor_evaluate v m; (reports, m'') = monitor_run vs m'
      in (report # reports, m''))"

lemma monitor_run_append:
  "monitor_run (vs @ vs') m =
     (fst (monitor_run vs m) @ fst (monitor_run vs' (snd (monitor_run vs m))),
      snd (monitor_run vs' (snd (monitor_run vs m))))"
  by (induction vs arbitrary: m) (simp_all add: Let_def case_prod_unfold)

lemma monitor_run_config [simp]:
  "tm_config (snd (monitor_run vs m)) = tm_config m"
  "configValid (snd (monitor_run vs m)) = configValid m"
  by (induction vs arbitrary: m) (simp_all add: Let_def case_prod_unfold evaluate_eq)

text \<open>The abstract specification of an alarm with hysteresis.\<close>

definition schmitt :: "int \<Rightarrow> int \<Rightarrow> int list \<Rightarrow> bool" where
  "schmitt threshold hysteresis ts \<longleftrightarrow>
     (\<exists>k < length ts. threshold \<le> ts ! k \<and>
        (\<forall>j < length ts. k \<le> j \<longrightarrow> threshold - hysteresis \<le> ts ! j))"

lemma schmitt_Nil [simp]: "\<not> schmitt a h []"
  by (simp add: schmitt_def)

lemma schmitt_snoc:
  assumes "0 \<le> h"
  shows "schmitt a h (ts @ [t]) \<longleftrightarrow> a \<le> t \<or> (schmitt a h ts \<and> a - h \<le> t)"
proof
  assume "schmitt a h (ts @ [t])"
  then obtain k where k: "k < length (ts @ [t])" "a \<le> (ts @ [t]) ! k"
    and all: "\<And>j. j < length (ts @ [t]) \<Longrightarrow> k \<le> j \<Longrightarrow> a - h \<le> (ts @ [t]) ! j"
    by (auto simp: schmitt_def)
  have "a - h \<le> t" using all [of "length ts"] k(1) by simp
  moreover have "schmitt a h ts" if "k < length ts"
    unfolding schmitt_def
  proof (intro exI [of _ k] conjI allI impI)
    show "k < length ts" by (fact that)
    show "a \<le> ts ! k" using k(2) that by (simp add: nth_append)
    show "a - h \<le> ts ! j" if "j < length ts" "k \<le> j" for j
      using all [of j] that by (simp add: nth_append)
  qed
  moreover have "a \<le> t" if "\<not> k < length ts"
    using k that by (simp add: nth_append split: if_splits)
  ultimately show "a \<le> t \<or> (schmitt a h ts \<and> a - h \<le> t)" by blast
next
  assume "a \<le> t \<or> (schmitt a h ts \<and> a - h \<le> t)"
  then show "schmitt a h (ts @ [t])"
  proof
    assume "a \<le> t"
    with assms show ?thesis
      unfolding schmitt_def by (intro exI [of _ "length ts"]) (auto simp: nth_append less_Suc_eq)
  next
    assume *: "schmitt a h ts \<and> a - h \<le> t"
    then obtain k where "k < length ts" "a \<le> ts ! k"
      "\<And>j. j < length ts \<Longrightarrow> k \<le> j \<Longrightarrow> a - h \<le> ts ! j"
      by (auto simp: schmitt_def)
    with * show ?thesis
      unfolding schmitt_def by (intro exI [of _ k]) (auto simp: nth_append less_Suc_eq)
  qed
qed

definition transmission_watched :: "TelemetryMonitor \<Rightarrow> bool" where
  "transmission_watched m \<longleftrightarrow>
     configValid m \<and>
     FeatureResolution_effective (monitor_resolution m FI_TransmissionOverheatAlert) \<and>
     validTelemetryMonitorConfig (tm_config m)"

lemma threshold_no_wrap:
  assumes "validTelemetryMonitorConfig config"
  shows "sint (tm_transmissionOverheatTemperatureC config -
           ucast (tm_temperatureHysteresisC config)) =
         sint (tm_transmissionOverheatTemperatureC config) -
           uint (tm_temperatureHysteresisC config)"
proof -
  have "80 \<le> sint (tm_transmissionOverheatTemperatureC config)"
    "sint (tm_transmissionOverheatTemperatureC config) \<le> 150"
    using assms by (simp_all add: validTelemetryMonitorConfig_def telemetry_limits)
  moreover have "uint (tm_temperatureHysteresisC config) \<le> 20"
    using assms by (simp add: validTelemetryMonitorConfig_def telemetry_limits word_le_def)
  moreover have "sint (word_of_int k :: i16) = k" if "-100 \<le> k" "k \<le> 200" for k
  proof -
    have "sint (word_of_int k :: i16) = signed_take_bit 15 k" by transfer simp
    with that show ?thesis by (simp add: signed_take_bit_int_eq_self)
  qed
  ultimately have "sint (word_of_int (sint (tm_transmissionOverheatTemperatureC config) -
           uint (tm_temperatureHysteresisC config)) :: i16) =
         sint (tm_transmissionOverheatTemperatureC config) -
           uint (tm_temperatureHysteresisC config)"
    using uint_ge_0 [of "tm_temperatureHysteresisC config"] by (smt (verit))
  then show ?thesis by simp
qed

lemma transmission_run_schmitt:
  assumes "transmission_watched m" "previousTransmission m \<noteq> TC_Active"
    and "\<forall>v \<in> set vs. isFresh (vs_transmissionOilTemperatureC v)"
  shows "previousTransmission (snd (monitor_run vs m)) = TC_Active \<longleftrightarrow>
    schmitt (sint (tm_transmissionOverheatTemperatureC (tm_config m)))
      (uint (tm_temperatureHysteresisC (tm_config m)))
      (map (\<lambda>v. sint (obs_value (vs_transmissionOilTemperatureC v))) vs)"
  using assms(3)
proof (induction vs rule: rev_induct)
  case Nil
  with assms(2) show ?case by simp
next
  case (snoc v vs)
  let ?m = "snd (monitor_run vs m)"
  have watched: "configValid ?m" "tm_config ?m = tm_config m"
    "FeatureResolution_effective (monitor_resolution ?m FI_TransmissionOverheatAlert)"
    "validTelemetryMonitorConfig (tm_config m)"
    using assms(1) by (simp_all add: transmission_watched_def monitor_resolution_def)
  have "previousTransmission (snd (monitor_run (vs @ [v]) m)) = TC_Active \<longleftrightarrow>
      sint (overheat_threshold ?m) \<le> sint (obs_value (vs_transmissionOilTemperatureC v))"
    using snoc.prems watched(1,3)
    by (simp add: monitor_run_append evaluate_eq evaluateTransmission_def)
  moreover have "a \<le> t \<Longrightarrow> a - uint (tm_temperatureHysteresisC (tm_config m)) \<le> t" for a t
    using uint_ge_0 [of "tm_temperatureHysteresisC (tm_config m)"] by linarith
  ultimately show ?case
    using snoc by (auto simp: schmitt_snoc overheat_threshold_def watched(2) threshold_no_wrap [OF watched(4)])
qed

text \<open>Alerts of one kind in a run.\<close>

definition run_alerts :: "VehicleState list \<Rightarrow> TelemetryMonitor \<Rightarrow> TelemetryAlertType list" where
  "run_alerts vs m = concat (map tr_alerts (fst (monitor_run vs m)))"

lemma run_alerts_snoc:
  "run_alerts (vs @ [v]) m =
     run_alerts vs m @ tr_alerts (fst (TelemetryMonitor_evaluate v (snd (monitor_run vs m))))"
  by (simp add: run_alerts_def monitor_run_append Let_def case_prod_unfold)

lemma transmission_alert_balance:
  assumes "transmission_watched m" "previousTransmission m \<noteq> TC_Active"
    and "\<forall>v \<in> set vs. isFresh (vs_transmissionOilTemperatureC v)"
  shows "count_list (run_alerts vs m) TA_TransmissionOverheat =
    count_list (run_alerts vs m) TA_TransmissionTemperatureRecovered +
    (if previousTransmission (snd (monitor_run vs m)) = TC_Active then 1 else 0)"
  using assms(3)
proof (induction vs rule: rev_induct)
  case Nil
  with assms(2) show ?case by (simp add: run_alerts_def)
next
  case (snoc v vs)
  let ?m = "snd (monitor_run vs m)"
  have "configValid ?m"
    "FeatureResolution_effective (monitor_resolution ?m FI_TransmissionOverheatAlert)"
    using assms(1) by (simp_all add: transmission_watched_def monitor_resolution_def)
  then have "evaluateTransmission ?m v (monitor_resolution ?m FI_TransmissionOverheatAlert) \<in>
      {TC_Active, TC_Normal}"
    using snoc.prems by (simp add: evaluateTransmission_def)
  with snoc show ?case
    by (auto simp: run_alerts_snoc evaluate_eq monitor_run_append transition_alert_def
        split: if_splits)
qed

section \<open>Properties\<close>

text \<open>C40: The transmission alarm is a Schmitt trigger: fed with fresh temperatures from a fresh
  start, a valid and enabled monitor is active exactly when some temperature reached the threshold
  and none since fell below the threshold less the hysteresis, without any wrap of the 16-bit
  subtraction; and every activation is matched by a recovery except the one in progress.\<close>

theorem transmission_alarm_hysteresis:
  assumes "m = mkTelemetryMonitor config" and "validTelemetryMonitorConfig config"
    and "FeatureResolution_effective (monitor_resolution m FI_TransmissionOverheatAlert)"
    and "\<forall>v \<in> set vs. isFresh (vs_transmissionOilTemperatureC v)"
  shows "(previousTransmission (snd (monitor_run vs m)) = TC_Active \<longleftrightarrow>
      schmitt (sint (tm_transmissionOverheatTemperatureC config))
        (uint (tm_temperatureHysteresisC config))
        (map (\<lambda>v. sint (obs_value (vs_transmissionOilTemperatureC v))) vs)) \<and>
    count_list (run_alerts vs m) TA_TransmissionOverheat =
      count_list (run_alerts vs m) TA_TransmissionTemperatureRecovered +
      (if previousTransmission (snd (monitor_run vs m)) = TC_Active then 1 else 0)"
proof -
  have m: "transmission_watched m" "previousTransmission m \<noteq> TC_Active" "tm_config m = config"
    using assms(1-3) by (simp_all add: transmission_watched_def mkTelemetryMonitor_def)
  show ?thesis
    using transmission_run_schmitt [OF m(1,2) assms(4)]
      transmission_alert_balance [OF m(1,2) assms(4)] m(3)
    by simp
qed

definition sample_monitor_config :: TelemetryMonitorConfig where
  "sample_monitor_config =
     TelemetryMonitorConfig_default
       \<lparr>tm_requestedFeatures := \<lparr>fr_mask = 7\<rparr>,
        tm_runtime := \<lparr>rc_target = FET_Vehicle, implementedFeatures = 7,
          availableCapabilities = 1, vehicleSignalsQualified = True,
          comfortWritesQualified = False, criticalControlsQualified = False\<rparr>\<rparr>"

definition gearbox_at :: "i16 \<Rightarrow> VehicleState" where
  "gearbox_at t = VehicleState_default\<lparr>vs_transmissionOilTemperatureC := Observed_fresh t\<rparr>"

lemma transmission_alarm_hysteresis_witness:
  "previousTransmission (snd (monitor_run [gearbox_at 100, gearbox_at 112, gearbox_at 106]
     (mkTelemetryMonitor sample_monitor_config))) = TC_Active"
proof -
  have "validTelemetryMonitorConfig sample_monitor_config"
    "FeatureResolution_effective (monitor_resolution (mkTelemetryMonitor sample_monitor_config)
       FI_TransmissionOverheatAlert)"
    by code_simp+
  moreover have "\<forall>v \<in> set [gearbox_at 100, gearbox_at 112, gearbox_at 106].
      isFresh (vs_transmissionOilTemperatureC v)"
    by (simp add: gearbox_at_def)
  moreover have "schmitt 110 5 [100, 112, 106]"
    unfolding schmitt_def by (intro exI [of _ 1]) (auto simp: nth_Cons less_Suc_eq split: nat.split)
  ultimately show ?thesis
    using transmission_alarm_hysteresis [OF refl, of sample_monitor_config
        "[gearbox_at 100, gearbox_at 112, gearbox_at 106]"]
    by (simp add: sample_monitor_config_def TelemetryMonitorConfig_default_def gearbox_at_def)
qed

text \<open>A catalogued feature is effective exactly when the user requested it, the runtime
  implements it, a vehicle-state source is available and the vehicle signals are qualified; a
  request outside the catalogue never is.\<close>

theorem feature_effective_iff:
  "FeatureResolution_effective (resolveFeature requests i context) \<longleftrightarrow>
     i \<noteq> FI_Count \<and> bit (fr_mask requests) (featureIndex i) \<and>
     bit (implementedFeatures context) (featureIndex i) \<and>
     bit (availableCapabilities context) 0 \<and> vehicleSignalsQualified context"
proof -
  have "featureIndex i < FeatureCount \<longleftrightarrow> i \<noteq> FI_Count"
    by (cases i) (simp_all add: FeatureCount_def)
  then show ?thesis
    by (simp add: resolveFeature_effective FeatureRequests_enabled_bit featureBit_def
        push_bit_of_1 and_exp_eq_0_iff_not_bit)
qed

text \<open>
  The hysteresis is forgotten when the temperature is unavailable: after an alarm and one missing
  reading, a temperature inside the hysteresis band is reported as normal, and the end of the
  alarm is not announced.
\<close>

lemma hysteresis_lost_when_unavailable:
  fixes m :: TelemetryMonitor
  defines "m \<equiv> mkTelemetryMonitor sample_monitor_config"
  shows "map tr_transmissionOverheat
      (fst (monitor_run [gearbox_at 112, VehicleState_default, gearbox_at 107] m)) =
        [TC_Active, TC_Unavailable, TC_Normal]"
    and "count_list (run_alerts [gearbox_at 112, VehicleState_default, gearbox_at 107] m)
      TA_TransmissionTemperatureRecovered = 0"
proof -
  have "configValid m" "previousTransmission m = TC_Disabled"
    "FeatureResolution_effective (monitor_resolution m FI_TransmissionOverheatAlert)"
    "sint (tm_transmissionOverheatTemperatureC (tm_config m)) = 110"
    unfolding m_def by code_simp+
  note facts = this gearbox_at_def VehicleState_default_def Observed_default_def isFresh_def
    Observed_fresh_def evaluate_eq evaluateTransmission_def overheat_threshold_def
    monitor_resolution_update
  show "map tr_transmissionOverheat
      (fst (monitor_run [gearbox_at 112, VehicleState_default, gearbox_at 107] m)) =
        [TC_Active, TC_Unavailable, TC_Normal]"
    by (simp add: facts)
  show "count_list (run_alerts [gearbox_at 112, VehicleState_default, gearbox_at 107] m)
      TA_TransmissionTemperatureRecovered = 0"
    by (simp add: facts run_alerts_def transition_alert_def)
qed

end
