(* ===== verification/UserSettings.thy ===== *)
theory UserSettings
  imports Controller LockGate Telemetry
begin

text \<open>
  The user's settings (\<^verbatim>\<open>application/user_settings.hpp/.cpp\<close>): their validation against the
  fixed limits, and the configurations of the controller, of the lock-press detector and of the
  telemetry monitor that are made from them.
\<close>

section \<open>Settings and limits\<close>

text \<open>The mode is read from a raw byte by a cast, so it may have no name.\<close>

datatype HoodMonitoringMode = HM_Required | HM_Disabled | HM_Unnamed u8

record UserSettings =
  us_remoteStartEnabled :: bool
  us_hoodMonitoring :: HoodMonitoringMode
  us_driverEntryMode :: DriverEntryMode
  us_maximumRemoteRunTimeMs :: u32
  us_driverTakeoverTimeoutMs :: u32
  us_lockPressCount :: u8
  us_lockMinimumGapMs :: u32
  us_lockMaximumGapMs :: u32
  us_lockMaximumSequenceMs :: u32
  us_features :: FeatureRequests
  us_coldEngineMaximumRpm :: u16
  us_engineWarmTemperatureC :: u16
  us_transmissionOverheatTemperatureC :: u16
  us_temperatureAlertHysteresisC :: u16

definition UserSettings_default :: UserSettings where
  "UserSettings_default =
     \<lparr>us_remoteStartEnabled = True, us_hoodMonitoring = HM_Required,
      us_driverEntryMode = DE_RequireTakeover, us_maximumRemoteRunTimeMs = 15 * 60 * 1000,
      us_driverTakeoverTimeoutMs = 60000, us_lockPressCount = 3, us_lockMinimumGapMs = 80,
      us_lockMaximumGapMs = 1500, us_lockMaximumSequenceMs = 3000,
      us_features = FeatureRequests_default, us_coldEngineMaximumRpm = 2200,
      us_engineWarmTemperatureC = 75, us_transmissionOverheatTemperatureC = 110,
      us_temperatureAlertHysteresisC = 5\<rparr>"

definition USL_MinimumRemoteRunTimeMs :: u32 where "USL_MinimumRemoteRunTimeMs = 60000"
definition USL_MaximumRemoteRunTimeMs :: u32 where "USL_MaximumRemoteRunTimeMs = 60 * 60 * 1000"
definition USL_MinimumTakeoverTimeoutMs :: u32 where "USL_MinimumTakeoverTimeoutMs = 10000"
definition USL_MaximumTakeoverTimeoutMs :: u32 where
  "USL_MaximumTakeoverTimeoutMs = 5 * 60 * 1000"
definition USL_MinimumLockPressCount :: u8 where "USL_MinimumLockPressCount = 2"
definition USL_MaximumLockPressCount :: u8 where "USL_MaximumLockPressCount = 5"
definition USL_MinimumLockGapMs :: u32 where "USL_MinimumLockGapMs = 50"
definition USL_MaximumLockGapMs :: u32 where "USL_MaximumLockGapMs = 5000"
definition USL_MinimumLockSequenceMs :: u32 where "USL_MinimumLockSequenceMs = 500"
definition USL_MaximumLockSequenceMs :: u32 where "USL_MaximumLockSequenceMs = 15000"
definition USL_MinimumColdEngineMaximumRpm :: u16 where
  "USL_MinimumColdEngineMaximumRpm = TML_MinimumColdEngineMaximumRpm"
definition USL_MaximumColdEngineMaximumRpm :: u16 where
  "USL_MaximumColdEngineMaximumRpm = TML_MaximumColdEngineMaximumRpm"
definition USL_MinimumEngineWarmTemperatureC :: u16 where
  "USL_MinimumEngineWarmTemperatureC = TML_MinimumEngineWarmTemperatureC"
definition USL_MaximumEngineWarmTemperatureC :: u16 where
  "USL_MaximumEngineWarmTemperatureC = TML_MaximumEngineWarmTemperatureC"
definition USL_MinimumTransmissionOverheatTemperatureC :: u16 where
  "USL_MinimumTransmissionOverheatTemperatureC = TML_MinimumTransmissionOverheatTemperatureC"
definition USL_MaximumTransmissionOverheatTemperatureC :: u16 where
  "USL_MaximumTransmissionOverheatTemperatureC = TML_MaximumTransmissionOverheatTemperatureC"
definition USL_MinimumTemperatureAlertHysteresisC :: u16 where
  "USL_MinimumTemperatureAlertHysteresisC = ucast TML_MinimumTemperatureHysteresisC"
definition USL_MaximumTemperatureAlertHysteresisC :: u16 where
  "USL_MaximumTemperatureAlertHysteresisC = ucast TML_MaximumTemperatureHysteresisC"

lemmas user_limits =
  USL_MinimumRemoteRunTimeMs_def USL_MaximumRemoteRunTimeMs_def
  USL_MinimumTakeoverTimeoutMs_def USL_MaximumTakeoverTimeoutMs_def
  USL_MinimumLockPressCount_def USL_MaximumLockPressCount_def
  USL_MinimumLockGapMs_def USL_MaximumLockGapMs_def
  USL_MinimumLockSequenceMs_def USL_MaximumLockSequenceMs_def
  USL_MinimumColdEngineMaximumRpm_def USL_MaximumColdEngineMaximumRpm_def
  USL_MinimumEngineWarmTemperatureC_def USL_MaximumEngineWarmTemperatureC_def
  USL_MinimumTransmissionOverheatTemperatureC_def USL_MaximumTransmissionOverheatTemperatureC_def
  USL_MinimumTemperatureAlertHysteresisC_def USL_MaximumTemperatureAlertHysteresisC_def
  telemetry_limits

section \<open>Validation\<close>

datatype UserSettingsReason =
    UR_None | UR_UnsupportedHoodMode | UR_UnsupportedDriverEntryMode | UR_RemoteRunTimeOutOfRange
  | UR_TakeoverTimeoutOutOfRange | UR_LockPressCountOutOfRange | UR_LockMinimumGapOutOfRange
  | UR_LockMaximumGapOutOfRange | UR_LockSequenceTimeOutOfRange | UR_InconsistentLockTiming
  | UR_InvalidFeatureMask | UR_ColdEngineMaximumRpmOutOfRange
  | UR_EngineWarmTemperatureOutOfRange | UR_TransmissionOverheatTemperatureOutOfRange
  | UR_TemperatureAlertHysteresisOutOfRange

fun userSettingsMask :: "UserSettingsReason \<Rightarrow> u16" where
  "userSettingsMask UR_None = 0"
| "userSettingsMask UR_UnsupportedHoodMode = push_bit 0 1"
| "userSettingsMask UR_UnsupportedDriverEntryMode = push_bit 1 1"
| "userSettingsMask UR_RemoteRunTimeOutOfRange = push_bit 2 1"
| "userSettingsMask UR_TakeoverTimeoutOutOfRange = push_bit 3 1"
| "userSettingsMask UR_LockPressCountOutOfRange = push_bit 4 1"
| "userSettingsMask UR_LockMinimumGapOutOfRange = push_bit 5 1"
| "userSettingsMask UR_LockMaximumGapOutOfRange = push_bit 6 1"
| "userSettingsMask UR_LockSequenceTimeOutOfRange = push_bit 7 1"
| "userSettingsMask UR_InconsistentLockTiming = push_bit 8 1"
| "userSettingsMask UR_InvalidFeatureMask = push_bit 9 1"
| "userSettingsMask UR_ColdEngineMaximumRpmOutOfRange = push_bit 10 1"
| "userSettingsMask UR_EngineWarmTemperatureOutOfRange = push_bit 11 1"
| "userSettingsMask UR_TransmissionOverheatTemperatureOutOfRange = push_bit 12 1"
| "userSettingsMask UR_TemperatureAlertHysteresisOutOfRange = push_bit 13 1"

record UserSettingsValidation =
  usv_reasons :: u16

definition UserSettingsValidation_default :: UserSettingsValidation where
  "UserSettingsValidation_default = \<lparr>usv_reasons = userSettingsMask UR_None\<rparr>"

definition UserSettingsValidation_valid :: "UserSettingsValidation \<Rightarrow> bool" where
  "UserSettingsValidation_valid v = (usv_reasons v = userSettingsMask UR_None)"

definition UserSettingsValidation_contains ::
    "UserSettingsValidation \<Rightarrow> UserSettingsReason \<Rightarrow> bool" where
  "UserSettingsValidation_contains v r = ((usv_reasons v AND userSettingsMask r) \<noteq> 0)"

definition UserSettingsValidation_add ::
    "UserSettingsReason \<Rightarrow> UserSettingsValidation \<Rightarrow> UserSettingsValidation" where
  "UserSettingsValidation_add r v = v\<lparr>usv_reasons := usv_reasons v OR userSettingsMask r\<rparr>"

definition settings_add_if ::
    "bool \<Rightarrow> UserSettingsReason \<Rightarrow> UserSettingsValidation \<Rightarrow> UserSettingsValidation" where
  "settings_add_if c r v = (if c then UserSettingsValidation_add r v else v)"

definition outside :: "'a::len word \<Rightarrow> 'a word \<Rightarrow> 'a word \<Rightarrow> bool" where
  "outside value minimum maximum = (value < minimum \<or> value > maximum)"

definition lock_timing_inconsistent :: "UserSettings \<Rightarrow> bool" where
  "lock_timing_inconsistent s =
     (let requiredIntervals = (if us_lockPressCount s = 0 then (0 :: u32)
                               else ucast (us_lockPressCount s) - 1);
          minimumSequenceTime = (ucast requiredIntervals :: u64) * ucast (us_lockMinimumGapMs s)
      in us_lockMinimumGapMs s > us_lockMaximumGapMs s \<or>
         us_lockMaximumGapMs s > us_lockMaximumSequenceMs s \<or>
         minimumSequenceTime > ucast (us_lockMaximumSequenceMs s))"

definition validateUserSettings :: "UserSettings \<Rightarrow> UserSettingsValidation" where
  "validateUserSettings s =
     (let v = UserSettingsValidation_default;
          v = (case us_hoodMonitoring s of
                 HM_Required \<Rightarrow> v | HM_Disabled \<Rightarrow> v
               | HM_Unnamed b \<Rightarrow> UserSettingsValidation_add UR_UnsupportedHoodMode v);
          v = (case us_driverEntryMode s of
                 DE_RequireTakeover \<Rightarrow> v | DE_StopImmediately \<Rightarrow> v
               | DE_Unnamed b \<Rightarrow> UserSettingsValidation_add UR_UnsupportedDriverEntryMode v);
          v = settings_add_if (outside (us_maximumRemoteRunTimeMs s)
                USL_MinimumRemoteRunTimeMs USL_MaximumRemoteRunTimeMs)
                UR_RemoteRunTimeOutOfRange v;
          v = settings_add_if (outside (us_driverTakeoverTimeoutMs s)
                USL_MinimumTakeoverTimeoutMs USL_MaximumTakeoverTimeoutMs)
                UR_TakeoverTimeoutOutOfRange v;
          v = settings_add_if (outside (us_lockPressCount s)
                USL_MinimumLockPressCount USL_MaximumLockPressCount)
                UR_LockPressCountOutOfRange v;
          v = settings_add_if (outside (us_lockMinimumGapMs s)
                USL_MinimumLockGapMs USL_MaximumLockGapMs) UR_LockMinimumGapOutOfRange v;
          v = settings_add_if (outside (us_lockMaximumGapMs s)
                USL_MinimumLockGapMs USL_MaximumLockGapMs) UR_LockMaximumGapOutOfRange v;
          v = settings_add_if (outside (us_lockMaximumSequenceMs s)
                USL_MinimumLockSequenceMs USL_MaximumLockSequenceMs)
                UR_LockSequenceTimeOutOfRange v;
          v = settings_add_if (lock_timing_inconsistent s) UR_InconsistentLockTiming v;
          v = settings_add_if (\<not> FeatureRequests_valid (us_features s)) UR_InvalidFeatureMask v;
          v = settings_add_if (outside (us_coldEngineMaximumRpm s)
                USL_MinimumColdEngineMaximumRpm USL_MaximumColdEngineMaximumRpm)
                UR_ColdEngineMaximumRpmOutOfRange v;
          v = settings_add_if (outside (us_engineWarmTemperatureC s)
                USL_MinimumEngineWarmTemperatureC USL_MaximumEngineWarmTemperatureC)
                UR_EngineWarmTemperatureOutOfRange v;
          v = settings_add_if (outside (us_transmissionOverheatTemperatureC s)
                USL_MinimumTransmissionOverheatTemperatureC
                USL_MaximumTransmissionOverheatTemperatureC)
                UR_TransmissionOverheatTemperatureOutOfRange v
      in settings_add_if (outside (us_temperatureAlertHysteresisC s)
           USL_MinimumTemperatureAlertHysteresisC USL_MaximumTemperatureAlertHysteresisC)
           UR_TemperatureAlertHysteresisOutOfRange v)"

section \<open>The configurations made from the settings\<close>

record UserConfiguration =
  uc_validation :: UserSettingsValidation
  uc_controller :: ControllerConfig
  uc_lockSequence :: LockSequenceConfig
  uc_telemetry :: TelemetryMonitorConfig

definition UserConfiguration_default :: UserConfiguration where
  "UserConfiguration_default =
     \<lparr>uc_validation = UserSettingsValidation_default, uc_controller = ControllerConfig_default,
      uc_lockSequence = LockSequenceConfig_default,
      uc_telemetry = TelemetryMonitorConfig_default\<rparr>"

definition makeUserConfiguration ::
    "UserSettings \<Rightarrow> VehicleProfile option \<Rightarrow> UserConfiguration" where
  "makeUserConfiguration s profile =
     (let c = UserConfiguration_default;
          c = c\<lparr>uc_validation := validateUserSettings s,
                uc_controller := (uc_controller c)\<lparr>vehicleProfile := profile\<rparr>\<rparr>
      in
      if \<not> UserSettingsValidation_valid (uc_validation c)
      then c\<lparr>uc_controller := (uc_controller c)\<lparr>cc_remoteStartEnabled := False\<rparr>\<rparr>
      else
        c\<lparr>uc_controller := (uc_controller c)
            \<lparr>cc_remoteStartEnabled := us_remoteStartEnabled s,
             cc_driverEntryMode := us_driverEntryMode s,
             cc_safety := (cc_safety (uc_controller c))
               \<lparr>requireHoodClosed := (us_hoodMonitoring s = HM_Required)\<rparr>,
             cc_maximumRemoteRunTimeMs := us_maximumRemoteRunTimeMs s,
             cc_driverTakeoverTimeoutMs := us_driverTakeoverTimeoutMs s\<rparr>,
          uc_lockSequence := (uc_lockSequence c)
            \<lparr>requiredPresses := us_lockPressCount s, minimumGapMs := us_lockMinimumGapMs s,
             maximumGapMs := us_lockMaximumGapMs s,
             maximumSequenceMs := us_lockMaximumSequenceMs s\<rparr>,
          uc_telemetry := (uc_telemetry c)
            \<lparr>tm_requestedFeatures := us_features s,
             tm_coldEngineMaximumRpm := us_coldEngineMaximumRpm s,
             tm_engineWarmTemperatureC := us_engineWarmTemperatureC s,
             tm_transmissionOverheatTemperatureC := us_transmissionOverheatTemperatureC s,
             tm_temperatureHysteresisC := ucast (us_temperatureAlertHysteresisC s)\<rparr>\<rparr>)"

fun HoodMonitoringMode_toString :: "HoodMonitoringMode \<Rightarrow> string" where
  "HoodMonitoringMode_toString HM_Required = ''required''"
| "HoodMonitoringMode_toString HM_Disabled = ''disabled''"
| "HoodMonitoringMode_toString (HM_Unnamed b) = ''unknown''"

fun DriverEntryMode_toString :: "DriverEntryMode \<Rightarrow> string" where
  "DriverEntryMode_toString DE_RequireTakeover = ''require_takeover''"
| "DriverEntryMode_toString DE_StopImmediately = ''stop_immediately''"
| "DriverEntryMode_toString (DE_Unnamed b) = ''unknown''"

section \<open>What validity means\<close>

lemma userSettingsMask_zero: "userSettingsMask r = 0 \<longleftrightarrow> r = UR_None"
  by (cases r) simp_all

lemma userSettingsMask_disjoint:
  "(userSettingsMask r AND userSettingsMask r' \<noteq> 0) \<longleftrightarrow> r = r' \<and> r \<noteq> UR_None"
  by (cases r; cases r') simp_all

lemma settings_contains_add [simp]:
  "UserSettingsValidation_contains (UserSettingsValidation_add r v) r' \<longleftrightarrow>
     UserSettingsValidation_contains v r' \<or> (r = r' \<and> r \<noteq> UR_None)"
  using userSettingsMask_disjoint [of r r']
  by (auto simp: UserSettingsValidation_add_def UserSettingsValidation_contains_def
      bit.conj_disj_distrib2 or_eq_0_iff)

lemma settings_valid_simps [simp]:
  "UserSettingsValidation_valid UserSettingsValidation_default"
  "\<not> UserSettingsValidation_contains UserSettingsValidation_default r'"
  "UserSettingsValidation_valid (UserSettingsValidation_add r v) \<longleftrightarrow>
     UserSettingsValidation_valid v \<and> r = UR_None"
  "UserSettingsValidation_valid (settings_add_if c r v) \<longleftrightarrow>
     UserSettingsValidation_valid v \<and> (c \<longrightarrow> r = UR_None)"
  by (auto simp: UserSettingsValidation_valid_def UserSettingsValidation_default_def
      UserSettingsValidation_add_def UserSettingsValidation_contains_def settings_add_if_def
      or_eq_0_iff userSettingsMask_zero)

lemma settings_contains_add_if [simp]:
  "UserSettingsValidation_contains (settings_add_if c r v) r' \<longleftrightarrow>
     UserSettingsValidation_contains v r' \<or> (c \<and> r = r' \<and> r \<noteq> UR_None)"
  by (auto simp: settings_add_if_def)

text \<open>The abstract specification: every field within its limits, and consistent timings.\<close>

definition settings_in_range :: "UserSettings \<Rightarrow> bool" where
  "settings_in_range s \<longleftrightarrow>
     us_hoodMonitoring s \<in> {HM_Required, HM_Disabled} \<and>
     us_driverEntryMode s \<in> {DE_RequireTakeover, DE_StopImmediately} \<and>
     unat (us_maximumRemoteRunTimeMs s) \<in> {60000..3600000} \<and>
     unat (us_driverTakeoverTimeoutMs s) \<in> {10000..300000} \<and>
     unat (us_lockPressCount s) \<in> {2..5} \<and>
     unat (us_lockMinimumGapMs s) \<in> {50..5000} \<and>
     unat (us_lockMaximumGapMs s) \<in> {50..5000} \<and>
     unat (us_lockMaximumSequenceMs s) \<in> {500..15000} \<and>
     \<not> lock_timing_inconsistent s \<and>
     FeatureRequests_valid (us_features s) \<and>
     unat (us_coldEngineMaximumRpm s) \<in> {1000..4500} \<and>
     unat (us_engineWarmTemperatureC s) \<in> {40..110} \<and>
     unat (us_transmissionOverheatTemperatureC s) \<in> {80..150} \<and>
     unat (us_temperatureAlertHysteresisC s) \<in> {1..20}"

lemma not_outside:
  "\<not> outside v a b \<longleftrightarrow> unat v \<in> {unat a..unat b}"
  by (auto simp: outside_def not_less word_le_nat_alt)

lemma valid_settings_iff:
  "UserSettingsValidation_valid (validateUserSettings s) \<longleftrightarrow> settings_in_range s"
proof -
  have "UserSettingsValidation_valid (validateUserSettings s) \<longleftrightarrow>
     us_hoodMonitoring s \<in> {HM_Required, HM_Disabled} \<and>
     us_driverEntryMode s \<in> {DE_RequireTakeover, DE_StopImmediately} \<and>
     \<not> outside (us_maximumRemoteRunTimeMs s) USL_MinimumRemoteRunTimeMs
         USL_MaximumRemoteRunTimeMs \<and>
     \<not> outside (us_driverTakeoverTimeoutMs s) USL_MinimumTakeoverTimeoutMs
         USL_MaximumTakeoverTimeoutMs \<and>
     \<not> outside (us_lockPressCount s) USL_MinimumLockPressCount USL_MaximumLockPressCount \<and>
     \<not> outside (us_lockMinimumGapMs s) USL_MinimumLockGapMs USL_MaximumLockGapMs \<and>
     \<not> outside (us_lockMaximumGapMs s) USL_MinimumLockGapMs USL_MaximumLockGapMs \<and>
     \<not> outside (us_lockMaximumSequenceMs s) USL_MinimumLockSequenceMs
         USL_MaximumLockSequenceMs \<and>
     \<not> lock_timing_inconsistent s \<and> FeatureRequests_valid (us_features s) \<and>
     \<not> outside (us_coldEngineMaximumRpm s) USL_MinimumColdEngineMaximumRpm
         USL_MaximumColdEngineMaximumRpm \<and>
     \<not> outside (us_engineWarmTemperatureC s) USL_MinimumEngineWarmTemperatureC
         USL_MaximumEngineWarmTemperatureC \<and>
     \<not> outside (us_transmissionOverheatTemperatureC s)
         USL_MinimumTransmissionOverheatTemperatureC
         USL_MaximumTransmissionOverheatTemperatureC \<and>
     \<not> outside (us_temperatureAlertHysteresisC s) USL_MinimumTemperatureAlertHysteresisC
         USL_MaximumTemperatureAlertHysteresisC"
    by (cases "us_hoodMonitoring s"; cases "us_driverEntryMode s")
       (simp_all add: validateUserSettings_def Let_def)
  then show ?thesis
    by (simp add: not_outside settings_in_range_def user_limits)
qed

lemma valid_settings_sequence:
  assumes "settings_in_range s"
  shows "sequenceConfigIsValid (uc_lockSequence (makeUserConfiguration s profile))"
proof -
  have "us_lockPressCount s \<noteq> 0"
    using assms by (auto simp: settings_in_range_def)
  with assms valid_settings_iff [of s] show ?thesis
    by (simp add: makeUserConfiguration_def sequenceConfigIsValid_def settings_in_range_def
        lock_timing_inconsistent_def Let_def not_less UserConfiguration_default_def)
qed

lemma sint_small:
  assumes "uint (w :: 16 word) < 2 ^ 15"
  shows "sint w = uint w"
proof -
  have "- (2 ^ 15) \<le> uint w" by (rule order_trans [of _ 0]) simp_all
  with assms show ?thesis by (simp add: sint_uint signed_take_bit_int_eq_self)
qed

lemma unat_range_sint:
  "unat (w :: 16 word) \<in> {m..n} \<Longrightarrow> n < 2 ^ 15 \<Longrightarrow> int m \<le> sint w \<and> sint w \<le> int n"
proof -
  assume range: "unat w \<in> {m..n}" and n: "n < 2 ^ 15"
  have w: "uint w = int (unat w)" by (rule uint_nat)
  have "uint w < 2 ^ 15" unfolding w using range n by (simp del: of_nat_unat)
  then have "sint w = int (unat w)" using w by (simp only: sint_small)
  then show ?thesis using range by (simp only: of_nat_le_iff atLeastAtMost_iff)
qed

lemma valid_settings_telemetry:
  assumes "settings_in_range s"
  shows "validTelemetryMonitorConfig (uc_telemetry (makeUserConfiguration s profile))"
proof -
  have hyst: "unat (us_temperatureAlertHysteresisC s) \<in> {1..20}"
    and range: "unat (us_engineWarmTemperatureC s) \<in> {40..110}"
      "unat (us_transmissionOverheatTemperatureC s) \<in> {80..150}"
    using assms by (simp_all add: settings_in_range_def)
  have warm: "40 \<le> sint (us_engineWarmTemperatureC s) \<and> sint (us_engineWarmTemperatureC s) \<le> 110"
    using unat_range_sint [OF range(1)] by simp
  have hot: "80 \<le> sint (us_transmissionOverheatTemperatureC s) \<and>
      sint (us_transmissionOverheatTemperatureC s) \<le> 150"
    using unat_range_sint [OF range(2)] by simp
  from hyst have "unat (ucast (us_temperatureAlertHysteresisC s) :: u8) =
      unat (us_temperatureAlertHysteresisC s)"
    by (simp add: unsigned_ucast_eq take_bit_eq_mod)
  with hyst have "(1 :: u8) \<le> ucast (us_temperatureAlertHysteresisC s)"
    "ucast (us_temperatureAlertHysteresisC s) \<le> (20 :: u8)"
    by (simp_all add: word_le_nat_alt)
  with assms warm hot valid_settings_iff [of s] show ?thesis
    by (simp add: makeUserConfiguration_def UserConfiguration_default_def
        validTelemetryMonitorConfig_def settings_in_range_def telemetry_limits word_le_nat_alt)
qed

lemma invalid_settings_config:
  "\<not> settings_in_range s \<Longrightarrow>
     makeUserConfiguration s profile =
       UserConfiguration_default
         \<lparr>uc_validation := validateUserSettings s,
          uc_controller := ControllerConfig_default
            \<lparr>vehicleProfile := profile, cc_remoteStartEnabled := False\<rparr>\<rparr>"
  by (simp add: makeUserConfiguration_def valid_settings_iff UserConfiguration_default_def)

lemma default_settings_in_range: "settings_in_range UserSettings_default"
  by (simp add: settings_in_range_def UserSettings_default_def lock_timing_inconsistent_def
      FeatureRequests_valid_def FeatureRequests_default_def)

section \<open>Properties\<close>

text \<open>Settings are valid exactly when every field is within its limits and the lock timings
  are consistent; the configurations made from valid settings are accepted by the components they
  configure (the sequence detector and the telemetry monitor), and invalid settings give the
  default configurations with remote start disabled.\<close>

theorem settings_make_valid_configurations:
  "UserSettingsValidation_valid (validateUserSettings s) = settings_in_range s \<and>
   (settings_in_range s \<longrightarrow>
      sequenceConfigIsValid (uc_lockSequence (makeUserConfiguration s profile)) \<and>
      validTelemetryMonitorConfig (uc_telemetry (makeUserConfiguration s profile))) \<and>
   (\<not> settings_in_range s \<longrightarrow>
      makeUserConfiguration s profile =
        UserConfiguration_default
          \<lparr>uc_validation := validateUserSettings s,
           uc_controller := ControllerConfig_default
             \<lparr>vehicleProfile := profile, cc_remoteStartEnabled := False\<rparr>\<rparr>)"
  using valid_settings_iff [of s] valid_settings_sequence [of s profile]
    valid_settings_telemetry [of s profile] invalid_settings_config [of s profile]
  by blast

lemma settings_make_valid_configurations_witness:
  "sequenceConfigIsValid (uc_lockSequence (makeUserConfiguration UserSettings_default None)) \<and>
   validTelemetryMonitorConfig (uc_telemetry (makeUserConfiguration UserSettings_default None))"
  using settings_make_valid_configurations [of UserSettings_default None]
    default_settings_in_range
  by blast

end
