(* ===== verification/DiagnosticJournal.thy ===== *)
theory DiagnosticJournal
  imports Controller
begin

text \<open>
  The diagnostic journal (\<^verbatim>\<open>infrastructure/diagnostic_journal.hpp/.cpp\<close>): a ring of 32 records in
  a fixed array, with the index of the oldest one.  The abstract view of a journal is the list of
  its records, oldest first; appending to the ring is proved to keep the last 32 of everything
  ever appended.
\<close>

section \<open>Records\<close>

datatype DiagnosticRecordType =
    DT_CommandReceived | DT_StateTransition | DT_RequestRejected | DT_FaultEntered
  | DT_InfrastructureFailure | DT_SafingFailure

datatype DiagnosticReason =
    DX_None | DX_RemoteStartDisabled | DX_ProfileNotReady | DX_SafetyPolicy | DX_InvalidState
  | DX_UnsafeReset

record DiagnosticRecord =
  rec_sequence :: u32
  rec_timestampMs :: u32
  rec_safetyReasons :: u16
  rec_type :: DiagnosticRecordType
  rec_trigger :: EventType
  rec_previousState :: ControllerState
  rec_state :: ControllerState
  rec_fault :: FaultCode
  rec_reason :: DiagnosticReason
  rec_profileReasons :: u8

definition DiagnosticRecord_default :: DiagnosticRecord where
  "DiagnosticRecord_default =
     \<lparr>rec_sequence = 0, rec_timestampMs = 0, rec_safetyReasons = 0,
      rec_type = DT_CommandReceived, rec_trigger = ET_VehicleStateUpdated,
      rec_previousState = CS_Idle, rec_state = CS_Idle, rec_fault = FC_None,
      rec_reason = DX_None, rec_profileReasons = 0\<rparr>"

section \<open>The ring\<close>

definition MaximumRecords :: nat where
  "MaximumRecords = 32"

record DiagnosticJournal =
  dj_records :: "DiagnosticRecord list"
  oldestIndex :: nat
  dj_size :: nat
  nextSequence :: u32
  overwrittenCount :: u32

definition DiagnosticJournal_default :: DiagnosticJournal where
  "DiagnosticJournal_default =
     \<lparr>dj_records = replicate MaximumRecords DiagnosticRecord_default, oldestIndex = 0,
      dj_size = 0, nextSequence = 1, overwrittenCount = 0\<rparr>"

definition DiagnosticJournal_capacity :: nat where
  "DiagnosticJournal_capacity = MaximumRecords"

definition DiagnosticJournal_append ::
    "DiagnosticRecord \<Rightarrow> DiagnosticJournal \<Rightarrow> DiagnosticJournal" where
  "DiagnosticJournal_append record j =
     (let record = record\<lparr>rec_sequence := nextSequence j\<rparr>;
          j = j\<lparr>nextSequence := nextSequence j + 1\<rparr>;
          (storageIndex, j) =
            (if dj_size j < length (dj_records j)
             then ((oldestIndex j + dj_size j) mod length (dj_records j),
                   j\<lparr>dj_size := dj_size j + 1\<rparr>)
             else (oldestIndex j,
                   j\<lparr>oldestIndex := (oldestIndex j + 1) mod length (dj_records j),
                     overwrittenCount :=
                       (if overwrittenCount j < - 1 then overwrittenCount j + 1
                        else overwrittenCount j)\<rparr>))
      in j\<lparr>dj_records := (dj_records j)[storageIndex := record]\<rparr>)"

definition DiagnosticJournal_read ::
    "nat \<Rightarrow> DiagnosticRecord \<Rightarrow> DiagnosticJournal \<Rightarrow> bool \<times> DiagnosticRecord" where
  "DiagnosticJournal_read chronologicalIndex record j =
     (if chronologicalIndex \<ge> dj_size j then (False, record)
      else (True, dj_records j ! ((oldestIndex j + chronologicalIndex)
                                    mod length (dj_records j))))"

definition DiagnosticJournal_clear :: "DiagnosticJournal \<Rightarrow> DiagnosticJournal" where
  "DiagnosticJournal_clear j =
     j\<lparr>dj_records := replicate (length (dj_records j)) DiagnosticRecord_default,
       oldestIndex := 0, dj_size := 0, nextSequence := 1, overwrittenCount := 0\<rparr>"

section \<open>What is recorded\<close>

fun isCommand :: "EventType \<Rightarrow> bool" where
  "isCommand ET_RemoteStartRequested = True"
| "isCommand ET_RemoteStopRequested = True"
| "isCommand ET_DriverTakeoverConfirmed = True"
| "isCommand ET_ResetRequested = True"
| "isCommand ET_VehicleStateUpdated = False"
| "isCommand ET_TimerElapsed = False"
| "isCommand ET_InfrastructureFailure = False"

definition rejectionReason :: "Decision \<Rightarrow> DiagnosticReason" where
  "rejectionReason d =
     (if Decision_contains d AT_NotifyRemoteStartDisabled then DX_RemoteStartDisabled
      else if Decision_contains d AT_NotifyProfileRejected then DX_ProfileNotReady
      else if Decision_contains d AT_NotifyStartRejected then DX_SafetyPolicy
      else if Decision_contains d AT_NotifyResetRejected then DX_UnsafeReset
      else if Decision_contains d AT_NotifyRequestIgnored then DX_InvalidState
      else DX_None)"

definition makeRecord ::
    "DiagnosticRecordType \<Rightarrow> EventType \<Rightarrow> Decision \<Rightarrow> DiagnosticReason \<Rightarrow> u32 \<Rightarrow>
       DiagnosticRecord" where
  "makeRecord t trigger d reason timestampMs =
     DiagnosticRecord_default
       \<lparr>rec_timestampMs := timestampMs, rec_safetyReasons := sa_reasons (d_safety d),
        rec_type := t, rec_trigger := trigger, rec_previousState := previousState d,
        rec_state := d_state d, rec_fault := d_fault d, rec_reason := reason,
        rec_profileReasons := pra_reasons (d_profileReadiness d)\<rparr>"

definition DiagnosticJournal_observe ::
    "Event \<Rightarrow> Decision \<Rightarrow> u32 \<Rightarrow> DiagnosticJournal \<Rightarrow> DiagnosticJournal" where
  "DiagnosticJournal_observe event d timestampMs j =
     (let j = (if isCommand (ev_type event)
               then DiagnosticJournal_append
                      ((makeRecord DT_CommandReceived (ev_type event) d DX_None timestampMs)
                         \<lparr>rec_state := previousState d, rec_fault := previousFault d\<rparr>) j
               else j);
          j = (if previousState d \<noteq> d_state d
               then DiagnosticJournal_append
                      (makeRecord DT_StateTransition (ev_type event) d DX_None timestampMs) j
               else j);
          rejected = rejectionReason d;
          j = (if rejected \<noteq> DX_None
               then DiagnosticJournal_append
                      (makeRecord DT_RequestRejected (ev_type event) d rejected timestampMs) j
               else j)
      in if d_state d = CS_Fault \<and> previousState d \<noteq> CS_Fault
         then DiagnosticJournal_append
                (makeRecord DT_FaultEntered (ev_type event) d
                   (if d_fault d = FC_SafetyInterlock then DX_SafetyPolicy else DX_None)
                   timestampMs) j
         else j)"

definition DiagnosticJournal_recordFailure ::
    "DiagnosticRecordType \<Rightarrow> EventType \<Rightarrow> ControllerState \<Rightarrow> FaultCode \<Rightarrow> u32 \<Rightarrow>
       DiagnosticJournal \<Rightarrow> DiagnosticJournal" where
  "DiagnosticJournal_recordFailure t trigger state fault timestampMs j =
     DiagnosticJournal_append
       (DiagnosticRecord_default
          \<lparr>rec_timestampMs := timestampMs, rec_type := t, rec_trigger := trigger,
           rec_previousState := state, rec_state := state, rec_fault := fault\<rparr>) j"

definition DiagnosticJournal_recordInfrastructureFailure ::
    "EventType \<Rightarrow> ControllerState \<Rightarrow> FaultCode \<Rightarrow> u32 \<Rightarrow> DiagnosticJournal \<Rightarrow>
       DiagnosticJournal" where
  "DiagnosticJournal_recordInfrastructureFailure trigger state fault timestampMs =
     DiagnosticJournal_recordFailure DT_InfrastructureFailure trigger state fault timestampMs"

definition DiagnosticJournal_recordSafingFailure ::
    "ControllerState \<Rightarrow> FaultCode \<Rightarrow> u32 \<Rightarrow> DiagnosticJournal \<Rightarrow> DiagnosticJournal" where
  "DiagnosticJournal_recordSafingFailure state fault timestampMs =
     DiagnosticJournal_recordFailure DT_SafingFailure ET_InfrastructureFailure state fault
       timestampMs"

fun DiagnosticRecordType_toString :: "DiagnosticRecordType \<Rightarrow> string" where
  "DiagnosticRecordType_toString DT_CommandReceived = ''command_received''"
| "DiagnosticRecordType_toString DT_StateTransition = ''state_transition''"
| "DiagnosticRecordType_toString DT_RequestRejected = ''request_rejected''"
| "DiagnosticRecordType_toString DT_FaultEntered = ''fault_entered''"
| "DiagnosticRecordType_toString DT_InfrastructureFailure = ''infrastructure_failure''"
| "DiagnosticRecordType_toString DT_SafingFailure = ''safing_failure''"

fun DiagnosticReason_toString :: "DiagnosticReason \<Rightarrow> string" where
  "DiagnosticReason_toString DX_None = ''none''"
| "DiagnosticReason_toString DX_RemoteStartDisabled = ''remote_start_disabled''"
| "DiagnosticReason_toString DX_ProfileNotReady = ''profile_not_ready''"
| "DiagnosticReason_toString DX_SafetyPolicy = ''safety_policy''"
| "DiagnosticReason_toString DX_InvalidState = ''invalid_state''"
| "DiagnosticReason_toString DX_UnsafeReset = ''unsafe_reset''"

section \<open>The ring holds the most recent records, oldest first\<close>

definition journal_wf :: "DiagnosticJournal \<Rightarrow> bool" where
  "journal_wf j \<longleftrightarrow>
     length (dj_records j) = MaximumRecords \<and> oldestIndex j < MaximumRecords \<and>
     dj_size j \<le> MaximumRecords"

definition journal_contents :: "DiagnosticJournal \<Rightarrow> DiagnosticRecord list" where
  "journal_contents j =
     map (\<lambda>i. dj_records j ! ((oldestIndex j + i) mod length (dj_records j))) [0..<dj_size j]"

definition keep_last :: "nat \<Rightarrow> 'a list \<Rightarrow> 'a list" where
  "keep_last n xs = drop (length xs - n) xs"

lemma keep_last_append: "keep_last n (keep_last n xs @ ys) = keep_last n (xs @ ys)"
  by (cases "length xs \<le> n") (simp_all add: keep_last_def add.commute)

lemma length_journal_contents [simp]: "length (journal_contents j) = dj_size j"
  by (simp add: journal_contents_def)

lemma nth_journal_contents:
  "i < dj_size j \<Longrightarrow>
     journal_contents j ! i = dj_records j ! ((oldestIndex j + i) mod length (dj_records j))"
  by (simp add: journal_contents_def)

lemma journal_wf_default [simp]: "journal_wf DiagnosticJournal_default"
  by (simp add: journal_wf_def DiagnosticJournal_default_def MaximumRecords_def)

lemma journal_contents_default [simp]: "journal_contents DiagnosticJournal_default = []"
  by (simp add: journal_contents_def DiagnosticJournal_default_def)

lemma append_wf: "journal_wf j \<Longrightarrow> journal_wf (DiagnosticJournal_append r j)"
  by (auto simp: journal_wf_def DiagnosticJournal_append_def Let_def MaximumRecords_def)

lemma ring_slot_inj:
  assumes "i < n" "k < n"
  shows "(a + i) mod n = (a + k) mod n \<longleftrightarrow> i = (k :: nat)"
proof
  have less: "(a + i) mod n \<noteq> (a + k) mod n" if "i < k" "k < n" for i k
  proof
    assume "(a + i) mod n = (a + k) mod n"
    then have "n dvd a + k - (a + i)"
      using mod_eq_dvd_iff_nat [of "a + i" "a + k" n] that by simp
    with that show False by (auto dest: dvd_imp_le)
  qed
  assume "(a + i) mod n = (a + k) mod n"
  with assms less [of i k] less [of k i] show "i = k" by (metis linorder_neqE_nat)
qed simp

lemma append_contents:
  assumes "journal_wf j"
  shows "journal_contents (DiagnosticJournal_append r j) =
    keep_last MaximumRecords (journal_contents j @ [r\<lparr>rec_sequence := nextSequence j\<rparr>])"
    (is "?lhs = keep_last _ (_ @ [?r])")
proof (cases "dj_size j < MaximumRecords")
  case True
  have len: "length (dj_records j) = MaximumRecords"
    using assms by (simp add: journal_wf_def)
  have "?lhs = journal_contents j @ [?r]"
  proof (rule nth_equalityI)
    show "length ?lhs = length (journal_contents j @ [?r])"
      using True len by (simp add: DiagnosticJournal_append_def Let_def)
    fix i
    assume "i < length ?lhs"
    then have "i < dj_size j + 1"
      using True len by (simp add: DiagnosticJournal_append_def Let_def)
    then show "?lhs ! i = (journal_contents j @ [?r]) ! i"
      using True len ring_slot_inj [of i MaximumRecords "dj_size j" "oldestIndex j"]
      by (auto simp: nth_journal_contents DiagnosticJournal_append_def Let_def nth_append
          nth_list_update)
  qed
  with True show ?thesis by (simp add: keep_last_def)
next
  case False
  with assms have j: "length (dj_records j) = MaximumRecords" "dj_size j = MaximumRecords"
    "oldestIndex j < MaximumRecords"
    by (simp_all add: journal_wf_def)
  have "?lhs = drop 1 (journal_contents j @ [?r])"
  proof (rule nth_equalityI)
    show "length ?lhs = length (drop 1 (journal_contents j @ [?r]))"
      using j by (simp add: DiagnosticJournal_append_def Let_def)
    fix i
    assume "i < length ?lhs"
    then have i: "i < MaximumRecords"
      using j by (simp add: DiagnosticJournal_append_def Let_def)
    have slot: "(Suc (oldestIndex j) mod MaximumRecords + i) mod MaximumRecords =
        (oldestIndex j + Suc i) mod MaximumRecords"
      by (simp add: mod_add_left_eq)
    show "?lhs ! i = drop 1 (journal_contents j @ [?r]) ! i"
    proof (cases "Suc i < MaximumRecords")
      case True
      then have "(oldestIndex j + Suc i) mod MaximumRecords \<noteq> oldestIndex j"
        using ring_slot_inj [of "Suc i" MaximumRecords 0 "oldestIndex j"] j by simp
      with True j i slot show ?thesis
        by (simp add: nth_journal_contents DiagnosticJournal_append_def Let_def nth_append)
    next
      case False
      with i have "Suc i = MaximumRecords" by simp
      with j i slot show ?thesis
        by (simp add: nth_journal_contents DiagnosticJournal_append_def Let_def nth_append)
    qed
  qed
  with j show ?thesis by (simp add: keep_last_def)
qed

lemma append_next [simp]: "nextSequence (DiagnosticJournal_append r j) = nextSequence j + 1"
  by (simp add: DiagnosticJournal_append_def Let_def)

lemma append_size:
  "journal_wf j \<Longrightarrow>
     dj_size (DiagnosticJournal_append r j) = min MaximumRecords (dj_size j + 1)"
  by (auto simp: journal_wf_def DiagnosticJournal_append_def Let_def)

lemma unat_max_u32: "unat (- 1 :: u32) = 4294967295"
  by (simp add: unsigned_minus_1_eq_mask mask_eq_exp_minus_1)

lemma unat_u32_bound: "unat (w :: u32) < 4294967296"
  using unsigned_less [of w] by simp

lemma saturating_inc: "(w :: u32) < - 1 \<Longrightarrow> unat (w + 1) = unat w + 1 \<and> unat w < 2 ^ 32 - 1"
  by (simp add: word_less_nat_alt unat_word_ariths unat_max_u32)

lemma append_overwritten:
  "journal_wf j \<Longrightarrow>
     unat (overwrittenCount (DiagnosticJournal_append r j)) =
       (if dj_size j < MaximumRecords then unat (overwrittenCount j)
        else min (2 ^ 32 - 1) (unat (overwrittenCount j) + 1))"
  using saturating_inc [of "overwrittenCount j"] unat_u32_bound [of "overwrittenCount j"]
  by (auto simp: journal_wf_def DiagnosticJournal_append_def Let_def not_less word_le_nat_alt
      unat_max_u32)

section \<open>Whole histories\<close>

text \<open>The records one call of \<open>observe\<close> appends, in order.\<close>

definition observed_records :: "Event \<Rightarrow> Decision \<Rightarrow> u32 \<Rightarrow> DiagnosticRecord list" where
  "observed_records event d ts =
     (if isCommand (ev_type event)
      then [(makeRecord DT_CommandReceived (ev_type event) d DX_None ts)
              \<lparr>rec_state := previousState d, rec_fault := previousFault d\<rparr>] else []) @
     (if previousState d \<noteq> d_state d
      then [makeRecord DT_StateTransition (ev_type event) d DX_None ts] else []) @
     (if rejectionReason d \<noteq> DX_None
      then [makeRecord DT_RequestRejected (ev_type event) d (rejectionReason d) ts] else []) @
     (if d_state d = CS_Fault \<and> previousState d \<noteq> CS_Fault
      then [makeRecord DT_FaultEntered (ev_type event) d
              (if d_fault d = FC_SafetyInterlock then DX_SafetyPolicy else DX_None) ts] else [])"

lemma observe_records:
  "DiagnosticJournal_observe event d ts j =
     fold DiagnosticJournal_append (observed_records event d ts) j"
  by (simp add: DiagnosticJournal_observe_def observed_records_def Let_def)

text \<open>Records numbered from \<open>n\<close>, as the journal numbers them.\<close>

fun numbered :: "u32 \<Rightarrow> DiagnosticRecord list \<Rightarrow> DiagnosticRecord list" where
  "numbered n [] = []"
| "numbered n (r # rs) = r\<lparr>rec_sequence := n\<rparr> # numbered (n + 1) rs"

lemma length_numbered [simp]: "length (numbered n rs) = length rs"
  by (induction n rs rule: numbered.induct) simp_all

lemma numbered_append:
  "numbered n (rs @ rs') = numbered n rs @ numbered (n + of_nat (length rs)) rs'"
  by (induction n rs rule: numbered.induct) (simp_all add: ac_simps)

lemma nth_numbered:
  "i < length rs \<Longrightarrow> numbered n rs ! i = (rs ! i)\<lparr>rec_sequence := n + of_nat i\<rparr>"
  by (induction n rs arbitrary: i rule: numbered.induct) (auto simp: nth_Cons ac_simps split: nat.split)

lemma keep_last_small: "length xs \<le> n \<Longrightarrow> keep_last n xs = xs"
  by (simp add: keep_last_def)

lemma fold_append_journal:
  assumes "journal_wf j"
  shows "journal_wf (fold DiagnosticJournal_append rs j) \<and>
    journal_contents (fold DiagnosticJournal_append rs j) =
      keep_last MaximumRecords (journal_contents j @ numbered (nextSequence j) rs)"
  using assms
proof (induction rs arbitrary: j)
  case Nil
  then show ?case by (simp add: keep_last_small journal_wf_def)
next
  case (Cons r rs)
  from Cons.IH [OF append_wf [OF Cons.prems]] show ?case
    by (simp add: append_contents [OF Cons.prems] keep_last_append)
qed

lemma fold_append_overwritten:
  assumes "journal_wf j"
  shows "unat (overwrittenCount (fold DiagnosticJournal_append rs j)) =
    min (2 ^ 32 - 1) (unat (overwrittenCount j) + (dj_size j + length rs - MaximumRecords))"
  using assms
proof (induction rs arbitrary: j)
  case Nil
  note unat_u32_bound [of "overwrittenCount j"]
  with Nil show ?case by (simp add: journal_wf_def)
next
  case (Cons r rs)
  note unat_u32_bound [of "overwrittenCount j"]
  moreover have "dj_size j \<le> MaximumRecords" using Cons.prems by (simp add: journal_wf_def)
  ultimately show ?case
    using Cons.IH [OF append_wf [OF Cons.prems, of r]]
    by (cases "dj_size j < MaximumRecords")
       (auto simp: append_size [OF Cons.prems] append_overwritten [OF Cons.prems])
qed

lemma clear_wf: "journal_wf j \<Longrightarrow> DiagnosticJournal_clear j = DiagnosticJournal_default"
  by (simp add: DiagnosticJournal_clear_def DiagnosticJournal_default_def journal_wf_def)

lemma read_contents:
  "DiagnosticJournal_read i r j =
     (if i < length (journal_contents j) then (True, journal_contents j ! i) else (False, r))"
  by (simp add: DiagnosticJournal_read_def nth_journal_contents)

section \<open>Properties\<close>

text \<open>Histories of observations.\<close>

definition journal_after :: "(Event \<times> Decision \<times> u32) list \<Rightarrow> DiagnosticJournal" where
  "journal_after os =
     fold (\<lambda>(e, d, ts). DiagnosticJournal_observe e d ts) os DiagnosticJournal_default"

definition all_records :: "(Event \<times> Decision \<times> u32) list \<Rightarrow> DiagnosticRecord list" where
  "all_records os = concat (map (\<lambda>(e, d, ts). observed_records e d ts) os)"

lemma journal_after_fold:
  "journal_after os = fold DiagnosticJournal_append (all_records os) DiagnosticJournal_default"
proof -
  have "fold (\<lambda>(e, d, ts). DiagnosticJournal_observe e d ts) os j =
      fold DiagnosticJournal_append (all_records os) j" for j
    by (induction os arbitrary: j)
       (simp_all add: all_records_def observe_records case_prod_unfold)
  then show ?thesis by (simp add: journal_after_def)
qed


text \<open>C39: Whatever is observed from an empty journal, reading it chronologically gives exactly the
  last thirty-two records produced, oldest first, numbered consecutively from one; the count of
  overwritten records is the number of records lost, saturating at the 32-bit maximum.\<close>

theorem journal_keeps_last_records:
  "journal_contents (journal_after os) = keep_last 32 (numbered 1 (all_records os)) \<and>
   (\<forall>i r. DiagnosticJournal_read i r (journal_after os) =
      (if i < min 32 (length (all_records os))
       then (True, keep_last 32 (numbered 1 (all_records os)) ! i) else (False, r))) \<and>
   unat (overwrittenCount (journal_after os)) =
     min (2 ^ 32 - 1) (length (all_records os) - 32)"
proof -
  have start: "nextSequence DiagnosticJournal_default = 1" "dj_size DiagnosticJournal_default = 0"
    "overwrittenCount DiagnosticJournal_default = 0"
    by (simp_all add: DiagnosticJournal_default_def)
  have contents: "journal_contents (journal_after os) = keep_last 32 (numbered 1 (all_records os))"
    using fold_append_journal [OF journal_wf_default, of "all_records os"]
    by (simp add: journal_after_fold start MaximumRecords_def)
  moreover have "length (journal_contents (journal_after os)) = min 32 (length (all_records os))"
    unfolding contents by (simp add: keep_last_def)
  moreover have "unat (overwrittenCount (journal_after os)) =
      min (2 ^ 32 - 1) (length (all_records os) - 32)"
    using fold_append_overwritten [OF journal_wf_default, of "all_records os"]
    by (simp add: journal_after_fold start MaximumRecords_def)
  ultimately show ?thesis by (simp add: read_contents)
qed

end
