(* ===== verification/Runtime.thy ===== *)
theory Runtime
  imports ControllerSafety DiagnosticJournal
begin

text \<open>
  The ports (\<^verbatim>\<open>infrastructure/ports.hpp\<close>) and the runtime that executes the controller's
  decisions on them (\<^verbatim>\<open>infrastructure/runtime.hpp/.cpp\<close>).  A port is an abstract class in the
  code; here it is a record of functions over an environment of any type, so the lemmas hold for
  every implementation.  The locale \<open>failsafe_actuators\<close> is the contract of an actuator port that
  falls back to "nothing energised" when a call fails; the runtime lemmas are proved in it.
\<close>

section \<open>Ports\<close>

record 'e VehicleGateway =
  requestState :: "'e \<Rightarrow> bool \<times> 'e"

record 'e ActuatorPort =
  ap_enableIgnition :: "'e \<Rightarrow> bool \<times> 'e"
  ap_engageStarter :: "'e \<Rightarrow> bool \<times> 'e"
  ap_disengageStarter :: "'e \<Rightarrow> bool \<times> 'e"
  ap_releaseRemoteControl :: "'e \<Rightarrow> bool \<times> 'e"
  ap_secureOutputs :: "'e \<Rightarrow> bool \<times> 'e"

record 'e TimerPort =
  timer_arm :: "u32 \<Rightarrow> 'e \<Rightarrow> bool \<times> 'e"
  timer_cancel :: "'e \<Rightarrow> bool \<times> 'e"

record 'e NotificationSink =
  publish :: "ActionType \<Rightarrow> ControllerState \<Rightarrow> FaultCode \<Rightarrow> SafetyAssessment \<Rightarrow>
                ProfileReadinessAssessment \<Rightarrow> 'e \<Rightarrow> 'e"

section \<open>The runtime\<close>

record 'e Runtime =
  rt_controller :: Controller
  vehicleGateway :: "'e VehicleGateway"
  rt_actuators :: "'e ActuatorPort"
  rt_timer :: "'e TimerPort"
  notifications :: "'e NotificationSink"
  diagnosticJournal :: "DiagnosticJournal option"

definition mkRuntime ::
    "Controller \<Rightarrow> 'e VehicleGateway \<Rightarrow> 'e ActuatorPort \<Rightarrow> 'e TimerPort \<Rightarrow> 'e NotificationSink \<Rightarrow>
       DiagnosticJournal option \<Rightarrow> 'e Runtime" where
  "mkRuntime c gateway actuators timer sink journal =
     \<lparr>rt_controller = c, vehicleGateway = gateway, rt_actuators = actuators, rt_timer = timer,
      notifications = sink, diagnosticJournal = journal\<rparr>"

definition Runtime_state :: "'e Runtime \<Rightarrow> ControllerState" where
  "Runtime_state rt = c_state (rt_controller rt)"

definition outcome :: "FaultCode \<Rightarrow> bool \<times> 'e \<Rightarrow> FaultCode \<times> 'e" where
  "outcome fault = (\<lambda>(ok, e). (if ok then FC_None else fault, e))"

definition notify :: "'e Runtime \<Rightarrow> Action \<Rightarrow> Decision \<Rightarrow> 'e \<Rightarrow> 'e" where
  "notify rt a d e =
     publish (notifications rt) (act_type a) (d_state d) (d_fault d) (d_safety d)
       (d_profileReadiness d) e"

definition executeAction :: "'e Runtime \<Rightarrow> Action \<Rightarrow> Decision \<Rightarrow> 'e \<Rightarrow> FaultCode \<times> 'e" where
  "executeAction rt a d e =
     (case act_type a of
        AT_RequestVehicleState \<Rightarrow>
          outcome FC_VehicleCommunication (requestState (vehicleGateway rt) e)
      | AT_EnableIgnition \<Rightarrow> outcome FC_ActuatorFailure (ap_enableIgnition (rt_actuators rt) e)
      | AT_EngageStarter \<Rightarrow> outcome FC_ActuatorFailure (ap_engageStarter (rt_actuators rt) e)
      | AT_DisengageStarter \<Rightarrow>
          outcome FC_ActuatorFailure (ap_disengageStarter (rt_actuators rt) e)
      | AT_ReleaseRemoteControl \<Rightarrow>
          outcome FC_ActuatorFailure (ap_releaseRemoteControl (rt_actuators rt) e)
      | AT_SecureOutputs \<Rightarrow> outcome FC_ActuatorFailure (ap_secureOutputs (rt_actuators rt) e)
      | AT_ArmTimer \<Rightarrow> outcome FC_TimerFailure (timer_arm (rt_timer rt) (act_durationMs a) e)
      | AT_CancelTimer \<Rightarrow> outcome FC_TimerFailure (timer_cancel (rt_timer rt) e)
      | AT_NotifyProfileRejected \<Rightarrow> (FC_None, notify rt a d e)
      | AT_NotifyRemoteStartDisabled \<Rightarrow> (FC_None, notify rt a d e)
      | AT_NotifyStartAccepted \<Rightarrow> (FC_None, notify rt a d e)
      | AT_NotifyStartRejected \<Rightarrow> (FC_None, notify rt a d e)
      | AT_NotifyRunning \<Rightarrow> (FC_None, notify rt a d e)
      | AT_NotifyTakeoverPending \<Rightarrow> (FC_None, notify rt a d e)
      | AT_NotifyTakeoverComplete \<Rightarrow> (FC_None, notify rt a d e)
      | AT_NotifyStopping \<Rightarrow> (FC_None, notify rt a d e)
      | AT_NotifyStopped \<Rightarrow> (FC_None, notify rt a d e)
      | AT_NotifyFault \<Rightarrow> (FC_None, notify rt a d e)
      | AT_NotifyReady \<Rightarrow> (FC_None, notify rt a d e)
      | AT_NotifyRequestIgnored \<Rightarrow> (FC_None, notify rt a d e)
      | AT_NotifyResetRejected \<Rightarrow> (FC_None, notify rt a d e))"

text \<open>The loop of \<open>execute\<close> over the decision's actions; it stops at the first failure.\<close>

fun execute_from :: "'e Runtime \<Rightarrow> Decision \<Rightarrow> Action list \<Rightarrow> 'e \<Rightarrow> FaultCode \<times> 'e" where
  "execute_from rt d [] e = (FC_None, e)"
| "execute_from rt d (a # as) e =
     (let (fault, e') = executeAction rt a d e in
      if fault \<noteq> FC_None then (fault, e') else execute_from rt d as e')"

definition Runtime_execute :: "'e Runtime \<Rightarrow> Decision \<Rightarrow> 'e \<Rightarrow> FaultCode \<times> 'e" where
  "Runtime_execute rt d e = execute_from rt d (actions d) e"

text \<open>A safing step that failed is only recorded; the next one is still performed.\<close>

definition safing_outcome ::
    "Decision \<Rightarrow> FaultCode \<Rightarrow> u32 \<Rightarrow> DiagnosticJournal option \<Rightarrow> bool \<times> 'e \<Rightarrow>
       DiagnosticJournal option \<times> 'e" where
  "safing_outcome d fault ts journal =
     (\<lambda>(ok, e).
        (if \<not> ok
         then map_option (DiagnosticJournal_recordSafingFailure (d_state d) fault ts) journal
         else journal, e))"

definition safingAction ::
    "'e Runtime \<Rightarrow> Decision \<Rightarrow> u32 \<Rightarrow> Action \<Rightarrow> DiagnosticJournal option \<times> 'e \<Rightarrow>
       DiagnosticJournal option \<times> 'e" where
  "safingAction rt d ts a = (\<lambda>(journal, e).
     case act_type a of
       AT_CancelTimer \<Rightarrow>
         safing_outcome d FC_TimerFailure ts journal (timer_cancel (rt_timer rt) e)
     | AT_DisengageStarter \<Rightarrow>
         safing_outcome d FC_ActuatorFailure ts journal (ap_disengageStarter (rt_actuators rt) e)
     | AT_SecureOutputs \<Rightarrow>
         safing_outcome d FC_ActuatorFailure ts journal (ap_secureOutputs (rt_actuators rt) e)
     | AT_NotifyFault \<Rightarrow> (journal, notify rt a d e)
     | _ \<Rightarrow> (journal, e))"

definition executeSafing ::
    "'e Runtime \<Rightarrow> Decision \<Rightarrow> u32 \<Rightarrow> 'e \<Rightarrow> 'e Runtime \<times> 'e" where
  "executeSafing rt d ts e =
     (let (journal, e') = fold (safingAction rt d ts) (actions d) (diagnosticJournal rt, e)
      in (rt\<lparr>diagnosticJournal := journal\<rparr>, e'))"

definition Runtime_dispatch ::
    "Event \<Rightarrow> VehicleState \<Rightarrow> u32 \<Rightarrow> 'e Runtime \<times> 'e \<Rightarrow> Decision \<times> 'e Runtime \<times> 'e" where
  "Runtime_dispatch event vehicle ts = (\<lambda>(rt, e).
     (let (c, decision) = Controller_handle event vehicle (rt_controller rt);
          rt = rt\<lparr>rt_controller := c,
                 diagnosticJournal :=
                   map_option (DiagnosticJournal_observe event decision ts)
                     (diagnosticJournal rt)\<rparr>;
          (executionFault, e) = Runtime_execute rt decision e
      in
      if executionFault = FC_None then (decision, rt, e)
      else
       (let rt = rt\<lparr>diagnosticJournal :=
              map_option (DiagnosticJournal_recordInfrastructureFailure (ev_type event)
                (d_state decision) executionFault ts) (diagnosticJournal rt)\<rparr>;
            failureEvent = infrastructureFailure executionFault;
            (c, faultDecision) = Controller_handle failureEvent vehicle (rt_controller rt);
            rt = rt\<lparr>rt_controller := c,
                   diagnosticJournal :=
                     map_option (DiagnosticJournal_observe failureEvent faultDecision ts)
                       (diagnosticJournal rt)\<rparr>;
            (rt, e) = executeSafing rt faultDecision ts e
        in (faultDecision, rt, e))))"

section \<open>What a dispatch does to the controller\<close>

lemma failure_actions:
  "map act_type (actions (decision_of (infrastructureFailure f) v c)) =
     [AT_CancelTimer, AT_DisengageStarter, AT_SecureOutputs, AT_NotifyFault]"
  "c_state (next_controller (infrastructureFailure f) v c) = CS_Fault"
  "f \<noteq> FC_None \<Longrightarrow> c_fault (next_controller (infrastructureFailure f) v c) = f"
  by (simp_all add: decision_of_def next_controller_def infrastructureFailure_def step_unfold)

text \<open>The two ways a dispatch ends.\<close>

lemma dispatch_cases:
  assumes "Runtime_dispatch event v ts (rt, e) = (d, rt', e')"
  obtains (success) "d = decision_of event v (rt_controller rt)"
      "rt_controller rt' = next_controller event v (rt_controller rt)"
      "\<exists>rt1. rt_actuators rt1 = rt_actuators rt \<and> rt_timer rt1 = rt_timer rt \<and>
         vehicleGateway rt1 = vehicleGateway rt \<and> notifications rt1 = notifications rt \<and>
         execute_from rt1 d (actions d) e = (FC_None, e')"
  | (failure) d1 fault e1 rt1 where
      "d1 = decision_of event v (rt_controller rt)" "fault \<noteq> FC_None"
      "rt_actuators rt1 = rt_actuators rt" "rt_timer rt1 = rt_timer rt"
      "vehicleGateway rt1 = vehicleGateway rt" "notifications rt1 = notifications rt"
      "execute_from rt1 d1 (actions d1) e = (fault, e1)"
      "d = decision_of (infrastructureFailure fault) v
             (next_controller event v (rt_controller rt))"
      "rt_controller rt' = next_controller (infrastructureFailure fault) v
             (next_controller event v (rt_controller rt))"
      "\<exists>rt2 j2. rt_actuators rt2 = rt_actuators rt \<and> rt_timer rt2 = rt_timer rt \<and>
         vehicleGateway rt2 = vehicleGateway rt \<and> notifications rt2 = notifications rt \<and>
         e' = snd (fold (safingAction rt2 d ts) (actions d) (j2, e1))"
proof -
  let ?c = "next_controller event v (rt_controller rt)"
  let ?d = "decision_of event v (rt_controller rt)"
  let ?rt1 = "rt\<lparr>rt_controller := ?c,
    diagnosticJournal := map_option (DiagnosticJournal_observe event ?d ts)
      (diagnosticJournal rt)\<rparr>"
  obtain fault e1 where ex: "execute_from ?rt1 ?d (actions ?d) e = (fault, e1)"
    by fastforce
  show thesis
  proof (cases "fault = FC_None")
    case True
    with ex have "Runtime_dispatch event v ts (rt, e) = (?d, ?rt1, e1)"
      by (simp add: Runtime_dispatch_def Controller_handle_pair Runtime_execute_def Let_def)
    from trans [OF assms [symmetric] this]
    have eq: "d = ?d" "rt' = ?rt1" "e' = e1" unfolding prod.inject by blast+
    from ex have "execute_from ?rt1 d (actions d) e = (FC_None, e')"
      unfolding eq True .
    with eq(1,2) show thesis by (intro success) (auto intro!: exI [of _ ?rt1])
  next
    case False
    let ?fe = "infrastructureFailure fault"
    let ?d2 = "decision_of ?fe v ?c"
    let ?rt2 = "?rt1\<lparr>rt_controller := next_controller ?fe v ?c,
      diagnosticJournal := map_option (DiagnosticJournal_observe ?fe ?d2 ts)
        (map_option (DiagnosticJournal_recordInfrastructureFailure (ev_type event)
           (d_state ?d) fault ts) (diagnosticJournal ?rt1))\<rparr>"
    have "Runtime_dispatch event v ts (rt, e) = (?d2, executeSafing ?rt2 ?d2 ts e1)"
      using ex False
      by (simp add: Runtime_dispatch_def Controller_handle_pair Runtime_execute_def Let_def
          case_prod_unfold)
    from trans [OF assms [symmetric] this] have "d = ?d2" "rt_controller rt' = next_controller ?fe v ?c"
      "e' = snd (fold (safingAction ?rt2 ?d2 ts) (actions ?d2) (diagnosticJournal ?rt2, e1))"
      by (auto simp: executeSafing_def Let_def case_prod_unfold prod_eq_iff)
    with False ex show thesis
      by (intro failure [of ?d fault ?rt1 e1]) (auto intro!: exI [of _ ?rt2])
  qed
qed

lemma dispatch_ports:
  assumes "Runtime_dispatch event v ts (rt, e) = (d, rt', e')"
  shows "rt_actuators rt' = rt_actuators rt" "rt_timer rt' = rt_timer rt"
    "vehicleGateway rt' = vehicleGateway rt" "notifications rt' = notifications rt"
  using assms
  by (auto simp: Runtime_dispatch_def executeSafing_def Let_def case_prod_unfold
      split: if_splits)

section \<open>The contract of a fail-safe actuator port\<close>

text \<open>
  \<open>ign e\<close> and \<open>st e\<close> say which outputs are commanded in the environment \<open>e\<close>; \<open>inv\<close> is the
  provider's invariant.  A successful call does what its name says; a failed call, like every
  \<open>secureOutputs\<close>, leaves nothing commanded.
\<close>

locale failsafe_actuators =
  fixes port :: "'e ActuatorPort"
    and inv :: "'e \<Rightarrow> bool"
    and ign :: "'e \<Rightarrow> bool"
    and st :: "'e \<Rightarrow> bool"
  assumes enable: "inv e \<Longrightarrow> ap_enableIgnition port e = (ok, e') \<Longrightarrow>
      inv e' \<and> (if ok then st e' = st e else \<not> ign e' \<and> \<not> st e')"
    and engage: "inv e \<Longrightarrow> ap_engageStarter port e = (ok, e') \<Longrightarrow>
      inv e' \<and> (if ok then ign e' = ign e else \<not> ign e' \<and> \<not> st e')"
    and disengage: "inv e \<Longrightarrow> ap_disengageStarter port e = (ok, e') \<Longrightarrow>
      inv e' \<and> (if ok then ign e' = ign e \<and> \<not> st e' else \<not> ign e' \<and> \<not> st e')"
    and release: "inv e \<Longrightarrow> ap_releaseRemoteControl port e = (ok, e') \<Longrightarrow>
      inv e' \<and> \<not> ign e' \<and> \<not> st e'"
    and secure: "inv e \<Longrightarrow> ap_secureOutputs port e = (ok, e') \<Longrightarrow>
      inv e' \<and> \<not> ign e' \<and> \<not> st e'"
begin

text \<open>At most the outputs of the abstract specification are commanded.\<close>

definition below :: "'e \<Rightarrow> Outputs \<Rightarrow> bool" where
  "below e out \<longleftrightarrow> inv e \<and> (ign e \<longrightarrow> out_ignition out) \<and> (st e \<longrightarrow> out_starter out)"

definition off :: "'e \<Rightarrow> bool" where
  "off e \<longleftrightarrow> inv e \<and> \<not> ign e \<and> \<not> st e"

lemma off_below: "off e \<Longrightarrow> below e out"
  by (simp add: off_def below_def)

lemma below_inv: "below e out \<Longrightarrow> inv e"
  by (simp add: below_def)

end

text \<open>The other ports of a runtime do not touch the actuators.\<close>

locale runtime_ports = failsafe_actuators +
  fixes gateway :: "'a VehicleGateway"
    and timer :: "'a TimerPort"
    and sink :: "'a NotificationSink"
  assumes gateway_frame: "requestState gateway e = (ok, e') \<Longrightarrow>
      inv e' = inv e \<and> ign e' = ign e \<and> st e' = st e"
    and arm_frame: "timer_arm timer ms e = (ok, e') \<Longrightarrow>
      inv e' = inv e \<and> ign e' = ign e \<and> st e' = st e"
    and cancel_frame: "timer_cancel timer e = (ok, e') \<Longrightarrow>
      inv e' = inv e \<and> ign e' = ign e \<and> st e' = st e"
    and publish_frame:
      "inv (publish sink a s f sa pr e) = inv e \<and> ign (publish sink a s f sa pr e) = ign e \<and>
       st (publish sink a s f sa pr e) = st e"
begin

definition wired :: "'a Runtime \<Rightarrow> bool" where
  "wired rt \<longleftrightarrow> rt_actuators rt = port \<and> vehicleGateway rt = gateway \<and> rt_timer rt = timer \<and>
     notifications rt = sink"

lemma port_below:
  assumes "below e out"
  shows "ap_enableIgnition port e = (ok, e') \<Longrightarrow>
      inv e' \<and> (ok \<longrightarrow> below e' (out\<lparr>out_ignition := True\<rparr>))"
    and "ap_engageStarter port e = (ok, e') \<Longrightarrow>
      inv e' \<and> (ok \<longrightarrow> below e' (out\<lparr>out_starter := True\<rparr>))"
    and "ap_disengageStarter port e = (ok, e') \<Longrightarrow>
      inv e' \<and> (ok \<longrightarrow> below e' (out\<lparr>out_starter := False\<rparr>))"
    and "ap_releaseRemoteControl port e = (ok, e') \<Longrightarrow> off e'"
    and "ap_secureOutputs port e = (ok, e') \<Longrightarrow> off e'"
    and "requestState gateway e = (ok, e') \<Longrightarrow> below e' out"
    and "timer_arm timer ms e = (ok, e') \<Longrightarrow> below e' (out\<lparr>out_timer := t\<rparr>)"
    and "timer_cancel timer e = (ok, e') \<Longrightarrow> below e' (out\<lparr>out_timer := t\<rparr>)"
  using assms enable [of e ok e'] engage [of e ok e'] disengage [of e ok e'] release [of e ok e']
    secure [of e ok e'] gateway_frame [of e ok e'] arm_frame [of ms e ok e']
    cancel_frame [of e ok e']
  by (auto simp: below_def off_def split: if_splits)

lemma publish_below: "below e out \<Longrightarrow> below (publish sink k s f sa pr e) out"
  using publish_frame by (simp add: below_def)

lemma outcome_iff: "outcome F r = (f, e') \<longleftrightarrow> (\<exists>ok. r = (ok, e') \<and> f = (if ok then FC_None else F))"
  by (cases r) (auto simp: outcome_def)

lemma action_below:
  assumes "wired rt" "below e out" "executeAction rt a d e = (fault, e')"
  shows "inv e' \<and> (fault = FC_None \<longrightarrow> below e' (apply_action a out))"
proof -
  note * = port_below [OF assms(2)] off_below below_inv
  have w: "rt_actuators rt = port" "vehicleGateway rt = gateway" "rt_timer rt = timer"
    "notifications rt = sink"
    using assms(1) by (simp_all add: wired_def)
  show ?thesis
    using assms(2,3)
    by (cases "act_type a")
       (auto simp: executeAction_def w outcome_iff apply_action_def notify_def
          intro: publish_below off_below below_inv dest: * split: if_splits)
qed

lemma execute_below:
  assumes "wired rt" "below e out" "execute_from rt d as e = (fault, e')"
  shows "inv e' \<and> (fault = FC_None \<longrightarrow> below e' (fold apply_action as out))"
  using assms(2,3)
proof (induction as arbitrary: e out)
  case Nil
  then show ?case by (auto simp: below_inv)
next
  case (Cons a as)
  obtain f e1 where a: "executeAction rt a d e = (f, e1)" by fastforce
  from action_below [OF assms(1) Cons.prems(1) a] Cons.prems(2) Cons.IH [of e1] a
  show ?case by (auto split: if_splits)
qed

lemma safing_step:
  assumes "wired rt" "inv e" "safingAction rt d ts a (j, e) = (j', e')"
  shows "inv e' \<and> (off e \<or> act_type a = AT_SecureOutputs \<longrightarrow> off e')"
proof (cases "act_type a")
  case AT_CancelTimer
  then show ?thesis
    using assms cancel_frame [of e _ e']
    by (cases "timer_cancel timer e") (auto simp: safingAction_def wired_def off_def safing_outcome_def)
next
  case AT_DisengageStarter
  then show ?thesis
    using assms disengage [of e _ e']
    by (cases "ap_disengageStarter port e")
       (auto simp: safingAction_def wired_def off_def safing_outcome_def split: if_splits)
next
  case AT_SecureOutputs
  then show ?thesis
    using assms secure [of e _ e']
    by (cases "ap_secureOutputs port e")
       (auto simp: safingAction_def wired_def off_def safing_outcome_def)
next
  case AT_NotifyFault
  then show ?thesis
    using assms publish_frame by (auto simp: safingAction_def wired_def off_def notify_def)
qed (use assms in \<open>auto simp: safingAction_def\<close>)

lemma safing_off:
  assumes "wired rt" "inv e" "off e \<or> AT_SecureOutputs \<in> act_type ` set as"
  shows "off (snd (fold (safingAction rt d ts) as (j, e)))"
  using assms(2,3)
proof (induction as arbitrary: j e)
  case Nil
  then show ?case by simp
next
  case (Cons a as)
  obtain j1 e1 where a: "safingAction rt d ts a (j, e) = (j1, e1)" by fastforce
  from safing_step [OF assms(1) Cons.prems(1) a] Cons.prems(2) Cons.IH [of e1 j1] a
  show ?case by auto
qed

lemma wired_cong:
  "wired rt \<Longrightarrow> rt_actuators rt1 = rt_actuators rt \<Longrightarrow> rt_timer rt1 = rt_timer rt \<Longrightarrow>
     vehicleGateway rt1 = vehicleGateway rt \<Longrightarrow> notifications rt1 = notifications rt \<Longrightarrow> wired rt1"
  by (simp add: wired_def)

text \<open>The commanded outputs never exceed what the controller's state allows.\<close>

definition safe_state :: "'a Runtime \<Rightarrow> 'a \<Rightarrow> bool" where
  "safe_state rt e \<longleftrightarrow> wired rt \<and>
     below e (outputs_for (c_config (rt_controller rt)) (c_state (rt_controller rt)))"

lemma safe_dispatch:
  assumes safe: "safe_state rt e" and disp: "Runtime_dispatch event v ts (rt, e) = (d, rt', e')"
  shows "safe_state rt' e'"
proof -
  have ports: "wired rt'"
    using safe dispatch_ports [OF disp] by (auto simp: safe_state_def intro: wired_cong)
  show ?thesis
    using disp
  proof (cases rule: dispatch_cases)
    case success
    let ?c = "rt_controller rt"
    from success(3) obtain rt1 where "wired rt1" and ex: "execute_from rt1 d (actions d) e = (FC_None, e')"
      using safe wired_cong [of rt] by (auto simp: safe_state_def)
    moreover have "below e (expire event (outputs_for (c_config ?c) (c_state ?c)))"
      using safe by (simp add: safe_state_def below_def expire_def)
    ultimately have "below e' (fold apply_action (actions d)
        (expire event (outputs_for (c_config ?c) (c_state ?c))))"
      using execute_below by blast
    then have "below e' (outputs_for (c_config ?c) (c_state (next_controller event v ?c)))"
      unfolding success(1) handle_outputs .
    with ports success(2) show ?thesis by (simp add: safe_state_def)
  next
    case (failure d1 fault e1 rt1)
    have "wired rt" using safe by (simp add: safe_state_def)
    then have "wired rt1" using failure(3-6) by (rule wired_cong)
    then have "inv e1"
      using execute_below [OF _ _ failure(7)] safe by (auto simp: safe_state_def)
    from failure(10) obtain rt2 j2 where rt2: "wired rt2"
      and e': "e' = snd (fold (safingAction rt2 d ts) (actions d) (j2, e1))"
      using wired_cong [OF \<open>wired rt\<close>] by blast
    have "AT_SecureOutputs \<in> set (map act_type (actions d))"
      unfolding failure(8) failure_actions by simp
    then have "off e'"
      unfolding e' by (intro safing_off [OF rt2 \<open>inv e1\<close>]) simp
    with ports show ?thesis by (simp add: safe_state_def off_below)
  qed
qed

end

end
