(* ===== verification/ActuatorSupervisor.thy ===== *)
theory ActuatorSupervisor
  imports Runtime
begin

text \<open>
  The actuator safety supervisor
  (\<^verbatim>\<open>infrastructure/actuator_safety_supervisor.hpp/.cpp\<close>): a decorator between the runtime and
  a concrete driver, both actuator ports.  Its operations take and return the pair of the
  supervisor's fields and the driver's environment.  The supervisor is proved to be a fail-safe
  actuator port for every driver, and the runtime lemmas are then available over it.
\<close>

section \<open>State\<close>

record ActuatorFeedback =
  fb_available :: bool
  ignitionActive :: bool
  starterActive :: bool

record ActuatorSafetyConfig =
  watchdogTimeoutMs :: u32
  maximumStarterActiveMs :: u32
  feedbackGraceMs :: u32
  requireFeedback :: bool

definition ActuatorSafetyConfig_default :: ActuatorSafetyConfig where
  "ActuatorSafetyConfig_default =
     \<lparr>watchdogTimeoutMs = 500, maximumStarterActiveMs = 5000, feedbackGraceMs = 100,
      requireFeedback = True\<rparr>"

definition MaximumWatchdogTimeoutMs :: u32 where "MaximumWatchdogTimeoutMs = 5000"
definition MaximumStarterActiveMs :: u32 where "MaximumStarterActiveMs = 10000"
definition MaximumFeedbackGraceMs :: u32 where "MaximumFeedbackGraceMs = 1000"

datatype ActuatorSupervisorFault =
    AF_None | AF_InvalidConfiguration | AF_InitializationFailure | AF_ClockRegression
  | AF_WatchdogExpired | AF_HardwareInterlockLost | AF_StarterTimeout | AF_CommandSequence
  | AF_DriverFailure | AF_FeedbackUnavailable | AF_FeedbackMismatch | AF_SafingFailure

record ActuatorSupervisorStatus =
  st_fault :: ActuatorSupervisorFault
  st_initialized :: bool
  st_ignitionCommanded :: bool
  st_starterCommanded :: bool
  st_ignitionFeedbackConfirmed :: bool
  st_safingFailed :: bool

definition healthy :: "ActuatorSupervisorStatus \<Rightarrow> bool" where
  "healthy s = (st_initialized s \<and> st_fault s = AF_None \<and> \<not> st_safingFailed s)"

record ActuatorSafetySupervisor =
  as_config :: ActuatorSafetyConfig
  as_fault :: ActuatorSupervisorFault
  as_lastObservedMs :: u32
  lastHeartbeatMs :: u32
  starterEngagedAtMs :: u32
  lastOutputChangeMs :: u32
  as_initialized :: bool
  as_clockInitialized :: bool
  heartbeatInitialized :: bool
  hardwareStartPermitted :: bool
  ignitionCommanded :: bool
  starterCommanded :: bool
  ignitionFeedbackConfirmed :: bool
  safingFailed :: bool

type_synonym 'e supervised = "ActuatorSafetySupervisor \<times> 'e"

definition supervisor_status :: "ActuatorSafetySupervisor \<Rightarrow> ActuatorSupervisorStatus" where
  "supervisor_status s =
     \<lparr>st_fault = as_fault s, st_initialized = as_initialized s,
      st_ignitionCommanded = ignitionCommanded s, st_starterCommanded = starterCommanded s,
      st_ignitionFeedbackConfirmed = ignitionFeedbackConfirmed s,
      st_safingFailed = safingFailed s\<rparr>"

section \<open>Operations\<close>

definition actuatorConfigIsValid :: "ActuatorSafetyConfig \<Rightarrow> bool" where
  "actuatorConfigIsValid c =
     (watchdogTimeoutMs c \<noteq> 0 \<and> watchdogTimeoutMs c \<le> MaximumWatchdogTimeoutMs \<and>
      maximumStarterActiveMs c \<noteq> 0 \<and> maximumStarterActiveMs c \<le> MaximumStarterActiveMs \<and>
      feedbackGraceMs c \<le> MaximumFeedbackGraceMs \<and> feedbackGraceMs c \<le> watchdogTimeoutMs c)"

definition safeDownstream :: "'e ActuatorPort \<Rightarrow> 'e supervised \<Rightarrow> bool \<times> 'e supervised" where
  "safeDownstream driver = (\<lambda>(s, e).
     (let (starterReleased, e) = ap_disengageStarter driver e;
          (outputsSecured, e) = ap_secureOutputs driver e;
          s = s\<lparr>ignitionCommanded := False, starterCommanded := False,
                ignitionFeedbackConfirmed := False, lastOutputChangeMs := as_lastObservedMs s\<rparr>
      in if \<not> starterReleased \<or> \<not> outputsSecured then (False, s\<lparr>safingFailed := True\<rparr>, e)
         else (True, s, e)))"

definition trip ::
    "'e ActuatorPort \<Rightarrow> ActuatorSupervisorFault \<Rightarrow> 'e supervised \<Rightarrow> 'e supervised" where
  "trip driver fault = (\<lambda>(s, e).
     snd (safeDownstream driver
       ((if as_fault s = AF_None then s\<lparr>as_fault := fault\<rparr> else s), e)))"

definition observeClock ::
    "'e ActuatorPort \<Rightarrow> u32 \<Rightarrow> 'e supervised \<Rightarrow> bool \<times> 'e supervised" where
  "observeClock driver nowMs = (\<lambda>(s, e).
     if as_clockInitialized s \<and> nowMs \<noteq> as_lastObservedMs s \<and>
        \<not> strictlyNewer nowMs (as_lastObservedMs s)
     then (False, trip driver AF_ClockRegression (s, e))
     else (True, s\<lparr>as_lastObservedMs := nowMs, as_clockInitialized := True\<rparr>, e))"

definition canEnergize :: "'e ActuatorPort \<Rightarrow> 'e supervised \<Rightarrow> bool \<times> 'e supervised" where
  "canEnergize driver = (\<lambda>(s, e).
     if \<not> as_initialized s then (False, trip driver AF_InitializationFailure (s, e))
     else if as_fault s \<noteq> AF_None then (False, s, e)
     else if \<not> as_clockInitialized s \<or> \<not> heartbeatInitialized s
     then (False, trip driver AF_WatchdogExpired (s, e))
     else if \<not> hardwareStartPermitted s
     then (False, trip driver AF_HardwareInterlockLost (s, e))
     else if as_lastObservedMs s - lastHeartbeatMs s > watchdogTimeoutMs (as_config s)
     then (False, trip driver AF_WatchdogExpired (s, e))
     else (True, s, e))"

definition mkActuatorSafetySupervisor ::
    "'e ActuatorPort \<Rightarrow> ActuatorSafetyConfig \<Rightarrow> 'e \<Rightarrow> 'e supervised" where
  "mkActuatorSafetySupervisor driver config e =
     (let s = \<lparr>as_config = config, as_fault = AF_None, as_lastObservedMs = 0,
               lastHeartbeatMs = 0, starterEngagedAtMs = 0, lastOutputChangeMs = 0,
               as_initialized = False, as_clockInitialized = False,
               heartbeatInitialized = False, hardwareStartPermitted = False,
               ignitionCommanded = False, starterCommanded = False,
               ignitionFeedbackConfirmed = False, safingFailed = False\<rparr> in
      if \<not> actuatorConfigIsValid config
      then snd (safeDownstream driver (s\<lparr>as_fault := AF_InvalidConfiguration\<rparr>, e))
      else
       (let (ok, s, e) = safeDownstream driver (s, e) in
        if \<not> ok then (s\<lparr>as_fault := AF_InitializationFailure\<rparr>, e)
        else (s\<lparr>as_initialized := True\<rparr>, e)))"

definition supervisor_heartbeat ::
    "'e ActuatorPort \<Rightarrow> u32 \<Rightarrow> 'e supervised \<Rightarrow> bool \<times> 'e supervised" where
  "supervisor_heartbeat driver nowMs x =
     (let (ok, s, e) = observeClock driver nowMs x in
      if \<not> ok then (False, s, e)
      else if \<not> as_initialized s \<or> as_fault s \<noteq> AF_None then (False, s, e)
      else if heartbeatInitialized s \<and> (ignitionCommanded s \<or> starterCommanded s) \<and>
              nowMs - lastHeartbeatMs s > watchdogTimeoutMs (as_config s)
      then (False, trip driver AF_WatchdogExpired (s, e))
      else (True, s\<lparr>lastHeartbeatMs := nowMs, heartbeatInitialized := True\<rparr>, e))"

text \<open>The part of \<open>poll\<close> after the clock and the latched fault have been checked.\<close>

definition poll_checks ::
    "'e ActuatorPort \<Rightarrow> u32 \<Rightarrow> bool \<Rightarrow> ActuatorFeedback \<Rightarrow> 'e supervised \<Rightarrow> 'e supervised" where
  "poll_checks driver nowMs permitted feedback = (\<lambda>(s, e).
     (let s = s\<lparr>hardwareStartPermitted := permitted\<rparr>;
          outputsActive = ignitionCommanded s \<or> starterCommanded s;
          feedbackGraceElapsed =
            nowMs - lastOutputChangeMs s > feedbackGraceMs (as_config s)
      in
      if outputsActive \<and> \<not> hardwareStartPermitted s
      then trip driver AF_HardwareInterlockLost (s, e)
      else if outputsActive \<and>
        (\<not> heartbeatInitialized s \<or>
         nowMs - lastHeartbeatMs s > watchdogTimeoutMs (as_config s))
      then trip driver AF_WatchdogExpired (s, e)
      else if starterCommanded s \<and>
        nowMs - starterEngagedAtMs s > maximumStarterActiveMs (as_config s)
      then trip driver AF_StarterTimeout (s, e)
      else if feedbackGraceElapsed \<and> fb_available feedback \<and>
        (ignitionActive feedback \<noteq> ignitionCommanded s \<or>
         starterActive feedback \<noteq> starterCommanded s)
      then trip driver AF_FeedbackMismatch (s, e)
      else if feedbackGraceElapsed \<and> requireFeedback (as_config s) \<and> outputsActive \<and>
        \<not> fb_available feedback
      then trip driver AF_FeedbackUnavailable (s, e)
      else if fb_available feedback \<and> ignitionActive feedback = ignitionCommanded s \<and>
        starterActive feedback = starterCommanded s
      then (s\<lparr>ignitionFeedbackConfirmed := ignitionCommanded s\<rparr>, e)
      else (s, e)))"

definition supervisor_poll ::
    "'e ActuatorPort \<Rightarrow> u32 \<Rightarrow> bool \<Rightarrow> ActuatorFeedback \<Rightarrow> 'e supervised \<Rightarrow>
       ActuatorSupervisorStatus \<times> 'e supervised" where
  "supervisor_poll driver nowMs permitted feedback x =
     (let (ok, s, e) = observeClock driver nowMs x in
      if \<not> ok then (supervisor_status s, s, e)
      else if \<not> as_initialized s \<or> as_fault s \<noteq> AF_None then (supervisor_status s, s, e)
      else (let (s, e) = poll_checks driver nowMs permitted feedback (s, e)
            in (supervisor_status s, s, e)))"

definition supervisor_resetFault ::
    "'e ActuatorPort \<Rightarrow> u32 \<Rightarrow> ActuatorFeedback \<Rightarrow> 'e supervised \<Rightarrow> bool \<times> 'e supervised" where
  "supervisor_resetFault driver nowMs feedback x =
     (let (ok, s, e) = observeClock driver nowMs x in
      if \<not> ok then (False, s, e)
      else if \<not> actuatorConfigIsValid (as_config s)
      then (False, snd (safeDownstream driver (s\<lparr>as_fault := AF_InvalidConfiguration\<rparr>, e)))
      else
       (let (secured, s, e) = safeDownstream driver (s, e) in
        if \<not> secured then (False, s\<lparr>as_fault := AF_SafingFailure\<rparr>, e)
        else if (requireFeedback (as_config s) \<and> \<not> fb_available feedback) \<or>
          (fb_available feedback \<and> (ignitionActive feedback \<or> starterActive feedback))
        then (False, s\<lparr>as_fault := (if fb_available feedback then AF_FeedbackMismatch
                                   else AF_FeedbackUnavailable)\<rparr>, e)
        else (True, s\<lparr>as_fault := AF_None, safingFailed := False, heartbeatInitialized := False,
                      hardwareStartPermitted := False, as_initialized := True\<rparr>, e)))"

definition supervisor_enableIgnition ::
    "'e ActuatorPort \<Rightarrow> 'e supervised \<Rightarrow> bool \<times> 'e supervised" where
  "supervisor_enableIgnition driver x =
     (let (ok, s, e) = canEnergize driver x in
      if \<not> ok then (False, s, e)
      else (let (done, e) = ap_enableIgnition driver e in
        if \<not> done then (False, trip driver AF_DriverFailure (s, e))
        else (True, s\<lparr>ignitionCommanded := True,
                      ignitionFeedbackConfirmed := \<not> requireFeedback (as_config s),
                      lastOutputChangeMs := as_lastObservedMs s\<rparr>, e)))"

definition supervisor_engageStarter ::
    "'e ActuatorPort \<Rightarrow> 'e supervised \<Rightarrow> bool \<times> 'e supervised" where
  "supervisor_engageStarter driver x =
     (let (ok, s, e) = canEnergize driver x in
      if \<not> ok then (False, s, e)
      else if starterCommanded s \<or> \<not> ignitionCommanded s \<or>
        (requireFeedback (as_config s) \<and> \<not> ignitionFeedbackConfirmed s)
      then (False, trip driver AF_CommandSequence (s, e))
      else (let (done, e) = ap_engageStarter driver e in
        if \<not> done then (False, trip driver AF_DriverFailure (s, e))
        else (True, s\<lparr>starterCommanded := True, starterEngagedAtMs := as_lastObservedMs s,
                      lastOutputChangeMs := as_lastObservedMs s\<rparr>, e)))"

definition supervisor_disengageStarter ::
    "'e ActuatorPort \<Rightarrow> 'e supervised \<Rightarrow> bool \<times> 'e supervised" where
  "supervisor_disengageStarter driver = (\<lambda>(s, e).
     (let (done, e) = ap_disengageStarter driver e in
      if \<not> done then (False, trip driver AF_DriverFailure (s, e))
      else (True, s\<lparr>starterCommanded := False, lastOutputChangeMs := as_lastObservedMs s\<rparr>, e)))"

definition supervisor_releaseRemoteControl ::
    "'e ActuatorPort \<Rightarrow> 'e supervised \<Rightarrow> bool \<times> 'e supervised" where
  "supervisor_releaseRemoteControl driver x =
     (let (ok, s, e) = canEnergize driver x in
      if \<not> ok then (False, s, e)
      else if starterCommanded s then (False, trip driver AF_CommandSequence (s, e))
      else (let (done, e) = ap_releaseRemoteControl driver e in
        if \<not> done then (False, trip driver AF_DriverFailure (s, e))
        else (True, s\<lparr>ignitionCommanded := False, starterCommanded := False,
                      ignitionFeedbackConfirmed := False,
                      lastOutputChangeMs := as_lastObservedMs s\<rparr>, e)))"

definition supervisor_secureOutputs ::
    "'e ActuatorPort \<Rightarrow> 'e supervised \<Rightarrow> bool \<times> 'e supervised" where
  "supervisor_secureOutputs driver x =
     (let (secured, s, e) = safeDownstream driver x in
      if \<not> secured then (secured, s\<lparr>as_fault := AF_SafingFailure\<rparr>, e) else (secured, s, e))"

text \<open>The supervisor seen as an actuator port.\<close>

definition supervisor_port :: "'e ActuatorPort \<Rightarrow> 'e supervised ActuatorPort" where
  "supervisor_port driver =
     \<lparr>ap_enableIgnition = supervisor_enableIgnition driver,
      ap_engageStarter = supervisor_engageStarter driver,
      ap_disengageStarter = supervisor_disengageStarter driver,
      ap_releaseRemoteControl = supervisor_releaseRemoteControl driver,
      ap_secureOutputs = supervisor_secureOutputs driver\<rparr>"

fun ActuatorSupervisorFault_toString :: "ActuatorSupervisorFault \<Rightarrow> string" where
  "ActuatorSupervisorFault_toString AF_None = ''none''"
| "ActuatorSupervisorFault_toString AF_InvalidConfiguration = ''invalid_configuration''"
| "ActuatorSupervisorFault_toString AF_InitializationFailure = ''initialization_failure''"
| "ActuatorSupervisorFault_toString AF_ClockRegression = ''clock_regression''"
| "ActuatorSupervisorFault_toString AF_WatchdogExpired = ''watchdog_expired''"
| "ActuatorSupervisorFault_toString AF_HardwareInterlockLost = ''hardware_interlock_lost''"
| "ActuatorSupervisorFault_toString AF_StarterTimeout = ''starter_timeout''"
| "ActuatorSupervisorFault_toString AF_CommandSequence = ''command_sequence''"
| "ActuatorSupervisorFault_toString AF_DriverFailure = ''driver_failure''"
| "ActuatorSupervisorFault_toString AF_FeedbackUnavailable = ''feedback_unavailable''"
| "ActuatorSupervisorFault_toString AF_FeedbackMismatch = ''feedback_mismatch''"
| "ActuatorSupervisorFault_toString AF_SafingFailure = ''safing_failure''"

section \<open>Safing and tripping\<close>

definition sup_off :: "ActuatorSafetySupervisor \<Rightarrow> bool" where
  "sup_off s \<longleftrightarrow> \<not> ignitionCommanded s \<and> \<not> starterCommanded s"

lemma safeDownstream_props:
  assumes "safeDownstream driver (s, e) = (ok, s', e')"
  shows "sup_off s'" "as_fault s' = as_fault s" "as_config s' = as_config s"
    "as_initialized s' = as_initialized s" "safingFailed s' \<longleftrightarrow> safingFailed s \<or> \<not> ok"
    "as_clockInitialized s' = as_clockInitialized s"
    "heartbeatInitialized s' = heartbeatInitialized s"
    "hardwareStartPermitted s' = hardwareStartPermitted s"
  using assms
  by (auto simp: safeDownstream_def sup_off_def Let_def split: prod.splits if_splits)

lemma trip_props:
  assumes "trip driver f (s, e) = (s', e')" "f \<noteq> AF_None"
  shows "sup_off s'" "as_fault s' = (if as_fault s = AF_None then f else as_fault s)"
    "as_config s' = as_config s" "as_initialized s' = as_initialized s" "as_fault s' \<noteq> AF_None"
    "as_clockInitialized s' = as_clockInitialized s"
    "heartbeatInitialized s' = heartbeatInitialized s"
    "hardwareStartPermitted s' = hardwareStartPermitted s"
proof -
  let ?s = "if as_fault s = AF_None then s\<lparr>as_fault := f\<rparr> else s"
  obtain ok where "safeDownstream driver (?s, e) = (ok, s', e')"
    using assms(1) by (cases "safeDownstream driver (?s, e)") (simp add: trip_def)
  note * = safeDownstream_props [OF this]
  show "sup_off s'" "as_fault s' = (if as_fault s = AF_None then f else as_fault s)"
    "as_config s' = as_config s" "as_initialized s' = as_initialized s" "as_fault s' \<noteq> AF_None"
    "as_clockInitialized s' = as_clockInitialized s"
    "heartbeatInitialized s' = heartbeatInitialized s"
    "hardwareStartPermitted s' = hardwareStartPermitted s"
    using * assms(2) by auto
qed

section \<open>Invariant\<close>

definition sup_inv :: "ActuatorSafetySupervisor \<Rightarrow> bool" where
  "sup_inv s \<longleftrightarrow>
     (as_fault s \<noteq> AF_None \<longrightarrow> sup_off s) \<and>
     (\<not> as_initialized s \<longrightarrow> as_fault s \<noteq> AF_None) \<and>
     (safingFailed s \<longrightarrow> as_fault s \<noteq> AF_None) \<and>
     (starterCommanded s \<longrightarrow> ignitionCommanded s) \<and>
     (ignitionCommanded s \<longrightarrow>
        as_clockInitialized s \<and> heartbeatInitialized s \<and> hardwareStartPermitted s) \<and>
     (as_fault s = AF_None \<longrightarrow> actuatorConfigIsValid (as_config s))"

lemma sup_off_simps [simp]:
  "sup_off (s\<lparr>lastOutputChangeMs := t\<rparr>) = sup_off s"
  "sup_off (s\<lparr>lastHeartbeatMs := t\<rparr>) = sup_off s"
  "sup_off (s\<lparr>heartbeatInitialized := b\<rparr>) = sup_off s"
  "sup_off (s\<lparr>hardwareStartPermitted := b\<rparr>) = sup_off s"
  "sup_off (s\<lparr>ignitionFeedbackConfirmed := b\<rparr>) = sup_off s"
  "sup_off (s\<lparr>as_fault := f\<rparr>) = sup_off s"
  "sup_off (s\<lparr>as_initialized := b\<rparr>) = sup_off s"
  "sup_off (s\<lparr>safingFailed := b\<rparr>) = sup_off s"
  by (simp_all add: sup_off_def)

lemma sup_inv_simps [simp]:
  "sup_inv (s\<lparr>lastOutputChangeMs := t\<rparr>) = sup_inv s"
  "sup_inv (s\<lparr>lastHeartbeatMs := t\<rparr>) = sup_inv s"
  "sup_inv (s\<lparr>ignitionFeedbackConfirmed := b\<rparr>) = sup_inv s"
  by (simp_all add: sup_inv_def)

text \<open>When \<open>canEnergize\<close> lets an energising command through.\<close>

definition energize_guard :: "ActuatorSafetySupervisor \<Rightarrow> bool" where
  "energize_guard s \<longleftrightarrow>
     as_initialized s \<and> as_fault s = AF_None \<and> as_clockInitialized s \<and>
     heartbeatInitialized s \<and> hardwareStartPermitted s \<and>
     as_lastObservedMs s - lastHeartbeatMs s \<le> watchdogTimeoutMs (as_config s)"

lemma sup_inv_faulted: "as_fault s \<noteq> AF_None \<Longrightarrow> sup_off s \<Longrightarrow> sup_inv s"
  by (simp add: sup_inv_def sup_off_def)

lemma trip_inv:
  "trip driver f (s, e) = (s', e') \<Longrightarrow> f \<noteq> AF_None \<Longrightarrow> sup_inv s' \<and> sup_off s'"
  using trip_props [of driver f s e s' e'] by (simp add: sup_inv_faulted)

lemma safeDownstream_inv:
  "safeDownstream driver (s, e) = (True, s', e') \<Longrightarrow> sup_inv s \<Longrightarrow> sup_inv s' \<and> sup_off s'"
  using safeDownstream_props [of driver s e True s' e'] by (auto simp: sup_inv_def sup_off_def)

lemma canEnergize_True:
  "canEnergize driver (s, e) = (True, s', e') \<longleftrightarrow> s' = s \<and> e' = e \<and> energize_guard s"
  by (auto simp: canEnergize_def energize_guard_def not_less)

lemma canEnergize_False:
  assumes "canEnergize driver (s, e) = (False, s', e')" "sup_inv s"
  shows "sup_inv s' \<and> sup_off s' \<and> as_fault s' \<noteq> AF_None"
proof (cases "as_initialized s \<and> as_fault s \<noteq> AF_None")
  case True
  with assms show ?thesis by (auto simp: canEnergize_def sup_inv_def)
next
  case False
  with assms(1) obtain f where "trip driver f (s, e) = (s', e')" "f \<noteq> AF_None"
    by (auto simp: canEnergize_def split: if_splits)
  then show ?thesis using trip_inv [of driver f s e s' e'] trip_props(5) [of driver f s e s' e']
    by simp
qed

lemma observeClock_cases:
  assumes "observeClock driver now (s, e) = (ok, s', e')"
  obtains (accepted) "ok" "s' = s\<lparr>as_lastObservedMs := now, as_clockInitialized := True\<rparr>" "e' = e"
      "as_clockInitialized s \<longrightarrow> now = as_lastObservedMs s \<or> strictlyNewer now (as_lastObservedMs s)"
  | (regression) "\<not> ok" "as_clockInitialized s" "now \<noteq> as_lastObservedMs s"
      "\<not> strictlyNewer now (as_lastObservedMs s)"
      "trip driver AF_ClockRegression (s, e) = (s', e')"
  using assms by (auto simp: observeClock_def split: if_splits)

lemma observeClock_inv:
  assumes "observeClock driver now (s, e) = (ok, s', e')" "sup_inv s"
  shows "sup_inv s'"
  using assms(1)
proof (cases rule: observeClock_cases)
  case accepted
  with assms(2) show ?thesis by (simp add: sup_inv_def sup_off_def)
next
  case regression
  then show ?thesis using trip_inv [of driver AF_ClockRegression s e s' e'] by simp
qed

section \<open>The operations keep the invariant\<close>

lemma enableIgnition_step:
  assumes "supervisor_enableIgnition driver (s, e) = (ok, s', e')" "sup_inv s"
  shows "sup_inv s' \<and> (if ok then energize_guard s \<and> starterCommanded s' = starterCommanded s \<and>
      ignitionCommanded s' else sup_off s' \<and> as_fault s' \<noteq> AF_None)"
proof -
  obtain can s1 e1 where c: "canEnergize driver (s, e) = (can, s1, e1)" by (metis surj_pair)
  show ?thesis
  proof (cases can)
    case False
    with c assms canEnergize_False [of driver s e s1 e1] show ?thesis
      by (simp add: supervisor_enableIgnition_def)
  next
    case True
    with c have s1: "s1 = s" "e1 = e" "energize_guard s" by (simp_all add: canEnergize_True)
    obtain did e2 where d: "ap_enableIgnition driver e = (did, e2)" by fastforce
    show ?thesis
    proof (cases did)
      case True
      with assms c s1 d \<open>can\<close> show ?thesis
        by (auto simp: supervisor_enableIgnition_def sup_inv_def sup_off_def energize_guard_def)
    next
      case False
      with assms(1) c s1 d \<open>can\<close> have "trip driver AF_DriverFailure (s, e2) = (s', e')" "\<not> ok"
        by (simp_all add: supervisor_enableIgnition_def)
      then show ?thesis using trip_inv trip_props(5) by fastforce
    qed
  qed
qed

definition engage_permitted :: "ActuatorSafetySupervisor \<Rightarrow> bool" where
  "engage_permitted s \<longleftrightarrow>
     energize_guard s \<and> \<not> starterCommanded s \<and> ignitionCommanded s \<and>
     (requireFeedback (as_config s) \<longrightarrow> ignitionFeedbackConfirmed s)"

lemma engageStarter_step:
  assumes "supervisor_engageStarter driver (s, e) = (ok, s', e')" "sup_inv s"
  shows "sup_inv s' \<and> (if ok then engage_permitted s \<and> starterCommanded s' \<and> ignitionCommanded s' \<and>
      starterEngagedAtMs s' = as_lastObservedMs s else sup_off s' \<and> as_fault s' \<noteq> AF_None)"
proof -
  obtain can s1 e1 where c: "canEnergize driver (s, e) = (can, s1, e1)" by (metis surj_pair)
  show ?thesis
  proof (cases can)
    case False
    with c assms canEnergize_False [of driver s e s1 e1] show ?thesis
      by (simp add: supervisor_engageStarter_def)
  next
    case True
    with c have s1: "s1 = s" "e1 = e" "energize_guard s" by (simp_all add: canEnergize_True)
    obtain did e2 where d: "ap_engageStarter driver e = (did, e2)" by fastforce
    show ?thesis
    proof (cases "engage_permitted s \<and> did")
      case True
      with assms c s1 d \<open>can\<close> show ?thesis
        by (auto simp: supervisor_engageStarter_def sup_inv_def sup_off_def energize_guard_def
            engage_permitted_def)
    next
      case False
      with assms(1) c s1 d \<open>can\<close> obtain f e3 where
        "trip driver f (s, e3) = (s', e')" "f \<noteq> AF_None" "\<not> ok"
        by (auto simp: supervisor_engageStarter_def engage_permitted_def split: if_splits)
      then show ?thesis using trip_inv trip_props(5) by fastforce
    qed
  qed
qed

lemma disengageStarter_step:
  assumes "supervisor_disengageStarter driver (s, e) = (ok, s', e')" "sup_inv s"
  shows "sup_inv s' \<and> (if ok then ignitionCommanded s' = ignitionCommanded s \<and>
      \<not> starterCommanded s' else sup_off s' \<and> as_fault s' \<noteq> AF_None)"
proof -
  obtain did e1 where d: "ap_disengageStarter driver e = (did, e1)" by fastforce
  show ?thesis
  proof (cases did)
    case True
    with assms(1) d have "s' = s\<lparr>starterCommanded := False,
        lastOutputChangeMs := as_lastObservedMs s\<rparr>" "ok"
      by (simp_all add: supervisor_disengageStarter_def)
    moreover have "sup_inv (s\<lparr>starterCommanded := False\<rparr>)"
      using assms(2) by (simp add: sup_inv_def sup_off_def)
    ultimately show ?thesis by simp
  next
    case False
    with assms(1) d have "trip driver AF_DriverFailure (s, e1) = (s', e')" "\<not> ok"
      by (simp_all add: supervisor_disengageStarter_def)
    then show ?thesis using trip_inv trip_props(5) by fastforce
  qed
qed

lemma releaseRemoteControl_step:
  assumes "supervisor_releaseRemoteControl driver (s, e) = (ok, s', e')" "sup_inv s"
  shows "sup_inv s' \<and> sup_off s' \<and> (\<not> ok \<longrightarrow> as_fault s' \<noteq> AF_None)"
proof -
  obtain can s1 e1 where c: "canEnergize driver (s, e) = (can, s1, e1)" by (metis surj_pair)
  show ?thesis
  proof (cases can)
    case False
    with c assms canEnergize_False [of driver s e s1 e1] show ?thesis
      by (simp add: supervisor_releaseRemoteControl_def)
  next
    case True
    with c have s1: "s1 = s" "e1 = e" "energize_guard s" by (simp_all add: canEnergize_True)
    obtain did e2 where d: "ap_releaseRemoteControl driver e = (did, e2)" by fastforce
    show ?thesis
    proof (cases "\<not> starterCommanded s \<and> did")
      case True
      with assms(1) c s1 d \<open>can\<close> have "s' = s\<lparr>ignitionCommanded := False,
          starterCommanded := False, ignitionFeedbackConfirmed := False,
          lastOutputChangeMs := as_lastObservedMs s\<rparr>" "ok"
        by (simp_all add: supervisor_releaseRemoteControl_def)
      moreover have "sup_inv (s\<lparr>ignitionCommanded := False, starterCommanded := False\<rparr>)"
        using assms(2) by (simp add: sup_inv_def sup_off_def)
      ultimately show ?thesis by (simp add: sup_off_def)
    next
      case False
      with assms(1) c s1 d \<open>can\<close> obtain f e3 where
        "trip driver f (s, e3) = (s', e')" "f \<noteq> AF_None" "\<not> ok"
        by (auto simp: supervisor_releaseRemoteControl_def split: if_splits)
      then show ?thesis using trip_inv trip_props(5) by fastforce
    qed
  qed
qed

lemma secureOutputs_step:
  assumes "supervisor_secureOutputs driver (s, e) = (ok, s', e')" "sup_inv s"
  shows "sup_inv s' \<and> sup_off s' \<and> (\<not> ok \<longrightarrow> as_fault s' = AF_SafingFailure)"
proof -
  obtain s1 e1 where sd: "safeDownstream driver (s, e) = (ok, s1, e1)"
    using assms(1) by (auto simp: supervisor_secureOutputs_def split: prod.splits if_splits)
  show ?thesis
  proof (cases ok)
    case True
    with sd assms safeDownstream_inv [of driver s e s1 e1] show ?thesis
      by (simp add: supervisor_secureOutputs_def)
  next
    case False
    with sd assms(1) have "s' = s1\<lparr>as_fault := AF_SafingFailure\<rparr>" "\<not> ok"
      by (simp_all add: supervisor_secureOutputs_def)
    with safeDownstream_props(1) [OF sd] show ?thesis by (simp add: sup_inv_faulted)
  qed
qed

lemma heartbeat_step:
  assumes "supervisor_heartbeat driver now (s, e) = (ok, s', e')" "sup_inv s"
  shows "sup_inv s' \<and> (ignitionCommanded s' \<longrightarrow> ignitionCommanded s) \<and>
    (starterCommanded s' \<longrightarrow> starterCommanded s)"
proof -
  obtain c s1 e1 where c: "observeClock driver now (s, e) = (c, s1, e1)" by (metis surj_pair)
  have inv1: "sup_inv s1" by (rule observeClock_inv [OF c assms(2)])
  from c have mono: "(ignitionCommanded s1 \<longrightarrow> ignitionCommanded s) \<and>
      (starterCommanded s1 \<longrightarrow> starterCommanded s)"
    using trip_inv [of driver AF_ClockRegression s e s1 e1]
    by (cases rule: observeClock_cases) (auto simp: sup_off_def)
  show ?thesis
  proof (cases "(s', e') = trip driver AF_WatchdogExpired (s1, e1)")
    case True
    then show ?thesis
      using trip_inv [of driver AF_WatchdogExpired s1 e1 s' e'] by (simp add: sup_off_def)
  next
    case False
    with assms(1) c have "s' = s1 \<or> s' = s1\<lparr>lastHeartbeatMs := now, heartbeatInitialized := True\<rparr>"
      by (auto simp: supervisor_heartbeat_def split: if_splits)
    moreover have "sup_inv (s1\<lparr>lastHeartbeatMs := now, heartbeatInitialized := True\<rparr>)"
      using inv1 by (simp add: sup_inv_def sup_off_def)
    ultimately show ?thesis using inv1 mono by (elim disjE) simp_all
  qed
qed

lemma poll_checks_step:
  assumes "poll_checks driver now permitted fb (s, e) = (s', e')" "sup_inv s"
    "as_fault s = AF_None" "as_initialized s"
  shows "sup_inv s' \<and>
    (as_fault s' \<noteq> AF_None \<longrightarrow> sup_off s') \<and>
    (ignitionCommanded s' \<longrightarrow> ignitionCommanded s) \<and> (starterCommanded s' \<longrightarrow> starterCommanded s) \<and>
    (ignitionCommanded s' \<or> starterCommanded s' \<longrightarrow>
       permitted \<and> now - lastHeartbeatMs s' \<le> watchdogTimeoutMs (as_config s')) \<and>
    (starterCommanded s' \<longrightarrow> now - starterEngagedAtMs s' \<le> maximumStarterActiveMs (as_config s'))"
proof (cases "\<exists>f. f \<noteq> AF_None \<and>
    (s', e') = trip driver f (s\<lparr>hardwareStartPermitted := permitted\<rparr>, e)")
  case True
  then obtain f where "f \<noteq> AF_None"
    "trip driver f (s\<lparr>hardwareStartPermitted := permitted\<rparr>, e) = (s', e')"
    by metis
  then show ?thesis
    using trip_inv [of driver f "s\<lparr>hardwareStartPermitted := permitted\<rparr>" e s' e']
    by (simp add: sup_off_def)
next
  case False
  let ?active = "ignitionCommanded s \<or> starterCommanded s"
  let ?limit = "watchdogTimeoutMs (as_config s)"
  have no_trip: "trip driver f (s\<lparr>hardwareStartPermitted := permitted\<rparr>, e) \<noteq> (s', e')"
    if "f \<noteq> AF_None" for f
    using False that by metis
  have interlock: "\<not> (?active \<and> \<not> permitted)"
    using assms(1) no_trip [of AF_HardwareInterlockLost]
    by (auto simp: poll_checks_def Let_def)
  have watchdog: "\<not> (?active \<and> (\<not> heartbeatInitialized s \<or> now - lastHeartbeatMs s > ?limit))"
    using assms(1) no_trip [of AF_WatchdogExpired] interlock
    by (auto simp: poll_checks_def Let_def)
  have starter: "\<not> (starterCommanded s \<and>
      now - starterEngagedAtMs s > maximumStarterActiveMs (as_config s))"
    using assms(1) no_trip [of AF_StarterTimeout] interlock watchdog
    by (auto simp: poll_checks_def Let_def)
  let ?grace = "now - lastOutputChangeMs s > feedbackGraceMs (as_config s)"
  have mismatch: "\<not> (?grace \<and> fb_available fb \<and>
      (ignitionActive fb \<noteq> ignitionCommanded s \<or> starterActive fb \<noteq> starterCommanded s))"
  proof
    assume "?grace \<and> fb_available fb \<and>
      (ignitionActive fb \<noteq> ignitionCommanded s \<or> starterActive fb \<noteq> starterCommanded s)"
    with interlock watchdog starter
    have "poll_checks driver now permitted fb (s, e) =
        trip driver AF_FeedbackMismatch (s\<lparr>hardwareStartPermitted := permitted\<rparr>, e)"
      by (cases "starterCommanded s"; cases "ignitionCommanded s"; cases permitted;
          simp add: poll_checks_def Let_def)
    with assms(1) no_trip [of AF_FeedbackMismatch] show False by simp
  qed
  have missing: "\<not> (?grace \<and> requireFeedback (as_config s) \<and> ?active \<and> \<not> fb_available fb)"
  proof
    assume "?grace \<and> requireFeedback (as_config s) \<and> ?active \<and> \<not> fb_available fb"
    with interlock watchdog starter
    have "poll_checks driver now permitted fb (s, e) =
        trip driver AF_FeedbackUnavailable (s\<lparr>hardwareStartPermitted := permitted\<rparr>, e)"
      by (cases "starterCommanded s"; cases "ignitionCommanded s"; cases permitted;
          simp add: poll_checks_def Let_def)
    with assms(1) no_trip [of AF_FeedbackUnavailable] show False by simp
  qed
  have "poll_checks driver now permitted fb (s, e) =
      (if fb_available fb \<and> ignitionActive fb = ignitionCommanded s \<and>
          starterActive fb = starterCommanded s
       then (s\<lparr>hardwareStartPermitted := permitted,
               ignitionFeedbackConfirmed := ignitionCommanded s\<rparr>, e)
       else (s\<lparr>hardwareStartPermitted := permitted\<rparr>, e))"
    using interlock watchdog starter mismatch missing
    by (cases "starterCommanded s"; cases "ignitionCommanded s"; cases permitted;
        cases "fb_available fb"; cases ?grace; simp add: poll_checks_def Let_def)
  with assms(1) have "s' = s\<lparr>hardwareStartPermitted := permitted,
      ignitionFeedbackConfirmed := ignitionCommanded s\<rparr> \<or>
      s' = s\<lparr>hardwareStartPermitted := permitted\<rparr>"
    by (auto split: if_splits)
  moreover have "sup_inv (s\<lparr>hardwareStartPermitted := permitted\<rparr>)"
    using assms(2) interlock by (auto simp: sup_inv_def)
  ultimately show ?thesis
    using assms(3) interlock watchdog starter
    by (cases "ignitionCommanded s"; cases "starterCommanded s") (auto simp: not_less)
qed

lemma poll_step:
  assumes "supervisor_poll driver now permitted fb (s, e) = (status, s', e')" "sup_inv s"
  shows "sup_inv s' \<and> status = supervisor_status s' \<and>
    (ignitionCommanded s' \<longrightarrow> ignitionCommanded s) \<and> (starterCommanded s' \<longrightarrow> starterCommanded s) \<and>
    (ignitionCommanded s' \<or> starterCommanded s' \<longrightarrow>
       permitted \<and> now - lastHeartbeatMs s' \<le> watchdogTimeoutMs (as_config s')) \<and>
    (starterCommanded s' \<longrightarrow> now - starterEngagedAtMs s' \<le> maximumStarterActiveMs (as_config s'))"
proof -
  obtain c s1 e1 where c: "observeClock driver now (s, e) = (c, s1, e1)" by (metis surj_pair)
  have inv1: "sup_inv s1" by (rule observeClock_inv [OF c assms(2)])
  have c': "(if c then (ignitionCommanded s1 \<longrightarrow> ignitionCommanded s) \<and>
      (starterCommanded s1 \<longrightarrow> starterCommanded s) else sup_off s1)"
    using c trip_inv [of driver AF_ClockRegression s e s1 e1]
    by (cases rule: observeClock_cases) auto
  show ?thesis
  proof (cases "c \<and> as_initialized s1 \<and> as_fault s1 = AF_None")
    case False
    with assms(1) c have "s' = s1" "e' = e1" "status = supervisor_status s1"
      by (auto simp: supervisor_poll_def split: if_splits)
    with inv1 c' False show ?thesis by (auto simp: sup_inv_def sup_off_def split: if_splits)
  next
    case True
    obtain s2 e2 where pc: "poll_checks driver now permitted fb (s1, e1) = (s2, e2)"
      by fastforce
    with c True
    have "supervisor_poll driver now permitted fb (s, e) = (supervisor_status s2, s2, e2)"
      by (simp add: supervisor_poll_def)
    from trans [OF assms(1) [symmetric] this] have "s' = s2" "status = supervisor_status s2"
      unfolding prod.inject by blast+
    with poll_checks_step [OF pc inv1] True c' show ?thesis by simp
  qed
qed

lemma reset_inv:
  "sup_off s \<Longrightarrow> actuatorConfigIsValid (as_config s) \<Longrightarrow>
     sup_inv (s\<lparr>as_fault := AF_None, safingFailed := False, heartbeatInitialized := False,
       hardwareStartPermitted := False, as_initialized := True\<rparr>)"
  by (simp add: sup_inv_def sup_off_def)

lemma resetFault_step:
  assumes "supervisor_resetFault driver now fb (s, e) = (ok, s', e')"
  shows "sup_inv s' \<and> sup_off s' \<and>
    (if ok then as_fault s' = AF_None \<and> as_initialized s' \<and> actuatorConfigIsValid (as_config s') \<and>
       (requireFeedback (as_config s') \<longrightarrow> fb_available fb) \<and>
       (fb_available fb \<longrightarrow> \<not> ignitionActive fb \<and> \<not> starterActive fb)
     else as_fault s' \<noteq> AF_None)"
proof -
  obtain c s1 e1 where c: "observeClock driver now (s, e) = (c, s1, e1)" by (metis surj_pair)
  obtain d s2 e2 where d: "safeDownstream driver (s1, e1) = (d, s2, e2)" by (metis surj_pair)
  obtain d' s3 e3 where
    d': "safeDownstream driver (s1\<lparr>as_fault := AF_InvalidConfiguration\<rparr>, e1) = (d', s3, e3)"
    by (metis surj_pair)
  have off: "sup_off s2" "sup_off s3" "as_fault s3 = AF_InvalidConfiguration"
    "as_config s2 = as_config s1"
    using safeDownstream_props [OF d] safeDownstream_props [OF d'] by simp_all
  show ?thesis
  proof (cases c)
    case False
    with c have "sup_inv s1 \<and> sup_off s1 \<and> as_fault s1 \<noteq> AF_None"
      using trip_inv [of driver AF_ClockRegression s e s1 e1]
        trip_props(5) [of driver AF_ClockRegression s e s1 e1]
      by (cases rule: observeClock_cases) auto
    with False c assms show ?thesis by (simp add: supervisor_resetFault_def)
  next
    case True
    with c d d' assms have "s' = s3 \<and> \<not> ok \<or>
        (\<exists>f. f \<noteq> AF_None \<and> s' = s2\<lparr>as_fault := f\<rparr> \<and> \<not> ok) \<or>
        ok \<and> s' = s2\<lparr>as_fault := AF_None, safingFailed := False, heartbeatInitialized := False,
          hardwareStartPermitted := False, as_initialized := True\<rparr> \<and>
        actuatorConfigIsValid (as_config s1) \<and>
        (requireFeedback (as_config s1) \<longrightarrow> fb_available fb) \<and>
        (fb_available fb \<longrightarrow> \<not> ignitionActive fb \<and> \<not> starterActive fb)"
      by (auto simp: supervisor_resetFault_def off Let_def split: if_splits)
    with off show ?thesis
      by (elim disjE) (auto simp: sup_inv_faulted reset_inv)
  qed
qed

lemma mkSupervisor_inv:
  assumes "mkActuatorSafetySupervisor driver config e = (s, e')"
  shows "sup_inv s \<and> sup_off s"
  using assms
  by (auto simp: mkActuatorSafetySupervisor_def safeDownstream_def sup_inv_def sup_off_def Let_def
      split: prod.splits if_splits)

section \<open>The supervisor is a fail-safe actuator port\<close>

interpretation sup: failsafe_actuators "supervisor_port driver" "\<lambda>x. sup_inv (fst x)"
    "\<lambda>x. ignitionCommanded (fst x)" "\<lambda>x. starterCommanded (fst x)"
  for driver :: "'e ActuatorPort"
proof unfold_locales
  fix e e' :: "'e supervised" and ok
  obtain s w s' w' where [simp]: "e = (s, w)" "e' = (s', w')" by fastforce
  assume inv: "sup_inv (fst e)"
  {
    assume "ap_enableIgnition (supervisor_port driver) e = (ok, e')"
    then show "sup_inv (fst e') \<and> (if ok then starterCommanded (fst e') = starterCommanded (fst e)
        else \<not> ignitionCommanded (fst e') \<and> \<not> starterCommanded (fst e'))"
      using enableIgnition_step [of driver s w ok s' w'] inv
      by (auto simp: supervisor_port_def sup_off_def)
  next
    assume "ap_engageStarter (supervisor_port driver) e = (ok, e')"
    then show "sup_inv (fst e') \<and> (if ok then ignitionCommanded (fst e') = ignitionCommanded (fst e)
        else \<not> ignitionCommanded (fst e') \<and> \<not> starterCommanded (fst e'))"
      using engageStarter_step [of driver s w ok s' w'] inv
      by (auto simp: supervisor_port_def sup_off_def engage_permitted_def)
  next
    assume "ap_disengageStarter (supervisor_port driver) e = (ok, e')"
    then show "sup_inv (fst e') \<and>
        (if ok then ignitionCommanded (fst e') = ignitionCommanded (fst e) \<and>
           \<not> starterCommanded (fst e')
         else \<not> ignitionCommanded (fst e') \<and> \<not> starterCommanded (fst e'))"
      using disengageStarter_step [of driver s w ok s' w'] inv
      by (auto simp: supervisor_port_def sup_off_def)
  next
    assume "ap_releaseRemoteControl (supervisor_port driver) e = (ok, e')"
    then show "sup_inv (fst e') \<and> \<not> ignitionCommanded (fst e') \<and> \<not> starterCommanded (fst e')"
      using releaseRemoteControl_step [of driver s w ok s' w'] inv
      by (auto simp: supervisor_port_def sup_off_def)
  next
    assume "ap_secureOutputs (supervisor_port driver) e = (ok, e')"
    then show "sup_inv (fst e') \<and> \<not> ignitionCommanded (fst e') \<and> \<not> starterCommanded (fst e')"
      using secureOutputs_step [of driver s w ok s' w'] inv
      by (auto simp: supervisor_port_def sup_off_def)
  }
qed

section \<open>The supervised runtime\<close>

text \<open>
  The remaining ports act on the world behind the supervisor; lifted, they leave the
  supervisor's fields alone.
\<close>

definition lift_call :: "('w \<Rightarrow> bool \<times> 'w) \<Rightarrow> 'w supervised \<Rightarrow> bool \<times> 'w supervised" where
  "lift_call f = (\<lambda>(s, w). let (ok, w') = f w in (ok, s, w'))"

definition lift_gateway :: "'w VehicleGateway \<Rightarrow> 'w supervised VehicleGateway" where
  "lift_gateway g = \<lparr>requestState = lift_call (requestState g)\<rparr>"

definition lift_timer :: "'w TimerPort \<Rightarrow> 'w supervised TimerPort" where
  "lift_timer t =
     \<lparr>timer_arm = (\<lambda>ms. lift_call (timer_arm t ms)), timer_cancel = lift_call (timer_cancel t)\<rparr>"

definition lift_sink :: "'w NotificationSink \<Rightarrow> 'w supervised NotificationSink" where
  "lift_sink k = \<lparr>publish = (\<lambda>a st f sa pr (s, w). (s, publish k a st f sa pr w))\<rparr>"

interpretation srt: runtime_ports "supervisor_port driver" "\<lambda>x. sup_inv (fst x)"
    "\<lambda>x. ignitionCommanded (fst x)" "\<lambda>x. starterCommanded (fst x)"
    "lift_gateway gateway" "lift_timer timer" "lift_sink sink"
  for driver :: "'w ActuatorPort" and gateway timer sink
  by unfold_locales
    (auto simp: lift_gateway_def lift_timer_def lift_sink_def lift_call_def Let_def
       split: prod.splits)

end
