(* ===== verification/SupervisedSystem.thy ===== *)
theory SupervisedSystem
  imports ActuatorSupervisor
begin

text \<open>
  The control side of the program put together as \<^verbatim>\<open>tools/vehicle_simulator.cpp\<close> and
  \<^verbatim>\<open>docs/actuator-safety-supervisor.md\<close> describe it: the runtime executes the controller's
  decisions through the supervisor, while another task feeds the supervisor with heartbeats and
  polls.  The concrete driver, the vehicle gateway, the timer and the notification sink are
  arbitrary functions on an arbitrary world.
\<close>

section \<open>Steps of the system\<close>

datatype system_event =
    SE_Dispatch Event VehicleState u32
  | SE_Heartbeat u32
  | SE_Poll u32 bool ActuatorFeedback
  | SE_ResetFault u32 ActuatorFeedback

record 'w Platform =
  pl_driver :: "'w ActuatorPort"
  pl_gateway :: "'w VehicleGateway"
  pl_timer :: "'w TimerPort"
  pl_sink :: "'w NotificationSink"

type_synonym 'w system = "'w supervised Runtime \<times> 'w supervised"

definition system_start ::
    "'w Platform \<Rightarrow> ControllerConfig \<Rightarrow> ActuatorSafetyConfig \<Rightarrow> DiagnosticJournal option \<Rightarrow> 'w \<Rightarrow>
       'w system" where
  "system_start p config actuators journal w =
     (mkRuntime (mkController config) (lift_gateway (pl_gateway p))
        (supervisor_port (pl_driver p)) (lift_timer (pl_timer p)) (lift_sink (pl_sink p)) journal,
      mkActuatorSafetySupervisor (pl_driver p) actuators w)"

fun system_step :: "'w Platform \<Rightarrow> system_event \<Rightarrow> 'w system \<Rightarrow> 'w system" where
  "system_step p (SE_Dispatch event v ts) x = snd (Runtime_dispatch event v ts x)"
| "system_step p (SE_Heartbeat now) (rt, x) = (rt, snd (supervisor_heartbeat (pl_driver p) now x))"
| "system_step p (SE_Poll now permitted fb) (rt, x) =
     (rt, snd (supervisor_poll (pl_driver p) now permitted fb x))"
| "system_step p (SE_ResetFault now fb) (rt, x) =
     (rt, snd (supervisor_resetFault (pl_driver p) now fb x))"

definition system_run :: "'w Platform \<Rightarrow> system_event list \<Rightarrow> 'w system \<Rightarrow> 'w system" where
  "system_run p es x = fold (system_step p) es x"

section \<open>The commanded outputs follow the controller's state\<close>

definition system_safe :: "'w Platform \<Rightarrow> 'w system \<Rightarrow> bool" where
  "system_safe p = (\<lambda>(rt, x).
     srt.safe_state (pl_driver p) (pl_gateway p) (pl_timer p) (pl_sink p) rt x)"

lemma system_safe_iff:
  "system_safe p (rt, s, w) \<longleftrightarrow>
     srt.wired (pl_driver p) (pl_gateway p) (pl_timer p) (pl_sink p) rt \<and> sup_inv s \<and>
     (ignitionCommanded s \<longrightarrow>
        out_ignition (outputs_for (c_config (rt_controller rt)) (c_state (rt_controller rt)))) \<and>
     (starterCommanded s \<longrightarrow>
        out_starter (outputs_for (c_config (rt_controller rt)) (c_state (rt_controller rt))))"
  by (simp add: system_safe_def srt.safe_state_def sup.below_def)

lemma system_start_safe: "system_safe p (system_start p config actuators journal w)"
proof -
  obtain s w' where sup: "mkActuatorSafetySupervisor (pl_driver p) actuators w = (s, w')" by fastforce
  from mkSupervisor_inv [OF this] show ?thesis
    by (simp add: system_start_def sup system_safe_iff srt.wired_def mkRuntime_def sup_off_def)
qed

lemma system_step_safe:
  assumes "system_safe p x"
  shows "system_safe p (system_step p e x)"
proof -
  obtain rt s w where x: "x = (rt, s, w)" by (metis surj_pair)
  have inv: "sup_inv s" using assms by (simp add: x system_safe_iff)
  show ?thesis
  proof (cases e)
    case (SE_Dispatch event v ts)
    obtain d rt' x' where "Runtime_dispatch event v ts (rt, s, w) = (d, rt', x')"
      by (metis surj_pair)
    with assms show ?thesis
      by (auto simp: SE_Dispatch x system_safe_def intro: srt.safe_dispatch)
  next
    case (SE_Heartbeat now)
    obtain ok s' w' where "supervisor_heartbeat (pl_driver p) now (s, w) = (ok, s', w')"
      by (metis surj_pair)
    with heartbeat_step [OF this inv] assms show ?thesis
      by (auto simp: SE_Heartbeat x system_safe_iff)
  next
    case (SE_Poll now permitted fb)
    obtain st s' w' where "supervisor_poll (pl_driver p) now permitted fb (s, w) = (st, s', w')"
      by (metis surj_pair)
    with poll_step [OF this inv] assms show ?thesis
      by (auto simp: SE_Poll x system_safe_iff)
  next
    case (SE_ResetFault now fb)
    obtain ok s' w' where "supervisor_resetFault (pl_driver p) now fb (s, w) = (ok, s', w')"
      by (metis surj_pair)
    with resetFault_step [OF this] assms show ?thesis
      by (auto simp: SE_ResetFault x system_safe_iff sup_off_def)
  qed
qed

lemma fold_invariant:
  "(\<And>e x. I x \<Longrightarrow> I (f e x)) \<Longrightarrow> I x \<Longrightarrow> I (fold f es x)"
  by (induction es arbitrary: x) simp_all

lemma system_run_safe: "system_safe p x \<Longrightarrow> system_safe p (system_run p es x)"
  unfolding system_run_def by (rule fold_invariant [where f = "system_step p"]) (rule system_step_safe)

section \<open>A system that cannot start\<close>

lemma dispatch_never_started:
  assumes "Runtime_dispatch event v ts (rt, e) = (d, rt', e')" "never_started (rt_controller rt)"
  shows "never_started (rt_controller rt')"
  using assms(1) by (cases rule: dispatch_cases) (simp_all add: assms(2) handle_never_started)

definition system_never_started :: "'w system \<Rightarrow> bool" where
  "system_never_started x \<longleftrightarrow> never_started (rt_controller (fst x))"

lemma system_run_never_started:
  fixes x :: "'w system"
  assumes "system_never_started x"
  shows "system_never_started (system_run p es x)"
  unfolding system_run_def
proof (rule fold_invariant [where f = "system_step p" and I = system_never_started])
  fix e and x :: "'w system"
  assume x: "system_never_started x"
  obtain rt s w where [simp]: "x = (rt, s, w)" by (metis surj_pair)
  show "system_never_started (system_step p e x)"
  proof (cases e)
    case (SE_Dispatch event v ts)
    obtain d rt' y where "Runtime_dispatch event v ts (rt, s, w) = (d, rt', y)"
      by (metis surj_pair)
    with dispatch_never_started [OF this] x show ?thesis
      by (simp add: SE_Dispatch system_never_started_def)
  qed (use x in \<open>simp_all add: system_never_started_def\<close>)
qed (rule assms)

text \<open>No reference profile shipped with the program is ready, whatever the policy.\<close>

lemma registry_profile_not_ready:
  assumes "VehicleProfileRegistry_find profiles_registry i = Some profile"
  shows "\<not> ready (assessRemoteStartReadiness (Some profile) policy hood)"
proof -
  have "profile = e90_2009_n47d20c_automatic"
    using assms
    by (auto simp: VehicleProfileRegistry_find_def profiles_registry_def
        split: option.splits if_splits)
  moreover have "VehicleProfile_support e90_2009_n47d20c_automatic VS_EngineRpm \<noteq> SS_Verified"
    by (simp add: VehicleProfile_support_def e90_2009_n47d20c_automatic_def ReferenceSignals_def)
  moreover have "VS_EngineRpm \<in> required_signals policy hood"
    by (simp add: required_signals_def CoreRequiredSignals_def)
  ultimately show ?thesis
    by (auto simp: assessRemoteStartReadiness_def ready_assessProfileReadiness)
qed

lemma unqualified_not_ready:
  assumes "vehicleProfile config = None \<or>
    vehicleProfile config = VehicleProfileRegistry_find profiles_registry i"
  shows "\<not> ready (c_profileReadiness (mkController config))"
proof (cases "vehicleProfile config")
  case None
  then show ?thesis by (simp add: mkController_def assessRemoteStartReadiness_def)
next
  case (Some profile)
  with assms registry_profile_not_ready [of i profile] show ?thesis
    by (simp add: mkController_def)
qed

section \<open>What reaches the driver\<close>

text \<open>
  A driver that records the calls it receives and answers them by any function of the calls
  received so far.
\<close>

datatype driver_call =
  DC_EnableIgnition | DC_EngageStarter | DC_DisengageStarter | DC_ReleaseRemoteControl
| DC_SecureOutputs

definition recorded ::
    "(driver_call list \<Rightarrow> bool) \<Rightarrow> driver_call \<Rightarrow> driver_call list \<Rightarrow> bool \<times> driver_call list" where
  "recorded answer c calls = (answer (calls @ [c]), calls @ [c])"

definition recording_driver :: "(driver_call list \<Rightarrow> bool) \<Rightarrow> driver_call list ActuatorPort" where
  "recording_driver answer =
     \<lparr>ap_enableIgnition = recorded answer DC_EnableIgnition,
      ap_engageStarter = recorded answer DC_EngageStarter,
      ap_disengageStarter = recorded answer DC_DisengageStarter,
      ap_releaseRemoteControl = recorded answer DC_ReleaseRemoteControl,
      ap_secureOutputs = recorded answer DC_SecureOutputs\<rparr>"

lemma trip_calls:
  "snd (trip (recording_driver answer) f (s, calls)) =
     calls @ [DC_DisengageStarter, DC_SecureOutputs]"
  by (auto simp: trip_def safeDownstream_def recording_driver_def recorded_def Let_def)

lemma canEnergize_calls:
  "canEnergize (recording_driver answer) (s, calls) = (ok, s', calls') \<Longrightarrow>
     calls' = calls \<or> (\<not> ok \<and> calls' = calls @ [DC_DisengageStarter, DC_SecureOutputs])"
  using trip_calls [of answer _ s calls]
  by (auto simp: canEnergize_def split: if_splits dest: arg_cong [where f = snd])

lemma engage_calls:
  assumes "supervisor_engageStarter (recording_driver answer) (s, calls) = (ok, s', calls')"
  shows "\<exists>new. calls' = calls @ new \<and> (DC_EngageStarter \<in> set new \<longleftrightarrow> engage_permitted s)"
proof -
  let ?drv = "recording_driver answer"
  obtain can s1 c1 where c: "canEnergize ?drv (s, calls) = (can, s1, c1)" by (metis surj_pair)
  show ?thesis
  proof (cases can)
    case False
    have "\<not> energize_guard s" using c False canEnergize_True [of ?drv s calls s calls] by auto
    with False c canEnergize_calls [OF c] assms show ?thesis
      by (auto simp: supervisor_engageStarter_def engage_permitted_def)
  next
    case True
    with c have s1: "s1 = s" "c1 = calls" "energize_guard s" by (simp_all add: canEnergize_True)
    show ?thesis
    proof (cases "engage_permitted s")
      case True
      let ?calls = "calls @ [DC_EngageStarter]"
      have "calls' = ?calls \<or> calls' = snd (trip ?drv AF_DriverFailure (s, ?calls))"
        using assms c s1 \<open>can\<close> True
        by (auto simp: supervisor_engageStarter_def engage_permitted_def recording_driver_def
            recorded_def split: if_splits)
      with True show ?thesis by (auto simp: trip_calls)
    next
      case False
      have "calls' = snd (trip ?drv AF_CommandSequence (s, calls))"
        using assms c s1 \<open>can\<close> False
        by (auto simp: supervisor_engageStarter_def engage_permitted_def split: if_splits)
      with False show ?thesis by (auto simp: trip_calls)
    qed
  qed
qed

lemma engage_refusal_secures:
  assumes "supervisor_engageStarter (recording_driver answer) (s, calls) = (ok, s', calls')"
    and "\<not> ok" and "as_fault s = AF_None"
  shows "\<exists>before. calls' = before @ [DC_DisengageStarter, DC_SecureOutputs]"
proof -
  let ?drv = "recording_driver answer"
  obtain can s1 c1 where c: "canEnergize ?drv (s, calls) = (can, s1, c1)" by (metis surj_pair)
  have "\<exists>f c. trip ?drv f (s, c) = (s', calls')"
  proof (cases can)
    case False
    with c assms show ?thesis
      by (auto simp: supervisor_engageStarter_def canEnergize_def split: if_splits)
  next
    case True
    with c have "s1 = s" "c1 = calls" by (simp_all add: canEnergize_True)
    with True c assms(1,2) show ?thesis
      by (auto simp: supervisor_engageStarter_def Let_def split: if_splits prod.splits)
  qed
  then show ?thesis by (metis snd_conv trip_calls)
qed

section \<open>Properties of the supervised system\<close>

definition sample_platform :: "driver_call list Platform" where
  "sample_platform =
     \<lparr>pl_driver = recording_driver (\<lambda>_. True), pl_gateway = \<lparr>requestState = Pair True\<rparr>,
      pl_timer = \<lparr>timer_arm = (\<lambda>_. Pair True), timer_cancel = Pair True\<rparr>,
      pl_sink = \<lparr>publish = (\<lambda>_ _ _ _ _ w. w)\<rparr>\<rparr>"

definition feedback_of :: "bool \<Rightarrow> bool \<Rightarrow> ActuatorFeedback" where
  "feedback_of ignition starter =
     \<lparr>fb_available = True, ignitionActive = ignition, starterActive = starter\<rparr>"

definition sample_cranking :: "system_event list" where
  "sample_cranking =
     [SE_Heartbeat 10, SE_Poll 10 True (feedback_of False False),
      SE_Dispatch (Event_of ET_RemoteStartRequested) parked_vehicle 10,
      SE_Dispatch (Event_of ET_VehicleStateUpdated) parked_vehicle 20,
      SE_Poll 30 True (feedback_of True False), SE_Heartbeat 40,
      SE_Dispatch (Event_of ET_TimerElapsed) parked_vehicle 40]"

text \<open>The supervisor and its calls once the sample sequence has reached cranking.\<close>

definition sample_cranking_supervisor :: "driver_call list supervised" where
  "sample_cranking_supervisor =
     snd (system_run sample_platform sample_cranking
       (system_start sample_platform sample_config ActuatorSafetyConfig_default None []))"

lemma sample_cranking_supervisor_inv: "sup_inv (fst sample_cranking_supervisor)"
proof -
  obtain rt s w where run: "system_run sample_platform sample_cranking
      (system_start sample_platform sample_config ActuatorSafetyConfig_default None []) =
        (rt, s, w)"
    by (metis surj_pair)
  with system_run_safe [OF system_start_safe, of sample_platform sample_cranking sample_config
      ActuatorSafetyConfig_default None "[]"]
  show ?thesis by (simp add: sample_cranking_supervisor_def system_safe_iff)
qed

text \<open>C1: For every driver, platform, configuration and interleaving of events, heartbeats, polls and
  fault resets, and whatever calls fail, the outputs commanded by the supervisor never exceed the
  controller's state: the starter is commanded only while the controller is cranking, with
  ignition; ignition only from preparation to takeover; nothing at all once the supervisor has
  latched a fault or while the controller is in fault, idle, stopping or under driver control.\<close>

theorem outputs_never_exceed_state:
  assumes "system_run p es (system_start p config actuators journal w) = (rt, s, w')"
  shows "(starterCommanded s \<longrightarrow> ignitionCommanded s \<and> Runtime_state rt = CS_Cranking) \<and>
    (ignitionCommanded s \<longrightarrow>
       Runtime_state rt \<in> {CS_Preparing, CS_Cranking, CS_Running, CS_AwaitingTakeover}) \<and>
    (as_fault s \<noteq> AF_None \<longrightarrow> \<not> ignitionCommanded s \<and> \<not> starterCommanded s)"
proof -
  have "system_safe p (rt, s, w')"
    using system_run_safe [OF system_start_safe] assms by metis
  then show ?thesis
    by (auto simp: system_safe_iff sup_inv_def sup_off_def outputs_for_def Runtime_state_def)
qed

lemma outputs_never_exceed_state_witness:
  "\<exists>rt s w. system_run sample_platform sample_cranking
      (system_start sample_platform sample_config ActuatorSafetyConfig_default None []) =
        (rt, s, w) \<and> starterCommanded s \<and> Runtime_state rt = CS_Cranking"
proof -
  obtain rt s w where run: "system_run sample_platform sample_cranking
      (system_start sample_platform sample_config ActuatorSafetyConfig_default None []) =
        (rt, s, w)"
    by (metis surj_pair)
  have "starterCommanded (fst (snd (system_run sample_platform sample_cranking
      (system_start sample_platform sample_config ActuatorSafetyConfig_default None []))))"
    by code_simp
  with outputs_never_exceed_state [OF run] run show ?thesis by auto
qed

text \<open>C2: A vehicle that is not qualified is never energised: with a profile found in the shipped
  registry, or with no profile, or with remote start disabled (which is what invalid user settings
  give), no interleaving of events ever leaves the controller elsewhere than idle or fault, and
  the supervisor never commands an output.\<close>

theorem unqualified_vehicle_never_energised:
  assumes "\<not> cc_remoteStartEnabled config \<or> vehicleProfile config = None \<or>
      vehicleProfile config = VehicleProfileRegistry_find profiles_registry i"
    and "system_run p es (system_start p config actuators journal w) = (rt, s, w')"
  shows "Runtime_state rt \<in> {CS_Idle, CS_Fault} \<and> \<not> ignitionCommanded s \<and> \<not> starterCommanded s"
proof -
  have "\<not> cc_remoteStartEnabled config \<or> \<not> ready (c_profileReadiness (mkController config))"
    using assms(1) unqualified_not_ready [of config i] by blast
  then have "system_never_started (system_start p config actuators journal w)"
    by (simp add: system_never_started_def system_start_def mkRuntime_def never_started_def)
  from system_run_never_started [OF this, of p es] assms(2)
  have state: "Runtime_state rt \<in> {CS_Idle, CS_Fault}"
    by (simp add: system_never_started_def never_started_def Runtime_state_def)
  have "system_safe p (rt, s, w')"
    using system_run_safe [OF system_start_safe] assms(2) by metis
  with state show ?thesis
    by (auto simp: system_safe_iff outputs_for_def Runtime_state_def)
qed

lemma unqualified_vehicle_never_energised_witness:
  "\<exists>rt s w. system_run sample_platform sample_cranking
      (system_start sample_platform (ControllerConfig_default
          \<lparr>vehicleProfile := Some e90_2009_n47d20c_automatic\<rparr>)
        ActuatorSafetyConfig_default None []) = (rt, s, w) \<and>
      \<not> ignitionCommanded s \<and> \<not> starterCommanded s"
proof -
  let ?config = "ControllerConfig_default\<lparr>vehicleProfile := Some e90_2009_n47d20c_automatic\<rparr>"
  obtain rt s w where run: "system_run sample_platform sample_cranking
      (system_start sample_platform ?config ActuatorSafetyConfig_default None []) = (rt, s, w)"
    by (metis surj_pair)
  have "vehicleProfile ?config =
      VehicleProfileRegistry_find profiles_registry (Some ''bmw-e90-2009-n47d20c-automatic'')"
    by (simp add: VehicleProfileRegistry_find_def profiles_registry_def
        e90_2009_n47d20c_automatic_def)
  with unqualified_vehicle_never_energised [OF _ run] run show ?thesis by blast
qed

text \<open>The call that engages the starter reaches the driver exactly when it is permitted: the
  supervisor is initialised and without fault, a heartbeat no older than the watchdog was received,
  the last poll granted the hardware permission, ignition is commanded and, when feedback is
  required, confirmed, and the starter is not engaged already.  A refused or failed call is
  answered by releasing the starter and securing the outputs.\<close>

theorem engage_reaches_driver_iff_permitted:
  assumes "supervisor_engageStarter (recording_driver answer) (s, calls) = (ok, s', calls')"
  shows "\<exists>new. calls' = calls @ new \<and>
    (DC_EngageStarter \<in> set new \<longleftrightarrow>
       as_initialized s \<and> as_fault s = AF_None \<and> as_clockInitialized s \<and>
       heartbeatInitialized s \<and> hardwareStartPermitted s \<and>
       as_lastObservedMs s - lastHeartbeatMs s \<le> watchdogTimeoutMs (as_config s) \<and>
       \<not> starterCommanded s \<and> ignitionCommanded s \<and>
       (requireFeedback (as_config s) \<longrightarrow> ignitionFeedbackConfirmed s)) \<and>
    (\<not> ok \<and> as_fault s = AF_None \<longrightarrow>
       (\<exists>before. calls' = before @ [DC_DisengageStarter, DC_SecureOutputs]))"
  using engage_calls [OF assms] engage_refusal_secures [OF assms]
  by (auto simp: engage_permitted_def energize_guard_def)

lemma engage_reaches_driver_iff_permitted_witness:
  "\<exists>ok s' calls'. supervisor_engageStarter (recording_driver (\<lambda>_. False)) sample_cranking_supervisor =
      (ok, s', calls') \<and> \<not> ok \<and> (\<exists>before. calls' = before @ [DC_DisengageStarter, DC_SecureOutputs])"
proof -
  obtain ok s' calls' where call:
    "supervisor_engageStarter (recording_driver (\<lambda>_. False))
       (fst sample_cranking_supervisor, snd sample_cranking_supervisor) = (ok, s', calls')"
    by (metis surj_pair)
  have "\<not> fst (supervisor_engageStarter (recording_driver (\<lambda>_. False)) sample_cranking_supervisor)"
    "as_fault (fst sample_cranking_supervisor) = AF_None"
    by code_simp+
  with engage_reaches_driver_iff_permitted [OF call] call show ?thesis by auto
qed

text \<open>C37: A poll leaves an output commanded only under its conditions: the hardware permission is
  granted by that very poll, the heartbeat is no older than the watchdog and the starter has not
  been engaged for longer than its limit; a poll never energises anything, and the state it
  reports is the supervisor's state.\<close>

theorem poll_keeps_outputs_only_when_safe:
  assumes "supervisor_poll driver now permitted fb (s, e) = (status, s', e')" and "sup_inv s"
  shows "status = supervisor_status s' \<and>
    (ignitionCommanded s' \<longrightarrow> ignitionCommanded s) \<and> (starterCommanded s' \<longrightarrow> starterCommanded s) \<and>
    (ignitionCommanded s' \<or> starterCommanded s' \<longrightarrow>
       permitted \<and> now - lastHeartbeatMs s' \<le> watchdogTimeoutMs (as_config s')) \<and>
    (starterCommanded s' \<longrightarrow> now - starterEngagedAtMs s' \<le> maximumStarterActiveMs (as_config s')) \<and>
    sup_inv s'"
  using poll_step [OF assms] by blast

lemma poll_keeps_outputs_only_when_safe_witness:
  "\<exists>status s' e'. supervisor_poll (recording_driver (\<lambda>_. True)) 50 True (feedback_of True True)
        sample_cranking_supervisor = (status, s', e') \<and>
      starterCommanded s' \<and> 50 - starterEngagedAtMs s' \<le> maximumStarterActiveMs (as_config s')"
proof -
  obtain status s' e' where poll:
    "supervisor_poll (recording_driver (\<lambda>_. True)) 50 True (feedback_of True True)
       (fst sample_cranking_supervisor, snd sample_cranking_supervisor) = (status, s', e')"
    by (metis surj_pair)
  have "starterCommanded (fst (snd (supervisor_poll (recording_driver (\<lambda>_. True)) 50 True
      (feedback_of True True) sample_cranking_supervisor)))"
    by code_simp
  with poll_keeps_outputs_only_when_safe [OF poll sample_cranking_supervisor_inv] poll
  show ?thesis by auto
qed

end
