(* ===== verification/CanCore.thy ===== *)
theory CanCore
  imports BmwPrelude
begin

text \<open>
  The CAN core library (\<^verbatim>\<open>libs/can-core\<close>): frames, the configuration and statistics of a receiver,
  the manifest of a capture, and the bounded queue between the receive task and the application.
  The queue is modelled twice: each operation as a function, and its single loads and stores as a
  step relation in which producer and consumer interleave.  Loads and stores take effect in one
  total order, which is what the acquire and release operations of the code establish between one
  producer and one consumer.
\<close>

section \<open>Frames\<close>

datatype CanDirection = CD_Rx

text \<open>The status of a frame is a set of flags.\<close>

type_synonym CanFrameStatus = u16

definition FS_None :: CanFrameStatus where "FS_None = 0"
definition FS_RemoteFrame :: CanFrameStatus where "FS_RemoteFrame = push_bit 0 1"
definition FS_DlcNonCompliant :: CanFrameStatus where "FS_DlcNonCompliant = push_bit 1 1"
definition FS_ErrorWarning :: CanFrameStatus where "FS_ErrorWarning = push_bit 2 1"
definition FS_ErrorPassive :: CanFrameStatus where "FS_ErrorPassive = push_bit 3 1"
definition FS_BusOff :: CanFrameStatus where "FS_BusOff = push_bit 4 1"
definition FS_PeripheralReset :: CanFrameStatus where "FS_PeripheralReset = push_bit 5 1"

definition joinStatus :: "CanFrameStatus \<Rightarrow> CanFrameStatus \<Rightarrow> CanFrameStatus" where
  "joinStatus left right = or left right"

definition hasStatus :: "CanFrameStatus \<Rightarrow> CanFrameStatus \<Rightarrow> bool" where
  "hasStatus val flag \<longleftrightarrow> and val flag \<noteq> 0"

definition MaximumStandardIdentifier :: u32 where "MaximumStandardIdentifier = 0x7FF"
definition MaximumExtendedIdentifier :: u32 where "MaximumExtendedIdentifier = 0x1FFFFFFF"
definition MaximumDataLength :: u8 where "MaximumDataLength = 8"

record CanFrame =
  cf_timestampUs :: u64
  cf_sequence :: u64
  cf_bitrate :: u32
  cf_identifier :: u32
  cf_channel :: u8
  cf_dataLength :: u8
  cf_extended :: bool
  cf_direction :: CanDirection
  cf_status :: CanFrameStatus
  cf_data :: "u8 list"

definition CanFrame_default :: CanFrame where
  "CanFrame_default =
     \<lparr>cf_timestampUs = 0, cf_sequence = 0, cf_bitrate = 0, cf_identifier = 0, cf_channel = 0,
      cf_dataLength = 0, cf_extended = False, cf_direction = CD_Rx, cf_status = FS_None,
      cf_data = replicate (unat MaximumDataLength) 0\<rparr>"

definition CanFrame_isValid :: "CanFrame \<Rightarrow> bool" where
  "CanFrame_isValid frame \<longleftrightarrow>
     (let maximumIdentifier =
            (if cf_extended frame then MaximumExtendedIdentifier else MaximumStandardIdentifier)
      in cf_dataLength frame \<le> MaximumDataLength \<and> cf_identifier frame \<le> maximumIdentifier \<and>
         cf_direction frame = CD_Rx)"

definition timestampMilliseconds :: "CanFrame \<Rightarrow> u32" where
  "timestampMilliseconds frame = ucast (cf_timestampUs frame div 1000)"

section \<open>The receiver interface\<close>

datatype CanBitrate = BR_Kbit100 | BR_Kbit500 | BR_Unnamed u32

fun bitrateValue :: "CanBitrate \<Rightarrow> u32" where
  "bitrateValue BR_Kbit100 = 100000"
| "bitrateValue BR_Kbit500 = 500000"
| "bitrateValue (BR_Unnamed v) = v"

definition isSupportedBenchBitrate :: "CanBitrate \<Rightarrow> bool" where
  "isSupportedBenchBitrate bitrate \<longleftrightarrow> bitrate = BR_Kbit100 \<or> bitrate = BR_Kbit500"

record CanReceiverConfig =
  rc_bitrate :: CanBitrate
  rc_channel :: u8

definition CanReceiverConfig_default :: CanReceiverConfig where
  "CanReceiverConfig_default = \<lparr>rc_bitrate = BR_Kbit100, rc_channel = 0\<rparr>"

definition CanReceiverConfig_isValid :: "CanReceiverConfig \<Rightarrow> bool" where
  "CanReceiverConfig_isValid config \<longleftrightarrow> isSupportedBenchBitrate (rc_bitrate config)"

record CanReceiveStatistics =
  framesReceived :: u64
  framesQueued :: u64
  framesDequeued :: u64
  softwareQueueOverruns :: u64
  driverQueueMissed :: u64
  driverFifoOverruns :: u64
  busErrors :: u64
  errorWarningTransitions :: u64
  errorPassiveTransitions :: u64
  busOffTransitions :: u64
  peripheralResets :: u64
  lastSequence :: u64
  receiveErrorCounter :: u32
  transmitErrorCounter :: u32
  queuedFrames :: u16
  queueHighWatermark :: u16

definition CanReceiveStatistics_default :: CanReceiveStatistics where
  "CanReceiveStatistics_default =
     \<lparr>framesReceived = 0, framesQueued = 0, framesDequeued = 0, softwareQueueOverruns = 0,
      driverQueueMissed = 0, driverFifoOverruns = 0, busErrors = 0, errorWarningTransitions = 0,
      errorPassiveTransitions = 0, busOffTransitions = 0, peripheralResets = 0, lastSequence = 0,
      receiveErrorCounter = 0, transmitErrorCounter = 0, queuedFrames = 0,
      queueHighWatermark = 0\<rparr>"

datatype CanReceiverState = RS_Stopped | RS_RunningListenOnly | RS_Fault

datatype CanReceiverStartStatus =
  SS_Started | SS_AlreadyRunning | SS_InvalidConfiguration | SS_SafetyRejected
| SS_DriverInstallFailed | SS_DriverStartFailed | SS_TaskStartFailed

section \<open>The manifest of a capture\<close>

definition CaptureFormatVersion :: u16 where "CaptureFormatVersion = 2"

definition CaptureV2CsvHeader :: string where
  "CaptureV2CsvHeader =
     ''timestamp_us,sequence,channel,bitrate,id,extended,dlc,data,direction,status''"

definition TextCapacity :: nat where "TextCapacity = 64"

text \<open>Text in an array is present when it does not begin with the terminator and ends with one.\<close>

definition hasText :: "char list \<Rightarrow> bool" where
  "hasText val \<longleftrightarrow>
     length val > 1 \<and> val ! 0 \<noteq> CHR 0x00 \<and> val ! (length val - 1) = CHR 0x00"

record CaptureSessionManifest =
  cm_formatVersion :: u16
  cm_sessionId :: string
  cm_firmwareVersion :: string
  cm_interfaceName :: string
  cm_configurationId :: string
  cm_vehicleInformation :: string
  cm_bitrate :: u32
  cm_listenOnly :: bool
  cm_statistics :: CanReceiveStatistics

definition CaptureSessionManifest_default :: CaptureSessionManifest where
  "CaptureSessionManifest_default =
     (let blank = replicate TextCapacity (CHR 0x00) in
      \<lparr>cm_formatVersion = CaptureFormatVersion, cm_sessionId = blank, cm_firmwareVersion = blank,
       cm_interfaceName = blank, cm_configurationId = blank, cm_vehicleInformation = blank,
       cm_bitrate = 0, cm_listenOnly = True, cm_statistics = CanReceiveStatistics_default\<rparr>)"

definition CaptureSessionManifest_isValid :: "CaptureSessionManifest \<Rightarrow> bool" where
  "CaptureSessionManifest_isValid m \<longleftrightarrow>
     cm_formatVersion m = CaptureFormatVersion \<and> hasText (cm_sessionId m) \<and>
     hasText (cm_firmwareVersion m) \<and> hasText (cm_interfaceName m) \<and>
     hasText (cm_configurationId m) \<and> hasText (cm_vehicleInformation m) \<and>
     (cm_bitrate m = bitrateValue BR_Kbit100 \<or> cm_bitrate m = bitrateValue BR_Kbit500) \<and>
     cm_listenOnly m"

section \<open>The queue, operation by operation\<close>

record 'a BoundedSpscQueue =
  q_storage :: "'a list"
  q_head :: u64
  q_tail :: u64

definition mkBoundedSpscQueue :: "nat \<Rightarrow> 'a \<Rightarrow> 'a BoundedSpscQueue" where
  "mkBoundedSpscQueue cap blank = \<lparr>q_storage = replicate cap blank, q_head = 0, q_tail = 0\<rparr>"

definition q_capacity :: "'a BoundedSpscQueue \<Rightarrow> nat" where
  "q_capacity q = length (q_storage q)"

definition tryPush :: "'a \<Rightarrow> 'a BoundedSpscQueue \<Rightarrow> bool \<times> 'a BoundedSpscQueue" where
  "tryPush val q =
     (let head = q_head q; tail = q_tail q in
      if unat (head - tail) \<ge> q_capacity q then (False, q)
      else (True, q\<lparr>q_storage := (q_storage q)[unat head mod q_capacity q := val],
                    q_head := head + 1\<rparr>))"

definition tryPop :: "'a BoundedSpscQueue \<Rightarrow> 'a option \<times> 'a BoundedSpscQueue" where
  "tryPop q =
     (let tail = q_tail q; head = q_head q in
      if tail = head then (None, q)
      else (Some (q_storage q ! (unat tail mod q_capacity q)), q\<lparr>q_tail := tail + 1\<rparr>))"

definition q_size :: "'a BoundedSpscQueue \<Rightarrow> nat" where
  "q_size q = unat (q_head q - q_tail q)"

definition q_empty :: "'a BoundedSpscQueue \<Rightarrow> bool" where
  "q_empty q \<longleftrightarrow> q_size q = 0"

definition q_full :: "'a BoundedSpscQueue \<Rightarrow> bool" where
  "q_full q \<longleftrightarrow> q_size q = q_capacity q"

definition q_clear :: "'a BoundedSpscQueue \<Rightarrow> 'a BoundedSpscQueue" where
  "q_clear q = q\<lparr>q_tail := q_head q\<rparr>"

end
