(* ===== verification/SpscQueue.thy ===== *)
theory SpscQueue
  imports CanCore
begin

text \<open>
  The queue between two threads: producer and consumer interleave at every single load and store of
  \<^verbatim>\<open>tryPush\<close> and \<^verbatim>\<open>tryPop\<close>.  The counters are 64-bit words that may wrap: the capacity divides
  \<open>2 ^ 64\<close>, as the capacity of 128 frames used by the receiver does.
\<close>

section \<open>Loads and stores\<close>

text \<open>Where each thread is, with the values its local constants hold.\<close>

datatype 'a producer =
  PR_Idle | PR_HeadLoaded 'a u64 | PR_TailLoaded 'a u64 u64 | PR_Stored 'a u64

datatype 'a consumer =
  CO_Idle | CO_TailLoaded u64 | CO_HeadLoaded u64 u64 | CO_Read 'a u64

text \<open>The values pushed and popped so far are recorded for the statements only.\<close>

record 'a spsc =
  sq :: "'a BoundedSpscQueue"
  producer :: "'a producer"
  consumer :: "'a consumer"
  pushed :: "'a list"
  popped :: "'a list"

definition mkSpsc :: "'a BoundedSpscQueue \<Rightarrow> 'a spsc" where
  "mkSpsc q = \<lparr>sq = q, producer = PR_Idle, consumer = CO_Idle, pushed = [], popped = []\<rparr>"

inductive spsc_step :: "'a spsc \<Rightarrow> 'a spsc \<Rightarrow> bool" where
  push_loads_head:
    "producer s = PR_Idle \<Longrightarrow> spsc_step s (s\<lparr>producer := PR_HeadLoaded v (q_head (sq s))\<rparr>)"
| push_loads_tail:
    "producer s = PR_HeadLoaded v head \<Longrightarrow>
       spsc_step s (s\<lparr>producer := PR_TailLoaded v head (q_tail (sq s))\<rparr>)"
| push_refused:
    "producer s = PR_TailLoaded v head tail \<Longrightarrow> unat (head - tail) \<ge> q_capacity (sq s) \<Longrightarrow>
       spsc_step s (s\<lparr>producer := PR_Idle\<rparr>)"
| push_stores:
    "producer s = PR_TailLoaded v head tail \<Longrightarrow> \<not> unat (head - tail) \<ge> q_capacity (sq s) \<Longrightarrow>
       spsc_step s (s\<lparr>producer := PR_Stored v head,
         sq := (sq s)\<lparr>q_storage := (q_storage (sq s))[unat head mod q_capacity (sq s) := v]\<rparr>\<rparr>)"
| push_publishes:
    "producer s = PR_Stored v head \<Longrightarrow>
       spsc_step s (s\<lparr>producer := PR_Idle, sq := (sq s)\<lparr>q_head := head + 1\<rparr>,
         pushed := pushed s @ [v]\<rparr>)"
| pop_loads_tail:
    "consumer s = CO_Idle \<Longrightarrow> spsc_step s (s\<lparr>consumer := CO_TailLoaded (q_tail (sq s))\<rparr>)"
| pop_loads_head:
    "consumer s = CO_TailLoaded tail \<Longrightarrow>
       spsc_step s (s\<lparr>consumer := CO_HeadLoaded tail (q_head (sq s))\<rparr>)"
| pop_refused:
    "consumer s = CO_HeadLoaded tail head \<Longrightarrow> tail = head \<Longrightarrow>
       spsc_step s (s\<lparr>consumer := CO_Idle\<rparr>)"
| pop_reads:
    "consumer s = CO_HeadLoaded tail head \<Longrightarrow> tail \<noteq> head \<Longrightarrow>
       spsc_step s (s\<lparr>consumer :=
         CO_Read (q_storage (sq s) ! (unat tail mod q_capacity (sq s))) tail\<rparr>)"
| pop_releases:
    "consumer s = CO_Read v tail \<Longrightarrow>
       spsc_step s (s\<lparr>consumer := CO_Idle, sq := (sq s)\<lparr>q_tail := tail + 1\<rparr>,
         popped := popped s @ [v]\<rparr>)"

inductive spsc_reachable :: "'a BoundedSpscQueue \<Rightarrow> 'a spsc \<Rightarrow> bool" for q where
  start: "spsc_reachable q (mkSpsc q)"
| step: "spsc_reachable q s \<Longrightarrow> spsc_step s s' \<Longrightarrow> spsc_reachable q s'"

section \<open>The contents\<close>

definition capacity_ok :: "'a BoundedSpscQueue \<Rightarrow> bool" where
  "capacity_ok q \<longleftrightarrow> 0 < q_capacity q \<and> q_capacity q dvd 2 ^ 64 \<and> q_capacity q < 2 ^ 64"

definition pending :: "'a BoundedSpscQueue \<Rightarrow> 'a list" where
  "pending q = map (\<lambda>i. q_storage q ! ((unat (q_tail q) + i) mod q_capacity q)) [0..<q_size q]"

lemma capacity_simps [simp]:
  "q_capacity (q\<lparr>q_head := h\<rparr>) = q_capacity q"
  "q_capacity (q\<lparr>q_tail := t\<rparr>) = q_capacity q"
  "q_capacity (q\<lparr>q_storage := (q_storage q)[i := v]\<rparr>) = q_capacity q"
  by (simp_all add: q_capacity_def)

lemma capacity_ok_simps [simp]:
  "capacity_ok (q\<lparr>q_head := h\<rparr>) = capacity_ok q"
  "capacity_ok (q\<lparr>q_tail := t\<rparr>) = capacity_ok q"
  "capacity_ok (q\<lparr>q_storage := (q_storage q)[i := v]\<rparr>) = capacity_ok q"
  by (simp_all add: capacity_ok_def)

lemma length_pending [simp]: "length (pending q) = q_size q"
  by (simp add: pending_def)

text \<open>A counter that wraps still selects the next slot.\<close>

lemma slot_of_counter:
  assumes "capacity_ok q"
  shows "unat (t + of_nat i :: u64) mod q_capacity q = (unat t + i) mod q_capacity q"
proof -
  have "unat (t + of_nat i) = (unat t + i) mod 2 ^ 64"
    by (simp add: unat_word_ariths unat_of_nat mod_simps)
  with assms show ?thesis by (simp add: capacity_ok_def mod_mod_cancel)
qed

lemma head_slot:
  assumes "capacity_ok q"
  shows "unat (q_head q) mod q_capacity q = (unat (q_tail q) + q_size q) mod q_capacity q"
proof -
  have "q_head q = q_tail q + of_nat (q_size q)" by (simp add: q_size_def)
  then show ?thesis using slot_of_counter [OF assms, of "q_tail q" "q_size q"] by simp
qed

lemma mod_inj:
  fixes c :: nat
  assumes "(a + i) mod c = (a + j) mod c" and "i < c" and "j < c"
  shows "i = j"
proof -
  obtain m n where "i + c * m = j + c * n" using assms(1) by (auto simp: nat_mod_eq_iff)
  then have "(i + c * m) mod c = (j + c * n) mod c" by simp
  then have "i mod c = j mod c" by simp
  with assms(2,3) show ?thesis by simp
qed

text \<open>The free slot at the head is no pending slot.\<close>

lemma head_slot_free:
  assumes "capacity_ok q" and "q_size q < q_capacity q" and "i < q_size q"
  shows "(unat (q_tail q) + i) mod q_capacity q \<noteq> unat (q_head q) mod q_capacity q"
  using mod_inj [of "unat (q_tail q)" i "q_capacity q" "q_size q"] assms head_slot [OF assms(1)]
  by auto

lemma pending_store:
  assumes "capacity_ok q" and "q_size q < q_capacity q"
  shows "pending (q\<lparr>q_storage := (q_storage q)[unat (q_head q) mod q_capacity q := v]\<rparr>) = pending q"
  using head_slot_free [OF assms, THEN not_sym] by (auto simp: pending_def q_size_def)

lemma size_publish:
  assumes "capacity_ok q" and "q_size q < q_capacity q"
  shows "q_size (q\<lparr>q_head := q_head q + 1\<rparr>) = q_size q + 1"
proof -
  have "unat (q_head q - q_tail q) + 1 < 2 ^ 64"
    using assms by (simp add: capacity_ok_def q_size_def)
  then have "unat (q_head q - q_tail q + 1) = unat (q_head q - q_tail q) + 1"
    by (simp add: unat_word_ariths)
  then show ?thesis by (simp add: q_size_def algebra_simps)
qed

lemma pending_publish:
  assumes "capacity_ok q" and "q_size q < q_capacity q"
    and "q_storage q ! (unat (q_head q) mod q_capacity q) = v"
  shows "pending (q\<lparr>q_head := q_head q + 1\<rparr>) = pending q @ [v]"
  using size_publish [OF assms(1,2)] assms(3) head_slot [OF assms(1)]
  by (simp add: pending_def)

lemma size_release:
  assumes "0 < q_size q"
  shows "q_size q = q_size (q\<lparr>q_tail := q_tail q + 1\<rparr>) + 1"
proof -
  have "q_head q - q_tail q \<noteq> 0" using assms by (auto simp: q_size_def)
  then have "unat (q_head q - q_tail q - 1) + 1 = unat (q_head q - q_tail q)"
    using assms by (simp add: unat_minus_one q_size_def)
  then show ?thesis by (simp add: q_size_def algebra_simps)
qed

lemma pending_release:
  assumes "capacity_ok q" and "0 < q_size q"
  shows "pending q = q_storage q ! (unat (q_tail q) mod q_capacity q) #
    pending (q\<lparr>q_tail := q_tail q + 1\<rparr>)"
proof -
  have "(unat (q_tail q + 1) + i) mod q_capacity q = (unat (q_tail q) + Suc i) mod q_capacity q" for i
    using slot_of_counter [OF assms(1), of "q_tail q" 1]
    by (metis (no_types, opaque_lifting) Suc_eq_plus1 add.assoc add.commute mod_add_left_eq
        of_nat_1)
  then show ?thesis
    unfolding pending_def size_release [OF assms(2)]
    by (simp add: upt_conv_Cons map_Suc_upt [symmetric] del: upt_Suc)
qed


section \<open>The invariant\<close>

definition producer_inv :: "'a spsc \<Rightarrow> bool" where
  "producer_inv s \<longleftrightarrow> (let q = sq s in
     case producer s of
       PR_Idle \<Rightarrow> True
     | PR_HeadLoaded v head \<Rightarrow> head = q_head q
     | PR_TailLoaded v head tail \<Rightarrow> head = q_head q \<and> q_size q \<le> unat (head - tail)
     | PR_Stored v head \<Rightarrow> head = q_head q \<and> q_size q < q_capacity q \<and>
         q_storage q ! (unat head mod q_capacity q) = v)"

definition consumer_inv :: "'a spsc \<Rightarrow> bool" where
  "consumer_inv s \<longleftrightarrow> (let q = sq s in
     case consumer s of
       CO_Idle \<Rightarrow> True
     | CO_TailLoaded tail \<Rightarrow> tail = q_tail q
     | CO_HeadLoaded tail head \<Rightarrow> tail = q_tail q \<and> (tail \<noteq> head \<longrightarrow> 0 < q_size q)
     | CO_Read v tail \<Rightarrow> tail = q_tail q \<and> 0 < q_size q \<and>
         v = q_storage q ! (unat tail mod q_capacity q))"

definition spsc_inv :: "'a spsc \<Rightarrow> bool" where
  "spsc_inv s \<longleftrightarrow> capacity_ok (sq s) \<and> q_size (sq s) \<le> q_capacity (sq s) \<and>
     pushed s = popped s @ pending (sq s) \<and> producer_inv s \<and> consumer_inv s"

lemmas spsc_inv_defs = spsc_inv_def producer_inv_def consumer_inv_def Let_def

lemma size_loaded: "q_size q = unat (q_head q - q_tail q)"
  by (simp add: q_size_def)

lemma size_store [simp]: "q_size (q\<lparr>q_storage := b\<rparr>) = q_size q"
  by (simp add: q_size_def)

lemma spsc_inv_step:
  assumes "spsc_step s s'" and "spsc_inv s"
  shows "spsc_inv s'"
  using assms
proof (cases rule: spsc_step.cases)
  case (push_stores v head tail)
  let ?q = "sq s"
  let ?q' = "?q\<lparr>q_storage := (q_storage ?q)[unat head mod q_capacity ?q := v]\<rparr>"
  have q: "capacity_ok ?q" "q_size ?q < q_capacity ?q" "head = q_head ?q"
    using assms(2) push_stores by (auto simp: spsc_inv_defs)
  have slot: "unat head mod q_capacity ?q < length (q_storage ?q)"
    using q(1) by (simp add: capacity_ok_def q_capacity_def)
  have free: "unat (q_tail ?q) mod q_capacity ?q \<noteq> unat head mod q_capacity ?q"
    if "0 < q_size ?q"
    using head_slot_free [OF q(1,2) that] q(3) by simp
  have "consumer_inv s'"
    using assms(2) free push_stores(1) by (auto simp: spsc_inv_defs split: consumer.splits)
  moreover have "producer_inv s'"
    using push_stores(1) q slot by (simp add: producer_inv_def)
  ultimately show ?thesis
    using assms(2) push_stores(1) q pending_store [OF q(1,2), of v]
    by (simp add: spsc_inv_def)
next
  case (push_publishes v head)
  let ?q = "sq s"
  have q: "capacity_ok ?q" "q_size ?q < q_capacity ?q" "head = q_head ?q"
    "q_storage ?q ! (unat (q_head ?q) mod q_capacity ?q) = v"
    using assms(2) push_publishes by (auto simp: spsc_inv_defs)
  have "consumer_inv s'"
    using assms(2) push_publishes(1) q size_publish [OF q(1,2)]
    by (auto simp: spsc_inv_defs split: consumer.splits)
  moreover have "producer_inv s'" using push_publishes(1) by (simp add: producer_inv_def)
  ultimately show ?thesis
    using assms(2) push_publishes(1) q pending_publish [OF q(1,2,4)] size_publish [OF q(1,2)]
    by (simp add: spsc_inv_def)
next
  case (pop_releases v tail)
  let ?q = "sq s"
  have q: "capacity_ok ?q" "0 < q_size ?q" "tail = q_tail ?q"
    "v = q_storage ?q ! (unat (q_tail ?q) mod q_capacity ?q)"
    using assms(2) pop_releases by (auto simp: spsc_inv_defs)
  have "producer_inv s'"
    using assms(2) pop_releases(1) q size_release [OF q(2)]
    by (auto simp: spsc_inv_defs split: producer.splits)
  moreover have "consumer_inv s'" using pop_releases(1) by (simp add: consumer_inv_def)
  ultimately show ?thesis
    using assms(2) pop_releases(1) q pending_release [OF q(1,2)] size_release [OF q(2)]
    by (simp add: spsc_inv_def)
qed (auto simp: spsc_inv_defs size_loaded unat_gt_0)

lemma spsc_inv_start:
  "capacity_ok q \<Longrightarrow> q_head q = q_tail q \<Longrightarrow> spsc_inv (mkSpsc q)"
  by (simp add: spsc_inv_defs mkSpsc_def pending_def q_size_def)

lemma spsc_inv_reachable:
  "spsc_reachable q s \<Longrightarrow> capacity_ok q \<Longrightarrow> q_head q = q_tail q \<Longrightarrow> spsc_inv s"
  by (induction rule: spsc_reachable.induct) (auto intro: spsc_inv_start spsc_inv_step)

section \<open>Whole operations\<close>

text \<open>The steps of one thread from idle to idle.\<close>

lemma push_run:
  assumes "producer s = PR_Idle" and "tryPush v (sq s) = (ok, q')"
  shows "spsc_step\<^sup>*\<^sup>* s (s\<lparr>sq := q', pushed := pushed s @ (if ok then [v] else [])\<rparr>)"
proof -
  let ?s1 = "s\<lparr>producer := PR_HeadLoaded v (q_head (sq s))\<rparr>"
  let ?s2 = "s\<lparr>producer := PR_TailLoaded v (q_head (sq s)) (q_tail (sq s))\<rparr>"
  have "spsc_step s ?s1" using assms(1) by (rule push_loads_head)
  moreover have "spsc_step ?s1 ?s2" using push_loads_tail [of ?s1] by simp
  ultimately have start: "spsc_step\<^sup>*\<^sup>* s ?s2" by simp
  have id: "s\<lparr>producer := PR_Idle\<rparr> = s" using assms(1) by simp
  show ?thesis
  proof (cases ok)
    case False
    then have "spsc_step ?s2 (s\<lparr>producer := PR_Idle\<rparr>)" "q' = sq s"
      using push_refused [of ?s2] assms(2) by (auto simp: tryPush_def Let_def split: if_splits)
    with start False show ?thesis by (simp add: id)
  next
    case True
    let ?q = "(sq s)\<lparr>q_storage := (q_storage (sq s))[unat (q_head (sq s)) mod q_capacity (sq s) := v]\<rparr>"
    let ?s3 = "s\<lparr>producer := PR_Stored v (q_head (sq s)), sq := ?q\<rparr>"
    have "spsc_step ?s2 ?s3" "q' = ?q\<lparr>q_head := q_head (sq s) + 1\<rparr>"
      using push_stores [of ?s2] assms(2) True by (auto simp: tryPush_def Let_def split: if_splits)
    moreover have "spsc_step ?s3 (s\<lparr>producer := PR_Idle, sq := ?q\<lparr>q_head := q_head (sq s) + 1\<rparr>,
        pushed := pushed s @ [v]\<rparr>)"
      using push_publishes [of ?s3] by simp
    ultimately show ?thesis using start True id by simp
  qed
qed

lemma pop_run:
  assumes "consumer s = CO_Idle" and "tryPop (sq s) = (out, q')"
  shows "spsc_step\<^sup>*\<^sup>* s
    (s\<lparr>sq := q', popped := popped s @ (case out of None \<Rightarrow> [] | Some x \<Rightarrow> [x])\<rparr>)"
proof -
  let ?s1 = "s\<lparr>consumer := CO_TailLoaded (q_tail (sq s))\<rparr>"
  let ?s2 = "s\<lparr>consumer := CO_HeadLoaded (q_tail (sq s)) (q_head (sq s))\<rparr>"
  have "spsc_step s ?s1" using assms(1) by (rule pop_loads_tail)
  moreover have "spsc_step ?s1 ?s2" using pop_loads_head [of ?s1] by simp
  ultimately have start: "spsc_step\<^sup>*\<^sup>* s ?s2" by simp
  have id: "s\<lparr>consumer := CO_Idle\<rparr> = s" using assms(1) by simp
  show ?thesis
  proof (cases out)
    case None
    then have "spsc_step ?s2 (s\<lparr>consumer := CO_Idle\<rparr>)" "q' = sq s"
      using pop_refused [of ?s2] assms(2) by (auto simp: tryPop_def Let_def split: if_splits)
    with start None show ?thesis by (simp add: id)
  next
    case (Some x)
    let ?s3 = "s\<lparr>consumer := CO_Read x (q_tail (sq s))\<rparr>"
    have "spsc_step ?s2 ?s3" "q' = (sq s)\<lparr>q_tail := q_tail (sq s) + 1\<rparr>"
      using pop_reads [of ?s2] assms(2) Some by (auto simp: tryPop_def Let_def split: if_splits)
    moreover have "spsc_step ?s3 (s\<lparr>consumer := CO_Idle, sq := (sq s)\<lparr>q_tail := q_tail (sq s) + 1\<rparr>,
        popped := popped s @ [x]\<rparr>)"
      using pop_releases [of ?s3] by simp
    ultimately show ?thesis using start Some id by simp
  qed
qed

text \<open>What they do to the pending values.\<close>

lemma push_pending:
  assumes "capacity_ok q" and "q_size q \<le> q_capacity q" and "tryPush v q = (ok, q')"
  shows "ok = (q_size q < q_capacity q) \<and> pending q' = pending q @ (if ok then [v] else []) \<and>
    q_size q' \<le> q_capacity q'"
proof (cases "q_size q < q_capacity q")
  case True
  let ?q = "q\<lparr>q_storage := (q_storage q)[unat (q_head q) mod q_capacity q := v]\<rparr>"
  have "ok" "q' = ?q\<lparr>q_head := q_head ?q + 1\<rparr>"
    using True assms(3) by (auto simp: tryPush_def Let_def q_size_def)
  moreover have "q_storage ?q ! (unat (q_head ?q) mod q_capacity ?q) = v"
    using assms(1) by (simp add: capacity_ok_def) (simp add: q_capacity_def)
  ultimately show ?thesis
    using True assms(1) pending_publish [of ?q v] pending_store [OF assms(1) True, of v]
      size_publish [of ?q] by simp
qed (use assms in \<open>auto simp: tryPush_def Let_def q_size_def\<close>)

lemma pop_pending:
  assumes "capacity_ok q" and "q_size q \<le> q_capacity q" and "tryPop q = (out, q')"
  shows "(case out of None \<Rightarrow> pending q = [] \<and> q' = q | Some x \<Rightarrow> pending q = x # pending q') \<and>
    q_size q' \<le> q_capacity q'"
proof (cases "q_tail q = q_head q")
  case False
  then have "0 < q_size q" by (simp add: q_size_def unat_gt_0)
  from pending_release [OF assms(1) this] size_release [OF this] False assms(2,3)
  show ?thesis by (auto simp: tryPop_def Let_def)
qed (use assms in \<open>auto simp: tryPop_def Let_def pending_def q_size_def\<close>)

section \<open>Properties\<close>

text \<open>C25: The queue is a queue under every interleaving of its two threads: what has been pushed is
  what has been popped followed by what is pending, in order, nothing lost, repeated or invented;
  it never holds more than its capacity; a push finds it full only when it is; and the producer
  never writes the slot the consumer is about to read.\<close>

theorem queue_fifo_interleaved:
  assumes "spsc_reachable q s" and "capacity_ok q" and "q_head q = q_tail q"
  shows "pushed s = popped s @ pending (sq s) \<and> length (pending (sq s)) \<le> q_capacity (sq s) \<and>
    (\<forall>v head. producer s = PR_HeadLoaded v head \<and>
       unat (head - q_tail (sq s)) \<ge> q_capacity (sq s) \<longrightarrow> q_full (sq s)) \<and>
    (\<forall>v head tail tail' head'. producer s = PR_TailLoaded v head tail \<and>
       unat (head - tail) < q_capacity (sq s) \<and>
       consumer s = CO_HeadLoaded tail' head' \<and> tail' \<noteq> head' \<longrightarrow>
       unat head mod q_capacity (sq s) \<noteq> unat tail' mod q_capacity (sq s))"
proof -
  have inv: "spsc_inv s" using spsc_inv_reachable assms .
  have "unat head mod q_capacity (sq s) \<noteq> unat tail' mod q_capacity (sq s)"
    if "producer s = PR_TailLoaded v head tail" "unat (head - tail) < q_capacity (sq s)"
      "consumer s = CO_HeadLoaded tail' head'" "tail' \<noteq> head'" for v head tail tail' head'
    using inv that head_slot_free [of "sq s" 0] by (auto simp: spsc_inv_defs)
  then show ?thesis using inv by (auto simp: spsc_inv_defs q_full_def q_size_def)
qed

lemma queue_fifo_interleaved_witness:
  "\<exists>s. spsc_reachable (mkBoundedSpscQueue 2 (0 :: nat)) s \<and> pushed s = [7] \<and>
     pushed s = popped s @ pending (sq s)"
proof -
  let ?q = "mkBoundedSpscQueue 2 (0 :: nat)"
  have "\<exists>s. spsc_reachable ?q s \<and> pushed s = [7]"
    by (rule exI, rule conjI, rule spsc_reachable.step, rule spsc_reachable.step,
        rule spsc_reachable.step, rule spsc_reachable.step, rule spsc_reachable.start,
        rule spsc_step.push_loads_head [where v = 7], simp add: mkSpsc_def,
        rule spsc_step.push_loads_tail, simp, rule spsc_step.push_stores, simp,
        simp add: mkBoundedSpscQueue_def mkSpsc_def q_capacity_def,
        rule spsc_step.push_publishes, simp, simp add: mkSpsc_def)
  then obtain s where s: "spsc_reachable ?q s" "pushed s = [7]" by blast
  have "capacity_ok ?q" "q_head ?q = q_tail ?q"
    by (simp_all add: capacity_ok_def q_capacity_def mkBoundedSpscQueue_def)
  with queue_fifo_interleaved [OF s(1)] s show ?thesis by blast
qed


text \<open>Each operation of the queue, run without interruption, is a run of its single loads and
  stores, and does to the pending values what the same operation does to a bounded list: a push
  appends unless the list is full, a pop takes the oldest unless the list is empty, a clear
  empties it, across the wrap of the counters.\<close>

theorem queue_operations_refine:
  assumes "capacity_ok q" and "q_size q \<le> q_capacity q" and "sq s = q"
    and "producer s = PR_Idle" and "consumer s = CO_Idle"
  shows "(case tryPush v q of (ok, q') \<Rightarrow>
      spsc_step\<^sup>*\<^sup>* s (s\<lparr>sq := q', pushed := pushed s @ (if ok then [v] else [])\<rparr>) \<and>
      ok = (length (pending q) < q_capacity q) \<and>
      pending q' = pending q @ (if ok then [v] else []) \<and> q_size q' \<le> q_capacity q') \<and>
    (case tryPop q of (out, q') \<Rightarrow>
      spsc_step\<^sup>*\<^sup>* s (s\<lparr>sq := q', popped := popped s @ (case out of None \<Rightarrow> [] | Some x \<Rightarrow> [x])\<rparr>) \<and>
      (case out of None \<Rightarrow> pending q = [] \<and> q' = q | Some x \<Rightarrow> pending q = x # pending q') \<and>
      q_size q' \<le> q_capacity q') \<and>
    pending (q_clear q) = [] \<and> q_empty q = (pending q = []) \<and>
    q_full q = (length (pending q) = q_capacity q)"
proof (intro conjI)
  show "case tryPush v q of (ok, q') \<Rightarrow>
      spsc_step\<^sup>*\<^sup>* s (s\<lparr>sq := q', pushed := pushed s @ (if ok then [v] else [])\<rparr>) \<and>
      ok = (length (pending q) < q_capacity q) \<and>
      pending q' = pending q @ (if ok then [v] else []) \<and> q_size q' \<le> q_capacity q'"
    using push_run [of s v] push_pending [OF assms(1,2), of v] assms(3,4)
    by (auto split: prod.splits)
  show "case tryPop q of (out, q') \<Rightarrow>
      spsc_step\<^sup>*\<^sup>* s (s\<lparr>sq := q', popped := popped s @ (case out of None \<Rightarrow> [] | Some x \<Rightarrow> [x])\<rparr>) \<and>
      (case out of None \<Rightarrow> pending q = [] \<and> q' = q | Some x \<Rightarrow> pending q = x # pending q') \<and>
      q_size q' \<le> q_capacity q'"
    using pop_run [of s] pop_pending [OF assms(1,2)] assms(3,5)
    by (auto split: prod.splits)
qed (auto simp: q_clear_def q_empty_def q_full_def pending_def q_size_def)


lemma queue_operations_refine_witness:
  "tryPush 7 (mkBoundedSpscQueue 2 (0 :: nat)) =
      (True, \<lparr>q_storage = [7, 0], q_head = 1, q_tail = 0\<rparr>) \<and>
   pending \<lparr>q_storage = [7, 0 :: nat], q_head = 1, q_tail = 0\<rparr> = [7]"
proof -
  let ?q = "mkBoundedSpscQueue 2 (0 :: nat)"
  have q: "capacity_ok ?q" "q_size ?q \<le> q_capacity ?q" "pending ?q = []"
    by (simp_all add: capacity_ok_def q_capacity_def mkBoundedSpscQueue_def q_size_def pending_def)
  have push: "tryPush 7 ?q = (True, \<lparr>q_storage = [7, 0], q_head = 1, q_tail = 0\<rparr>)"
    by (simp add: tryPush_def Let_def mkBoundedSpscQueue_def q_capacity_def numeral_2_eq_2)
  have "sq (mkSpsc ?q) = ?q" "producer (mkSpsc ?q) = PR_Idle" "consumer (mkSpsc ?q) = CO_Idle"
    by (simp_all add: mkSpsc_def)
  from queue_operations_refine [OF q(1,2) this, of 7] push q(3) show ?thesis by simp
qed

end
