(* ===== verification/Checksum.thy ===== *)
theory Checksum
  imports BmwPrelude
begin

text \<open>
  The reflected CRC-32 of \<^verbatim>\<open>infrastructure/crc32.cpp\<close>, computed bit by bit as the code does, and
  why it is used: every damage confined to four consecutive bytes changes it.  The settings records
  and the protocol frames both end with this checksum in little-endian order.
\<close>

section \<open>The computation\<close>

text \<open>One turn of the inner loop, one turn of the outer loop, and the function.\<close>

definition crc_bit :: "u32 \<Rightarrow> u32" where
  "crc_bit crc =
     (let mask = 0 - (crc AND 1) in drop_bit 1 crc XOR (0xEDB88320 AND mask))"

definition crc_byte :: "u8 \<Rightarrow> u32 \<Rightarrow> u32" where
  "crc_byte b crc = (crc_bit ^^ 8) (crc XOR ucast b)"

definition crc32 :: "u8 list \<Rightarrow> nat \<Rightarrow> u32" where
  "crc32 data sz = fold (\<lambda>index. crc_byte (data ! index)) [0..<sz] 0xFFFFFFFF XOR 0xFFFFFFFF"

lemma crc_byte_eight:
  "crc_byte b crc = crc_bit (crc_bit (crc_bit (crc_bit (crc_bit (crc_bit (crc_bit (crc_bit
     (crc XOR ucast b))))))))"
  by (simp add: crc_byte_def numeral_eq_Suc)

lemma crc_mask: "0 - (c AND 1 :: u32) = (if bit c 0 then - 1 else 0)"
  by (simp add: and_one_eq mod_2_eq_odd bit_0)

lemma crc_bit_if:
  "crc_bit crc = (if bit crc 0 then drop_bit 1 crc XOR 0xEDB88320 else drop_bit 1 crc)"
  unfolding crc_bit_def Let_def crc_mask by simp

text \<open>The usual check value: the checksum of the digits one to nine.\<close>

lemma crc32_check_value:
  "crc32 [0x31, 0x32, 0x33, 0x34, 0x35, 0x36, 0x37, 0x38, 0x39] 9 = 0xCBF43926"
  by (simp add: crc32_def crc_byte_eight crc_bit_if upt_rec)

definition crc_state :: "u8 list \<Rightarrow> u32 \<Rightarrow> u32" where
  "crc_state bytes crc = fold crc_byte bytes crc"

lemma crc_state_simps [simp]:
  "crc_state [] crc = crc"
  "crc_state (b # bs) crc = crc_state bs (crc_byte b crc)"
  "crc_state (xs @ ys) crc = crc_state ys (crc_state xs crc)"
  by (simp_all add: crc_state_def)

lemma crc32_state:
  assumes "sz \<le> length data"
  shows "crc32 data sz = crc_state (take sz data) 0xFFFFFFFF XOR 0xFFFFFFFF"
proof -
  have "take sz data = map ((!) data) [0..<sz]"
    using assms by (simp add: take_map [symmetric] map_nth take_upt list_eq_iff_nth_eq)
  then show ?thesis by (simp add: crc32_def crc_state_def fold_map comp_def)
qed

lemma crc32_cong:
  "take sz data = take sz data' \<Longrightarrow> sz \<le> length data \<Longrightarrow> sz \<le> length data' \<Longrightarrow>
     crc32 data sz = crc32 data' sz"
  by (simp add: crc32_state)

section \<open>The shift register is linear and injective\<close>

lemma bit_crc_bit:
  "bit (crc_bit c) n \<longleftrightarrow> (bit c (Suc n) \<noteq> (bit c 0 \<and> bit (0xEDB88320 :: u32) n))"
  unfolding crc_bit_def Let_def crc_mask by (auto simp: bit_xor_iff bit_and_iff bit_drop_bit_eq)

lemma crc_bit_xor: "crc_bit (a XOR b) = crc_bit a XOR crc_bit b"
  by (rule bit_word_eqI) (auto simp: bit_crc_bit bit_xor_iff)

lemma crc_bit_inj: "inj crc_bit"
proof (rule injI)
  fix a b assume eq: "crc_bit a = crc_bit b"
  have bits: "bit a (Suc n) \<noteq> (bit a 0 \<and> bit (0xEDB88320 :: u32) n) \<longleftrightarrow>
      bit b (Suc n) \<noteq> (bit b 0 \<and> bit (0xEDB88320 :: u32) n)" for n
    using arg_cong [OF eq, of "\<lambda>c. bit c n"] by (simp add: bit_crc_bit)
  have top: "bit (0xEDB88320 :: u32) 31" by code_simp
  have "\<not> bit a 32" "\<not> bit b 32" by (auto dest: bit_imp_le_length)
  with bits [of 31] top have zero: "bit a 0 = bit b 0" by simp
  show "a = b"
  proof (rule bit_word_eqI)
    fix n show "bit a n = bit b n"
    proof (cases n)
      case (Suc m)
      with bits [of m] zero show ?thesis by auto
    qed (use zero in simp)
  qed
qed

lemma crc_steps_xor: "(crc_bit ^^ n) (a XOR b) = (crc_bit ^^ n) a XOR (crc_bit ^^ n) b"
  by (induction n) (simp_all add: crc_bit_xor)

lemma crc_steps_inj: "inj (crc_bit ^^ n)"
  using crc_bit_inj by (rule inj_fn)

lemma bit_push_one: "bit (push_bit (Suc 0) x :: u32) n \<longleftrightarrow> 1 \<le> n \<and> n < 32 \<and> bit x (n - 1)"
  by (simp only: bit_push_bit_iff possible_bit_word) auto

lemma crc_bit_push: "\<not> bit x 31 \<Longrightarrow> crc_bit (push_bit (Suc 0) x) = x"
proof (rule bit_word_eqI)
  fix n assume x: "\<not> bit x 31" and n: "n < LENGTH(32)"
  have "bit (crc_bit (push_bit (Suc 0) x)) n \<longleftrightarrow> n < 31 \<and> bit x n"
    unfolding bit_crc_bit bit_push_one by auto
  with x n show "bit (crc_bit (push_bit (Suc 0) x)) n \<longleftrightarrow> bit x n"
    by (cases "n = 31") auto
qed

text \<open>A byte that enters above the register reaches its low end after the shifts of the bytes
  before it.\<close>

lemma crc_steps_push:
  "(\<And>i. 32 - n \<le> i \<Longrightarrow> \<not> bit x i) \<Longrightarrow> n \<le> 32 \<Longrightarrow> (crc_bit ^^ n) (push_bit n x) = x"
proof (induction n arbitrary: x)
  case (Suc n)
  let ?y = "push_bit (Suc 0) x"
  have low: "\<not> bit ?y i" if "32 - n \<le> i" for i
    unfolding bit_push_one using Suc.prems that by auto
  have top: "\<not> bit x 31" using Suc.prems by simp
  have "(crc_bit ^^ n) (push_bit n ?y) = ?y"
    using Suc.prems(2) by (intro Suc.IH low) simp_all
  then have "(crc_bit ^^ n) (push_bit (Suc n) x) = ?y"
    by (simp only: push_bit_push_bit add_Suc_right add_0_right)
  then have "(crc_bit ^^ Suc n) (push_bit (Suc n) x) = crc_bit ?y"
    by (simp only: funpow.simps comp_apply)
  with crc_bit_push [OF top] show ?case by (simp only:)
qed simp

lemma crc_byte_word:
  fixes b :: u8
  assumes "n \<le> 24"
  shows "(crc_bit ^^ n) x XOR ucast b = (crc_bit ^^ n) (x XOR push_bit n (ucast b))"
proof -
  have "(crc_bit ^^ n) (push_bit n (ucast b :: u32)) = ucast b"
    using assms by (intro crc_steps_push) (auto simp: bit_ucast_iff dest: bit_imp_le_length)
  then show ?thesis by (simp only: crc_steps_xor)
qed

lemma crc_four_bytes:
  "crc_state [a, b, c, d] crc =
     (crc_bit ^^ 32) (crc XOR (ucast a OR push_bit 8 (ucast b) OR push_bit 16 (ucast c) OR
        push_bit 24 (ucast d)))"
proof -
  have or_xor: "(ucast a OR push_bit 8 (ucast b) OR push_bit 16 (ucast c) OR
        push_bit 24 (ucast d) :: u32) =
      ucast a XOR push_bit 8 (ucast b) XOR push_bit 16 (ucast c) XOR push_bit 24 (ucast d)"
    by (rule bit_word_eqI)
      (auto simp: bit_or_iff bit_xor_iff bit_push_bit_iff bit_ucast_iff dest: bit_imp_le_length)
  have step: "crc_byte v ((crc_bit ^^ n) x) = (crc_bit ^^ (8 + n)) (x XOR push_bit n (ucast v))"
    if "n \<le> 24" for n x v
    using crc_byte_word [OF that, of x v] by (simp add: crc_byte_def funpow_add)
  have first: "crc_byte a crc = (crc_bit ^^ 8) (crc XOR ucast a)"
    by (simp add: crc_byte_def)
  have "crc_byte d (crc_byte c (crc_byte b (crc_byte a crc))) =
      (crc_bit ^^ 32) (crc XOR ucast a XOR push_bit 8 (ucast b) XOR push_bit 16 (ucast c) XOR
        push_bit 24 (ucast d))"
    unfolding first by (simp add: step xor.assoc)
  then show ?thesis by (simp add: or_xor xor.assoc)
qed

section \<open>Sealed byte sequences\<close>

text \<open>
  Both formats end with the checksum of what precedes it.  Running the register over the whole
  sequence, checksum included, gives a constant exactly when the checksum is right.
\<close>

definition sealed :: "u8 list \<Rightarrow> bool" where
  "sealed r \<longleftrightarrow> 4 \<le> length r \<and> readU32 r (length r - 4) = crc32 r (length r - 4)"

definition crc_residue :: u32 where
  "crc_residue = (crc_bit ^^ 32) 0xFFFFFFFF"

lemma length_four:
  assumes "length x = 4"
  obtains a b c d where "x = [a, b, c, d]"
proof -
  from assms have "length x = Suc (Suc (Suc (Suc 0)))" by simp
  then have "\<exists>a b c d. x = [a, b, c, d]"
    unfolding length_Suc_conv length_0_conv by auto
  then show ?thesis using that by blast
qed

lemma four_last:
  assumes "4 \<le> length r"
  obtains m a b c d where "r = m @ [a, b, c, d]"
proof -
  have "length (drop (length r - 4) r) = 4" using assms by simp
  then obtain a b c d where "drop (length r - 4) r = [a, b, c, d]" by (rule length_four)
  then have "r = take (length r - 4) r @ [a, b, c, d]" by (metis append_take_drop_id)
  then show ?thesis by (rule that)
qed

lemma xor_cancel: "a XOR x = a XOR y \<longleftrightarrow> x = (y :: u32)"
proof
  assume eq: "a XOR x = a XOR y"
  show "x = y"
  proof (rule bit_word_eqI)
    fix n show "bit x n = bit y n"
      using arg_cong [OF eq, of "\<lambda>w. bit w n"] by (auto simp: bit_xor_iff)
  qed
qed simp

lemma xor_move: "w = s XOR k \<longleftrightarrow> s XOR w = (k :: u32)"
proof -
  have "s XOR (s XOR k) = k" by (rule bit_word_eqI) (auto simp: bit_xor_iff)
  with xor_cancel [of s w "s XOR k"] show ?thesis by simp
qed

lemma sealed_iff_residue:
  assumes "4 \<le> length r"
  shows "sealed r \<longleftrightarrow> crc_state r 0xFFFFFFFF = crc_residue"
proof -
  from assms obtain m a b c d where r: "r = m @ [a, b, c, d]" by (rule four_last)
  let ?s = "crc_state m 0xFFFFFFFF"
  let ?w = "ucast a OR push_bit 8 (ucast b) OR push_bit 16 (ucast c) OR push_bit 24 (ucast d) :: u32"
  have "crc_state r 0xFFFFFFFF = crc_state [a, b, c, d] ?s"
    by (simp only: r crc_state_simps(3))
  then have state: "crc_state r 0xFFFFFFFF = (crc_bit ^^ 32) (?s XOR ?w)"
    by (simp only: crc_four_bytes)
  have "readU32 r (length r - 4) = ?w"
    by (simp add: r readU32_def nth_append)
  moreover have "crc32 r (length r - 4) = ?s XOR 0xFFFFFFFF"
    by (simp add: r crc32_state)
  ultimately have "sealed r \<longleftrightarrow> ?w = ?s XOR 0xFFFFFFFF"
    using assms by (simp add: sealed_def)
  also have "\<dots> \<longleftrightarrow> ?s XOR ?w = 0xFFFFFFFF"
    by (rule xor_move)
  also have "\<dots> \<longleftrightarrow> crc_state r 0xFFFFFFFF = crc_residue"
    unfolding state crc_residue_def by (rule inj_eq [OF crc_steps_inj, symmetric])
  finally show ?thesis .
qed

text \<open>Damage confined to four consecutive bytes.\<close>

definition burst_damage :: "u8 list \<Rightarrow> u8 list \<Rightarrow> bool" where
  "burst_damage r r' \<longleftrightarrow> length r = length r' \<and> r \<noteq> r' \<and>
     (\<exists>k \<le> length r - 4. take k r = take k r' \<and> drop (k + 4) r = drop (k + 4) r')"

lemma crc_byte_inj: "crc_byte b s = crc_byte b s' \<Longrightarrow> s = s'"
  unfolding crc_byte_def by (drule injD [OF crc_steps_inj]) (simp only: xor.commute [of _ "ucast b"] xor_cancel)

lemma crc_state_inj: "crc_state bs s = crc_state bs s' \<Longrightarrow> s = s'"
  by (induction bs arbitrary: s s') (auto dest: crc_byte_inj)

lemma crc_window:
  assumes "length x = 4" "length y = 4" "crc_state x s = crc_state y s"
  shows "x = y"
proof -
  obtain a b c d where x: "x = [a, b, c, d]" using assms(1) by (rule length_four)
  obtain a' b' c' d' where y: "y = [a', b', c', d']" using assms(2) by (rule length_four)
  let ?w = "\<lambda>a b c d :: u8. ucast a OR push_bit 8 (ucast b) OR push_bit 16 (ucast c) OR
     push_bit 24 (ucast d) :: u32"
  have "s XOR ?w a b c d = s XOR ?w a' b' c' d'"
    using assms(3) unfolding x y crc_four_bytes by (rule injD [OF crc_steps_inj])
  then have "?w a b c d = ?w a' b' c' d'"
    unfolding xor_cancel .
  with u32_bytes [of a b c d] u32_bytes [of a' b' c' d'] show ?thesis
    by (simp only: x y)
qed

lemma burst_split:
  assumes "burst_damage r r'" and "4 \<le> length r"
  obtains p x y q where "r = p @ x @ q" "r' = p @ y @ q" "length x = 4" "length y = 4" "x \<noteq> y"
proof -
  have len: "length r = length r'" and neq: "r \<noteq> r'" using assms(1) by (auto simp: burst_damage_def)
  obtain k where k: "k \<le> length r - 4" "take k r = take k r'" "drop (k + 4) r = drop (k + 4) r'"
    using assms(1) unfolding burst_damage_def by blast
  have split: "take k t @ take 4 (drop k t) @ drop (k + 4) t = t" for t :: "u8 list"
    using append_take_drop_id [of 4 "drop k t"] by (simp add: add.commute)
  show ?thesis
  proof (rule that)
    show "r = take k r @ take 4 (drop k r) @ drop (k + 4) r" by (rule split [symmetric])
    show "r' = take k r @ take 4 (drop k r') @ drop (k + 4) r"
      unfolding k(2,3) by (rule split [symmetric])
    show "length (take 4 (drop k r)) = 4" "length (take 4 (drop k r')) = 4"
      using k(1) assms(2) len by auto
    show "take 4 (drop k r) \<noteq> take 4 (drop k r')"
      using split [of r] split [of r'] neq unfolding k(2,3) by metis
  qed
qed

lemma burst_breaks_seal:
  assumes "sealed r" and "burst_damage r r'"
  shows "\<not> sealed r'"
proof
  assume "sealed r'"
  have len: "4 \<le> length r" "4 \<le> length r'"
    using assms(1) \<open>sealed r'\<close> unfolding sealed_def by blast+
  obtain p x y q where r: "r = p @ x @ q" and r': "r' = p @ y @ q"
    and xy: "length x = 4" "length y = 4" "x \<noteq> y"
    using assms(2) len(1) by (rule burst_split)
  have "crc_state r 0xFFFFFFFF = crc_state r' 0xFFFFFFFF"
    using assms(1) \<open>sealed r'\<close> sealed_iff_residue [OF len(1)] sealed_iff_residue [OF len(2)]
    by simp
  then have "crc_state x (crc_state p 0xFFFFFFFF) = crc_state y (crc_state p 0xFFFFFFFF)"
    unfolding r r' crc_state_simps by (rule crc_state_inj)
  with crc_window [OF xy(1,2)] xy(3) show False by blast
qed

end
