(* ===== verification/SettingsPayload.thy ===== *)
theory SettingsPayload
  imports UserSettings Checksum
begin

text \<open>
  The forty-byte image of the user's settings (\<^verbatim>\<open>infrastructure/settings_payload.cpp\<close>) and the
  twelve-byte identity of the device (\<^verbatim>\<open>infrastructure/settings_identity.cpp\<close>).  A
  \<^verbatim>\<open>std::array\<close> is a list of its length; an output parameter is passed in and returned.
\<close>

section \<open>Bytes written in order\<close>

text \<open>Writing back what was read extends the prefix on which two buffers agree.\<close>

lemma take_update:
  "take off b = take off p \<Longrightarrow> off < length b \<Longrightarrow> off < length p \<Longrightarrow>
     take (Suc off) (b[off := p ! off]) = take (Suc off) p"
  by (simp add: take_Suc_conv_app_nth)

lemma writeU16_readU16:
  "writeU16 b off (readU16 p off) = b[off := p ! off, Suc off := p ! Suc off]"
  unfolding writeU16_def readU16_def u16_bytes by simp

lemma writeU32_readU32:
  "writeU32 b off (readU32 p off) =
     b[off := p ! off, Suc off := p ! Suc off, Suc (Suc off) := p ! Suc (Suc off),
       Suc (Suc (Suc off)) := p ! Suc (Suc (Suc off))]"
  unfolding writeU32_def readU32_def u32_bytes by (simp add: eval_nat_numeral)

lemma u64_halves:
  fixes a b :: u32
  defines "w \<equiv> (ucast a :: u64) OR push_bit 32 (ucast b :: u64)"
  shows "ucast (w AND 0xFFFFFFFF) = a" "ucast (drop_bit 32 w) = b"
  unfolding w_def and_FFFFFFFF_u64
  by (rule bit_word_eqI; auto simp: bit_simps dest: bit_imp_le_length)+

lemma writeU64_readU64:
  "writeU64 b off (readU64 p off) =
     writeU32 (writeU32 b off (readU32 p off)) (off + 4) (readU32 p (off + 4))"
  unfolding writeU64_def readU64_def u64_halves ..

lemma take_writeU16:
  "take off b = take off p \<Longrightarrow> off + 2 \<le> length b \<Longrightarrow> length p = length b \<Longrightarrow>
     take (off + 2) (writeU16 b off (readU16 p off)) = take (off + 2) p"
  unfolding writeU16_readU16 by (simp add: take_update)

lemma take_writeU32:
  "take off b = take off p \<Longrightarrow> off + 4 \<le> length b \<Longrightarrow> length p = length b \<Longrightarrow>
     take (off + 4) (writeU32 b off (readU32 p off)) = take (off + 4) p"
  unfolding writeU32_readU32 by (simp add: take_update numeral_eq_Suc)

lemma take_writeU64:
  assumes "take off b = take off p" "off + 8 \<le> length b" "length p = length b"
  shows "take (off + 8) (writeU64 b off (readU64 p off)) = take (off + 8) p"
  using take_writeU32 [of "off + 4" "writeU32 b off (readU32 p off)" p] take_writeU32 [of off b p]
    assms
  by (simp add: writeU64_readU64 add.assoc)

section \<open>The settings payload\<close>

definition UserSettingsPayloadSize :: nat where
  "UserSettingsPayloadSize = 40"

type_synonym UserSettingsPayload = "u8 list"

definition blank_payload :: UserSettingsPayload where
  "blank_payload = replicate UserSettingsPayloadSize 0"

text \<open>The casts between the two enumerations and their underlying byte.\<close>

fun HoodMonitoringMode_byte :: "HoodMonitoringMode \<Rightarrow> u8" where
  "HoodMonitoringMode_byte HM_Required = 0"
| "HoodMonitoringMode_byte HM_Disabled = 1"
| "HoodMonitoringMode_byte (HM_Unnamed b) = b"

definition HoodMonitoringMode_of :: "u8 \<Rightarrow> HoodMonitoringMode" where
  "HoodMonitoringMode_of b =
     (if b = 0 then HM_Required else if b = 1 then HM_Disabled else HM_Unnamed b)"

fun DriverEntryMode_byte :: "DriverEntryMode \<Rightarrow> u8" where
  "DriverEntryMode_byte DE_RequireTakeover = 0"
| "DriverEntryMode_byte DE_StopImmediately = 1"
| "DriverEntryMode_byte (DE_Unnamed b) = b"

definition DriverEntryMode_of :: "u8 \<Rightarrow> DriverEntryMode" where
  "DriverEntryMode_of b =
     (if b = 0 then DE_RequireTakeover else if b = 1 then DE_StopImmediately else DE_Unnamed b)"

definition encodeUserSettingsPayload ::
    "UserSettings \<Rightarrow> UserSettingsPayload \<Rightarrow> bool \<times> UserSettingsPayload" where
  "encodeUserSettingsPayload settings payload =
     (if \<not> UserSettingsValidation_valid (validateUserSettings settings) then (False, payload)
      else
       (let p = blank_payload;
            p = p[0 := if us_remoteStartEnabled settings then 1 else 0];
            p = p[1 := HoodMonitoringMode_byte (us_hoodMonitoring settings)];
            p = p[2 := DriverEntryMode_byte (us_driverEntryMode settings)];
            p = p[3 := us_lockPressCount settings];
            p = writeU32 p 4 (us_maximumRemoteRunTimeMs settings);
            p = writeU32 p 8 (us_driverTakeoverTimeoutMs settings);
            p = writeU32 p 12 (us_lockMinimumGapMs settings);
            p = writeU32 p 16 (us_lockMaximumGapMs settings);
            p = writeU32 p 20 (us_lockMaximumSequenceMs settings);
            p = writeU64 p 24 (fr_mask (us_features settings));
            p = writeU16 p 32 (us_coldEngineMaximumRpm settings);
            p = writeU16 p 34 (us_engineWarmTemperatureC settings);
            p = writeU16 p 36 (us_transmissionOverheatTemperatureC settings);
            p = writeU16 p 38 (us_temperatureAlertHysteresisC settings)
        in (True, p)))"

definition decoded_payload :: "UserSettingsPayload \<Rightarrow> UserSettings" where
  "decoded_payload payload =
     \<lparr>us_remoteStartEnabled = (payload ! 0 = 1),
      us_hoodMonitoring = HoodMonitoringMode_of (payload ! 1),
      us_driverEntryMode = DriverEntryMode_of (payload ! 2),
      us_maximumRemoteRunTimeMs = readU32 payload 4,
      us_driverTakeoverTimeoutMs = readU32 payload 8,
      us_lockPressCount = payload ! 3,
      us_lockMinimumGapMs = readU32 payload 12,
      us_lockMaximumGapMs = readU32 payload 16,
      us_lockMaximumSequenceMs = readU32 payload 20,
      us_features = \<lparr>fr_mask = readU64 payload 24\<rparr>,
      us_coldEngineMaximumRpm = readU16 payload 32,
      us_engineWarmTemperatureC = readU16 payload 34,
      us_transmissionOverheatTemperatureC = readU16 payload 36,
      us_temperatureAlertHysteresisC = readU16 payload 38\<rparr>"

definition decodeUserSettingsPayload ::
    "UserSettingsPayload \<Rightarrow> nat \<Rightarrow> UserSettings \<Rightarrow> bool \<times> UserSettings" where
  "decodeUserSettingsPayload payload payloadSize settings =
     (if payloadSize \<noteq> UserSettingsPayloadSize then (False, settings)
      else if payload ! 0 > 1 then (False, settings)
      else
       (let decoded = decoded_payload payload in
        if \<not> UserSettingsValidation_valid (validateUserSettings decoded) then (False, settings)
        else (True, decoded)))"

definition userSettingsEqual :: "UserSettings \<Rightarrow> UserSettings \<Rightarrow> bool" where
  "userSettingsEqual left right \<longleftrightarrow>
     us_remoteStartEnabled left = us_remoteStartEnabled right \<and>
     us_hoodMonitoring left = us_hoodMonitoring right \<and>
     us_driverEntryMode left = us_driverEntryMode right \<and>
     us_maximumRemoteRunTimeMs left = us_maximumRemoteRunTimeMs right \<and>
     us_driverTakeoverTimeoutMs left = us_driverTakeoverTimeoutMs right \<and>
     us_lockPressCount left = us_lockPressCount right \<and>
     us_lockMinimumGapMs left = us_lockMinimumGapMs right \<and>
     us_lockMaximumGapMs left = us_lockMaximumGapMs right \<and>
     us_lockMaximumSequenceMs left = us_lockMaximumSequenceMs right \<and>
     fr_mask (us_features left) = fr_mask (us_features right) \<and>
     us_coldEngineMaximumRpm left = us_coldEngineMaximumRpm right \<and>
     us_engineWarmTemperatureC left = us_engineWarmTemperatureC right \<and>
     us_transmissionOverheatTemperatureC left = us_transmissionOverheatTemperatureC right \<and>
     us_temperatureAlertHysteresisC left = us_temperatureAlertHysteresisC right"

section \<open>The device identity\<close>

datatype SettingsHardwareTarget =
  HT_Unspecified | HT_Esp32S3DevKitC1 | HT_HostSimulation | HT_Unnamed u8

fun SettingsHardwareTarget_byte :: "SettingsHardwareTarget \<Rightarrow> u8" where
  "SettingsHardwareTarget_byte HT_Unspecified = 0"
| "SettingsHardwareTarget_byte HT_Esp32S3DevKitC1 = 1"
| "SettingsHardwareTarget_byte HT_HostSimulation = 0xFE"
| "SettingsHardwareTarget_byte (HT_Unnamed b) = b"

definition SettingsHardwareTarget_of :: "u8 \<Rightarrow> SettingsHardwareTarget" where
  "SettingsHardwareTarget_of b =
     (if b = 0 then HT_Unspecified else if b = 1 then HT_Esp32S3DevKitC1
      else if b = 0xFE then HT_HostSimulation else HT_Unnamed b)"

datatype SettingsDeviceCapability = SC_SettingsRead | SC_SettingsWrite | SC_PersistentSettings

fun capabilityMask :: "SettingsDeviceCapability \<Rightarrow> u32" where
  "capabilityMask SC_SettingsRead = push_bit 0 1"
| "capabilityMask SC_SettingsWrite = push_bit 1 1"
| "capabilityMask SC_PersistentSettings = push_bit 2 1"

definition FirmwareVersionMajor :: u8 where "FirmwareVersionMajor = 0"
definition FirmwareVersionMinor :: u8 where "FirmwareVersionMinor = 3"
definition FirmwareVersionPatch :: u8 where "FirmwareVersionPatch = 0"

record SettingsDeviceIdentity =
  hardwareTarget :: SettingsHardwareTarget
  firmwareMajor :: u8
  firmwareMinor :: u8
  firmwarePatch :: u8
  capabilities :: u32

definition hasCapability :: "SettingsDeviceIdentity \<Rightarrow> SettingsDeviceCapability \<Rightarrow> bool" where
  "hasCapability identity capability \<longleftrightarrow> capabilities identity AND capabilityMask capability \<noteq> 0"

definition settingsPrototypeIdentity :: "SettingsHardwareTarget \<Rightarrow> SettingsDeviceIdentity" where
  "settingsPrototypeIdentity target =
     \<lparr>hardwareTarget = target, firmwareMajor = FirmwareVersionMajor,
      firmwareMinor = FirmwareVersionMinor, firmwarePatch = FirmwareVersionPatch,
      capabilities = capabilityMask SC_SettingsRead OR capabilityMask SC_SettingsWrite OR
        capabilityMask SC_PersistentSettings\<rparr>"

definition SettingsDeviceIdentityPayloadSize :: nat where
  "SettingsDeviceIdentityPayloadSize = 12"

text \<open>The letters E9RC.\<close>

definition SettingsDeviceProductSignature :: "u8 list" where
  "SettingsDeviceProductSignature = [0x45, 0x39, 0x52, 0x43]"

definition encodeSettingsDeviceIdentity ::
    "SettingsDeviceIdentity \<Rightarrow> UserSettingsPayload \<Rightarrow> bool \<times> UserSettingsPayload" where
  "encodeSettingsDeviceIdentity identity payload =
     (let p = blit (replicate (length payload) 0) 0 SettingsDeviceProductSignature;
          p = p[4 := SettingsHardwareTarget_byte (hardwareTarget identity)];
          p = p[5 := firmwareMajor identity];
          p = p[6 := firmwareMinor identity];
          p = p[7 := firmwarePatch identity]
      in (True, writeU32 p 8 (capabilities identity)))"

definition decodeSettingsDeviceIdentity ::
    "UserSettingsPayload \<Rightarrow> nat \<Rightarrow> SettingsDeviceIdentity \<Rightarrow> bool \<times> SettingsDeviceIdentity" where
  "decodeSettingsDeviceIdentity payload payloadSize identity =
     (if payloadSize \<noteq> SettingsDeviceIdentityPayloadSize then (False, identity)
      else if take (length SettingsDeviceProductSignature) payload \<noteq> SettingsDeviceProductSignature
      then (False, identity)
      else (True,
        \<lparr>hardwareTarget = SettingsHardwareTarget_of (payload ! 4), firmwareMajor = payload ! 5,
         firmwareMinor = payload ! 6, firmwarePatch = payload ! 7,
         capabilities = readU32 payload 8\<rparr>))"

fun SettingsHardwareTarget_toString :: "SettingsHardwareTarget \<Rightarrow> string" where
  "SettingsHardwareTarget_toString HT_Unspecified = ''unspecified''"
| "SettingsHardwareTarget_toString HT_Esp32S3DevKitC1 = ''esp32-s3-devkitc-1''"
| "SettingsHardwareTarget_toString HT_HostSimulation = ''host-simulation''"
| "SettingsHardwareTarget_toString (HT_Unnamed b) = ''unknown''"

section \<open>Encoding and decoding are inverse\<close>

lemma mode_bytes [simp]:
  "HoodMonitoringMode_byte (HoodMonitoringMode_of b) = b"
  "DriverEntryMode_byte (DriverEntryMode_of b) = b"
  "SettingsHardwareTarget_byte (SettingsHardwareTarget_of b) = b"
  by (simp_all add: HoodMonitoringMode_of_def DriverEntryMode_of_def SettingsHardwareTarget_of_def)

lemma mode_of_bytes:
  "m \<in> {HM_Required, HM_Disabled} \<Longrightarrow> HoodMonitoringMode_of (HoodMonitoringMode_byte m) = m"
  "d \<in> {DE_RequireTakeover, DE_StopImmediately} \<Longrightarrow> DriverEntryMode_of (DriverEntryMode_byte d) = d"
  by (auto simp: HoodMonitoringMode_of_def DriverEntryMode_of_def)

lemma encode_invalid:
  "\<not> settings_in_range s \<Longrightarrow> encodeUserSettingsPayload s p = (False, p)"
  by (simp add: encodeUserSettingsPayload_def valid_settings_iff)

text \<open>The image of valid settings, and the settings it decodes to.\<close>

definition payload_image :: "UserSettings \<Rightarrow> UserSettingsPayload" where
  "payload_image s = snd (encodeUserSettingsPayload s blank_payload)"

lemma encode_valid:
  "settings_in_range s \<Longrightarrow> encodeUserSettingsPayload s p = (True, payload_image s)"
  by (simp add: payload_image_def encodeUserSettingsPayload_def valid_settings_iff)

lemma length_payload_image [simp]: "length (payload_image s) = 40"
  by (simp add: payload_image_def encodeUserSettingsPayload_def blank_payload_def Let_def
      UserSettingsPayloadSize_def)

lemma payload_fields:
  assumes "settings_in_range s"
  shows "payload_image s ! 0 = (if us_remoteStartEnabled s then 1 else 0)"
    "payload_image s ! 1 = HoodMonitoringMode_byte (us_hoodMonitoring s)"
    "payload_image s ! 2 = DriverEntryMode_byte (us_driverEntryMode s)"
    "payload_image s ! 3 = us_lockPressCount s"
    "readU32 (payload_image s) 4 = us_maximumRemoteRunTimeMs s"
    "readU32 (payload_image s) 8 = us_driverTakeoverTimeoutMs s"
    "readU32 (payload_image s) 12 = us_lockMinimumGapMs s"
    "readU32 (payload_image s) 16 = us_lockMaximumGapMs s"
    "readU32 (payload_image s) 20 = us_lockMaximumSequenceMs s"
    "readU64 (payload_image s) 24 = fr_mask (us_features s)"
    "readU16 (payload_image s) 32 = us_coldEngineMaximumRpm s"
    "readU16 (payload_image s) 34 = us_engineWarmTemperatureC s"
    "readU16 (payload_image s) 36 = us_transmissionOverheatTemperatureC s"
    "readU16 (payload_image s) 38 = us_temperatureAlertHysteresisC s"
  using assms
  by (simp_all add: payload_image_def encodeUserSettingsPayload_def valid_settings_iff Let_def
      blank_payload_def UserSettingsPayloadSize_def wire_simps)

lemma decoded_payload_image:
  assumes "settings_in_range s"
  shows "decoded_payload (payload_image s) = s"
proof -
  have "us_hoodMonitoring s \<in> {HM_Required, HM_Disabled}"
    "us_driverEntryMode s \<in> {DE_RequireTakeover, DE_StopImmediately}"
    using assms by (simp_all add: settings_in_range_def)
  then show ?thesis
    by (simp add: decoded_payload_def payload_fields [OF assms] mode_of_bytes del: One_nat_def)
qed

lemma decode_payload_image:
  assumes "settings_in_range s"
  shows "decodeUserSettingsPayload (payload_image s) 40 before = (True, s)"
  using assms
  by (simp add: decodeUserSettingsPayload_def UserSettingsPayloadSize_def decoded_payload_image
      valid_settings_iff payload_fields(1))

text \<open>A payload that decodes is the image of the settings it decodes to.\<close>

lemma decode_cases:
  assumes "decodeUserSettingsPayload p n before = (ok, s)"
  shows "(ok \<and> n = 40 \<and> p ! 0 \<le> 1 \<and> s = decoded_payload p \<and> settings_in_range s) \<or>
    (\<not> ok \<and> s = before)"
  using assms
  by (auto simp: decodeUserSettingsPayload_def UserSettingsPayloadSize_def Let_def
      valid_settings_iff not_less split: if_splits)

lemma byte_le_one: "(b :: u8) \<le> 1 \<Longrightarrow> b = 0 \<or> b = 1"
  by (auto simp: word_le_nat_alt word_unat_eq_iff le_Suc_eq)

lemma payload_image_decoded:
  assumes "length p = 40" and "p ! 0 \<le> 1" and "settings_in_range (decoded_payload p)"
  shows "payload_image (decoded_payload p) = p"
proof -
  have flag: "(if p ! 0 = 1 then 1 else 0) = p ! 0"
    using byte_le_one [OF assms(2)] by auto
  define b1 where "b1 = (replicate 40 0)[0 := p ! 0, 1 := p ! 1, 2 := p ! 2, 3 := p ! 3]"
  define b2 where "b2 = writeU32 (writeU32 (writeU32 (writeU32 (writeU32 b1 4 (readU32 p 4))
      8 (readU32 p 8)) 12 (readU32 p 12)) 16 (readU32 p 16)) 20 (readU32 p 20)"
  define b3 where "b3 = writeU64 b2 24 (readU64 p 24)"
  define b4 where "b4 = writeU16 (writeU16 (writeU16 (writeU16 b3 32 (readU16 p 32))
      34 (readU16 p 34)) 36 (readU16 p 36)) 38 (readU16 p 38)"
  have len: "length b1 = 40" "length b2 = 40" "length b3 = 40" "length b4 = 40"
    by (simp_all add: b1_def b2_def b3_def b4_def)
  have "take 4 b1 = take 4 p"
  proof -
    have "take (Suc (Suc (Suc (Suc 0)))) p = [p ! 0, p ! 1, p ! 2, p ! 3]"
      using assms(1) by (simp add: take_Suc_conv_app_nth eval_nat_numeral)
    then show ?thesis by (simp add: b1_def eval_nat_numeral)
  qed
  from take_writeU32 [OF this] have "take 24 b2 = take 24 p"
    unfolding b2_def using assms(1) len(1)
    by (simp add: take_writeU32 [where off = 8, simplified] take_writeU32 [where off = 12, simplified]
        take_writeU32 [where off = 16, simplified] take_writeU32 [where off = 20, simplified])
  from take_writeU64 [OF this] have "take 32 b3 = take 32 p"
    unfolding b3_def using assms(1) len(2) by simp
  from take_writeU16 [OF this] have "take 34 (writeU16 b3 32 (readU16 p 32)) = take 34 p"
    using assms(1) len(3) by simp
  then have "take (38 + 2) b4 = take (38 + 2) p"
    unfolding b4_def
    by (intro take_writeU16)
      (use assms(1) len(3) in \<open>simp_all add: take_writeU16 [where off = 34, simplified]
        take_writeU16 [where off = 36, simplified]\<close>)
  then have "b4 = p" using assms(1) len(4) by simp
  then show ?thesis
    using assms(3)
    by (simp add: payload_image_def encodeUserSettingsPayload_def valid_settings_iff Let_def
        blank_payload_def UserSettingsPayloadSize_def decoded_payload_def flag b1_def b2_def b3_def
        b4_def cong: if_cong)
qed

lemma userSettingsEqual_iff: "userSettingsEqual a b \<longleftrightarrow> a = b"
  by (cases a; cases b; cases "us_features a"; cases "us_features b")
    (auto simp: userSettingsEqual_def)

section \<open>Properties\<close>

text \<open>Settings and payloads correspond one to one: exactly the valid settings are encoded, into
  forty bytes that decode to the same settings, invalid settings leave the buffer alone, and every
  payload that decodes is the encoding of the settings it decodes to, which are valid.\<close>

theorem payload_round_trip:
  "(case encodeUserSettingsPayload s p of (ok, img) \<Rightarrow>
      (ok \<longleftrightarrow> settings_in_range s) \<and>
      (if ok then length img = 40 \<and> decodeUserSettingsPayload img 40 before = (True, s)
       else img = p)) \<and>
   (case decodeUserSettingsPayload p n before of (ok, decoded) \<Rightarrow>
      if ok \<and> length p = 40
      then n = 40 \<and> settings_in_range decoded \<and> encodeUserSettingsPayload decoded q = (True, p)
      else ok \<or> decoded = before)"
proof -
  obtain ok decoded where d: "decodeUserSettingsPayload p n before = (ok, decoded)" by fastforce
  have "n = 40 \<and> settings_in_range decoded \<and> encodeUserSettingsPayload decoded q = (True, p)"
    if "ok" "length p = 40"
    using decode_cases [OF d] that by (auto simp: encode_valid payload_image_decoded)
  moreover have "ok \<or> decoded = before" using decode_cases [OF d] by blast
  ultimately show ?thesis
    by (cases "settings_in_range s") (auto simp: d encode_valid encode_invalid decode_payload_image)
qed

end
