(* ===== verification/SettingsStorage.thy ===== *)
theory SettingsStorage
  imports SettingsPayload
begin

text \<open>
  The redundant store of the user's settings (\<^verbatim>\<open>infrastructure/settings_storage.hpp/.cpp\<close>): two
  slots of a byte storage, each holding a record with a generation and a checksum.  The byte storage
  is a port: a record of functions over an environment, with the laws the store relies on in the
  locale \<open>byte_storage\<close>.
\<close>

section \<open>Ports\<close>

record 'e SettingsByteStorage =
  bs_capacity :: "'e \<Rightarrow> nat"
  bs_read :: "nat \<Rightarrow> nat \<Rightarrow> 'e \<Rightarrow> u8 list option \<times> 'e"
  bs_write :: "nat \<Rightarrow> u8 list \<Rightarrow> 'e \<Rightarrow> bool \<times> 'e"
  bs_commit :: "'e \<Rightarrow> bool \<times> 'e"

record 'e UserSettingsStore =
  store_load :: "UserSettings \<Rightarrow> 'e \<Rightarrow> (bool \<times> UserSettings) \<times> 'e"
  store_save :: "UserSettings \<Rightarrow> 'e \<Rightarrow> bool \<times> 'e"

section \<open>Records\<close>

definition SchemaVersion :: u16 where "SchemaVersion = 1"
definition SlotSize :: nat where "SlotSize = 64"
definition SlotCount :: nat where "SlotCount = 2"
definition RequiredCapacity :: nat where "RequiredCapacity = SlotSize * SlotCount"
definition RecordSize :: nat where "RecordSize = 56"

text \<open>The letters BMRC, and the offsets of the fields.\<close>

definition StorageMagic :: "u8 list" where
  "StorageMagic = [0x42, 0x4D, 0x52, 0x43]"

definition ST_VersionOffset :: nat where "ST_VersionOffset = 4"
definition ST_PayloadSizeOffset :: nat where "ST_PayloadSizeOffset = 6"
definition ST_GenerationOffset :: nat where "ST_GenerationOffset = 8"
definition ST_PayloadOffset :: nat where "ST_PayloadOffset = 12"
definition ST_CrcOffset :: nat where "ST_CrcOffset = ST_PayloadOffset + UserSettingsPayloadSize"

lemmas storage_layout =
  SchemaVersion_def SlotSize_def SlotCount_def RequiredCapacity_def RecordSize_def
  ST_VersionOffset_def ST_PayloadSizeOffset_def ST_GenerationOffset_def
  ST_PayloadOffset_def ST_CrcOffset_def UserSettingsPayloadSize_def

record DecodedRecord =
  dr_settings :: UserSettings
  dr_generation :: u32
  dr_valid :: bool

definition DecodedRecord_default :: DecodedRecord where
  "DecodedRecord_default =
     \<lparr>dr_settings = UserSettings_default, dr_generation = 0, dr_valid = False\<rparr>"

definition encodeRecord :: "UserSettings \<Rightarrow> u32 \<Rightarrow> bool \<times> u8 list" where
  "encodeRecord settings generation =
     (let r = replicate RecordSize 0xFF;
          r = blit r 0 StorageMagic;
          r = writeU16 r ST_VersionOffset SchemaVersion;
          r = writeU16 r ST_PayloadSizeOffset (of_nat UserSettingsPayloadSize);
          r = writeU32 r ST_GenerationOffset generation;
          (encoded, payload) = encodeUserSettingsPayload settings blank_payload
      in if \<not> encoded then (False, r)
         else
          (let r = blit r ST_PayloadOffset payload
           in (True, writeU32 r ST_CrcOffset (crc32 r ST_CrcOffset))))"

definition decodeRecord :: "u8 list \<Rightarrow> DecodedRecord" where
  "decodeRecord r =
     (if take (length StorageMagic) r \<noteq> StorageMagic then DecodedRecord_default
      else
       (let version = readU16 r ST_VersionOffset;
            storedPayloadSize = unat (readU16 r ST_PayloadSizeOffset);
            supportedVersion =
              (version = SchemaVersion \<and> storedPayloadSize = UserSettingsPayloadSize);
            storedCrcOffset = ST_PayloadOffset + storedPayloadSize
        in
        if \<not> supportedVersion \<or> storedCrcOffset + 4 > length r \<or>
          readU32 r storedCrcOffset \<noteq> crc32 r storedCrcOffset
        then DecodedRecord_default
        else
         (let payload = blit blank_payload 0 (take storedPayloadSize (drop ST_PayloadOffset r));
              (decoded, settings) =
                decodeUserSettingsPayload payload storedPayloadSize UserSettings_default
          in if \<not> decoded then DecodedRecord_default
             else \<lparr>dr_settings = settings, dr_generation = readU32 r ST_GenerationOffset,
                    dr_valid = True\<rparr>)))"

definition generationIsNewer :: "u32 \<Rightarrow> u32 \<Rightarrow> bool" where
  "generationIsNewer candidate reference \<longleftrightarrow> sint (candidate - reference) > 0"

definition readRecord ::
    "'e SettingsByteStorage \<Rightarrow> nat \<Rightarrow> 'e \<Rightarrow> (bool \<times> DecodedRecord) \<times> 'e" where
  "readRecord storage slot e =
     (case bs_read storage (slot * SlotSize) RecordSize e of
        (None, e) \<Rightarrow> ((False, DecodedRecord_default), e)
      | (Some bytes, e) \<Rightarrow> ((True, decodeRecord bytes), e))"

section \<open>The store\<close>

definition JournaledUserSettingsStore_load ::
    "'e SettingsByteStorage \<Rightarrow> UserSettings \<Rightarrow> 'e \<Rightarrow> (bool \<times> UserSettings) \<times> 'e" where
  "JournaledUserSettingsStore_load storage settings e =
     (if bs_capacity storage e < RequiredCapacity then ((False, settings), e)
      else
       (let ((firstReadable, first), e) = readRecord storage 0 e;
            ((secondReadable, second), e) = readRecord storage 1 e
        in
        if (\<not> firstReadable \<or> \<not> dr_valid first) \<and> (\<not> secondReadable \<or> \<not> dr_valid second)
        then ((False, settings), e)
        else
         (let selected =
                (if \<not> dr_valid first then second
                 else if \<not> dr_valid second \<or>
                   \<not> generationIsNewer (dr_generation second) (dr_generation first)
                 then first else second)
          in ((True, dr_settings selected), e))))"

text \<open>The slot and the generation of the next record.\<close>

definition nextRecord :: "DecodedRecord \<Rightarrow> DecodedRecord \<Rightarrow> nat \<times> u32" where
  "nextRecord first second =
     (if dr_valid first \<and> dr_valid second then
        (let secondIsNewer = generationIsNewer (dr_generation second) (dr_generation first)
         in (if secondIsNewer then 0 else 1,
             (if secondIsNewer then dr_generation second else dr_generation first) + 1))
      else if dr_valid first then (1, dr_generation first + 1)
      else if dr_valid second then (0, dr_generation second + 1)
      else (0, 1))"

definition JournaledUserSettingsStore_save ::
    "'e SettingsByteStorage \<Rightarrow> UserSettings \<Rightarrow> 'e \<Rightarrow> bool \<times> 'e" where
  "JournaledUserSettingsStore_save storage settings e =
     (if bs_capacity storage e < RequiredCapacity \<or>
        \<not> UserSettingsValidation_valid (validateUserSettings settings)
      then (False, e)
      else
       (let ((firstRead, first), e) = readRecord storage 0 e in
        if \<not> firstRead then (False, e)
        else
         (let ((secondRead, second), e) = readRecord storage 1 e in
          if \<not> secondRead then (False, e)
          else
           (let (targetSlot, nextGeneration) = nextRecord first second;
                (encoded, bytes) = encodeRecord settings nextGeneration
            in
            if \<not> encoded then (False, e)
            else
             (let (written, e) = bs_write storage (targetSlot * SlotSize) bytes e in
              if \<not> written then (False, e)
              else
               (let (committed, e) = bs_commit storage e in
                if \<not> committed then (False, e)
                else
                 (let ((readable, verified), e) = readRecord storage targetSlot e
                  in (readable \<and> dr_valid verified \<and>
                      dr_generation verified = nextGeneration \<and>
                      userSettingsEqual (dr_settings verified) settings, e))))))))"

definition journaled_store :: "'e SettingsByteStorage \<Rightarrow> 'e UserSettingsStore" where
  "journaled_store storage =
     \<lparr>store_load = JournaledUserSettingsStore_load storage,
      store_save = JournaledUserSettingsStore_save storage\<rparr>"

definition loadUserSettingsFailSafe ::
    "'e UserSettingsStore \<Rightarrow> 'e \<Rightarrow> (bool \<times> UserSettings) \<times> 'e" where
  "loadUserSettingsFailSafe store e =
     (let candidate = UserSettings_default\<lparr>us_remoteStartEnabled := False\<rparr>;
          ((loaded, candidate), e) = store_load store candidate e
      in if \<not> loaded \<or> \<not> UserSettingsValidation_valid (validateUserSettings candidate)
         then ((False, UserSettings_default\<lparr>us_remoteStartEnabled := False\<rparr>), e)
         else ((True, candidate), e))"

section \<open>Records decode to what they encode\<close>

lemma readU_blit [wire_simps]:
  "off + length bs \<le> length b \<Longrightarrow> i + 1 < off \<or> off + length bs \<le> i \<Longrightarrow> i + 1 < length b \<Longrightarrow>
     readU16 (blit b off bs) i = readU16 b i"
  "off + length bs \<le> length b \<Longrightarrow> i + 3 < off \<or> off + length bs \<le> i \<Longrightarrow> i + 3 < length b \<Longrightarrow>
     readU32 (blit b off bs) i = readU32 b i"
  by (auto simp: readU16_def readU32_def nth_blit)

lemma take_writeU_before [wire_simps]:
  "n \<le> off \<Longrightarrow> take n (writeU16 b off v) = take n b"
  "n \<le> off \<Longrightarrow> take n (writeU32 b off w) = take n b"
  by (simp_all add: writeU16_def writeU32_def)

lemma take_blit_before [wire_simps]: "n \<le> off \<Longrightarrow> off \<le> length b \<Longrightarrow> take n (blit b off bs) = take n b"
  by (simp add: blit_def min_def)

lemma slice_blit:
  "off \<le> length b \<Longrightarrow> n = length bs \<Longrightarrow> take n (drop off (blit b off bs)) = bs"
  by (simp add: blit_def)

lemma slice_writeU32 [wire_simps]:
  "off + n \<le> i \<Longrightarrow> take n (drop off (writeU32 b i w)) = take n (drop off b)"
  by (simp add: writeU32_def take_drop drop_update_swap)

lemma length_StorageMagic [simp]: "length StorageMagic = 4"
  by (simp add: StorageMagic_def)

definition record_image :: "UserSettings \<Rightarrow> u32 \<Rightarrow> u8 list" where
  "record_image s g = snd (encodeRecord s g)"

definition record_head :: "u32 \<Rightarrow> u8 list" where
  "record_head g =
     writeU32 (writeU16 (writeU16 (blit (replicate 56 0xFF) 0 StorageMagic) 4 1) 6 40) 8 g"

lemma record_head_simps [simp]:
  "length (record_head g) = 56" "take 4 (record_head g) = StorageMagic"
  "readU16 (record_head g) 4 = 1" "readU16 (record_head g) 6 = 40" "readU32 (record_head g) 8 = g"
  by (simp_all add: record_head_def wire_simps) (simp add: blit_def)

lemma encodeRecord_image:
  assumes "settings_in_range s"
  shows "encodeRecord s g = (True, record_image s g)"
    "record_image s g = (let r = blit (record_head g) 12 (payload_image s)
       in writeU32 r 52 (crc32 r 52))"
  using encode_valid [OF assms]
  by (simp_all add: record_image_def encodeRecord_def storage_layout record_head_def Let_def)

lemma record_image_facts:
  assumes "settings_in_range s"
  shows "length (record_image s g) = 56" "take 4 (record_image s g) = StorageMagic"
    "readU16 (record_image s g) 4 = 1" "readU16 (record_image s g) 6 = 40"
    "readU32 (record_image s g) 8 = g"
    "take 40 (drop 12 (record_image s g)) = payload_image s"
    "readU32 (record_image s g) 52 = crc32 (record_image s g) 52"
proof -
  let ?r = "blit (record_head g) 12 (payload_image s)"
  have len: "length ?r = 56" by simp
  have crc: "crc32 (writeU32 ?r 52 v) 52 = crc32 ?r 52" for v
    using len by (intro crc32_cong) (simp_all add: wire_simps)
  note img = encodeRecord_image(2) [OF assms, unfolded Let_def]
  show "length (record_image s g) = 56" "take 4 (record_image s g) = StorageMagic"
    "readU16 (record_image s g) 4 = 1" "readU16 (record_image s g) 6 = 40"
    "readU32 (record_image s g) 8 = g"
    unfolding img using len by (simp_all add: wire_simps)
  show "take 40 (drop 12 (record_image s g)) = payload_image s"
    unfolding img by (simp add: wire_simps slice_blit)
  show "readU32 (record_image s g) 52 = crc32 (record_image s g) 52"
    unfolding img crc using len by (simp add: wire_simps)
qed

lemma decode_record_image:
  assumes "settings_in_range s"
  shows "decodeRecord (record_image s g) = \<lparr>dr_settings = s, dr_generation = g, dr_valid = True\<rparr>"
proof -
  have "blit blank_payload 0 (payload_image s) = payload_image s"
    by (simp add: blit_def blank_payload_def UserSettingsPayloadSize_def)
  then show ?thesis
    using record_image_facts [OF assms, of g] decode_payload_image [OF assms]
    by (simp add: decodeRecord_def storage_layout)
qed

text \<open>Only sealed records with valid settings decode.\<close>

lemma decodeRecord_valid:
  assumes "dr_valid (decodeRecord r)" and "length r = 56"
  shows "sealed r" and "settings_in_range (dr_settings (decodeRecord r))"
proof -
  let ?p = "blit blank_payload 0 (take 40 (drop 12 r))"
  obtain ok s where d: "decodeUserSettingsPayload ?p 40 UserSettings_default = (ok, s)" by fastforce
  have *: "readU32 r 52 = crc32 r 52 \<and> ok \<and> dr_settings (decodeRecord r) = s"
    using assms d
    by (simp add: decodeRecord_def storage_layout DecodedRecord_default_def Let_def split: if_splits)
  then show "sealed r" using assms(2) by (simp add: sealed_def)
  from * decode_cases [OF d] show "settings_in_range (dr_settings (decodeRecord r))" by auto
qed

lemma damaged_record_invalid:
  assumes "dr_valid (decodeRecord r)" and "length r = 56" and "burst_damage r r'"
  shows "\<not> dr_valid (decodeRecord r')"
proof -
  have "length r' = 56" using assms(2,3) unfolding burst_damage_def by simp
  with assms show ?thesis
    using decodeRecord_valid(1) burst_breaks_seal by blast
qed

section \<open>Which slot is loaded, which slot is written\<close>

lemma generationIsNewer_iff: "generationIsNewer a b \<longleftrightarrow> strictlyNewer a b"
proof -
  have "sint d > 0 \<longleftrightarrow> d \<noteq> 0 \<and> d < 0x80000000" for d :: u32
  proof (cases "uint d < 2 ^ 31")
    case True
    then have "sint d = uint d"
      unfolding sint_uint
      by (intro signed_take_bit_int_eq_self order_trans [OF _ uint_ge_0]) simp_all
    with True show ?thesis
      by (auto simp: word_less_def uint_0_iff less_le)
  next
    case False
    have "uint d < 2 ^ 32" using uint_lt2p [of d] by simp
    with False have "uint d div 2 ^ 31 = 1" by (simp add: div_eq_dividend_iff)
    then have "bit (uint d) 31" by (simp add: bit_iff_odd)
    then have "sint d < 0" by (simp add: sint_uint signed_take_bit_negative_iff)
    with False show ?thesis by (simp add: word_less_def)
  qed
  then show ?thesis
    by (simp add: generationIsNewer_def strictlyNewer_def HalfCounterRange_def)
qed

text \<open>A generation is older than the one that follows it.\<close>

lemma generationIsNewer_Suc [simp]:
  "generationIsNewer (g + 1) g" "\<not> generationIsNewer g (g + 1)"
proof -
  have "strictlyNewer (g + 1) g" by (simp add: strictlyNewer_def HalfCounterRange_def)
  then show "generationIsNewer (g + 1) g" "\<not> generationIsNewer g (g + 1)"
    using strictlyNewer_antisym by (auto simp: generationIsNewer_iff)
qed

lemma generationIsNewer_next:
  "g + 1 = h \<Longrightarrow> generationIsNewer h g" "g + 1 = h \<Longrightarrow> \<not> generationIsNewer g h"
  by auto

text \<open>The record the store selects among the two.\<close>

definition selectRecord :: "DecodedRecord \<Rightarrow> DecodedRecord \<Rightarrow> UserSettings option" where
  "selectRecord first second =
     (if \<not> dr_valid first \<and> \<not> dr_valid second then None
      else if \<not> dr_valid first then Some (dr_settings second)
      else if \<not> dr_valid second \<or> \<not> generationIsNewer (dr_generation second) (dr_generation first)
      then Some (dr_settings first) else Some (dr_settings second))"

text \<open>Replacing the target slot by the next record makes the store select it; replacing it by
  anything that does not decode leaves the selection as it was.\<close>

definition replaceSlot ::
    "nat \<Rightarrow> DecodedRecord \<Rightarrow> DecodedRecord \<times> DecodedRecord \<Rightarrow> DecodedRecord \<times> DecodedRecord" where
  "replaceSlot slot r = (\<lambda>(first, second). if slot = 0 then (r, second) else (first, r))"

lemma nextRecord_slot: "fst (nextRecord first second) < 2"
  by (simp add: nextRecord_def Let_def)

lemma selectRecord_next:
  assumes "nextRecord first second = (slot, g)" and "dr_valid r" and "dr_generation r = g"
  shows "(\<lambda>(a, b). selectRecord a b) (replaceSlot slot r (first, second)) = Some (dr_settings r)"
  using assms
  by (auto simp: nextRecord_def selectRecord_def replaceSlot_def Let_def generationIsNewer_next
      split: if_splits)

lemma selectRecord_torn:
  assumes "nextRecord first second = (slot, g)" and "\<not> dr_valid r"
  shows "(\<lambda>(a, b). selectRecord a b) (replaceSlot slot r (first, second)) =
    selectRecord first second"
  using assms strictlyNewer_antisym [of "dr_generation first" "dr_generation second"]
  by (auto simp: nextRecord_def selectRecord_def replaceSlot_def Let_def generationIsNewer_iff
      split: if_splits)

section \<open>The two slots of a storage image\<close>

definition slot_record :: "u8 list \<Rightarrow> nat \<Rightarrow> DecodedRecord" where
  "slot_record bytes slot = decodeRecord (take RecordSize (drop (slot * SlotSize) bytes))"

definition stored_in :: "u8 list \<Rightarrow> UserSettings option" where
  "stored_in bytes = selectRecord (slot_record bytes 0) (slot_record bytes 1)"

lemma stored_in_valid:
  assumes "stored_in bytes = Some s" and "128 \<le> length bytes"
  shows "settings_in_range s"
proof -
  have "settings_in_range (dr_settings (slot_record bytes k))"
    if "dr_valid (slot_record bytes k)" "k < 2" for k
    using that assms(2) unfolding slot_record_def storage_layout
    by (intro decodeRecord_valid(2)) auto
  with assms(1) show ?thesis
    by (auto simp: stored_in_def selectRecord_def split: if_splits)
qed

lemma slot_record_blit:
  assumes "128 \<le> length bytes" "length r = 56" "k < 2" "j < 2"
  shows "slot_record (blit bytes (k * 64) r) j =
    (if j = k then decodeRecord r else slot_record bytes j)"
proof -
  have in_range: "k * 64 + length r \<le> length bytes" using assms by auto
  have "take 56 (drop (j * 64) (blit bytes (k * 64) r)) =
      (if j = k then r else take 56 (drop (j * 64) bytes))"
    using assms in_range by (auto simp: list_eq_iff_nth_eq nth_blit less_2_cases_iff)
  then show ?thesis by (simp add: slot_record_def storage_layout)
qed

lemma slots_replaced:
  assumes "128 \<le> length bytes" "length r = 56" "slot < 2"
  shows "(slot_record (blit bytes (slot * 64) r) 0, slot_record (blit bytes (slot * 64) r) 1) =
    replaceSlot slot (decodeRecord r) (slot_record bytes 0, slot_record bytes 1)"
  using assms by (simp add: slot_record_blit replaceSlot_def)

lemma stored_in_next:
  assumes "128 \<le> length bytes" "settings_in_range s"
    and "nextRecord (slot_record bytes 0) (slot_record bytes 1) = (slot, g)"
  shows "stored_in (blit bytes (slot * 64) (record_image s g)) = Some s"
  using selectRecord_next [OF assms(3), of "decodeRecord (record_image s g)"]
    slots_replaced [OF assms(1), of "record_image s g" slot]
    nextRecord_slot [of "slot_record bytes 0" "slot_record bytes 1"] assms(2,3)
  by (simp add: stored_in_def decode_record_image record_image_facts(1) split: prod.splits)

lemma stored_in_torn:
  assumes "128 \<le> length bytes" "length r = 56" "\<not> dr_valid (decodeRecord r)"
    and "nextRecord (slot_record bytes 0) (slot_record bytes 1) = (slot, g)"
  shows "stored_in (blit bytes (slot * 64) r) = stored_in bytes"
  using selectRecord_torn [OF assms(4,3)] slots_replaced [OF assms(1,2), of slot]
    nextRecord_slot [of "slot_record bytes 0" "slot_record bytes 1"] assms(4)
  by (simp add: stored_in_def split: prod.splits)

section \<open>The contract of a settings store\<close>

locale settings_store =
  fixes store :: "'e UserSettingsStore"
    and stored :: "'e \<Rightarrow> UserSettings option"
    and usable :: "'e \<Rightarrow> bool"
  assumes load_law: "usable e \<Longrightarrow>
      store_load store s e = (case stored e of None \<Rightarrow> ((False, s), e) | Some t \<Rightarrow> ((True, t), e))"
    and save_law: "usable e \<Longrightarrow> store_save store s e = (ok, e') \<Longrightarrow>
      usable e' \<and> (ok \<longrightarrow> settings_in_range s) \<and> stored e' = (if ok then Some s else stored e)"
    and stored_law: "usable e \<Longrightarrow> stored e = Some s \<Longrightarrow> settings_in_range s"
begin

lemma fail_safe_load:
  assumes "usable e"
  shows "loadUserSettingsFailSafe store e =
    (case stored e of
       None \<Rightarrow> ((False, UserSettings_default\<lparr>us_remoteStartEnabled := False\<rparr>), e)
     | Some s \<Rightarrow> ((True, s), e))"
  using stored_law [OF assms]
  by (cases "stored e") (simp_all add: loadUserSettingsFailSafe_def load_law [OF assms]
      valid_settings_iff)

lemma save_then_load:
  assumes "usable e" and "store_save store s e = (ok, e')"
  shows "loadUserSettingsFailSafe store e' =
    (if ok then ((True, s), e')
     else (fst (loadUserSettingsFailSafe store e), e'))"
  using save_law [OF assms] fail_safe_load [OF assms(1)] fail_safe_load [of e']
  by (auto split: option.splits)

end

section \<open>The contract of a byte storage\<close>

locale byte_storage =
  fixes storage :: "'e SettingsByteStorage"
    and durable :: "'e \<Rightarrow> u8 list"
    and pending :: "'e \<Rightarrow> u8 list"
    and opened :: "'e \<Rightarrow> bool"
  assumes size_law: "opened e \<Longrightarrow>
      bs_capacity storage e = length (durable e) \<and> length (pending e) = length (durable e)"
    and read_law: "opened e \<Longrightarrow> off + n \<le> length (durable e) \<Longrightarrow>
      bs_read storage off n e = (Some (take n (drop off (durable e))), e)"
    and write_law: "opened e \<Longrightarrow> off + length bs \<le> length (durable e) \<Longrightarrow>
      bs_write storage off bs e = (ok, e') \<Longrightarrow>
      opened e' \<and> durable e' = durable e \<and>
      pending e' = (if ok then blit (pending e) off bs else pending e)"
    and commit_law: "opened e \<Longrightarrow> bs_commit storage e = (ok, e') \<Longrightarrow>
      opened e' \<and> pending e' = durable e' \<and> durable e' = (if ok then pending e else durable e)"
begin

definition holds_journal :: "'e \<Rightarrow> bool" where
  "holds_journal e \<longleftrightarrow> opened e \<and> pending e = durable e \<and> 128 \<le> length (durable e)"

lemma read_slot:
  assumes "holds_journal e" "slot < 2"
  shows "readRecord storage slot e = ((True, slot_record (durable e) slot), e)"
  using assms read_law [of e "slot * 64" 56]
  by (auto simp: readRecord_def slot_record_def storage_layout holds_journal_def less_2_cases_iff)

lemma capacity_ok: "holds_journal e \<Longrightarrow> \<not> bs_capacity storage e < RequiredCapacity"
  using size_law [of e] by (simp add: holds_journal_def storage_layout)

lemma load_stored:
  assumes "holds_journal e"
  shows "JournaledUserSettingsStore_load storage s e =
    (case stored_in (durable e) of None \<Rightarrow> ((False, s), e) | Some t \<Rightarrow> ((True, t), e))"
  using read_slot [OF assms, of 0] read_slot [OF assms, of 1] capacity_ok [OF assms]
  by (auto simp: JournaledUserSettingsStore_load_def stored_in_def selectRecord_def)

lemma commit_record:
  assumes "holds_journal e" and "slot < 2" and "length r = 56"
    and "bs_write storage (slot * 64) r e = (True, e1)" and "bs_commit storage e1 = (ok, e2)"
  shows "holds_journal e2 \<and>
    durable e2 = (if ok then blit (durable e) (slot * 64) r else durable e)"
proof -
  have in_range: "slot * 64 + length r \<le> length (durable e)"
    using assms(1-3) by (auto simp: holds_journal_def less_2_cases_iff)
  have w: "opened e1" "durable e1 = durable e" "pending e1 = blit (durable e) (slot * 64) r"
    using write_law [OF _ in_range assms(4)] assms(1) by (simp_all add: holds_journal_def)
  with commit_law [OF _ assms(5)] in_range assms(1) show ?thesis
    by (auto simp: holds_journal_def)
qed

text \<open>The steps of a save: nothing for invalid settings, else one write and one commit of the next
  record to the slot that is not selected, and the read back succeeds.\<close>

lemma save_steps:
  assumes "holds_journal e" and "JournaledUserSettingsStore_save storage s e = (ok, e')"
    and "settings_in_range s"
    and "nextRecord (slot_record (durable e) 0) (slot_record (durable e) 1) = (slot, g)"
    and "bs_write storage (slot * 64) (record_image s g) e = (written, e1)"
    and "bs_commit storage e1 = (committed, e2)"
  shows "(ok, e') = (if \<not> written then (False, e1) else (committed, e2))"
proof -
  let ?a = "slot_record (durable e) 0" and ?b = "slot_record (durable e) 1"
  let ?r = "record_image s g"
  have slot: "slot < 2" using nextRecord_slot [of ?a ?b] assms(4) by simp
  have len: "length ?r = 56" "128 \<le> length (durable e)"
    using record_image_facts(1) [OF assms(3)] assms(1) by (simp_all add: holds_journal_def)
  have read_back: "readRecord storage slot e2 = ((True, decodeRecord ?r), e2)"
    if "written" "committed"
  proof -
    have "holds_journal e2" "durable e2 = blit (durable e) (slot * 64) ?r"
      using commit_record [OF assms(1) slot len(1)] assms(5,6) that by simp_all
    then show ?thesis using read_slot [of e2 slot] slot len by (simp add: slot_record_blit)
  qed
  show ?thesis
    using assms(2-6) read_slot [OF assms(1), of 0] read_slot [OF assms(1), of 1] read_back
      capacity_ok [OF assms(1)]
    by (cases written; cases committed)
      (simp_all add: JournaledUserSettingsStore_save_def valid_settings_iff encodeRecord_image(1)
        SlotSize_def decode_record_image userSettingsEqual_iff)
qed

lemma save_invalid:
  "\<not> settings_in_range s \<Longrightarrow> JournaledUserSettingsStore_save storage s e = (False, e)"
  by (simp add: JournaledUserSettingsStore_save_def valid_settings_iff)

lemma save_stored:
  assumes "holds_journal e" and "JournaledUserSettingsStore_save storage s e = (ok, e')"
  shows "holds_journal e' \<and> (ok \<longrightarrow> settings_in_range s) \<and>
    stored_in (durable e') = (if ok then Some s else stored_in (durable e))"
proof (cases "settings_in_range s")
  case False
  with assms save_invalid [OF False] show ?thesis by simp
next
  case True
  let ?a = "slot_record (durable e) 0" and ?b = "slot_record (durable e) 1"
  obtain slot g where next_: "nextRecord ?a ?b = (slot, g)" by fastforce
  then have slot: "slot < 2" using nextRecord_slot [of ?a ?b] by simp
  let ?r = "record_image s g"
  have len: "length ?r = 56" "128 \<le> length (durable e)"
    using record_image_facts(1) [OF True] assms(1) by (simp_all add: holds_journal_def)
  obtain written e1 where w: "bs_write storage (slot * 64) ?r e = (written, e1)" by fastforce
  obtain committed e2 where c: "bs_commit storage e1 = (committed, e2)" by fastforce
  note steps = save_steps [OF assms True next_ w c]
  have in_range: "slot * 64 + length ?r \<le> length (durable e)"
    using len slot by (auto simp: less_2_cases_iff)
  show ?thesis
  proof (cases written)
    case False
    with write_law [OF _ in_range w] steps assms(1) show ?thesis by (simp add: holds_journal_def)
  next
    case True
    with commit_record [OF assms(1) slot len(1) _ c] w steps
      stored_in_next [OF len(2) \<open>settings_in_range s\<close> next_] \<open>settings_in_range s\<close>
    show ?thesis by simp
  qed
qed

end

sublocale byte_storage \<subseteq> journal: settings_store "journaled_store storage"
    "\<lambda>e. stored_in (durable e)" holds_journal
proof
  fix e s ok e'
  assume e: "holds_journal e"
  show "store_load (journaled_store storage) s e =
      (case stored_in (durable e) of None \<Rightarrow> ((False, s), e) | Some t \<Rightarrow> ((True, t), e))"
    using load_stored [OF e] by (simp add: journaled_store_def)
  show "holds_journal e' \<and> (ok \<longrightarrow> settings_in_range s) \<and>
      stored_in (durable e') = (if ok then Some s else stored_in (durable e))"
    if "store_save (journaled_store storage) s e = (ok, e')"
    using save_stored [OF e] that by (simp add: journaled_store_def)
  show "settings_in_range s" if "stored_in (durable e) = Some s"
    using stored_in_valid [OF that] e by (simp add: holds_journal_def)
qed

end
