(* ===== verification/SettingsProtocol.thy ===== *)
theory SettingsProtocol
  imports SettingsStorage
begin

text \<open>
  The request and response frames of the settings link and the service that answers them
  (\<^verbatim>\<open>infrastructure/settings_protocol.hpp/.cpp\<close>).  A frame on the wire is a buffer of
  \<open>MaximumFrameSize\<close> bytes and the number of them that are used.
\<close>

section \<open>Frames\<close>

datatype SettingsMessageType =
    MT_ReadRequest | MT_WriteRequest | MT_IdentifyRequest | MT_ReadResponse | MT_WriteResponse
  | MT_IdentifyResponse | MT_ErrorResponse | MT_Unnamed u8

fun SettingsMessageType_byte :: "SettingsMessageType \<Rightarrow> u8" where
  "SettingsMessageType_byte MT_ReadRequest = 0x01"
| "SettingsMessageType_byte MT_WriteRequest = 0x02"
| "SettingsMessageType_byte MT_IdentifyRequest = 0x03"
| "SettingsMessageType_byte MT_ReadResponse = 0x81"
| "SettingsMessageType_byte MT_WriteResponse = 0x82"
| "SettingsMessageType_byte MT_IdentifyResponse = 0x83"
| "SettingsMessageType_byte MT_ErrorResponse = 0xFF"
| "SettingsMessageType_byte (MT_Unnamed b) = b"

definition SettingsMessageType_of :: "u8 \<Rightarrow> SettingsMessageType" where
  "SettingsMessageType_of b =
     (if b = 0x01 then MT_ReadRequest else if b = 0x02 then MT_WriteRequest
      else if b = 0x03 then MT_IdentifyRequest else if b = 0x81 then MT_ReadResponse
      else if b = 0x82 then MT_WriteResponse else if b = 0x83 then MT_IdentifyResponse
      else if b = 0xFF then MT_ErrorResponse else MT_Unnamed b)"

datatype SettingsProtocolStatus =
    PS_Ok | PS_InvalidPayload | PS_UnsupportedMessage | PS_Unauthorized | PS_Busy
  | PS_InvalidSettings | PS_StorageFailure | PS_SettingsUnavailable | PS_Unnamed u8

fun SettingsProtocolStatus_byte :: "SettingsProtocolStatus \<Rightarrow> u8" where
  "SettingsProtocolStatus_byte PS_Ok = 0"
| "SettingsProtocolStatus_byte PS_InvalidPayload = 1"
| "SettingsProtocolStatus_byte PS_UnsupportedMessage = 2"
| "SettingsProtocolStatus_byte PS_Unauthorized = 3"
| "SettingsProtocolStatus_byte PS_Busy = 4"
| "SettingsProtocolStatus_byte PS_InvalidSettings = 5"
| "SettingsProtocolStatus_byte PS_StorageFailure = 6"
| "SettingsProtocolStatus_byte PS_SettingsUnavailable = 7"
| "SettingsProtocolStatus_byte (PS_Unnamed b) = b"

definition SettingsProtocolStatus_of :: "u8 \<Rightarrow> SettingsProtocolStatus" where
  "SettingsProtocolStatus_of b =
     (if b = 0 then PS_Ok else if b = 1 then PS_InvalidPayload
      else if b = 2 then PS_UnsupportedMessage else if b = 3 then PS_Unauthorized
      else if b = 4 then PS_Busy else if b = 5 then PS_InvalidSettings
      else if b = 6 then PS_StorageFailure else if b = 7 then PS_SettingsUnavailable
      else PS_Unnamed b)"

datatype SettingsFrameDecodeStatus =
    FD_Ok | FD_TooShort | FD_TooLong | FD_InvalidMagic | FD_UnsupportedVersion
  | FD_ReservedFieldSet | FD_PayloadTooLarge | FD_SizeMismatch | FD_ChecksumMismatch

record SettingsProtocolFrame =
  pf_type :: SettingsMessageType
  pf_status :: SettingsProtocolStatus
  pf_requestId :: u16
  pf_payloadSize :: u16
  pf_payload :: UserSettingsPayload

definition SettingsProtocolFrame_default :: SettingsProtocolFrame where
  "SettingsProtocolFrame_default =
     \<lparr>pf_type = MT_ErrorResponse, pf_status = PS_Ok, pf_requestId = 0, pf_payloadSize = 0,
      pf_payload = blank_payload\<rparr>"

record SettingsFrameDecodeResult =
  fdr_status :: SettingsFrameDecodeStatus
  fdr_frame :: SettingsProtocolFrame

definition SettingsFrameDecodeResult_default :: SettingsFrameDecodeResult where
  "SettingsFrameDecodeResult_default =
     \<lparr>fdr_status = FD_TooShort, fdr_frame = SettingsProtocolFrame_default\<rparr>"

definition SettingsFrameDecodeResult_valid :: "SettingsFrameDecodeResult \<Rightarrow> bool" where
  "SettingsFrameDecodeResult_valid r \<longleftrightarrow> fdr_status r = FD_Ok"

section \<open>The codec\<close>

text \<open>The letters BMCF.\<close>

definition FrameMagic :: "u8 list" where "FrameMagic = [0x42, 0x4D, 0x43, 0x46]"
definition FrameVersion :: u8 where "FrameVersion = 1"
definition HeaderSize :: nat where "HeaderSize = 12"
definition ChecksumSize :: nat where "ChecksumSize = 4"
definition MinimumFrameSize :: nat where "MinimumFrameSize = HeaderSize + ChecksumSize"
definition MaximumFrameSize :: nat where
  "MaximumFrameSize = HeaderSize + UserSettingsPayloadSize + ChecksumSize"

definition VersionOffset :: nat where "VersionOffset = 4"
definition TypeOffset :: nat where "TypeOffset = 5"
definition StatusOffset :: nat where "StatusOffset = 6"
definition ReservedOffset :: nat where "ReservedOffset = 7"
definition RequestIdOffset :: nat where "RequestIdOffset = 8"
definition PayloadSizeOffset :: nat where "PayloadSizeOffset = 10"
definition PayloadOffset :: nat where "PayloadOffset = HeaderSize"

lemmas frame_layout =
  FrameVersion_def HeaderSize_def ChecksumSize_def MinimumFrameSize_def MaximumFrameSize_def
  VersionOffset_def TypeOffset_def StatusOffset_def ReservedOffset_def RequestIdOffset_def
  PayloadSizeOffset_def PayloadOffset_def UserSettingsPayloadSize_def

definition SettingsProtocolCodec_encode ::
    "SettingsProtocolFrame \<Rightarrow> bool \<times> u8 list \<times> nat" where
  "SettingsProtocolCodec_encode frame =
     (let e = replicate MaximumFrameSize 0 in
      if unat (pf_payloadSize frame) > UserSettingsPayloadSize then (False, e, 0)
      else
       (let e = blit e 0 FrameMagic;
            e = e[VersionOffset := FrameVersion];
            e = e[TypeOffset := SettingsMessageType_byte (pf_type frame)];
            e = e[StatusOffset := SettingsProtocolStatus_byte (pf_status frame)];
            e = e[ReservedOffset := 0];
            e = writeU16 e RequestIdOffset (pf_requestId frame);
            e = writeU16 e PayloadSizeOffset (pf_payloadSize frame);
            e = blit e PayloadOffset (take (unat (pf_payloadSize frame)) (pf_payload frame));
            checksumOffset = PayloadOffset + unat (pf_payloadSize frame)
        in (True, writeU32 e checksumOffset (crc32 e checksumOffset),
            checksumOffset + ChecksumSize)))"

definition decode_failed :: "SettingsFrameDecodeStatus \<Rightarrow> SettingsFrameDecodeResult" where
  "decode_failed status = SettingsFrameDecodeResult_default\<lparr>fdr_status := status\<rparr>"

definition SettingsProtocolCodec_decode ::
    "u8 list option \<Rightarrow> nat \<Rightarrow> SettingsFrameDecodeResult" where
  "SettingsProtocolCodec_decode pointer encodedSize =
     (case pointer of
        None \<Rightarrow> decode_failed FD_TooShort
      | Some encoded \<Rightarrow>
          if encodedSize < MinimumFrameSize then decode_failed FD_TooShort
          else if encodedSize > MaximumFrameSize then decode_failed FD_TooLong
          else if take (length FrameMagic) encoded \<noteq> FrameMagic then decode_failed FD_InvalidMagic
          else if encoded ! VersionOffset \<noteq> FrameVersion then decode_failed FD_UnsupportedVersion
          else if encoded ! ReservedOffset \<noteq> 0 then decode_failed FD_ReservedFieldSet
          else
           (let payloadSize = readU16 encoded PayloadSizeOffset in
            if unat payloadSize > UserSettingsPayloadSize then decode_failed FD_PayloadTooLarge
            else if HeaderSize + unat payloadSize + ChecksumSize \<noteq> encodedSize
            then decode_failed FD_SizeMismatch
            else if readU32 encoded (HeaderSize + unat payloadSize) \<noteq>
              crc32 encoded (HeaderSize + unat payloadSize)
            then decode_failed FD_ChecksumMismatch
            else
              \<lparr>fdr_status = FD_Ok,
               fdr_frame =
                 \<lparr>pf_type = SettingsMessageType_of (encoded ! TypeOffset),
                  pf_status = SettingsProtocolStatus_of (encoded ! StatusOffset),
                  pf_requestId = readU16 encoded RequestIdOffset,
                  pf_payloadSize = payloadSize,
                  pf_payload =
                    blit blank_payload 0
                      (take (unat payloadSize) (drop PayloadOffset encoded))\<rparr>\<rparr>))"

section \<open>The service\<close>

record SettingsProtocolAccess =
  authorized :: bool
  acc_controllerState :: ControllerState

definition responseFor ::
    "SettingsProtocolFrame \<Rightarrow> SettingsMessageType \<Rightarrow> SettingsProtocolStatus \<Rightarrow>
       SettingsProtocolFrame" where
  "responseFor request responseType status =
     SettingsProtocolFrame_default
       \<lparr>pf_type := responseType, pf_status := status, pf_requestId := pf_requestId request\<rparr>"

definition responseType_of :: "SettingsMessageType \<Rightarrow> SettingsMessageType option" where
  "responseType_of t =
     (case t of
        MT_ReadRequest \<Rightarrow> Some MT_ReadResponse
      | MT_WriteRequest \<Rightarrow> Some MT_WriteResponse
      | MT_IdentifyRequest \<Rightarrow> Some MT_IdentifyResponse
      | _ \<Rightarrow> None)"

definition handleIdentify ::
    "SettingsDeviceIdentity \<Rightarrow> SettingsProtocolFrame \<Rightarrow> SettingsProtocolFrame" where
  "handleIdentify identity request =
     (let response = responseFor request MT_IdentifyResponse PS_Ok;
          (encoded, payload) = encodeSettingsDeviceIdentity identity (pf_payload response)
      in if \<not> encoded then responseFor request MT_IdentifyResponse PS_InvalidPayload
         else response\<lparr>pf_payload := payload,
                       pf_payloadSize := of_nat SettingsDeviceIdentityPayloadSize\<rparr>)"

definition handleRead ::
    "'e UserSettingsStore \<Rightarrow> SettingsProtocolFrame \<Rightarrow> 'e \<Rightarrow> SettingsProtocolFrame \<times> 'e" where
  "handleRead store request e =
     (let response = responseFor request MT_ReadResponse PS_SettingsUnavailable;
          ((loaded, settings), e) = store_load store UserSettings_default e
      in
      if \<not> loaded then (response, e)
      else
       (let (encoded, payload) = encodeUserSettingsPayload settings (pf_payload response) in
        if \<not> encoded then (response, e)
        else (response\<lparr>pf_payload := payload, pf_status := PS_Ok,
                       pf_payloadSize := of_nat UserSettingsPayloadSize\<rparr>, e)))"

definition handleWrite ::
    "'e UserSettingsStore \<Rightarrow> SettingsProtocolFrame \<Rightarrow> SettingsProtocolAccess \<Rightarrow> 'e \<Rightarrow>
       SettingsProtocolFrame \<times> 'e" where
  "handleWrite store request access e =
     (if acc_controllerState access \<noteq> CS_Idle
      then (responseFor request MT_WriteResponse PS_Busy, e)
      else
       (let (decoded, settings) =
              decodeUserSettingsPayload (pf_payload request) (unat (pf_payloadSize request))
                UserSettings_default
        in
        if \<not> decoded then (responseFor request MT_WriteResponse PS_InvalidSettings, e)
        else
         (let (saved, e) = store_save store settings e in
          if \<not> saved then (responseFor request MT_WriteResponse PS_StorageFailure, e)
          else (responseFor request MT_WriteResponse PS_Ok, e))))"

definition SettingsProtocolService_handle ::
    "'e UserSettingsStore \<Rightarrow> SettingsDeviceIdentity \<Rightarrow> SettingsProtocolFrame \<Rightarrow>
       SettingsProtocolAccess \<Rightarrow> 'e \<Rightarrow> SettingsProtocolFrame \<times> 'e" where
  "SettingsProtocolService_handle store identity request access e =
     (case responseType_of (pf_type request) of
        None \<Rightarrow> (responseFor request MT_ErrorResponse PS_UnsupportedMessage, e)
      | Some responseType \<Rightarrow>
         (let payloadSizeValid =
                (if pf_type request = MT_WriteRequest
                 then unat (pf_payloadSize request) = UserSettingsPayloadSize
                 else pf_payloadSize request = 0)
          in
          if pf_status request \<noteq> PS_Ok \<or> \<not> payloadSizeValid
          then (responseFor request responseType PS_InvalidPayload, e)
          else if \<not> authorized access
          then (responseFor request responseType PS_Unauthorized, e)
          else if pf_type request = MT_IdentifyRequest then (handleIdentify identity request, e)
          else if pf_type request = MT_ReadRequest then handleRead store request e
          else handleWrite store request access e))"

fun SettingsProtocolStatus_toString :: "SettingsProtocolStatus \<Rightarrow> string" where
  "SettingsProtocolStatus_toString PS_Ok = ''ok''"
| "SettingsProtocolStatus_toString PS_InvalidPayload = ''invalid_payload''"
| "SettingsProtocolStatus_toString PS_UnsupportedMessage = ''unsupported_message''"
| "SettingsProtocolStatus_toString PS_Unauthorized = ''unauthorized''"
| "SettingsProtocolStatus_toString PS_Busy = ''busy''"
| "SettingsProtocolStatus_toString PS_InvalidSettings = ''invalid_settings''"
| "SettingsProtocolStatus_toString PS_StorageFailure = ''storage_failure''"
| "SettingsProtocolStatus_toString PS_SettingsUnavailable = ''settings_unavailable''"
| "SettingsProtocolStatus_toString (PS_Unnamed b) = ''unknown''"

fun SettingsFrameDecodeStatus_toString :: "SettingsFrameDecodeStatus \<Rightarrow> string" where
  "SettingsFrameDecodeStatus_toString FD_Ok = ''ok''"
| "SettingsFrameDecodeStatus_toString FD_TooShort = ''too_short''"
| "SettingsFrameDecodeStatus_toString FD_TooLong = ''too_long''"
| "SettingsFrameDecodeStatus_toString FD_InvalidMagic = ''invalid_magic''"
| "SettingsFrameDecodeStatus_toString FD_UnsupportedVersion = ''unsupported_version''"
| "SettingsFrameDecodeStatus_toString FD_ReservedFieldSet = ''reserved_field_set''"
| "SettingsFrameDecodeStatus_toString FD_PayloadTooLarge = ''payload_too_large''"
| "SettingsFrameDecodeStatus_toString FD_SizeMismatch = ''size_mismatch''"
| "SettingsFrameDecodeStatus_toString FD_ChecksumMismatch = ''checksum_mismatch''"

section \<open>Frames decode to what they encode\<close>

lemma length_FrameMagic [simp]: "length FrameMagic = 4"
  by (simp add: FrameMagic_def)

lemma type_bytes [simp]:
  "SettingsMessageType_byte (SettingsMessageType_of b) = b"
  "SettingsProtocolStatus_byte (SettingsProtocolStatus_of b) = b"
  by (simp_all add: SettingsMessageType_of_def SettingsProtocolStatus_of_def)

text \<open>The frames a receiver can distinguish: no spare payload bytes, and no unnamed value for a byte
  that has a name.\<close>

definition frame_wf :: "SettingsProtocolFrame \<Rightarrow> bool" where
  "frame_wf f \<longleftrightarrow> length (pf_payload f) = 40 \<and> unat (pf_payloadSize f) \<le> 40 \<and>
     drop (unat (pf_payloadSize f)) (pf_payload f) = replicate (40 - unat (pf_payloadSize f)) 0 \<and>
     SettingsMessageType_of (SettingsMessageType_byte (pf_type f)) = pf_type f \<and>
     SettingsProtocolStatus_of (SettingsProtocolStatus_byte (pf_status f)) = pf_status f"

definition frame_size :: "SettingsProtocolFrame \<Rightarrow> nat" where
  "frame_size f = 16 + unat (pf_payloadSize f)"

definition frame_head :: "SettingsProtocolFrame \<Rightarrow> u8 list" where
  "frame_head f =
     writeU16 (writeU16 ((blit (replicate 56 0) 0 FrameMagic)
       [4 := 1, 5 := SettingsMessageType_byte (pf_type f),
        6 := SettingsProtocolStatus_byte (pf_status f), 7 := 0]) 8 (pf_requestId f))
       10 (pf_payloadSize f)"

definition frame_image :: "SettingsProtocolFrame \<Rightarrow> u8 list" where
  "frame_image f =
     (let k = unat (pf_payloadSize f);
          e = blit (frame_head f) 12 (take k (pf_payload f))
      in writeU32 e (12 + k) (crc32 e (12 + k)))"

lemma encode_frame:
  "unat (pf_payloadSize f) \<le> 40 \<Longrightarrow>
     SettingsProtocolCodec_encode f = (True, frame_image f, frame_size f)"
  by (simp add: SettingsProtocolCodec_encode_def frame_layout frame_head_def frame_image_def
      frame_size_def Let_def)

lemma encode_too_large:
  "\<not> unat (pf_payloadSize f) \<le> 40 \<Longrightarrow>
     SettingsProtocolCodec_encode f = (False, replicate 56 0, 0)"
  by (simp add: SettingsProtocolCodec_encode_def frame_layout)

lemma frame_head_facts [simp]:
  "length (frame_head f) = 56" "take 4 (frame_head f) = FrameMagic"
  "frame_head f ! 4 = 1" "frame_head f ! 5 = SettingsMessageType_byte (pf_type f)"
  "frame_head f ! 6 = SettingsProtocolStatus_byte (pf_status f)" "frame_head f ! 7 = 0"
  "readU16 (frame_head f) 8 = pf_requestId f" "readU16 (frame_head f) 10 = pf_payloadSize f"
  by (simp_all add: frame_head_def wire_simps) (simp add: blit_def)

lemma frame_image_facts:
  assumes "length (pf_payload f) = 40" and "unat (pf_payloadSize f) = k" and "k \<le> 40"
  shows "length (frame_image f) = 56" "take 4 (frame_image f) = FrameMagic"
    "frame_image f ! 4 = 1" "frame_image f ! 5 = SettingsMessageType_byte (pf_type f)"
    "frame_image f ! 6 = SettingsProtocolStatus_byte (pf_status f)" "frame_image f ! 7 = 0"
    "readU16 (frame_image f) 8 = pf_requestId f" "readU16 (frame_image f) 10 = pf_payloadSize f"
    "take k (drop 12 (frame_image f)) = take k (pf_payload f)"
    "readU32 (frame_image f) (12 + k) = crc32 (frame_image f) (12 + k)"
proof -
  let ?e = "blit (frame_head f) 12 (take k (pf_payload f))"
  have len: "length ?e = 56" "length (take k (pf_payload f)) = k" using assms by simp_all
  have crc: "crc32 (writeU32 ?e (12 + k) v) (12 + k) = crc32 ?e (12 + k)" for v
    using len assms(3) by (intro crc32_cong) (simp_all add: wire_simps)
  have img: "frame_image f = writeU32 ?e (12 + k) (crc32 ?e (12 + k))"
    using assms(2) by (simp add: frame_image_def Let_def)
  show "length (frame_image f) = 56" "take 4 (frame_image f) = FrameMagic"
    "frame_image f ! 4 = 1" "frame_image f ! 5 = SettingsMessageType_byte (pf_type f)"
    "frame_image f ! 6 = SettingsProtocolStatus_byte (pf_status f)" "frame_image f ! 7 = 0"
    "readU16 (frame_image f) 8 = pf_requestId f" "readU16 (frame_image f) 10 = pf_payloadSize f"
    unfolding img using len assms(3) by (simp_all add: wire_simps nth_blit)
  show "take k (drop 12 (frame_image f)) = take k (pf_payload f)"
    unfolding img using len assms(3) by (simp add: wire_simps slice_blit)
  show "readU32 (frame_image f) (12 + k) = crc32 (frame_image f) (12 + k)"
    unfolding img crc using len assms(3) by (simp add: wire_simps)
qed

lemma decode_frame_image:
  assumes "frame_wf f"
  shows "SettingsProtocolCodec_decode (Some (frame_image f)) (frame_size f) =
    \<lparr>fdr_status = FD_Ok, fdr_frame = f\<rparr>"
proof -
  let ?k = "unat (pf_payloadSize f)"
  have wf: "length (pf_payload f) = 40" "?k \<le> 40"
    "drop ?k (pf_payload f) = replicate (40 - ?k) 0"
    using assms by (simp_all add: frame_wf_def)
  have "blit blank_payload 0 (take ?k (pf_payload f)) =
      take ?k (pf_payload f) @ drop ?k (pf_payload f)"
    using wf by (simp add: blit_def blank_payload_def UserSettingsPayloadSize_def)
  then have "blit blank_payload 0 (take ?k (pf_payload f)) = pf_payload f" by simp
  with frame_image_facts [OF wf(1) refl wf(2)] wf(2) assms show ?thesis
    by (simp add: SettingsProtocolCodec_decode_def frame_layout frame_size_def frame_wf_def)
qed

text \<open>Only sealed byte sequences decode, and each is the encoding of the frame it decodes to.\<close>

lemma decode_ok:
  assumes "SettingsProtocolCodec_decode (Some e) n = r" and "fdr_status r = FD_Ok"
  shows "take 4 e = FrameMagic" "e ! 4 = 1" "e ! 7 = 0" "unat (readU16 e 10) \<le> 40"
    "n = 16 + unat (readU16 e 10)"
    "readU32 e (n - 4) = crc32 e (n - 4)"
    "fdr_frame r = \<lparr>pf_type = SettingsMessageType_of (e ! 5),
       pf_status = SettingsProtocolStatus_of (e ! 6), pf_requestId = readU16 e 8,
       pf_payloadSize = readU16 e 10,
       pf_payload = blit blank_payload 0 (take (unat (readU16 e 10)) (drop 12 e))\<rparr>"
  using assms
  by (auto simp: SettingsProtocolCodec_decode_def decode_failed_def
      SettingsFrameDecodeResult_default_def frame_layout Let_def split: if_splits)

lemma take_blit:
  assumes "take off b = take off p" and "off + k \<le> length b" and "length b \<le> length p"
  shows "take (off + k) (blit b off (take k (drop off p))) = take (off + k) p"
  using assms by (auto simp: blit_def take_add min_def)

lemma decode_is_image:
  assumes "SettingsProtocolCodec_decode (Some e) n = r" and "fdr_status r = FD_Ok"
    and "length e = 56"
  shows "frame_wf (fdr_frame r)" and "frame_size (fdr_frame r) = n"
    and "take n (frame_image (fdr_frame r)) = take n e"
proof -
  note ok = decode_ok [OF assms(1,2)]
  let ?f = "fdr_frame r"
  define k where "k = unat (readU16 e 10)"
  have k: "k \<le> 40" "n = 16 + k" using ok(4,5) by (simp_all add: k_def)
  have payload: "take k (pf_payload ?f) = take k (drop 12 e)" "length (pf_payload ?f) = 40"
    "drop k (pf_payload ?f) = replicate (40 - k) 0"
    using assms(3) k(1)
    by (simp_all add: ok(7) k_def [symmetric] blit_def blank_payload_def UserSettingsPayloadSize_def)
  show "frame_size ?f = n" using k(2) by (simp add: frame_size_def ok(7) k_def)
  show "frame_wf ?f"
    using payload k(1) ok(7) by (simp add: frame_wf_def k_def)
  let ?b0 = "blit (replicate 56 0) 0 FrameMagic"
  let ?b1 = "?b0[4 := e ! 4, 5 := e ! 5, 6 := e ! 6, 7 := e ! 7]"
  have "take 4 ?b0 = take 4 e" using ok(1) by (simp add: blit_def)
  then have "take 8 ?b1 = take 8 e"
    using take_update [of 4 ?b0 e] take_update [of 5 "?b0[4 := e ! 4]" e]
      take_update [of 6 "?b0[4 := e ! 4, 5 := e ! 5]" e]
      take_update [of 7 "?b0[4 := e ! 4, 5 := e ! 5, 6 := e ! 6]" e] assms(3)
    by (simp add: eval_nat_numeral)
  moreover have "frame_head ?f = writeU16 (writeU16 ?b1 8 (readU16 e 8)) 10 (readU16 e 10)"
    by (simp add: frame_head_def ok(2,3,7))
  ultimately have "take 12 (frame_head ?f) = take 12 e"
    using take_writeU16 [of 8 ?b1 e] take_writeU16 [of 10 "writeU16 ?b1 8 (readU16 e 8)" e] assms(3)
    by simp
  then have body: "take (12 + k) (blit (frame_head ?f) 12 (take k (drop 12 e))) = take (12 + k) e"
    using take_blit [of 12 "frame_head ?f" e k] k(1) assms(3) by simp
  have "crc32 (blit (frame_head ?f) 12 (take k (drop 12 e))) (12 + k) = readU32 e (12 + k)"
    using crc32_cong [OF body] ok(6) k assms(3) by simp
  with take_writeU32 [OF body] k assms(3) payload(1) show "take n (frame_image ?f) = take n e"
    by (simp add: frame_image_def Let_def ok(7) k_def [symmetric] add.commute)
qed

section \<open>What the service promises\<close>

lemma responseFor_simps [simp]:
  "pf_type (responseFor q t st) = t" "pf_status (responseFor q t st) = st"
  "pf_requestId (responseFor q t st) = pf_requestId q"
  "pf_payloadSize (responseFor q t st) = 0" "pf_payload (responseFor q t st) = blank_payload"
  by (simp_all add: responseFor_def SettingsProtocolFrame_default_def)

lemma length_blank_payload [simp]: "length blank_payload = 40"
  by (simp add: blank_payload_def UserSettingsPayloadSize_def)

text \<open>The types and statuses the service answers with have names.\<close>

definition response_named :: "SettingsProtocolFrame \<Rightarrow> bool" where
  "response_named f \<longleftrightarrow> pf_type f \<in> {MT_ReadResponse, MT_WriteResponse, MT_IdentifyResponse,
     MT_ErrorResponse} \<and> (\<forall>b. pf_status f \<noteq> PS_Unnamed b)"

lemma response_named_wf:
  assumes "response_named f" and "length (pf_payload f) = 40" and "unat (pf_payloadSize f) \<le> 40"
    and "drop (unat (pf_payloadSize f)) (pf_payload f) =
      replicate (40 - unat (pf_payloadSize f)) 0"
  shows "frame_wf f"
proof -
  have "SettingsProtocolStatus_of (SettingsProtocolStatus_byte (pf_status f)) = pf_status f"
    using assms(1)
    by (cases "pf_status f") (simp_all add: response_named_def SettingsProtocolStatus_of_def)
  moreover have "SettingsMessageType_of (SettingsMessageType_byte (pf_type f)) = pf_type f"
    using assms(1) by (auto simp: response_named_def SettingsMessageType_of_def)
  ultimately show ?thesis using assms(2-4) by (simp add: frame_wf_def)
qed

lemma responseFor_wf:
  "t \<in> {MT_ReadResponse, MT_WriteResponse, MT_IdentifyResponse, MT_ErrorResponse} \<Longrightarrow>
     \<forall>b. st \<noteq> PS_Unnamed b \<Longrightarrow> frame_wf (responseFor q t st)"
  by (rule response_named_wf) (simp_all add: response_named_def blank_payload_def
      UserSettingsPayloadSize_def)

lemma identity_payload:
  assumes "encodeSettingsDeviceIdentity identity blank_payload = (ok, p)"
  shows "ok \<and> length p = 40 \<and> drop 12 p = replicate 28 0"
  using assms
  by (auto simp: encodeSettingsDeviceIdentity_def SettingsDeviceProductSignature_def blit_def
      writeU32_def)

text \<open>The answer to an identification carries the identity.\<close>

lemma decode_identity_payload:
  assumes "encodeSettingsDeviceIdentity identity blank_payload = (ok, p)"
    and "SettingsHardwareTarget_of (SettingsHardwareTarget_byte (hardwareTarget identity)) =
      hardwareTarget identity"
  shows "decodeSettingsDeviceIdentity p 12 before = (True, identity)"
proof -
  have p: "p = writeU32 ((blit (replicate 40 0) 0 SettingsDeviceProductSignature)
      [4 := SettingsHardwareTarget_byte (hardwareTarget identity), 5 := firmwareMajor identity,
       6 := firmwareMinor identity, 7 := firmwarePatch identity]) 8 (capabilities identity)"
    using assms(1) by (simp add: encodeSettingsDeviceIdentity_def)
  have "take 4 p = SettingsDeviceProductSignature" "length SettingsDeviceProductSignature = 4"
    unfolding p by (simp_all add: wire_simps SettingsDeviceProductSignature_def blit_def)
  moreover have "p ! 4 = SettingsHardwareTarget_byte (hardwareTarget identity)"
    "p ! 5 = firmwareMajor identity" "p ! 6 = firmwareMinor identity"
    "p ! 7 = firmwarePatch identity" "readU32 p 8 = capabilities identity"
    unfolding p by (simp_all add: wire_simps SettingsDeviceProductSignature_def)
  ultimately show ?thesis
    using assms(2)
    by (simp add: decodeSettingsDeviceIdentity_def SettingsDeviceIdentityPayloadSize_def)
qed

definition write_allowed :: "SettingsProtocolFrame \<Rightarrow> SettingsProtocolAccess \<Rightarrow> bool" where
  "write_allowed request access \<longleftrightarrow>
     pf_type request = MT_WriteRequest \<and> pf_status request = PS_Ok \<and>
     unat (pf_payloadSize request) = 40 \<and> authorized access \<and>
     acc_controllerState access = CS_Idle"

definition read_allowed :: "SettingsProtocolFrame \<Rightarrow> SettingsProtocolAccess \<Rightarrow> bool" where
  "read_allowed request access \<longleftrightarrow>
     pf_type request = MT_ReadRequest \<and> pf_status request = PS_Ok \<and>
     pf_payloadSize request = 0 \<and> authorized access"

context settings_store
begin

lemma read_law:
  assumes "usable e"
  shows "handleRead store request e =
    (case stored e of
       None \<Rightarrow> (responseFor request MT_ReadResponse PS_SettingsUnavailable, e)
     | Some s \<Rightarrow> ((responseFor request MT_ReadResponse PS_Ok)
         \<lparr>pf_payload := payload_image s, pf_payloadSize := 40\<rparr>, e))"
  using load_law [OF assms] stored_law [OF assms]
  by (auto simp: handleRead_def encode_valid UserSettingsPayloadSize_def responseFor_def
      split: option.splits)

lemma write_law:
  assumes "usable e" and "write_allowed request access" and "length (pf_payload request) = 40"
    and "handleWrite store request access e = (response, e')"
  shows "usable e' \<and>
    (\<exists>st. response = responseFor request MT_WriteResponse st \<and>
       (if st = PS_Ok then \<exists>s. stored e' = Some s \<and> settings_in_range s \<and>
          pf_payload request = payload_image s
        else st \<in> {PS_InvalidSettings, PS_StorageFailure} \<and> stored e' = stored e))"
proof -
  obtain ok s where d: "decodeUserSettingsPayload (pf_payload request) 40 UserSettings_default =
      (ok, s)" by fastforce
  note decoded = decode_cases [OF d]
  show ?thesis
  proof (cases ok)
    case False
    with assms d show ?thesis by (auto simp: handleWrite_def write_allowed_def)
  next
    case True
    with decoded have s: "settings_in_range s" "payload_image s = pf_payload request"
      using payload_image_decoded [OF assms(3)] by auto
    obtain saved e1 where save: "store_save store s e = (saved, e1)" by fastforce
    have "(response, e') = (responseFor request MT_WriteResponse
        (if saved then PS_Ok else PS_StorageFailure), e1)"
      using assms(2,4) d True save by (auto simp: handleWrite_def write_allowed_def)
    with save_law [OF assms(1) save] s show ?thesis by auto
  qed
qed

lemma handle_cases:
  assumes "SettingsProtocolService_handle store identity request access e = (response, e')"
  obtains
    (refused) t st where "e' = e" "response = responseFor request t st" "st \<noteq> PS_Ok"
      "t \<in> {MT_ReadResponse, MT_WriteResponse, MT_IdentifyResponse, MT_ErrorResponse}"
      "\<forall>b. st \<noteq> PS_Unnamed b" "\<not> write_allowed request access" "\<not> read_allowed request access"
  | (identified) "e' = e" "response = handleIdentify identity request" "authorized access"
      "pf_type request = MT_IdentifyRequest"
  | (granted) "read_allowed request access" "handleRead store request e = (response, e')"
  | (stored) "write_allowed request access" "handleWrite store request access e = (response, e')"
proof (cases "write_allowed request access \<or> read_allowed request access")
  case True
  then show ?thesis
    using assms granted stored
    by (auto simp: SettingsProtocolService_handle_def responseType_of_def write_allowed_def
        read_allowed_def UserSettingsPayloadSize_def)
next
  case False
  show ?thesis
  proof (cases "pf_type request = MT_IdentifyRequest \<and> pf_status request = PS_Ok \<and>
      pf_payloadSize request = 0 \<and> authorized access")
    case True
    then show ?thesis
      using assms identified
      by (auto simp: SettingsProtocolService_handle_def responseType_of_def)
  next
    case no_identify: False
    have "\<exists>t st. e' = e \<and> response = responseFor request t st \<and> st \<noteq> PS_Ok \<and>
        t \<in> {MT_ReadResponse, MT_WriteResponse, MT_IdentifyResponse, MT_ErrorResponse} \<and>
        st \<in> {PS_UnsupportedMessage, PS_InvalidPayload, PS_Unauthorized, PS_Busy}"
      using assms False no_identify
      by (cases "pf_type request")
        (auto simp: SettingsProtocolService_handle_def responseType_of_def write_allowed_def
          read_allowed_def UserSettingsPayloadSize_def handleWrite_def split: if_splits)
    then show ?thesis using refused False by blast
  qed
qed

text \<open>The contract: a request changes what is stored only when it is an authorised write of a
  complete payload while the controller is idle, and then to the valid settings it carries; a read
  gives the stored settings; the answer has the identifier of the request and fits a frame.\<close>

lemma handle_law:
  assumes "usable e" and "length (pf_payload request) = 40"
    and "SettingsProtocolService_handle store identity request access e = (response, e')"
  shows "usable e' \<and> pf_requestId response = pf_requestId request \<and> frame_wf response \<and>
    (stored e' \<noteq> stored e \<longrightarrow> write_allowed request access \<and> pf_status response = PS_Ok) \<and>
    (write_allowed request access \<and> pf_status response = PS_Ok \<longrightarrow>
      (\<exists>s. stored e' = Some s \<and> settings_in_range s \<and> pf_payload request = payload_image s)) \<and>
    (read_allowed request access \<longrightarrow>
      (case stored e of None \<Rightarrow> pf_status response = PS_SettingsUnavailable
       | Some s \<Rightarrow> pf_status response = PS_Ok \<and> pf_payload response = payload_image s))"
  using assms(3)
proof (cases rule: handle_cases)
  case (refused t st)
  with assms(1) responseFor_wf [of t st request] show ?thesis by auto
next
  case identified
  obtain ok p where enc: "encodeSettingsDeviceIdentity identity blank_payload = (ok, p)"
    by fastforce
  note p = identity_payload [OF enc]
  have r: "response = (responseFor request MT_IdentifyResponse PS_Ok)
      \<lparr>pf_payload := p, pf_payloadSize := 12\<rparr>"
    using identified(2) enc p
    by (simp add: handleIdentify_def SettingsDeviceIdentityPayloadSize_def)
  have "frame_wf response"
    by (rule response_named_wf) (use p r in \<open>simp_all add: response_named_def\<close>)
  with identified(1,3,4) assms(1) r show ?thesis
    by (simp add: write_allowed_def read_allowed_def)
next
  case granted
  have "frame_wf ((responseFor request MT_ReadResponse PS_Ok)
      \<lparr>pf_payload := payload_image s, pf_payloadSize := 40\<rparr>)" for s
    by (rule response_named_wf) (simp_all add: response_named_def)
  with granted assms(1) read_law [OF assms(1), of request] show ?thesis
    by (auto simp: write_allowed_def read_allowed_def responseFor_wf split: option.splits)
next
  case stored
  from write_law [OF assms(1) stored(1) assms(2) stored(2)] stored(1) show ?thesis
    by (auto simp: read_allowed_def write_allowed_def responseFor_wf split: if_splits)
qed

end

section \<open>Properties\<close>

lemma default_frame_wf: "frame_wf SettingsProtocolFrame_default"
  by (simp add: frame_wf_def SettingsProtocolFrame_default_def SettingsMessageType_of_def
      SettingsProtocolStatus_of_def blank_payload_def UserSettingsPayloadSize_def)

text \<open>Frames and their encodings correspond one to one: a well-formed frame is encoded into a
  buffer that decodes to it; a buffer that decodes starts with the encoding of the frame it decodes
  to, which is well-formed; a payload that is too large is refused.\<close>

theorem frame_round_trip:
  "(frame_wf f \<longrightarrow>
      (\<exists>e n. SettingsProtocolCodec_encode f = (True, e, n) \<and> n \<le> MaximumFrameSize \<and>
         SettingsProtocolCodec_decode (Some e) n = \<lparr>fdr_status = FD_Ok, fdr_frame = f\<rparr>)) \<and>
   (length buffer = MaximumFrameSize \<and>
      SettingsProtocolCodec_decode (Some buffer) m = \<lparr>fdr_status = FD_Ok, fdr_frame = g\<rparr> \<longrightarrow>
      frame_wf g \<and>
      (\<exists>e. SettingsProtocolCodec_encode g = (True, e, m) \<and> take m e = take m buffer)) \<and>
   (fst (SettingsProtocolCodec_encode f) \<longleftrightarrow> unat (pf_payloadSize f) \<le> UserSettingsPayloadSize)"
proof (intro conjI impI)
  assume "frame_wf f"
  then show "\<exists>e n. SettingsProtocolCodec_encode f = (True, e, n) \<and> n \<le> MaximumFrameSize \<and>
      SettingsProtocolCodec_decode (Some e) n = \<lparr>fdr_status = FD_Ok, fdr_frame = f\<rparr>"
    using encode_frame [of f] decode_frame_image [of f]
    by (simp add: frame_wf_def frame_layout frame_size_def)
next
  assume "length buffer = MaximumFrameSize \<and>
      SettingsProtocolCodec_decode (Some buffer) m = \<lparr>fdr_status = FD_Ok, fdr_frame = g\<rparr>"
  then have "frame_wf g" "frame_size g = m" "take m (frame_image g) = take m buffer"
    using decode_is_image [of buffer m] by (simp_all add: frame_layout)
  with encode_frame [of g] show "frame_wf g"
    "\<exists>e. SettingsProtocolCodec_encode g = (True, e, m) \<and> take m e = take m buffer"
    by (simp_all add: frame_wf_def)
next
  show "fst (SettingsProtocolCodec_encode f) \<longleftrightarrow>
      unat (pf_payloadSize f) \<le> UserSettingsPayloadSize"
    using encode_frame [of f] encode_too_large [of f]
    by (cases "unat (pf_payloadSize f) \<le> 40") (simp_all add: UserSettingsPayloadSize_def)
qed

lemma frame_round_trip_witness:
  "\<exists>e n. SettingsProtocolCodec_encode SettingsProtocolFrame_default = (True, e, n) \<and>
     SettingsProtocolCodec_decode (Some e) n =
       \<lparr>fdr_status = FD_Ok, fdr_frame = SettingsProtocolFrame_default\<rparr>"
  using frame_round_trip [of SettingsProtocolFrame_default] default_frame_wf by blast



end
