(* ===== verification/EspSettings.thy ===== *)
theory EspSettings
  imports SettingsProtocol
begin

text \<open>
  The ESP-IDF adapters of the settings (\<^verbatim>\<open>infrastructure/esp_idf_settings.hpp/.cpp\<close>): the byte
  storage kept in a blob of the NVS partition, and the USB serial transport.  The functions of the
  SDK are not in the repository: they are the fields of \<open>NvsApi\<close> and \<open>UsbApi\<close>, arbitrary functions
  on an arbitrary world.  The null-pointer guards of \<^verbatim>\<open>read\<close>, \<^verbatim>\<open>write\<close> and \<^verbatim>\<open>send\<close> have no counterpart:
  a buffer is a list.
\<close>

section \<open>The SDK\<close>

datatype esp_err = ESP_OK | ESP_ERR_NVS_NOT_FOUND | ESP_ERR_other

record 'w NvsApi =
  nvs_flash_init_partition :: "string \<Rightarrow> 'w \<Rightarrow> esp_err \<times> 'w"
  nvs_open_from_partition :: "string \<Rightarrow> string \<Rightarrow> 'w \<Rightarrow> (esp_err \<times> u32) \<times> 'w"
  nvs_get_blob :: "u32 \<Rightarrow> string \<Rightarrow> u8 list \<Rightarrow> nat \<Rightarrow> 'w \<Rightarrow> (esp_err \<times> u8 list \<times> nat) \<times> 'w"
  nvs_set_blob :: "u32 \<Rightarrow> string \<Rightarrow> u8 list \<Rightarrow> 'w \<Rightarrow> esp_err \<times> 'w"
  nvs_commit :: "u32 \<Rightarrow> 'w \<Rightarrow> esp_err \<times> 'w"
  nvs_close :: "u32 \<Rightarrow> 'w \<Rightarrow> 'w"

definition NvsPartition :: string where "NvsPartition = ''nvs''"
definition NvsNamespace :: string where "NvsNamespace = ''bmw_remote''"
definition SettingsKey :: string where "SettingsKey = ''settings''"

section \<open>The NVS byte storage\<close>

record EspIdfNvsSettingsStorage =
  nvs_handle :: u32
  nvs_committed :: "u8 list"
  nvs_pending :: "u8 list"
  nvs_ready :: bool
  nvs_dirty :: bool

definition EspIdfNvsSettingsStorage_default :: EspIdfNvsSettingsStorage where
  "EspIdfNvsSettingsStorage_default =
     \<lparr>nvs_handle = 0, nvs_committed = replicate RequiredCapacity 0,
      nvs_pending = replicate RequiredCapacity 0, nvs_ready = False, nvs_dirty = False\<rparr>"

type_synonym 'w nvs_storage = "EspIdfNvsSettingsStorage \<times> 'w"

definition nvs_destroy :: "'w NvsApi \<Rightarrow> 'w nvs_storage \<Rightarrow> 'w" where
  "nvs_destroy api = (\<lambda>(st, w). if nvs_handle st \<noteq> 0 then nvs_close api (nvs_handle st) w else w)"

definition nvs_begin :: "'w NvsApi \<Rightarrow> 'w nvs_storage \<Rightarrow> bool \<times> 'w nvs_storage" where
  "nvs_begin api = (\<lambda>(st, w).
     if nvs_ready st then (True, st, w)
     else
      (let (initialised, w) = nvs_flash_init_partition api NvsPartition w in
       if initialised \<noteq> ESP_OK then (False, st\<lparr>nvs_handle := 0\<rparr>, w)
       else
        (let ((opened, handle), w) = nvs_open_from_partition api NvsPartition NvsNamespace w in
         if opened \<noteq> ESP_OK then (False, st\<lparr>nvs_handle := 0\<rparr>, w)
         else
          (let st = st\<lparr>nvs_handle := handle,
                      nvs_committed := replicate (length (nvs_committed st)) 0xFF\<rparr>;
               ((loadResult, bytes, storedSize), w) =
                 nvs_get_blob api handle SettingsKey (nvs_committed st)
                   (length (nvs_committed st)) w;
               st = st\<lparr>nvs_committed := bytes\<rparr>
           in
           if loadResult \<noteq> ESP_OK \<and> loadResult \<noteq> ESP_ERR_NVS_NOT_FOUND
           then (False, st\<lparr>nvs_handle := 0\<rparr>, nvs_close api handle w)
           else if loadResult = ESP_OK \<and> storedSize \<noteq> length (nvs_committed st)
           then (False, st\<lparr>nvs_handle := 0\<rparr>, nvs_close api handle w)
           else (True, st\<lparr>nvs_pending := nvs_committed st, nvs_dirty := False,
                          nvs_ready := True\<rparr>, w)))))"

definition nvs_validRange :: "nat \<Rightarrow> nat \<Rightarrow> bool" where
  "nvs_validRange offset n \<longleftrightarrow> offset \<le> RequiredCapacity \<and> n \<le> RequiredCapacity - offset"

definition nvs_read ::
    "nat \<Rightarrow> nat \<Rightarrow> 'w nvs_storage \<Rightarrow> u8 list option \<times> 'w nvs_storage" where
  "nvs_read offset n = (\<lambda>(st, w).
     if \<not> nvs_ready st \<or> \<not> nvs_validRange offset n then (None, st, w)
     else (Some (map (\<lambda>index. nvs_committed st ! (offset + index)) [0..<n]), st, w))"

definition nvs_write :: "nat \<Rightarrow> u8 list \<Rightarrow> 'w nvs_storage \<Rightarrow> bool \<times> 'w nvs_storage" where
  "nvs_write offset source = (\<lambda>(st, w).
     if \<not> nvs_ready st \<or> \<not> nvs_validRange offset (length source) then (False, st, w)
     else (True, st\<lparr>nvs_pending := blit (nvs_pending st) offset source,
                    nvs_dirty := nvs_dirty st \<or> length source \<noteq> 0\<rparr>, w))"

definition nvs_store :: "'w NvsApi \<Rightarrow> 'w nvs_storage \<Rightarrow> bool \<times> 'w nvs_storage" where
  "nvs_store api = (\<lambda>(st, w).
     if \<not> nvs_ready st then (False, st, w)
     else if \<not> nvs_dirty st then (True, st, w)
     else
      (let (stored, w) = nvs_set_blob api (nvs_handle st) SettingsKey (nvs_pending st) w;
           (committed, w) =
             (if stored \<noteq> ESP_OK then (stored, w) else nvs_commit api (nvs_handle st) w)
       in
       if stored \<noteq> ESP_OK \<or> committed \<noteq> ESP_OK
       then (False, st\<lparr>nvs_pending := nvs_committed st, nvs_dirty := False\<rparr>, w)
       else (True, st\<lparr>nvs_committed := nvs_pending st, nvs_dirty := False\<rparr>, w)))"

definition nvs_byte_storage :: "'w NvsApi \<Rightarrow> 'w nvs_storage SettingsByteStorage" where
  "nvs_byte_storage api =
     \<lparr>bs_capacity = (\<lambda>(st, w). length (nvs_committed st)), bs_read = nvs_read,
      bs_write = nvs_write, bs_commit = nvs_store api\<rparr>"

section \<open>The adapter keeps the contract of a byte storage\<close>

definition nvs_open :: "'w nvs_storage \<Rightarrow> bool" where
  "nvs_open = (\<lambda>(st, w). nvs_ready st \<and> length (nvs_committed st) = 128 \<and>
     length (nvs_pending st) = 128 \<and> (\<not> nvs_dirty st \<longrightarrow> nvs_pending st = nvs_committed st))"

lemma nvs_range: "nvs_validRange off n \<longleftrightarrow> off + n \<le> 128"
  by (auto simp: nvs_validRange_def storage_layout)

interpretation nvs: byte_storage "nvs_byte_storage api"
    "\<lambda>(st, w). nvs_committed st" "\<lambda>(st, w). nvs_pending st" nvs_open
proof
  fix e :: "'a nvs_storage" and off n bs ok e'
  assume open_e: "nvs_open e"
  obtain st w where e: "e = (st, w)" by fastforce
  show "bs_capacity (nvs_byte_storage api) e = length ((\<lambda>(st, w). nvs_committed st) e) \<and>
      length ((\<lambda>(st, w). nvs_pending st) e) = length ((\<lambda>(st, w). nvs_committed st) e)"
    using open_e by (simp add: e nvs_open_def nvs_byte_storage_def)
  show "bs_read (nvs_byte_storage api) off n e =
      (Some (take n (drop off ((\<lambda>(st, w). nvs_committed st) e))), e)"
    if "off + n \<le> length ((\<lambda>(st, w). nvs_committed st) e)"
    using open_e that
    by (auto simp: e nvs_open_def nvs_byte_storage_def nvs_read_def nvs_range
        list_eq_iff_nth_eq)
  show "nvs_open e' \<and> (\<lambda>(st, w). nvs_committed st) e' = (\<lambda>(st, w). nvs_committed st) e \<and>
      (\<lambda>(st, w). nvs_pending st) e' =
        (if ok then blit ((\<lambda>(st, w). nvs_pending st) e) off bs else (\<lambda>(st, w). nvs_pending st) e)"
    if "off + length bs \<le> length ((\<lambda>(st, w). nvs_committed st) e)"
      and "bs_write (nvs_byte_storage api) off bs e = (ok, e')"
    using open_e that
    by (auto simp: e nvs_open_def nvs_byte_storage_def nvs_write_def nvs_range blit_def)
  show "nvs_open e' \<and> (\<lambda>(st, w). nvs_pending st) e' = (\<lambda>(st, w). nvs_committed st) e' \<and>
      (\<lambda>(st, w). nvs_committed st) e' =
        (if ok then (\<lambda>(st, w). nvs_pending st) e else (\<lambda>(st, w). nvs_committed st) e)"
    if "bs_commit (nvs_byte_storage api) e = (ok, e')"
    using open_e that
    by (auto simp: e nvs_open_def nvs_byte_storage_def nvs_store_def Let_def
        split: if_splits prod.splits)
qed

lemma nvs_holds_journal:
  "nvs.holds_journal (st, w) \<longleftrightarrow> nvs_open (st, w) \<and> nvs_pending st = nvs_committed st"
  unfolding nvs.holds_journal_def by (auto simp: nvs_open_def)

lemma nvs_clean:
  "nvs_open (st, w) \<Longrightarrow> \<not> nvs_dirty st \<Longrightarrow> nvs.holds_journal (st, w)"
  unfolding nvs_holds_journal by (simp add: nvs_open_def)

lemma nvs_load:
  assumes "nvs_open (st, w)" and "\<not> nvs_dirty st"
  shows "JournaledUserSettingsStore_load (nvs_byte_storage api) s (st, w) =
    (case stored_in (nvs_committed st) of
       None \<Rightarrow> ((False, s), st, w) | Some t \<Rightarrow> ((True, t), st, w))"
  using nvs.load_stored [OF nvs_clean [OF assms]] by simp

lemma nvs_fail_safe_load:
  assumes "nvs_open (st, w)" and "\<not> nvs_dirty st"
  shows "loadUserSettingsFailSafe (journaled_store (nvs_byte_storage api)) (st, w) =
    (case stored_in (nvs_committed st) of
       None \<Rightarrow> ((False, UserSettings_default\<lparr>us_remoteStartEnabled := False\<rparr>), st, w)
     | Some t \<Rightarrow> ((True, t), st, w))"
  using nvs.journal.fail_safe_load [OF nvs_clean [OF assms]] by simp

section \<open>Across a restart\<close>

text \<open>
  What the SDK documents of a blob, as far as the adapter relies on it: \<open>flash\<close> is the value a
  restart finds.  A failed call leaves the old or the new value, never a mixture.
\<close>

definition nvs_quiet :: "'w NvsApi \<Rightarrow> ('w \<Rightarrow> u8 list option) \<Rightarrow> bool" where
  "nvs_quiet api flash \<longleftrightarrow>
     (\<forall>p w r w'. nvs_flash_init_partition api p w = (r, w') \<longrightarrow> flash w' = flash w) \<and>
     (\<forall>p n w r w'. nvs_open_from_partition api p n w = (r, w') \<longrightarrow> flash w' = flash w) \<and>
     (\<forall>h w. flash (nvs_close api h w) = flash w)"

definition nvs_finds :: "'w NvsApi \<Rightarrow> ('w \<Rightarrow> u8 list option) \<Rightarrow> bool" where
  "nvs_finds api flash \<longleftrightarrow>
     (\<forall>h b w err b' n w'. nvs_get_blob api h SettingsKey b (length b) w = ((err, b', n), w') \<longrightarrow>
        flash w' = flash w \<and>
        (flash w = None \<longrightarrow> err = ESP_ERR_NVS_NOT_FOUND \<and> b' = b) \<and>
        (\<forall>d. flash w = Some d \<and> length d = length b \<longrightarrow>
           err = ESP_OK \<and> b' = d \<and> n = length d))"

definition nvs_keeps :: "'w NvsApi \<Rightarrow> ('w \<Rightarrow> u8 list option) \<Rightarrow> bool" where
  "nvs_keeps api flash \<longleftrightarrow>
     (\<forall>h b w err w1. nvs_set_blob api h SettingsKey b w = (err, w1) \<longrightarrow>
        flash w1 = flash w \<or> flash w1 = Some b) \<and>
     (\<forall>h b w w1 err w2. nvs_set_blob api h SettingsKey b w = (ESP_OK, w1) \<and>
        nvs_commit api h w1 = (err, w2) \<longrightarrow>
        flash w2 = Some b \<or> (err \<noteq> ESP_OK \<and> flash w2 = flash w))"

definition nvs_durable :: "'w NvsApi \<Rightarrow> ('w \<Rightarrow> u8 list option) \<Rightarrow> bool" where
  "nvs_durable api flash \<longleftrightarrow>
     nvs_quiet api flash \<and> nvs_finds api flash \<and> nvs_keeps api flash"

definition flash_image :: "u8 list option \<Rightarrow> u8 list" where
  "flash_image blob = (case blob of None \<Rightarrow> replicate 128 0xFF | Some d \<Rightarrow> d)"

lemma nvs_durable_quiet:
  assumes "nvs_durable api flash"
  shows "nvs_flash_init_partition api p w = (r, w1) \<Longrightarrow> flash w1 = flash w"
    and "nvs_open_from_partition api p n w = (q, w2) \<Longrightarrow> flash w2 = flash w"
  using assms unfolding nvs_durable_def nvs_quiet_def by blast+

lemma nvs_durable_get:
  assumes "nvs_durable api flash"
    and "nvs_get_blob api h SettingsKey (replicate 128 0xFF) 128 w = ((err, b, n), w')"
    and "length (flash_image (flash w)) = 128"
  shows "flash w' = flash w \<and> b = flash_image (flash w)"
proof -
  let ?b = "replicate 128 0xFF :: u8 list"
  have law: "nvs_finds api flash" using assms(1) by (simp add: nvs_durable_def)
  from assms(2) have "nvs_get_blob api h SettingsKey ?b (length ?b) w = ((err, b, n), w')" by simp
  from law [unfolded nvs_finds_def, rule_format, OF this] assms(3) show ?thesis
    by (cases "flash w") (auto simp: flash_image_def)
qed

lemma nvs_durable_set:
  assumes "nvs_durable api flash" and "nvs_set_blob api h SettingsKey b w = (err, w1)"
  shows "flash w1 = flash w \<or> flash w1 = Some b"
    and "err = ESP_OK \<Longrightarrow> nvs_commit api h w1 = (err', w2) \<Longrightarrow>
      flash w2 = Some b \<or> (err' \<noteq> ESP_OK \<and> flash w2 = flash w)"
  using assms unfolding nvs_durable_def nvs_keeps_def by blast+

lemma nvs_begin_image:
  assumes "nvs_durable api flash" and "length (flash_image (flash w)) = 128"
    and "nvs_begin api (EspIdfNvsSettingsStorage_default, w) = (True, st, w')"
  shows "nvs_open (st, w') \<and> \<not> nvs_dirty st \<and> nvs_committed st = flash_image (flash w) \<and>
    flash w' = flash w"
proof -
  obtain r1 w1 where i: "nvs_flash_init_partition api NvsPartition w = (r1, w1)" by fastforce
  obtain r2 h w2 where o: "nvs_open_from_partition api NvsPartition NvsNamespace w1 = ((r2, h), w2)"
    by (metis surj_pair)
  obtain r3 b n w3 where
    g: "nvs_get_blob api h SettingsKey (replicate 128 0xFF) 128 w2 = ((r3, b, n), w3)"
    by (metis surj_pair)
  have w2: "flash w2 = flash w"
    using nvs_durable_quiet [OF assms(1)] i o by metis
  with nvs_durable_get [OF assms(1) g] assms(2)
  have b: "flash w3 = flash w" "b = flash_image (flash w)" by simp_all
  have ok: "r1 = ESP_OK" "r2 = ESP_OK"
    using assms(3) i o
    by (auto simp: nvs_begin_def EspIdfNvsSettingsStorage_default_def split: if_splits)
  have "w' = w3 \<and> st = \<lparr>nvs_handle = h, nvs_committed = b, nvs_pending = b, nvs_ready = True,
      nvs_dirty = False\<rparr>"
    using assms(3) i o g ok
    by (simp add: nvs_begin_def EspIdfNvsSettingsStorage_default_def storage_layout Let_def
        split: if_splits)
  with b assms(2) show ?thesis by (simp add: nvs_open_def)
qed

text \<open>What a restart finds after a save that started in step with the flash.\<close>

lemma nvs_save_flash:
  assumes "nvs_durable api flash" and "nvs_open (st, w)" and "\<not> nvs_dirty st"
    and "flash_image (flash w) = nvs_committed st"
    and "JournaledUserSettingsStore_save (nvs_byte_storage api) s (st, w) = (ok, st', w')"
  shows "length (flash_image (flash w')) = 128 \<and>
    (stored_in (flash_image (flash w')) = Some s \<and> settings_in_range s \<or>
     \<not> ok \<and> stored_in (flash_image (flash w')) = stored_in (nvs_committed st))"
proof (cases "settings_in_range s")
  case False
  with assms nvs.save_invalid [OF False, of api "(st, w)"] show ?thesis
    by (simp add: nvs_open_def)
next
  case True
  let ?a = "slot_record (nvs_committed st) 0" and ?b = "slot_record (nvs_committed st) 1"
  obtain slot g where next_: "nextRecord ?a ?b = (slot, g)" by fastforce
  then have slot: "slot < 2" using nextRecord_slot [of ?a ?b] by simp
  let ?r = "record_image s g"
  let ?image = "blit (nvs_committed st) (slot * 64) ?r"
  have len: "length ?r = 56" "length (nvs_committed st) = 128"
    using record_image_facts(1) [OF True] assms(2) by (simp_all add: nvs_open_def)
  have new: "length ?image = 128" "stored_in ?image = Some s"
    using len slot stored_in_next [OF _ True next_] by (auto simp: less_2_cases_iff)
  have pend: "nvs_pending st = nvs_committed st" using assms(2,3) by (simp add: nvs_open_def)
  let ?st1 = "st\<lparr>nvs_pending := ?image, nvs_dirty := True\<rparr>"
  have wr: "bs_write (nvs_byte_storage api) (slot * 64) ?r (st, w) = (True, ?st1, w)"
    using assms(2,3) len slot pend
    by (auto simp: nvs_byte_storage_def nvs_write_def nvs_open_def nvs_range less_2_cases_iff)
  obtain committed st2 w2 where
    commit: "bs_commit (nvs_byte_storage api) (?st1, w) = (committed, st2, w2)"
    by (metis surj_pair)
  have "ok = committed" "w' = w2"
    using nvs.save_steps [OF nvs_clean [OF assms(2,3)] assms(5) True _ wr commit] next_
    by simp_all
  moreover have "flash w2 = Some ?image \<or> (\<not> committed \<and> flash w2 = flash w)"
  proof -
    obtain err w1 where set: "nvs_set_blob api (nvs_handle st) SettingsKey ?image w = (err, w1)"
      by fastforce
    obtain err' w3 where com: "nvs_commit api (nvs_handle st) w1 = (err', w3)" by fastforce
    show ?thesis
      using nvs_durable_set [OF assms(1) set] com commit set assms(2)
      by (auto simp: nvs_byte_storage_def nvs_store_def nvs_open_def split: if_splits)
  qed
  ultimately show ?thesis
    using new assms(4) len True by (auto simp: flash_image_def)
qed

section \<open>The USB transport\<close>

record 'w UsbApi =
  usb_serial_jtag_driver_install :: "nat \<Rightarrow> nat \<Rightarrow> 'w \<Rightarrow> esp_err \<times> 'w"
  usb_serial_jtag_read_bytes :: "nat \<Rightarrow> u32 \<Rightarrow> 'w \<Rightarrow> (int \<times> u8 list) \<times> 'w"
  usb_serial_jtag_write_bytes :: "u8 list \<Rightarrow> u32 \<Rightarrow> 'w \<Rightarrow> int \<times> 'w"

definition UsbReceiveBufferSize :: nat where "UsbReceiveBufferSize = 256"
definition UsbTransmitBufferSize :: nat where "UsbTransmitBufferSize = 256"
definition UsbWriteTimeoutMs :: u32 where "UsbWriteTimeoutMs = 100"

record EspIdfUsbSerialJtagSettingsTransport =
  usb_ready :: bool

definition usb_begin ::
    "'w UsbApi \<Rightarrow> EspIdfUsbSerialJtagSettingsTransport \<Rightarrow> 'w \<Rightarrow>
       bool \<times> EspIdfUsbSerialJtagSettingsTransport \<times> 'w" where
  "usb_begin api t w =
     (if usb_ready t then (True, t, w)
      else
       (let (err, w) =
              usb_serial_jtag_driver_install api UsbReceiveBufferSize UsbTransmitBufferSize w
        in (err = ESP_OK, t\<lparr>usb_ready := (err = ESP_OK)\<rparr>, w)))"

text \<open>The bytes received: a negative count is an error of the driver.  The driver is given the
  capacity of the buffer; its timeout is in ticks of one millisecond.\<close>

definition usb_read ::
    "'w UsbApi \<Rightarrow> EspIdfUsbSerialJtagSettingsTransport \<Rightarrow> nat \<Rightarrow> u32 \<Rightarrow> 'w \<Rightarrow> u8 list \<times> 'w" where
  "usb_read api t capacity timeoutMs w =
     (if \<not> usb_ready t then ([], w)
      else
       (let ((received, bytes), w) = usb_serial_jtag_read_bytes api capacity timeoutMs w
        in (if received > 0 then take (nat received) bytes else [], w)))"

definition usb_send ::
    "'w UsbApi \<Rightarrow> EspIdfUsbSerialJtagSettingsTransport \<Rightarrow> u8 list \<Rightarrow> 'w \<Rightarrow> bool \<times> 'w" where
  "usb_send api t bytes w =
     (if \<not> usb_ready t then (False, w)
      else
       (let (sent, w) = usb_serial_jtag_write_bytes api bytes UsbWriteTimeoutMs w
        in (sent \<ge> 0 \<and> nat sent = length bytes, w)))"

section \<open>Properties\<close>

text \<open>A platform whose NVS is one cell, that does what it is asked.\<close>

definition cell_api :: "u8 list option NvsApi" where
  "cell_api =
     \<lparr>nvs_flash_init_partition = (\<lambda>p w. (ESP_OK, w)),
      nvs_open_from_partition = (\<lambda>p n w. ((ESP_OK, 1), w)),
      nvs_get_blob = (\<lambda>h k b n w. case w of
         None \<Rightarrow> ((ESP_ERR_NVS_NOT_FOUND, b, n), w) | Some d \<Rightarrow> ((ESP_OK, d, length d), w)),
      nvs_set_blob = (\<lambda>h k b w. (ESP_OK, Some b)),
      nvs_commit = (\<lambda>h w. (ESP_OK, w)), nvs_close = (\<lambda>h w. w)\<rparr>"

lemma cell_api_durable: "nvs_durable cell_api id"
  by (auto simp: nvs_durable_def nvs_quiet_def nvs_finds_def nvs_keeps_def cell_api_def
      split: option.splits)

lemma cell_begin:
  "nvs_begin cell_api (EspIdfNvsSettingsStorage_default, None) =
     (True, \<lparr>nvs_handle = 1, nvs_committed = replicate 128 0xFF,
        nvs_pending = replicate 128 0xFF, nvs_ready = True, nvs_dirty = False\<rparr>, None)"
  by (simp add: nvs_begin_def cell_api_def EspIdfNvsSettingsStorage_default_def storage_layout)

text \<open>C9: Settings survive a restart whole or not at all: after a save and a restart, on an SDK whose
  calls may fail but keep the old or the new blob, the fail-safe load gives the new settings when
  the save succeeded, and when it failed either the new settings or what a load gave before; the
  settings it gives are valid, or the defaults with remote start disabled.\<close>

theorem settings_survive_restart:
  fixes store :: "('w nvs_storage) UserSettingsStore"
  assumes "nvs_durable api flash" and "length (flash_image (flash w)) = 128"
    and "nvs_begin api (EspIdfNvsSettingsStorage_default, w) = (True, st1, w1)"
    and "store = journaled_store (nvs_byte_storage api)"
    and "store_save store s (st1, w1) = (ok, st2, w2)"
    and "nvs_begin api (EspIdfNvsSettingsStorage_default, w2) = (True, st3, w3)"
  shows "fst (loadUserSettingsFailSafe store (st3, w3)) \<in>
      (if ok then {(True, s)}
       else {(True, s), fst (loadUserSettingsFailSafe store (st1, w1))}) \<and>
    (case fst (loadUserSettingsFailSafe store (st3, w3)) of (loaded, t) \<Rightarrow>
       if loaded then settings_in_range t
       else t = UserSettings_default\<lparr>us_remoteStartEnabled := False\<rparr>)"
proof -
  note first = nvs_begin_image [OF assms(1-3)]
  have "JournaledUserSettingsStore_save (nvs_byte_storage api) s (st1, w1) = (ok, st2, w2)"
    using assms(5) by (simp add: assms(4) journaled_store_def)
  note saved = nvs_save_flash [OF assms(1) _ _ _ this]
  have len: "length (flash_image (flash w2)) = 128" using saved first by simp
  note second = nvs_begin_image [OF assms(1) len assms(6)]
  have valid: "stored_in (nvs_committed st3) = Some t \<Longrightarrow> settings_in_range t" for t
    using stored_in_valid [of "nvs_committed st3" t] second len by simp
  show ?thesis
    using first second saved nvs_fail_safe_load [of st1 w1 api] nvs_fail_safe_load [of st3 w3 api]
      valid
    by (cases ok) (auto simp: assms(4) split: option.splits)
qed

lemma blank_slots:
  "slot_record (replicate 128 0xFF) 0 = DecodedRecord_default"
  "slot_record (replicate 128 0xFF) 1 = DecodedRecord_default"
  by (simp_all add: slot_record_def decodeRecord_def storage_layout StorageMagic_def)

lemma settings_survive_restart_witness:
  "\<exists>st1 w1 st2 w2 st3 w3.
     nvs_begin cell_api (EspIdfNvsSettingsStorage_default, None) = (True, st1, w1) \<and>
     store_save (journaled_store (nvs_byte_storage cell_api)) UserSettings_default (st1, w1) =
       (True, st2, w2) \<and>
     nvs_begin cell_api (EspIdfNvsSettingsStorage_default, w2) = (True, st3, w3) \<and>
     fst (loadUserSettingsFailSafe (journaled_store (nvs_byte_storage cell_api)) (st3, w3)) =
       (True, UserSettings_default)"
proof -
  let ?ff = "replicate 128 0xFF :: u8 list"
  define st1 where "st1 = \<lparr>nvs_handle = 1, nvs_committed = ?ff, nvs_pending = ?ff,
      nvs_ready = True, nvs_dirty = False\<rparr>"
  let ?r = "record_image UserSettings_default 1"
  have len: "length ?r = 56"
    using record_image_facts(1) [OF default_settings_in_range] .
  let ?image = "blit ?ff 0 ?r"
  let ?st2 = "st1\<lparr>nvs_pending := ?image, nvs_dirty := True\<rparr>"
  let ?st3 = "st1\<lparr>nvs_pending := ?image, nvs_committed := ?image\<rparr>"
  have begin1: "nvs_begin cell_api (EspIdfNvsSettingsStorage_default, None) = (True, st1, None)"
    unfolding st1_def by (rule cell_begin)
  have holds: "nvs.holds_journal (st1, None)"
    unfolding nvs_holds_journal by (simp add: nvs_open_def st1_def)
  have next_: "nextRecord (slot_record ?ff 0) (slot_record ?ff 1) = (0, 1)"
    unfolding blank_slots by (simp add: nextRecord_def DecodedRecord_default_def)
  have wr: "bs_write (nvs_byte_storage cell_api) (0 * 64) ?r (st1, None) = (True, ?st2, None)"
    using len by (simp add: nvs_byte_storage_def nvs_write_def nvs_range st1_def)
  have commit: "bs_commit (nvs_byte_storage cell_api) (?st2, None) =
      (True, ?st3, Some ?image)"
    by (simp add: nvs_byte_storage_def nvs_store_def cell_api_def st1_def)
  have save: "store_save (journaled_store (nvs_byte_storage cell_api)) UserSettings_default
      (st1, None) = (True, ?st3, Some ?image)"
    using nvs.save_steps [OF holds surjective_pairing default_settings_in_range _ wr commit] next_
    by (simp add: journaled_store_def st1_def prod_eq_iff)
  have limage: "length ?image = 128" using len by simp
  obtain st3 w3 where begin3:
    "nvs_begin cell_api (EspIdfNvsSettingsStorage_default, Some ?image) = (True, st3, w3)"
    using limage by (simp add: nvs_begin_def cell_api_def EspIdfNvsSettingsStorage_default_def
        storage_layout)
  have "fst (loadUserSettingsFailSafe (journaled_store (nvs_byte_storage cell_api)) (st3, w3)) =
      (True, UserSettings_default)"
    using settings_survive_restart [OF cell_api_durable _ begin1 refl save begin3]
    by (simp add: flash_image_def)
  with begin1 save begin3 show ?thesis by blast
qed

text \<open>C36: A save that is interrupted loses nothing: the store writes the slot that a load does not
  select, so whatever the slot holds afterwards, as long as it is no valid record, a load gives what
  it gave before; and a record damaged in at most four consecutive bytes is never valid.\<close>

theorem torn_save_keeps_previous:
  assumes "nvs_open (st, w)" and "\<not> nvs_dirty st"
    and "nextRecord (slot_record (nvs_committed st) 0) (slot_record (nvs_committed st) 1) = (slot, g)"
    and "length r = RecordSize"
    and "\<not> dr_valid (decodeRecord r) \<or> settings_in_range s \<and> burst_damage (snd (encodeRecord s g)) r"
    and "torn = blit (nvs_committed st) (slot * SlotSize) r"
  shows "fst (JournaledUserSettingsStore_load (nvs_byte_storage api) before
      (st\<lparr>nvs_committed := torn, nvs_pending := torn\<rparr>, w)) =
    fst (JournaledUserSettingsStore_load (nvs_byte_storage api) before (st, w))"
proof -
  have slot: "slot < 2"
    using nextRecord_slot [of "slot_record (nvs_committed st) 0" "slot_record (nvs_committed st) 1"]
      assms(3) by simp
  have len: "length r = 56" "length (nvs_committed st) = 128"
    using assms(1,4) by (simp_all add: storage_layout nvs_open_def)
  have invalid: "\<not> dr_valid (decodeRecord r)"
    using assms(5) damaged_record_invalid [of "record_image s g" r]
    by (auto simp: decode_record_image record_image_facts(1) record_image_def [symmetric])
  have same: "stored_in torn = stored_in (nvs_committed st)"
    using stored_in_torn [OF _ len(1) invalid assms(3)] len(2) by (simp add: assms(6) SlotSize_def)
  have "length torn = 128"
    using len slot by (auto simp: assms(6) SlotSize_def less_2_cases_iff)
  then have "nvs_open (st\<lparr>nvs_committed := torn, nvs_pending := torn\<rparr>, w)"
    using assms(1) by (simp add: nvs_open_def)
  with nvs_load [OF this] nvs_load [OF assms(1,2)] assms(2) same show ?thesis
    by (auto split: option.splits)
qed

lemma torn_save_keeps_previous_witness:
  "\<exists>st w torn. nvs_open (st, w :: u8 list option) \<and>
     torn = blit (nvs_committed st) (1 * SlotSize) (replicate RecordSize 0) \<and>
     fst (JournaledUserSettingsStore_load (nvs_byte_storage cell_api) UserSettings_default
       (st\<lparr>nvs_committed := torn, nvs_pending := torn\<rparr>, w)) =
       (True, UserSettings_default\<lparr>us_remoteStartEnabled := False\<rparr>)"
proof -
  let ?s = "UserSettings_default\<lparr>us_remoteStartEnabled := False\<rparr>"
  have valid: "settings_in_range ?s"
    by (simp add: settings_in_range_def UserSettings_default_def lock_timing_inconsistent_def
        FeatureRequests_valid_def FeatureRequests_default_def)
  let ?r = "record_image ?s 7"
  have len: "length ?r = 56" by (rule record_image_facts(1) [OF valid])
  let ?c = "blit (replicate 128 0xFF) (0 * 64) ?r"
  define st where "st = \<lparr>nvs_handle = 1, nvs_committed = ?c, nvs_pending = ?c, nvs_ready = True,
      nvs_dirty = False\<rparr>"
  have opened: "nvs_open (st, None)" using len by (simp add: nvs_open_def st_def)
  have slots: "slot_record ?c 0 = \<lparr>dr_settings = ?s, dr_generation = 7, dr_valid = True\<rparr>"
    "slot_record ?c 1 = DecodedRecord_default"
    using len slot_record_blit [of "replicate 128 0xFF" ?r 0 0]
      slot_record_blit [of "replicate 128 0xFF" ?r 0 1] decode_record_image [OF valid]
      blank_slots(2)
    by simp_all
  have next_: "nextRecord (slot_record (nvs_committed st) 0) (slot_record (nvs_committed st) 1) =
      (1, 8)"
    using slots by (simp add: st_def nextRecord_def DecodedRecord_default_def)
  have zero: "\<not> dr_valid (decodeRecord (replicate RecordSize 0))"
    by (simp add: decodeRecord_def storage_layout StorageMagic_def DecodedRecord_default_def)
  have before: "fst (JournaledUserSettingsStore_load (nvs_byte_storage cell_api)
      UserSettings_default (st, None)) = (True, ?s)"
    using nvs_load [OF opened, of cell_api UserSettings_default] slots
    by (simp add: st_def stored_in_def selectRecord_def DecodedRecord_default_def)
  have "\<not> nvs_dirty st" by (simp add: st_def)
  from torn_save_keeps_previous [OF opened this next_ _ disjI1 [OF zero] refl,
      of cell_api UserSettings_default] before opened
  show ?thesis by auto
qed

end
