(* ===== verification/TwaiSafety.thy ===== *)
theory TwaiSafety
  imports CanCore EspSettings
begin

text \<open>
  The hardware abstraction and the checks before the receive-only CAN controller may start
  (\<^verbatim>\<open>hardware_abstraction.hpp\<close>, \<^verbatim>\<open>twai_listen_only\<close>, \<^verbatim>\<open>bench_twai_config.hpp\<close>, \<^verbatim>\<open>esp_idf_hal\<close>).  The
  ESP-IDF calls are parameters; their state is the world \<open>'w\<close>.
\<close>

section \<open>Ports\<close>

datatype GpioLevel = GL_Low | GL_High

record 'w GpioHal =
  configureOutputInSafeState :: "u8 \<Rightarrow> GpioLevel \<Rightarrow> 'w \<Rightarrow> bool \<times> 'w"
  hal_write :: "u8 \<Rightarrow> GpioLevel \<Rightarrow> 'w \<Rightarrow> bool \<times> 'w"
  configureInput :: "u8 \<Rightarrow> 'w \<Rightarrow> bool \<times> 'w"
  hal_read :: "u8 \<Rightarrow> 'w \<Rightarrow> GpioLevel option \<times> 'w"

record 'w MonotonicTimeHal =
  hal_nowMs :: "'w \<Rightarrow> u32 \<times> 'w"
  hal_delayMs :: "u32 \<Rightarrow> 'w \<Rightarrow> 'w"

record 'e TwaiSafetyHal =
  holdHardwareSilent :: "'e \<Rightarrow> bool \<times> 'e"
  holdTransmitInhibited :: "'e \<Rightarrow> bool \<times> 'e"
  safeStateConfirmed :: "'e \<Rightarrow> bool \<times> 'e"

section \<open>The two hardware barriers\<close>

record TwaiSafetyPinConfig =
  silentPin :: int
  silentLevel :: GpioLevel
  transmitInhibitPin :: int
  transmitInhibitLevel :: GpioLevel

definition TwaiSafetyPinConfig_default :: TwaiSafetyPinConfig where
  "TwaiSafetyPinConfig_default =
     \<lparr>silentPin = -1, silentLevel = GL_High, transmitInhibitPin = -1,
      transmitInhibitLevel = GL_High\<rparr>"

definition TwaiSafetyPinConfig_isValid :: "TwaiSafetyPinConfig \<Rightarrow> bool" where
  "TwaiSafetyPinConfig_isValid c \<longleftrightarrow>
     silentPin c \<ge> 0 \<and> silentPin c \<le> 48 \<and>
     transmitInhibitPin c \<ge> 0 \<and> transmitInhibitPin c \<le> 48 \<and>
     silentPin c \<noteq> transmitInhibitPin c"

record GpioTwaiSafety =
  ts_config :: TwaiSafetyPinConfig
  silentHeld :: bool
  transmitInhibited :: bool

definition mkGpioTwaiSafety :: "TwaiSafetyPinConfig \<Rightarrow> GpioTwaiSafety" where
  "mkGpioTwaiSafety config =
     \<lparr>ts_config = config, silentHeld = False, transmitInhibited = False\<rparr>"

definition GpioTwaiSafetyHal_holdHardwareSilent ::
    "'w GpioHal \<Rightarrow> GpioTwaiSafety \<times> 'w \<Rightarrow> bool \<times> GpioTwaiSafety \<times> 'w" where
  "GpioTwaiSafetyHal_holdHardwareSilent gpio = (\<lambda>(t, w).
     if \<not> TwaiSafetyPinConfig_isValid (ts_config t) then (False, t\<lparr>silentHeld := False\<rparr>, w)
     else
      (let (held, w) = configureOutputInSafeState gpio (word_of_int (silentPin (ts_config t)))
             (silentLevel (ts_config t)) w
       in (held, t\<lparr>silentHeld := held\<rparr>, w)))"

definition GpioTwaiSafetyHal_holdTransmitInhibited ::
    "'w GpioHal \<Rightarrow> GpioTwaiSafety \<times> 'w \<Rightarrow> bool \<times> GpioTwaiSafety \<times> 'w" where
  "GpioTwaiSafetyHal_holdTransmitInhibited gpio = (\<lambda>(t, w).
     if \<not> TwaiSafetyPinConfig_isValid (ts_config t) then (False, t\<lparr>transmitInhibited := False\<rparr>, w)
     else
      (let (held, w) = configureOutputInSafeState gpio
             (word_of_int (transmitInhibitPin (ts_config t))) (transmitInhibitLevel (ts_config t)) w
       in (held, t\<lparr>transmitInhibited := held\<rparr>, w)))"

text \<open>The levels are read back; the second pin is not read when the first cannot be.\<close>

definition GpioTwaiSafetyHal_safeStateConfirmed ::
    "'w GpioHal \<Rightarrow> GpioTwaiSafety \<times> 'w \<Rightarrow> bool \<times> GpioTwaiSafety \<times> 'w" where
  "GpioTwaiSafetyHal_safeStateConfirmed gpio = (\<lambda>(t, w).
     let c = ts_config t in
     if \<not> TwaiSafetyPinConfig_isValid c \<or> \<not> silentHeld t \<or> \<not> transmitInhibited t
     then (False, t, w)
     else
      (case hal_read gpio (word_of_int (silentPin c)) w of
         (None, w) \<Rightarrow> (False, t, w)
       | (Some level, w) \<Rightarrow>
          (case hal_read gpio (word_of_int (transmitInhibitPin c)) w of
             (None, w) \<Rightarrow> (False, t, w)
           | (Some inhibit, w) \<Rightarrow>
               (level = silentLevel c \<and> inhibit = transmitInhibitLevel c, t, w))))"

definition GpioTwaiSafetyHal :: "'w GpioHal \<Rightarrow> (GpioTwaiSafety \<times> 'w) TwaiSafetyHal" where
  "GpioTwaiSafetyHal gpio =
     \<lparr>holdHardwareSilent = GpioTwaiSafetyHal_holdHardwareSilent gpio,
      holdTransmitInhibited = GpioTwaiSafetyHal_holdTransmitInhibited gpio,
      safeStateConfirmed = GpioTwaiSafetyHal_safeStateConfirmed gpio\<rparr>"

definition prepareTwaiListenOnlySafety :: "'e TwaiSafetyHal \<Rightarrow> 'e \<Rightarrow> bool \<times> 'e" where
  "prepareTwaiListenOnlySafety safety e =
     (let (silent, e) = holdHardwareSilent safety e in
      if \<not> silent then (False, e)
      else
       (let (inhibited, e) = holdTransmitInhibited safety e in
        if \<not> inhibited then (False, e) else safeStateConfirmed safety e))"

section \<open>The acquisition\<close>

record TwaiListenOnlyConfig =
  tc_receiver :: CanReceiverConfig
  receivePin :: int
  transmitPin :: int
  driverReceiveQueueDepth :: u16
  receiveTimeoutMs :: u16
  taskPriority :: u8
  taskCore :: "8 word"

definition TwaiListenOnlyConfig_default :: TwaiListenOnlyConfig where
  "TwaiListenOnlyConfig_default =
     \<lparr>tc_receiver = CanReceiverConfig_default, receivePin = -1, transmitPin = -1,
      driverReceiveQueueDepth = 64, receiveTimeoutMs = 10, taskPriority = 8, taskCore = 0\<rparr>"

definition TwaiListenOnlyConfig_isValid :: "TwaiListenOnlyConfig \<Rightarrow> bool" where
  "TwaiListenOnlyConfig_isValid c \<longleftrightarrow>
     CanReceiverConfig_isValid (tc_receiver c) \<and>
     receivePin c \<ge> 0 \<and> receivePin c \<le> 48 \<and>
     transmitPin c \<ge> 0 \<and> transmitPin c \<le> 48 \<and>
     receivePin c \<noteq> transmitPin c \<and>
     driverReceiveQueueDepth c > 0 \<and> driverReceiveQueueDepth c \<le> 256 \<and>
     receiveTimeoutMs c > 0 \<and> receiveTimeoutMs c \<le> 100 \<and>
     taskPriority c > 0 \<and> taskPriority c \<le> 24 \<and>
     (sint (taskCore c) = 0 \<or> sint (taskCore c) = 1)"

record BenchOnlyTwaiConfiguration =
  bc_enabled :: bool
  bc_safety :: TwaiSafetyPinConfig
  bc_acquisition :: TwaiListenOnlyConfig

definition BenchOnlyTwaiConfiguration_isValid :: "BenchOnlyTwaiConfiguration \<Rightarrow> bool" where
  "BenchOnlyTwaiConfiguration_isValid c \<longleftrightarrow>
     (let safety = bc_safety c; acquisition = bc_acquisition c in
      \<not> bc_enabled c \<or>
      (TwaiSafetyPinConfig_isValid safety \<and> TwaiListenOnlyConfig_isValid acquisition \<and>
       silentPin safety \<noteq> receivePin acquisition \<and>
       silentPin safety \<noteq> transmitPin acquisition \<and>
       transmitInhibitPin safety \<noteq> receivePin acquisition \<and>
       transmitInhibitPin safety \<noteq> transmitPin acquisition))"

definition configuredLevel :: "int \<Rightarrow> GpioLevel" where
  "configuredLevel level = (if level = 0 then GL_Low else GL_High)"

text \<open>The macros a build may set, and their defaults.\<close>

record BenchMacros =
  TWAI_ENABLED :: int
  TWAI_RX_GPIO :: int
  TWAI_TX_GPIO :: int
  SILENT_GPIO :: int
  TX_INHIBIT_GPIO :: int
  SILENT_LEVEL :: int
  TX_INHIBIT_LEVEL :: int
  BENCH_BITRATE :: int
  BENCH_CHANNEL :: int

definition BenchMacros_default :: BenchMacros where
  "BenchMacros_default =
     \<lparr>TWAI_ENABLED = 0, TWAI_RX_GPIO = -1, TWAI_TX_GPIO = -1, SILENT_GPIO = -1,
      TX_INHIBIT_GPIO = -1, SILENT_LEVEL = 1, TX_INHIBIT_LEVEL = 1, BENCH_BITRATE = 100000,
      BENCH_CHANNEL = 0\<rparr>"

definition configuredBenchBitrate :: "BenchMacros \<Rightarrow> CanBitrate" where
  "configuredBenchBitrate m =
     (if BENCH_BITRATE m = 100000 then BR_Kbit100
      else if BENCH_BITRATE m = 500000 then BR_Kbit500
      else BR_Unnamed (word_of_int (BENCH_BITRATE m)))"

definition compiledBenchOnlyTwaiConfiguration :: "BenchMacros \<Rightarrow> BenchOnlyTwaiConfiguration" where
  "compiledBenchOnlyTwaiConfiguration m =
     \<lparr>bc_enabled = (TWAI_ENABLED m = 1),
      bc_safety =
        \<lparr>silentPin = SILENT_GPIO m, silentLevel = configuredLevel (SILENT_LEVEL m),
         transmitInhibitPin = TX_INHIBIT_GPIO m,
         transmitInhibitLevel = configuredLevel (TX_INHIBIT_LEVEL m)\<rparr>,
      bc_acquisition =
        \<lparr>tc_receiver =
           \<lparr>rc_bitrate = configuredBenchBitrate m, rc_channel = word_of_int (BENCH_CHANNEL m)\<rparr>,
         receivePin = TWAI_RX_GPIO m, transmitPin = TWAI_TX_GPIO m,
         driverReceiveQueueDepth = 64, receiveTimeoutMs = 10, taskPriority = 8, taskCore = 0\<rparr>\<rparr>"

section \<open>The ESP-IDF pins and clock\<close>

datatype GpioMode = GPIO_MODE_OUTPUT | GPIO_MODE_INPUT

record gpio_config_t =
  pin_bit_mask :: u64
  gpio_mode :: GpioMode
  pull_up_en :: bool
  pull_down_en :: bool
  intr_enabled :: bool

record 'w GpioApi =
  GPIO_IS_VALID_GPIO :: "u8 \<Rightarrow> bool"
  gpio_set_level :: "u8 \<Rightarrow> u32 \<Rightarrow> 'w \<Rightarrow> esp_err \<times> 'w"
  gpio_config :: "gpio_config_t \<Rightarrow> 'w \<Rightarrow> esp_err \<times> 'w"
  gpio_get_level :: "u8 \<Rightarrow> 'w \<Rightarrow> int \<times> 'w"

record 'w TimeApi =
  esp_timer_get_time :: "'w \<Rightarrow> u64 \<times> 'w"
  pdMS_TO_TICKS :: "u32 \<Rightarrow> u32"
  vTaskDelay :: "u32 \<Rightarrow> 'w \<Rightarrow> 'w"

fun rawLevel :: "GpioLevel \<Rightarrow> u32" where
  "rawLevel GL_High = 1"
| "rawLevel GL_Low = 0"

definition pin_config :: "GpioMode \<Rightarrow> u8 \<Rightarrow> gpio_config_t" where
  "pin_config mode pin =
     \<lparr>pin_bit_mask = push_bit (unat pin) 1, gpio_mode = mode, pull_up_en = False,
      pull_down_en = False, intr_enabled = False\<rparr>"

text \<open>The level is set before the pin becomes an output.\<close>

definition EspIdfGpioHal_configureOutputInSafeState ::
    "'w GpioApi \<Rightarrow> u8 \<Rightarrow> GpioLevel \<Rightarrow> 'w \<Rightarrow> bool \<times> 'w" where
  "EspIdfGpioHal_configureOutputInSafeState api pin safeLevel w =
     (if \<not> GPIO_IS_VALID_GPIO api pin then (False, w)
      else
       (let (err, w) = gpio_set_level api pin (rawLevel safeLevel) w in
        if err \<noteq> ESP_OK then (False, w)
        else
         (let (err, w) = gpio_config api (pin_config GPIO_MODE_OUTPUT pin) w
          in (err = ESP_OK, w))))"

definition EspIdfGpioHal_write :: "'w GpioApi \<Rightarrow> u8 \<Rightarrow> GpioLevel \<Rightarrow> 'w \<Rightarrow> bool \<times> 'w" where
  "EspIdfGpioHal_write api pin level w =
     (if \<not> GPIO_IS_VALID_GPIO api pin then (False, w)
      else (let (err, w) = gpio_set_level api pin (rawLevel level) w in (err = ESP_OK, w)))"

definition EspIdfGpioHal_configureInput :: "'w GpioApi \<Rightarrow> u8 \<Rightarrow> 'w \<Rightarrow> bool \<times> 'w" where
  "EspIdfGpioHal_configureInput api pin w =
     (if \<not> GPIO_IS_VALID_GPIO api pin then (False, w)
      else (let (err, w) = gpio_config api (pin_config GPIO_MODE_INPUT pin) w in (err = ESP_OK, w)))"

definition EspIdfGpioHal_read :: "'w GpioApi \<Rightarrow> u8 \<Rightarrow> 'w \<Rightarrow> GpioLevel option \<times> 'w" where
  "EspIdfGpioHal_read api pin w =
     (if \<not> GPIO_IS_VALID_GPIO api pin then (None, w)
      else (let (raw, w) = gpio_get_level api pin w
            in (Some (if raw = 0 then GL_Low else GL_High), w)))"

definition EspIdfGpioHal :: "'w GpioApi \<Rightarrow> 'w GpioHal" where
  "EspIdfGpioHal api =
     \<lparr>configureOutputInSafeState = EspIdfGpioHal_configureOutputInSafeState api,
      hal_write = EspIdfGpioHal_write api, configureInput = EspIdfGpioHal_configureInput api,
      hal_read = EspIdfGpioHal_read api\<rparr>"

definition EspIdfMonotonicTimeHal_nowMs :: "'w TimeApi \<Rightarrow> 'w \<Rightarrow> u32 \<times> 'w" where
  "EspIdfMonotonicTimeHal_nowMs api w =
     (let (us, w) = esp_timer_get_time api w in (ucast (us div 1000), w))"

definition EspIdfMonotonicTimeHal_delayMs :: "'w TimeApi \<Rightarrow> u32 \<Rightarrow> 'w \<Rightarrow> 'w" where
  "EspIdfMonotonicTimeHal_delayMs api durationMs w =
     (let ticks = pdMS_TO_TICKS api durationMs in vTaskDelay api (if ticks = 0 then 1 else ticks) w)"

definition EspIdfMonotonicTimeHal :: "'w TimeApi \<Rightarrow> 'w MonotonicTimeHal" where
  "EspIdfMonotonicTimeHal api =
     \<lparr>hal_nowMs = EspIdfMonotonicTimeHal_nowMs api,
      hal_delayMs = EspIdfMonotonicTimeHal_delayMs api\<rparr>"

end
