(* ===== verification/TwaiReceiver.thy ===== *)
theory TwaiReceiver
  imports TwaiSafety SpscQueue
begin

text \<open>
  The receive-only CAN adapter (\<^verbatim>\<open>infrastructure/esp_idf_twai_receiver\<close>): start and stop of the
  listen-only driver, the receive task, its statistics and the queue to the application.  The TWAI
  driver and the task scheduler are parameters.  The atomics of the code are fields: the receive
  task and the application touch different ones, except the queue, whose interleavings
  \<^theory_text>\<open>SpscQueue\<close> covers.
\<close>

section \<open>The driver\<close>

datatype TwaiMode = TWAI_MODE_NORMAL | TWAI_MODE_NO_ACK | TWAI_MODE_LISTEN_ONLY

datatype TwaiAlert =
  TWAI_ALERT_RX_QUEUE_FULL | TWAI_ALERT_RX_FIFO_OVERRUN | TWAI_ALERT_BUS_ERROR
| TWAI_ALERT_ABOVE_ERR_WARN | TWAI_ALERT_BELOW_ERR_WARN | TWAI_ALERT_ERR_PASS
| TWAI_ALERT_ERR_ACTIVE | TWAI_ALERT_BUS_OFF | TWAI_ALERT_BUS_RECOVERED
| TWAI_ALERT_PERIPH_RESET

datatype TwaiTiming = TWAI_TIMING_CONFIG_100KBITS | TWAI_TIMING_CONFIG_500KBITS

record twai_general_config_t =
  gc_tx_io :: int
  gc_rx_io :: int
  gc_mode :: TwaiMode
  gc_tx_queue_len :: nat
  gc_rx_queue_len :: nat
  gc_alerts_enabled :: "TwaiAlert list"

record twai_message_t =
  tm_identifier :: u32
  tm_extd :: bool
  tm_rtr :: bool
  tm_dlc_non_comp :: bool
  tm_data_length_code :: u8
  tm_data :: "u8 list"

record twai_status_info_t =
  ti_rx_missed_count :: u32
  ti_rx_overrun_count :: u32
  ti_bus_error_count :: u32
  ti_rx_error_counter :: u32
  ti_tx_error_counter :: u32

text \<open>A read of the alerts gives those that are set; a task that cannot be created has no handle.\<close>

record 'w TwaiApi =
  twai_driver_install :: "twai_general_config_t \<Rightarrow> TwaiTiming \<Rightarrow> 'w \<Rightarrow> esp_err \<times> 'w"
  twai_start :: "'w \<Rightarrow> esp_err \<times> 'w"
  twai_stop :: "'w \<Rightarrow> esp_err \<times> 'w"
  twai_driver_uninstall :: "'w \<Rightarrow> esp_err \<times> 'w"
  twai_receive :: "u32 \<Rightarrow> 'w \<Rightarrow> (esp_err \<times> twai_message_t) \<times> 'w"
  twai_read_alerts :: "'w \<Rightarrow> (esp_err \<times> TwaiAlert list) \<times> 'w"
  twai_get_status_info :: "'w \<Rightarrow> (esp_err \<times> twai_status_info_t) \<times> 'w"
  xTaskCreateStaticPinnedToCore :: "nat \<Rightarrow> u8 \<Rightarrow> 8 word \<Rightarrow> 'w \<Rightarrow> nat option \<times> 'w"

definition ReceiveAlerts :: "TwaiAlert list" where
  "ReceiveAlerts =
     [TWAI_ALERT_RX_QUEUE_FULL, TWAI_ALERT_RX_FIFO_OVERRUN, TWAI_ALERT_BUS_ERROR,
      TWAI_ALERT_ABOVE_ERR_WARN, TWAI_ALERT_BELOW_ERR_WARN, TWAI_ALERT_ERR_PASS,
      TWAI_ALERT_ERR_ACTIVE, TWAI_ALERT_BUS_OFF, TWAI_ALERT_BUS_RECOVERED,
      TWAI_ALERT_PERIPH_RESET]"

definition timingFor :: "CanBitrate \<Rightarrow> TwaiTiming" where
  "timingFor bitrate =
     (if bitrate = BR_Kbit500 then TWAI_TIMING_CONFIG_500KBITS else TWAI_TIMING_CONFIG_100KBITS)"

section \<open>The receiver\<close>

definition FrameQueueCapacity :: nat where "FrameQueueCapacity = 128"
definition TaskStackBytes :: nat where "TaskStackBytes = 4096"

record AtomicStatistics =
  as_framesReceived :: u64
  as_framesQueued :: u64
  as_framesDequeued :: u64
  as_softwareQueueOverruns :: u64
  as_driverQueueMissed :: u64
  as_driverFifoOverruns :: u64
  as_busErrors :: u64
  as_errorWarningTransitions :: u64
  as_errorPassiveTransitions :: u64
  as_busOffTransitions :: u64
  as_peripheralResets :: u64
  as_lastSequence :: u64
  as_receiveErrorCounter :: u32
  as_transmitErrorCounter :: u32
  as_queueHighWatermark :: u16

definition AtomicStatistics_default :: AtomicStatistics where
  "AtomicStatistics_default =
     \<lparr>as_framesReceived = 0, as_framesQueued = 0, as_framesDequeued = 0,
      as_softwareQueueOverruns = 0, as_driverQueueMissed = 0, as_driverFifoOverruns = 0,
      as_busErrors = 0, as_errorWarningTransitions = 0, as_errorPassiveTransitions = 0,
      as_busOffTransitions = 0, as_peripheralResets = 0, as_lastSequence = 0,
      as_receiveErrorCounter = 0, as_transmitErrorCounter = 0, as_queueHighWatermark = 0\<rparr>"

record EspIdfTwaiReceiver =
  tr_config :: TwaiListenOnlyConfig
  tr_queue :: "CanFrame BoundedSpscQueue"
  tr_statistics :: AtomicStatistics
  tr_state :: CanReceiverState
  tr_running :: bool
  tr_taskExited :: bool
  currentFrameStatus :: CanFrameStatus
  nextSequence :: u64
  driverInstalled :: bool
  taskHandle :: "nat option"

definition mkEspIdfTwaiReceiver :: "TwaiListenOnlyConfig \<Rightarrow> EspIdfTwaiReceiver" where
  "mkEspIdfTwaiReceiver config =
     \<lparr>tr_config = config, tr_queue = mkBoundedSpscQueue FrameQueueCapacity CanFrame_default,
      tr_statistics = AtomicStatistics_default, tr_state = RS_Stopped, tr_running = False,
      tr_taskExited = True, currentFrameStatus = 0, nextSequence = 1, driverInstalled = False,
      taskHandle = None\<rparr>"

definition resetStatistics :: "EspIdfTwaiReceiver \<Rightarrow> EspIdfTwaiReceiver" where
  "resetStatistics r = r\<lparr>tr_statistics := AtomicStatistics_default, currentFrameStatus := 0\<rparr>"

definition failed_start :: "EspIdfTwaiReceiver \<Rightarrow> EspIdfTwaiReceiver" where
  "failed_start r = r\<lparr>driverInstalled := False, tr_state := RS_Fault\<rparr>"

definition general_config :: "TwaiListenOnlyConfig \<Rightarrow> twai_general_config_t" where
  "general_config c =
     \<lparr>gc_tx_io = transmitPin c, gc_rx_io = receivePin c, gc_mode = TWAI_MODE_LISTEN_ONLY,
      gc_tx_queue_len = 0, gc_rx_queue_len = unat (driverReceiveQueueDepth c),
      gc_alerts_enabled = ReceiveAlerts\<rparr>"

text \<open>\<open>stackDepth\<close> is the depth of the task's stack in words, which depends on the platform.\<close>

definition EspIdfTwaiReceiver_start ::
    "'w TwaiApi \<Rightarrow> nat \<Rightarrow> 'w TwaiSafetyHal \<Rightarrow> EspIdfTwaiReceiver \<times> 'w \<Rightarrow>
       CanReceiverStartStatus \<times> EspIdfTwaiReceiver \<times> 'w" where
  "EspIdfTwaiReceiver_start api stackDepth safety = (\<lambda>(r, w).
     let c = tr_config r in
     if tr_state r = RS_RunningListenOnly then (SS_AlreadyRunning, r, w)
     else if \<not> TwaiListenOnlyConfig_isValid c
     then (SS_InvalidConfiguration, r\<lparr>tr_state := RS_Fault\<rparr>, w)
     else
      (let (safe, w) = prepareTwaiListenOnlySafety safety w in
       if \<not> safe then (SS_SafetyRejected, r\<lparr>tr_state := RS_Fault\<rparr>, w)
       else
        (let (err, w) = twai_driver_install api (general_config c)
               (timingFor (rc_bitrate (tc_receiver c))) w
         in
         if err \<noteq> ESP_OK then (SS_DriverInstallFailed, r\<lparr>tr_state := RS_Fault\<rparr>, w)
         else
          (let (err, w) = twai_start api w in
           if err \<noteq> ESP_OK
           then (let (_, w) = twai_driver_uninstall api w
                 in (SS_DriverStartFailed, failed_start r, w))
           else
            (let r = resetStatistics
                   (r\<lparr>driverInstalled := True, tr_queue := q_clear (tr_queue r)\<rparr>);
                 r = r\<lparr>nextSequence := 1, tr_taskExited := False, tr_running := True\<rparr>;
                 (handle, w) =
                   xTaskCreateStaticPinnedToCore api stackDepth (taskPriority c) (taskCore c) w;
                 r = r\<lparr>taskHandle := handle\<rparr>
             in
             if handle = None
             then (let (_, w) = twai_stop api w;
                       (_, w) = twai_driver_uninstall api w
                   in (SS_TaskStartFailed,
                       failed_start (r\<lparr>tr_running := False, tr_taskExited := True\<rparr>), w))
             else (SS_Started, r\<lparr>tr_state := RS_RunningListenOnly\<rparr>, w))))))"

text \<open>
  \<open>meanwhile\<close> is what happens to receiver and world during one delay of the wait for the receive
  task: the delay itself and the steps the task takes.
\<close>

fun wait_for_exit ::
    "(EspIdfTwaiReceiver \<times> 'w \<Rightarrow> EspIdfTwaiReceiver \<times> 'w) \<Rightarrow> nat \<Rightarrow> EspIdfTwaiReceiver \<times> 'w \<Rightarrow>
       EspIdfTwaiReceiver \<times> 'w" where
  "wait_for_exit meanwhile 0 e = e"
| "wait_for_exit meanwhile (Suc n) e =
     (if tr_taskExited (fst e) then e else wait_for_exit meanwhile n (meanwhile e))"

definition EspIdfTwaiReceiver_stop ::
    "'w TwaiApi \<Rightarrow> (EspIdfTwaiReceiver \<times> 'w \<Rightarrow> EspIdfTwaiReceiver \<times> 'w) \<Rightarrow>
       EspIdfTwaiReceiver \<times> 'w \<Rightarrow> EspIdfTwaiReceiver \<times> 'w" where
  "EspIdfTwaiReceiver_stop api meanwhile = (\<lambda>(r, w).
     if \<not> driverInstalled r then (r\<lparr>tr_state := RS_Stopped\<rparr>, w)
     else
      (let r = r\<lparr>tr_running := False\<rparr>;
           (_, w) = twai_stop api w;
           (r, w) = wait_for_exit meanwhile 20 (r, w)
       in
       if \<not> tr_taskExited r then (r\<lparr>tr_state := RS_Fault\<rparr>, w)
       else
        (let (_, w) = twai_driver_uninstall api w
         in (r\<lparr>driverInstalled := False, taskHandle := None, tr_state := RS_Stopped\<rparr>, w))))"

definition tryReceive :: "EspIdfTwaiReceiver \<Rightarrow> CanFrame option \<times> EspIdfTwaiReceiver" where
  "tryReceive r =
     (case tryPop (tr_queue r) of
        (None, queue) \<Rightarrow> (None, r\<lparr>tr_queue := queue\<rparr>)
      | (Some frame, queue) \<Rightarrow>
          (Some frame, r\<lparr>tr_queue := queue,
             tr_statistics := (tr_statistics r)
               \<lparr>as_framesDequeued := as_framesDequeued (tr_statistics r) + 1\<rparr>\<rparr>))"

definition EspIdfTwaiReceiver_statistics :: "EspIdfTwaiReceiver \<Rightarrow> CanReceiveStatistics" where
  "EspIdfTwaiReceiver_statistics r =
     (let s = tr_statistics r in
      \<lparr>framesReceived = as_framesReceived s, framesQueued = as_framesQueued s,
       framesDequeued = as_framesDequeued s,
       softwareQueueOverruns = as_softwareQueueOverruns s,
       driverQueueMissed = as_driverQueueMissed s, driverFifoOverruns = as_driverFifoOverruns s,
       busErrors = as_busErrors s, errorWarningTransitions = as_errorWarningTransitions s,
       errorPassiveTransitions = as_errorPassiveTransitions s,
       busOffTransitions = as_busOffTransitions s, peripheralResets = as_peripheralResets s,
       lastSequence = as_lastSequence s, receiveErrorCounter = as_receiveErrorCounter s,
       transmitErrorCounter = as_transmitErrorCounter s,
       queuedFrames = of_nat (q_size (tr_queue r)),
       queueHighWatermark = as_queueHighWatermark s\<rparr>)"

section \<open>The receive task\<close>

definition addStatus :: "CanFrameStatus \<Rightarrow> EspIdfTwaiReceiver \<Rightarrow> EspIdfTwaiReceiver" where
  "addStatus status r = r\<lparr>currentFrameStatus := or (currentFrameStatus r) status\<rparr>"

definition removeStatus :: "CanFrameStatus \<Rightarrow> EspIdfTwaiReceiver \<Rightarrow> EspIdfTwaiReceiver" where
  "removeStatus status r = r\<lparr>currentFrameStatus := and (currentFrameStatus r) (not status)\<rparr>"

text \<open>The frame recorded for a message: a remote frame has no data.\<close>

definition received_frame ::
    "u64 \<Rightarrow> twai_message_t \<Rightarrow> EspIdfTwaiReceiver \<Rightarrow> CanFrame" where
  "received_frame nowUs m r =
     (let c = tc_receiver (tr_config r);
          n = min (tm_data_length_code m) MaximumDataLength;
          status = currentFrameStatus r;
          status = (if tm_rtr m then joinStatus status FS_RemoteFrame else status);
          status = (if tm_dlc_non_comp m \<or> tm_data_length_code m > MaximumDataLength
                    then joinStatus status FS_DlcNonCompliant else status)
      in CanFrame_default
        \<lparr>cf_timestampUs := nowUs, cf_sequence := nextSequence r,
         cf_bitrate := bitrateValue (rc_bitrate c), cf_identifier := tm_identifier m,
         cf_channel := rc_channel c, cf_extended := tm_extd m, cf_dataLength := n,
         cf_status := status,
         cf_data := (if tm_rtr m then cf_data CanFrame_default
                     else blit (cf_data CanFrame_default) 0 (take (unat n) (tm_data m)))\<rparr>)"

definition enqueueReceivedFrame ::
    "u64 \<Rightarrow> twai_message_t \<Rightarrow> EspIdfTwaiReceiver \<Rightarrow> EspIdfTwaiReceiver" where
  "enqueueReceivedFrame nowUs m r =
     (let frame = received_frame nowUs m r;
          s = (tr_statistics r)\<lparr>as_framesReceived := as_framesReceived (tr_statistics r) + 1,
                               as_lastSequence := cf_sequence frame\<rparr>;
          r = r\<lparr>nextSequence := nextSequence r + 1\<rparr>;
          (ok, queue) = tryPush frame (tr_queue r);
          r = r\<lparr>tr_queue := queue\<rparr>
      in
      if \<not> ok
      then r\<lparr>tr_statistics := s\<lparr>as_softwareQueueOverruns := as_softwareQueueOverruns s + 1\<rparr>\<rparr>
      else
       (let depth = of_nat (q_size queue);
            high = as_queueHighWatermark s
        in r\<lparr>tr_statistics := s\<lparr>as_framesQueued := as_framesQueued s + 1,
                              as_queueHighWatermark := (if depth > high then depth else high)\<rparr>\<rparr>))"

definition on_alert ::
    "TwaiAlert list \<Rightarrow> TwaiAlert \<Rightarrow> (AtomicStatistics \<Rightarrow> AtomicStatistics) \<Rightarrow>
       (EspIdfTwaiReceiver \<Rightarrow> EspIdfTwaiReceiver) \<Rightarrow> EspIdfTwaiReceiver \<Rightarrow> EspIdfTwaiReceiver" where
  "on_alert alerts alert f g r =
     (if alert \<in> set alerts then g (r\<lparr>tr_statistics := f (tr_statistics r)\<rparr>) else r)"

definition updateAlerts ::
    "'w TwaiApi \<Rightarrow> EspIdfTwaiReceiver \<times> 'w \<Rightarrow> EspIdfTwaiReceiver \<times> 'w" where
  "updateAlerts api = (\<lambda>(r, w).
     let ((err, alerts), w) = twai_read_alerts api w in
     if err \<noteq> ESP_OK then (r, w)
     else
      (let r = on_alert alerts TWAI_ALERT_ABOVE_ERR_WARN
             (\<lambda>s. s\<lparr>as_errorWarningTransitions := as_errorWarningTransitions s + 1\<rparr>)
             (addStatus FS_ErrorWarning) r;
           r = on_alert alerts TWAI_ALERT_BELOW_ERR_WARN id (removeStatus FS_ErrorWarning) r;
           r = on_alert alerts TWAI_ALERT_ERR_PASS
             (\<lambda>s. s\<lparr>as_errorPassiveTransitions := as_errorPassiveTransitions s + 1\<rparr>)
             (addStatus FS_ErrorPassive) r;
           r = on_alert alerts TWAI_ALERT_ERR_ACTIVE id (removeStatus FS_ErrorPassive) r;
           r = on_alert alerts TWAI_ALERT_BUS_OFF
             (\<lambda>s. s\<lparr>as_busOffTransitions := as_busOffTransitions s + 1\<rparr>)
             (addStatus FS_BusOff) r;
           r = on_alert alerts TWAI_ALERT_BUS_RECOVERED id (removeStatus FS_BusOff) r;
           r = on_alert alerts TWAI_ALERT_PERIPH_RESET
             (\<lambda>s. s\<lparr>as_peripheralResets := as_peripheralResets s + 1\<rparr>)
             (addStatus FS_PeripheralReset) r
       in (r, w)))"

definition updateDriverStatus ::
    "'w TwaiApi \<Rightarrow> EspIdfTwaiReceiver \<times> 'w \<Rightarrow> EspIdfTwaiReceiver \<times> 'w" where
  "updateDriverStatus api = (\<lambda>(r, w).
     let ((err, status), w) = twai_get_status_info api w in
     if err \<noteq> ESP_OK then (r, w)
     else (r\<lparr>tr_statistics := (tr_statistics r)
               \<lparr>as_driverQueueMissed := ucast (ti_rx_missed_count status),
                as_driverFifoOverruns := ucast (ti_rx_overrun_count status),
                as_busErrors := ucast (ti_bus_error_count status),
                as_receiveErrorCounter := ti_rx_error_counter status,
                as_transmitErrorCounter := ti_tx_error_counter status\<rparr>\<rparr>, w))"

text \<open>One round of the task, and the end of the task once \<open>running\<close> is withdrawn.\<close>

definition receive_round ::
    "'w TwaiApi \<Rightarrow> 'w TimeApi \<Rightarrow> EspIdfTwaiReceiver \<times> 'w \<Rightarrow> EspIdfTwaiReceiver \<times> 'w" where
  "receive_round api time = (\<lambda>(r, w).
     let ((err, message), w) = twai_receive api
           (pdMS_TO_TICKS time (ucast (receiveTimeoutMs (tr_config r)))) w;
         (r, w) =
           (if err = ESP_OK
            then (let (nowUs, w) = esp_timer_get_time time w
                  in (enqueueReceivedFrame nowUs message r, w))
            else (r, w))
     in updateDriverStatus api (updateAlerts api (r, w)))"

definition receive_task_step ::
    "'w TwaiApi \<Rightarrow> 'w TimeApi \<Rightarrow> EspIdfTwaiReceiver \<times> 'w \<Rightarrow> EspIdfTwaiReceiver \<times> 'w" where
  "receive_task_step api time = (\<lambda>(r, w).
     if tr_running r then receive_round api time (r, w)
     else (r\<lparr>tr_taskExited := True\<rparr>, w))"


section \<open>What is asked of the hardware\<close>

text \<open>A world with the calls made on it: the pins driven and read back, and the driver calls.\<close>

datatype hw_call =
  HC_output u8 GpioLevel bool
| HC_level u8 "GpioLevel option"
| HC_install twai_general_config_t TwaiTiming esp_err
| HC_start esp_err
| HC_stop
| HC_uninstall

definition logged_gpio :: "'w GpioHal \<Rightarrow> ('w \<times> hw_call list) GpioHal" where
  "logged_gpio gpio =
     \<lparr>configureOutputInSafeState = (\<lambda>pin level (w, calls).
        let (ok, w) = configureOutputInSafeState gpio pin level w
        in (ok, w, calls @ [HC_output pin level ok])),
      hal_write = (\<lambda>pin level (w, calls). let (ok, w) = hal_write gpio pin level w in (ok, w, calls)),
      configureInput = (\<lambda>pin (w, calls). let (ok, w) = configureInput gpio pin w in (ok, w, calls)),
      hal_read = (\<lambda>pin (w, calls).
        let (level, w) = hal_read gpio pin w in (level, w, calls @ [HC_level pin level]))\<rparr>"

definition logged_twai :: "'w TwaiApi \<Rightarrow> ('s \<times> 'w \<times> hw_call list) TwaiApi" where
  "logged_twai api =
     \<lparr>twai_driver_install = (\<lambda>g t (s, w, calls).
        let (err, w) = twai_driver_install api g t w in (err, s, w, calls @ [HC_install g t err])),
      twai_start = (\<lambda>(s, w, calls).
        let (err, w) = twai_start api w in (err, s, w, calls @ [HC_start err])),
      twai_stop = (\<lambda>(s, w, calls). let (err, w) = twai_stop api w in (err, s, w, calls @ [HC_stop])),
      twai_driver_uninstall = (\<lambda>(s, w, calls).
        let (err, w) = twai_driver_uninstall api w in (err, s, w, calls @ [HC_uninstall])),
      twai_receive = (\<lambda>t (s, w, calls). let (m, w) = twai_receive api t w in (m, s, w, calls)),
      twai_read_alerts = (\<lambda>(s, w, calls). let (a, w) = twai_read_alerts api w in (a, s, w, calls)),
      twai_get_status_info = (\<lambda>(s, w, calls).
        let (i, w) = twai_get_status_info api w in (i, s, w, calls)),
      xTaskCreateStaticPinnedToCore = (\<lambda>d p k (s, w, calls).
        let (h, w) = xTaskCreateStaticPinnedToCore api d p k w in (h, s, w, calls))\<rparr>"

text \<open>The calls by which the two barriers are driven and read back.\<close>

definition barrier_calls :: "TwaiSafetyPinConfig \<Rightarrow> hw_call list" where
  "barrier_calls c =
     [HC_output (word_of_int (silentPin c)) (silentLevel c) True,
      HC_output (word_of_int (transmitInhibitPin c)) (transmitInhibitLevel c) True,
      HC_level (word_of_int (silentPin c)) (Some (silentLevel c)),
      HC_level (word_of_int (transmitInhibitPin c)) (Some (transmitInhibitLevel c))]"

definition touches_driver :: "hw_call \<Rightarrow> bool" where
  "touches_driver call \<longleftrightarrow> (case call of HC_output _ _ _ \<Rightarrow> False | HC_level _ _ \<Rightarrow> False | _ \<Rightarrow> True)"

lemma prepare_calls:
  assumes "prepareTwaiListenOnlySafety (GpioTwaiSafetyHal (logged_gpio gpio)) (t, w, calls) =
      (ok, t', w', calls')"
  shows "\<exists>new. calls' = calls @ new \<and> list_all (Not \<circ> touches_driver) new \<and>
    (ok \<longrightarrow> TwaiSafetyPinConfig_isValid (ts_config t) \<and> new = barrier_calls (ts_config t))"
  using assms
  by (auto simp: prepareTwaiListenOnlySafety_def GpioTwaiSafetyHal_def Let_def
      GpioTwaiSafetyHal_holdHardwareSilent_def GpioTwaiSafetyHal_holdTransmitInhibited_def
      GpioTwaiSafetyHal_safeStateConfirmed_def logged_gpio_def barrier_calls_def touches_driver_def
      split: if_splits prod.splits option.splits)

section \<open>Accounting\<close>

definition receiver_accounts :: "EspIdfTwaiReceiver \<Rightarrow> bool" where
  "receiver_accounts r \<longleftrightarrow> (let s = tr_statistics r; q = tr_queue r in
     q_capacity q = 128 \<and> q_size q \<le> 128 \<and>
     as_framesReceived s = as_framesQueued s + as_softwareQueueOverruns s \<and>
     as_framesQueued s = as_framesDequeued s + of_nat (q_size q) \<and>
     as_lastSequence s + 1 = nextSequence r \<and> as_framesReceived s + 1 = nextSequence r \<and>
     q_size q \<le> unat (as_queueHighWatermark s) \<and> unat (as_queueHighWatermark s) \<le> 128)"

text \<open>What the state says of driver and task.\<close>

definition receiver_lifecycle :: "EspIdfTwaiReceiver \<Rightarrow> bool" where
  "receiver_lifecycle r \<longleftrightarrow>
     tr_running r = (tr_state r = RS_RunningListenOnly) \<and>
     (tr_running r \<longrightarrow> driverInstalled r \<and> taskHandle r \<noteq> None) \<and>
     (tr_state r = RS_Stopped \<longrightarrow> \<not> driverInstalled r)"

lemma accounts_capacity: "q_capacity q = 128 \<Longrightarrow> capacity_ok q"
  by (simp add: capacity_ok_def)

lemma push_size:
  assumes "q_capacity q = 128" and "q_size q \<le> 128" and "tryPush v q = (ok, q')"
  shows "q_capacity q' = 128 \<and> q_size q' = q_size q + (if ok then 1 else 0) \<and>
    q_size q' \<le> 128 \<and> ok = (q_size q < 128)"
proof -
  have "q_capacity q' = 128"
    using assms(1,3) by (auto simp: tryPush_def Let_def q_capacity_def split: if_splits)
  moreover have eq: "pending q' = pending q @ (if ok then [v] else [])"
    using push_pending [OF accounts_capacity [OF assms(1)] _ assms(3)] assms(1,2) by simp
  from arg_cong [OF eq, of length] have "q_size q' = q_size q + (if ok then 1 else 0)" by simp
  ultimately show ?thesis
    using push_pending [OF accounts_capacity [OF assms(1)] _ assms(3)] assms(1,2) by simp
qed

lemma pop_size:
  assumes "q_capacity q = 128" and "q_size q \<le> 128" and "tryPop q = (out, q')"
  shows "q_capacity q' = 128 \<and> q_size q = q_size q' + (if out = None then 0 else 1)"
proof -
  have "q_capacity q' = 128"
    using assms(1,3) by (auto simp: tryPop_def Let_def q_capacity_def split: if_splits)
  moreover have eq: "pending q = (case out of None \<Rightarrow> pending q' | Some x \<Rightarrow> x # pending q')"
    using pop_pending [OF accounts_capacity [OF assms(1)] _ assms(3)] assms(1,2)
    by (auto split: option.splits)
  from arg_cong [OF eq, of length] have "q_size q = q_size q' + (if out = None then 0 else 1)"
    by (simp split: option.splits)
  ultimately show ?thesis by simp
qed

lemma accounts_start: "receiver_accounts (mkEspIdfTwaiReceiver config)"
  by (simp add: receiver_accounts_def mkEspIdfTwaiReceiver_def mkBoundedSpscQueue_def q_capacity_def
      q_size_def FrameQueueCapacity_def AtomicStatistics_default_def)

lemma accounts_receive:
  "receiver_accounts r \<Longrightarrow> receiver_accounts (snd (tryReceive r))"
  using pop_size [of "tr_queue r"]
  by (cases "tryPop (tr_queue r)")
    (auto simp: receiver_accounts_def tryReceive_def Let_def split: option.splits)

lemma received_sequence [simp]: "cf_sequence (received_frame nowUs m r) = nextSequence r"
  by (simp add: received_frame_def Let_def)

lemma accounts_enqueue:
  assumes "receiver_accounts r"
  shows "receiver_accounts (enqueueReceivedFrame nowUs m r)"
proof -
  obtain ok q' where push: "tryPush (received_frame nowUs m r) (tr_queue r) = (ok, q')" by fastforce
  have "q_capacity q' = 128" "q_size q' = q_size (tr_queue r) + (if ok then 1 else 0)"
    "q_size q' \<le> 128"
    using push_size [OF _ _ push] assms by (simp_all add: receiver_accounts_def Let_def)
  moreover from this(3) have "unat (of_nat (q_size q') :: u16) = q_size q'"
    by (simp add: unat_of_nat)
  ultimately show ?thesis
    using assms push
    by (cases ok) (auto simp: receiver_accounts_def enqueueReceivedFrame_def Let_def
        word_less_nat_alt algebra_simps)
qed

text \<open>An alert touches the flags and the counters of its own kind.\<close>

definition counts_only :: "(AtomicStatistics \<Rightarrow> AtomicStatistics) \<Rightarrow> bool" where
  "counts_only f \<longleftrightarrow> (\<forall>s. as_framesReceived (f s) = as_framesReceived s \<and>
     as_framesQueued (f s) = as_framesQueued s \<and> as_framesDequeued (f s) = as_framesDequeued s \<and>
     as_softwareQueueOverruns (f s) = as_softwareQueueOverruns s \<and>
     as_lastSequence (f s) = as_lastSequence s \<and>
     as_queueHighWatermark (f s) = as_queueHighWatermark s)"

lemma accounts_on_alert:
  assumes "receiver_accounts r" and "counts_only f" and "g \<in> {addStatus st, removeStatus st}"
  shows "receiver_accounts (on_alert alerts alert f g r)"
  using assms
  by (auto simp: receiver_accounts_def on_alert_def counts_only_def addStatus_def removeStatus_def
      Let_def)

lemma accounts_alerts:
  "receiver_accounts r \<Longrightarrow> receiver_accounts (fst (updateAlerts api (r, w)))"
  by (auto simp: updateAlerts_def split_beta Let_def counts_only_def intro!: accounts_on_alert)

lemma accounts_status:
  "receiver_accounts r \<Longrightarrow> receiver_accounts (fst (updateDriverStatus api (r, w)))"
  by (auto simp: receiver_accounts_def updateDriverStatus_def Let_def split: prod.splits)

lemma accounts_update:
  "receiver_accounts (fst e) \<Longrightarrow> receiver_accounts (fst (updateDriverStatus api (updateAlerts api e)))"
  using accounts_status accounts_alerts by (metis prod.collapse)

lemma accounts_step:
  assumes "receiver_accounts r"
  shows "receiver_accounts (fst (receive_task_step api time (r, w)))"
proof (cases "tr_running r")
  case True
  with assms accounts_enqueue show ?thesis
    by (auto simp: receive_task_step_def receive_round_def split_beta Let_def intro!: accounts_update)
next
  case False
  with assms show ?thesis by (simp add: receive_task_step_def receiver_accounts_def)
qed


section \<open>Reachable receivers\<close>

definition task_meanwhile ::
    "'w TwaiApi \<Rightarrow> 'w TimeApi \<Rightarrow> EspIdfTwaiReceiver \<times> 'w \<Rightarrow> EspIdfTwaiReceiver \<times> 'w" where
  "task_meanwhile api time = (\<lambda>(r, w).
     receive_task_step api time (r, vTaskDelay time (pdMS_TO_TICKS time 5) w))"

text \<open>The task may or may not be scheduled while the application waits for it.\<close>

inductive receiver_reachable ::
    "'w TwaiApi \<Rightarrow> 'w TimeApi \<Rightarrow> nat \<Rightarrow> 'w TwaiSafetyHal \<Rightarrow> TwaiListenOnlyConfig \<Rightarrow>
       EspIdfTwaiReceiver \<times> 'w \<Rightarrow> bool"
  for api time depth safety config where
  created: "receiver_reachable api time depth safety config (mkEspIdfTwaiReceiver config, w)"
| started: "receiver_reachable api time depth safety config e \<Longrightarrow>
    EspIdfTwaiReceiver_start api depth safety e = (status, e') \<Longrightarrow>
    receiver_reachable api time depth safety config e'"
| task: "receiver_reachable api time depth safety config e \<Longrightarrow>
    receiver_reachable api time depth safety config (receive_task_step api time e)"
| received: "receiver_reachable api time depth safety config (r, w) \<Longrightarrow>
    tryReceive r = (out, r') \<Longrightarrow> receiver_reachable api time depth safety config (r', w)"
| stopped: "receiver_reachable api time depth safety config e \<Longrightarrow>
    meanwhile \<in> {task_meanwhile api time,
      \<lambda>(r, w). (r, vTaskDelay time (pdMS_TO_TICKS time 5) w)} \<Longrightarrow>
    receiver_reachable api time depth safety config (EspIdfTwaiReceiver_stop api meanwhile e)"

lemma accounts_fields:
  "receiver_accounts (r\<lparr>tr_state := st\<rparr>) = receiver_accounts r"
  "receiver_accounts (r\<lparr>tr_running := b\<rparr>) = receiver_accounts r"
  "receiver_accounts (r\<lparr>tr_taskExited := b\<rparr>) = receiver_accounts r"
  "receiver_accounts (r\<lparr>driverInstalled := b\<rparr>) = receiver_accounts r"
  "receiver_accounts (r\<lparr>taskHandle := h\<rparr>) = receiver_accounts r"
  by (simp_all add: receiver_accounts_def)

text \<open>What the task leaves alone.\<close>

definition same_life :: "EspIdfTwaiReceiver \<Rightarrow> EspIdfTwaiReceiver \<Rightarrow> bool" where
  "same_life r r' \<longleftrightarrow> tr_state r' = tr_state r \<and> tr_running r' = tr_running r \<and>
     driverInstalled r' = driverInstalled r \<and> taskHandle r' = taskHandle r"

lemma same_life_trans: "same_life r r' \<Longrightarrow> same_life r' r'' \<Longrightarrow> same_life r r''"
  by (simp add: same_life_def)

lemma same_life_enqueue: "same_life r (enqueueReceivedFrame nowUs m r)"
  by (simp add: same_life_def enqueueReceivedFrame_def Let_def split_beta)

lemma on_alert_life [simp]:
  "tr_state (on_alert alerts alert f (addStatus st) r) = tr_state r"
  "tr_running (on_alert alerts alert f (addStatus st) r) = tr_running r"
  "driverInstalled (on_alert alerts alert f (addStatus st) r) = driverInstalled r"
  "taskHandle (on_alert alerts alert f (addStatus st) r) = taskHandle r"
  "tr_state (on_alert alerts alert f (removeStatus st) r) = tr_state r"
  "tr_running (on_alert alerts alert f (removeStatus st) r) = tr_running r"
  "driverInstalled (on_alert alerts alert f (removeStatus st) r) = driverInstalled r"
  "taskHandle (on_alert alerts alert f (removeStatus st) r) = taskHandle r"
  by (simp_all add: on_alert_def addStatus_def removeStatus_def)

lemma same_life_update:
  "same_life (fst e) (fst (updateDriverStatus api (updateAlerts api e)))"
proof -
  have "same_life r (fst (updateAlerts api (r, w)))" for r w
    by (simp add: same_life_def updateAlerts_def Let_def split_beta)
  moreover have "same_life r (fst (updateDriverStatus api (r, w)))" for r w
    by (simp add: same_life_def updateDriverStatus_def Let_def split_beta)
  ultimately show ?thesis by (metis prod.collapse same_life_trans)
qed

lemma same_life_step: "same_life r (fst (receive_task_step api time (r, w)))"
proof (cases "tr_running r")
  case True
  obtain m w1 where m: "twai_receive api
      (pdMS_TO_TICKS time (ucast (receiveTimeoutMs (tr_config r)))) w = (m, w1)" by fastforce
  define e where "e = (if fst m = ESP_OK
    then (enqueueReceivedFrame (fst (esp_timer_get_time time w1)) (snd m) r,
      snd (esp_timer_get_time time w1)) else (r, w1))"
  have "same_life r (fst e)" using same_life_enqueue by (simp add: e_def same_life_def)
  moreover have "receive_task_step api time (r, w) = updateDriverStatus api (updateAlerts api e)"
    using True m by (simp add: receive_task_step_def receive_round_def split_beta Let_def e_def)
  ultimately show ?thesis using same_life_trans same_life_update by metis
qed (simp add: receive_task_step_def same_life_def)

lemma lifecycle_same: "same_life r r' \<Longrightarrow> receiver_lifecycle r \<Longrightarrow> receiver_lifecycle r'"
  by (simp add: same_life_def receiver_lifecycle_def)

lemma wait_keeps:
  assumes "\<And>e. receiver_accounts (fst e) \<Longrightarrow> receiver_accounts (fst (m e)) \<and> same_life (fst e) (fst (m e))"
  shows "receiver_accounts (fst e) \<Longrightarrow>
    receiver_accounts (fst (wait_for_exit m n e)) \<and> same_life (fst e) (fst (wait_for_exit m n e))"
proof (induction n arbitrary: e)
  case (Suc n)
  with assms [OF Suc.prems] Suc.IH [of "m e"] show ?case by (auto simp: same_life_def)
qed (simp add: same_life_def)

lemma accounts_reset:
  assumes "receiver_accounts r"
  shows "receiver_accounts (resetStatistics (r\<lparr>tr_queue := q_clear (tr_queue r)\<rparr>)\<lparr>nextSequence := 1\<rparr>)"
  using assms
  by (simp add: receiver_accounts_def resetStatistics_def AtomicStatistics_default_def q_clear_def
      q_size_def Let_def)

lemma start_keeps:
  assumes "receiver_accounts r" and "receiver_lifecycle r"
  shows "receiver_accounts (fst (snd (EspIdfTwaiReceiver_start api depth safety (r, w)))) \<and>
    receiver_lifecycle (fst (snd (EspIdfTwaiReceiver_start api depth safety (r, w))))"
proof (cases "tr_state r = RS_RunningListenOnly")
  case True
  with assms show ?thesis by (simp add: EspIdfTwaiReceiver_start_def Let_def)
next
  case False
  then have idle: "\<not> tr_running r" using assms(2) by (simp add: receiver_lifecycle_def)
  let ?reset = "resetStatistics (r\<lparr>driverInstalled := True, tr_queue := q_clear (tr_queue r)\<rparr>)"
  let ?running = "\<lambda>h. ?reset\<lparr>nextSequence := 1, tr_taskExited := False, tr_running := True, taskHandle := h\<rparr>"
  have acc: "receiver_accounts (?reset\<lparr>nextSequence := 1\<rparr>)"
    using accounts_reset [of "r\<lparr>driverInstalled := True\<rparr>"] assms(1) by (simp add: accounts_fields)
  have "fst (snd (EspIdfTwaiReceiver_start api depth safety (r, w))) \<in>
      {r\<lparr>tr_state := RS_Fault\<rparr>, failed_start r} \<union>
      range (\<lambda>h. failed_start (?running h\<lparr>tr_running := False, tr_taskExited := True\<rparr>)) \<union>
      (\<lambda>h. ?running h\<lparr>tr_state := RS_RunningListenOnly\<rparr>) ` (- {None})"
    using False by (simp add: EspIdfTwaiReceiver_start_def split_beta Let_def)
  then consider "fst (snd (EspIdfTwaiReceiver_start api depth safety (r, w))) = r\<lparr>tr_state := RS_Fault\<rparr>"
    | "fst (snd (EspIdfTwaiReceiver_start api depth safety (r, w))) = failed_start r"
    | h where "fst (snd (EspIdfTwaiReceiver_start api depth safety (r, w))) =
        failed_start (?running h\<lparr>tr_running := False, tr_taskExited := True\<rparr>)"
    | h where "h \<noteq> None" "fst (snd (EspIdfTwaiReceiver_start api depth safety (r, w))) =
        ?running h\<lparr>tr_state := RS_RunningListenOnly\<rparr>"
    by blast
  then show ?thesis
  proof cases
    case 1
    show ?thesis unfolding 1 using assms idle by (simp add: accounts_fields receiver_lifecycle_def)
  next
    case 2
    show ?thesis
      unfolding 2 failed_start_def using assms idle by (simp add: accounts_fields receiver_lifecycle_def)
  next
    case 3
    have "receiver_accounts (failed_start (?running h\<lparr>tr_running := False, tr_taskExited := True\<rparr>))"
      by (simp only: failed_start_def accounts_fields acc)
    then show ?thesis unfolding 3 by (simp add: receiver_lifecycle_def failed_start_def)
  next
    case 4
    have "receiver_accounts (?running h\<lparr>tr_state := RS_RunningListenOnly\<rparr>)"
      by (simp only: accounts_fields acc)
    with 4(1) show ?thesis unfolding 4(2) by (simp add: receiver_lifecycle_def resetStatistics_def)
  qed
qed

lemma stop_keeps:
  assumes "receiver_accounts r" and "receiver_lifecycle r"
    and "\<And>e. receiver_accounts (fst e) \<Longrightarrow> receiver_accounts (fst (m e)) \<and> same_life (fst e) (fst (m e))"
  shows "receiver_accounts (fst (EspIdfTwaiReceiver_stop api m (r, w))) \<and>
    receiver_lifecycle (fst (EspIdfTwaiReceiver_stop api m (r, w)))"
proof (cases "driverInstalled r")
  case True
  let ?r = "r\<lparr>tr_running := False\<rparr>"
  obtain e1 w1 where stop: "twai_stop api w = (e1, w1)" by fastforce
  obtain r2 w2 where wait: "wait_for_exit m 20 (?r, w1) = (r2, w2)" by fastforce
  have "receiver_accounts ?r" using assms(1) by (simp add: accounts_fields)
  with wait_keeps [of m "(?r, w1)" 20] assms(3) wait
  have "receiver_accounts r2" "same_life ?r r2" by auto
  with True stop wait show ?thesis
    by (auto simp: EspIdfTwaiReceiver_stop_def receiver_lifecycle_def same_life_def accounts_fields
        split_beta Let_def)
next
  case False
  with assms show ?thesis
    by (auto simp: EspIdfTwaiReceiver_stop_def accounts_fields receiver_lifecycle_def)
qed

lemma receiver_invariant:
  assumes "receiver_reachable api time depth safety config e"
  shows "receiver_accounts (fst e) \<and> receiver_lifecycle (fst e)"
  using assms
proof induction
  case created
  show ?case using accounts_start by (simp add: receiver_lifecycle_def mkEspIdfTwaiReceiver_def)
next
  case (started e status e')
  then show ?case using start_keeps by (metis prod.collapse snd_conv)
next
  case (task e)
  then show ?case
    using accounts_step same_life_step lifecycle_same by (metis prod.collapse)
next
  case (received r w out r')
  then show ?case
    using accounts_receive [of r]
    by (auto simp: tryReceive_def receiver_lifecycle_def split: prod.splits option.splits)
next
  case (stopped e meanwhile)
  have "receiver_accounts (fst e') \<Longrightarrow>
      receiver_accounts (fst (meanwhile e')) \<and> same_life (fst e') (fst (meanwhile e'))" for e'
    using stopped(2) accounts_step same_life_step
    by (auto simp: task_meanwhile_def split_beta) (simp_all add: same_life_def)
  with stopped stop_keeps [of "fst e" meanwhile api "snd e"] show ?case by simp
qed


section \<open>Properties\<close>

text \<open>C24: The CAN driver is touched only behind confirmed barriers and only to listen: whatever the
  platform answers, a start makes no driver call at all, or it first drives both barrier pins and
  reads both back at their safe levels, and then installs the driver once, in listen-only mode
  without a transmit queue; a start that fails after that uninstalls it again, and every failed
  start leaves the receiver in the fault state.\<close>

theorem receiver_starts_listen_only:
  assumes "EspIdfTwaiReceiver_start (logged_twai api) depth (GpioTwaiSafetyHal (logged_gpio gpio))
      (r, t, w, []) = (status, r', t', w', calls)"
  shows "(list_all (Not \<circ> touches_driver) calls \<or>
      TwaiSafetyPinConfig_isValid (ts_config t) \<and> TwaiListenOnlyConfig_isValid (tr_config r) \<and>
      (\<exists>g timing err rest. calls = barrier_calls (ts_config t) @ HC_install g timing err # rest \<and>
         gc_mode g = TWAI_MODE_LISTEN_ONLY \<and> gc_tx_queue_len g = 0 \<and>
         list_all (\<lambda>c. \<forall>g timing err. c \<noteq> HC_install g timing err) rest)) \<and>
    (status = SS_Started \<longrightarrow> tr_running r' \<and> driverInstalled r' \<and>
      tr_state r' = RS_RunningListenOnly) \<and>
    (status \<in> {SS_DriverStartFailed, SS_TaskStartFailed} \<longrightarrow>
      last calls = HC_uninstall \<and> \<not> driverInstalled r') \<and>
    (status \<notin> {SS_Started, SS_AlreadyRunning} \<longrightarrow> tr_state r' = RS_Fault)"
proof (cases "tr_state r = RS_RunningListenOnly \<or> \<not> TwaiListenOnlyConfig_isValid (tr_config r)")
  case True
  with assms show ?thesis
    by (auto simp: EspIdfTwaiReceiver_start_def Let_def split: if_splits)
next
  case False
  obtain ok t1 w1 calls1 where prep: "prepareTwaiListenOnlySafety
      (GpioTwaiSafetyHal (logged_gpio gpio)) (t, w, []) = (ok, t1, w1, calls1)"
    by (metis surj_pair)
  note barrier = prepare_calls [OF prep]
  show ?thesis
  proof (cases ok)
    case no: False
    with False assms prep barrier show ?thesis
      by (auto simp: EspIdfTwaiReceiver_start_def Let_def)
  next
    case True
    then have "TwaiSafetyPinConfig_isValid (ts_config t)" "calls1 = barrier_calls (ts_config t)"
      using barrier by auto
    with False True assms prep show ?thesis
      by (auto simp: EspIdfTwaiReceiver_start_def logged_twai_def general_config_def
          failed_start_def resetStatistics_def Let_def split: if_splits prod.splits)
  qed
qed

text \<open>A platform whose pins can be driven and whose driver starts.\<close>

definition bench_gpio :: "unit GpioHal" where
  "bench_gpio =
     \<lparr>configureOutputInSafeState = (\<lambda>p l w. (True, w)), hal_write = (\<lambda>p l w. (True, w)),
      configureInput = (\<lambda>p w. (True, w)), hal_read = (\<lambda>p w. (Some GL_High, w))\<rparr>"

definition bench_twai :: "unit TwaiApi" where
  "bench_twai =
     \<lparr>twai_driver_install = (\<lambda>g t w. (ESP_OK, w)), twai_start = (\<lambda>w. (ESP_OK, w)),
      twai_stop = (\<lambda>w. (ESP_OK, w)), twai_driver_uninstall = (\<lambda>w. (ESP_OK, w)),
      twai_receive = (\<lambda>t w. ((ESP_OK, \<lparr>tm_identifier = 0x130, tm_extd = False, tm_rtr = False,
        tm_dlc_non_comp = False, tm_data_length_code = 1,
        tm_data = [0x45, 0, 0, 0, 0, 0, 0, 0]\<rparr>), w)),
      twai_read_alerts = (\<lambda>w. ((ESP_OK, []), w)),
      twai_get_status_info = (\<lambda>w. ((ESP_OK, \<lparr>ti_rx_missed_count = 0, ti_rx_overrun_count = 0,
        ti_bus_error_count = 0, ti_rx_error_counter = 0, ti_tx_error_counter = 0\<rparr>), w)),
      xTaskCreateStaticPinnedToCore = (\<lambda>d p k w. (Some 1, w))\<rparr>"

definition bench_pins :: TwaiSafetyPinConfig where
  "bench_pins = TwaiSafetyPinConfig_default\<lparr>silentPin := 4, transmitInhibitPin := 5\<rparr>"

definition bench_acquisition :: TwaiListenOnlyConfig where
  "bench_acquisition = TwaiListenOnlyConfig_default\<lparr>receivePin := 6, transmitPin := 7\<rparr>"

lemma receiver_starts_listen_only_witness:
  "\<exists>r' t' calls g timing err rest.
     EspIdfTwaiReceiver_start (logged_twai bench_twai) 1024
       (GpioTwaiSafetyHal (logged_gpio bench_gpio))
       (mkEspIdfTwaiReceiver bench_acquisition, mkGpioTwaiSafety bench_pins, (), []) =
       (SS_Started, r', t', (), calls) \<and>
     calls = barrier_calls bench_pins @ HC_install g timing err # rest \<and>
     gc_mode g = TWAI_MODE_LISTEN_ONLY"
proof -
  let ?start = "EspIdfTwaiReceiver_start (logged_twai bench_twai) 1024
       (GpioTwaiSafetyHal (logged_gpio bench_gpio))
       (mkEspIdfTwaiReceiver bench_acquisition, mkGpioTwaiSafety bench_pins, (), [])"
  obtain status r' t' w' calls where run: "?start = (status, r', t', w', calls)"
    by (metis surj_pair)
  have "status = SS_Started \<and> \<not> list_all (Not \<circ> touches_driver) calls"
    using run
    by (auto simp: EspIdfTwaiReceiver_start_def mkEspIdfTwaiReceiver_def mkGpioTwaiSafety_def
        bench_acquisition_def bench_pins_def TwaiListenOnlyConfig_default_def
        TwaiListenOnlyConfig_isValid_def CanReceiverConfig_isValid_def isSupportedBenchBitrate_def
        CanReceiverConfig_default_def prepareTwaiListenOnlySafety_def GpioTwaiSafetyHal_def
        GpioTwaiSafetyHal_holdHardwareSilent_def GpioTwaiSafetyHal_holdTransmitInhibited_def
        GpioTwaiSafetyHal_safeStateConfirmed_def TwaiSafetyPinConfig_isValid_def
        TwaiSafetyPinConfig_default_def logged_gpio_def logged_twai_def bench_gpio_def
        bench_twai_def touches_driver_def Let_def)
  with receiver_starts_listen_only [OF run] run show ?thesis
    by (auto simp: mkGpioTwaiSafety_def)
qed



end
