(* ===== verification/SettingsStream.thy ===== *)
theory SettingsStream
  imports EspSettings "HOL-Library.Sublist"
begin

text \<open>
  The byte stream of the settings link (\<^verbatim>\<open>infrastructure/settings_stream.hpp/.cpp\<close>): a receiver that
  finds frames among the bytes, the endpoint that hands them to the service and sends the answers,
  and the cycle of the firmware that feeds it (\<^verbatim>\<open>main.cpp\<close>).
\<close>

section \<open>The receiver\<close>

record SettingsStreamConfig =
  interByteTimeoutMs :: u32

definition SettingsStreamConfig_default :: SettingsStreamConfig where
  "SettingsStreamConfig_default = \<lparr>interByteTimeoutMs = 250\<rparr>"

datatype SettingsStreamEventType = SE_None | SE_FrameReady | SE_FrameRejected | SE_TimedOut

record SettingsStreamEvent =
  sev_type :: SettingsStreamEventType
  sev_decodeStatus :: SettingsFrameDecodeStatus
  sev_frame :: SettingsProtocolFrame

definition stream_event ::
    "SettingsStreamEventType \<Rightarrow> SettingsFrameDecodeStatus \<Rightarrow> SettingsStreamEvent" where
  "stream_event t status =
     \<lparr>sev_type = t, sev_decodeStatus = status, sev_frame = SettingsProtocolFrame_default\<rparr>"

abbreviation no_event :: SettingsStreamEvent where
  "no_event \<equiv> stream_event SE_None FD_Ok"

record SettingsStreamReceiver =
  sr_config :: SettingsStreamConfig
  sr_buffer :: "u8 list"
  bufferedSize :: nat
  expectedSize :: nat
  lastByteTimeMs :: u32

definition mkSettingsStreamReceiver :: "SettingsStreamConfig \<Rightarrow> SettingsStreamReceiver" where
  "mkSettingsStreamReceiver config =
     \<lparr>sr_config = config, sr_buffer = replicate MaximumFrameSize 0, bufferedSize = 0,
      expectedSize = 0, lastByteTimeMs = 0\<rparr>"

definition SettingsStreamReceiver_reset :: "SettingsStreamReceiver \<Rightarrow> SettingsStreamReceiver" where
  "SettingsStreamReceiver_reset r =
     r\<lparr>sr_buffer := replicate (length (sr_buffer r)) 0, bufferedSize := 0, expectedSize := 0,
       lastByteTimeMs := 0\<rparr>"

definition SettingsStreamReceiver_expired :: "u32 \<Rightarrow> SettingsStreamReceiver \<Rightarrow> bool" where
  "SettingsStreamReceiver_expired nowMs r \<longleftrightarrow>
     bufferedSize r \<noteq> 0 \<and> nowMs - lastByteTimeMs r > interByteTimeoutMs (sr_config r)"

definition consumeSynchronized ::
    "u8 \<Rightarrow> SettingsStreamReceiver \<Rightarrow> SettingsStreamEvent \<times> SettingsStreamReceiver" where
  "consumeSynchronized byte r =
     (if bufferedSize r < length FrameMagic then
        (no_event,
         if byte = FrameMagic ! bufferedSize r
         then r\<lparr>sr_buffer := (sr_buffer r)[bufferedSize r := byte],
                bufferedSize := bufferedSize r + 1\<rparr>
         else if byte = FrameMagic ! 0
         then r\<lparr>sr_buffer := (sr_buffer r)[0 := byte], bufferedSize := 1\<rparr>
         else r\<lparr>bufferedSize := 0\<rparr>)
      else if bufferedSize r \<ge> length (sr_buffer r) then
        (stream_event SE_FrameRejected FD_TooLong, SettingsStreamReceiver_reset r)
      else
       (let r = r\<lparr>sr_buffer := (sr_buffer r)[bufferedSize r := byte],
                  bufferedSize := bufferedSize r + 1\<rparr>;
            payloadSize = readU16 (sr_buffer r) PayloadSizeOffset
        in
        if bufferedSize r = HeaderSize \<and> unat payloadSize > UserSettingsPayloadSize
        then (stream_event SE_FrameRejected FD_PayloadTooLarge, SettingsStreamReceiver_reset r)
        else
         (let r = (if bufferedSize r = HeaderSize
                   then r\<lparr>expectedSize := HeaderSize + unat payloadSize + ChecksumSize\<rparr> else r)
          in
          if expectedSize r = 0 \<or> bufferedSize r < expectedSize r then (no_event, r)
          else
           (let decoded = SettingsProtocolCodec_decode (Some (sr_buffer r)) (bufferedSize r);
                r = SettingsStreamReceiver_reset r
            in
            if \<not> SettingsFrameDecodeResult_valid decoded
            then (stream_event SE_FrameRejected (fdr_status decoded), r)
            else (\<lparr>sev_type = SE_FrameReady, sev_decodeStatus = FD_Ok,
                   sev_frame = fdr_frame decoded\<rparr>, r)))))"

definition SettingsStreamReceiver_consume ::
    "u8 \<Rightarrow> u32 \<Rightarrow> SettingsStreamReceiver \<Rightarrow> SettingsStreamEvent \<times> SettingsStreamReceiver" where
  "SettingsStreamReceiver_consume byte nowMs r =
     (let timedOut = SettingsStreamReceiver_expired nowMs r;
          r = (if timedOut then SettingsStreamReceiver_reset r else r);
          r = r\<lparr>lastByteTimeMs := nowMs\<rparr>;
          (event, r) = consumeSynchronized byte r
      in
      if sev_type event \<noteq> SE_None then (event, r)
      else if timedOut then (stream_event SE_TimedOut FD_Ok, r)
      else (event, r))"

definition SettingsStreamReceiver_poll ::
    "u32 \<Rightarrow> SettingsStreamReceiver \<Rightarrow> SettingsStreamEvent \<times> SettingsStreamReceiver" where
  "SettingsStreamReceiver_poll nowMs r =
     (if \<not> SettingsStreamReceiver_expired nowMs r then (no_event, r)
      else (stream_event SE_TimedOut FD_Ok, SettingsStreamReceiver_reset r))"

section \<open>The endpoint\<close>

datatype SettingsEndpointStatus =
  EP_None | EP_ResponseSent | EP_FrameRejected | EP_FrameTimedOut | EP_TransportFailure

record SettingsEndpointResult =
  ep_status :: SettingsEndpointStatus
  ep_decodeStatus :: SettingsFrameDecodeStatus
  ep_responseStatus :: SettingsProtocolStatus

definition endpoint_result ::
    "SettingsEndpointStatus \<Rightarrow> SettingsFrameDecodeStatus \<Rightarrow> SettingsProtocolStatus \<Rightarrow>
       SettingsEndpointResult" where
  "endpoint_result status decodeStatus responseStatus =
     \<lparr>ep_status = status, ep_decodeStatus = decodeStatus, ep_responseStatus = responseStatus\<rparr>"

text \<open>The transport port sends a run of bytes.\<close>

type_synonym 'e SettingsTransportPort = "u8 list \<Rightarrow> 'e \<Rightarrow> bool \<times> 'e"

record 'e SettingsProtocolEndpoint =
  ep_receiver :: SettingsStreamReceiver
  ep_store :: "'e UserSettingsStore"
  ep_identity :: SettingsDeviceIdentity
  ep_transport :: "'e SettingsTransportPort"

definition mkSettingsProtocolEndpoint ::
    "'e UserSettingsStore \<Rightarrow> 'e SettingsTransportPort \<Rightarrow> SettingsStreamConfig \<Rightarrow>
       SettingsDeviceIdentity \<Rightarrow> 'e SettingsProtocolEndpoint" where
  "mkSettingsProtocolEndpoint store transport streamConfig identity =
     \<lparr>ep_receiver = mkSettingsStreamReceiver streamConfig, ep_store = store,
      ep_identity = identity, ep_transport = transport\<rparr>"

definition handleStreamEvent ::
    "SettingsStreamEvent \<Rightarrow> SettingsProtocolAccess \<Rightarrow> 'e SettingsProtocolEndpoint \<Rightarrow> 'e \<Rightarrow>
       SettingsEndpointResult \<times> 'e" where
  "handleStreamEvent event access ep e =
     (if sev_type event = SE_None then (endpoint_result EP_None FD_Ok PS_Ok, e)
      else if sev_type event = SE_TimedOut then (endpoint_result EP_FrameTimedOut FD_Ok PS_Ok, e)
      else if sev_type event = SE_FrameRejected
      then (endpoint_result EP_FrameRejected (sev_decodeStatus event) PS_Ok, e)
      else
       (let (response, e) = SettingsProtocolService_handle (ep_store ep) (ep_identity ep)
              (sev_frame event) access e;
            (ok, encoded, encodedSize) = SettingsProtocolCodec_encode response
        in
        if \<not> ok then (endpoint_result EP_TransportFailure FD_Ok (pf_status response), e)
        else
         (let (sent, e) = ep_transport ep (take encodedSize encoded) e in
          if \<not> sent then (endpoint_result EP_TransportFailure FD_Ok (pf_status response), e)
          else (endpoint_result EP_ResponseSent FD_Ok (pf_status response), e))))"

definition SettingsProtocolEndpoint_consume ::
    "u8 \<Rightarrow> u32 \<Rightarrow> SettingsProtocolAccess \<Rightarrow> 'e SettingsProtocolEndpoint \<Rightarrow> 'e \<Rightarrow>
       SettingsEndpointResult \<times> 'e SettingsProtocolEndpoint \<times> 'e" where
  "SettingsProtocolEndpoint_consume byte nowMs access ep e =
     (let (event, receiver) = SettingsStreamReceiver_consume byte nowMs (ep_receiver ep);
          ep = ep\<lparr>ep_receiver := receiver\<rparr>;
          (result, e) = handleStreamEvent event access ep e
      in (result, ep, e))"

definition SettingsProtocolEndpoint_poll ::
    "u32 \<Rightarrow> 'e SettingsProtocolEndpoint \<Rightarrow> SettingsEndpointResult \<times> 'e SettingsProtocolEndpoint" where
  "SettingsProtocolEndpoint_poll nowMs ep =
     (let (event, receiver) = SettingsStreamReceiver_poll nowMs (ep_receiver ep);
          ep = ep\<lparr>ep_receiver := receiver\<rparr>
      in (if sev_type event = SE_TimedOut then endpoint_result EP_FrameTimedOut FD_Ok PS_Ok
          else endpoint_result EP_None FD_Ok PS_Ok, ep))"

definition SettingsProtocolEndpoint_reset ::
    "'e SettingsProtocolEndpoint \<Rightarrow> 'e SettingsProtocolEndpoint" where
  "SettingsProtocolEndpoint_reset ep =
     ep\<lparr>ep_receiver := SettingsStreamReceiver_reset (ep_receiver ep)\<rparr>"

fun SettingsStreamEventType_toString :: "SettingsStreamEventType \<Rightarrow> string" where
  "SettingsStreamEventType_toString SE_None = ''none''"
| "SettingsStreamEventType_toString SE_FrameReady = ''frame_ready''"
| "SettingsStreamEventType_toString SE_FrameRejected = ''frame_rejected''"
| "SettingsStreamEventType_toString SE_TimedOut = ''timed_out''"

fun SettingsEndpointStatus_toString :: "SettingsEndpointStatus \<Rightarrow> string" where
  "SettingsEndpointStatus_toString EP_None = ''none''"
| "SettingsEndpointStatus_toString EP_ResponseSent = ''response_sent''"
| "SettingsEndpointStatus_toString EP_FrameRejected = ''frame_rejected''"
| "SettingsEndpointStatus_toString EP_FrameTimedOut = ''frame_timed_out''"
| "SettingsEndpointStatus_toString EP_TransportFailure = ''transport_failure''"

section \<open>The buffer never overflows\<close>

text \<open>
  The bytes in the buffer are the last bytes consumed; they start with the magic, and once the
  header is complete the expected size is known and not yet reached.
\<close>

definition receiver_wf :: "SettingsStreamReceiver \<Rightarrow> bool" where
  "receiver_wf r \<longleftrightarrow> length (sr_buffer r) = 56 \<and>
     take (min (bufferedSize r) 4) (sr_buffer r) = take (bufferedSize r) FrameMagic \<and>
     (if bufferedSize r < 12 then expectedSize r = 0
      else expectedSize r = 16 + unat (readU16 (sr_buffer r) 10) \<and> expectedSize r \<le> 56 \<and>
        bufferedSize r < expectedSize r)"

lemma reset_wf: "length (sr_buffer r) = 56 \<Longrightarrow> receiver_wf (SettingsStreamReceiver_reset r)"
  by (simp add: receiver_wf_def SettingsStreamReceiver_reset_def)

lemma mkReceiver_wf: "receiver_wf (mkSettingsStreamReceiver config)"
  by (simp add: receiver_wf_def mkSettingsStreamReceiver_def frame_layout)

lemma readU16_cong: "take n b = take n b' \<Longrightarrow> i + 1 < n \<Longrightarrow> readU16 b i = readU16 b' i"
  unfolding readU16_def by (metis add_lessD1 nth_take)

lemma readU32_cong: "take n b = take n b' \<Longrightarrow> i + 3 < n \<Longrightarrow> readU32 b i = readU32 b' i"
proof -
  assume eq: "take n b = take n b'" and i: "i + 3 < n"
  have "b ! j = b' ! j" if "j < n" for j using eq that by (metis nth_take)
  with i show ?thesis by (simp add: readU32_def)
qed

lemma decode_status:
  "16 \<le> n \<Longrightarrow> n \<le> 56 \<Longrightarrow>
     fdr_status (SettingsProtocolCodec_decode (Some e) n) \<notin> {FD_TooShort, FD_TooLong}"
  by (simp add: SettingsProtocolCodec_decode_def decode_failed_def frame_layout Let_def)

lemma consume_wf:
  assumes "receiver_wf r"
  shows "receiver_wf (snd (consumeSynchronized byte r))"
    and "sev_decodeStatus (fst (consumeSynchronized byte r)) \<notin> {FD_TooLong, FD_TooShort}"
proof -
  let ?k = "bufferedSize r"
  let ?b = "(sr_buffer r)[?k := byte]"
  have len: "length (sr_buffer r) = 56" "?k < 56"
    using assms by (auto simp: receiver_wf_def split: if_splits)
  show "receiver_wf (snd (consumeSynchronized byte r))"
  proof (cases "?k < 4")
    case True
    have pre: "take ?k (sr_buffer r) = take ?k FrameMagic" "expectedSize r = 0"
      using assms True by (simp_all add: receiver_wf_def min_def)
    have "take (Suc ?k) ?b = take (Suc ?k) FrameMagic" if "byte = FrameMagic ! ?k"
      using pre that True len by (simp add: take_Suc_conv_app_nth)
    moreover have "take (Suc 0) ((sr_buffer r)[0 := byte]) = take (Suc 0) FrameMagic"
      if "byte = FrameMagic ! 0"
      using that len by (simp add: take_Suc_conv_app_nth FrameMagic_def)
    ultimately show ?thesis
      using True len pre(2)
      by (simp add: consumeSynchronized_def receiver_wf_def min_def FrameMagic_def)
  next
    case False
    have "take 4 ?b = FrameMagic" using assms False by (simp add: receiver_wf_def)
    moreover have "readU16 ?b 10 = readU16 (sr_buffer r) 10" if "12 \<le> ?k"
      using that by (simp add: wire_simps)
    ultimately show ?thesis
      using False len assms reset_wf
      by (auto simp: consumeSynchronized_def receiver_wf_def frame_layout Let_def
          SettingsStreamReceiver_reset_def split: if_splits)
  qed
  show "sev_decodeStatus (fst (consumeSynchronized byte r)) \<notin> {FD_TooLong, FD_TooShort}"
    using len assms decode_status [of "Suc ?k" ?b]
    by (auto simp: consumeSynchronized_def receiver_wf_def frame_layout Let_def stream_event_def
        split: if_splits)
qed

section \<open>Receiving a frame\<close>

lemma decode_cong:
  assumes "take n e = take n e'" and "n \<le> length e" and "n \<le> length e'"
  shows "SettingsProtocolCodec_decode (Some e) n = SettingsProtocolCodec_decode (Some e') n"
proof (cases "n < 16")
  case False
  have nth: "e ! i = e' ! i" if "i < n" for i using assms(1) that by (metis nth_take)
  have sub: "take k e = take k e'" if "k \<le> n" for k using assms(1) that by (metis min.absorb1 take_take)
  have r10: "readU16 e 10 = readU16 e' 10" "readU16 e 8 = readU16 e' 8"
    using False nth by (simp_all add: readU16_def)
  have rest: "readU32 e (12 + k) = readU32 e' (12 + k)" "crc32 e (12 + k) = crc32 e' (12 + k)"
    "take k (drop 12 e) = take k (drop 12 e')" if "16 + k = n" for k
    using that nth assms(2,3) sub by (auto simp: readU32_def take_drop intro!: crc32_cong)
  show ?thesis
    using False nth sub [of 4] r10 rest
    by (auto simp: SettingsProtocolCodec_decode_def frame_layout Let_def)
qed (simp add: SettingsProtocolCodec_decode_def frame_layout)

text \<open>The receiver holds the first \<open>k\<close> bytes of the encoding of a frame.\<close>

definition receiving :: "SettingsProtocolFrame \<Rightarrow> nat \<Rightarrow> SettingsStreamReceiver \<Rightarrow> bool" where
  "receiving f k r \<longleftrightarrow> receiver_wf r \<and> bufferedSize r = k \<and>
     take k (sr_buffer r) = take k (frame_image f)"

lemma receiving_step:
  assumes "receiving f k r" and "frame_wf f" and "k < frame_size f"
    and "consumeSynchronized (frame_image f ! k) r = (event, r')"
  shows "if Suc k < frame_size f then event = no_event \<and> receiving f (Suc k) r'
    else event = \<lparr>sev_type = SE_FrameReady, sev_decodeStatus = FD_Ok, sev_frame = f\<rparr> \<and>
      receiver_wf r' \<and> bufferedSize r' = 0"
proof -
  let ?i = "frame_image f" and ?n = "frame_size f"
  let ?b = "(sr_buffer r)[k := ?i ! k]"
  have p: "length (pf_payload f) = 40" "unat (pf_payloadSize f) \<le> 40"
    using assms(2) by (simp_all add: frame_wf_def)
  note img = frame_image_facts [OF p(1) refl p(2)]
  have wf: "receiver_wf r" and k: "bufferedSize r = k"
    and pre: "take k (sr_buffer r) = take k ?i"
    using assms(1) by (simp_all add: receiving_def)
  have len: "length (sr_buffer r) = 56" "k < 56" "?n \<le> 56"
    using wf assms(3) p(2) by (simp_all add: receiver_wf_def frame_size_def)
  have prefix: "take (Suc k) ?b = take (Suc k) ?i"
    using take_update [OF pre] len img(1) by simp
  have wf': "receiver_wf r'" using consume_wf(1) [OF wf, of "?i ! k"] assms(4) by simp
  show ?thesis
  proof (cases "k < 4")
    case True
    then have "?i ! k = FrameMagic ! k" using img(2) by (metis nth_take)
    then have "event = no_event" "r' = r\<lparr>sr_buffer := ?b, bufferedSize := Suc k\<rparr>"
      using assms(4) True k by (simp_all add: consumeSynchronized_def)
    with True prefix wf' show ?thesis by (simp add: receiving_def frame_size_def)
  next
    case False
    have size: "readU16 ?b 10 = pf_payloadSize f" if "12 \<le> Suc k"
      using readU16_cong [OF prefix, of 10] that img(8) by simp
    have expected: "expectedSize r = (if k < 12 then 0 else ?n)"
      using wf k size by (auto simp: receiver_wf_def frame_size_def wire_simps split: if_splits)
    let ?r1 = "r\<lparr>sr_buffer := ?b, bufferedSize := Suc k,
      expectedSize := (if Suc k < 12 then 0 else ?n)\<rparr>"
    have step: "consumeSynchronized (?i ! k) r =
      (if Suc k < 12 \<or> Suc k < ?n then (no_event, ?r1)
       else (let decoded = SettingsProtocolCodec_decode (Some ?b) (Suc k);
                 r = SettingsStreamReceiver_reset ?r1
             in if \<not> SettingsFrameDecodeResult_valid decoded
                then (stream_event SE_FrameRejected (fdr_status decoded), r)
                else (\<lparr>sev_type = SE_FrameReady, sev_decodeStatus = FD_Ok,
                       sev_frame = fdr_frame decoded\<rparr>, r)))"
      using False k len size expected p(2)
      by (auto simp: consumeSynchronized_def frame_layout frame_size_def Let_def
          SettingsStreamReceiver_reset_def)
    show ?thesis
    proof (cases "Suc k < ?n")
      case True
      with step assms(4) prefix wf' show ?thesis by (simp add: receiving_def)
    next
      case last: False
      with assms(3) have n: "Suc k = ?n" "\<not> Suc k < 12" by (simp_all add: frame_size_def)
      have "SettingsProtocolCodec_decode (Some ?b) ?n = \<lparr>fdr_status = FD_Ok, fdr_frame = f\<rparr>"
        using decode_cong [of ?n ?b ?i] prefix n len img(1) decode_frame_image [OF assms(2)] by simp
      with step assms(4) n wf' show ?thesis
        by (simp add: SettingsFrameDecodeResult_valid_def SettingsStreamReceiver_reset_def)
    qed
  qed
qed

section \<open>Runs of the receiver\<close>

fun stream_run ::
    "(u8 \<times> u32) list \<Rightarrow> SettingsStreamReceiver \<Rightarrow> SettingsStreamEvent list \<times> SettingsStreamReceiver"
where
  "stream_run [] r = ([], r)"
| "stream_run ((byte, now) # rest) r =
     (let (event, r) = SettingsStreamReceiver_consume byte now r;
          (events, r) = stream_run rest r
      in (event # events, r))"

definition frame_ready :: "SettingsProtocolFrame \<Rightarrow> SettingsStreamEvent" where
  "frame_ready f = \<lparr>sev_type = SE_FrameReady, sev_decodeStatus = FD_Ok, sev_frame = f\<rparr>"

text \<open>Every byte follows the one before within the timeout.\<close>

fun timely :: "u32 \<Rightarrow> u32 \<Rightarrow> u32 list \<Rightarrow> bool" where
  "timely timeout previous [] = True"
| "timely timeout previous (now # rest) \<longleftrightarrow> now - previous \<le> timeout \<and> timely timeout now rest"

lemma consume_keeps:
  "sr_config (snd (consumeSynchronized byte r)) = sr_config r"
  "sev_type (fst (consumeSynchronized byte r)) = SE_None \<Longrightarrow>
     lastByteTimeMs (snd (consumeSynchronized byte r)) = lastByteTimeMs r"
  by (auto simp: consumeSynchronized_def Let_def stream_event_def SettingsStreamReceiver_reset_def
      split: if_splits)

lemma reset_simps [simp]:
  "bufferedSize (SettingsStreamReceiver_reset r) = 0"
  "sr_config (SettingsStreamReceiver_reset r) = sr_config r"
  "length (sr_buffer (SettingsStreamReceiver_reset r)) = length (sr_buffer r)"
  by (simp_all add: SettingsStreamReceiver_reset_def)

lemma wf_time [simp]: "receiver_wf (r\<lparr>lastByteTimeMs := t\<rparr>) \<longleftrightarrow> receiver_wf r"
  by (simp add: receiver_wf_def)

lemma receiving_time [simp]: "receiving f k (r\<lparr>lastByteTimeMs := t\<rparr>) \<longleftrightarrow> receiving f k r"
  by (simp add: receiving_def)

text \<open>Where a byte finds the receiver: emptied when the last byte is too old.\<close>

abbreviation refreshed :: "u32 \<Rightarrow> SettingsStreamReceiver \<Rightarrow> SettingsStreamReceiver" where
  "refreshed now r \<equiv>
     (if SettingsStreamReceiver_expired now r then SettingsStreamReceiver_reset r else r)
       \<lparr>lastByteTimeMs := now\<rparr>"

lemma refreshed_wf: "receiver_wf r \<Longrightarrow> receiver_wf (refreshed now r)"
proof -
  assume wf: "receiver_wf r"
  then have "length (sr_buffer r) = 56" by (simp add: receiver_wf_def)
  with wf show ?thesis by (simp add: reset_wf)
qed

lemma receiver_consume_wf:
  assumes "receiver_wf r"
  shows "receiver_wf (snd (SettingsStreamReceiver_consume byte now r))"
    and "sr_config (snd (SettingsStreamReceiver_consume byte now r)) = sr_config r"
proof -
  let ?r = "refreshed now r"
  from consume_wf(1) [OF refreshed_wf [OF assms], of byte now] consume_keeps(1) [of byte ?r]
  show "receiver_wf (snd (SettingsStreamReceiver_consume byte now r))"
    "sr_config (snd (SettingsStreamReceiver_consume byte now r)) = sr_config r"
    by (auto simp: SettingsStreamReceiver_consume_def Let_def split: prod.splits)
qed

lemma stream_run_wf:
  "receiver_wf r \<Longrightarrow>
     receiver_wf (snd (stream_run xs r)) \<and> sr_config (snd (stream_run xs r)) = sr_config r"
proof (induction xs arbitrary: r)
  case (Cons x xs)
  obtain byte now where x: "x = (byte, now)" by fastforce
  obtain event r1 where c: "SettingsStreamReceiver_consume byte now r = (event, r1)" by fastforce
  with receiver_consume_wf [OF Cons.prems, of byte now]
  have "receiver_wf r1" "sr_config r1 = sr_config r" by simp_all
  with Cons.IH [of r1] c show ?case by (auto simp: x split: prod.splits)
qed simp

text \<open>The next byte of a frame, in time.\<close>

lemma receiver_consume_step:
  assumes "receiving f k r" and "frame_wf f" and "k < frame_size f"
    and "\<not> SettingsStreamReceiver_expired now r"
    and "SettingsStreamReceiver_consume (frame_image f ! k) now r = (event, r')"
  shows "if Suc k < frame_size f
    then event = no_event \<and> receiving f (Suc k) r' \<and> lastByteTimeMs r' = now
    else event = frame_ready f \<and> receiver_wf r' \<and> bufferedSize r' = 0"
proof -
  let ?r = "r\<lparr>lastByteTimeMs := now\<rparr>"
  obtain ev r1 where c: "consumeSynchronized (frame_image f ! k) ?r = (ev, r1)" by fastforce
  have "event = ev" "r' = r1"
    using assms(4,5) c by (auto simp: SettingsStreamReceiver_consume_def split: if_splits)
  moreover have "sev_type no_event = SE_None" by (simp add: stream_event_def)
  ultimately show ?thesis
    using receiving_step [OF _ assms(2,3) c] assms(1) consume_keeps(2) [of "frame_image f ! k" ?r] c
    by (auto simp: frame_ready_def split: if_splits)
qed

lemma receive_rest:
  assumes "frame_wf f"
  shows "receiving f k r \<Longrightarrow> 0 < k \<Longrightarrow> k + length ts = frame_size f \<Longrightarrow> ts \<noteq> [] \<Longrightarrow>
    timely (interByteTimeoutMs (sr_config r)) (lastByteTimeMs r) ts \<Longrightarrow>
    \<exists>r'. stream_run (zip (drop k (take (frame_size f) (frame_image f))) ts) r =
      (replicate (length ts - 1) no_event @ [frame_ready f], r') \<and>
      receiver_wf r' \<and> bufferedSize r' = 0"
proof (induction ts arbitrary: k r)
  case (Cons now ts)
  let ?n = "frame_size f" and ?i = "frame_image f"
  have k: "k < ?n" using Cons.prems(3) by simp
  have img: "length ?i = 56" "?n \<le> 56"
    using assms frame_image_facts(1) [of f, OF _ refl] by (simp_all add: frame_wf_def frame_size_def)
  have cons: "drop k (take ?n ?i) = ?i ! k # drop (Suc k) (take ?n ?i)"
    using k img by (simp add: Cons_nth_drop_Suc [symmetric])
  obtain event r1 where c: "SettingsStreamReceiver_consume (?i ! k) now r = (event, r1)" by fastforce
  have "\<not> SettingsStreamReceiver_expired now r"
    using Cons.prems(5) by (simp add: SettingsStreamReceiver_expired_def not_less)
  note step = receiver_consume_step [OF Cons.prems(1) assms k this c]
  have config: "sr_config r1 = sr_config r"
    using receiver_consume_wf(2) [of r "?i ! k" now] Cons.prems(1) c by (simp add: receiving_def)
  show ?case
  proof (cases ts)
    case Nil
    with Cons.prems(3) step c cons show ?thesis by simp
  next
    case (Cons t ts')
    then have "Suc k < ?n" using Cons.prems(3) by simp
    with step have r1: "event = no_event" "receiving f (Suc k) r1" "lastByteTimeMs r1 = now"
      by simp_all
    obtain r' where "stream_run (zip (drop (Suc k) (take ?n ?i)) ts) r1 =
        (replicate (length ts - 1) no_event @ [frame_ready f], r') \<and>
        receiver_wf r' \<and> bufferedSize r' = 0"
      using Cons.IH [OF r1(2)] Cons.prems Cons r1(3) config by auto
    with c cons r1(1) Cons show ?thesis by simp
  qed
qed simp


lemma receive_frame:
  assumes "frame_wf f" and "receiver_wf r"
    and "bufferedSize r = 0 \<or> SettingsStreamReceiver_expired now r"
    and "length ts = frame_size f - 1"
    and "timely (interByteTimeoutMs (sr_config r)) now ts"
  shows "\<exists>first r'. stream_run (zip (take (frame_size f) (frame_image f)) (now # ts)) r =
      (first # replicate (length ts - 1) no_event @ [frame_ready f], r') \<and>
      sev_type first \<in> {SE_None, SE_TimedOut} \<and> bufferedSize r' = 0"
proof -
  let ?n = "frame_size f" and ?i = "frame_image f"
  let ?r = "refreshed now r"
  have img: "length ?i = 56" "?n \<le> 56" "16 \<le> ?n"
    using assms(1) frame_image_facts(1) [of f, OF _ refl]
    by (simp_all add: frame_wf_def frame_size_def)
  have "receiver_wf ?r" "bufferedSize ?r = 0"
    using refreshed_wf [OF assms(2)] assms(3) by auto
  then have "receiving f 0 ?r" by (simp add: receiving_def)
  obtain ev r1 where c: "consumeSynchronized (?i ! 0) ?r = (ev, r1)" by fastforce
  have step: "ev = no_event" "receiving f 1 r1"
    using receiving_step [OF \<open>receiving f 0 ?r\<close> assms(1) _ c] img by simp_all
  have keeps: "sr_config r1 = sr_config r" "lastByteTimeMs r1 = now"
    using consume_keeps [of "?i ! 0" ?r] c step(1) by (simp_all add: stream_event_def)
  have consume: "\<exists>first. SettingsStreamReceiver_consume (?i ! 0) now r = (first, r1) \<and>
      sev_type first \<in> {SE_None, SE_TimedOut}"
    using c step(1) by (auto simp: SettingsStreamReceiver_consume_def stream_event_def Let_def)
  have "take ?n ?i = ?i ! 0 # drop 1 (take ?n ?i)"
    using Cons_nth_drop_Suc [of 0 "take ?n ?i"] img by simp
  then have cons: "zip (take ?n ?i) (now # ts) = (?i ! 0, now) # zip (drop 1 (take ?n ?i)) ts"
    by (metis zip_Cons_Cons)
  have "ts \<noteq> []" using assms(4) img(3) by auto
  from receive_rest [OF assms(1) step(2) _ _ this] assms(4,5) img(3) keeps
  obtain r' where "stream_run (zip (drop 1 (take ?n ?i)) ts) r1 =
      (replicate (length ts - 1) no_event @ [frame_ready f], r')" "bufferedSize r' = 0"
    by (auto simp: le_diff_conv2)
  with consume show ?thesis unfolding cons by fastforce
qed

section \<open>What was heard\<close>

text \<open>The buffer holds the last bytes consumed.\<close>

definition heard :: "u8 list \<Rightarrow> SettingsStreamReceiver \<Rightarrow> bool" where
  "heard bytes r \<longleftrightarrow> receiver_wf r \<and> suffix (take (bufferedSize r) (sr_buffer r)) bytes"

lemma consume_heard:
  assumes "heard bytes r" and "consumeSynchronized byte r = (event, r')"
  shows "heard (bytes @ [byte]) r'"
    and "sev_type event = SE_FrameReady \<Longrightarrow>
      frame_wf (sev_frame event) \<and>
      suffix (take (frame_size (sev_frame event)) (frame_image (sev_frame event))) (bytes @ [byte])"
proof -
  let ?k = "bufferedSize r" and ?b = "(sr_buffer r)[bufferedSize r := byte]"
  have wf: "receiver_wf r" and suf: "suffix (take ?k (sr_buffer r)) bytes"
    using assms(1) by (simp_all add: heard_def)
  have len: "length (sr_buffer r) = 56" "?k < 56"
    using wf by (auto simp: receiver_wf_def split: if_splits)
  have grown: "suffix (take (Suc ?k) ?b) (bytes @ [byte])"
    using suf len by (simp add: take_Suc_conv_app_nth suffix_def)
  have one: "suffix (take (Suc 0) ((sr_buffer r)[0 := byte])) (bytes @ [byte])"
    using len by (simp add: take_Suc_conv_app_nth suffix_def)
  have "receiver_wf r'" using consume_wf(1) [OF wf, of byte] assms(2) by simp
  moreover have "suffix (take (bufferedSize r') (sr_buffer r')) (bytes @ [byte])"
    using assms(2) grown one len
    by (auto simp: consumeSynchronized_def Let_def split: if_splits)
  ultimately show "heard (bytes @ [byte]) r'" by (simp add: heard_def)
  let ?d = "SettingsProtocolCodec_decode (Some ?b) (Suc ?k)"
  assume "sev_type event = SE_FrameReady"
  then have "sev_frame event = fdr_frame ?d \<and> fdr_status ?d = FD_Ok"
    using assms(2)
    by (auto simp: consumeSynchronized_def Let_def stream_event_def
        SettingsFrameDecodeResult_valid_def split: if_splits)
  with decode_is_image [OF refl, of ?b "Suc ?k"] len grown
  show "frame_wf (sev_frame event) \<and>
      suffix (take (frame_size (sev_frame event)) (frame_image (sev_frame event))) (bytes @ [byte])"
    by simp
qed

lemma heard_reset: "receiver_wf r \<Longrightarrow> heard bytes (SettingsStreamReceiver_reset r)"
  using reset_wf [of r] by (simp add: heard_def receiver_wf_def del: reset_simps(3))

lemma heard_time [simp]: "heard bytes (r\<lparr>lastByteTimeMs := t\<rparr>) \<longleftrightarrow> heard bytes r"
  by (simp add: heard_def)

lemma receiver_consume_heard:
  assumes "heard bytes r" and "SettingsStreamReceiver_consume byte now r = (event, r')"
  shows "heard (bytes @ [byte]) r'"
    and "sev_type event = SE_FrameReady \<Longrightarrow>
      frame_wf (sev_frame event) \<and>
      suffix (take (frame_size (sev_frame event)) (frame_image (sev_frame event))) (bytes @ [byte])"
proof -
  let ?r = "refreshed now r"
  obtain ev r1 where c: "consumeSynchronized byte ?r = (ev, r1)" by fastforce
  have h: "heard bytes ?r" using assms(1) heard_reset [of r] by (simp add: heard_def)
  have "r' = r1" "sev_type event = SE_FrameReady \<Longrightarrow> event = ev"
    using assms(2) c
    by (auto simp: SettingsStreamReceiver_consume_def stream_event_def split: if_splits)
  with consume_heard [OF h c] show "heard (bytes @ [byte]) r'"
    "sev_type event = SE_FrameReady \<Longrightarrow> frame_wf (sev_frame event) \<and>
      suffix (take (frame_size (sev_frame event)) (frame_image (sev_frame event))) (bytes @ [byte])"
    by auto
qed

lemma stream_run_append:
  "stream_run (xs @ ys) r =
     (let (es, r1) = stream_run xs r; (fs, r2) = stream_run ys r1 in (es @ fs, r2))"
  by (induction xs arbitrary: r) (auto split: prod.splits)

lemma stream_run_heard:
  "heard bytes r \<Longrightarrow> heard (bytes @ map fst xs) (snd (stream_run xs r))"
proof (induction xs arbitrary: bytes r)
  case (Cons x xs)
  obtain byte now where x: "x = (byte, now)" by fastforce
  obtain event r1 where c: "SettingsStreamReceiver_consume byte now r = (event, r1)" by fastforce
  from Cons.IH [OF receiver_consume_heard(1) [OF Cons.prems c]] c show ?case
    by (simp add: x split_beta)
qed simp

lemma mkReceiver_heard: "heard bytes (mkSettingsStreamReceiver config)"
  by (simp add: heard_def mkReceiver_wf) (simp add: mkSettingsStreamReceiver_def)


lemma stream_run_status:
  "receiver_wf r \<Longrightarrow> ev \<in> set (fst (stream_run xs r)) \<Longrightarrow>
     sev_decodeStatus ev \<notin> {FD_TooLong, FD_TooShort}"
proof (induction xs arbitrary: r)
  case (Cons x xs)
  obtain byte now where x: "x = (byte, now)" by fastforce
  let ?r = "refreshed now r"
  from consume_wf(2) [OF refreshed_wf [OF Cons.prems(1)], of byte now]
  have "sev_decodeStatus (fst (SettingsStreamReceiver_consume byte now r)) \<notin>
      {FD_TooLong, FD_TooShort}"
    by (auto simp: SettingsStreamReceiver_consume_def stream_event_def split_beta Let_def)
  with Cons.IH [OF receiver_consume_wf(1) [OF Cons.prems(1), of byte now]] Cons.prems(2)
  show ?case by (auto simp: x split_beta)
qed simp

lemma length_stream_run [simp]: "length (fst (stream_run xs r)) = length xs"
  by (induction xs arbitrary: r) (auto simp: split_beta)

section \<open>Properties\<close>

text \<open>C23: A frame sent whole and in time is received, whatever the receiver heard before: once it is
  between frames, or silent for longer than the timeout, the bytes of the encoding of a frame yield
  exactly that frame with the last byte, nothing is rejected on the way, and the receiver is ready
  for the next frame.\<close>

theorem frame_received:
  assumes "frame_wf f" and "SettingsProtocolCodec_encode f = (True, e, n)"
    and "snd (stream_run history (mkSettingsStreamReceiver config)) = r"
    and "bufferedSize r = 0 \<or> SettingsStreamReceiver_expired now r"
    and "length ts = n - 1" and "timely (interByteTimeoutMs config) now ts"
  shows "\<exists>first r'. stream_run (zip (take n e) (now # ts)) r =
      (first # replicate (n - 2) no_event @ [frame_ready f], r') \<and>
      sev_type first \<in> {SE_None, SE_TimedOut} \<and> bufferedSize r' = 0"
proof -
  have n: "e = frame_image f" "n = frame_size f"
    using assms(1,2) encode_frame [of f] by (simp_all add: frame_wf_def)
  have "receiver_wf r" "sr_config r = config"
    using stream_run_wf [OF mkReceiver_wf [of config], of history] assms(3)
    by (simp_all add: mkSettingsStreamReceiver_def)
  with receive_frame [OF assms(1), of r now ts] assms(4-6) show ?thesis
    by (simp add: n numeral_2_eq_2)
qed

lemma frame_received_witness:
  "\<exists>e r'. SettingsProtocolCodec_encode SettingsProtocolFrame_default = (True, e, 16) \<and>
     (\<exists>first. stream_run (zip (take 16 e) (replicate 16 1000))
        (snd (stream_run [(0x42, 0), (0x7F, 1)] (mkSettingsStreamReceiver
          SettingsStreamConfig_default))) =
      (first # replicate 14 no_event @ [frame_ready SettingsProtocolFrame_default], r'))"
proof -
  let ?f = SettingsProtocolFrame_default
  let ?r = "snd (stream_run [(0x42, 0), (0x7F, 1)] (mkSettingsStreamReceiver
      SettingsStreamConfig_default))"
  have enc: "SettingsProtocolCodec_encode ?f = (True, frame_image ?f, 16)"
    using encode_frame [of ?f] by (simp add: frame_size_def SettingsProtocolFrame_default_def)
  have "bufferedSize ?r = 0"
    by (simp add: SettingsStreamReceiver_consume_def SettingsStreamReceiver_expired_def
        consumeSynchronized_def mkSettingsStreamReceiver_def FrameMagic_def stream_event_def
        SettingsStreamConfig_default_def Let_def)
  moreover have "timely t 1000 (replicate k 1000)" for t k
    by (induction k) simp_all
  ultimately have "\<exists>first r'. stream_run (zip (take 16 (frame_image ?f)) (1000 # replicate 15 1000)) ?r =
      (first # replicate (16 - 2) no_event @ [frame_ready ?f], r') \<and>
      sev_type first \<in> {SE_None, SE_TimedOut} \<and> bufferedSize r' = 0"
    using frame_received [OF default_frame_wf enc refl, of "[(0x42, 0), (0x7F, 1)]"
        SettingsStreamConfig_default 1000 "replicate 15 1000"]
    by (simp del: stream_run.simps)
  moreover have "(1000 :: u32) # replicate 15 1000 = replicate 16 1000"
    by (simp add: numeral_eq_Suc)
  ultimately show ?thesis
    using enc by (simp del: stream_run.simps) blast
qed

text \<open>The receiver makes nothing up: when it reports a frame, the bytes it has just consumed are
  the encoding of that frame, whatever noise, timeouts and restarts came before; and its buffer
  never overflows, so it never reports a frame that is too long or too short.\<close>

theorem frame_was_sent:
  assumes "stream_run xs (mkSettingsStreamReceiver config) = (events @ [event], r)"
  shows "(sev_type event = SE_FrameReady \<longrightarrow>
      (\<exists>e n. SettingsProtocolCodec_encode (sev_frame event) = (True, e, n) \<and>
         suffix (take n e) (map fst xs))) \<and>
    (\<forall>ev \<in> set (events @ [event]). sev_decodeStatus ev \<notin> {FD_TooLong, FD_TooShort}) \<and>
    bufferedSize r < MaximumFrameSize"
proof -
  let ?r0 = "mkSettingsStreamReceiver config"
  have "r = snd (stream_run xs ?r0)" "fst (stream_run xs ?r0) = events @ [event]"
    using assms by simp_all
  with stream_run_wf [OF mkReceiver_wf [of config], of xs]
    stream_run_status [OF mkReceiver_wf [of config], of _ xs]
  have bounds: "receiver_wf r"
    "\<forall>ev \<in> set (events @ [event]). sev_decodeStatus ev \<notin> {FD_TooLong, FD_TooShort}"
    by (metis, metis)
  have "xs \<noteq> []" using assms by auto
  then obtain ys byte now where xs: "xs = ys @ [(byte, now)]"
    by (metis rev_exhaust surj_pair)
  let ?r1 = "snd (stream_run ys ?r0)"
  obtain r2 where c: "SettingsStreamReceiver_consume byte now ?r1 = (event, r2)"
    using assms by (cases "SettingsStreamReceiver_consume byte now ?r1")
      (auto simp: xs stream_run_append split_beta Let_def)
  have "heard (map fst ys) ?r1"
    using stream_run_heard [OF mkReceiver_heard [of "[]"], of ys config] by simp
  from receiver_consume_heard(2) [OF this c]
  have "sev_type event = SE_FrameReady \<longrightarrow>
      (\<exists>e n. SettingsProtocolCodec_encode (sev_frame event) = (True, e, n) \<and>
         suffix (take n e) (map fst xs))"
    using encode_frame [of "sev_frame event"] by (auto simp: xs frame_wf_def)
  with bounds show ?thesis
    by (auto simp: receiver_wf_def MaximumFrameSize_def frame_layout split: if_splits)
qed

lemma frame_was_sent_witness:
  "\<exists>r. stream_run [(0x42, 0)] (mkSettingsStreamReceiver SettingsStreamConfig_default) =
      ([no_event], r) \<and> bufferedSize r < MaximumFrameSize"
proof -
  obtain r where r: "stream_run [(0x42, 0)] (mkSettingsStreamReceiver SettingsStreamConfig_default) =
      ([] @ [no_event], r)"
    by (simp add: SettingsStreamReceiver_consume_def SettingsStreamReceiver_expired_def
        consumeSynchronized_def mkSettingsStreamReceiver_def FrameMagic_def stream_event_def
        SettingsStreamConfig_default_def)
  with frame_was_sent [OF r] show ?thesis by auto
qed

end
