(* ===== verification/SettingsLink.thy ===== *)
theory SettingsLink
  imports SettingsStream
begin

text \<open>
  The settings link of the device end to end: the endpoint over the journal in NVS.  The first part
  runs the endpoint over the bytes received; the second states what a client on the wire can and
  cannot do to the settings the device will load.
\<close>

section \<open>Runs of the endpoint\<close>

fun endpoint_run ::
    "SettingsProtocolAccess \<Rightarrow> (u8 \<times> u32) list \<Rightarrow> 'e SettingsProtocolEndpoint \<Rightarrow> 'e \<Rightarrow>
       SettingsEndpointResult list \<times> 'e SettingsProtocolEndpoint \<times> 'e"
where
  "endpoint_run access [] ep e = ([], ep, e)"
| "endpoint_run access ((byte, now) # rest) ep e =
     (let (result, ep, e) = SettingsProtocolEndpoint_consume byte now access ep e;
          (results, ep, e) = endpoint_run access rest ep e
      in (result # results, ep, e))"

text \<open>The store and the transport of an endpoint are the device's for good.\<close>

lemma consume_fixed:
  "ep_store (fst (snd (SettingsProtocolEndpoint_consume byte now access ep e))) = ep_store ep"
  "ep_identity (fst (snd (SettingsProtocolEndpoint_consume byte now access ep e))) = ep_identity ep"
  "ep_transport (fst (snd (SettingsProtocolEndpoint_consume byte now access ep e))) =
     ep_transport ep"
  "ep_receiver (fst (snd (SettingsProtocolEndpoint_consume byte now access ep e))) =
     snd (SettingsStreamReceiver_consume byte now (ep_receiver ep))"
  by (simp_all add: SettingsProtocolEndpoint_consume_def split_beta Let_def)

definition silent :: "SettingsStreamEvent \<Rightarrow> bool" where
  "silent event \<longleftrightarrow> sev_type event \<in> {SE_None, SE_TimedOut}"

lemma silent_event:
  "silent event \<Longrightarrow> snd (handleStreamEvent event access ep e) = e \<and>
     ep_status (fst (handleStreamEvent event access ep e)) \<in> {EP_None, EP_FrameTimedOut}"
  by (auto simp: silent_def handleStreamEvent_def endpoint_result_def)

lemma stream_run_nil: "stream_run xs r = ([], r') \<longleftrightarrow> xs = [] \<and> r' = r"
  by (cases xs) (auto split: prod.splits)

text \<open>A run of the receiver that ends with a frame, all silent before, hands just that frame over.\<close>

lemma endpoint_run_frame:
  assumes "stream_run xs (ep_receiver ep) = (events @ [frame_ready f], r)"
    and "\<forall>event \<in> set events. silent event"
  shows "\<exists>quiet result e'.
    endpoint_run access xs ep e = (quiet @ [result], ep\<lparr>ep_receiver := r\<rparr>, e') \<and>
    (\<forall>res \<in> set quiet. ep_status res \<in> {EP_None, EP_FrameTimedOut}) \<and>
    handleStreamEvent (frame_ready f) access ep e = (result, e')"
  using assms
proof (induction xs arbitrary: ep events e)
  case (Cons x xs)
  obtain byte now where x: "x = (byte, now)" by fastforce
  obtain event r1 where c: "SettingsStreamReceiver_consume byte now (ep_receiver ep) = (event, r1)"
    by fastforce
  let ?ep = "ep\<lparr>ep_receiver := r1\<rparr>"
  have same: "handleStreamEvent ev access ?ep e = handleStreamEvent ev access ep e" for ev e
    by (simp add: handleStreamEvent_def split_beta Let_def)
  have consume: "SettingsProtocolEndpoint_consume byte now access ep e =
      (fst (handleStreamEvent event access ep e), ?ep, snd (handleStreamEvent event access ep e))"
    using c same by (simp add: SettingsProtocolEndpoint_consume_def split_beta Let_def)
  show ?case
  proof (cases events)
    case Nil
    with Cons.prems(1) have "xs = []" "event = frame_ready f" "r1 = r"
      using c by (auto simp: x stream_run_nil split: prod.splits)
    then show ?thesis
      using consume
      by (intro exI [of _ "[]"] exI [of _ "fst (handleStreamEvent event access ep e)"]
          exI [of _ "snd (handleStreamEvent event access ep e)"]) (simp add: x)
  next
    case (Cons ev events')
    with Cons.prems(1) c have rest: "ev = event"
      "stream_run xs (ep_receiver ?ep) = (events' @ [frame_ready f], r)"
      by (auto simp: x split: prod.splits)
    have quiet: "silent event" "\<forall>event \<in> set events'. silent event"
      using Cons.prems(2) Cons rest(1) by simp_all
    note s = silent_event [OF quiet(1), of access ep e]
    from Cons.IH [OF rest(2) quiet(2), of e] obtain q result e' where
      "endpoint_run access xs ?ep e = (q @ [result], ep\<lparr>ep_receiver := r\<rparr>, e')"
      "\<forall>res \<in> set q. ep_status res \<in> {EP_None, EP_FrameTimedOut}"
      "handleStreamEvent (frame_ready f) access ep e = (result, e')"
      using same by auto
    with s show ?thesis
      by (intro exI [of _ "fst (handleStreamEvent event access ep e) # q"] exI [of _ result]
          exI [of _ e']) (simp add: x consume)
  qed
qed simp

section \<open>The device\<close>

text \<open>The journal and the USB transport share the platform; sending does not touch the journal.\<close>

definition device_transport ::
    "'w UsbApi \<Rightarrow> EspIdfUsbSerialJtagSettingsTransport \<Rightarrow> 'w nvs_storage SettingsTransportPort" where
  "device_transport usb t bytes = (\<lambda>(st, w).
     let (sent, w) = usb_send usb t bytes w in (sent, st, w))"

text \<open>What the device would load now.\<close>

definition loads :: "'w NvsApi \<Rightarrow> 'w nvs_storage \<Rightarrow> bool \<times> UserSettings" where
  "loads api e = fst (loadUserSettingsFailSafe (journaled_store (nvs_byte_storage api)) e)"

lemma loads_stored:
  "nvs.holds_journal (st, w) \<Longrightarrow>
     loads api (st, w) = (case stored_in (nvs_committed st) of
       None \<Rightarrow> (False, UserSettings_default\<lparr>us_remoteStartEnabled := False\<rparr>)
     | Some s \<Rightarrow> (True, s))"
  using nvs.journal.fail_safe_load [of "(st, w)" api] by (simp add: loads_def split: option.splits)

lemma loads_eq:
  assumes "nvs.holds_journal (st, w)" and "nvs.holds_journal (st', w')"
  shows "stored_in (nvs_committed st') = stored_in (nvs_committed st) \<Longrightarrow>
      loads api (st', w') = loads api (st, w)"
  using assms by (simp add: loads_stored)

section \<open>Properties\<close>

text \<open>C10: The settings service over the journal: the settings the device loads change only by an
  authorised write request with a complete payload, accepted while the controller is idle, and
  then to the valid settings the request carries; an authorised read answers with the settings the
  device loads; every answer has the identifier of its request and can be encoded.\<close>

theorem settings_request_contract:
  assumes "nvs_open (st, w)" and "\<not> nvs_dirty st" and "length (pf_payload request) = 40"
    and "store = journaled_store (nvs_byte_storage api)"
    and "SettingsProtocolService_handle store identity request access (st, w) = (response, e')"
  shows "(loads api e' \<noteq> loads api (st, w) \<longrightarrow>
      pf_type request = MT_WriteRequest \<and> authorized access \<and>
      acc_controllerState access = CS_Idle \<and> pf_status response = PS_Ok) \<and>
    (pf_type request = MT_WriteRequest \<and> pf_status response = PS_Ok \<longrightarrow>
      (\<exists>s. loads api e' = (True, s) \<and> settings_in_range s \<and>
         decodeUserSettingsPayload (pf_payload request) 40 UserSettings_default = (True, s))) \<and>
    (pf_type request = MT_ReadRequest \<and> pf_status response = PS_Ok \<longrightarrow>
      (\<exists>s. loads api (st, w) = (True, s) \<and>
         decodeUserSettingsPayload (pf_payload response) 40 UserSettings_default = (True, s))) \<and>
    pf_requestId response = pf_requestId request \<and> fst (SettingsProtocolCodec_encode response)"
proof -
  obtain st' w' where e': "e' = (st', w')" by fastforce
  have usable: "nvs.holds_journal (st, w)" using assms(1,2) by (rule nvs_clean)
  note h = assms(5) [unfolded assms(4) e']
  note law = nvs.journal.handle_law [OF usable assms(3) h]
  then have usable': "nvs.holds_journal (st', w')" by blast
  have "fst (SettingsProtocolCodec_encode response)"
    using law encode_frame [of response] by (simp add: frame_wf_def)
  moreover have "(loads api e' \<noteq> loads api (st, w) \<longrightarrow>
      write_allowed request access \<and> pf_status response = PS_Ok)"
    using law loads_eq [OF usable usable', of api] by (auto simp: e')
  moreover have "\<exists>s. loads api e' = (True, s) \<and> settings_in_range s \<and>
      decodeUserSettingsPayload (pf_payload request) 40 UserSettings_default = (True, s)"
    if "write_allowed request access" "pf_status response = PS_Ok"
    using law that loads_stored [OF usable', of api] decode_payload_image
    by (auto simp: e')
  moreover have "\<exists>s. loads api (st, w) = (True, s) \<and>
      decodeUserSettingsPayload (pf_payload response) 40 UserSettings_default = (True, s)"
    if "read_allowed request access" "pf_status response = PS_Ok"
    using law that loads_stored [OF usable, of api] decode_payload_image
      nvs.journal.stored_law [OF usable]
    by (auto split: option.splits)
  moreover have "pf_type request = MT_WriteRequest \<and> pf_status response = PS_Ok \<longrightarrow>
      write_allowed request access" "pf_type request = MT_ReadRequest \<and> pf_status response = PS_Ok \<longrightarrow>
      read_allowed request access"
    using h by (cases rule: nvs.journal.handle_cases; auto simp: write_allowed_def read_allowed_def)+
  ultimately show ?thesis using law by (auto simp: write_allowed_def)
qed


lemma settings_request_contract_witness:
  "\<exists>st w response e'. nvs_begin cell_api (EspIdfNvsSettingsStorage_default, None) = (True, st, w) \<and>
     SettingsProtocolService_handle (journaled_store (nvs_byte_storage cell_api))
       (settingsPrototypeIdentity HT_Esp32S3DevKitC1) SettingsProtocolFrame_default
       \<lparr>authorized = False, acc_controllerState = CS_Idle\<rparr> (st, w) = (response, e') \<and>
     loads cell_api e' = loads cell_api (st, w)"
proof -
  obtain st w where b: "nvs_begin cell_api (EspIdfNvsSettingsStorage_default, None) = (True, st, w)"
    using cell_begin by blast
  then have st: "nvs_open (st, w)" "\<not> nvs_dirty st" by (auto simp: cell_begin nvs_open_def)
  obtain response e' where h: "SettingsProtocolService_handle
      (journaled_store (nvs_byte_storage cell_api)) (settingsPrototypeIdentity HT_Esp32S3DevKitC1)
      SettingsProtocolFrame_default \<lparr>authorized = False, acc_controllerState = CS_Idle\<rparr> (st, w) =
      (response, e')" by (metis surj_pair)
  have "length (pf_payload SettingsProtocolFrame_default) = 40"
    by (simp add: SettingsProtocolFrame_default_def)
  from settings_request_contract [OF st this refl h] b h show ?thesis by fastforce
qed

text \<open>C11: A write sent whole and in time to an idle device over the wire either succeeds, and the
  device loads exactly the settings sent, or is answered with a storage failure, and the device
  loads what it loaded before; no byte before the last has any effect.\<close>

theorem settings_written_over_the_wire:
  assumes "settings_in_range s"
    and "request = SettingsProtocolFrame_default\<lparr>pf_type := MT_WriteRequest, pf_requestId := i,
      pf_payloadSize := 40, pf_payload := snd (encodeUserSettingsPayload s blank_payload)\<rparr>"
    and "SettingsProtocolCodec_encode request = (True, bytes, n)"
    and "ep_store ep = journaled_store (nvs_byte_storage api)"
    and "ep_transport ep = device_transport usb transport"
    and "ep_receiver ep = snd (stream_run history (mkSettingsStreamReceiver config))"
    and "bufferedSize (ep_receiver ep) = 0 \<or> SettingsStreamReceiver_expired now (ep_receiver ep)"
    and "nvs_open (st, w)" and "\<not> nvs_dirty st"
    and "length ts = n - 1" and "timely (interByteTimeoutMs config) now ts"
  shows "\<exists>quiet result ep' e'.
    endpoint_run \<lparr>authorized = True, acc_controllerState = CS_Idle\<rparr>
      (zip (take n bytes) (now # ts)) ep (st, w) = (quiet @ [result], ep', e') \<and>
    (\<forall>res \<in> set quiet. ep_status res \<in> {EP_None, EP_FrameTimedOut}) \<and>
    (ep_responseStatus result = PS_Ok \<and> loads api e' = (True, s) \<or>
     ep_responseStatus result = PS_StorageFailure \<and> loads api e' = loads api (st, w))"
proof -
  let ?access = "\<lparr>authorized = True, acc_controllerState = CS_Idle\<rparr>"
  have payload: "pf_payload request = payload_image s" "pf_type request = MT_WriteRequest"
    "pf_status request = PS_Ok" "pf_payloadSize request = 40"
    using encode_valid [OF assms(1)] by (simp_all add: assms(2) SettingsProtocolFrame_default_def)
  then have wf: "frame_wf request"
    by (simp add: frame_wf_def SettingsMessageType_of_def SettingsProtocolStatus_of_def)
  have n: "bytes = frame_image request" "n = frame_size request"
    using assms(3) encode_frame [of request] wf by (simp_all add: frame_wf_def)
  have r: "receiver_wf (ep_receiver ep)" "sr_config (ep_receiver ep) = config"
    using stream_run_wf [OF mkReceiver_wf [of config], of history] assms(6)
    by (simp_all add: mkSettingsStreamReceiver_def)
  from receive_frame [OF wf r(1) assms(7), of ts] assms(10,11) obtain first r' where
    run: "stream_run (zip (take n bytes) (now # ts)) (ep_receiver ep) =
      ((first # replicate (length ts - 1) no_event) @ [frame_ready request], r')"
    and first: "sev_type first \<in> {SE_None, SE_TimedOut}"
    by (auto simp: n r(2))
  have "\<forall>event \<in> set (first # replicate (length ts - 1) no_event). silent event"
    using first by (auto simp: silent_def stream_event_def)
  from endpoint_run_frame [OF run this, of ?access "(st, w)"] obtain quiet result e' where
    quiet: "endpoint_run ?access (zip (take n bytes) (now # ts)) ep (st, w) =
        (quiet @ [result], ep\<lparr>ep_receiver := r'\<rparr>, e')"
      "\<forall>res \<in> set quiet. ep_status res \<in> {EP_None, EP_FrameTimedOut}"
    and handled: "handleStreamEvent (frame_ready request) ?access ep (st, w) = (result, e')"
    by blast
  obtain response st1 w1 where
    h: "SettingsProtocolService_handle (ep_store ep) (ep_identity ep) request ?access (st, w) =
      (response, st1, w1)" by (metis surj_pair)
  have usable: "nvs.holds_journal (st, w)" using assms(8,9) by (rule nvs_clean)
  have allowed: "write_allowed request ?access" using payload by (simp add: write_allowed_def)
  have len: "length (pf_payload request) = 40" using payload by simp
  have "handleWrite (journaled_store (nvs_byte_storage api)) request ?access (st, w) =
      (response, st1, w1)"
    using h payload by (simp add: SettingsProtocolService_handle_def responseType_of_def
        UserSettingsPayloadSize_def assms(4))
  then have answered: "pf_status response \<in> {PS_Ok, PS_StorageFailure}"
    using payload assms(1) decode_payload_image [OF assms(1)]
    by (auto simp: handleWrite_def split: prod.splits if_splits)
  note law = nvs.journal.handle_law [OF usable len h [unfolded assms(4)]]
  obtain w2 where e': "e' = (st1, w2)" and answer: "ep_responseStatus result = pf_status response"
    using handled h
    by (auto simp: handleStreamEvent_def frame_ready_def assms(5) device_transport_def
        endpoint_result_def Let_def split: prod.splits if_splits)
  have holds: "nvs.holds_journal (st1, w2)"
    using law unfolding nvs_holds_journal by (simp add: nvs_open_def)
  have "loads api e' = (True, s)" if "pf_status response = PS_Ok"
  proof -
    from law that allowed have "\<exists>s'. stored_in (nvs_committed st1) = Some s' \<and>
        settings_in_range s' \<and> pf_payload request = payload_image s'" by simp
    then obtain s' where "stored_in (nvs_committed st1) = Some s'" "settings_in_range s'"
      "payload_image s = payload_image s'"
      using payload(1) by auto
    moreover from this have "s' = s" using assms(1) decoded_payload_image by metis
    ultimately show ?thesis by (simp add: e' loads_stored [OF holds])
  qed
  moreover have "loads api e' = loads api (st, w)" if "pf_status response \<noteq> PS_Ok"
    using law that loads_eq [OF usable holds, of api] by (auto simp: e')
  ultimately show ?thesis using quiet answered answer by auto
qed


lemma settings_written_over_the_wire_witness:
  "\<forall>usb transport. \<exists>st w bytes quiet result ep' e'.
     nvs_begin cell_api (EspIdfNvsSettingsStorage_default, None) = (True, st, w) \<and>
     endpoint_run \<lparr>authorized = True, acc_controllerState = CS_Idle\<rparr>
       (zip (take 56 bytes) (replicate 56 0))
       (mkSettingsProtocolEndpoint (journaled_store (nvs_byte_storage cell_api))
         (device_transport usb transport) SettingsStreamConfig_default
         (settingsPrototypeIdentity HT_Esp32S3DevKitC1)) (st, w) = (quiet @ [result], ep', e') \<and>
     (ep_responseStatus result = PS_Ok \<longrightarrow> loads cell_api e' = (True, UserSettings_default))"
proof (intro allI)
  fix usb :: "u8 list option UsbApi" and transport
  obtain st w where b: "nvs_begin cell_api (EspIdfNvsSettingsStorage_default, None) = (True, st, w)"
    using cell_begin by blast
  then have st: "nvs_open (st, w)" "\<not> nvs_dirty st" by (auto simp: cell_begin nvs_open_def)
  let ?request = "SettingsProtocolFrame_default\<lparr>pf_type := MT_WriteRequest, pf_requestId := 1,
      pf_payloadSize := 40,
      pf_payload := snd (encodeUserSettingsPayload UserSettings_default blank_payload)\<rparr>"
  let ?ep = "mkSettingsProtocolEndpoint (journaled_store (nvs_byte_storage cell_api))
      (device_transport usb transport) SettingsStreamConfig_default
      (settingsPrototypeIdentity HT_Esp32S3DevKitC1)"
  have enc: "SettingsProtocolCodec_encode ?request = (True, frame_image ?request, 56)"
    using encode_frame [of ?request] by (simp add: frame_size_def)
  have ep: "ep_store ?ep = journaled_store (nvs_byte_storage cell_api)"
    "ep_transport ?ep = device_transport usb transport"
    "ep_receiver ?ep = snd (stream_run [] (mkSettingsStreamReceiver SettingsStreamConfig_default))"
    "bufferedSize (ep_receiver ?ep) = 0 \<or> SettingsStreamReceiver_expired 0 (ep_receiver ?ep)"
    by (simp_all add: mkSettingsProtocolEndpoint_def mkSettingsStreamReceiver_def)
  have ts: "timely t 0 (replicate k 0)" for t k
    by (induction k) simp_all
  have list: "(0 :: u32) # replicate 55 0 = replicate 56 0" by (simp add: numeral_eq_Suc)
  obtain quiet result ep' e' where "endpoint_run \<lparr>authorized = True, acc_controllerState = CS_Idle\<rparr>
       (zip (take 56 (frame_image ?request)) (replicate 56 0)) ?ep (st, w) =
         (quiet @ [result], ep', e')"
    "ep_responseStatus result = PS_Ok \<longrightarrow> loads cell_api e' = (True, UserSettings_default)"
    using settings_written_over_the_wire [OF default_settings_in_range refl enc ep st _ ts, of 55]
    unfolding list by auto
  with b show "\<exists>st w bytes quiet result ep' e'.
     nvs_begin cell_api (EspIdfNvsSettingsStorage_default, None) = (True, st, w) \<and>
     endpoint_run \<lparr>authorized = True, acc_controllerState = CS_Idle\<rparr>
       (zip (take 56 bytes) (replicate 56 0)) ?ep (st, w) = (quiet @ [result], ep', e') \<and>
     (ep_responseStatus result = PS_Ok \<longrightarrow> loads cell_api e' = (True, UserSettings_default))"
    by blast
qed

end
