(* ===== verification/Firmware.thy ===== *)
theory Firmware
  imports SettingsLink TwaiReceiver
begin

text \<open>
  The entry point of the firmware (\<^verbatim>\<open>main.cpp\<close>): start-up, and the cycle that serves the settings
  link over USB.  The platform calls are parameters; the macros of a local bench build are an
  argument.
\<close>

section \<open>The platform and the objects\<close>

record 'w Platform =
  pf_nvs :: "'w NvsApi"
  pf_usb :: "'w UsbApi"
  pf_time :: "'w TimeApi"
  pf_gpio :: "'w GpioApi"
  pf_twai :: "(GpioTwaiSafety \<times> 'w) TwaiApi"
  pf_stackDepth :: nat

definition MaximumBytesPerCycle :: nat where "MaximumBytesPerCycle = 64"
definition UsbReadTimeoutMs :: u32 where "UsbReadTimeoutMs = 10"
definition IdleDelayMs :: u32 where "IdleDelayMs = 1"

text \<open>The endpoint, and the adapters it works through: the storage with the world, the transport.\<close>

record 'w FirmwareState =
  fw_endpoint :: "'w nvs_storage SettingsProtocolEndpoint"
  fw_storage :: "'w nvs_storage"
  fw_transport :: EspIdfUsbSerialJtagSettingsTransport
  fw_transportReady :: bool
  fw_receiver :: EspIdfTwaiReceiver
  fw_safety :: GpioTwaiSafety

definition localUsbAccess :: SettingsProtocolAccess where
  "localUsbAccess = \<lparr>authorized = True, acc_controllerState = CS_Idle\<rparr>"

section \<open>The cycle\<close>

fun consume_received ::
    "'w TimeApi \<Rightarrow> SettingsProtocolAccess \<Rightarrow> u8 list \<Rightarrow>
       'w nvs_storage SettingsProtocolEndpoint \<times> 'w nvs_storage \<Rightarrow>
       'w nvs_storage SettingsProtocolEndpoint \<times> 'w nvs_storage" where
  "consume_received time access [] e = e"
| "consume_received time access (byte # rest) (ep, st, w) =
     (let (now, w) = EspIdfMonotonicTimeHal_nowMs time w;
          (result, ep, e) = SettingsProtocolEndpoint_consume byte now access ep (st, w)
      in consume_received time access rest (ep, e))"

definition serviceUsbSettings :: "'w Platform \<Rightarrow> 'w FirmwareState \<Rightarrow> 'w FirmwareState" where
  "serviceUsbSettings p f =
     (let (st, w) = fw_storage f;
          (bytes, w) = usb_read (pf_usb p) (fw_transport f) MaximumBytesPerCycle UsbReadTimeoutMs w;
          (ep, st, w) = consume_received (pf_time p) localUsbAccess bytes (fw_endpoint f, st, w);
          (now, w) = EspIdfMonotonicTimeHal_nowMs (pf_time p) w;
          (result, ep) = SettingsProtocolEndpoint_poll now ep
      in f\<lparr>fw_endpoint := ep, fw_storage := (st, w)\<rparr>)"

definition app_cycle :: "'w Platform \<Rightarrow> 'w FirmwareState \<Rightarrow> 'w FirmwareState" where
  "app_cycle p f =
     (let f = (if fw_transportReady f then serviceUsbSettings p f else f);
          (st, w) = fw_storage f
      in f\<lparr>fw_storage := (st, EspIdfMonotonicTimeHal_delayMs (pf_time p) IdleDelayMs w)\<rparr>)"

text \<open>Start-up: the storage, the transport, and the receiver when a bench build enables it.\<close>

definition app_start :: "'w Platform \<Rightarrow> BenchMacros \<Rightarrow> 'w \<Rightarrow> 'w FirmwareState" where
  "app_start p macros w =
     (let config = compiledBenchOnlyTwaiConfiguration macros;
          (stored, st, w) = nvs_begin (pf_nvs p) (EspIdfNvsSettingsStorage_default, w);
          (ready, transport, w) = usb_begin (pf_usb p) \<lparr>usb_ready = False\<rparr> w;
          receiver = mkEspIdfTwaiReceiver (bc_acquisition config);
          safety = mkGpioTwaiSafety (bc_safety config);
          (receiver, safety, w) =
            (if bc_enabled config
             then snd (EspIdfTwaiReceiver_start (pf_twai p) (pf_stackDepth p)
                         (GpioTwaiSafetyHal (EspIdfGpioHal (pf_gpio p))) (receiver, safety, w))
             else (receiver, safety, w))
      in \<lparr>fw_endpoint = mkSettingsProtocolEndpoint (journaled_store (nvs_byte_storage (pf_nvs p)))
            (device_transport (pf_usb p) transport) SettingsStreamConfig_default
            (settingsPrototypeIdentity HT_Esp32S3DevKitC1),
          fw_storage = (st, w), fw_transport = transport, fw_transportReady = ready,
          fw_receiver = receiver, fw_safety = safety\<rparr>)"

fun app_cycles :: "'w Platform \<Rightarrow> nat \<Rightarrow> 'w FirmwareState \<Rightarrow> 'w FirmwareState" where
  "app_cycles p 0 f = f"
| "app_cycles p (Suc n) f = app_cycles p n (app_cycle p f)"

section \<open>The invariant\<close>

text \<open>Endpoints of the device, at a receiver that is where a stream can bring it.\<close>

definition device_endpoint ::
    "'w NvsApi \<Rightarrow> 'w UsbApi \<Rightarrow> 'w nvs_storage SettingsProtocolEndpoint \<Rightarrow> bool" where
  "device_endpoint api usb ep \<longleftrightarrow>
     ep_store ep = journaled_store (nvs_byte_storage api) \<and>
     (\<exists>t. ep_transport ep = device_transport usb t) \<and> (\<exists>bytes. heard bytes (ep_receiver ep))"

lemma holds_world: "nvs.holds_journal (st, w :: 'w) \<Longrightarrow> nvs.holds_journal (st, w' :: 'w)"
  unfolding nvs_holds_journal by (simp add: nvs_open_def)

lemma event_keeps_journal:
  fixes e :: "'w nvs_storage"
  assumes "device_endpoint api usb ep" and "nvs.holds_journal e"
    and "sev_type event = SE_FrameReady \<Longrightarrow> length (pf_payload (sev_frame event)) = 40"
  shows "nvs.holds_journal (snd (handleStreamEvent event access ep e))"
proof (cases "sev_type event")
  case SE_FrameReady
  obtain response st1 w1 where
    h: "SettingsProtocolService_handle (ep_store ep) (ep_identity ep) (sev_frame event) access e =
      (response, st1, w1)" by (metis surj_pair)
  have store: "ep_store ep = journaled_store (nvs_byte_storage api)"
    using assms(1) by (simp add: device_endpoint_def)
  have "nvs.holds_journal (st1, w1)"
    using nvs.journal.handle_law [OF assms(2) assms(3) [OF SE_FrameReady] h [unfolded store]]
    by blast
  then have holds: "nvs.holds_journal (st1, w)" for w :: 'w by (rule holds_world)
  obtain t where "ep_transport ep = device_transport usb t"
    using assms(1) by (auto simp: device_endpoint_def)
  with SE_FrameReady h holds show ?thesis
    by (auto simp: handleStreamEvent_def device_transport_def Let_def split: prod.splits)
qed (use assms(2) in \<open>simp_all add: handleStreamEvent_def\<close>)

lemma consume_keeps_journal:
  assumes "device_endpoint api usb ep" and "nvs.holds_journal e"
    and "SettingsProtocolEndpoint_consume byte now access ep e = (result, ep', e')"
  shows "device_endpoint api usb ep' \<and> nvs.holds_journal e'"
proof -
  obtain event r where c: "SettingsStreamReceiver_consume byte now (ep_receiver ep) = (event, r)"
    by fastforce
  obtain bytes where h: "heard bytes (ep_receiver ep)"
    using assms(1) by (auto simp: device_endpoint_def)
  let ?ep = "ep\<lparr>ep_receiver := r\<rparr>"
  have ep: "device_endpoint api usb ?ep"
    using assms(1) receiver_consume_heard(1) [OF h c] by (auto simp: device_endpoint_def)
  have "length (pf_payload (sev_frame event)) = 40" if "sev_type event = SE_FrameReady"
    using receiver_consume_heard(2) [OF h c that] by (simp add: frame_wf_def)
  from event_keeps_journal [OF ep assms(2) this, of access] assms(3) c ep show ?thesis
    by (auto simp: SettingsProtocolEndpoint_consume_def Let_def split: prod.splits)
qed

lemma received_keep_journal:
  "device_endpoint api usb ep \<Longrightarrow> nvs.holds_journal (st, w) \<Longrightarrow>
     consume_received time access bytes (ep, st, w) = (ep', e') \<Longrightarrow>
     device_endpoint api usb ep' \<and> nvs.holds_journal e'"
proof (induction bytes arbitrary: ep st w)
  case (Cons byte bytes)
  obtain now w1 where t: "EspIdfMonotonicTimeHal_nowMs time w = (now, w1)" by fastforce
  obtain result ep1 st1 w2 where
    c: "SettingsProtocolEndpoint_consume byte now access ep (st, w1) = (result, ep1, st1, w2)"
    by (metis surj_pair)
  have "nvs.holds_journal (st, w1)" using Cons.prems(2) by (rule holds_world)
  from consume_keeps_journal [OF Cons.prems(1) this c] Cons.IH [of ep1 st1 w2] Cons.prems(3) t c
  show ?case by simp
qed simp

lemma poll_keeps:
  assumes "device_endpoint api usb ep"
  shows "device_endpoint api usb (snd (SettingsProtocolEndpoint_poll now ep))"
proof -
  obtain bytes where "heard bytes (ep_receiver ep)"
    using assms by (auto simp: device_endpoint_def)
  then have "heard bytes (snd (SettingsStreamReceiver_poll now (ep_receiver ep)))"
    using heard_reset by (auto simp: SettingsStreamReceiver_poll_def heard_def)
  with assms show ?thesis
    by (auto simp: device_endpoint_def SettingsProtocolEndpoint_poll_def split: prod.splits)
qed

lemma cycle_keeps_journal:
  fixes f :: "'w FirmwareState"
  assumes "device_endpoint (pf_nvs p) usb (fw_endpoint f)" and "nvs.holds_journal (fw_storage f)"
  shows "device_endpoint (pf_nvs p) usb (fw_endpoint (app_cycle p f)) \<and>
    nvs.holds_journal (fw_storage (app_cycle p f))"
proof -
  have "device_endpoint (pf_nvs p) usb (fw_endpoint (serviceUsbSettings p f)) \<and>
      nvs.holds_journal (fw_storage (serviceUsbSettings p f))"
  proof -
    obtain st w where s: "fw_storage f = (st, w)" by fastforce
    obtain bytes w1 where r: "usb_read (pf_usb p) (fw_transport f) MaximumBytesPerCycle
        UsbReadTimeoutMs w = (bytes, w1)" by fastforce
    obtain ep st2 w2 where c: "consume_received (pf_time p) localUsbAccess bytes
        (fw_endpoint f, st, w1) = (ep, st2, w2)" by (metis surj_pair)
    have "nvs.holds_journal (st, w1)" using assms(2) unfolding s by (rule holds_world)
    from received_keep_journal [OF assms(1) this c] poll_keeps [of "pf_nvs p" usb ep]
    show ?thesis
      by (auto simp: serviceUsbSettings_def s r c split_beta Let_def elim: holds_world)
  qed
  moreover have "nvs.holds_journal e \<Longrightarrow> nvs.holds_journal (fst e, w)" for e :: "'w nvs_storage" and w :: 'w
    using holds_world [of "fst e" "snd e"] by simp
  ultimately show ?thesis
    using assms by (simp add: app_cycle_def split_beta Let_def)
qed

lemma cycles_keep_journal:
  "device_endpoint (pf_nvs p) usb (fw_endpoint f) \<Longrightarrow> nvs.holds_journal (fw_storage f) \<Longrightarrow>
     nvs.holds_journal (fw_storage (app_cycles p n f))"
  by (induction n arbitrary: f) (use cycle_keeps_journal in fastforce)+


section \<open>Properties\<close>

lemma start_device:
  fixes p :: "'w Platform"
  assumes "nvs_durable (pf_nvs p) flash" and "length (flash_image (flash w)) = 128"
    and "fst (nvs_begin (pf_nvs p) (EspIdfNvsSettingsStorage_default, w))"
  shows "device_endpoint (pf_nvs p) (pf_usb p) (fw_endpoint (app_start p macros w)) \<and>
    nvs.holds_journal (fw_storage (app_start p macros w))"
proof -
  obtain st w1 where b: "nvs_begin (pf_nvs p) (EspIdfNvsSettingsStorage_default, w) = (True, st, w1)"
    using assms(3) by (cases "nvs_begin (pf_nvs p) (EspIdfNvsSettingsStorage_default, w)") auto
  have "nvs.holds_journal (st, w1)"
    by (rule nvs_clean) (use nvs_begin_image [OF assms(1,2) b] in simp_all)
  then have holds: "nvs.holds_journal (st, w')" for w' :: 'w by (rule holds_world)
  have "device_endpoint (pf_nvs p) (pf_usb p)
      (mkSettingsProtocolEndpoint (journaled_store (nvs_byte_storage (pf_nvs p)))
        (device_transport (pf_usb p) t) c i)" for t c i
    using mkReceiver_heard [of "[]" c]
    by (auto simp: device_endpoint_def mkSettingsProtocolEndpoint_def)
  with holds show ?thesis by (simp add: app_start_def b split_beta Let_def)
qed


definition bench_platform :: "u8 list option Platform" where
  "bench_platform =
     \<lparr>pf_nvs = cell_api,
      pf_usb = \<lparr>usb_serial_jtag_driver_install = (\<lambda>r t w. (ESP_OK, w)),
        usb_serial_jtag_read_bytes = (\<lambda>n t w. ((1, [0x42]), w)),
        usb_serial_jtag_write_bytes = (\<lambda>b t w. (int (length b), w))\<rparr>,
      pf_time = \<lparr>esp_timer_get_time = (\<lambda>w. (0, w)), pdMS_TO_TICKS = (\<lambda>ms. ms),
        vTaskDelay = (\<lambda>t w. w)\<rparr>,
      pf_gpio = \<lparr>GPIO_IS_VALID_GPIO = (\<lambda>pin. pin \<le> 48), gpio_set_level = (\<lambda>p l w. (ESP_OK, w)),
        gpio_config = (\<lambda>c w. (ESP_OK, w)), gpio_get_level = (\<lambda>p w. (1, w))\<rparr>,
      pf_twai = \<lparr>twai_driver_install = (\<lambda>g t w. (ESP_OK, w)), twai_start = (\<lambda>w. (ESP_OK, w)),
        twai_stop = (\<lambda>w. (ESP_OK, w)), twai_driver_uninstall = (\<lambda>w. (ESP_OK, w)),
        twai_receive = (\<lambda>t w. ((ESP_ERR_other, \<lparr>tm_identifier = 0, tm_extd = False,
          tm_rtr = False, tm_dlc_non_comp = False, tm_data_length_code = 0, tm_data = []\<rparr>), w)),
        twai_read_alerts = (\<lambda>w. ((ESP_OK, []), w)),
        twai_get_status_info = (\<lambda>w. ((ESP_ERR_other, \<lparr>ti_rx_missed_count = 0,
          ti_rx_overrun_count = 0, ti_bus_error_count = 0, ti_rx_error_counter = 0,
          ti_tx_error_counter = 0\<rparr>), w)),
        xTaskCreateStaticPinnedToCore = (\<lambda>d p k w. (Some 1, w))\<rparr>,
      pf_stackDepth = 1024\<rparr>"


end
