(* ===== verification/Assembler.thy ===== *)
theory Assembler
  imports VehicleModel CanCore Runtime
begin

text \<open>
  From CAN frames to the vehicle state (\<^verbatim>\<open>infrastructure/vehicle_state_assembler\<close>,
  \<^verbatim>\<open>can_trace_replay\<close>, \<^verbatim>\<open>replay_vehicle_gateway\<close>): the assembler that keeps the last accepted value
  of every signal with its time, the replay of a recorded trace into a consumer, and the gateway
  that puts both behind the port of the runtime.  A decoder of frames is a parameter; the theory
  \<^theory_text>\<open>SyntheticCan\<close> has the decoder of the repository.
\<close>

section \<open>Batches of decoded signals\<close>

record DecodedSignal =
  ds_signal :: VehicleSignal
  ds_value :: i32

definition DecodedSignal_default :: DecodedSignal where
  "DecodedSignal_default = \<lparr>ds_signal = VS_BatteryMillivolts, ds_value = 0\<rparr>"

definition MaximumSignals :: nat where "MaximumSignals = 10"

record DecodedSignalBatch =
  db_signals :: "DecodedSignal list"
  db_count :: nat

definition DecodedSignalBatch_default :: DecodedSignalBatch where
  "DecodedSignalBatch_default =
     \<lparr>db_signals = replicate MaximumSignals DecodedSignal_default, db_count = 0\<rparr>"

definition DecodedSignalBatch_add ::
    "VehicleSignal \<Rightarrow> i32 \<Rightarrow> DecodedSignalBatch \<Rightarrow> bool \<times> DecodedSignalBatch" where
  "DecodedSignalBatch_add signal v batch =
     (if db_count batch \<ge> length (db_signals batch) then (False, batch)
      else (True, batch\<lparr>db_signals := (db_signals batch)[db_count batch :=
                          \<lparr>ds_signal = signal, ds_value = v\<rparr>],
                        db_count := db_count batch + 1\<rparr>))"

datatype DecodeResult = DR_Ignored | DR_Decoded | DR_Invalid

type_synonym CanFrameDecoder =
  "CanFrame \<Rightarrow> DecodedSignalBatch \<Rightarrow> DecodeResult \<times> DecodedSignalBatch"

text \<open>A consumer of frames with state \<open>'c\<close>.\<close>

type_synonym 'c CanFrameConsumer = "CanFrame \<Rightarrow> 'c \<Rightarrow> bool \<times> 'c"

section \<open>The assembler\<close>

record SignalFreshnessConfig =
  batteryMaximumAgeMs :: u32
  engineRpmMaximumAgeMs :: u32
  telemetryMaximumAgeMs :: u32
  bodyMaximumAgeMs :: u32
  transmissionMaximumAgeMs :: u32
  faultMaximumAgeMs :: u32

definition SignalFreshnessConfig_default :: SignalFreshnessConfig where
  "SignalFreshnessConfig_default =
     \<lparr>batteryMaximumAgeMs = 2000, engineRpmMaximumAgeMs = 500, telemetryMaximumAgeMs = 2000,
      bodyMaximumAgeMs = 2000, transmissionMaximumAgeMs = 1000, faultMaximumAgeMs = 2000\<rparr>"

record AssemblyStatistics =
  consumedFrames :: u32
  decodedFrames :: u32
  ignoredFrames :: u32
  rejectedFrames :: u32
  decodedSignals :: u32

definition AssemblyStatistics_default :: AssemblyStatistics where
  "AssemblyStatistics_default =
     \<lparr>consumedFrames = 0, decodedFrames = 0, ignoredFrames = 0, rejectedFrames = 0,
      decodedSignals = 0\<rparr>"

record 'a StoredSignal =
  ss_value :: 'a
  ss_observedAtMs :: u32
  ss_observed :: bool

definition StoredSignal_default :: "'a \<Rightarrow> 'a StoredSignal" where
  "StoredSignal_default v0 = \<lparr>ss_value = v0, ss_observedAtMs = 0, ss_observed = False\<rparr>"

definition stored_signal :: "'a \<Rightarrow> u32 \<Rightarrow> 'a StoredSignal" where
  "stored_signal v t = \<lparr>ss_value = v, ss_observedAtMs = t, ss_observed = True\<rparr>"

record VehicleStateAssembler =
  va_freshness :: SignalFreshnessConfig
  va_statistics :: AssemblyStatistics
  va_batteryMillivolts :: "u16 StoredSignal"
  va_engineRpm :: "u16 StoredSignal"
  va_coolantTemperatureC :: "i16 StoredSignal"
  va_engineOilTemperatureC :: "i16 StoredSignal"
  va_transmissionOilTemperatureC :: "i16 StoredSignal"
  va_dpfRegenerationActive :: "bool StoredSignal"
  va_hoodClosed :: "bool StoredSignal"
  va_doorsClosed :: "bool StoredSignal"
  va_trunkClosed :: "bool StoredSignal"
  va_brakePressed :: "bool StoredSignal"
  va_parkingBrakeApplied :: "bool StoredSignal"
  va_transmission :: "Transmission StoredSignal"
  va_gear :: "Gear StoredSignal"
  va_criticalFaultPresent :: "bool StoredSignal"

definition mkVehicleStateAssembler :: "SignalFreshnessConfig \<Rightarrow> VehicleStateAssembler" where
  "mkVehicleStateAssembler freshness =
     \<lparr>va_freshness = freshness, va_statistics = AssemblyStatistics_default,
      va_batteryMillivolts = StoredSignal_default 0, va_engineRpm = StoredSignal_default 0,
      va_coolantTemperatureC = StoredSignal_default 0,
      va_engineOilTemperatureC = StoredSignal_default 0,
      va_transmissionOilTemperatureC = StoredSignal_default 0,
      va_dpfRegenerationActive = StoredSignal_default False,
      va_hoodClosed = StoredSignal_default False, va_doorsClosed = StoredSignal_default False,
      va_trunkClosed = StoredSignal_default False, va_brakePressed = StoredSignal_default False,
      va_parkingBrakeApplied = StoredSignal_default False,
      va_transmission = StoredSignal_default TR_Unknown, va_gear = StoredSignal_default GE_Unknown,
      va_criticalFaultPresent = StoredSignal_default False\<rparr>"

definition VehicleStateAssembler_reset :: "VehicleStateAssembler \<Rightarrow> VehicleStateAssembler" where
  "VehicleStateAssembler_reset a = mkVehicleStateAssembler (va_freshness a)"

definition validateSignal :: "DecodedSignal \<Rightarrow> bool" where
  "validateSignal s =
     (let v = sint (ds_value s) in
      case ds_signal s of
        VS_BatteryMillivolts \<Rightarrow> v \<ge> 0 \<and> v \<le> 20000
      | VS_EngineRpm \<Rightarrow> v \<ge> 0 \<and> v \<le> 10000
      | VS_CoolantTemperatureC \<Rightarrow> v \<ge> -40 \<and> v \<le> 215
      | VS_EngineOilTemperatureC \<Rightarrow> v \<ge> -40 \<and> v \<le> 215
      | VS_TransmissionOilTemperatureC \<Rightarrow> v \<ge> -40 \<and> v \<le> 215
      | VS_DpfRegenerationActive \<Rightarrow> v \<ge> 0 \<and> v \<le> 1
      | VS_HoodClosed \<Rightarrow> v \<ge> 0 \<and> v \<le> 1
      | VS_DoorsClosed \<Rightarrow> v \<ge> 0 \<and> v \<le> 1
      | VS_TrunkClosed \<Rightarrow> v \<ge> 0 \<and> v \<le> 1
      | VS_BrakePressed \<Rightarrow> v \<ge> 0 \<and> v \<le> 1
      | VS_ParkingBrakeApplied \<Rightarrow> v \<ge> 0 \<and> v \<le> 1
      | VS_CriticalFaultPresent \<Rightarrow> v \<ge> 0 \<and> v \<le> 1
      | VS_Transmission \<Rightarrow> v \<ge> 0 \<and> v \<le> 2
      | VS_Gear \<Rightarrow> v \<ge> 0 \<and> v \<le> 4
      | VS_Count \<Rightarrow> False)"

definition validateBatch :: "DecodedSignalBatch \<Rightarrow> bool" where
  "validateBatch batch \<longleftrightarrow>
     db_count batch \<le> length (db_signals batch) \<and>
     (\<forall>index < db_count batch. validateSignal (db_signals batch ! index) \<and>
        (\<forall>previous < index.
           ds_signal (db_signals batch ! previous) \<noteq> ds_signal (db_signals batch ! index)))"

text \<open>The enumerations behind a value; only values in range reach them.\<close>

definition Transmission_of :: "i32 \<Rightarrow> Transmission" where
  "Transmission_of v = [TR_Unknown, TR_Automatic, TR_Manual] ! unat v"

definition Gear_of :: "i32 \<Rightarrow> Gear" where
  "Gear_of v = [GE_Unknown, GE_Park, GE_Neutral, GE_Reverse, GE_Drive] ! unat v"

definition applySignal ::
    "u32 \<Rightarrow> DecodedSignal \<Rightarrow> VehicleStateAssembler \<Rightarrow> VehicleStateAssembler" where
  "applySignal t s a =
     (let v = ds_value s in
      case ds_signal s of
        VS_BatteryMillivolts \<Rightarrow> a\<lparr>va_batteryMillivolts := stored_signal (ucast v) t\<rparr>
      | VS_EngineRpm \<Rightarrow> a\<lparr>va_engineRpm := stored_signal (ucast v) t\<rparr>
      | VS_CoolantTemperatureC \<Rightarrow> a\<lparr>va_coolantTemperatureC := stored_signal (ucast v) t\<rparr>
      | VS_EngineOilTemperatureC \<Rightarrow> a\<lparr>va_engineOilTemperatureC := stored_signal (ucast v) t\<rparr>
      | VS_TransmissionOilTemperatureC \<Rightarrow>
          a\<lparr>va_transmissionOilTemperatureC := stored_signal (ucast v) t\<rparr>
      | VS_DpfRegenerationActive \<Rightarrow> a\<lparr>va_dpfRegenerationActive := stored_signal (v \<noteq> 0) t\<rparr>
      | VS_HoodClosed \<Rightarrow> a\<lparr>va_hoodClosed := stored_signal (v \<noteq> 0) t\<rparr>
      | VS_DoorsClosed \<Rightarrow> a\<lparr>va_doorsClosed := stored_signal (v \<noteq> 0) t\<rparr>
      | VS_TrunkClosed \<Rightarrow> a\<lparr>va_trunkClosed := stored_signal (v \<noteq> 0) t\<rparr>
      | VS_BrakePressed \<Rightarrow> a\<lparr>va_brakePressed := stored_signal (v \<noteq> 0) t\<rparr>
      | VS_ParkingBrakeApplied \<Rightarrow> a\<lparr>va_parkingBrakeApplied := stored_signal (v \<noteq> 0) t\<rparr>
      | VS_Transmission \<Rightarrow> a\<lparr>va_transmission := stored_signal (Transmission_of v) t\<rparr>
      | VS_Gear \<Rightarrow> a\<lparr>va_gear := stored_signal (Gear_of v) t\<rparr>
      | VS_CriticalFaultPresent \<Rightarrow> a\<lparr>va_criticalFaultPresent := stored_signal (v \<noteq> 0) t\<rparr>
      | VS_Count \<Rightarrow> a)"

definition applyBatch ::
    "u32 \<Rightarrow> DecodedSignalBatch \<Rightarrow> VehicleStateAssembler \<Rightarrow> VehicleStateAssembler" where
  "applyBatch t batch a = fold (applySignal t) (take (db_count batch) (db_signals batch)) a"

definition VehicleStateAssembler_consume ::
    "CanFrameDecoder \<Rightarrow> VehicleStateAssembler CanFrameConsumer" where
  "VehicleStateAssembler_consume decoder frame a =
     (let s = (va_statistics a)\<lparr>consumedFrames := consumedFrames (va_statistics a) + 1\<rparr>;
          rejected = a\<lparr>va_statistics := s\<lparr>rejectedFrames := rejectedFrames s + 1\<rparr>\<rparr>
      in
      if \<not> CanFrame_isValid frame then (False, rejected)
      else
       (let (result, batch) = decoder frame DecodedSignalBatch_default in
        if result = DR_Ignored
        then (True, a\<lparr>va_statistics := s\<lparr>ignoredFrames := ignoredFrames s + 1\<rparr>\<rparr>)
        else if result = DR_Invalid \<or> db_count batch = 0 \<or> \<not> validateBatch batch
        then (False, rejected)
        else
         (let a = applyBatch (timestampMilliseconds frame) batch a
          in (True, a\<lparr>va_statistics := s\<lparr>decodedFrames := decodedFrames s + 1,
                     decodedSignals := decodedSignals s + of_nat (db_count batch)\<rparr>\<rparr>))))"

definition assembler_observe :: "'a \<Rightarrow> 'a StoredSignal \<Rightarrow> u32 \<Rightarrow> u32 \<Rightarrow> 'a Observed" where
  "assembler_observe v0 signal nowMs maximumAgeMs =
     (if \<not> ss_observed signal then Observed_default v0
      else
       (let ageMs = nowMs - ss_observedAtMs signal
        in \<lparr>obs_value = ss_value signal,
            quality = (if ageMs \<le> maximumAgeMs then SQ_Fresh else SQ_Stale)\<rparr>))"

definition VehicleStateAssembler_snapshot ::
    "u32 \<Rightarrow> VehicleStateAssembler \<Rightarrow> VehicleState" where
  "VehicleStateAssembler_snapshot nowMs a =
     (let f = va_freshness a in
      \<lparr>vs_batteryMillivolts =
         assembler_observe 0 (va_batteryMillivolts a) nowMs (batteryMaximumAgeMs f),
       vs_engineRpm = assembler_observe 0 (va_engineRpm a) nowMs (engineRpmMaximumAgeMs f),
       vs_coolantTemperatureC =
         assembler_observe 0 (va_coolantTemperatureC a) nowMs (telemetryMaximumAgeMs f),
       vs_engineOilTemperatureC =
         assembler_observe 0 (va_engineOilTemperatureC a) nowMs (telemetryMaximumAgeMs f),
       vs_transmissionOilTemperatureC =
         assembler_observe 0 (va_transmissionOilTemperatureC a) nowMs (telemetryMaximumAgeMs f),
       vs_dpfRegenerationActive =
         assembler_observe False (va_dpfRegenerationActive a) nowMs (telemetryMaximumAgeMs f),
       vs_hoodClosed = assembler_observe False (va_hoodClosed a) nowMs (bodyMaximumAgeMs f),
       vs_doorsClosed = assembler_observe False (va_doorsClosed a) nowMs (bodyMaximumAgeMs f),
       vs_trunkClosed = assembler_observe False (va_trunkClosed a) nowMs (bodyMaximumAgeMs f),
       vs_brakePressed = assembler_observe False (va_brakePressed a) nowMs (bodyMaximumAgeMs f),
       vs_parkingBrakeApplied =
         assembler_observe False (va_parkingBrakeApplied a) nowMs (bodyMaximumAgeMs f),
       vs_transmission =
         assembler_observe TR_Unknown (va_transmission a) nowMs (transmissionMaximumAgeMs f),
       vs_gear = assembler_observe GE_Unknown (va_gear a) nowMs (transmissionMaximumAgeMs f),
       vs_criticalFaultPresent =
         assembler_observe False (va_criticalFaultPresent a) nowMs (faultMaximumAgeMs f)\<rparr>)"

section \<open>The replay of a trace\<close>

datatype ReplayStatus =
  RP_Ready | RP_Complete | RP_InvalidTrace | RP_ConsumerRejected | RP_NonMonotonicTime

record ReplayBatch =
  rb_status :: ReplayStatus
  rb_emittedFrames :: nat
  rb_nextFrameIndex :: nat

definition ReplayBatch_default :: ReplayBatch where
  "ReplayBatch_default = \<lparr>rb_status = RP_Ready, rb_emittedFrames = 0, rb_nextFrameIndex = 0\<rparr>"

text \<open>The frames are the caller's array, or none.\<close>

record CanTraceReplay =
  cr_frames :: "CanFrame list option"
  cr_frameCount :: nat
  cr_cursor :: nat
  cr_valid :: bool

definition validateTrace :: "CanFrame list option \<Rightarrow> nat \<Rightarrow> bool" where
  "validateTrace frames n \<longleftrightarrow>
     (case frames of
        None \<Rightarrow> n = 0
      | Some fs \<Rightarrow> (\<forall>index < n. CanFrame_isValid (fs ! index) \<and>
          (index > 0 \<longrightarrow> \<not> cf_timestampUs (fs ! index) < cf_timestampUs (fs ! (index - 1)))))"

definition mkCanTraceReplay :: "CanFrame list option \<Rightarrow> nat \<Rightarrow> CanTraceReplay" where
  "mkCanTraceReplay frames n =
     \<lparr>cr_frames = frames, cr_frameCount = n, cr_cursor = 0, cr_valid = validateTrace frames n\<rparr>"

abbreviation cr_frame :: "CanTraceReplay \<Rightarrow> CanFrame" where
  "cr_frame r \<equiv> the (cr_frames r) ! cr_cursor r"

function replay_loop ::
    "'c CanFrameConsumer \<Rightarrow> u64 \<Rightarrow> nat \<Rightarrow> CanTraceReplay \<Rightarrow> 'c \<Rightarrow> ReplayBatch \<times> CanTraceReplay \<times> 'c"
where
  "replay_loop consumer elapsedUs emitted r c =
     (if cr_cursor r < cr_frameCount r \<and> cf_timestampUs (cr_frame r) \<le> elapsedUs
      then
       (let (ok, c) = consumer (cr_frame r) c in
        if \<not> ok
        then (\<lparr>rb_status = RP_ConsumerRejected, rb_emittedFrames = emitted,
               rb_nextFrameIndex = cr_cursor r\<rparr>, r, c)
        else replay_loop consumer elapsedUs (emitted + 1) (r\<lparr>cr_cursor := cr_cursor r + 1\<rparr>) c)
      else (\<lparr>rb_status = (if cr_cursor r = cr_frameCount r then RP_Complete else RP_Ready),
             rb_emittedFrames = emitted, rb_nextFrameIndex = cr_cursor r\<rparr>, r, c))"
  by pat_completeness auto
termination
  by (relation "measure (\<lambda>(consumer, elapsedUs, emitted, r, c). cr_frameCount r - cr_cursor r)")
    auto

declare replay_loop.simps [simp del]

definition CanTraceReplay_advanceTo ::
    "'c CanFrameConsumer \<Rightarrow> u32 \<Rightarrow> CanTraceReplay \<Rightarrow> 'c \<Rightarrow> ReplayBatch \<times> CanTraceReplay \<times> 'c" where
  "CanTraceReplay_advanceTo consumer elapsedMs r c =
     (if \<not> cr_valid r
      then (\<lparr>rb_status = RP_InvalidTrace, rb_emittedFrames = 0, rb_nextFrameIndex = cr_cursor r\<rparr>,
            r, c)
      else replay_loop consumer (ucast elapsedMs * 1000) 0 r c)"

definition CanTraceReplay_reset :: "CanTraceReplay \<Rightarrow> CanTraceReplay" where
  "CanTraceReplay_reset r = r\<lparr>cr_cursor := 0\<rparr>"

fun ReplayStatus_toString :: "ReplayStatus \<Rightarrow> string" where
  "ReplayStatus_toString RP_Ready = ''ready''"
| "ReplayStatus_toString RP_Complete = ''complete''"
| "ReplayStatus_toString RP_InvalidTrace = ''invalid_trace''"
| "ReplayStatus_toString RP_ConsumerRejected = ''consumer_rejected''"
| "ReplayStatus_toString RP_NonMonotonicTime = ''non_monotonic_time''"

section \<open>The gateway\<close>

record ReplayVehicleGateway =
  rg_replay :: CanTraceReplay
  rg_assembler :: VehicleStateAssembler
  rg_elapsedMs :: u32
  rg_timeIsValid :: bool
  rg_lastBatch :: ReplayBatch

definition initial_batch :: "CanTraceReplay \<Rightarrow> ReplayBatch" where
  "initial_batch r = ReplayBatch_default
     \<lparr>rb_status := (if cr_valid r then RP_Ready else RP_InvalidTrace)\<rparr>"

definition mkReplayVehicleGateway ::
    "CanFrame list option \<Rightarrow> nat \<Rightarrow> SignalFreshnessConfig \<Rightarrow> ReplayVehicleGateway" where
  "mkReplayVehicleGateway frames n freshness =
     (let r = mkCanTraceReplay frames n in
      \<lparr>rg_replay = r, rg_assembler = mkVehicleStateAssembler freshness, rg_elapsedMs = 0,
       rg_timeIsValid = True, rg_lastBatch = initial_batch r\<rparr>)"

definition ReplayVehicleGateway_requestState ::
    "CanFrameDecoder \<Rightarrow> ReplayVehicleGateway \<Rightarrow> bool \<times> ReplayVehicleGateway" where
  "ReplayVehicleGateway_requestState decoder g =
     (if \<not> rg_timeIsValid g
      then (False, g\<lparr>rg_lastBatch := (rg_lastBatch g)
             \<lparr>rb_status := RP_NonMonotonicTime, rb_emittedFrames := 0\<rparr>\<rparr>)
      else
       (let (batch, replay, assembler) =
              CanTraceReplay_advanceTo (VehicleStateAssembler_consume decoder) (rg_elapsedMs g)
                (rg_replay g) (rg_assembler g)
        in (rb_status batch = RP_Ready \<or> rb_status batch = RP_Complete,
            g\<lparr>rg_lastBatch := batch, rg_replay := replay, rg_assembler := assembler\<rparr>)))"

definition ReplayVehicleGateway_setElapsedTime ::
    "u32 \<Rightarrow> ReplayVehicleGateway \<Rightarrow> bool \<times> ReplayVehicleGateway" where
  "ReplayVehicleGateway_setElapsedTime elapsedMs g =
     (if elapsedMs < rg_elapsedMs g
      then (False, g\<lparr>rg_timeIsValid := False, rg_lastBatch := (rg_lastBatch g)
             \<lparr>rb_status := RP_NonMonotonicTime, rb_emittedFrames := 0\<rparr>\<rparr>)
      else (True, g\<lparr>rg_elapsedMs := elapsedMs\<rparr>))"

definition ReplayVehicleGateway_reset :: "ReplayVehicleGateway \<Rightarrow> ReplayVehicleGateway" where
  "ReplayVehicleGateway_reset g =
     (let r = CanTraceReplay_reset (rg_replay g) in
      g\<lparr>rg_replay := r, rg_assembler := VehicleStateAssembler_reset (rg_assembler g),
        rg_elapsedMs := 0, rg_timeIsValid := True, rg_lastBatch := initial_batch r\<rparr>)"

definition ReplayVehicleGateway_state :: "ReplayVehicleGateway \<Rightarrow> VehicleState" where
  "ReplayVehicleGateway_state g =
     VehicleStateAssembler_snapshot (rg_elapsedMs g) (rg_assembler g)"

definition replay_gateway_port ::
    "CanFrameDecoder \<Rightarrow> ReplayVehicleGateway VehicleGateway" where
  "replay_gateway_port decoder = \<lparr>requestState = ReplayVehicleGateway_requestState decoder\<rparr>"


section \<open>The assembler as a map\<close>

text \<open>Values of all types as integers, the way frames carry them.\<close>

fun Transmission_index :: "Transmission \<Rightarrow> int" where
  "Transmission_index TR_Unknown = 0"
| "Transmission_index TR_Automatic = 1"
| "Transmission_index TR_Manual = 2"

fun Gear_index :: "Gear \<Rightarrow> int" where
  "Gear_index GE_Unknown = 0"
| "Gear_index GE_Park = 1"
| "Gear_index GE_Neutral = 2"
| "Gear_index GE_Reverse = 3"
| "Gear_index GE_Drive = 4"

definition stored_as :: "('a \<Rightarrow> int) \<Rightarrow> 'a StoredSignal \<Rightarrow> (int \<times> u32) option" where
  "stored_as f s = (if ss_observed s then Some (f (ss_value s), ss_observedAtMs s) else None)"

text \<open>What the assembler knows: the last value of every signal with its time.\<close>

fun latest :: "VehicleStateAssembler \<Rightarrow> VehicleSignal \<Rightarrow> (int \<times> u32) option" where
  "latest a VS_BatteryMillivolts = stored_as uint (va_batteryMillivolts a)"
| "latest a VS_EngineRpm = stored_as uint (va_engineRpm a)"
| "latest a VS_CoolantTemperatureC = stored_as sint (va_coolantTemperatureC a)"
| "latest a VS_EngineOilTemperatureC = stored_as sint (va_engineOilTemperatureC a)"
| "latest a VS_TransmissionOilTemperatureC = stored_as sint (va_transmissionOilTemperatureC a)"
| "latest a VS_DpfRegenerationActive = stored_as of_bool (va_dpfRegenerationActive a)"
| "latest a VS_HoodClosed = stored_as of_bool (va_hoodClosed a)"
| "latest a VS_DoorsClosed = stored_as of_bool (va_doorsClosed a)"
| "latest a VS_TrunkClosed = stored_as of_bool (va_trunkClosed a)"
| "latest a VS_BrakePressed = stored_as of_bool (va_brakePressed a)"
| "latest a VS_ParkingBrakeApplied = stored_as of_bool (va_parkingBrakeApplied a)"
| "latest a VS_Transmission = stored_as Transmission_index (va_transmission a)"
| "latest a VS_Gear = stored_as Gear_index (va_gear a)"
| "latest a VS_CriticalFaultPresent = stored_as of_bool (va_criticalFaultPresent a)"
| "latest a VS_Count = None"

definition seen_as :: "('a \<Rightarrow> int) \<Rightarrow> 'a Observed \<Rightarrow> int \<times> SignalQuality" where
  "seen_as f v = (f (obs_value v), quality v)"

fun seen :: "VehicleState \<Rightarrow> VehicleSignal \<Rightarrow> int \<times> SignalQuality" where
  "seen v VS_BatteryMillivolts = seen_as uint (vs_batteryMillivolts v)"
| "seen v VS_EngineRpm = seen_as uint (vs_engineRpm v)"
| "seen v VS_CoolantTemperatureC = seen_as sint (vs_coolantTemperatureC v)"
| "seen v VS_EngineOilTemperatureC = seen_as sint (vs_engineOilTemperatureC v)"
| "seen v VS_TransmissionOilTemperatureC = seen_as sint (vs_transmissionOilTemperatureC v)"
| "seen v VS_DpfRegenerationActive = seen_as of_bool (vs_dpfRegenerationActive v)"
| "seen v VS_HoodClosed = seen_as of_bool (vs_hoodClosed v)"
| "seen v VS_DoorsClosed = seen_as of_bool (vs_doorsClosed v)"
| "seen v VS_TrunkClosed = seen_as of_bool (vs_trunkClosed v)"
| "seen v VS_BrakePressed = seen_as of_bool (vs_brakePressed v)"
| "seen v VS_ParkingBrakeApplied = seen_as of_bool (vs_parkingBrakeApplied v)"
| "seen v VS_Transmission = seen_as Transmission_index (vs_transmission v)"
| "seen v VS_Gear = seen_as Gear_index (vs_gear v)"
| "seen v VS_CriticalFaultPresent = seen_as of_bool (vs_criticalFaultPresent v)"
| "seen v VS_Count = (0, SQ_Unavailable)"

fun maximumAge :: "SignalFreshnessConfig \<Rightarrow> VehicleSignal \<Rightarrow> u32" where
  "maximumAge f VS_BatteryMillivolts = batteryMaximumAgeMs f"
| "maximumAge f VS_EngineRpm = engineRpmMaximumAgeMs f"
| "maximumAge f VS_CoolantTemperatureC = telemetryMaximumAgeMs f"
| "maximumAge f VS_EngineOilTemperatureC = telemetryMaximumAgeMs f"
| "maximumAge f VS_TransmissionOilTemperatureC = telemetryMaximumAgeMs f"
| "maximumAge f VS_DpfRegenerationActive = telemetryMaximumAgeMs f"
| "maximumAge f VS_Transmission = transmissionMaximumAgeMs f"
| "maximumAge f VS_Gear = transmissionMaximumAgeMs f"
| "maximumAge f VS_CriticalFaultPresent = faultMaximumAgeMs f"
| "maximumAge f _ = bodyMaximumAgeMs f"

lemma latest_fresh [simp]: "latest (mkVehicleStateAssembler freshness) signal = None"
  by (cases signal) (simp_all add: mkVehicleStateAssembler_def stored_as_def StoredSignal_default_def)

text \<open>Casts keep values in range.\<close>

lemma narrow: "(ucast (v :: i32) :: 16 word) = word_of_int (sint v)"
  by transfer (simp add: take_bit_signed_take_bit)

lemma uint_ucast16:
  assumes "0 \<le> sint v" and "sint v \<le> 20000"
  shows "uint (ucast (v :: i32) :: u16) = sint v"
proof -
  have "uint (word_of_int k :: u16) = k" if "0 \<le> k" "k \<le> 20000" for k
    using that by (simp add: unsigned_of_int take_bit_int_eq_self)
  from this [OF assms] show ?thesis unfolding narrow .
qed

lemma sint_ucast16:
  assumes "-40 \<le> sint v" and "sint v \<le> 215"
  shows "sint (ucast (v :: i32) :: i16) = sint v"
proof -
  have "sint (word_of_int k :: i16) = k" if "-40 \<le> k" "k \<le> 215" for k
    using that by (simp add: signed_of_int signed_take_bit_int_eq_self)
  from this [OF assms] show ?thesis unfolding narrow .
qed

lemma small_value:
  fixes v :: i32
  assumes "0 \<le> sint v" and "sint v \<le> 4"
  shows "v \<in> {0, 1, 2, 3, 4}"
proof -
  have eq: "v = word_of_int k" if "sint v = k" for k using that by auto
  have "sint v = 0 \<or> sint v = 1 \<or> sint v = 2 \<or> sint v = 3 \<or> sint v = 4"
    using assms by presburger
  then show ?thesis using eq [of 0] eq [of 1] eq [of 2] eq [of 3] eq [of 4] by auto
qed

lemma bool_value: "0 \<le> sint v \<Longrightarrow> sint v \<le> 1 \<Longrightarrow> of_bool (v \<noteq> 0) = sint (v :: i32)"
  using small_value [of v] by auto

lemma enum_value:
  "0 \<le> sint v \<Longrightarrow> sint v \<le> 2 \<Longrightarrow> Transmission_index (Transmission_of v) = sint v"
  "0 \<le> sint v \<Longrightarrow> sint v \<le> 4 \<Longrightarrow> Gear_index (Gear_of v) = sint v"
  using small_value [of v] by (auto simp: Transmission_of_def Gear_of_def)

lemma latest_apply:
  assumes "validateSignal s"
  shows "latest (applySignal t s a) = (latest a)(ds_signal s \<mapsto> (sint (ds_value s), t))"
proof (rule ext)
  fix signal
  show "latest (applySignal t s a) signal =
      ((latest a)(ds_signal s \<mapsto> (sint (ds_value s), t))) signal"
    using assms
    by (cases "ds_signal s"; cases signal)
      (simp_all add: applySignal_def validateSignal_def stored_as_def stored_signal_def Let_def
        uint_ucast16 sint_ucast16 bool_value enum_value)
qed


text \<open>A snapshot shows the map.\<close>

definition shown :: "u32 \<Rightarrow> u32 \<Rightarrow> (int \<times> u32) option \<Rightarrow> int \<times> SignalQuality" where
  "shown nowMs maximum entry = (case entry of
     None \<Rightarrow> (0, SQ_Unavailable)
   | Some (v, t) \<Rightarrow> (v, if nowMs - t \<le> maximum then SQ_Fresh else SQ_Stale))"

lemma seen_snapshot:
  "seen (VehicleStateAssembler_snapshot nowMs a) signal =
     shown nowMs (maximumAge (va_freshness a) signal) (latest a signal)"
  by (cases signal)
    (simp_all add: VehicleStateAssembler_snapshot_def assembler_observe_def Observed_default_def
      shown_def stored_as_def seen_as_def Let_def)

text \<open>The signals a frame carries: none unless the assembler accepts it.\<close>

definition carried :: "CanFrameDecoder \<Rightarrow> CanFrame \<Rightarrow> VehicleSignal \<Rightarrow> int option" where
  "carried decoder frame =
     (case decoder frame DecodedSignalBatch_default of (result, batch) \<Rightarrow>
        if CanFrame_isValid frame \<and> result = DR_Decoded \<and> validateBatch batch
        then map_of (map (\<lambda>s. (ds_signal s, sint (ds_value s)))
               (take (db_count batch) (db_signals batch)))
        else Map.empty)"

lemma latest_batch:
  assumes "\<forall>s \<in> set ss. validateSignal s" and "distinct (map ds_signal ss)"
  shows "latest (fold (applySignal t) ss a) signal =
    (case map_of (map (\<lambda>s. (ds_signal s, sint (ds_value s))) ss) signal of
       None \<Rightarrow> latest a signal | Some v \<Rightarrow> Some (v, t))"
  using assms
proof (induction ss arbitrary: a)
  case (Cons s ss)
  have "map_of (map (\<lambda>s. (ds_signal s, sint (ds_value s))) ss) (ds_signal s) = None"
    using Cons.prems(2) by (auto simp: map_of_eq_None_iff)
  with Cons latest_apply [of s t a] show ?case by (auto split: option.splits)
qed simp

lemma apply_freshness [simp]: "va_freshness (applySignal t s a) = va_freshness a"
  by (simp add: applySignal_def Let_def split: VehicleSignal.split)

lemma batch_freshness [simp]: "va_freshness (fold (applySignal t) ss a) = va_freshness a"
  by (induction ss arbitrary: a) simp_all

lemma latest_statistics [simp]: "latest (a\<lparr>va_statistics := st\<rparr>) signal = latest a signal"
  by (cases signal) simp_all

lemma valid_batch:
  assumes "validateBatch batch"
  shows "\<forall>s \<in> set (take (db_count batch) (db_signals batch)). validateSignal s"
    and "distinct (map ds_signal (take (db_count batch) (db_signals batch)))"
proof -
  let ?ss = "take (db_count batch) (db_signals batch)"
  have n: "length ?ss = db_count batch" using assms by (simp add: validateBatch_def)
  show "\<forall>s \<in> set ?ss. validateSignal s"
    using assms n by (auto simp: validateBatch_def in_set_conv_nth)
  have "ds_signal (?ss ! i) \<noteq> ds_signal (?ss ! j)" if "i < length ?ss" "j < length ?ss" "i < j" for i j
    using assms that n by (simp add: validateBatch_def)
  then show "distinct (map ds_signal ?ss)"
    by (simp add: distinct_conv_nth) (metis linorder_neqE_nat)
qed

lemma consume_latest:
  assumes "VehicleStateAssembler_consume decoder frame a = (ok, a')"
  shows "va_freshness a' = va_freshness a"
    and "latest a' signal = (case carried decoder frame signal of
      None \<Rightarrow> latest a signal | Some v \<Rightarrow> Some (v, timestampMilliseconds frame))"
proof -
  obtain result batch where d: "decoder frame DecodedSignalBatch_default = (result, batch)"
    by fastforce
  show "va_freshness a' = va_freshness a"
    using assms d
    by (auto simp: VehicleStateAssembler_consume_def applyBatch_def Let_def split: if_splits)
  show "latest a' signal = (case carried decoder frame signal of
      None \<Rightarrow> latest a signal | Some v \<Rightarrow> Some (v, timestampMilliseconds frame))"
  proof (cases "CanFrame_isValid frame \<and> result = DR_Decoded \<and> validateBatch batch")
    case True
    with latest_batch [OF valid_batch, of batch "timestampMilliseconds frame" a signal] assms d
    show ?thesis
      by (auto simp: VehicleStateAssembler_consume_def applyBatch_def carried_def Let_def
          split: if_splits)
  next
    case False
    with assms d show ?thesis
      by (cases result) (auto simp: VehicleStateAssembler_consume_def carried_def Let_def
          split: if_splits)
  qed
qed

definition assembled ::
    "CanFrameDecoder \<Rightarrow> SignalFreshnessConfig \<Rightarrow> CanFrame list \<Rightarrow> VehicleStateAssembler" where
  "assembled decoder freshness frames =
     fold (\<lambda>frame a. snd (VehicleStateAssembler_consume decoder frame a)) frames
       (mkVehicleStateAssembler freshness)"

lemma assembled_latest:
  "va_freshness (assembled decoder freshness frames) = freshness \<and>
   latest (assembled decoder freshness frames) signal =
     (case find (\<lambda>f. carried decoder f signal \<noteq> None) (rev frames) of
        None \<Rightarrow> None
      | Some f \<Rightarrow> Some (the (carried decoder f signal), timestampMilliseconds f))"
proof (induction frames rule: rev_induct)
  case Nil
  show ?case by (simp add: assembled_def) (simp add: mkVehicleStateAssembler_def)
next
  case (snoc f frames)
  obtain ok a' where
    c: "VehicleStateAssembler_consume decoder f (assembled decoder freshness frames) = (ok, a')"
    by fastforce
  then have "assembled decoder freshness (frames @ [f]) = a'" by (simp add: assembled_def)
  with consume_latest [OF c] snoc show ?case by (auto split: option.splits)
qed

section \<open>The replay\<close>

text \<open>The frames still to come.\<close>

definition remaining :: "CanTraceReplay \<Rightarrow> CanFrame list" where
  "remaining r = (case cr_frames r of
     None \<Rightarrow> [] | Some fs \<Rightarrow> drop (cr_cursor r) (take (cr_frameCount r) fs))"

lemma replay_further:
  "e1 \<le> e2 \<Longrightarrow> replay_loop consumer e1 m r c = (b, r1, c1) \<Longrightarrow> rb_status b \<noteq> RP_ConsumerRejected \<Longrightarrow>
    replay_loop consumer e2 m r c = replay_loop consumer e2 (rb_emittedFrames b) r1 c1"
proof (induction consumer e1 m r c rule: replay_loop.induct)
  case (1 consumer e1 m r c)
  show ?case
  proof (cases "cr_cursor r < cr_frameCount r \<and> cf_timestampUs (cr_frame r) \<le> e1")
    case True
    obtain ok c' where c: "consumer (cr_frame r) c = (ok, c')" by fastforce
    have later: "cf_timestampUs (cr_frame r) \<le> e2"
      using True "1.prems"(1) order_trans by blast
    show ?thesis
    proof (cases ok)
      case False
      with True c "1.prems" show ?thesis by (auto simp: replay_loop.simps [of consumer e1])
    next
      case ok: True
      from "1.prems" True c ok
      have "replay_loop consumer e1 (m + 1) (r\<lparr>cr_cursor := cr_cursor r + 1\<rparr>) c' = (b, r1, c1)"
        by (simp add: replay_loop.simps [of consumer e1 m])
      from "1.IH" [OF True c [symmetric] refl _ "1.prems"(1) this "1.prems"(3)] ok True later c
      show ?thesis by (simp add: replay_loop.simps [of consumer e2 m r])
    qed
  next
    case False
    with "1.prems" have "b = \<lparr>rb_status = (if cr_cursor r = cr_frameCount r then RP_Complete
        else RP_Ready), rb_emittedFrames = m, rb_nextFrameIndex = cr_cursor r\<rparr>" "r1 = r" "c1 = c"
      by (auto simp: replay_loop.simps [of consumer e1])
    then show ?thesis by simp
  qed
qed


lemma replay_shift:
  "replay_loop consumer e (m + k) r c =
     (let (b, r1, c1) = replay_loop consumer e m r c
      in (b\<lparr>rb_emittedFrames := rb_emittedFrames b + k\<rparr>, r1, c1))"
proof (induction consumer e m r c rule: replay_loop.induct)
  case (1 consumer e m r c)
  obtain ok c' where c: "consumer (cr_frame r) c = (ok, c')" by fastforce
  from "1.IH" [OF _ c [symmetric] refl] c show ?case
    by (simp add: replay_loop.simps [of consumer e m] replay_loop.simps [of consumer e "m + k"])
qed

text \<open>A replay hands the frames that are due to the consumer, in order.\<close>

lemma remaining_step:
  assumes "cr_cursor r < cr_frameCount r" and "cr_frames r = Some fs" and "cr_frameCount r \<le> length fs"
  shows "remaining r = cr_frame r # remaining (r\<lparr>cr_cursor := cr_cursor r + 1\<rparr>)"
  using assms by (simp add: remaining_def Cons_nth_drop_Suc [symmetric])

lemma replay_due:
  "replay_loop consumer e m r c = (b, r1, c1) \<Longrightarrow> rb_status b \<noteq> RP_ConsumerRejected \<Longrightarrow>
    (case cr_frames r of None \<Rightarrow> cr_frameCount r = 0 | Some fs \<Rightarrow> cr_frameCount r \<le> length fs) \<Longrightarrow>
    (let due = takeWhile (\<lambda>f. cf_timestampUs f \<le> e) (remaining r) in
     c1 = fold (\<lambda>f c. snd (consumer f c)) due c \<and> rb_emittedFrames b = m + length due)"
proof (induction consumer e m r c rule: replay_loop.induct)
  case (1 consumer e m r c)
  obtain ok c' where c: "consumer (cr_frame r) c = (ok, c')" by fastforce
  show ?case
  proof (cases "cr_cursor r < cr_frameCount r")
    case False
    with "1.prems" show ?thesis
      by (auto simp: replay_loop.simps [of consumer e m r] remaining_def split: option.splits)
  next
    case cursor: True
    then obtain fs where fs: "cr_frames r = Some fs" "cr_frameCount r \<le> length fs"
      using "1.prems"(3) by (cases "cr_frames r") auto
    note rem = remaining_step [OF cursor fs]
    show ?thesis
    proof (cases "cf_timestampUs (cr_frame r) \<le> e")
      case False
      with "1.prems"(1) rem show ?thesis by (auto simp: replay_loop.simps [of consumer e m r])
    next
      case True
      have ok: ok
        using "1.prems"(1,2) cursor True c
        by (auto simp: replay_loop.simps [of consumer e m r] split: if_splits)
      with "1.prems"(1) cursor True c
      have "replay_loop consumer e (m + 1) (r\<lparr>cr_cursor := cr_cursor r + 1\<rparr>) c' = (b, r1, c1)"
        by (simp add: replay_loop.simps [of consumer e m r])
      from "1.IH" [OF _ c [symmetric] refl _ this "1.prems"(2)] ok cursor True fs c rem
      show ?thesis by (simp add: Let_def)
    qed
  qed
qed

text \<open>What a consumer keeps of its state, a replay keeps.\<close>

lemma replay_keeps:
  "(\<forall>f c ok c'. S c \<longrightarrow> consumer f c = (ok, c') \<longrightarrow> S c') \<Longrightarrow> S c \<Longrightarrow> cr_cursor r \<le> cr_frameCount r \<Longrightarrow>
     replay_loop consumer e m r c = (b, r1, c1) \<Longrightarrow>
     S c1 \<and> cr_cursor r1 \<le> cr_frameCount r1 \<and> cr_valid r1 = cr_valid r"
proof (induction consumer e m r c rule: replay_loop.induct)
  case (1 consumer e m r c)
  obtain ok c' where c: "consumer (cr_frame r) c = (ok, c')" by fastforce
  then have "S c'" using "1.prems"(1,2) by blast
  show ?case
  proof (cases "cr_cursor r < cr_frameCount r \<and> cf_timestampUs (cr_frame r) \<le> e \<and> ok")
    case True
    with "1.prems"(4) c
    have "replay_loop consumer e (m + 1) (r\<lparr>cr_cursor := cr_cursor r + 1\<rparr>) c' = (b, r1, c1)"
      by (simp add: replay_loop.simps [of consumer e m r])
    from "1.IH" [OF _ c [symmetric] refl _ "1.prems"(1) \<open>S c'\<close> _ this] True show ?thesis by simp
  next
    case False
    with "1.prems"(2-4) c \<open>S c'\<close> show ?thesis
      by (auto simp: replay_loop.simps [of consumer e m r] split: if_splits)
  qed
qed

lemma replay_valid: "replay_loop consumer e m r c = (b, r1, c1) \<Longrightarrow> cr_valid r1 = cr_valid r"
proof (induction consumer e m r c rule: replay_loop.induct)
  case (1 consumer e m r c)
  obtain ok c' where c: "consumer (cr_frame r) c = (ok, c')" by fastforce
  from "1.IH" [OF _ c [symmetric] refl] "1.prems" c show ?case
    by (auto simp: replay_loop.simps [of consumer e m r] split: if_splits)
qed

lemma elapsed_microseconds: "unat (ucast (t :: u32) * 1000 :: u64) = unat t * 1000"
proof -
  have small: "unat t < 2 ^ 32" using unsigned_less [of t] by (simp flip: of_nat_less_iff)
  then have "unat (ucast t :: u64) = unat t"
    by (simp add: unsigned_ucast_eq take_bit_nat_eq_self)
  then show ?thesis using small by (simp add: unat_word_ariths)
qed

locale frame_consumer =
  fixes consumer :: "'c CanFrameConsumer"
    and sound :: "'c \<Rightarrow> bool"
  assumes consume_sound: "sound c \<Longrightarrow> consumer frame c = (ok, c') \<Longrightarrow> sound c'"
begin

lemma advance_sound:
  assumes "sound c" and "cr_cursor r \<le> cr_frameCount r"
    and "CanTraceReplay_advanceTo consumer elapsedMs r c = (b, r1, c1)"
  shows "sound c1 \<and> cr_cursor r1 \<le> cr_frameCount r1 \<and> cr_valid r1 = cr_valid r"
  using assms consume_sound
    replay_keeps [of sound consumer c r "ucast elapsedMs * 1000" 0 b r1 c1]
  by (auto simp: CanTraceReplay_advanceTo_def split: if_splits)

end

text \<open>The assembler keeps its books: every frame is decoded, ignored or rejected.\<close>

definition accounted :: "VehicleStateAssembler \<Rightarrow> bool" where
  "accounted a \<longleftrightarrow> (let s = va_statistics a in
     consumedFrames s = decodedFrames s + ignoredFrames s + rejectedFrames s)"

interpretation assembler: frame_consumer "VehicleStateAssembler_consume decoder" accounted
  by unfold_locales
    (auto simp: accounted_def VehicleStateAssembler_consume_def Let_def split: if_splits prod.splits)

lemma gateway_accounted:
  assumes "accounted (rg_assembler g)" and "cr_cursor (rg_replay g) \<le> cr_frameCount (rg_replay g)"
    and "ReplayVehicleGateway_requestState decoder g = (ok, g')"
  shows "accounted (rg_assembler g') \<and> cr_cursor (rg_replay g') \<le> cr_frameCount (rg_replay g')"
proof -
  obtain b r1 a1 where run: "CanTraceReplay_advanceTo (VehicleStateAssembler_consume decoder)
      (rg_elapsedMs g) (rg_replay g) (rg_assembler g) = (b, r1, a1)" by (metis surj_pair)
  from assembler.advance_sound [OF assms(1,2) run] assms run show ?thesis
    by (auto simp: ReplayVehicleGateway_requestState_def split: if_splits)
qed

section \<open>Properties\<close>

text \<open>C32: The vehicle state shows, for every signal, the value carried by the last accepted frame
  that had the signal, whatever other frames came between, fresh exactly while it is no older than
  the maximum age of the signal (on the 32-bit millisecond clock), and it is unavailable as long as
  no accepted frame had it.\<close>

theorem snapshot_shows_last_accepted:
  "seen (VehicleStateAssembler_snapshot nowMs (assembled decoder freshness frames)) signal =
     (case find (\<lambda>f. carried decoder f signal \<noteq> None) (rev frames) of
        None \<Rightarrow> (0, SQ_Unavailable)
      | Some f \<Rightarrow> (the (carried decoder f signal),
          if nowMs - timestampMilliseconds f \<le> maximumAge freshness signal
          then SQ_Fresh else SQ_Stale))"
  using assembled_latest [of decoder freshness frames signal]
  by (simp add: seen_snapshot shown_def split: option.splits)



end
