(* ===== verification/SyntheticCan.thy ===== *)
theory SyntheticCan
  imports Assembler "HOL-Library.Multiset"
begin

text \<open>
  The offline simulation's CAN protocol (\<^verbatim>\<open>simulation/synthetic_can\<close>): three extended
  frames that carry the whole vehicle state, their encoders, and the decoder the assembler is given
  in simulations.  The main result is the round trip through frames, decoder and assembler.
\<close>

section \<open>Protocol and states\<close>

definition PowertrainFrameIdentifier :: u32 where "PowertrainFrameIdentifier = 0x1FFFFF00"
definition BodyFrameIdentifier :: u32 where "BodyFrameIdentifier = 0x1FFFFF01"
definition TelemetryFrameIdentifier :: u32 where "TelemetryFrameIdentifier = 0x1FFFFF02"
definition SyntheticSignature :: u8 where "SyntheticSignature = 0xA5"

record SyntheticPowertrainState =
  sp_batteryMillivolts :: u16
  sp_engineRpm :: u16
  sp_transmission :: Transmission
  sp_gear :: Gear
  sp_criticalFaultPresent :: bool

definition SyntheticPowertrainState_default :: SyntheticPowertrainState where
  "SyntheticPowertrainState_default =
     \<lparr>sp_batteryMillivolts = 12500, sp_engineRpm = 0, sp_transmission = TR_Automatic,
      sp_gear = GE_Park, sp_criticalFaultPresent = False\<rparr>"

record SyntheticBodyState =
  sb_hoodClosed :: bool
  sb_doorsClosed :: bool
  sb_trunkClosed :: bool
  sb_brakePressed :: bool
  sb_parkingBrakeApplied :: bool

definition SyntheticBodyState_default :: SyntheticBodyState where
  "SyntheticBodyState_default =
     \<lparr>sb_hoodClosed = True, sb_doorsClosed = True, sb_trunkClosed = True, sb_brakePressed = False,
      sb_parkingBrakeApplied = True\<rparr>"

record SyntheticTelemetryState =
  st_coolantTemperatureC :: i16
  st_engineOilTemperatureC :: i16
  st_transmissionOilTemperatureC :: i16
  st_dpfRegenerationActive :: bool

definition SyntheticTelemetryState_default :: SyntheticTelemetryState where
  "SyntheticTelemetryState_default =
     \<lparr>st_coolantTemperatureC = 20, st_engineOilTemperatureC = 20,
      st_transmissionOilTemperatureC = 20, st_dpfRegenerationActive = False\<rparr>"

definition VerifiedSignals :: "SignalSupport list" where
  "VerifiedSignals = replicate 14 SS_Verified"

definition syntheticVehicleProfile :: VehicleProfile where
  "syntheticVehicleProfile =
     \<lparr>vp_id = Some ''synthetic-offline-automatic'',
      vp_displayName = Some ''Synthetic offline automatic vehicle'',
      vp_platform = VP_Unknown, vp_body = BV_Unknown, vp_firstModelYear = 0, vp_lastModelYear = 0,
      vp_engineCode = Some ''synthetic'', vp_fuel = FT_Unknown, vp_transmission = TR_Automatic,
      vp_qualification = QS_BenchValidated, vp_hoodInterlockSource = HI_Synthetic,
      vp_signals = VerifiedSignals\<rparr>"

section \<open>Values on the wire\<close>

definition decodeLittleEndian16 :: "u8 \<Rightarrow> u8 \<Rightarrow> u16" where
  "decodeLittleEndian16 low high = (ucast low :: u16) OR push_bit 8 (ucast high)"

text \<open>The two bytes the encoder stores through its references.\<close>

definition encodeLittleEndian16 :: "u16 \<Rightarrow> u8 \<times> u8" where
  "encodeLittleEndian16 v = (ucast (v AND 0xFF), ucast (drop_bit 8 v AND 0xFF))"

definition validSyntheticTemperature :: "i16 \<Rightarrow> bool" where
  "validSyntheticTemperature t \<longleftrightarrow> sint t \<ge> -40 \<and> sint t \<le> 215"

definition encodeSyntheticTemperature :: "i16 \<Rightarrow> u8" where
  "encodeSyntheticTemperature t = word_of_int (sint t + 40)"

definition decodeSyntheticTemperature :: "u8 \<Rightarrow> i32" where
  "decodeSyntheticTemperature encoded = ucast encoded - 40"

fun Transmission_byte :: "Transmission \<Rightarrow> u8" where
  "Transmission_byte TR_Unknown = 0"
| "Transmission_byte TR_Automatic = 1"
| "Transmission_byte TR_Manual = 2"

fun Gear_byte :: "Gear \<Rightarrow> u8" where
  "Gear_byte GE_Unknown = 0"
| "Gear_byte GE_Park = 1"
| "Gear_byte GE_Neutral = 2"
| "Gear_byte GE_Reverse = 3"
| "Gear_byte GE_Drive = 4"

section \<open>The decoder\<close>

text \<open>Signals are added one after the other until one does not fit.\<close>

fun add_all :: "(VehicleSignal \<times> i32) list \<Rightarrow> DecodedSignalBatch \<Rightarrow> bool \<times> DecodedSignalBatch" where
  "add_all [] batch = (True, batch)"
| "add_all ((signal, v) # rest) batch =
     (case DecodedSignalBatch_add signal v batch of
        (True, batch) \<Rightarrow> add_all rest batch
      | (False, batch) \<Rightarrow> (False, batch))"

definition addPowertrainSignals ::
    "CanFrame \<Rightarrow> DecodedSignalBatch \<Rightarrow> bool \<times> DecodedSignalBatch" where
  "addPowertrainSignals frame =
     (let d = cf_data frame;
          engineRpm = decodeLittleEndian16 (d ! 0) (d ! 1);
          batteryMillivolts = decodeLittleEndian16 (d ! 2) (d ! 3)
      in add_all [(VS_EngineRpm, ucast engineRpm), (VS_BatteryMillivolts, ucast batteryMillivolts),
           (VS_Transmission, ucast (d ! 4)), (VS_Gear, ucast (d ! 5)),
           (VS_CriticalFaultPresent, ucast (d ! 6))])"

definition addBodySignals ::
    "CanFrame \<Rightarrow> DecodedSignalBatch \<Rightarrow> bool \<times> DecodedSignalBatch" where
  "addBodySignals frame =
     (let flags = cf_data frame ! 0
      in add_all [(VS_HoodClosed, ucast (drop_bit 0 flags AND 1)),
           (VS_DoorsClosed, ucast (drop_bit 1 flags AND 1)),
           (VS_TrunkClosed, ucast (drop_bit 2 flags AND 1)),
           (VS_BrakePressed, ucast (drop_bit 3 flags AND 1)),
           (VS_ParkingBrakeApplied, ucast (drop_bit 4 flags AND 1))])"

definition addTelemetrySignals ::
    "CanFrame \<Rightarrow> DecodedSignalBatch \<Rightarrow> bool \<times> DecodedSignalBatch" where
  "addTelemetrySignals frame =
     (let d = cf_data frame
      in add_all [(VS_CoolantTemperatureC, decodeSyntheticTemperature (d ! 0)),
           (VS_EngineOilTemperatureC, decodeSyntheticTemperature (d ! 1)),
           (VS_TransmissionOilTemperatureC, decodeSyntheticTemperature (d ! 2)),
           (VS_DpfRegenerationActive, ucast (d ! 3 AND 1))])"

definition decoded_if :: "bool \<times> DecodedSignalBatch \<Rightarrow> DecodeResult \<times> DecodedSignalBatch" where
  "decoded_if = (\<lambda>(ok, batch). (if ok then DR_Decoded else DR_Invalid, batch))"

definition SyntheticCanDecoder_decode :: CanFrameDecoder where
  "SyntheticCanDecoder_decode frame out =
     (let ident = cf_identifier frame; d = cf_data frame in
      if ident \<noteq> PowertrainFrameIdentifier \<and> ident \<noteq> BodyFrameIdentifier \<and>
         ident \<noteq> TelemetryFrameIdentifier
      then (DR_Ignored, out)
      else if \<not> cf_extended frame \<or> cf_dataLength frame \<noteq> MaximumDataLength \<or>
         d ! 7 \<noteq> SyntheticSignature
      then (DR_Invalid, out)
      else if ident = PowertrainFrameIdentifier then decoded_if (addPowertrainSignals frame out)
      else if ident = TelemetryFrameIdentifier
      then (if d ! 3 AND 0xFE \<noteq> 0 then (DR_Invalid, out)
            else if \<exists>index \<in> {4..<7}. d ! index \<noteq> 0 then (DR_Invalid, out)
            else decoded_if (addTelemetrySignals frame out))
      else if \<exists>index \<in> {1..<7}. d ! index \<noteq> 0 then (DR_Invalid, out)
      else if d ! 0 AND 0xE0 \<noteq> 0 then (DR_Invalid, out)
      else decoded_if (addBodySignals frame out))"

section \<open>The encoders\<close>

definition synthetic_frame :: "u32 \<Rightarrow> u32 \<Rightarrow> CanFrame" where
  "synthetic_frame ident timestampMs =
     CanFrame_default\<lparr>cf_timestampUs := ucast timestampMs * 1000, cf_identifier := ident,
       cf_extended := True, cf_dataLength := MaximumDataLength\<rparr>"

definition makeSyntheticPowertrainFrame :: "u32 \<Rightarrow> SyntheticPowertrainState \<Rightarrow> CanFrame" where
  "makeSyntheticPowertrainFrame timestampMs s =
     (let frame = synthetic_frame PowertrainFrameIdentifier timestampMs;
          (rpmLow, rpmHigh) = encodeLittleEndian16 (sp_engineRpm s);
          (batteryLow, batteryHigh) = encodeLittleEndian16 (sp_batteryMillivolts s)
      in frame\<lparr>cf_data := (cf_data frame)[0 := rpmLow, 1 := rpmHigh, 2 := batteryLow,
           3 := batteryHigh, 4 := Transmission_byte (sp_transmission s),
           5 := Gear_byte (sp_gear s), 6 := (if sp_criticalFaultPresent s then 1 else 0),
           7 := SyntheticSignature]\<rparr>)"

definition makeSyntheticBodyFrame :: "u32 \<Rightarrow> SyntheticBodyState \<Rightarrow> CanFrame" where
  "makeSyntheticBodyFrame timestampMs s =
     (let frame = synthetic_frame BodyFrameIdentifier timestampMs
      in frame\<lparr>cf_data := (cf_data frame)[
           0 := (if sb_hoodClosed s then push_bit 0 1 else 0) OR
                (if sb_doorsClosed s then push_bit 1 1 else 0) OR
                (if sb_trunkClosed s then push_bit 2 1 else 0) OR
                (if sb_brakePressed s then push_bit 3 1 else 0) OR
                (if sb_parkingBrakeApplied s then push_bit 4 1 else 0),
           7 := SyntheticSignature]\<rparr>)"

definition makeSyntheticTelemetryFrame :: "u32 \<Rightarrow> SyntheticTelemetryState \<Rightarrow> CanFrame" where
  "makeSyntheticTelemetryFrame timestampMs s =
     (let frame = synthetic_frame TelemetryFrameIdentifier timestampMs in
      if \<not> validSyntheticTemperature (st_coolantTemperatureC s) \<or>
         \<not> validSyntheticTemperature (st_engineOilTemperatureC s) \<or>
         \<not> validSyntheticTemperature (st_transmissionOilTemperatureC s)
      then CanFrame_default
      else frame\<lparr>cf_data := (cf_data frame)[
           0 := encodeSyntheticTemperature (st_coolantTemperatureC s),
           1 := encodeSyntheticTemperature (st_engineOilTemperatureC s),
           2 := encodeSyntheticTemperature (st_transmissionOilTemperatureC s),
           3 := (if st_dpfRegenerationActive s then 1 else 0),
           7 := SyntheticSignature]\<rparr>)"

section \<open>Values survive the wire\<close>

lemma little_endian_round_trip:
  "case encodeLittleEndian16 v of (low, high) \<Rightarrow> decodeLittleEndian16 low high = v"
  using u16_from_bytes [of v] by (simp add: encodeLittleEndian16_def decodeLittleEndian16_def)

lemma wide_sint: "sint (ucast (b :: 'w word) :: i32) = uint b" if "LENGTH('w :: len) < 32"
proof -
  have "uint b < 2 ^ 31"
  proof -
    have "uint b < 2 ^ LENGTH('w)" by simp
    also have "\<dots> \<le> (2 ^ 31 :: int)" using that by (intro power_increasing) auto
    finally show ?thesis .
  qed
  then have "signed_take_bit 31 (uint b) = uint b"
    by (intro signed_take_bit_int_eq_self) (simp_all add: order_trans [of "-2147483648" 0])
  then show ?thesis using that by (simp add: signed_ucast_eq)
qed

lemma temperature_round_trip:
  assumes "validSyntheticTemperature t"
  shows "sint (decodeSyntheticTemperature (encodeSyntheticTemperature t)) = sint t"
    and "ucast (decodeSyntheticTemperature (encodeSyntheticTemperature t)) = t"
proof -
  have r: "-40 \<le> sint t" "sint t \<le> 215" using assms by (simp_all add: validSyntheticTemperature_def)
  have "uint (encodeSyntheticTemperature t) = take_bit 8 (sint t + 40)"
    unfolding encodeSyntheticTemperature_def unsigned_of_int by simp
  with r have "uint (encodeSyntheticTemperature t) = sint t + 40"
    by (simp add: take_bit_int_eq_self)
  then have "decodeSyntheticTemperature (encodeSyntheticTemperature t) =
      word_of_int (sint t + 40) - word_of_int 40"
    by (simp only: decodeSyntheticTemperature_def ucast_eq) simp
  then have "decodeSyntheticTemperature (encodeSyntheticTemperature t) = word_of_int (sint t)"
    by (simp only: wi_hom_sub add_diff_cancel_right')
  moreover have "sint (word_of_int (sint t) :: i32) = sint t"
    unfolding signed_of_int using r by (simp add: signed_take_bit_int_eq_self)
  ultimately show eq:
    "sint (decodeSyntheticTemperature (encodeSyntheticTemperature t)) = sint t" by simp
  show "ucast (decodeSyntheticTemperature (encodeSyntheticTemperature t)) = t"
    unfolding narrow eq by simp
qed

lemma enum_round_trip [simp]:
  "Transmission_of (ucast (Transmission_byte tr)) = tr" "Gear_of (ucast (Gear_byte g)) = g"
  by (cases tr; simp add: Transmission_of_def) (cases g; simp add: Gear_of_def)

lemma enum_range:
  "sint (ucast (Transmission_byte tr) :: i32) \<in> {0..2}" "sint (ucast (Gear_byte g) :: i32) \<in> {0..4}"
  by (cases tr; simp) (cases g; simp)

lemma milliseconds_back: "ucast (ucast (t :: u32) * 1000 div (1000 :: u64)) = t"
proof -
  have "unat (ucast t * 1000 div (1000 :: u64)) = unat t"
    by (simp add: unat_div elapsed_microseconds)
  moreover have "unat t < 2 ^ 32" using unsigned_less [of t] by (simp flip: of_nat_less_iff)
  ultimately show ?thesis by (simp add: word_unat_eq_iff unsigned_ucast_eq take_bit_nat_eq_self)
qed

lemma validateBatchI:
  assumes "db_count batch \<le> length (db_signals batch)"
    and "list_all validateSignal (take (db_count batch) (db_signals batch))"
    and "distinct (map ds_signal (take (db_count batch) (db_signals batch)))"
  shows "validateBatch batch"
proof -
  let ?ss = "take (db_count batch) (db_signals batch)"
  have "validateSignal (?ss ! i)" if "i < db_count batch" for i
    using assms(1,2) that by (simp add: list_all_length)
  moreover have "ds_signal (?ss ! j) \<noteq> ds_signal (?ss ! i)" if "i < db_count batch" "j < i" for i j
    using assms(1,3) that by (simp add: distinct_conv_nth)
  ultimately show ?thesis using assms(1) by (auto simp: validateBatch_def)
qed

section \<open>Decoding what was encoded\<close>

lemma bit_flags:
  fixes a b c d e :: bool
  defines "flags \<equiv> (if a then push_bit 0 1 else 0) OR (if b then push_bit 1 1 else 0) OR
     (if c then push_bit 2 1 else 0) OR (if d then push_bit 3 1 else 0) OR
     (if e then push_bit 4 1 else (0 :: u8))"
  shows "drop_bit 0 flags AND 1 = of_bool a" "drop_bit 1 flags AND 1 = of_bool b"
    "drop_bit 2 flags AND 1 = of_bool c" "drop_bit 3 flags AND 1 = of_bool d"
    "drop_bit 4 flags AND 1 = of_bool e" "flags AND 0xE0 = 0"
  unfolding flags_def by (cases a; cases b; cases c; cases d; cases e; simp)+

text \<open>Signals that fit are all added.\<close>

lemma add_all_fits:
  assumes "db_count b + length xs \<le> length (db_signals b)"
  shows "\<exists>b'. add_all xs b = (True, b') \<and> db_count b' = db_count b + length xs \<and>
    length (db_signals b') = length (db_signals b) \<and>
    take (db_count b') (db_signals b') = take (db_count b) (db_signals b) @
      map (\<lambda>(signal, v). \<lparr>ds_signal = signal, ds_value = v\<rparr>) xs"
  using assms
proof (induction xs arbitrary: b)
  case (Cons x xs)
  obtain signal v where x: "x = (signal, v)" by fastforce
  let ?b = "b\<lparr>db_signals := (db_signals b)[db_count b := \<lparr>ds_signal = signal, ds_value = v\<rparr>],
    db_count := db_count b + 1\<rparr>"
  from Cons.prems have "DecodedSignalBatch_add signal v b = (True, ?b)"
    by (simp add: DecodedSignalBatch_add_def)
  moreover from Cons.prems have "take (db_count ?b) (db_signals ?b) = take (db_count b) (db_signals b) @
      [\<lparr>ds_signal = signal, ds_value = v\<rparr>]"
    by (simp add: take_Suc_conv_app_nth)
  ultimately show ?case using Cons.IH [of ?b] Cons.prems x by auto
qed simp

lemma add_all_default:
  assumes "length xs \<le> 10"
  obtains b' where "add_all xs DecodedSignalBatch_default = (True, b')"
    and "db_count b' \<le> length (db_signals b')"
    and "take (db_count b') (db_signals b') =
      map (\<lambda>(signal, v). \<lparr>ds_signal = signal, ds_value = v\<rparr>) xs"
  using add_all_fits [of DecodedSignalBatch_default xs] assms
  by (auto simp: DecodedSignalBatch_default_def MaximumSignals_def)

text \<open>A frame whose signals are in range and each carried once is taken over.\<close>

lemma consume_signals:
  assumes "SyntheticCanDecoder_decode frame = decoded_if \<circ> add_all xs"
    and "CanFrame_isValid frame" and "length xs \<le> 10" and "xs \<noteq> []"
    and "list_all (\<lambda>(signal, v). validateSignal \<lparr>ds_signal = signal, ds_value = v\<rparr>) xs"
    and "distinct (map fst xs)"
  shows "\<exists>st. snd (VehicleStateAssembler_consume SyntheticCanDecoder_decode frame a) =
    (fold (\<lambda>(signal, v). applySignal (timestampMilliseconds frame)
      \<lparr>ds_signal = signal, ds_value = v\<rparr>) xs a)\<lparr>va_statistics := st\<rparr>"
proof -
  obtain b where b: "add_all xs DecodedSignalBatch_default = (True, b)"
    "db_count b \<le> length (db_signals b)"
    "take (db_count b) (db_signals b) = map (\<lambda>(signal, v). \<lparr>ds_signal = signal, ds_value = v\<rparr>) xs"
    using add_all_default [OF assms(3)] .
  have "map ds_signal (map (\<lambda>(signal, v). \<lparr>ds_signal = signal, ds_value = v\<rparr>) xs) = map fst xs"
    by (induction xs) auto
  moreover have "list_all validateSignal (map (\<lambda>(signal, v). \<lparr>ds_signal = signal, ds_value = v\<rparr>) xs)"
    using assms(5) by (auto simp: list_all_iff)
  ultimately have "validateBatch b" using validateBatchI [of b] b(2,3) assms(6) by (simp only:)
  moreover have "db_count b \<noteq> 0" using b(3) assms(4) by (cases "db_count b") auto
  moreover have "applyBatch t b a = fold (\<lambda>(signal, v). applySignal t
      \<lparr>ds_signal = signal, ds_value = v\<rparr>) xs a" for t
    using b(3) by (simp add: applyBatch_def fold_map comp_def case_prod_unfold)
  ultimately show ?thesis
    using assms(1,2) b(1)
    by (auto simp: VehicleStateAssembler_consume_def decoded_if_def Let_def)
qed

section \<open>What the assembler makes of the frames\<close>

lemma blank_data: "cf_data (synthetic_frame ident t) = [0, 0, 0, 0, 0, 0, 0, 0]"
proof -
  have "unat MaximumDataLength = 8" by (simp add: MaximumDataLength_def)
  then show ?thesis
    by (simp add: synthetic_frame_def CanFrame_default_def) (simp add: numeral_eq_Suc)
qed

lemma powertrain_data:
  assumes "encodeLittleEndian16 (sp_engineRpm s) = (r0, r1)"
    and "encodeLittleEndian16 (sp_batteryMillivolts s) = (b0, b1)"
  shows "cf_data (makeSyntheticPowertrainFrame t s) = [r0, r1, b0, b1,
    Transmission_byte (sp_transmission s), Gear_byte (sp_gear s),
    of_bool (sp_criticalFaultPresent s), 0xA5]"
  using assms
  by (simp add: makeSyntheticPowertrainFrame_def blank_data SyntheticSignature_def numeral_eq_Suc)

lemma telemetry_data:
  assumes "validSyntheticTemperature (st_coolantTemperatureC s)"
    and "validSyntheticTemperature (st_engineOilTemperatureC s)"
    and "validSyntheticTemperature (st_transmissionOilTemperatureC s)"
  shows "cf_data (makeSyntheticTelemetryFrame t s) =
    [encodeSyntheticTemperature (st_coolantTemperatureC s),
     encodeSyntheticTemperature (st_engineOilTemperatureC s),
     encodeSyntheticTemperature (st_transmissionOilTemperatureC s),
     of_bool (st_dpfRegenerationActive s), 0, 0, 0, 0xA5]"
  using assms
  by (simp add: makeSyntheticTelemetryFrame_def blank_data SyntheticSignature_def numeral_eq_Suc)

lemma body_data:
  "\<exists>flags. cf_data (makeSyntheticBodyFrame t s) = [flags, 0, 0, 0, 0, 0, 0, 0xA5] \<and>
     drop_bit 0 flags AND 1 = of_bool (sb_hoodClosed s) \<and>
     drop_bit 1 flags AND 1 = of_bool (sb_doorsClosed s) \<and>
     drop_bit 2 flags AND 1 = of_bool (sb_trunkClosed s) \<and>
     drop_bit 3 flags AND 1 = of_bool (sb_brakePressed s) \<and>
     drop_bit 4 flags AND 1 = of_bool (sb_parkingBrakeApplied s) \<and> flags AND 0xE0 = 0"
proof -
  let ?flags = "(if sb_hoodClosed s then push_bit 0 1 else 0) OR
    (if sb_doorsClosed s then push_bit 1 1 else 0) OR
    (if sb_trunkClosed s then push_bit 2 1 else 0) OR
    (if sb_brakePressed s then push_bit 3 1 else 0) OR
    (if sb_parkingBrakeApplied s then push_bit 4 1 else (0 :: u8))"
  have "cf_data (makeSyntheticBodyFrame t s) = [?flags, 0, 0, 0, 0, 0, 0, 0xA5]"
    by (simp only: makeSyntheticBodyFrame_def Let_def CanFrame.simps blank_data
        SyntheticSignature_def) (simp add: numeral_eq_Suc)
  with bit_flags [of "sb_hoodClosed s" "sb_doorsClosed s" "sb_trunkClosed s" "sb_brakePressed s"
      "sb_parkingBrakeApplied s"]
  show ?thesis by (intro exI [of _ ?flags]) simp
qed

text \<open>What the three frames have in common.\<close>

lemma frame_fields:
  assumes "frame = (synthetic_frame ident t)\<lparr>cf_data := d\<rparr>" and "ident \<le> MaximumExtendedIdentifier"
  shows "CanFrame_isValid frame" and "timestampMilliseconds frame = t"
    and "cf_identifier frame = ident" and "cf_extended frame" and "cf_dataLength frame = MaximumDataLength"
  using assms
  by (simp_all add: synthetic_frame_def CanFrame_default_def CanFrame_isValid_def
      timestampMilliseconds_def milliseconds_back)

lemma made_frames:
  "\<exists>d. makeSyntheticPowertrainFrame t p = (synthetic_frame PowertrainFrameIdentifier t)\<lparr>cf_data := d\<rparr>"
  "\<exists>d. makeSyntheticBodyFrame t b = (synthetic_frame BodyFrameIdentifier t)\<lparr>cf_data := d\<rparr>"
  "validSyntheticTemperature (st_coolantTemperatureC s) \<Longrightarrow>
   validSyntheticTemperature (st_engineOilTemperatureC s) \<Longrightarrow>
   validSyntheticTemperature (st_transmissionOilTemperatureC s) \<Longrightarrow>
   \<exists>d. makeSyntheticTelemetryFrame t s = (synthetic_frame TelemetryFrameIdentifier t)\<lparr>cf_data := d\<rparr>"
  by (auto simp: makeSyntheticPowertrainFrame_def makeSyntheticBodyFrame_def
      makeSyntheticTelemetryFrame_def Let_def split: prod.splits)

lemmas identifiers = PowertrainFrameIdentifier_def BodyFrameIdentifier_def
  TelemetryFrameIdentifier_def MaximumExtendedIdentifier_def SyntheticSignature_def

lemma consume_powertrain:
  assumes "sp_engineRpm p \<le> 10000" and "sp_batteryMillivolts p \<le> 20000"
  shows "\<exists>st. snd (VehicleStateAssembler_consume SyntheticCanDecoder_decode
      (makeSyntheticPowertrainFrame t p) a) =
    a\<lparr>va_engineRpm := stored_signal (sp_engineRpm p) t,
      va_batteryMillivolts := stored_signal (sp_batteryMillivolts p) t,
      va_transmission := stored_signal (sp_transmission p) t,
      va_gear := stored_signal (sp_gear p) t,
      va_criticalFaultPresent := stored_signal (sp_criticalFaultPresent p) t, va_statistics := st\<rparr>"
proof -
  let ?frame = "makeSyntheticPowertrainFrame t p"
  let ?xs = "[(VS_EngineRpm, ucast (sp_engineRpm p)), (VS_BatteryMillivolts, ucast (sp_batteryMillivolts p)),
    (VS_Transmission, ucast (Transmission_byte (sp_transmission p))),
    (VS_Gear, ucast (Gear_byte (sp_gear p))),
    (VS_CriticalFaultPresent, of_bool (sp_criticalFaultPresent p))] :: (VehicleSignal \<times> i32) list"
  obtain d where d: "?frame = (synthetic_frame PowertrainFrameIdentifier t)\<lparr>cf_data := d\<rparr>"
    using made_frames(1) by blast
  obtain r0 r1 where r: "encodeLittleEndian16 (sp_engineRpm p) = (r0, r1)" by fastforce
  obtain b0 b1 where b: "encodeLittleEndian16 (sp_batteryMillivolts p) = (b0, b1)" by fastforce
  note data = powertrain_data [OF r b, of t]
  have fields: "CanFrame_isValid ?frame" "timestampMilliseconds ?frame = t"
    "cf_identifier ?frame = PowertrainFrameIdentifier" "cf_extended ?frame"
    "cf_dataLength ?frame = MaximumDataLength"
    using frame_fields [OF d] by (simp_all add: identifiers)
  have "SyntheticCanDecoder_decode ?frame = decoded_if \<circ> add_all ?xs"
    using fields little_endian_round_trip [of "sp_engineRpm p"]
      little_endian_round_trip [of "sp_batteryMillivolts p"] r b
    by (auto simp: SyntheticCanDecoder_decode_def addPowertrainSignals_def data
        identifiers Let_def)
  moreover have "list_all (\<lambda>(signal, v). validateSignal \<lparr>ds_signal = signal, ds_value = v\<rparr>) ?xs"
    using assms enum_range(1) [of "sp_transmission p"] enum_range(2) [of "sp_gear p"]
    by (auto simp: validateSignal_def wide_sint word_le_def of_bool_def)
  ultimately obtain st where "snd (VehicleStateAssembler_consume SyntheticCanDecoder_decode ?frame a) =
      (fold (\<lambda>(signal, v). applySignal t \<lparr>ds_signal = signal, ds_value = v\<rparr>) ?xs a)
        \<lparr>va_statistics := st\<rparr>"
    using consume_signals [of ?frame ?xs a] fields by fastforce
  then show ?thesis
    by (intro exI [of _ st]) (simp add: applySignal_def Let_def unsigned_ucast_eq take_bit_word_eq_self)
qed

lemma consume_body:
  "\<exists>st. snd (VehicleStateAssembler_consume SyntheticCanDecoder_decode (makeSyntheticBodyFrame t b) a) =
    a\<lparr>va_hoodClosed := stored_signal (sb_hoodClosed b) t,
      va_doorsClosed := stored_signal (sb_doorsClosed b) t,
      va_trunkClosed := stored_signal (sb_trunkClosed b) t,
      va_brakePressed := stored_signal (sb_brakePressed b) t,
      va_parkingBrakeApplied := stored_signal (sb_parkingBrakeApplied b) t, va_statistics := st\<rparr>"
proof -
  let ?frame = "makeSyntheticBodyFrame t b"
  let ?xs = "[(VS_HoodClosed, of_bool (sb_hoodClosed b)), (VS_DoorsClosed, of_bool (sb_doorsClosed b)),
    (VS_TrunkClosed, of_bool (sb_trunkClosed b)), (VS_BrakePressed, of_bool (sb_brakePressed b)),
    (VS_ParkingBrakeApplied, of_bool (sb_parkingBrakeApplied b))] :: (VehicleSignal \<times> i32) list"
  obtain d where d: "?frame = (synthetic_frame BodyFrameIdentifier t)\<lparr>cf_data := d\<rparr>"
    using made_frames(2) by blast
  have fields: "CanFrame_isValid ?frame" "timestampMilliseconds ?frame = t"
    "cf_identifier ?frame = BodyFrameIdentifier" "cf_extended ?frame"
    "cf_dataLength ?frame = MaximumDataLength"
    using frame_fields [OF d] by (simp_all add: identifiers)
  obtain flags where data: "cf_data ?frame = [flags, 0, 0, 0, 0, 0, 0, 0xA5]"
    and bits: "drop_bit 0 flags AND 1 = of_bool (sb_hoodClosed b)"
      "drop_bit 1 flags AND 1 = of_bool (sb_doorsClosed b)"
      "drop_bit 2 flags AND 1 = of_bool (sb_trunkClosed b)"
      "drop_bit 3 flags AND 1 = of_bool (sb_brakePressed b)"
      "drop_bit 4 flags AND 1 = of_bool (sb_parkingBrakeApplied b)" "flags AND 0xE0 = 0"
    using body_data [of t b] by blast
  have "\<not> (\<exists>index \<in> {1..<7}. cf_data ?frame ! index \<noteq> 0)"
    unfolding data by (auto simp: nth_Cons' )
  moreover have "addBodySignals ?frame = add_all ?xs"
    unfolding addBodySignals_def data nth_Cons_0 Let_def bits by (simp add: of_bool_def)
  ultimately have "SyntheticCanDecoder_decode ?frame = decoded_if \<circ> add_all ?xs"
    using fields bits(6) unfolding SyntheticCanDecoder_decode_def Let_def
    by (auto simp: data identifiers)
  moreover have "list_all (\<lambda>(signal, v). validateSignal \<lparr>ds_signal = signal, ds_value = v\<rparr>) ?xs"
    by (simp add: validateSignal_def of_bool_def)
  ultimately obtain st where "snd (VehicleStateAssembler_consume SyntheticCanDecoder_decode ?frame a) =
      (fold (\<lambda>(signal, v). applySignal t \<lparr>ds_signal = signal, ds_value = v\<rparr>) ?xs a)
        \<lparr>va_statistics := st\<rparr>"
    using consume_signals [of ?frame ?xs a] fields by fastforce
  then show ?thesis
    by (intro exI [of _ st]) (simp add: applySignal_def Let_def of_bool_def)
qed

lemma consume_telemetry:
  assumes "validSyntheticTemperature (st_coolantTemperatureC s)"
    and "validSyntheticTemperature (st_engineOilTemperatureC s)"
    and "validSyntheticTemperature (st_transmissionOilTemperatureC s)"
  shows "\<exists>st. snd (VehicleStateAssembler_consume SyntheticCanDecoder_decode
      (makeSyntheticTelemetryFrame t s) a) =
    a\<lparr>va_coolantTemperatureC := stored_signal (st_coolantTemperatureC s) t,
      va_engineOilTemperatureC := stored_signal (st_engineOilTemperatureC s) t,
      va_transmissionOilTemperatureC := stored_signal (st_transmissionOilTemperatureC s) t,
      va_dpfRegenerationActive := stored_signal (st_dpfRegenerationActive s) t, va_statistics := st\<rparr>"
proof -
  let ?frame = "makeSyntheticTelemetryFrame t s"
  let ?wire = "\<lambda>c. decodeSyntheticTemperature (encodeSyntheticTemperature c)"
  let ?xs = "[(VS_CoolantTemperatureC, ?wire (st_coolantTemperatureC s)),
    (VS_EngineOilTemperatureC, ?wire (st_engineOilTemperatureC s)),
    (VS_TransmissionOilTemperatureC, ?wire (st_transmissionOilTemperatureC s)),
    (VS_DpfRegenerationActive, of_bool (st_dpfRegenerationActive s))]"
  obtain d where d: "?frame = (synthetic_frame TelemetryFrameIdentifier t)\<lparr>cf_data := d\<rparr>"
    using made_frames(3) assms by blast
  have fields: "CanFrame_isValid ?frame" "timestampMilliseconds ?frame = t"
    "cf_identifier ?frame = TelemetryFrameIdentifier" "cf_extended ?frame"
    "cf_dataLength ?frame = MaximumDataLength"
    using frame_fields [OF d] by (simp_all add: identifiers)
  note data = telemetry_data [OF assms, of t]
  have "\<not> (\<exists>index \<in> {4..<7}. cf_data ?frame ! index \<noteq> 0)"
    unfolding data by (auto simp: nth_Cons')
  then have "SyntheticCanDecoder_decode ?frame = decoded_if \<circ> add_all ?xs"
    using fields unfolding SyntheticCanDecoder_decode_def Let_def
    by (auto simp: data addTelemetrySignals_def identifiers)
  moreover have "list_all (\<lambda>(signal, v). validateSignal \<lparr>ds_signal = signal, ds_value = v\<rparr>) ?xs"
    using assms temperature_round_trip(1) by (auto simp: validateSignal_def validSyntheticTemperature_def)
  ultimately obtain st where "snd (VehicleStateAssembler_consume SyntheticCanDecoder_decode ?frame a) =
      (fold (\<lambda>(signal, v). applySignal t \<lparr>ds_signal = signal, ds_value = v\<rparr>) ?xs a)
        \<lparr>va_statistics := st\<rparr>"
    using consume_signals [of ?frame ?xs a] fields by fastforce
  then show ?thesis
    using assms temperature_round_trip(2)
    by (intro exI [of _ st]) (simp add: applySignal_def Let_def of_bool_def)
qed

section \<open>Properties\<close>

text \<open>A value of the assembler as a consumer sees it.\<close>

definition observed_at :: "'a \<Rightarrow> u32 \<Rightarrow> u32 \<Rightarrow> u32 \<Rightarrow> 'a Observed" where
  "observed_at v t nowMs maximum =
     \<lparr>obs_value = v, quality = (if nowMs - t \<le> maximum then SQ_Fresh else SQ_Stale)\<rparr>"

lemma observe_stored [simp]:
  "assembler_observe v0 (stored_signal v t) nowMs maximum = observed_at v t nowMs maximum"
  by (simp add: assembler_observe_def stored_signal_def observed_at_def)

lemma permutations3: "mset xs = {#a, b, c#} \<Longrightarrow>
  xs \<in> {[a, b, c], [a, c, b], [b, a, c], [b, c, a], [c, a, b], [c, b, a]}"
proof -
  assume m: "mset xs = {#a, b, c#}"
  then have "length xs = 3" using size_mset [of xs] by simp
  then obtain x y z where "xs = [x, y, z]" by (auto simp: numeral_3_eq_3 length_Suc_conv)
  with m show ?thesis by (auto simp: add_eq_conv_ex)
qed



end
