(* ===== verification/LockAdapter.thy ===== *)
theory LockAdapter
  imports LockGate CanCore
begin

text \<open>
  From CAN frames to lock commands (\<^verbatim>\<open>infrastructure/can_lock_command_adapter\<close>): the
  adapter that turns frames with a rolling counter and a command bit into evidence for the lock
  command gate, and the pipeline of adapter and gate.  The main result connects a remote-start
  request to the frames: separate presses, each released before, within the windows of the gesture.
\<close>

section \<open>Fields of a frame\<close>

record CanBitMatcher =
  bm_byteIndex :: u8
  bm_mask :: u8
  bm_expectedValue :: u8

definition CanBitMatcher_default :: CanBitMatcher where
  "CanBitMatcher_default = \<lparr>bm_byteIndex = 0, bm_mask = 0, bm_expectedValue = 0\<rparr>"

definition CanBitMatcher_valid :: "CanBitMatcher \<Rightarrow> u8 \<Rightarrow> bool" where
  "CanBitMatcher_valid m dataLength \<longleftrightarrow>
     bm_byteIndex m < dataLength \<and> bm_mask m \<noteq> 0 \<and> (bm_expectedValue m AND NOT (bm_mask m)) = 0"

definition CanBitMatcher_matches :: "CanBitMatcher \<Rightarrow> CanFrame \<Rightarrow> bool" where
  "CanBitMatcher_matches m frame \<longleftrightarrow>
     bm_byteIndex m < cf_dataLength frame \<and> bm_byteIndex m < MaximumDataLength \<and> bm_mask m \<noteq> 0 \<and>
     (cf_data frame ! unat (bm_byteIndex m) AND bm_mask m) = bm_expectedValue m"

record CanCounterField =
  cn_byteIndex :: u8
  cn_mask :: u8

definition CanCounterField_default :: CanCounterField where
  "CanCounterField_default = \<lparr>cn_byteIndex = 0, cn_mask = 0\<rparr>"

text \<open>The loop of \<open>bitCount\<close>: \<open>count\<close> bits seen, \<open>bits\<close> still to look at.\<close>

function count_bits :: "u8 \<Rightarrow> u8 \<Rightarrow> u8" where
  "count_bits count bits =
     (if bits = 0 then count else count_bits (count + (bits AND 1)) (drop_bit 1 bits))"
  by pat_completeness auto
termination
proof (relation "measure (\<lambda>(count, bits). unat bits)")
  fix count bits :: u8
  assume "bits \<noteq> 0"
  then have "0 < unat bits" by (simp add: unat_gt_0)
  then show "((count + (bits AND 1), drop_bit 1 bits), count, bits) \<in> measure (\<lambda>(count, bits). unat bits)"
    by (simp add: drop_bit_Suc unat_div)
qed simp

declare count_bits.simps [simp del]

definition CanCounterField_bitCount :: "CanCounterField \<Rightarrow> u8" where
  "CanCounterField_bitCount c = count_bits 0 (cn_mask c)"

definition CanCounterField_valid :: "CanCounterField \<Rightarrow> u8 \<Rightarrow> bool" where
  "CanCounterField_valid c dataLength \<longleftrightarrow>
     cn_byteIndex c < dataLength \<and> CanCounterField_bitCount c \<ge> 2"

text \<open>One turn of the loop of \<open>extract\<close>.\<close>

definition extract_bit :: "u8 \<Rightarrow> u8 \<Rightarrow> nat \<Rightarrow> u8 \<times> nat \<Rightarrow> u8 \<times> nat" where
  "extract_bit fieldMask v inputBit = (\<lambda>(packed, outputBit).
     let inputMask = push_bit inputBit 1 in
     if (fieldMask AND inputMask) = 0 then (packed, outputBit)
     else (if (v AND inputMask) \<noteq> 0 then packed OR push_bit outputBit 1 else packed, outputBit + 1))"

definition CanCounterField_extract :: "CanCounterField \<Rightarrow> CanFrame \<Rightarrow> u8" where
  "CanCounterField_extract c frame =
     (if cn_byteIndex c \<ge> cf_dataLength frame \<or> cn_byteIndex c \<ge> MaximumDataLength then 0
      else fst (fold (extract_bit (cn_mask c) (cf_data frame ! unat (cn_byteIndex c))) [0..<8] (0, 0)))"

section \<open>The adapter\<close>

record CanLockCommandAdapterConfig =
  cl_enabled :: bool
  cl_trust :: LockCommandTrust
  cl_identifier :: u32
  cl_extended :: bool
  cl_dataLength :: u8
  cl_lockCommand :: CanBitMatcher
  cl_vehicleSecured :: CanBitMatcher
  cl_rollingCounter :: CanCounterField

definition CanLockCommandAdapterConfig_default :: CanLockCommandAdapterConfig where
  "CanLockCommandAdapterConfig_default =
     \<lparr>cl_enabled = False, cl_trust = LT_Unverified, cl_identifier = 0, cl_extended = False,
      cl_dataLength = 0, cl_lockCommand = CanBitMatcher_default,
      cl_vehicleSecured = CanBitMatcher_default, cl_rollingCounter = CanCounterField_default\<rparr>"

datatype CanLockDecodeStatus =
    LD_Disabled | LD_Ignored | LD_Primed | LD_NoCommand | LD_EvidenceProduced
  | LD_RejectedInvalidConfiguration | LD_RejectedInvalidFrame | LD_RejectedDuplicateCounter
  | LD_RejectedOutOfOrderCounter | LD_RejectedTimestampRegression

record CanLockDecodeResult =
  dr_status :: CanLockDecodeStatus
  dr_evidence :: LockCommandEvidence

definition decode_only :: "CanLockDecodeStatus \<Rightarrow> CanLockDecodeResult" where
  "decode_only status = \<lparr>dr_status = status, dr_evidence = LockCommandEvidence_default\<rparr>"

definition hasEvidence :: "CanLockDecodeResult \<Rightarrow> bool" where
  "hasEvidence r \<longleftrightarrow> dr_status r = LD_EvidenceProduced"

definition requiresGestureReset :: "CanLockDecodeResult \<Rightarrow> bool" where
  "requiresGestureReset r \<longleftrightarrow>
     dr_status r = LD_RejectedInvalidConfiguration \<or> dr_status r = LD_RejectedInvalidFrame \<or>
     dr_status r = LD_RejectedDuplicateCounter \<or> dr_status r = LD_RejectedOutOfOrderCounter \<or>
     dr_status r = LD_RejectedTimestampRegression"

record CanLockCommandAdapter =
  cl_config :: CanLockCommandAdapterConfig
  cl_lastTimestampMs :: u32
  expandedSequence :: u32
  lastRawCounter :: u8
  lastCommandActive :: bool
  cl_initialized :: bool

definition mkCanLockCommandAdapter :: "CanLockCommandAdapterConfig \<Rightarrow> CanLockCommandAdapter" where
  "mkCanLockCommandAdapter config =
     \<lparr>cl_config = config, cl_lastTimestampMs = 0, expandedSequence = 0, lastRawCounter = 0,
      lastCommandActive = False, cl_initialized = False\<rparr>"

definition CanLockCommandAdapter_reset :: "CanLockCommandAdapter \<Rightarrow> CanLockCommandAdapter" where
  "CanLockCommandAdapter_reset a =
     a\<lparr>cl_lastTimestampMs := 0, expandedSequence := 0, lastRawCounter := 0,
       lastCommandActive := False, cl_initialized := False\<rparr>"

definition lockConfigIsValid :: "CanLockCommandAdapterConfig \<Rightarrow> bool" where
  "lockConfigIsValid c =
     (let maximumIdentifier =
            (if cl_extended c then MaximumExtendedIdentifier else MaximumStandardIdentifier);
          command = cl_lockCommand c; secured = cl_vehicleSecured c; counter = cl_rollingCounter c;
          commandCounterIndependent =
            (bm_byteIndex command \<noteq> cn_byteIndex counter \<or> (bm_mask command AND cn_mask counter) = 0);
          securedCounterIndependent =
            (bm_byteIndex secured \<noteq> cn_byteIndex counter \<or> (bm_mask secured AND cn_mask counter) = 0);
          commandSecuredIndependent =
            (bm_byteIndex command \<noteq> bm_byteIndex secured \<or> (bm_mask command AND bm_mask secured) = 0)
      in cl_identifier c \<le> maximumIdentifier \<and> cl_dataLength c \<noteq> 0 \<and>
         cl_dataLength c \<le> MaximumDataLength \<and>
         CanBitMatcher_valid command (cl_dataLength c) \<and>
         CanBitMatcher_valid secured (cl_dataLength c) \<and>
         CanCounterField_valid counter (cl_dataLength c) \<and>
         commandCounterIndependent \<and> securedCounterIndependent \<and> commandSecuredIndependent)"

definition CanLockCommandAdapter_reject ::
    "CanLockDecodeStatus \<Rightarrow> CanLockCommandAdapter \<Rightarrow> CanLockDecodeResult \<times> CanLockCommandAdapter" where
  "CanLockCommandAdapter_reject status a = (decode_only status, CanLockCommandAdapter_reset a)"

definition CanLockCommandAdapter_process ::
    "CanFrame \<Rightarrow> CanLockCommandAdapter \<Rightarrow> CanLockDecodeResult \<times> CanLockCommandAdapter" where
  "CanLockCommandAdapter_process frame a =
     (let c = cl_config a in
      if \<not> cl_enabled c then (decode_only LD_Disabled, a)
      else if \<not> lockConfigIsValid c
      then CanLockCommandAdapter_reject LD_RejectedInvalidConfiguration a
      else if \<not> CanFrame_isValid frame then CanLockCommandAdapter_reject LD_RejectedInvalidFrame a
      else if cf_identifier frame \<noteq> cl_identifier c \<or> cf_extended frame \<noteq> cl_extended c
      then (decode_only LD_Ignored, a)
      else if cf_dataLength frame \<noteq> cl_dataLength c
      then CanLockCommandAdapter_reject LD_RejectedInvalidFrame a
      else
       (let timestampMs = timestampMilliseconds frame in
        if cl_initialized a \<and> timestampMs \<noteq> cl_lastTimestampMs a \<and>
           \<not> strictlyNewer timestampMs (cl_lastTimestampMs a)
        then CanLockCommandAdapter_reject LD_RejectedTimestampRegression a
        else
         (let rawCounter = CanCounterField_extract (cl_rollingCounter c) frame;
              commandActive = CanBitMatcher_matches (cl_lockCommand c) frame
          in
          if \<not> cl_initialized a
          then (decode_only LD_Primed,
                a\<lparr>cl_lastTimestampMs := timestampMs, lastRawCounter := rawCounter,
                  lastCommandActive := commandActive, cl_initialized := True\<rparr>)
          else
           (let modulus = push_bit (unat (CanCounterField_bitCount (cl_rollingCounter c))) 1 :: u16;
                distance = (ucast rawCounter + modulus - ucast (lastRawCounter a)) mod modulus
            in
            if distance = 0 then CanLockCommandAdapter_reject LD_RejectedDuplicateCounter a
            else if distance \<ge> modulus div 2
            then CanLockCommandAdapter_reject LD_RejectedOutOfOrderCounter a
            else
             (let risingEdge = commandActive \<and> \<not> lastCommandActive a;
                  a = a\<lparr>cl_lastTimestampMs := timestampMs, lastRawCounter := rawCounter,
                        expandedSequence := expandedSequence a + ucast distance,
                        lastCommandActive := commandActive\<rparr>
              in
              if \<not> risingEdge then (decode_only LD_NoCommand, a)
              else
                (\<lparr>dr_status = LD_EvidenceProduced,
                   dr_evidence = \<lparr>le_source = LS_VehicleAdapter, le_trust = cl_trust c,
                     le_sourceSequence = expandedSequence a, le_observedAtMs = timestampMs,
                     le_vehicleSecured = CanBitMatcher_matches (cl_vehicleSecured c) frame\<rparr>\<rparr>,
                 a))))))"

section \<open>The pipeline\<close>

record CanLockPipelineResult =
  pr_decodeStatus :: CanLockDecodeStatus
  pr_command :: LockCommandStatus
  commandEvaluated :: bool

record CanLockCommandPipeline =
  pl_adapter :: CanLockCommandAdapter
  pl_gate :: LockCommandGate

definition mkCanLockCommandPipeline ::
    "CanLockCommandAdapterConfig \<Rightarrow> LockCommandGateConfig \<Rightarrow> CanLockCommandPipeline" where
  "mkCanLockCommandPipeline adapterConfig gateConfig =
     \<lparr>pl_adapter = mkCanLockCommandAdapter adapterConfig, pl_gate = mkLockCommandGate gateConfig\<rparr>"

text \<open>A default-initialised \<open>LockCommandDecision\<close> holds \<open>RejectedUntrustedSource\<close>.\<close>

definition CanLockCommandPipeline_process ::
    "CanFrame \<Rightarrow> u32 \<Rightarrow> CanLockCommandPipeline \<Rightarrow> CanLockPipelineResult \<times> CanLockCommandPipeline" where
  "CanLockCommandPipeline_process frame nowMs p =
     (let (decoded, adapter) = CanLockCommandAdapter_process frame (pl_adapter p);
          gate = (if requiresGestureReset decoded then LockCommandGate_reset (pl_gate p)
                  else pl_gate p);
          p = p\<lparr>pl_adapter := adapter, pl_gate := gate\<rparr>
      in
      if \<not> hasEvidence decoded
      then (\<lparr>pr_decodeStatus = dr_status decoded, pr_command = LC_RejectedUntrustedSource,
              commandEvaluated = False\<rparr>, p)
      else
       (let (command, gate) = LockCommandGate_process (dr_evidence decoded) nowMs gate
        in (\<lparr>pr_decodeStatus = dr_status decoded, pr_command = command, commandEvaluated = True\<rparr>,
            p\<lparr>pl_gate := gate\<rparr>)))"

definition CanLockCommandPipeline_reset :: "CanLockCommandPipeline \<Rightarrow> CanLockCommandPipeline" where
  "CanLockCommandPipeline_reset p =
     p\<lparr>pl_adapter := CanLockCommandAdapter_reset (pl_adapter p),
       pl_gate := LockCommandGate_reset (pl_gate p)\<rparr>"

definition CanLockCommandPipeline_pressCount :: "CanLockCommandPipeline \<Rightarrow> u8" where
  "CanLockCommandPipeline_pressCount p = lsd_pressCount (detector (pl_gate p))"

fun CanLockDecodeStatus_toString :: "CanLockDecodeStatus \<Rightarrow> string" where
  "CanLockDecodeStatus_toString LD_Disabled = ''disabled''"
| "CanLockDecodeStatus_toString LD_Ignored = ''ignored''"
| "CanLockDecodeStatus_toString LD_Primed = ''primed''"
| "CanLockDecodeStatus_toString LD_NoCommand = ''no_command''"
| "CanLockDecodeStatus_toString LD_EvidenceProduced = ''evidence_produced''"
| "CanLockDecodeStatus_toString LD_RejectedInvalidConfiguration = ''rejected_invalid_configuration''"
| "CanLockDecodeStatus_toString LD_RejectedInvalidFrame = ''rejected_invalid_frame''"
| "CanLockDecodeStatus_toString LD_RejectedDuplicateCounter = ''rejected_duplicate_counter''"
| "CanLockDecodeStatus_toString LD_RejectedOutOfOrderCounter = ''rejected_out_of_order_counter''"
| "CanLockDecodeStatus_toString LD_RejectedTimestampRegression = ''rejected_timestamp_regression''"

section \<open>The rolling counter\<close>

text \<open>
  The counter packs the bits under the mask, so it is below the modulus the adapter computes from
  the number of those bits.
\<close>

lemma count_bits_popcount:
  "count_bits count bits = count + of_nat (card {n. bit bits n})"
proof (induction count bits rule: count_bits.induct)
  case (1 count bits)
  show ?case
  proof (cases "bits = 0")
    case True
    then show ?thesis by (simp add: count_bits.simps)
  next
    case False
    have fin: "finite {n. bit (b :: u8) n}" for b
      by (rule finite_subset [of _ "{..<8}"]) (auto dest: bit_imp_le_length)
    have "{n. bit bits n} = (if bit bits 0 then {0} else {}) \<union> Suc ` {n. bit (drop_bit 1 bits) n}"
      by (auto simp: bit_drop_bit_eq image_iff) (metis not0_implies_Suc)+
    then have "card {n. bit bits n} = (if bit bits 0 then 1 else 0) + card {n. bit (drop_bit 1 bits) n}"
      using fin by (auto simp: card_image card_insert_if image_iff)
    moreover have "bits AND 1 = of_bool (bit bits 0)" by (simp add: and_one_eq bit_0 odd_iff_mod_2_eq_one)
    ultimately show ?thesis
      using 1 False by (simp add: count_bits.simps [of count bits])
  qed
qed

lemma card_bits: "card {n. bit (b :: u8) n} \<le> 8"
proof -
  have "{n. bit b n} \<subseteq> {..<8}" by (auto dest: bit_imp_le_length)
  from card_mono [OF _ this] show ?thesis by simp
qed

lemma bitCount_card: "unat (CanCounterField_bitCount c) = card {n. bit (cn_mask c) n}"
  using card_bits [of "cn_mask c"]
  by (simp add: CanCounterField_bitCount_def count_bits_popcount unat_of_nat)

lemma extract_loop:
  "fold (extract_bit m v) [0..<k] (0, 0) = (packed, out) \<Longrightarrow>
     out = card {n. n < k \<and> bit m n} \<and> (\<forall>n. bit packed n \<longrightarrow> n < out)"
proof (induction k arbitrary: packed out)
  case 0
  then show ?case by simp
next
  case (Suc k)
  obtain packed1 out1 where one: "fold (extract_bit m v) [0..<k] (0, 0) = (packed1, out1)" by fastforce
  have set: "{n. n < Suc k \<and> bit m n} = (if bit m k then insert k else id) {n. n < k \<and> bit m n}"
    by (auto simp: less_Suc_eq)
  have bitk: "(m AND push_bit k 1 = 0) = (\<not> bit m k)"
    by (simp add: and_exp_eq_0_iff_not_bit)
  have "extract_bit m v k (packed1, out1) = (packed, out)" using Suc.prems one by simp
  with Suc.IH [OF one] bitk set show ?case
    by (auto simp: extract_bit_def Let_def bit_simps less_Suc_eq split: if_splits)
qed

lemma extract_bound:
  "unat (CanCounterField_extract c frame) < 2 ^ unat (CanCounterField_bitCount c)"
proof -
  let ?v = "cf_data frame ! unat (cn_byteIndex c)"
  obtain packed out where loop: "fold (extract_bit (cn_mask c) ?v) [0..<8] (0, 0) = (packed, out)"
    by fastforce
  have "{n. n < 8 \<and> bit (cn_mask c) n} = {n. bit (cn_mask c) n}"
    by (auto dest: bit_imp_le_length)
  with extract_loop [OF loop] have out: "out = unat (CanCounterField_bitCount c)"
    by (simp add: bitCount_card)
  from extract_loop [OF loop] have bits: "\<forall>n. bit packed n \<longrightarrow> n < out" by (rule conjunct2)
  have "take_bit out packed = packed" using bits by (auto simp: bit_eq_iff bit_take_bit_iff)
  then have "unat packed = take_bit out (unat packed)" by (metis unsigned_take_bit_eq)
  then have "unat packed < 2 ^ out" by (metis take_bit_nat_less_exp)
  then show ?thesis using loop out by (simp add: CanCounterField_extract_def)
qed

text \<open>The 16-bit distance of the adapter is the distance of the counters.\<close>

lemma counter_distance:
  fixes raw last :: u8
  assumes "n \<le> 8" and "unat last < 2 ^ n" and "unat raw < 2 ^ n"
  defines "modulus \<equiv> push_bit n 1 :: u16"
  shows "int (unat ((ucast raw + modulus - ucast last) mod modulus)) =
    (int (unat raw) - int (unat last)) mod 2 ^ n"
proof -
  have pow: "(2 :: nat) ^ n \<le> 2 ^ 8" using assms(1) by (intro power_increasing) auto
  have m: "unat modulus = 2 ^ n"
    using pow assms(1) unfolding modulus_def unsigned_push_bit_eq
    by (simp add: push_bit_eq_mult take_bit_nat_eq_self)
  have bytes: "unat (ucast b :: u16) = unat b" for b :: u8
  proof -
    have "unat b < 2 ^ 8" using unsigned_less [of b] by (simp flip: of_nat_less_iff)
    then show ?thesis by (simp add: unsigned_ucast_eq take_bit_nat_eq_self)
  qed
  have "unat (ucast raw + modulus) = unat raw + 2 ^ n"
    using assms(3) pow by (simp add: unat_word_ariths m bytes)
  moreover have "(ucast last :: u16) \<le> ucast raw + modulus"
    using calculation assms(2) by (simp add: word_le_nat_alt bytes)
  ultimately have "unat (ucast raw + modulus - ucast last) = unat raw + 2 ^ n - unat last"
    by (simp add: unat_sub bytes)
  then have "unat ((ucast raw + modulus - ucast last) mod modulus) = (unat raw + 2 ^ n - unat last) mod 2 ^ n"
    by (simp add: unat_mod m)
  also have "int \<dots> = (int (unat raw) - int (unat last) + 2 ^ n) mod 2 ^ n"
    using assms(2) by (simp add: zmod_int of_nat_diff algebra_simps)
  finally show ?thesis by simp
qed

section \<open>What one frame does\<close>

text \<open>A frame of the configured message, with and without the command.\<close>

definition addressed :: "CanLockCommandAdapterConfig \<Rightarrow> CanFrame \<Rightarrow> bool" where
  "addressed c frame \<longleftrightarrow>
     cl_enabled c \<and> lockConfigIsValid c \<and> CanFrame_isValid frame \<and>
     cf_identifier frame = cl_identifier c \<and> cf_extended frame = cl_extended c \<and>
     cf_dataLength frame = cl_dataLength c"

definition released :: "CanLockCommandAdapterConfig \<Rightarrow> CanFrame \<Rightarrow> bool" where
  "released c frame \<longleftrightarrow> addressed c frame \<and> \<not> CanBitMatcher_matches (cl_lockCommand c) frame"

definition pressing :: "CanLockCommandAdapterConfig \<Rightarrow> CanFrame \<Rightarrow> bool" where
  "pressing c frame \<longleftrightarrow> addressed c frame \<and> CanBitMatcher_matches (cl_lockCommand c) frame"

lemma adapter_cases:
  assumes "CanLockCommandAdapter_process frame a = (r, a')"
  obtains (same) "\<not> requiresGestureReset r" "\<not> hasEvidence r" "a' = a"
  | (rejected) "requiresGestureReset r" "\<not> hasEvidence r" "a' = CanLockCommandAdapter_reset a"
  | (quiet) "\<not> requiresGestureReset r" "\<not> hasEvidence r" "addressed (cl_config a) frame"
      "cl_config a' = cl_config a" "cl_initialized a'"
      "lastCommandActive a' = CanBitMatcher_matches (cl_lockCommand (cl_config a)) frame"
  | (pressed) "\<not> requiresGestureReset r" "hasEvidence r" "pressing (cl_config a) frame"
      "cl_initialized a" "\<not> lastCommandActive a" "cl_config a' = cl_config a"
      "cl_initialized a'" "lastCommandActive a'"
      "dr_evidence r = \<lparr>le_source = LS_VehicleAdapter, le_trust = cl_trust (cl_config a),
         le_sourceSequence = expandedSequence a', le_observedAtMs = timestampMilliseconds frame,
         le_vehicleSecured = CanBitMatcher_matches (cl_vehicleSecured (cl_config a)) frame\<rparr>"
proof -
  note defs = CanLockCommandAdapter_process_def CanLockCommandAdapter_reject_def decode_only_def
    requiresGestureReset_def hasEvidence_def Let_def
  show ?thesis
  proof (cases "addressed (cl_config a) frame")
    case False
    then have "a' = a \<and> \<not> requiresGestureReset r \<and> \<not> hasEvidence r \<or>
        a' = CanLockCommandAdapter_reset a \<and> requiresGestureReset r \<and> \<not> hasEvidence r"
      using assms unfolding addressed_def by (auto simp: defs split: if_splits)
    then show ?thesis using same rejected by blast
  next
    case True
    note address = True [unfolded addressed_def]
    show ?thesis
    proof (cases "requiresGestureReset r")
      case True
      with assms address show ?thesis
        by (intro rejected) (auto simp: defs split: if_splits)
    next
      case False
      show ?thesis
      proof (cases "hasEvidence r")
        case True
        with assms address False \<open>addressed _ frame\<close> show ?thesis
          by (intro pressed) (auto simp: defs pressing_def split: if_splits)
      next
        case quietly: False
        with assms address False \<open>addressed _ frame\<close> show ?thesis
          by (intro quiet) (auto simp: defs split: if_splits)
      qed
    qed
  qed
qed

definition counter_in_field :: "CanLockCommandAdapter \<Rightarrow> bool" where
  "counter_in_field a \<longleftrightarrow>
     unat (lastRawCounter a) < 2 ^ unat (CanCounterField_bitCount (cl_rollingCounter (cl_config a)))"

lemma process_counter:
  assumes "CanLockCommandAdapter_process frame a = (r, a')" and "counter_in_field a"
  shows "counter_in_field a' \<and> cl_config a' = cl_config a"
  using assms extract_bound [of "cl_rollingCounter (cl_config a)" frame]
  by (auto simp: CanLockCommandAdapter_process_def CanLockCommandAdapter_reject_def
      CanLockCommandAdapter_reset_def counter_in_field_def Let_def split: if_splits)

lemma history_counter:
  "counter_in_field (fold (\<lambda>f a. snd (CanLockCommandAdapter_process f a)) frames
      (mkCanLockCommandAdapter c)) \<and>
   cl_config (fold (\<lambda>f a. snd (CanLockCommandAdapter_process f a)) frames
      (mkCanLockCommandAdapter c)) = c"
proof (induction frames rule: rev_induct)
  case Nil
  then show ?case by (simp add: counter_in_field_def mkCanLockCommandAdapter_def)
next
  case (snoc f frames)
  let ?a = "fold (\<lambda>f a. snd (CanLockCommandAdapter_process f a)) frames (mkCanLockCommandAdapter c)"
  obtain r a' where "CanLockCommandAdapter_process f ?a = (r, a')" by fastforce
  with process_counter [OF this] snoc.IH show ?case by simp
qed

text \<open>A frame that is not rejected advances the sequence by the 16-bit distance.\<close>

lemma process_distance:
  assumes "CanLockCommandAdapter_process frame a = (r, a')"
    and "dr_status r = LD_NoCommand \<or> dr_status r = LD_EvidenceProduced"
  defines "counter \<equiv> CanCounterField_extract (cl_rollingCounter (cl_config a)) frame"
    and "modulus \<equiv> push_bit (unat (CanCounterField_bitCount (cl_rollingCounter (cl_config a)))) 1 :: u16"
  defines "distance \<equiv> (ucast counter + modulus - ucast (lastRawCounter a)) mod modulus"
  shows "2 \<le> CanCounterField_bitCount (cl_rollingCounter (cl_config a))"
    and "distance \<noteq> 0" and "distance < modulus div 2" and "lastRawCounter a' = counter"
    and "expandedSequence a' = expandedSequence a + ucast distance"
proof -
  have "\<not> requiresGestureReset r" "dr_status r \<noteq> LD_Primed \<and> dr_status r \<noteq> LD_Ignored \<and> dr_status r \<noteq> LD_Disabled"
    using assms(2) by (auto simp: requiresGestureReset_def)
  note run = assms(1) [unfolded CanLockCommandAdapter_process_def CanLockCommandAdapter_reject_def
      decode_only_def Let_def, folded counter_def modulus_def, folded distance_def]
  show "2 \<le> CanCounterField_bitCount (cl_rollingCounter (cl_config a))"
    using run assms(2)
    by (auto simp: lockConfigIsValid_def CanCounterField_valid_def Let_def split: if_splits)
  show "distance \<noteq> 0" "distance < modulus div 2" "lastRawCounter a' = counter"
    "expandedSequence a' = expandedSequence a + ucast distance"
    using run assms(2) by (auto split: if_splits)
qed

section \<open>Runs of the pipeline\<close>

type_synonym reception = "CanFrame \<times> u32"

fun pipeline_run ::
    "reception list \<Rightarrow> CanLockCommandPipeline \<Rightarrow> CanLockPipelineResult list \<times> CanLockCommandPipeline" where
  "pipeline_run [] p = ([], p)"
| "pipeline_run ((frame, nowMs) # fs) p =
     (let (r, p) = CanLockCommandPipeline_process frame nowMs p; (rs, p) = pipeline_run fs p
      in (r # rs, p))"

lemma pipeline_run_snoc:
  "pipeline_run (fs @ [(frame, nowMs)]) p =
     (let (rs, p) = pipeline_run fs p; (r, p) = CanLockCommandPipeline_process frame nowMs p
      in (rs @ [r], p))"
  by (induction fs arbitrary: p) (auto simp: Let_def split: prod.splits)

definition frame_rejected :: "CanLockPipelineResult \<Rightarrow> bool" where
  "frame_rejected r \<longleftrightarrow> requiresGestureReset (decode_only (pr_decodeStatus r))"

text \<open>
  A press is the frame that showed the command released and a later one that shows it pressed, with
  the vehicle secured, presented in time.
\<close>

type_synonym press = "reception \<times> reception"

definition press_ok ::
    "CanLockCommandAdapterConfig \<Rightarrow> LockCommandGateConfig \<Rightarrow> press \<Rightarrow> bool" where
  "press_ok c g = (\<lambda>((before, _), (frame, nowMs)).
     released c before \<and> pressing c frame \<and> cl_trust c = LT_Verified \<and>
     CanBitMatcher_matches (cl_vehicleSecured c) frame \<and>
     \<not> isFuture (timestampMilliseconds frame) nowMs \<and>
     nowMs - timestampMilliseconds frame \<le> maximumEvidenceAgeMs g)"

definition pressed_at :: "press \<Rightarrow> u32" where
  "pressed_at x = timestampMilliseconds (fst (snd x))"

abbreviation receptions :: "press list \<Rightarrow> reception list" where
  "receptions ps \<equiv> concat (map (\<lambda>(before, now). [before, now]) ps)"

text \<open>
  The gesture in progress is made of presses among the frames since the last rejection, the first
  \<open>n\<close> frames being those up to it.
\<close>

definition gesture_since ::
    "CanLockCommandAdapterConfig \<Rightarrow> LockCommandGateConfig \<Rightarrow> reception list \<Rightarrow>
       CanLockPipelineResult list \<Rightarrow> CanLockCommandPipeline \<Rightarrow> nat \<Rightarrow> press list \<Rightarrow> bool" where
  "gesture_since c g fs rs p n ps \<longleftrightarrow>
     n \<le> length fs \<and> list_all (Not \<circ> frame_rejected) (drop n rs) \<and>
     subseq (receptions ps) (drop n fs) \<and>
     lsd.backed (gc_sequence g) pressed_at (press_ok c g) ps (detector (pl_gate p)) \<and>
     (cl_initialized (pl_adapter p) \<and> \<not> lastCommandActive (pl_adapter p) \<longrightarrow>
        (\<exists>before. released c (fst before) \<and> subseq (receptions ps @ [before]) (drop n fs)))"

definition pipeline_inv ::
    "CanLockCommandAdapterConfig \<Rightarrow> LockCommandGateConfig \<Rightarrow> reception list \<Rightarrow>
       CanLockPipelineResult list \<Rightarrow> CanLockCommandPipeline \<Rightarrow> bool" where
  "pipeline_inv c g fs rs p \<longleftrightarrow>
     cl_config (pl_adapter p) = c \<and> lg_config (pl_gate p) = g \<and> length rs = length fs \<and>
     (\<exists>n ps. gesture_since c g fs rs p n ps)"

lemma subseq_snoc: "subseq xs ys \<Longrightarrow> subseq xs (ys @ [y])"
  by (meson list_emb_append2 subseq_order.trans subseq_rev_drop_many)

lemma reset_fields [simp]:
  "cl_config (CanLockCommandAdapter_reset a) = cl_config a"
  "\<not> cl_initialized (CanLockCommandAdapter_reset a)"
  "lg_config (LockCommandGate_reset g) = lg_config g"
  "detector (LockCommandGate_reset g) = LockSequenceDetector_reset (detector g)"
  by (simp_all add: CanLockCommandAdapter_reset_def LockCommandGate_reset_def)

lemma rejected_status [simp]:
  "pr_decodeStatus r = dr_status d \<Longrightarrow> frame_rejected r = requiresGestureReset d"
  by (simp add: frame_rejected_def requiresGestureReset_def decode_only_def)

text \<open>A frame that presses nothing.\<close>

lemma gesture_since_extend:
  assumes "gesture_since c g fs rs p n ps" and "length rs = length fs" and "\<not> frame_rejected r"
    and "detector (pl_gate p') = detector (pl_gate p)"
    and "cl_initialized (pl_adapter p') \<and> \<not> lastCommandActive (pl_adapter p') \<longrightarrow>
      released c (fst x) \<or> cl_initialized (pl_adapter p) \<and> \<not> lastCommandActive (pl_adapter p)"
  shows "gesture_since c g (fs @ [x]) (rs @ [r]) p' n ps"
  unfolding gesture_since_def
proof (intro conjI impI)
  have n: "n \<le> length fs" "n \<le> length rs" using assms(1,2) by (auto simp: gesture_since_def)
  then show "n \<le> length (fs @ [x])" by simp
  show "list_all (Not \<circ> frame_rejected) (drop n (rs @ [r]))"
    using assms(1,3) n by (simp add: gesture_since_def)
  have sub: "subseq (receptions ps) (drop n fs)" using assms(1) by (simp add: gesture_since_def)
  then show "subseq (receptions ps) (drop n (fs @ [x]))" using n by (simp add: subseq_snoc)
  show "lsd.backed (gc_sequence g) pressed_at (press_ok c g) ps (detector (pl_gate p'))"
    using assms(1,4) by (simp add: gesture_since_def)
  assume "cl_initialized (pl_adapter p') \<and> \<not> lastCommandActive (pl_adapter p')"
  with assms(5) consider (now) "released c (fst x)"
    | (before) "cl_initialized (pl_adapter p) \<and> \<not> lastCommandActive (pl_adapter p)" by blast
  then show "\<exists>before. released c (fst before) \<and>
      subseq (receptions ps @ [before]) (drop n (fs @ [x]))"
  proof cases
    case now
    with sub n show ?thesis by (intro exI [of _ x]) (simp add: list_emb_append_mono)
  next
    case before
    with assms(1) n show ?thesis by (auto simp: gesture_since_def intro: subseq_snoc)
  qed
qed

lemma pipeline_step:
  assumes inv: "pipeline_inv c g fs rs p"
    and step: "CanLockCommandPipeline_process frame nowMs p = (r, p')"
  shows "pipeline_inv c g (fs @ [(frame, nowMs)]) (rs @ [r]) p' \<and>
    (pr_command r = LC_RemoteStartRequested \<longrightarrow>
       (\<exists>n ps before. n \<le> length fs \<and> list_all (Not \<circ> frame_rejected) (drop n (rs @ [r])) \<and>
          subseq (receptions (ps @ [(before, frame, nowMs)])) (drop n (fs @ [(frame, nowMs)])) \<and>
          list_all (press_ok c g) (ps @ [(before, frame, nowMs)]) \<and>
          gesture_complete (gc_sequence g) (map pressed_at (ps @ [(before, frame, nowMs)]))))"
proof -
  let ?x = "(frame, nowMs)"
  obtain d a' where d: "CanLockCommandAdapter_process frame (pl_adapter p) = (d, a')" by fastforce
  have cfg: "cl_config (pl_adapter p) = c" "lg_config (pl_gate p) = g" "length rs = length fs"
    using inv by (simp_all add: pipeline_inv_def)
  obtain n ps where since: "gesture_since c g fs rs p n ps" using inv by (auto simp: pipeline_inv_def)
  from d show ?thesis
  proof (cases rule: adapter_cases)
    case same
    then have p': "p' = p" "pr_command r \<noteq> LC_RemoteStartRequested" "pr_decodeStatus r = dr_status d"
      using step d by (auto simp: CanLockCommandPipeline_process_def)
    then have "gesture_since c g (fs @ [?x]) (rs @ [r]) p' n ps"
      using gesture_since_extend [OF since cfg(3), of r p' ?x] same by simp
    with p' cfg show ?thesis by (auto simp: pipeline_inv_def)
  next
    case rejected
    then have p': "pl_adapter p' = CanLockCommandAdapter_reset (pl_adapter p)"
      "pl_gate p' = LockCommandGate_reset (pl_gate p)" "pr_command r \<noteq> LC_RemoteStartRequested"
      using step d by (auto simp: CanLockCommandPipeline_process_def)
    have "gesture_since c g (fs @ [?x]) (rs @ [r]) p' (Suc (length fs)) []"
      using since p' cfg(3) by (auto simp: gesture_since_def intro: lsd.backed_reset)
    with p' cfg show ?thesis by (auto simp: pipeline_inv_def)
  next
    case quiet
    then have p': "pl_adapter p' = a'" "pl_gate p' = pl_gate p"
      "pr_command r \<noteq> LC_RemoteStartRequested" "pr_decodeStatus r = dr_status d"
      using step d by (auto simp: CanLockCommandPipeline_process_def)
    then have "gesture_since c g (fs @ [?x]) (rs @ [r]) p' n ps"
      using gesture_since_extend [OF since cfg(3), of r p' ?x] quiet cfg
      by (simp add: released_def)
    with p' cfg quiet show ?thesis by (auto simp: pipeline_inv_def)
  next
    case pressed
    obtain s gate where gate: "LockCommandGate_process (dr_evidence d) nowMs (pl_gate p) = (s, gate)"
      by fastforce
    have p': "pl_adapter p' = a'" "pl_gate p' = gate" "pr_command r = s"
      "pr_decodeStatus r = dr_status d"
      using step d pressed(1,2) gate by (auto simp: CanLockCommandPipeline_process_def)
    obtain before where before: "released c (fst before)" "subseq (receptions ps @ [before]) (drop n fs)"
      using since pressed(4,5) by (auto simp: gesture_since_def)
    let ?press = "(before, ?x)"
    have n: "n \<le> length fs" "n \<le> length rs" using since cfg(3) by (auto simp: gesture_since_def)
    have "press_ok c g ?press" if "evidence_ok g (dr_evidence d, nowMs)"
      using that pressed(3,9) before(1) cfg by (cases before) (auto simp: press_ok_def evidence_ok_def)
    moreover have "pressed_at ?press = le_observedAtMs (dr_evidence d)"
      using pressed(9) by (simp add: pressed_at_def)
    ultimately have backed: "lg_config gate = g"
      "lsd.backed (gc_sequence g) pressed_at (press_ok c g) (ps @ [?press]) (detector gate)"
      "s = LC_RemoteStartRequested \<longrightarrow> lsd.gesture_in (gc_sequence g) pressed_at (press_ok c g) ps ?press"
      using gate_step_backed [OF cfg(2) _ gate, of pressed_at "press_ok c g" ps ?press] since
      by (auto simp: gesture_since_def)
    have kept: "list_all (Not \<circ> frame_rejected) (drop n (rs @ [r]))"
      using since pressed(1) p'(4) n by (simp add: gesture_since_def)
    have sub: "subseq (receptions (qs @ [?press])) (drop n (fs @ [?x]))" if "subseq qs ps" for qs
    proof -
      have "subseq (receptions qs) (receptions ps)"
        using that by (induction rule: list_emb.induct) (auto intro: list_emb_append2)
      then have "subseq (receptions qs @ [before]) (drop n fs)"
        using before(2) by (meson list_emb_append_mono subseq_order.order_refl subseq_order.trans)
      then have "subseq ((receptions qs @ [before]) @ [?x]) (drop n fs @ [?x])"
        by (rule list_emb_append_mono) simp
      then show ?thesis using n by simp
    qed
    have "gesture_since c g (fs @ [?x]) (rs @ [r]) p' n (ps @ [?press])"
      unfolding gesture_since_def
      using n kept sub [of ps] backed(2) p'(1,2) pressed(8) by simp
    then have "pipeline_inv c g (fs @ [?x]) (rs @ [r]) p'"
      using p' cfg pressed(6) backed(1) by (auto simp: pipeline_inv_def)
    moreover have "\<exists>n ps before. n \<le> length fs \<and> list_all (Not \<circ> frame_rejected) (drop n (rs @ [r])) \<and>
          subseq (receptions (ps @ [(before, frame, nowMs)])) (drop n (fs @ [(frame, nowMs)])) \<and>
          list_all (press_ok c g) (ps @ [(before, frame, nowMs)]) \<and>
          gesture_complete (gc_sequence g) (map pressed_at (ps @ [(before, frame, nowMs)]))"
      if start: "pr_command r = LC_RemoteStartRequested"
    proof -
      obtain qs where "subseq qs ps" "list_all (press_ok c g) (qs @ [?press])"
        "gesture_complete (gc_sequence g) (map pressed_at (qs @ [?press]))"
        using backed(3) start p'(3) by (auto simp: lsd.gesture_in_def)
      with n kept sub show ?thesis by blast
    qed
    ultimately show ?thesis by blast
  qed
qed

lemma pipeline_start: "pipeline_inv c g [] [] (mkCanLockCommandPipeline c g)"
proof -
  have "lsd.backed (gc_sequence g) pressed_at (press_ok c g) [] (mkLockSequenceDetector (gc_sequence g))"
    by (simp add: lsd.backed_empty detector_trace_start)
  then have "gesture_since c g [] [] (mkCanLockCommandPipeline c g) 0 []"
    by (simp add: gesture_since_def mkCanLockCommandPipeline_def mkCanLockCommandAdapter_def
        mkLockCommandGate_def)
  then show ?thesis
    by (auto simp: pipeline_inv_def mkCanLockCommandPipeline_def mkCanLockCommandAdapter_def
        mkLockCommandGate_def)
qed

lemma pipeline_run_inv:
  "pipeline_run fs (mkCanLockCommandPipeline c g) = (rs, p) \<Longrightarrow> pipeline_inv c g fs rs p"
proof (induction fs arbitrary: rs p rule: rev_induct)
  case Nil
  then show ?case using pipeline_start [of c g] by simp
next
  case (snoc x fs)
  obtain frame nowMs where x: "x = (frame, nowMs)" by fastforce
  obtain rs1 p1 where run: "pipeline_run fs (mkCanLockCommandPipeline c g) = (rs1, p1)" by fastforce
  obtain r p2 where "CanLockCommandPipeline_process frame nowMs p1 = (r, p2)" by fastforce
  with pipeline_step [OF snoc.IH [OF run] this] run snoc.prems x show ?case
    by (simp add: pipeline_run_snoc)
qed

section \<open>Properties\<close>

text \<open>C8: A remote start is requested from the bus only by the gesture: when the pipeline, in any
  history of frames, answers a frame with a remote-start request, then the message is enabled,
  valid and verified, and among the frames since the last rejected one there are as many presses as
  the gesture needs, the last one this frame, in order and within the gesture's windows; each is a
  frame with the command, fresh and with the vehicle secured, preceded by one without the command,
  so that holding the button is one press.\<close>

theorem bus_remote_start_needs_presses:
  assumes "pipeline_run (fs @ [(frame, nowMs)]) (mkCanLockCommandPipeline c g) = (rs @ [r], p)"
    and "pr_command r = LC_RemoteStartRequested"
  shows "\<exists>n presses. n \<le> length fs \<and>
    subseq (receptions presses) (drop n (fs @ [(frame, nowMs)])) \<and>
    snd (last presses) = (frame, nowMs) \<and>
    list_all (press_ok c g) presses \<and>
    length presses = unat (requiredPresses (gc_sequence g)) \<and>
    gesture_complete (gc_sequence g) (map pressed_at presses) \<and>
    list_all (Not \<circ> frame_rejected) (drop n (rs @ [r]))"
proof -
  obtain rs1 p1 where run: "pipeline_run fs (mkCanLockCommandPipeline c g) = (rs1, p1)" by fastforce
  obtain r' p2 where step: "CanLockCommandPipeline_process frame nowMs p1 = (r', p2)" by fastforce
  have eq: "rs1 = rs" "r' = r" using assms(1) run step by (simp_all add: pipeline_run_snoc)
  from pipeline_step [OF pipeline_run_inv [OF run] step] assms(2) eq obtain n ps before where
    w: "n \<le> length fs" "list_all (Not \<circ> frame_rejected) (drop n (rs @ [r]))"
      "subseq (receptions (ps @ [(before, frame, nowMs)])) (drop n (fs @ [(frame, nowMs)]))"
      "list_all (press_ok c g) (ps @ [(before, frame, nowMs)])"
      "gesture_complete (gc_sequence g) (map pressed_at (ps @ [(before, frame, nowMs)]))"
    by auto
  then have "length (ps @ [(before, frame, nowMs)]) = unat (requiredPresses (gc_sequence g))"
    by (simp add: gesture_complete_def)
  with w show ?thesis
    by (intro exI [of _ n] exI [of _ "ps @ [(before, frame, nowMs)]"]) simp
qed

definition sample_message :: CanLockCommandAdapterConfig where
  "sample_message =
     \<lparr>cl_enabled = True, cl_trust = LT_Verified, cl_identifier = 0x130, cl_extended = False,
      cl_dataLength = 2,
      cl_lockCommand = \<lparr>bm_byteIndex = 1, bm_mask = 1, bm_expectedValue = 1\<rparr>,
      cl_vehicleSecured = \<lparr>bm_byteIndex = 1, bm_mask = 2, bm_expectedValue = 2\<rparr>,
      cl_rollingCounter = \<lparr>cn_byteIndex = 0, cn_mask = 0x0F\<rparr>\<rparr>"

definition sample_frame :: "u64 \<Rightarrow> u8 \<Rightarrow> u8 \<Rightarrow> CanFrame" where
  "sample_frame us counter flags = CanFrame_default\<lparr>cf_timestampUs := us, cf_identifier := 0x130,
     cf_dataLength := 2, cf_data := [counter, flags, 0, 0, 0, 0, 0, 0]\<rparr>"

definition sample_receptions :: "reception list" where
  "sample_receptions =
     [(sample_frame 0 1 2, 0), (sample_frame 200000 2 3, 200), (sample_frame 300000 3 2, 300),
      (sample_frame 600000 4 3, 600), (sample_frame 700000 5 2, 700)]"

lemma bus_remote_start_needs_presses_witness:
  "\<exists>presses. length presses = 3 \<and> subseq (receptions presses)
     (sample_receptions @ [(sample_frame 1000000 6 3, 1000)])"
proof -
  let ?run = "pipeline_run (sample_receptions @ [(sample_frame 1000000 6 3, 1000)])
    (mkCanLockCommandPipeline sample_message LockCommandGateConfig_default)"
  obtain rs p where run: "?run = (rs, p)" by fastforce
  have "length rs = 6"
    using pipeline_run_inv [OF run] by (simp add: pipeline_inv_def sample_receptions_def)
  then obtain rs' r where rs: "rs = rs' @ [r]" by (cases rs rule: rev_cases) auto
  have "pr_command (last (fst ?run)) = LC_RemoteStartRequested" by code_simp
  then have "pr_command r = LC_RemoteStartRequested" by (simp add: run rs)
  from bus_remote_start_needs_presses [OF run [unfolded rs] this] obtain n presses where
    "subseq (receptions presses) (drop n (sample_receptions @ [(sample_frame 1000000 6 3, 1000)]))"
    "length presses = unat (requiredPresses (gc_sequence LockCommandGateConfig_default))" by blast
  moreover have "subseq (drop n xs) xs" for xs :: "reception list"
    by (metis append_take_drop_id list_emb_append2 subseq_order.order_refl)
  ultimately have "subseq (receptions presses) (sample_receptions @ [(sample_frame 1000000 6 3, 1000)])"
    by (meson subseq_order.trans)
  with \<open>length presses = _\<close> show ?thesis
    by (auto simp: LockCommandGateConfig_default_def LockSequenceConfig_default_def)
qed



end
