(* ===== verification/HostText.thy ===== *)
theory HostText
  imports BmwPrelude
begin

text \<open>
  Text as the host tools read and write it: lines of a stream, trimming, decimal and hexadecimal
  numbers.  A string is a list of bytes; what the tools take from the C++ library (\<^verbatim>\<open>std::getline\<close>,
  \<^verbatim>\<open>std::isspace\<close> in the C locale, \<^verbatim>\<open>std::from_chars\<close>, the formatted output of unsigned numbers) is defined
  here.
\<close>

section \<open>Streams and lines\<close>

definition newline :: char where "newline = CHR 0x0A"
definition carriage_return :: char where "carriage_return = CHR 0x0D"

text \<open>
  An input stream: what it delivers, and whether it then fails with an error instead of reaching its
  end.
\<close>

record istream =
  is_text :: string
  is_bad :: bool

definition stream_of :: "string \<Rightarrow> istream" where
  "stream_of text = \<lparr>is_text = text, is_bad = False\<rparr>"

text \<open>The lines that repeated calls of \<^verbatim>\<open>getline\<close> deliver; a final line needs no newline.\<close>

fun lines_of :: "string \<Rightarrow> string list" where
  "lines_of [] = []"
| "lines_of (c # cs) =
     (if c = newline then [] # lines_of cs
      else (case lines_of cs of [] \<Rightarrow> [[c]] | l # ls \<Rightarrow> (c # l) # ls))"

lemma lines_of_line:
  "newline \<notin> set l \<Longrightarrow> lines_of (l @ newline # rest) = l # lines_of rest"
  by (induction l) auto

lemma lines_of_last: "newline \<notin> set l \<Longrightarrow> lines_of l = (if l = [] then [] else [l])"
  by (induction l) auto

lemma lines_no_newline: "l \<in> set (lines_of s) \<Longrightarrow> newline \<notin> set l"
  by (induction s arbitrary: l) (auto split: if_splits list.splits)

text \<open>A stream that fails does not deliver the line it fails in.\<close>

definition istream_lines :: "istream \<Rightarrow> string list" where
  "istream_lines input =
     lines_of (if is_bad input then rev (dropWhile (\<lambda>c. c \<noteq> newline) (rev (is_text input)))
               else is_text input)"

lemma istream_lines_of [simp]: "istream_lines (stream_of t) = lines_of t"
  by (simp add: istream_lines_def stream_of_def)

text \<open>White space of the C locale.\<close>

definition is_space :: "char \<Rightarrow> bool" where
  "is_space c \<longleftrightarrow> c = CHR '' '' \<or> c = CHR 0x09 \<or> c = CHR 0x0A \<or> c = CHR 0x0B \<or> c = CHR 0x0C \<or>
     c = CHR 0x0D"

definition trim :: "string \<Rightarrow> string" where
  "trim text = rev (dropWhile is_space (rev (dropWhile is_space text)))"

lemma trim_solid:
  assumes "list_all (Not \<circ> is_space) text"
  shows "trim text = text"
proof -
  have id: "dropWhile is_space xs = xs" if "list_all (Not \<circ> is_space) xs" for xs
    using that by (cases xs) simp_all
  from assms show ?thesis by (simp add: trim_def id)
qed

definition byte_order_mark :: string where
  "byte_order_mark = [CHR 0xEF, CHR 0xBB, CHR 0xBF]"

text \<open>The words that repeated extractions from a string stream deliver.\<close>

fun words_from :: "string \<Rightarrow> string \<Rightarrow> string list" where
  "words_from word [] = (if word = [] then [] else [rev word])"
| "words_from word (c # cs) =
     (if is_space c then (if word = [] then words_from [] cs else rev word # words_from [] cs)
      else words_from (c # word) cs)"

definition words :: "string \<Rightarrow> string list" where
  "words input = words_from [] input"

section \<open>Numbers\<close>

definition digit_char :: "nat \<Rightarrow> char" where
  "digit_char d = char_of (48 + d)"

fun nat_text :: "nat \<Rightarrow> string" where
  "nat_text n = (if n < 10 then [digit_char n] else nat_text (n div 10) @ [digit_char (n mod 10)])"

declare nat_text.simps [simp del]

definition int_text :: "int \<Rightarrow> string" where
  "int_text i = (if i < 0 then CHR ''-'' # nat_text (nat (- i)) else nat_text (nat i))"

definition bool_text :: "bool \<Rightarrow> string" where
  "bool_text b = (if b then ''true'' else ''false'')"

text \<open>The value of a digit of the given base, either case for letters.\<close>

definition digit_value :: "nat \<Rightarrow> char \<Rightarrow> nat option" where
  "digit_value base c =
     (let n = of_char c :: nat;
          v = (if 48 \<le> n \<and> n \<le> 57 then Some (n - 48)
               else if 97 \<le> n \<and> n \<le> 122 then Some (n - 97 + 10)
               else if 65 \<le> n \<and> n \<le> 90 then Some (n - 65 + 10)
               else None)
      in case v of None \<Rightarrow> None | Some d \<Rightarrow> if d < base then Some d else None)"

definition digits_value :: "nat \<Rightarrow> string \<Rightarrow> nat" where
  "digits_value base text = fold (\<lambda>c n. n * base + the (digit_value base c)) text 0"

text \<open>
  \<^verbatim>\<open>from_chars\<close> on an unsigned type with greatest value \<open>maximum\<close>: the longest prefix of digits, its
  value and the rest; no value when there is no digit or the value does not fit.
\<close>

definition from_chars :: "nat \<Rightarrow> nat \<Rightarrow> string \<Rightarrow> (nat \<times> string) option" where
  "from_chars base maximum text =
     (let isDigit = (\<lambda>c. digit_value base c \<noteq> None);
          prefix = takeWhile isDigit text; v = digits_value base prefix in
      if prefix = [] \<or> v > maximum then None else Some (v, dropWhile isDigit text))"

text \<open>A decimal number that is the whole text.\<close>

lemma digit_value_char: "d < 10 \<Longrightarrow> digit_value 10 (digit_char d) = Some d"
  by (simp add: digit_value_def digit_char_def Let_def)

lemma nat_text_digits: "list_all (\<lambda>c. \<exists>d < 10. c = digit_char d) (nat_text n)"
proof (induction n rule: nat_text.induct)
  case (1 n)
  then show ?case by (subst nat_text.simps) (auto intro: exI [of _ "n mod 10"])
qed

lemma nat_text_nonempty [simp]: "nat_text n \<noteq> []"
  by (subst nat_text.simps) simp

lemma nat_text_value: "digits_value 10 (nat_text n) = n"
proof (induction n rule: nat_text.induct)
  case (1 n)
  then show ?case
    by (subst nat_text.simps) (simp add: digits_value_def digit_value_char div_mult_mod_eq)
qed

lemma from_chars_nat_text:
  "from_chars 10 maximum (nat_text n) = (if n \<le> maximum then Some (n, []) else None)"
proof -
  have "list_all (\<lambda>c. digit_value 10 c \<noteq> None) (nat_text n)"
    using nat_text_digits [of n] by (auto simp: list_all_iff digit_value_char)
  then have "takeWhile (\<lambda>c. digit_value 10 c \<noteq> None) (nat_text n) = nat_text n"
    "dropWhile (\<lambda>c. digit_value 10 c \<noteq> None) (nat_text n) = []"
    by (simp_all add: list_all_iff)
  then show ?thesis
    by (simp add: from_chars_def nat_text_value Let_def not_less
        del: not_None_eq takeWhile_eq_all_conv dropWhile_eq_Nil_conv)
qed

text \<open>Words of a configuration line: no white space, no comment sign, no equals sign.\<close>

definition plain_char :: "char \<Rightarrow> bool" where
  "plain_char c \<longleftrightarrow> \<not> is_space c \<and> c \<noteq> CHR ''#'' \<and> c \<noteq> CHR ''=''"

lemma digit_plain: "d < 10 \<Longrightarrow> plain_char (digit_char d)"
proof -
  assume "d < 10"
  then consider "d = 0" | "d = 1" | "d = 2" | "d = 3" | "d = 4" | "d = 5" | "d = 6" | "d = 7" | "d = 8" | "d = 9"
    by (auto simp: numeral_eq_Suc less_Suc_eq)
  then show ?thesis by cases (simp_all add: plain_char_def is_space_def digit_char_def char_of_def)
qed

lemma nat_text_plain: "list_all plain_char (nat_text n)"
  using nat_text_digits [of n] by (auto simp: list_all_iff digit_plain)

end
