(* ===== verification/HostFiles.thy ===== *)
theory HostFiles
  imports HostText
begin

text \<open>
  The files of the host: a map from paths to contents, with the operations of the C++ library the tools
  use on them (\<^verbatim>\<open>std::ofstream\<close>, \<^verbatim>\<open>std::ifstream\<close>, \<^verbatim>\<open>std::filesystem\<close>), each of which may fail.
\<close>

section \<open>A file system whose operations may fail\<close>

text \<open>
  The outcome of an operation: it works; it fails with a message, a write or a read after so many
  bytes; or, for a write, it reports success and leaves other bytes than were asked for.  An exhausted
  schedule means that everything works.  \<open>fs_passed\<close> records the contents after every operation, the
  states in which a loss of power leaves the files.
\<close>

datatype outcome = Works | Fails string nat | Corrupts string

type_synonym files = "string \<rightharpoonup> string"

record file_system =
  fs_files :: files
  fs_schedule :: "outcome list"
  fs_passed :: "files list"

definition next_outcome :: "file_system \<Rightarrow> outcome \<times> file_system" where
  "next_outcome fs =
     (case fs_schedule fs of
        [] \<Rightarrow> (Works, fs) | x # xs \<Rightarrow> (x, fs\<lparr>fs_schedule := xs\<rparr>))"

definition fs_update :: "files \<Rightarrow> file_system \<Rightarrow> file_system" where
  "fs_update files fs = fs\<lparr>fs_files := files, fs_passed := fs_passed fs @ [files]\<rparr>"

definition fs_create :: "string \<Rightarrow> file_system \<Rightarrow> bool \<times> file_system" where
  "fs_create path fs =
     (case next_outcome fs of
        (Fails _ _, fs) \<Rightarrow> (False, fs)
      | (_, fs) \<Rightarrow> (True, fs_update ((fs_files fs)(path \<mapsto> [])) fs))"

definition fs_write :: "string \<Rightarrow> string \<Rightarrow> file_system \<Rightarrow> bool \<times> file_system" where
  "fs_write path contents fs =
     (case next_outcome fs of
        (Works, fs) \<Rightarrow> (True, fs_update ((fs_files fs)(path \<mapsto> contents)) fs)
      | (Fails _ n, fs) \<Rightarrow> (False, fs_update ((fs_files fs)(path \<mapsto> take n contents)) fs)
      | (Corrupts other, fs) \<Rightarrow> (True, fs_update ((fs_files fs)(path \<mapsto> other)) fs))"

definition fs_open :: "string \<Rightarrow> file_system \<Rightarrow> istream option \<times> file_system" where
  "fs_open path fs =
     (case next_outcome fs of
        (Fails _ _, fs) \<Rightarrow> (None, fs)
      | (_, fs) \<Rightarrow>
         (case fs_files fs path of
            None \<Rightarrow> (None, fs)
          | Some contents \<Rightarrow>
             (case next_outcome fs of
                (Fails _ n, fs) \<Rightarrow> (Some \<lparr>is_text = take n contents, is_bad = True\<rparr>, fs)
              | (_, fs) \<Rightarrow> (Some (stream_of contents), fs))))"

definition fs_exists :: "string \<Rightarrow> file_system \<Rightarrow> (string + bool) \<times> file_system" where
  "fs_exists path fs =
     (case next_outcome fs of
        (Fails message _, fs) \<Rightarrow> (Inl message, fs)
      | (_, fs) \<Rightarrow> (Inr (fs_files fs path \<noteq> None), fs))"

text \<open>A rename replaces the file that has the new name.\<close>

definition fs_rename :: "string \<Rightarrow> string \<Rightarrow> file_system \<Rightarrow> string option \<times> file_system" where
  "fs_rename old new fs =
     (case next_outcome fs of
        (Fails message _, fs) \<Rightarrow> (Some message, fs)
      | (_, fs) \<Rightarrow>
         (case fs_files fs old of
            None \<Rightarrow> (Some ''No such file or directory'', fs)
          | Some contents \<Rightarrow> (None, fs_update ((fs_files fs)(old := None, new \<mapsto> contents)) fs)))"

definition removeIfPresent :: "string \<Rightarrow> file_system \<Rightarrow> file_system" where
  "removeIfPresent path fs =
     (case next_outcome fs of
        (Fails _ _, fs) \<Rightarrow> fs
      | (_, fs) \<Rightarrow> fs_update ((fs_files fs)(path := None)) fs)"

section \<open>What an operation does to the files\<close>

text \<open>
  All the states that lie between two file systems satisfy \<open>P\<close>, the last one included.
\<close>

definition passes :: "(files \<Rightarrow> bool) \<Rightarrow> file_system \<Rightarrow> file_system \<Rightarrow> bool" where
  "passes P fs fs' \<longleftrightarrow>
     (\<exists>new. fs_passed fs' = fs_passed fs @ new \<and> list_all P new) \<and>
     (fs_files fs' = fs_files fs \<or> P (fs_files fs'))"

lemma passes_trans: "passes P fs fs' \<Longrightarrow> passes P fs' fs'' \<Longrightarrow> passes P fs fs''"
  by (fastforce simp: passes_def)

lemma passes_mono: "passes P fs fs' \<Longrightarrow> (\<And>F. P F \<Longrightarrow> Q F) \<Longrightarrow> passes Q fs fs'"
  by (auto simp: passes_def list_all_iff)

lemma next_outcome_files:
  "next_outcome fs = (x, fs') \<Longrightarrow> fs_files fs' = fs_files fs \<and> fs_passed fs' = fs_passed fs"
  by (auto simp: next_outcome_def split: list.splits)

text \<open>Operations on one path touch no other, and pass only through states that differ in that path.\<close>

definition only_path :: "string \<Rightarrow> files \<Rightarrow> files \<Rightarrow> bool" where
  "only_path p F F' \<longleftrightarrow> (\<forall>q. q \<noteq> p \<longrightarrow> F' q = F q)"

lemma removeIfPresent_passes: "passes (only_path p (fs_files fs)) fs (removeIfPresent p fs)"
  by (auto simp: removeIfPresent_def only_path_def passes_def fs_update_def split: prod.splits outcome.splits
      dest!: next_outcome_files)

lemma fs_create_passes:
  "fs_create p fs = (ok, fs') \<Longrightarrow> passes (only_path p (fs_files fs)) fs fs'"
  by (auto simp: fs_create_def only_path_def passes_def fs_update_def split: prod.splits outcome.splits
      dest!: next_outcome_files)

lemma fs_write_passes:
  "fs_write p c fs = (ok, fs') \<Longrightarrow> passes (only_path p (fs_files fs)) fs fs'"
  by (auto simp: fs_write_def only_path_def passes_def fs_update_def split: prod.splits outcome.splits
      dest!: next_outcome_files)

lemma fs_open_same:
  "fs_open p fs = (r, fs') \<Longrightarrow> fs_files fs' = fs_files fs \<and> fs_passed fs' = fs_passed fs"
  by (auto simp: fs_open_def split: prod.splits outcome.splits option.splits dest!: next_outcome_files)

lemma fs_exists_same:
  "fs_exists p fs = (r, fs') \<Longrightarrow> fs_files fs' = fs_files fs \<and> fs_passed fs' = fs_passed fs \<and>
     (\<forall>b. r = Inr b \<longrightarrow> b = (fs_files fs p \<noteq> None))"
  by (auto simp: fs_exists_def split: prod.splits outcome.splits dest!: next_outcome_files)

lemma fs_rename_cases:
  assumes "fs_rename old new fs = (r, fs')"
  shows "(r \<noteq> None \<and> fs_files fs' = fs_files fs \<and> fs_passed fs' = fs_passed fs) \<or>
    (r = None \<and> fs_files fs old \<noteq> None \<and>
     fs_files fs' = (fs_files fs)(old := None, new := fs_files fs old) \<and>
     fs_passed fs' = fs_passed fs @ [fs_files fs'])"
  using assms
  by (auto simp: fs_rename_def fs_update_def split: prod.splits outcome.splits option.splits
      dest!: next_outcome_files)

lemma only_trans: "only_path p F G \<Longrightarrow> only_path p G H \<Longrightarrow> only_path p F H"
  by (simp add: only_path_def)

lemma remove_temporary_passes:
  assumes "P (fs_files fs)" and "\<And>F G. P F \<Longrightarrow> only_path p F G \<Longrightarrow> P G"
  shows "passes P fs (removeIfPresent p fs) \<and> P (fs_files (removeIfPresent p fs))"
proof -
  from removeIfPresent_passes have "passes P fs (removeIfPresent p fs)"
    using assms by (blast intro: passes_mono)
  then show ?thesis using assms(1) by (auto simp: passes_def)
qed

lemma removeIfPresent_after:
  assumes "passes (only_path p F) fs fs'" and "F = fs_files fs"
  shows "passes (only_path p F) fs (removeIfPresent p fs')"
proof (rule passes_trans [OF assms(1)], rule passes_mono [OF removeIfPresent_passes])
  fix G
  assume "only_path p (fs_files fs') G"
  moreover have "only_path p F (fs_files fs')"
    using assms by (auto simp: passes_def only_path_def)
  ultimately show "only_path p F G" by (simp add: only_path_def)
qed

lemma no_failure [simp]:
  "fs_schedule fs = [] \<Longrightarrow> next_outcome fs = (Works, fs)"
  "fs_schedule (fs_update F fs) = fs_schedule fs" "fs_files (fs_update F fs) = F"
  by (simp_all add: next_outcome_def fs_update_def)

end
