(* ===== verification/UserSettingsFile.thy ===== *)
theory UserSettingsFile
  imports HostFiles UserSettings
begin

text \<open>
  The configuration file of the host tools (\<^verbatim>\<open>tools/user_settings_file.cpp\<close>): its parser and its
  writer, which are inverse to each other on valid settings, and the save that replaces a file by way
  of a verified temporary and a backup.  The main result on it is that no failure at any point loses the
  previous configuration.
\<close>

section \<open>Parsing one setting\<close>

definition FeatureKeyPrefix :: string where "FeatureKeyPrefix = ''feature.''"

definition file_parseUnsigned :: "string \<Rightarrow> u32 option" where
  "file_parseUnsigned input =
     (if input = [] then None
      else (case from_chars 10 (2 ^ 32 - 1) input of
              None \<Rightarrow> None
            | Some (parsed, rest) \<Rightarrow> if rest \<noteq> [] then None else Some (of_nat parsed)))"

definition parseScaledDuration :: "string \<Rightarrow> u32 \<Rightarrow> u32 option" where
  "parseScaledDuration input scale =
     (case file_parseUnsigned input of
        None \<Rightarrow> None
      | Some v \<Rightarrow> if v > (- 1) div scale then None else Some (v * scale))"

definition file_parseBoolean :: "string \<Rightarrow> bool option" where
  "file_parseBoolean input =
     (if input = ''true'' then Some True else if input = ''false'' then Some False else None)"

definition hasKey :: "string list \<Rightarrow> string \<Rightarrow> bool" where
  "hasKey keys key \<longleftrightarrow> key \<in> set keys"

definition lineError :: "nat \<Rightarrow> string \<Rightarrow> string" where
  "lineError lineNumber message = ''line '' @ nat_text lineNumber @ '': '' @ message"

text \<open>The key of a feature, when the key has the prefix and a name after it.\<close>

definition feature_code :: "string \<Rightarrow> string option" where
  "feature_code key =
     (if length key > length FeatureKeyPrefix \<and>
         take (length FeatureKeyPrefix) key = FeatureKeyPrefix
      then Some (drop (length FeatureKeyPrefix) key) else None)"

text \<open>The settings are changed only when the value is accepted.\<close>

definition applySetting :: "string \<Rightarrow> string \<Rightarrow> UserSettings \<Rightarrow> UserSettings option" where
  "applySetting key v settings =
     (if key = ''remote_start_enabled''
      then map_option (\<lambda>b. settings\<lparr>us_remoteStartEnabled := b\<rparr>) (file_parseBoolean v)
      else if key = ''hood_monitoring''
      then (if v = ''required'' then Some (settings\<lparr>us_hoodMonitoring := HM_Required\<rparr>)
            else if v = ''disabled'' \<or> v = ''optional''
            then Some (settings\<lparr>us_hoodMonitoring := HM_Disabled\<rparr>)
            else None)
      else if key = ''driver_entry_mode''
      then (if v = ''require_takeover'' \<or> v = ''require-takeover''
            then Some (settings\<lparr>us_driverEntryMode := DE_RequireTakeover\<rparr>)
            else if v = ''stop_immediately'' \<or> v = ''stop-immediately''
            then Some (settings\<lparr>us_driverEntryMode := DE_StopImmediately\<rparr>)
            else None)
      else if key = ''remote_run_minutes''
      then map_option (\<lambda>t. settings\<lparr>us_maximumRemoteRunTimeMs := t\<rparr>) (parseScaledDuration v 60000)
      else if key = ''takeover_timeout_seconds''
      then map_option (\<lambda>t. settings\<lparr>us_driverTakeoverTimeoutMs := t\<rparr>) (parseScaledDuration v 1000)
      else (case feature_code key of
        Some code \<Rightarrow>
          (case (findFeatureByCode (Some code), file_parseBoolean v) of
             (Some feature, Some enabled) \<Rightarrow>
               (case FeatureRequests_setEnabled (fd_id feature) enabled (us_features settings) of
                  (ok, requests) \<Rightarrow> if ok then Some (settings\<lparr>us_features := requests\<rparr>) else None)
           | _ \<Rightarrow> None)
      | None \<Rightarrow>
         (case file_parseUnsigned v of
            None \<Rightarrow> None
          | Some parsed \<Rightarrow>
              if key = ''lock_press_count''
              then (if parsed > 255 then None
                    else Some (settings\<lparr>us_lockPressCount := ucast parsed\<rparr>))
              else if key = ''lock_minimum_gap_ms''
              then Some (settings\<lparr>us_lockMinimumGapMs := parsed\<rparr>)
              else if key = ''lock_maximum_gap_ms''
              then Some (settings\<lparr>us_lockMaximumGapMs := parsed\<rparr>)
              else if key = ''lock_sequence_window_ms''
              then Some (settings\<lparr>us_lockMaximumSequenceMs := parsed\<rparr>)
              else if parsed > 65535 then None
              else if key = ''cold_engine_maximum_rpm''
              then Some (settings\<lparr>us_coldEngineMaximumRpm := ucast parsed\<rparr>)
              else if key = ''engine_warm_temperature_c''
              then Some (settings\<lparr>us_engineWarmTemperatureC := ucast parsed\<rparr>)
              else if key = ''transmission_overheat_temperature_c''
              then Some (settings\<lparr>us_transmissionOverheatTemperatureC := ucast parsed\<rparr>)
              else if key = ''temperature_alert_hysteresis_c''
              then Some (settings\<lparr>us_temperatureAlertHysteresisC := ucast parsed\<rparr>)
              else None)))"

definition knownKey :: "string \<Rightarrow> bool" where
  "knownKey key =
     (case feature_code key of
        Some code \<Rightarrow> findFeatureByCode (Some code) \<noteq> None
      | None \<Rightarrow> key \<in> {''remote_start_enabled'', ''hood_monitoring'', ''driver_entry_mode'',
          ''remote_run_minutes'', ''takeover_timeout_seconds'', ''lock_press_count'',
          ''lock_minimum_gap_ms'', ''lock_maximum_gap_ms'', ''lock_sequence_window_ms'',
          ''cold_engine_maximum_rpm'', ''engine_warm_temperature_c'',
          ''transmission_overheat_temperature_c'', ''temperature_alert_hysteresis_c''})"

definition sameSettings :: "UserSettings \<Rightarrow> UserSettings \<Rightarrow> bool" where
  "sameSettings left right \<longleftrightarrow>
     us_remoteStartEnabled left = us_remoteStartEnabled right \<and>
     us_hoodMonitoring left = us_hoodMonitoring right \<and>
     us_driverEntryMode left = us_driverEntryMode right \<and>
     us_maximumRemoteRunTimeMs left = us_maximumRemoteRunTimeMs right \<and>
     us_driverTakeoverTimeoutMs left = us_driverTakeoverTimeoutMs right \<and>
     us_lockPressCount left = us_lockPressCount right \<and>
     us_lockMinimumGapMs left = us_lockMinimumGapMs right \<and>
     us_lockMaximumGapMs left = us_lockMaximumGapMs right \<and>
     us_lockMaximumSequenceMs left = us_lockMaximumSequenceMs right \<and>
     fr_mask (us_features left) = fr_mask (us_features right) \<and>
     us_coldEngineMaximumRpm left = us_coldEngineMaximumRpm right \<and>
     us_engineWarmTemperatureC left = us_engineWarmTemperatureC right \<and>
     us_transmissionOverheatTemperatureC left = us_transmissionOverheatTemperatureC right \<and>
     us_temperatureAlertHysteresisC left = us_temperatureAlertHysteresisC right"

section \<open>Parsing a file\<close>

definition quoted :: "string \<Rightarrow> string" where
  "quoted key = [CHR 0x27] @ key @ [CHR 0x27]"

text \<open>One line: the error, or the keys seen and the settings after it.\<close>

definition parse_line ::
    "nat \<Rightarrow> string \<Rightarrow> string list \<times> UserSettings \<Rightarrow> string + (string list \<times> UserSettings)" where
  "parse_line lineNumber line = (\<lambda>(keys, parsed).
     let content = trim (takeWhile (\<lambda>c. c \<noteq> CHR ''#'') line) in
     if content = [] then Inr (keys, parsed)
     else
      (let left = takeWhile (\<lambda>c. c \<noteq> CHR ''='') content;
           right = drop (length left + 1) content
       in
       if CHR ''='' \<notin> set content \<or> CHR ''='' \<in> set right
       then Inl (lineError lineNumber ''expected key=value'')
       else
        (let key = trim left; v = trim right in
         if key = [] \<or> v = [] then Inl (lineError lineNumber ''key and value must not be empty'')
         else if \<not> knownKey key
         then Inl (lineError lineNumber (''unknown setting '' @ quoted key))
         else if hasKey keys key
         then Inl (lineError lineNumber (''duplicate setting '' @ quoted key))
         else (case applySetting key v parsed of
                 None \<Rightarrow> Inl (lineError lineNumber (''invalid value for '' @ quoted key))
               | Some parsed \<Rightarrow> Inr (keys @ [key], parsed)))))"

fun parse_lines ::
    "nat \<Rightarrow> string list \<Rightarrow> string list \<times> UserSettings \<Rightarrow> string + (string list \<times> UserSettings)" where
  "parse_lines lineNumber [] state = Inr state"
| "parse_lines lineNumber (line # lines) state =
     (case parse_line (lineNumber + 1) line state of
        Inl e \<Rightarrow> Inl e | Inr state \<Rightarrow> parse_lines (lineNumber + 1) lines state)"

definition rejected_bounds :: "UserSettingsValidation \<Rightarrow> string" where
  "rejected_bounds validation =
     ''configuration rejected by safety bounds, reasons_mask='' @ nat_text (unat (usv_reasons validation))"

definition parseUserSettings :: "istream \<Rightarrow> string + UserSettings" where
  "parseUserSettings input =
     (case parse_lines 0 (istream_lines input) ([], UserSettings_default) of
        Inl e \<Rightarrow> Inl e
      | Inr (_, parsed) \<Rightarrow>
          if is_bad input then Inl ''unable to read configuration''
          else
           (let validation = validateUserSettings parsed in
            if \<not> UserSettingsValidation_valid validation then Inl (rejected_bounds validation)
            else Inr parsed))"

section \<open>Writing a file\<close>

definition setting_line :: "string \<Rightarrow> string \<Rightarrow> string" where
  "setting_line key v = key @ ''='' @ v @ [newline]"

definition comment_line :: "string \<Rightarrow> string" where
  "comment_line c = ''# '' @ c @ [newline]"

definition settings_text :: "UserSettings \<Rightarrow> string" where
  "settings_text s =
     comment_line ''BMW E9x Remote Control - configuration utilisateur'' @
     comment_line ''Generee par le configurateur ; les valeurs invalides sont refusees.'' @
     [newline] @
     setting_line ''remote_start_enabled'' (bool_text (us_remoteStartEnabled s)) @
     setting_line ''hood_monitoring'' (HoodMonitoringMode_toString (us_hoodMonitoring s)) @
     setting_line ''remote_run_minutes'' (nat_text (unat (us_maximumRemoteRunTimeMs s div 60000))) @
     setting_line ''driver_entry_mode'' (DriverEntryMode_toString (us_driverEntryMode s)) @
     setting_line ''takeover_timeout_seconds''
       (nat_text (unat (us_driverTakeoverTimeoutMs s div 1000))) @
     setting_line ''lock_press_count'' (nat_text (unat (us_lockPressCount s))) @
     setting_line ''lock_minimum_gap_ms'' (nat_text (unat (us_lockMinimumGapMs s))) @
     setting_line ''lock_maximum_gap_ms'' (nat_text (unat (us_lockMaximumGapMs s))) @
     setting_line ''lock_sequence_window_ms'' (nat_text (unat (us_lockMaximumSequenceMs s))) @
     [newline] @
     comment_line ''Seuils de telemetrie en lecture seule.'' @
     setting_line ''cold_engine_maximum_rpm'' (nat_text (unat (us_coldEngineMaximumRpm s))) @
     setting_line ''engine_warm_temperature_c'' (nat_text (unat (us_engineWarmTemperatureC s))) @
     setting_line ''transmission_overheat_temperature_c''
       (nat_text (unat (us_transmissionOverheatTemperatureC s))) @
     setting_line ''temperature_alert_hysteresis_c''
       (nat_text (unat (us_temperatureAlertHysteresisC s))) @
     [newline] @
     comment_line ''Fonctionnalites modulaires ; toutes sont desactivees par defaut.'' @
     concat (map (\<lambda>feature. setting_line (FeatureKeyPrefix @ fd_code feature)
       (bool_text (FeatureRequests_enabled (us_features s) (fd_id feature)))) Catalog)"

text \<open>\<open>good\<close>: whether the output stream took everything that was written to it.\<close>

definition writeUserSettings :: "bool \<Rightarrow> UserSettings \<Rightarrow> string + string" where
  "writeUserSettings good s =
     (let validation = validateUserSettings s in
      if \<not> UserSettingsValidation_valid validation then Inl (rejected_bounds validation)
      else if us_maximumRemoteRunTimeMs s mod 60000 \<noteq> 0
      then Inl ''remote run time cannot be represented as whole minutes''
      else if us_driverTakeoverTimeoutMs s mod 1000 \<noteq> 0
      then Inl ''takeover timeout cannot be represented as whole seconds''
      else if \<not> good then Inl ''unable to write configuration''
      else Inr (settings_text s))"

section \<open>Reading back what was written\<close>

lemma plain_not_newline: "list_all plain_char v \<Longrightarrow> newline \<notin> set v"
  by (auto simp: list_all_iff plain_char_def is_space_def newline_def)

lemma plain_solid: "list_all plain_char v \<Longrightarrow> list_all (Not \<circ> is_space) v"
  by (auto simp: list_all_iff plain_char_def)

lemma plain_signs: "list_all plain_char v \<Longrightarrow> CHR ''#'' \<notin> set v \<and> CHR ''='' \<notin> set v"
  by (auto simp: list_all_iff plain_char_def)

lemma parse_plain_line:
  assumes "list_all plain_char key" and "list_all plain_char v" and "key \<noteq> []" and "v \<noteq> []"
    and "knownKey key" and "key \<notin> set keys" and "applySetting key v s = Some s'"
  shows "parse_line n (key @ ''='' @ v) (keys, s) = Inr (keys @ [key], s')"
proof -
  have eq: "\<not> is_space (CHR ''='')" by (simp add: is_space_def)
  let ?line = "key @ ''='' @ v"
  have "CHR ''#'' \<notin> set ?line" using plain_signs [OF assms(1)] plain_signs [OF assms(2)] by auto
  then have content: "takeWhile (\<lambda>c. c \<noteq> CHR ''#'') ?line = ?line"
    by (subst takeWhile_eq_all_conv) auto
  have trimmed: "trim ?line = ?line"
    using plain_solid [OF assms(1)] plain_solid [OF assms(2)] eq by (intro trim_solid) simp
  have left: "takeWhile (\<lambda>c. c \<noteq> CHR ''='') ?line = key"
    using plain_signs [OF assms(1)] by (subst takeWhile_append2) auto
  have right: "drop (length key + 1) ?line = v" by simp
  have "CHR ''='' \<notin> set v" "trim key = key" "trim v = v"
    using plain_signs [OF assms(2)] plain_solid [OF assms(1)] plain_solid [OF assms(2)]
    by (simp_all add: trim_solid)
  with assms(3-7) show ?thesis
    unfolding parse_line_def prod.case Let_def content trimmed left right by (simp add: hasKey_def)
qed

lemma parse_setting_line:
  assumes "list_all plain_char key" and "list_all plain_char v" and "key \<noteq> []" and "v \<noteq> []"
    and "knownKey key" and "key \<notin> set keys" and "applySetting key v s = Some s'"
  shows "parse_lines n (lines_of (setting_line key v @ rest)) (keys, s) =
    parse_lines (n + 1) (lines_of rest) (keys @ [key], s')"
proof -
  have "newline \<notin> set (key @ ''='' @ v)"
    using plain_not_newline [OF assms(1)] plain_not_newline [OF assms(2)] by (simp add: newline_def)
  from lines_of_line [OF this, of rest] parse_plain_line [OF assms, of "n + 1"]
  show ?thesis by (simp add: setting_line_def)
qed

lemma parse_comment_line:
  assumes "newline \<notin> set c"
  shows "parse_lines n (lines_of (comment_line c @ rest)) (keys, s) =
    parse_lines (n + 1) (lines_of rest) (keys, s)"
proof -
  have "newline \<notin> set (''# '' @ c)" using assms by (simp add: newline_def)
  from lines_of_line [OF this, of rest] show ?thesis
    by (simp add: comment_line_def parse_line_def trim_def Let_def)
qed

lemma parse_blank_line:
  "parse_lines n (lines_of (newline # rest)) (keys, s) = parse_lines (n + 1) (lines_of rest) (keys, s)"
  by (simp add: parse_line_def trim_def Let_def)

lemma file_parseUnsigned_text:
  "n < 2 ^ 32 \<Longrightarrow> file_parseUnsigned (nat_text n) = Some (of_nat n)"
  by (simp add: file_parseUnsigned_def from_chars_nat_text)

lemma word_text:
  "file_parseUnsigned (nat_text (unat w)) = Some (ucast w)" if "LENGTH('w) \<le> 32" for w :: "'w::len word"
proof -
  have "unat w < 2 ^ LENGTH('w)" using unsigned_less [of w] by (simp flip: of_nat_less_iff)
  also have "(2 :: nat) ^ LENGTH('w) \<le> 2 ^ 32" using that by (intro power_increasing) auto
  finally show ?thesis by (simp add: file_parseUnsigned_text)
qed

lemma parseScaledDuration_text:
  assumes "w mod scale = 0" and "0 < scale"
  shows "parseScaledDuration (nat_text (unat (w div scale))) scale = Some w"
proof -
  have "w div scale \<le> (- 1) div scale"
    using div_le_mono [OF word_le_nat_alt [THEN iffD1, OF word_order.extremum [of w]], of "unat scale"]
    by (simp add: word_le_nat_alt unat_div)
  moreover have "w div scale * scale = w" using assms(1) div_mult_mod_eq [of w scale] by simp
  ultimately show ?thesis by (simp add: parseScaledDuration_def word_text not_less)
qed

lemma bool_text_plain [simp]: "list_all plain_char (bool_text b)" "bool_text b \<noteq> []"
  by (simp_all add: bool_text_def plain_char_def is_space_def)

lemma bool_text_back [simp]: "file_parseBoolean (bool_text b) = Some b"
  by (simp add: bool_text_def file_parseBoolean_def)

lemma byte_small: "\<not> (ucast (w :: u8) :: u32) > 255"
proof -
  have "unat w < 2 ^ 8" by (rule order_less_le_trans [OF unsigned_less]) simp
  then show ?thesis by (simp add: word_less_nat_alt unsigned_ucast_eq take_bit_nat_eq_self)
qed

lemma half_small: "\<not> (ucast (h :: u16) :: u32) > 65535"
proof -
  have "unat h < 2 ^ 16" by (rule order_less_le_trans [OF unsigned_less]) simp
  then show ?thesis by (simp add: word_less_nat_alt unsigned_ucast_eq take_bit_nat_eq_self)
qed

text \<open>Every line of the written file is understood.\<close>

lemma applySetting_written [simp]:
  "applySetting ''remote_start_enabled'' (bool_text b) s = Some (s\<lparr>us_remoteStartEnabled := b\<rparr>)"
  "m \<in> {HM_Required, HM_Disabled} \<Longrightarrow>
     applySetting ''hood_monitoring'' (HoodMonitoringMode_toString m) s = Some (s\<lparr>us_hoodMonitoring := m\<rparr>)"
  "d \<in> {DE_RequireTakeover, DE_StopImmediately} \<Longrightarrow>
     applySetting ''driver_entry_mode'' (DriverEntryMode_toString d) s = Some (s\<lparr>us_driverEntryMode := d\<rparr>)"
  "t mod 60000 = 0 \<Longrightarrow> applySetting ''remote_run_minutes'' (nat_text (unat (t div 60000))) s =
     Some (s\<lparr>us_maximumRemoteRunTimeMs := t\<rparr>)"
  "t mod 1000 = 0 \<Longrightarrow> applySetting ''takeover_timeout_seconds'' (nat_text (unat (t div 1000))) s =
     Some (s\<lparr>us_driverTakeoverTimeoutMs := t\<rparr>)"
  using parseScaledDuration_text [of t 60000] parseScaledDuration_text [of t 1000]
  by (auto simp: applySetting_def)

lemma applySetting_numbers [simp]:
  "applySetting ''lock_press_count'' (nat_text (unat w)) s = Some (s\<lparr>us_lockPressCount := w\<rparr>)"
  "applySetting ''lock_minimum_gap_ms'' (nat_text (unat t)) s = Some (s\<lparr>us_lockMinimumGapMs := t\<rparr>)"
  "applySetting ''lock_maximum_gap_ms'' (nat_text (unat t)) s = Some (s\<lparr>us_lockMaximumGapMs := t\<rparr>)"
  "applySetting ''lock_sequence_window_ms'' (nat_text (unat t)) s =
     Some (s\<lparr>us_lockMaximumSequenceMs := t\<rparr>)"
  "applySetting ''cold_engine_maximum_rpm'' (nat_text (unat h)) s =
     Some (s\<lparr>us_coldEngineMaximumRpm := h\<rparr>)"
  "applySetting ''engine_warm_temperature_c'' (nat_text (unat h)) s =
     Some (s\<lparr>us_engineWarmTemperatureC := h\<rparr>)"
  "applySetting ''transmission_overheat_temperature_c'' (nat_text (unat h)) s =
     Some (s\<lparr>us_transmissionOverheatTemperatureC := h\<rparr>)"
  "applySetting ''temperature_alert_hysteresis_c'' (nat_text (unat h)) s =
     Some (s\<lparr>us_temperatureAlertHysteresisC := h\<rparr>)"
  using byte_small [of w] half_small [of h]
  by (simp_all add: applySetting_def feature_code_def FeatureKeyPrefix_def word_text
      unsigned_ucast_eq take_bit_word_eq_self)

text \<open>The lines of the features.\<close>

lemma Catalog_list: "Catalog = [Catalog ! 0, Catalog ! 1, Catalog ! 2]"
  by (simp add: Catalog_def)

lemma Catalog_ids [simp]:
  "fd_id (Catalog ! 0) = FI_ColdEngineGuard" "fd_id (Catalog ! 1) = FI_DpfRegenerationIndicator"
  "fd_id (Catalog ! Suc 0) = FI_DpfRegenerationIndicator"
  "fd_id (Catalog ! 2) = FI_TransmissionOverheatAlert"
  by (simp_all add: Catalog_def)

lemma Catalog_codes:
  "fd_code (Catalog ! 0) = ''cold_engine_guard''"
  "fd_code (Catalog ! 1) = ''dpf_regeneration_indicator''"
  "fd_code (Catalog ! Suc 0) = ''dpf_regeneration_indicator''"
  "fd_code (Catalog ! 2) = ''transmission_overheat_alert''"
  by (simp_all add: Catalog_def)

lemma findFeatureByCode_catalog:
  "findFeatureByCode (Some (fd_code (Catalog ! 0))) = Some (Catalog ! 0)"
  "findFeatureByCode (Some (fd_code (Catalog ! 1))) = Some (Catalog ! 1)"
  "findFeatureByCode (Some (fd_code (Catalog ! 2))) = Some (Catalog ! 2)"
  by code_simp+

lemma feature_code_prefix: "c \<noteq> [] \<Longrightarrow> feature_code (FeatureKeyPrefix @ c) = Some c"
  by (simp add: feature_code_def)

definition feature_key :: "nat \<Rightarrow> string" where
  "feature_key i = FeatureKeyPrefix @ fd_code (Catalog ! i)"

definition set_feature :: "FeatureId \<Rightarrow> bool \<Rightarrow> UserSettings \<Rightarrow> UserSettings" where
  "set_feature i b s = s\<lparr>us_features := snd (FeatureRequests_setEnabled i b (us_features s))\<rparr>"

lemma not_feature_key:
  "take 8 key \<noteq> ''feature.'' \<Longrightarrow> key \<noteq> FeatureKeyPrefix @ c"
  by (auto simp: FeatureKeyPrefix_def)

lemma applySetting_feature:
  assumes "feature \<in> {Catalog ! 0, Catalog ! 1, Catalog ! 2}"
  shows "applySetting (FeatureKeyPrefix @ fd_code feature) (bool_text b) s =
    Some (set_feature (fd_id feature) b s)"
proof -
  have found: "findFeatureByCode (Some (fd_code feature)) = Some feature" and "fd_code feature \<noteq> []"
    and set: "fst (FeatureRequests_setEnabled (fd_id feature) b (us_features s))"
    using assms findFeatureByCode_catalog
    by (auto simp: Catalog_codes FeatureRequests_setEnabled_def FeatureCount_def Let_def)
  note key = not_feature_key [of _ "fd_code feature", symmetric]
  show ?thesis
    using set
    by (auto simp: applySetting_def key feature_code_prefix [OF \<open>fd_code feature \<noteq> []\<close>] found
        set_feature_def split: prod.splits)
qed

section \<open>The written file as a list of entries\<close>

type_synonym entry = "string \<times> string \<times> (UserSettings \<Rightarrow> UserSettings)"

fun entry_readable :: "entry \<Rightarrow> bool" where
  "entry_readable (key, v, f) \<longleftrightarrow> list_all plain_char key \<and> list_all plain_char v \<and> key \<noteq> [] \<and> v \<noteq> [] \<and>
     knownKey key \<and> (\<forall>s. applySetting key v s = Some (f s))"

definition entries_text :: "entry list \<Rightarrow> string" where
  "entries_text es = concat (map (\<lambda>(key, v, f). setting_line key v) es)"

definition entries_effect :: "entry list \<Rightarrow> UserSettings \<Rightarrow> UserSettings" where
  "entries_effect es s = fold (\<lambda>(key, v, f). f) es s"

lemma entries_text_simps [simp]:
  "entries_text [] = []" "entries_text ((key, v, f) # es) = setting_line key v @ entries_text es"
  by (simp_all add: entries_text_def)

lemma entries_effect_simps [simp]:
  "entries_effect [] s = s" "entries_effect ((key, v, f) # es) s = entries_effect es (f s)"
  by (simp_all add: entries_effect_def)

lemma parse_entries:
  assumes "\<forall>e \<in> set es. entry_readable e" and "distinct (keys @ map fst es)"
  shows "parse_lines n (lines_of (entries_text es @ rest)) (keys, s) =
    parse_lines (n + length es) (lines_of rest) (keys @ map fst es, entries_effect es s)"
  using assms
proof (induction es arbitrary: n keys s)
  case (Cons e es)
  obtain key v f where e [simp]: "e = (key, v, f)" by (cases e)
  have "parse_lines n (lines_of (setting_line key v @ entries_text es @ rest)) (keys, s) =
      parse_lines (n + 1) (lines_of (entries_text es @ rest)) (keys @ [key], f s)"
    using Cons.prems by (intro parse_setting_line) auto
  also have "\<dots> = parse_lines (n + 1 + length es) (lines_of rest)
      ((keys @ [key]) @ map fst es, entries_effect es (f s))"
    using Cons.prems by (intro Cons.IH) auto
  finally show ?case by simp
qed simp

definition basic_entries :: "UserSettings \<Rightarrow> entry list" where
  "basic_entries s =
     [(''remote_start_enabled'', bool_text (us_remoteStartEnabled s),
        us_remoteStartEnabled_update (\<lambda>_. us_remoteStartEnabled s)),
      (''hood_monitoring'', HoodMonitoringMode_toString (us_hoodMonitoring s),
        us_hoodMonitoring_update (\<lambda>_. us_hoodMonitoring s)),
      (''remote_run_minutes'', nat_text (unat (us_maximumRemoteRunTimeMs s div 60000)),
        us_maximumRemoteRunTimeMs_update (\<lambda>_. us_maximumRemoteRunTimeMs s)),
      (''driver_entry_mode'', DriverEntryMode_toString (us_driverEntryMode s),
        us_driverEntryMode_update (\<lambda>_. us_driverEntryMode s)),
      (''takeover_timeout_seconds'', nat_text (unat (us_driverTakeoverTimeoutMs s div 1000)),
        us_driverTakeoverTimeoutMs_update (\<lambda>_. us_driverTakeoverTimeoutMs s)),
      (''lock_press_count'', nat_text (unat (us_lockPressCount s)),
        us_lockPressCount_update (\<lambda>_. us_lockPressCount s)),
      (''lock_minimum_gap_ms'', nat_text (unat (us_lockMinimumGapMs s)),
        us_lockMinimumGapMs_update (\<lambda>_. us_lockMinimumGapMs s)),
      (''lock_maximum_gap_ms'', nat_text (unat (us_lockMaximumGapMs s)),
        us_lockMaximumGapMs_update (\<lambda>_. us_lockMaximumGapMs s)),
      (''lock_sequence_window_ms'', nat_text (unat (us_lockMaximumSequenceMs s)),
        us_lockMaximumSequenceMs_update (\<lambda>_. us_lockMaximumSequenceMs s))]"

definition threshold_entries :: "UserSettings \<Rightarrow> entry list" where
  "threshold_entries s =
     [(''cold_engine_maximum_rpm'', nat_text (unat (us_coldEngineMaximumRpm s)),
        us_coldEngineMaximumRpm_update (\<lambda>_. us_coldEngineMaximumRpm s)),
      (''engine_warm_temperature_c'', nat_text (unat (us_engineWarmTemperatureC s)),
        us_engineWarmTemperatureC_update (\<lambda>_. us_engineWarmTemperatureC s)),
      (''transmission_overheat_temperature_c'',
        nat_text (unat (us_transmissionOverheatTemperatureC s)),
        us_transmissionOverheatTemperatureC_update (\<lambda>_. us_transmissionOverheatTemperatureC s)),
      (''temperature_alert_hysteresis_c'', nat_text (unat (us_temperatureAlertHysteresisC s)),
        us_temperatureAlertHysteresisC_update (\<lambda>_. us_temperatureAlertHysteresisC s))]"

definition feature_entry :: "UserSettings \<Rightarrow> FeatureDescriptor \<Rightarrow> entry" where
  "feature_entry s feature =
     (FeatureKeyPrefix @ fd_code feature,
      bool_text (FeatureRequests_enabled (us_features s) (fd_id feature)),
      set_feature (fd_id feature) (FeatureRequests_enabled (us_features s) (fd_id feature)))"

lemma settings_text_entries:
  "settings_text s =
     comment_line ''BMW E9x Remote Control - configuration utilisateur'' @
     comment_line ''Generee par le configurateur ; les valeurs invalides sont refusees.'' @
     newline # entries_text (basic_entries s) @
     newline # comment_line ''Seuils de telemetrie en lecture seule.'' @
     entries_text (threshold_entries s) @
     newline # comment_line ''Fonctionnalites modulaires ; toutes sont desactivees par defaut.'' @
     entries_text (map (feature_entry s) Catalog) @ []"
proof -
  have features: "entries_text (map (feature_entry s) fs) =
      concat (map (\<lambda>feature. setting_line (FeatureKeyPrefix @ fd_code feature)
        (bool_text (FeatureRequests_enabled (us_features s) (fd_id feature)))) fs)" for fs
    by (induction fs) (simp_all add: feature_entry_def)
  show ?thesis
    by (simp only: settings_text_def features basic_entries_def threshold_entries_def
        entries_text_simps append.simps append_assoc append_Nil2)
qed

text \<open>The settings that the file can hold.\<close>

definition representable :: "UserSettings \<Rightarrow> bool" where
  "representable s \<longleftrightarrow> settings_in_range s \<and> us_maximumRemoteRunTimeMs s mod 60000 = 0 \<and>
     us_driverTakeoverTimeoutMs s mod 1000 = 0"

lemma mode_texts_plain:
  "m \<in> {HM_Required, HM_Disabled} \<Longrightarrow>
     list_all plain_char (HoodMonitoringMode_toString m) \<and> HoodMonitoringMode_toString m \<noteq> []"
  "d \<in> {DE_RequireTakeover, DE_StopImmediately} \<Longrightarrow>
     list_all plain_char (DriverEntryMode_toString d) \<and> DriverEntryMode_toString d \<noteq> []"
  by (auto simp: plain_char_def is_space_def)

lemma basic_keys:
  "list_all plain_char k \<and> k \<noteq> [] \<and> knownKey k"
  if "k \<in> {''remote_start_enabled'', ''hood_monitoring'', ''driver_entry_mode'',
    ''remote_run_minutes'', ''takeover_timeout_seconds'', ''lock_press_count'',
    ''lock_minimum_gap_ms'', ''lock_maximum_gap_ms'', ''lock_sequence_window_ms'',
    ''cold_engine_maximum_rpm'', ''engine_warm_temperature_c'',
    ''transmission_overheat_temperature_c'', ''temperature_alert_hysteresis_c''}"
proof -
  have "feature_code k = None" "k \<noteq> []" "list_all plain_char k"
    using that by (auto simp: feature_code_def FeatureKeyPrefix_def plain_char_def is_space_def)
  with that show ?thesis by (simp add: knownKey_def)
qed

lemma basic_entries_readable:
  assumes "representable s"
  shows "\<forall>e \<in> set (basic_entries s @ threshold_entries s). entry_readable e"
proof -
  have modes: "us_hoodMonitoring s \<in> {HM_Required, HM_Disabled}"
    "us_driverEntryMode s \<in> {DE_RequireTakeover, DE_StopImmediately}"
    and whole: "us_maximumRemoteRunTimeMs s mod 60000 = 0" "us_driverTakeoverTimeoutMs s mod 1000 = 0"
    using assms by (auto simp: representable_def settings_in_range_def)
  show ?thesis
    using modes whole
    by (simp add: basic_entries_def threshold_entries_def basic_keys nat_text_plain
        mode_texts_plain plain_char_def is_space_def)
qed

lemma feature_entry_readable:
  assumes "feature \<in> set Catalog"
  shows "entry_readable (feature_entry s feature)"
proof -
  have feature: "feature \<in> {Catalog ! 0, Catalog ! 1, Catalog ! 2}"
    using assms Catalog_list by (metis list.set(1) list.simps(15))
  then have "fd_code feature \<noteq> []" "list_all plain_char (FeatureKeyPrefix @ fd_code feature)"
    "findFeatureByCode (Some (fd_code feature)) \<noteq> None"
    using findFeatureByCode_catalog
    by (auto simp: Catalog_codes FeatureKeyPrefix_def plain_char_def is_space_def)
  then show ?thesis
    using applySetting_feature [OF feature]
    by (simp add: feature_entry_def knownKey_def feature_code_prefix)
qed

lemma entries_distinct:
  "distinct (map fst (basic_entries s @ threshold_entries s @ map (feature_entry s) Catalog))"
  by (subst Catalog_list)
     (simp add: basic_entries_def threshold_entries_def feature_entry_def Catalog_codes
       FeatureKeyPrefix_def)

text \<open>The requests rebuilt one by one from the empty mask.\<close>

lemma setEnabled_bit:
  "n < 64 \<Longrightarrow> bit (fr_mask (snd (FeatureRequests_setEnabled i b r))) n \<longleftrightarrow>
     (if featureIndex i < FeatureCount \<and> n = featureIndex i then b else bit (fr_mask r) n)"
  by (auto simp: FeatureRequests_setEnabled_def Let_def bit_simps simp flip: push_bit_eq_mult)

lemma set_features:
  assumes "FeatureRequests_valid r"
  shows "entries_effect (map (feature_entry (s\<lparr>us_features := r\<rparr>)) Catalog)
      (t\<lparr>us_features := FeatureRequests_default\<rparr>) = t\<lparr>us_features := r\<rparr>"
proof -
  have bits: "bit (fr_mask r) n \<longrightarrow> n = 0 \<or> n = 1 \<or> n = 2" for n
    using assms by (auto simp: FeatureRequests_valid_bits FeatureCount_def)
  have "fr_mask (snd (FeatureRequests_setEnabled FI_TransmissionOverheatAlert
      (FeatureRequests_enabled r FI_TransmissionOverheatAlert)
      (snd (FeatureRequests_setEnabled FI_DpfRegenerationIndicator
        (FeatureRequests_enabled r FI_DpfRegenerationIndicator)
        (snd (FeatureRequests_setEnabled FI_ColdEngineGuard
          (FeatureRequests_enabled r FI_ColdEngineGuard) FeatureRequests_default)))))) = fr_mask r"
    (is "?m = _")
  proof (rule bit_word_eqI)
    fix n :: nat
    assume "n < LENGTH(64)"
    then show "bit ?m n = bit (fr_mask r) n"
      using bits [of n]
      by (auto simp: setEnabled_bit FeatureRequests_enabled_bit FeatureCount_def
          FeatureRequests_default_def)
  qed
  then show ?thesis
    by (subst Catalog_list) (simp add: feature_entry_def set_feature_def)
qed

lemma parse_settings_text:
  assumes "representable s"
  shows "\<exists>keys. parse_lines 0 (lines_of (settings_text s)) ([], UserSettings_default) = Inr (keys, s)"
proof -
  have basic: "\<forall>e \<in> set (basic_entries s). entry_readable e"
    and threshold: "\<forall>e \<in> set (threshold_entries s). entry_readable e"
    using basic_entries_readable [OF assms] by auto
  have features: "\<forall>e \<in> set (map (feature_entry s) Catalog). entry_readable e"
    using feature_entry_readable by simp
  note distinct = entries_distinct [of s, unfolded map_append]
  let ?after = "entries_effect (threshold_entries s) (entries_effect (basic_entries s) UserSettings_default)"
  have "FeatureRequests_valid (us_features s)"
    using assms by (simp add: representable_def settings_in_range_def)
  from set_features [OF this, of s ?after]
  have "entries_effect (map (feature_entry s) Catalog) ?after = s"
    by (simp add: basic_entries_def threshold_entries_def UserSettings_default_def)
  note effect = this
  have comments:
    "newline \<notin> set ''BMW E9x Remote Control - configuration utilisateur''"
    "newline \<notin> set ''Generee par le configurateur ; les valeurs invalides sont refusees.''"
    "newline \<notin> set ''Seuils de telemetrie en lecture seule.''"
    "newline \<notin> set ''Fonctionnalites modulaires ; toutes sont desactivees par defaut.''"
    by (simp_all add: newline_def)
  have keys: "distinct ([] @ map fst (basic_entries s))"
    "distinct (([] @ map fst (basic_entries s)) @ map fst (threshold_entries s))"
    "distinct ((([] @ map fst (basic_entries s)) @ map fst (threshold_entries s)) @
      map fst (map (feature_entry s) Catalog))"
    using distinct by auto
  have "parse_lines 0 (lines_of (settings_text s)) ([], UserSettings_default) =
      Inr ((([] @ map fst (basic_entries s)) @ map fst (threshold_entries s)) @
        map fst (map (feature_entry s) Catalog), s)"
    by (simp only: settings_text_entries parse_comment_line [OF comments(1)]
        parse_comment_line [OF comments(2)] parse_comment_line [OF comments(3)]
        parse_comment_line [OF comments(4)] parse_blank_line parse_entries [OF basic keys(1)]
        parse_entries [OF threshold keys(2)] parse_entries [OF features keys(3)] effect
        lines_of.simps(1) parse_lines.simps(1))
  then show ?thesis by blast
qed

lemma writeUserSettings_some:
  "writeUserSettings good s = Inr t \<longleftrightarrow> good \<and> representable s \<and> t = settings_text s"
  by (auto simp: writeUserSettings_def Let_def valid_settings_iff representable_def)

lemma round_trip:
  assumes "representable s"
  shows "parseUserSettings (stream_of (settings_text s)) = Inr s"
proof -
  from parse_settings_text [OF assms] obtain keys
    where "parse_lines 0 (lines_of (settings_text s)) ([], UserSettings_default) = Inr (keys, s)"
    by blast
  with assms show ?thesis
    by (simp add: parseUserSettings_def valid_settings_iff representable_def Let_def stream_of_def
        istream_lines_def)
qed

text \<open>Conversely, whatever the parser accepts can be written.\<close>

definition whole_durations :: "UserSettings \<Rightarrow> bool" where
  "whole_durations s \<longleftrightarrow> 60000 dvd unat (us_maximumRemoteRunTimeMs s) \<and>
     1000 dvd unat (us_driverTakeoverTimeoutMs s)"

lemma word_mod_zero: "w mod n = 0 \<longleftrightarrow> unat n dvd unat w" for w n :: "'a::len word"
proof -
  have "w mod n = 0 \<longleftrightarrow> unat (w mod n) = 0" by (simp only: unat_0_iff)
  also have "\<dots> \<longleftrightarrow> unat n dvd unat w" by (simp add: unat_mod mod_eq_0_iff_dvd)
  finally show ?thesis .
qed

lemma parseScaledDuration_multiple:
  assumes "parseScaledDuration v scale = Some t" and "0 < scale"
  shows "unat scale dvd unat t"
proof -
  obtain w where "w \<le> (- 1) div scale" and t: "t = w * scale"
    using assms(1) by (auto simp: parseScaledDuration_def not_less split: option.splits if_splits)
  then have "unat w \<le> (2 ^ 32 - 1) div unat scale"
    by (simp add: word_le_nat_alt unat_div unsigned_minus_1_eq_mask mask_eq_exp_minus_1)
  then have "unat w * unat scale \<le> 2 ^ 32 - 1"
    using div_times_less_eq_dividend [of "2 ^ 32 - 1" "unat scale"] mult_le_mono1 order_trans by blast
  then have "unat t = unat w * unat scale"
    unfolding t by (simp add: unat_word_ariths)
  then show ?thesis by simp
qed

lemma if_SomeE:
  "(if c then a else b) = Some x \<Longrightarrow> (a = Some x \<Longrightarrow> P) \<Longrightarrow> (b = Some x \<Longrightarrow> P) \<Longrightarrow> P"
  by (cases c) simp_all

lemma applySetting_whole:
  "applySetting key v s = Some s' \<Longrightarrow> whole_durations s \<Longrightarrow> whole_durations s'"
  unfolding applySetting_def
  by (elim if_SomeE)
     (auto simp: whole_durations_def split: option.splits prod.splits elim!: if_SomeE
       dest: parseScaledDuration_multiple)

lemma parse_lines_whole:
  "parse_lines n ls (keys, s) = Inr (keys', s') \<Longrightarrow> whole_durations s \<Longrightarrow> whole_durations s'"
proof (induction ls arbitrary: n keys s)
  case (Cons l ls)
  then obtain keys1 s1 where step: "parse_line (n + 1) l (keys, s) = Inr (keys1, s1)"
    and rest: "parse_lines (n + 1) ls (keys1, s1) = Inr (keys', s')"
    by (auto split: sum.splits)
  from step Cons.prems(2) have "whole_durations s1"
    by (auto simp: parse_line_def Let_def split: if_splits option.splits dest: applySetting_whole)
  with Cons.IH [OF rest] show ?case by blast
qed simp

lemma parsed_representable:
  assumes "parseUserSettings input = Inr s"
  shows "representable s"
proof -
  obtain keys where parsed: "parse_lines 0 (istream_lines input) ([], UserSettings_default) = Inr (keys, s)"
    and "settings_in_range s"
    using assms by (auto simp: parseUserSettings_def Let_def valid_settings_iff split: sum.splits if_splits)
  moreover have "whole_durations UserSettings_default"
    by (simp add: whole_durations_def UserSettings_default_def)
  ultimately show ?thesis
    using parse_lines_whole [OF parsed] by (simp add: representable_def whole_durations_def word_mod_zero)
qed

section \<open>Loading and saving\<close>

definition loadUserSettingsFile ::
    "string option \<Rightarrow> file_system \<Rightarrow> (string + UserSettings) \<times> file_system" where
  "loadUserSettingsFile path fs =
     (case path of
        None \<Rightarrow> (Inl ''configuration path is empty'', fs)
      | Some p \<Rightarrow>
          if p = [] then (Inl ''configuration path is empty'', fs)
          else (case fs_open p fs of
                  (None, fs) \<Rightarrow> (Inl ''unable to open configuration file'', fs)
                | (Some input, fs) \<Rightarrow> (parseUserSettings input, fs)))"

definition temporary_path :: "string \<Rightarrow> string" where "temporary_path p = p @ ''.tmp''"
definition backup_path :: "string \<Rightarrow> string" where "backup_path p = p @ ''.bak''"

text \<open>The three parts of a save; a result is the error, or none.\<close>

definition persist_temporary :: "string \<Rightarrow> string \<Rightarrow> file_system \<Rightarrow> string option \<times> file_system" where
  "persist_temporary temporary serialized fs =
     (case fs_create temporary fs of
        (False, fs) \<Rightarrow> (Some ''unable to create temporary configuration file'', fs)
      | (True, fs) \<Rightarrow>
         (case fs_write temporary serialized fs of
            (False, fs) \<Rightarrow>
              (Some ''unable to persist temporary configuration file'', removeIfPresent temporary fs)
          | (True, fs) \<Rightarrow> (None, fs)))"

definition verify_temporary ::
    "string \<Rightarrow> UserSettings \<Rightarrow> file_system \<Rightarrow> string option \<times> file_system" where
  "verify_temporary temporary settings fs =
     (case loadUserSettingsFile (Some temporary) fs of
        (Inl verificationError, fs) \<Rightarrow>
          (Some (''temporary configuration verification failed'' @
             (if verificationError \<noteq> [] then '': '' @ verificationError else [])),
           removeIfPresent temporary fs)
      | (Inr verified, fs) \<Rightarrow>
          if sameSettings settings verified then (None, fs)
          else (Some ''temporary configuration verification failed'', removeIfPresent temporary fs))"

definition install_temporary ::
    "string \<Rightarrow> string \<Rightarrow> string \<Rightarrow> bool \<Rightarrow> file_system \<Rightarrow> string option \<times> file_system" where
  "install_temporary target temporary backup hadExistingTarget fs =
     (case fs_rename temporary target fs of
        (Some message, fs) \<Rightarrow>
          (let fs = (if hadExistingTarget then snd (fs_rename backup target fs) else fs) in
           (Some (''unable to install new configuration: '' @ message), removeIfPresent temporary fs))
      | (None, fs) \<Rightarrow> (None, if hadExistingTarget then removeIfPresent backup fs else fs))"

definition replace_target :: "string \<Rightarrow> string \<Rightarrow> string \<Rightarrow> file_system \<Rightarrow> string option \<times> file_system" where
  "replace_target target temporary backup fs =
     (case fs_exists target fs of
        (Inl message, fs) \<Rightarrow>
          (Some (''unable to inspect destination: '' @ message), removeIfPresent temporary fs)
      | (Inr False, fs) \<Rightarrow> install_temporary target temporary backup False fs
      | (Inr True, fs) \<Rightarrow>
         (case fs_rename target backup (removeIfPresent backup fs) of
            (Some message, fs) \<Rightarrow>
              (Some (''unable to preserve previous configuration: '' @ message),
               removeIfPresent temporary fs)
          | (None, fs) \<Rightarrow> install_temporary target temporary backup True fs))"

definition saveUserSettingsFile ::
    "string option \<Rightarrow> UserSettings \<Rightarrow> file_system \<Rightarrow> string option \<times> file_system" where
  "saveUserSettingsFile path settings fs =
     (case path of
        None \<Rightarrow> (Some ''configuration path is empty'', fs)
      | Some target \<Rightarrow>
          if target = [] then (Some ''configuration path is empty'', fs)
          else (case writeUserSettings True settings of
            Inl e \<Rightarrow> (Some e, fs)
          | Inr serialized \<Rightarrow>
             (let temporary = temporary_path target; backup = backup_path target in
              case persist_temporary temporary serialized fs of
                (Some e, fs) \<Rightarrow> (Some e, fs)
              | (None, fs) \<Rightarrow>
                 (case verify_temporary temporary settings fs of
                    (Some e, fs) \<Rightarrow> (Some e, fs)
                  | (None, fs) \<Rightarrow> replace_target target temporary backup fs))))"

section \<open>The parts of a save\<close>

text \<open>What is verified is what the temporary holds.\<close>

lemma parse_bad: "is_bad input \<Longrightarrow> \<exists>e. parseUserSettings input = Inl e"
  by (simp add: parseUserSettings_def split: sum.splits prod.splits)

lemma sameSettings_eq: "sameSettings s v \<longleftrightarrow> s = v"
  by (auto simp: sameSettings_def intro!: UserSettings.equality FeatureRequests.equality)

lemma verify_temporary_none:
  assumes "verify_temporary temporary s fs = (None, fs')"
  shows "fs_files fs' = fs_files fs \<and> fs_passed fs' = fs_passed fs \<and>
    (\<exists>t. fs_files fs temporary = Some t \<and> parseUserSettings (stream_of t) = Inr s)"
proof -
  from assms obtain input where opened: "fs_open temporary fs = (Some input, fs')"
    and parsed: "parseUserSettings input = Inr s"
    by (auto simp: verify_temporary_def loadUserSettingsFile_def sameSettings_eq
        split: prod.splits option.splits sum.splits if_splits)
  from parsed have "\<not> is_bad input" using parse_bad by fastforce
  with opened obtain t where "fs_files fs temporary = Some t" "input = stream_of t"
    by (auto simp: fs_open_def split: prod.splits option.splits outcome.splits dest!: next_outcome_files)
  with parsed fs_open_same [OF opened] show ?thesis by blast
qed

lemma verify_temporary_some:
  assumes "verify_temporary temporary s fs = (Some e, fs')"
  shows "passes (only_path temporary (fs_files fs)) fs fs'"
proof -
  obtain input fs1 where opened: "fs_open temporary fs = (input, fs1)" by fastforce
  from fs_open_same [OF opened] have "passes (only_path temporary (fs_files fs)) fs fs1"
    by (simp add: passes_def)
  moreover have "fs' = fs \<or> fs' = fs1 \<or> fs' = removeIfPresent temporary fs1 \<or>
      fs' = removeIfPresent temporary fs"
    using assms opened
    by (auto simp: verify_temporary_def loadUserSettingsFile_def
        split: prod.splits option.splits sum.splits if_splits)
  moreover have "passes (only_path temporary (fs_files fs)) fs fs" by (simp add: passes_def)
  ultimately show ?thesis using removeIfPresent_after by blast
qed

lemma persist_temporary_passes:
  assumes "persist_temporary temporary c fs = (r, fs')"
  shows "passes (only_path temporary (fs_files fs)) fs fs'"
proof -
  obtain ok fs1 where created: "fs_create temporary fs = (ok, fs1)" by fastforce
  obtain ok' fs2 where written: "fs_write temporary c fs1 = (ok', fs2)" by fastforce
  note 1 = fs_create_passes [OF created]
  have "passes (only_path temporary (fs_files fs)) fs fs2"
  proof (rule passes_trans [OF 1], rule passes_mono [OF fs_write_passes [OF written]])
    fix G
    assume "only_path temporary (fs_files fs1) G"
    moreover have "only_path temporary (fs_files fs) (fs_files fs1)"
      using 1 by (auto simp: passes_def only_path_def)
    ultimately show "only_path temporary (fs_files fs) G" by (simp add: only_path_def)
  qed
  moreover have "fs' = fs1 \<or> fs' = fs2 \<or> fs' = removeIfPresent temporary fs2"
    using assms created written by (auto simp: persist_temporary_def split: bool.splits)
  ultimately show ?thesis using 1 removeIfPresent_after by blast
qed

text \<open>The files still hold the old configuration, or already hold the new one.\<close>

definition old_kept :: "string \<Rightarrow> string option \<Rightarrow> files \<Rightarrow> bool" where
  "old_kept target old F \<longleftrightarrow>
     F target = old \<or> (F target = None \<and> F (backup_path target) = old)"

definition holds_settings :: "string \<Rightarrow> UserSettings \<Rightarrow> files \<Rightarrow> bool" where
  "holds_settings target s F \<longleftrightarrow>
     (\<exists>t. F target = Some t \<and> parseUserSettings (stream_of t) = Inr s)"

lemma path_names [simp]:
  "temporary_path p \<noteq> p" "backup_path p \<noteq> p" "temporary_path p \<noteq> backup_path p"
  "p \<noteq> temporary_path p" "p \<noteq> backup_path p" "backup_path p \<noteq> temporary_path p"
  by (simp_all add: temporary_path_def backup_path_def)

lemma only_temporary_kept:
  "only_path (temporary_path target) F G \<Longrightarrow> old_kept target (F target) G"
  by (simp add: only_path_def old_kept_def)

lemma only_backup_kept:
  "only_path (backup_path target) F G \<Longrightarrow> old_kept target (F target) G"
  by (simp add: only_path_def old_kept_def)

lemma install_temporary_safe:
  assumes result: "install_temporary target (temporary_path target) (backup_path target) had fs = (r, fs')"
    and before: "old_kept target old (fs_files fs)" "had \<Longrightarrow> fs_files fs target = None \<and> fs_files fs (backup_path target) = old"
    and temporary: "holds_settings (temporary_path target) s (fs_files fs)"
  shows "passes (\<lambda>F. old_kept target old F \<or> holds_settings target s F) fs fs' \<and>
    (if r = None then holds_settings target s (fs_files fs') else old_kept target old (fs_files fs'))"
proof -
  let ?P = "\<lambda>F. old_kept target old F \<or> holds_settings target s F"
  let ?tmp = "temporary_path target" and ?bak = "backup_path target"
  have tmp_P: "old_kept target old F \<Longrightarrow> only_path ?tmp F G \<Longrightarrow> old_kept target old G" for F G
    by (simp add: only_path_def old_kept_def)
  have bak_P: "holds_settings target s F \<Longrightarrow> only_path ?bak F G \<Longrightarrow> holds_settings target s G" for F G
    by (simp add: only_path_def holds_settings_def)
  obtain r1 fs1 where renamed: "fs_rename ?tmp target fs = (r1, fs1)" by fastforce
  show ?thesis
  proof (cases r1)
    case None
    from fs_rename_cases [OF renamed] None temporary
    have new: "holds_settings target s (fs_files fs1)" and passed: "passes ?P fs fs1"
      by (auto simp: holds_settings_def passes_def)
    have "passes (holds_settings target s) fs1 (removeIfPresent ?bak fs1)"
      and "holds_settings target s (fs_files (removeIfPresent ?bak fs1))"
      using remove_temporary_passes [of "holds_settings target s" fs1 ?bak] new bak_P by blast+
    then have "passes ?P fs1 (removeIfPresent ?bak fs1)"
      and "holds_settings target s (fs_files (removeIfPresent ?bak fs1))"
      by (auto intro: passes_mono)
    with new passed None result renamed passes_trans [OF passed] show ?thesis
      by (auto simp: install_temporary_def)
  next
    case (Some message)
    from fs_rename_cases [OF renamed] Some
    have same: "fs_files fs1 = fs_files fs" "fs_passed fs1 = fs_passed fs" by auto
    define fs2 where "fs2 = (if had then snd (fs_rename ?bak target fs1) else fs1)"
    have kept: "passes (old_kept target old) fs fs2 \<and> old_kept target old (fs_files fs2)"
    proof (cases had)
      case True
      obtain r2 fs2' where restored: "fs_rename ?bak target fs1 = (r2, fs2')" by fastforce
      with True before same fs_rename_cases [OF restored] show ?thesis
        by (auto simp: fs2_def passes_def old_kept_def)
    next
      case False
      with before same show ?thesis by (simp add: fs2_def passes_def)
    qed
    have "passes (old_kept target old) fs2 (removeIfPresent ?tmp fs2) \<and>
        old_kept target old (fs_files (removeIfPresent ?tmp fs2))"
      using remove_temporary_passes [of "old_kept target old" fs2 ?tmp] kept tmp_P by blast
    then have "passes (old_kept target old) fs (removeIfPresent ?tmp fs2)"
      "old_kept target old (fs_files (removeIfPresent ?tmp fs2))"
      using kept passes_trans by blast+
    moreover have "r \<noteq> None \<and> fs' = removeIfPresent ?tmp fs2"
      using result renamed Some by (auto simp: install_temporary_def fs2_def Let_def)
    ultimately show ?thesis by (auto intro: passes_mono)
  qed
qed

lemma replace_target_safe:
  assumes result: "replace_target target (temporary_path target) (backup_path target) fs = (r, fs')"
    and old: "fs_files fs target = old"
    and temporary: "holds_settings (temporary_path target) s (fs_files fs)"
  shows "passes (\<lambda>F. old_kept target old F \<or> holds_settings target s F) fs fs' \<and>
    (if r = None then holds_settings target s (fs_files fs') else old_kept target old (fs_files fs'))"
proof -
  let ?P = "\<lambda>F. old_kept target old F \<or> holds_settings target s F"
  let ?tmp = "temporary_path target" and ?bak = "backup_path target"
  have tmp_P: "old_kept target old F \<Longrightarrow> only_path ?tmp F G \<Longrightarrow> old_kept target old G" for F G
    by (simp add: only_path_def old_kept_def)
  have discard: "passes ?P fs0 (removeIfPresent ?tmp fs0) \<and>
      old_kept target old (fs_files (removeIfPresent ?tmp fs0))"
    if "old_kept target old (fs_files fs0)" for fs0
    using remove_temporary_passes [of "old_kept target old" fs0 ?tmp] that tmp_P
    by (blast intro: passes_mono)
  obtain e fs1 where existing: "fs_exists target fs = (e, fs1)" by fastforce
  note same = fs_exists_same [OF existing]
  have kept1: "old_kept target old (fs_files fs1)" and pass1: "passes ?P fs fs1"
    and tmp1: "holds_settings ?tmp s (fs_files fs1)"
    using same old temporary by (simp_all add: old_kept_def passes_def)
  consider (error) message where "e = Inl message" | (absent) "e = Inr False" | (present) "e = Inr True"
    by (cases e) auto
  then show ?thesis
  proof cases
    case error
    with result existing have "r \<noteq> None" "fs' = removeIfPresent ?tmp fs1"
      by (auto simp: replace_target_def)
    with discard [OF kept1] passes_trans [OF pass1] show ?thesis by auto
  next
    case absent
    with result existing have "install_temporary target ?tmp ?bak False fs1 = (r, fs')"
      by (simp add: replace_target_def)
    from install_temporary_safe [OF this kept1 _ tmp1] passes_trans [OF pass1] show ?thesis by auto
  next
    case present
    define fs2 where "fs2 = removeIfPresent ?bak fs1"
    have "passes (only_path ?bak (fs_files fs1)) fs1 fs2"
      unfolding fs2_def by (rule removeIfPresent_passes)
    then have pass2: "passes ?P fs1 fs2" and at2: "fs_files fs2 target = old"
      and tmp2: "holds_settings ?tmp s (fs_files fs2)"
      using old same tmp1
      by (auto elim!: passes_mono simp: only_path_def old_kept_def)
         (auto simp: passes_def only_path_def holds_settings_def)
    obtain r3 fs3 where preserved: "fs_rename target ?bak fs2 = (r3, fs3)" by fastforce
    note moved = fs_rename_cases [OF preserved]
    have pass3: "passes ?P fs2 fs3" and kept3: "old_kept target old (fs_files fs3)"
      and tmp3: "holds_settings ?tmp s (fs_files fs3)"
      using moved at2 tmp2 by (auto simp: passes_def old_kept_def holds_settings_def)
    note pass = passes_trans [OF passes_trans [OF pass1 pass2] pass3]
    show ?thesis
    proof (cases r3)
      case None
      with present result existing preserved have "install_temporary target ?tmp ?bak True fs3 = (r, fs')"
        by (simp add: replace_target_def fs2_def)
      moreover have "fs_files fs3 target = None \<and> fs_files fs3 ?bak = old"
        using moved None at2 by auto
      ultimately show ?thesis
        using install_temporary_safe [of target True fs3 r fs' old s] kept3 tmp3 passes_trans [OF pass]
        by auto
    next
      case (Some message)
      with present result existing preserved have "r \<noteq> None" "fs' = removeIfPresent ?tmp fs3"
        by (auto simp: replace_target_def fs2_def)
      with discard [OF kept3] passes_trans [OF pass] show ?thesis by auto
    qed
  qed
qed

lemma saveUserSettingsFile_safe:
  assumes "saveUserSettingsFile (Some target) s fs = (r, fs')"
  shows "passes (\<lambda>F. old_kept target (fs_files fs target) F \<or> holds_settings target s F) fs fs' \<and>
    (if r = None then holds_settings target s (fs_files fs')
     else old_kept target (fs_files fs target) (fs_files fs'))"
proof -
  let ?old = "fs_files fs target"
  let ?P = "\<lambda>F. old_kept target ?old F \<or> holds_settings target s F"
  let ?tmp = "temporary_path target" and ?bak = "backup_path target"
  have early: ?thesis if "r \<noteq> None" and "passes (only_path ?tmp (fs_files fs)) fs fs'"
  proof -
    have "old_kept target ?old F" if "only_path ?tmp (fs_files fs) F" for F
      using that by (simp add: only_path_def old_kept_def)
    with that show ?thesis by (auto intro: passes_mono simp: passes_def old_kept_def only_path_def list_all_iff)
  qed
  consider (refused) "r \<noteq> None" "fs' = fs"
    | (written) serialized where "(case persist_temporary ?tmp serialized fs of
           (Some e, fs) \<Rightarrow> (Some e, fs)
         | (None, fs) \<Rightarrow>
            (case verify_temporary ?tmp s fs of
               (Some e, fs) \<Rightarrow> (Some e, fs)
             | (None, fs) \<Rightarrow> replace_target target ?tmp ?bak fs)) = (r, fs')"
    using assms
    by (cases "target = []"; cases "writeUserSettings True s")
       (auto simp: saveUserSettingsFile_def Let_def)
  then show ?thesis
  proof cases
    case refused
    then show ?thesis by (intro early) (simp_all add: passes_def)
  next
    case written
    obtain r1 fs1 where persisted: "persist_temporary ?tmp serialized fs = (r1, fs1)" by fastforce
    obtain r2 fs2 where verified: "verify_temporary ?tmp s fs1 = (r2, fs2)" by fastforce
    note pass1 = persist_temporary_passes [OF persisted]
    have at1: "only_path ?tmp (fs_files fs) (fs_files fs1)"
      using pass1 by (auto simp: passes_def only_path_def)
    show ?thesis
    proof (cases "r1 = None \<and> r2 = None")
      case True
      with verify_temporary_none verified have same: "fs_files fs2 = fs_files fs1"
        "fs_passed fs2 = fs_passed fs1" and tmp: "holds_settings ?tmp s (fs_files fs2)"
        by (auto simp: holds_settings_def)
      have "passes ?P fs fs2"
        using pass1 same by (auto simp: passes_def list_all_iff dest: only_temporary_kept)
      moreover have "replace_target target ?tmp ?bak fs2 = (r, fs')"
        using assms written True persisted verified by simp
      moreover have "fs_files fs2 target = ?old" using at1 same by (simp add: only_path_def)
      ultimately show ?thesis
        using replace_target_safe [of target fs2 r fs' ?old s] tmp passes_trans by blast
    next
      case False
      have "passes (only_path ?tmp (fs_files fs1)) fs1 fs2" if "r2 \<noteq> None"
        using that verify_temporary_some verified by auto
      then have "passes (only_path ?tmp (fs_files fs)) fs1 fs2" if "r2 \<noteq> None"
        by (rule passes_mono [OF _ only_trans [OF at1]]) (use that in simp)
      moreover have "r \<noteq> None \<and> (fs' = fs1 \<or> r2 \<noteq> None \<and> fs' = fs2)"
        using assms written False persisted verified by (auto split: option.splits)
      ultimately show ?thesis using pass1 passes_trans early by blast
    qed
  qed
qed

text \<open>When nothing fails the new configuration is in place and no temporary is left.\<close>

lemma saveUserSettingsFile_works:
  assumes "representable s" and "target \<noteq> []" and "fs_schedule fs = []"
  shows "\<exists>fs'. saveUserSettingsFile (Some target) s fs = (None, fs') \<and> fs_schedule fs' = [] \<and>
    fs_files fs' = (fs_files fs)(target \<mapsto> settings_text s, temporary_path target := None,
      backup_path target := (if fs_files fs target = None then fs_files fs (backup_path target) else None))"
proof -
  have "temporary_path target \<noteq> []" by (simp add: temporary_path_def)
  moreover have "writeUserSettings True s = Inr (settings_text s)"
    using assms(1) by (simp add: writeUserSettings_some)
  ultimately show ?thesis
    using assms(2-3) round_trip [OF assms(1)]
    by (simp add: saveUserSettingsFile_def Let_def persist_temporary_def verify_temporary_def
        loadUserSettingsFile_def replace_target_def install_temporary_def removeIfPresent_def
        fs_create_def fs_write_def fs_open_def fs_exists_def fs_rename_def sameSettings_eq fun_eq_iff
        split: option.splits)
qed

lemma default_representable: "representable UserSettings_default"
proof -
  have "UserSettingsValidation_valid (validateUserSettings UserSettings_default)" by code_simp
  then show ?thesis
    by (simp add: representable_def valid_settings_iff) (simp add: UserSettings_default_def)
qed

section \<open>Properties\<close>

text \<open>C27: What is written is read back as the same settings, and whatever the parser accepts can be
  written and read back; so a file that was read and saved again holds what was read.\<close>

theorem settings_file_round_trip:
  "(writeUserSettings good s = Inr t \<longrightarrow> parseUserSettings (stream_of t) = Inr s) \<and>
   (parseUserSettings input = Inr s \<longrightarrow>
      settings_in_range s \<and> (\<exists>t. writeUserSettings True s = Inr t \<and> parseUserSettings (stream_of t) = Inr s))"
  using round_trip parsed_representable writeUserSettings_some
  by (auto simp: representable_def)

theorem settings_file_round_trip_witness:
  "settings_in_range UserSettings_default \<and>
   (\<exists>t. writeUserSettings True UserSettings_default = Inr t \<and>
      parseUserSettings (stream_of t) = Inr UserSettings_default)"
proof -
  have "parseUserSettings (stream_of []) = Inr UserSettings_default" by code_simp
  then show ?thesis using settings_file_round_trip [of _ _ _ "stream_of []"] by blast
qed



text \<open>When no operation fails, every configuration that has whole minutes and seconds is saved: the
  call succeeds, the file holds the written text and loads as the same settings, and neither the temporary
  nor a backup of the replaced file is left.\<close>

theorem saved_file_loads:
  assumes "settings_in_range s" and "us_maximumRemoteRunTimeMs s mod 60000 = 0"
    and "us_driverTakeoverTimeoutMs s mod 1000 = 0" and "target \<noteq> []" and "fs_schedule fs = []"
  shows "\<exists>fs'. saveUserSettingsFile (Some target) s fs = (None, fs') \<and>
    fst (loadUserSettingsFile (Some target) fs') = Inr s \<and>
    fs_files fs' (temporary_path target) = None \<and>
    (fs_files fs target \<noteq> None \<longrightarrow> fs_files fs' (backup_path target) = None) \<and>
    (\<forall>path. path \<notin> {target, temporary_path target, backup_path target} \<longrightarrow>
       fs_files fs' path = fs_files fs path)"
proof -
  have s: "representable s" using assms(1-3) by (simp add: representable_def)
  from saveUserSettingsFile_works [OF s assms(4,5)] round_trip [OF s] assms(4) show ?thesis
    by (auto simp: loadUserSettingsFile_def fs_open_def)
qed

theorem saved_file_loads_witness:
  "\<exists>fs'. saveUserSettingsFile (Some ''c'') UserSettings_default
      \<lparr>fs_files = [''c'' \<mapsto> ''old''], fs_schedule = [], fs_passed = []\<rparr> = (None, fs') \<and>
    fst (loadUserSettingsFile (Some ''c'') fs') = Inr UserSettings_default"
proof -
  have default: "settings_in_range UserSettings_default"
    "us_maximumRemoteRunTimeMs UserSettings_default mod 60000 = 0"
    "us_driverTakeoverTimeoutMs UserSettings_default mod 1000 = 0"
    using default_representable by (simp_all only: representable_def)
  show ?thesis
    using saved_file_loads [OF default, of "''c''"
        "\<lparr>fs_files = [''c'' \<mapsto> ''old''], fs_schedule = [], fs_passed = []\<rparr>"] by auto
qed

end
