(* ===== verification/DeviceClient.thy ===== *)
theory DeviceClient
  imports SettingsStream
begin

text \<open>
  The client of the settings link on the host (\<^verbatim>\<open>tools/settings_device_client.hpp/.cpp\<close>): one request and
  its answer over a byte channel, and the probe, the read and the verified write made of them.  The
  channel and the clock are ports; the loop that waits for an answer need not end, so the results are
  optional and its return is a theorem.
\<close>

section \<open>The channel and the clock\<close>

datatype SettingsChannelReadStatus = CRS_Data | CRS_Timeout | CRS_Failure

text \<open>
  The operations take the error text and return the one they leave; the clock counts nanoseconds.
\<close>

record 'e SettingsDeviceChannel =
  ch_clearInput :: "string \<Rightarrow> 'e \<Rightarrow> bool \<times> string \<times> 'e"
  ch_writeAll :: "u8 list \<Rightarrow> u32 \<Rightarrow> string \<Rightarrow> 'e \<Rightarrow> bool \<times> string \<times> 'e"
  ch_readByte :: "u32 \<Rightarrow> string \<Rightarrow> 'e \<Rightarrow> SettingsChannelReadStatus \<times> u8 \<times> string \<times> 'e"
  ch_now :: "'e \<Rightarrow> int \<times> 'e"

definition elapsedMilliseconds :: "int \<Rightarrow> int \<Rightarrow> u32" where
  "elapsedMilliseconds startedAt now =
     (let elapsed = (now - startedAt) div 1000000 in
      if elapsed \<le> 0 then 0
      else if elapsed > 2 ^ 32 - 1 then 2 ^ 32 - 1
      else of_int elapsed)"

record SettingsDeviceClientConfig =
  responseTimeoutMs :: u32
  cl_interByteTimeoutMs :: u32

definition SettingsDeviceClientConfig_default :: SettingsDeviceClientConfig where
  "SettingsDeviceClientConfig_default = \<lparr>responseTimeoutMs = 2000, cl_interByteTimeoutMs = 250\<rparr>"

definition validateClientConfig :: "SettingsDeviceClientConfig \<Rightarrow> bool" where
  "validateClientConfig config \<longleftrightarrow>
     \<not> (cl_interByteTimeoutMs config = 0 \<or> responseTimeoutMs config < cl_interByteTimeoutMs config)"

record SettingsDeviceClient =
  dc_config :: SettingsDeviceClientConfig
  nextRequestId :: u16

definition mkSettingsDeviceClient :: "SettingsDeviceClientConfig \<Rightarrow> SettingsDeviceClient" where
  "mkSettingsDeviceClient config = \<lparr>dc_config = config, nextRequestId = 1\<rparr>"

definition allocateRequestId :: "SettingsDeviceClient \<Rightarrow> u16 \<times> SettingsDeviceClient" where
  "allocateRequestId c =
     (let allocated = nextRequestId c; next = nextRequestId c + 1 in
      (allocated, c\<lparr>nextRequestId := (if next = 0 then 1 else next)\<rparr>))"

section \<open>One exchange\<close>

text \<open>A result, the error text or the value, with the state after it; none when the call never returns.\<close>

type_synonym ('a, 's) outcome_of = "((string + 'a) \<times> 's) option"

definition after :: "('a, 's) outcome_of \<Rightarrow> ('a \<Rightarrow> 's \<Rightarrow> ('b, 's) outcome_of) \<Rightarrow> ('b, 's) outcome_of" where
  "after m f =
     (case m of None \<Rightarrow> None
      | Some (Inl e, s) \<Rightarrow> Some (Inl e, s)
      | Some (Inr a, s) \<Rightarrow> f a s)"

definition on_error :: "(string \<Rightarrow> string) \<Rightarrow> ('a, 's) outcome_of \<Rightarrow> ('a, 's) outcome_of" where
  "on_error g m = map_option (\<lambda>(r, s). (case r of Inl e \<Rightarrow> Inl (g e) | Inr a \<Rightarrow> Inr a, s)) m"

definition unless_empty :: "string \<Rightarrow> string \<Rightarrow> string" where
  "unless_empty error message = (if error = [] then message else error)"

text \<open>What a received event means for a request; none while the answer is incomplete.\<close>

definition judge_event ::
    "u16 \<Rightarrow> SettingsMessageType \<Rightarrow> SettingsStreamEvent \<Rightarrow> (string + SettingsProtocolFrame) option" where
  "judge_event requestId expectedResponseType event =
     (if sev_type event = SE_None then None
      else if sev_type event \<noteq> SE_FrameReady
      then Some (Inl (''trame de reponse rejetee : '' @
             SettingsFrameDecodeStatus_toString (sev_decodeStatus event)))
      else if pf_requestId (sev_frame event) \<noteq> requestId
      then Some (Inl ''identifiant de reponse inattendu'')
      else if pf_type (sev_frame event) \<noteq> expectedResponseType
      then Some (Inl ''type de reponse inattendu'')
      else if pf_status (sev_frame event) \<noteq> PS_Ok
      then Some (Inl (''requete refusee par le boitier : '' @
             SettingsProtocolStatus_toString (pf_status (sev_frame event))))
      else Some (Inr (sev_frame event)))"

partial_function (option) await_response ::
    "'e SettingsDeviceChannel \<Rightarrow> SettingsDeviceClientConfig \<Rightarrow> int \<Rightarrow> u16 \<Rightarrow> SettingsMessageType \<Rightarrow>
       SettingsStreamReceiver \<Rightarrow> string \<Rightarrow> 'e \<Rightarrow> (SettingsProtocolFrame, 'e) outcome_of" where
  "await_response channel config startedAt requestId expectedResponseType receiver error e =
     (let (now, e) = ch_now channel e; elapsed = elapsedMilliseconds startedAt now in
      if elapsed \<ge> responseTimeoutMs config
      then Some (Inl ''delai de reponse du boitier depasse'', e)
      else
       (let remaining = responseTimeoutMs config - elapsed;
            readTimeout = (if bufferedSize receiver = 0 then remaining
                           else min remaining (cl_interByteTimeoutMs config));
            (readStatus, byte, error, e) = ch_readByte channel readTimeout error e
        in
        if readStatus = CRS_Failure
        then Some (Inl (unless_empty error ''echec de lecture de la reponse''), e)
        else if readStatus = CRS_Timeout
        then Some (Inl (if bufferedSize receiver \<noteq> 0
                        then ''reponse partielle : delai inter-octets depasse''
                        else ''delai de reponse du boitier depasse''), e)
        else
         (let (now, e) = ch_now channel e;
              (event, receiver) =
                SettingsStreamReceiver_consume byte (elapsedMilliseconds startedAt now) receiver
          in case judge_event requestId expectedResponseType event of
               None \<Rightarrow> await_response channel config startedAt requestId expectedResponseType
                 receiver error e
             | Some result \<Rightarrow> Some (result, e))))"

definition exchange ::
    "'e SettingsDeviceChannel \<Rightarrow> SettingsProtocolFrame \<Rightarrow> SettingsMessageType \<Rightarrow>
       SettingsDeviceClient \<times> 'e \<Rightarrow> (SettingsProtocolFrame, SettingsDeviceClient \<times> 'e) outcome_of" where
  "exchange channel request expectedResponseType = (\<lambda>(c, e).
     if \<not> validateClientConfig (dc_config c)
     then Some (Inl ''temporisations de liaison invalides'', c, e)
     else
      (let (requestId, c) = allocateRequestId c;
           request = request\<lparr>pf_requestId := requestId\<rparr>;
           (encodable, encoded, encodedSize) = SettingsProtocolCodec_encode request
       in
       if \<not> encodable then Some (Inl ''impossible d'encoder la requete'', c, e)
       else
        (let (cleared, error, e) = ch_clearInput channel [] e;
             (sent, error, e) =
               (if cleared
                then ch_writeAll channel (take encodedSize encoded)
                       (responseTimeoutMs (dc_config c)) error e
                else (False, error, e))
         in
         if \<not> sent then Some (Inl (unless_empty error ''echec d'envoi de la requete''), c, e)
         else
          (let receiver = mkSettingsStreamReceiver
                 \<lparr>interByteTimeoutMs = cl_interByteTimeoutMs (dc_config c)\<rparr>;
               (startedAt, e) = ch_now channel e
           in map_option (\<lambda>(result, e). (result, c, e))
                (await_response channel (dc_config c) startedAt requestId expectedResponseType
                   receiver error e)))))"

section \<open>The requests\<close>

definition SettingsDeviceIdentity_default :: SettingsDeviceIdentity where
  "SettingsDeviceIdentity_default =
     \<lparr>hardwareTarget = HT_Unspecified, firmwareMajor = FirmwareVersionMajor,
      firmwareMinor = FirmwareVersionMinor, firmwarePatch = FirmwareVersionPatch,
      capabilities = 0\<rparr>"

definition client_probe ::
    "'e SettingsDeviceChannel \<Rightarrow> SettingsDeviceClient \<times> 'e \<Rightarrow>
       (SettingsDeviceIdentity, SettingsDeviceClient \<times> 'e) outcome_of" where
  "client_probe channel s =
     after (exchange channel (SettingsProtocolFrame_default\<lparr>pf_type := MT_IdentifyRequest\<rparr>)
              MT_IdentifyResponse s)
       (\<lambda>response s.
          case decodeSettingsDeviceIdentity (pf_payload response)
                 (unat (pf_payloadSize response)) SettingsDeviceIdentity_default of
            (False, _) \<Rightarrow> Some (Inl ''identite du boitier invalide'', s)
          | (True, received) \<Rightarrow> Some (Inr received, s))"

definition client_read ::
    "'e SettingsDeviceChannel \<Rightarrow> SettingsDeviceClient \<times> 'e \<Rightarrow>
       (UserSettings, SettingsDeviceClient \<times> 'e) outcome_of" where
  "client_read channel s =
     after (exchange channel (SettingsProtocolFrame_default\<lparr>pf_type := MT_ReadRequest\<rparr>)
              MT_ReadResponse s)
       (\<lambda>response s.
          if unat (pf_payloadSize response) \<noteq> UserSettingsPayloadSize
          then Some (Inl ''taille de configuration inattendue dans la reponse'', s)
          else (case decodeUserSettingsPayload (pf_payload response) UserSettingsPayloadSize
                       UserSettings_default of
                  (False, _) \<Rightarrow> Some (Inl ''configuration recue invalide'', s)
                | (True, received) \<Rightarrow> Some (Inr received, s)))"

definition write_request :: "UserSettingsPayload \<Rightarrow> SettingsProtocolFrame" where
  "write_request payload =
     SettingsProtocolFrame_default
       \<lparr>pf_type := MT_WriteRequest, pf_payloadSize := of_nat UserSettingsPayloadSize,
        pf_payload := payload\<rparr>"

definition writeAndVerify ::
    "'e SettingsDeviceChannel \<Rightarrow> UserSettings \<Rightarrow> SettingsDeviceClient \<times> 'e \<Rightarrow>
       (unit, SettingsDeviceClient \<times> 'e) outcome_of" where
  "writeAndVerify channel settings s =
     (if \<not> UserSettingsValidation_valid (validateUserSettings settings)
      then Some (Inl ''configuration refusee par les limites de securite'', s)
      else
        after (on_error (\<lambda>error. ''identification du boitier impossible : '' @ error)
                 (client_probe channel s))
          (\<lambda>identity s.
             if \<not> hasCapability identity SC_SettingsWrite \<or>
                \<not> hasCapability identity SC_PersistentSettings
             then Some (Inl ''le boitier n'annonce pas l'ecriture persistante des reglages'', s)
             else
              (case encodeUserSettingsPayload settings blank_payload of
                 (False, _) \<Rightarrow> Some (Inl ''impossible d'encoder la configuration'', s)
               | (True, payload) \<Rightarrow>
                   after (exchange channel (write_request payload) MT_WriteResponse s)
                     (\<lambda>response s.
                        if pf_payloadSize response \<noteq> 0
                        then Some (Inl ''payload inattendu dans la reponse d'ecriture'', s)
                        else
                          after (on_error
                                   (\<lambda>error. ''ecriture acceptee mais relecture impossible : '' @ error)
                                   (client_read channel s))
                            (\<lambda>verified s.
                               if \<not> userSettingsEqual settings verified
                               then Some (Inl ''la relecture du boitier differe de la configuration envoyee'', s)
                               else Some (Inr (), s))))))"

section \<open>The client always returns\<close>

definition returns :: "'a option \<Rightarrow> bool" where
  "returns m \<longleftrightarrow> m \<noteq> None"

lemma returns_simps [simp]:
  "returns (Some x)" "returns (map_option f m) \<longleftrightarrow> returns m" "returns (on_error g m) \<longleftrightarrow> returns m"
  by (simp_all add: returns_def on_error_def)

lemma returns_after [simp]: "returns m \<Longrightarrow> (\<And>a s. returns (f a s)) \<Longrightarrow> returns (after m f)"
  by (auto simp: returns_def after_def split: sum.splits)

text \<open>
  What a channel over a real line keeps: its clock never runs backwards, and a byte takes time to
  arrive.
\<close>

locale ticking_channel =
  fixes channel :: "'e SettingsDeviceChannel"
  assumes clock_monotone: "ch_now channel e = (t, e') \<Longrightarrow> t \<le> fst (ch_now channel e')"
    and byte_takes_time: "ch_readByte channel timeout error e = (CRS_Data, byte, error', e') \<Longrightarrow>
      fst (ch_now channel e) < fst (ch_now channel e')"
begin

lemma await_response_returns:
  "await_response channel config startedAt requestId expected receiver error e \<noteq> None"
proof (induction "nat (startedAt + uint (responseTimeoutMs config) * 1000000 - fst (ch_now channel e))"
    arbitrary: receiver error e rule: less_induct)
  case less
  obtain t e1 where now: "ch_now channel e = (t, e1)" by fastforce
  let ?elapsed = "elapsedMilliseconds startedAt t"
  let ?timeout = "if bufferedSize receiver = 0 then responseTimeoutMs config - ?elapsed
    else min (responseTimeoutMs config - ?elapsed) (cl_interByteTimeoutMs config)"
  obtain st byte error' e2 where read: "ch_readByte channel ?timeout error e1 = (st, byte, error', e2)"
    by (metis surj_pair)
  obtain t3 e3 where now3: "ch_now channel e2 = (t3, e3)" by fastforce
  obtain event receiver' where consumed:
    "SettingsStreamReceiver_consume byte (elapsedMilliseconds startedAt t3) receiver = (event, receiver')"
    by fastforce
  have later: "await_response channel config startedAt requestId expected receiver' error' e3 \<noteq> None"
    if "\<not> ?elapsed \<ge> responseTimeoutMs config" and "st = CRS_Data"
  proof (rule less.hyps)
    have "t < startedAt + uint (responseTimeoutMs config) * 1000000"
    proof (rule ccontr)
      assume "\<not> ?thesis"
      then have big: "uint (responseTimeoutMs config) \<le> (t - startedAt) div 1000000"
        using zdiv_mono1 [of "uint (responseTimeoutMs config) * 1000000" "t - startedAt" 1000000] by simp
      have "uint (responseTimeoutMs config) < 2 ^ 32" by (rule order_less_le_trans [OF unsigned_less]) simp
      moreover have "0 \<le> uint (responseTimeoutMs config)" by simp
      ultimately have "uint (responseTimeoutMs config) = 0" if "(t - startedAt) div 1000000 \<le> 0"
        using order_trans [OF big that] by linarith
      then have "uint (responseTimeoutMs config) \<le> uint ?elapsed"
        using big \<open>uint (responseTimeoutMs config) < 2 ^ 32\<close>
        by (simp add: elapsedMilliseconds_def Let_def uint_word_of_int take_bit_int_eq_self)
      then have "responseTimeoutMs config \<le> ?elapsed" by (simp add: word_le_def)
      with that show False by simp
    qed
    moreover have "t < fst (ch_now channel e3)"
      using clock_monotone [OF now] byte_takes_time [OF read [unfolded that(2)]]
        clock_monotone [OF now3] now3 by simp
    ultimately show "nat (startedAt + uint (responseTimeoutMs config) * 1000000 - fst (ch_now channel e3))
        < nat (startedAt + uint (responseTimeoutMs config) * 1000000 - fst (ch_now channel e))"
      by (simp add: now)
  qed
  show ?case
    by (subst await_response.simps)
       (use now read now3 consumed later in \<open>cases st; auto simp: Let_def split: option.splits\<close>)
qed

lemma await_returns: "returns (await_response channel config startedAt requestId expected receiver error e)"
  unfolding returns_def by (rule await_response_returns)

lemma exchange_returns: "returns (exchange channel request expected s)"
  by (cases s) (simp add: exchange_def Let_def await_returns split: prod.splits)

lemma client_probe_returns: "returns (client_probe channel s)"
  by (simp add: client_probe_def exchange_returns split: prod.splits bool.splits)

lemma client_read_returns: "returns (client_read channel s)"
  by (simp add: client_read_def exchange_returns split: prod.splits bool.splits)

lemma writeAndVerify_returns: "returns (writeAndVerify channel settings s)"
  by (simp add: writeAndVerify_def exchange_returns client_probe_returns client_read_returns
      split: prod.splits bool.splits)

end

section \<open>What an accepted answer is\<close>

lemma judge_accepts:
  "judge_event i t event = Some (Inr f) \<Longrightarrow>
     sev_type event = SE_FrameReady \<and> f = sev_frame event \<and> pf_requestId f = i \<and> pf_type f = t \<and>
     pf_status f = PS_Ok"
  by (auto simp: judge_event_def split: if_splits)

text \<open>It is a frame whose encoding came over the channel, complete and with its checksum.\<close>

lemma await_response_sound:
  assumes "await_response channel config startedAt i t receiver error e = Some (r, e')"
    and "r = Inr f" and "receiver_wf receiver"
  shows "frame_wf f \<and> pf_requestId f = i \<and> pf_type f = t \<and> pf_status f = PS_Ok"
proof -
  have "receiver_wf receiver \<longrightarrow> (\<forall>f. fst y = Inr f \<longrightarrow>
      frame_wf f \<and> pf_requestId f = i \<and> pf_type f = t \<and> pf_status f = PS_Ok)"
    if "await_response channel config startedAt i t receiver error e = Some y" for y
  proof (rule await_response.raw_induct [where P = "\<lambda>channel config startedAt i t receiver error e y.
      receiver_wf receiver \<longrightarrow> (\<forall>f. fst y = Inr f \<longrightarrow>
        frame_wf f \<and> pf_requestId f = i \<and> pf_type f = t \<and> pf_status f = PS_Ok)", OF _ that], goal_cases)
    case (1 rec channel config startedAt i t receiver error e y)
    obtain now e1 where now: "ch_now channel e = (now, e1)" by fastforce
    let ?elapsed = "elapsedMilliseconds startedAt now"
    let ?timeout = "if bufferedSize receiver = 0 then responseTimeoutMs config - ?elapsed
      else min (responseTimeoutMs config - ?elapsed) (cl_interByteTimeoutMs config)"
    obtain st byte error' e2 where read: "ch_readByte channel ?timeout error e1 = (st, byte, error', e2)"
      by (metis surj_pair)
    obtain now3 e3 where now3: "ch_now channel e2 = (now3, e3)" by fastforce
    obtain event receiver' where consumed: "SettingsStreamReceiver_consume byte
        (elapsedMilliseconds startedAt now3) receiver = (event, receiver')" by fastforce
    have ends: "(\<exists>m. fst y = Inl m) \<or> judge_event i t event = Some (fst y) \<or>
        rec channel config startedAt i t receiver' error' e3 = Some y"
    proof (cases "?elapsed \<ge> responseTimeoutMs config \<or> st \<noteq> CRS_Data")
      case True
      with 1(2) now read show ?thesis by (cases st) (auto simp: Let_def split: if_splits)
    next
      case False
      with 1(2) now read now3 consumed show ?thesis
        by (cases "judge_event i t event") (auto simp: Let_def)
    qed
    show ?case
    proof (intro impI)
      assume wf: "receiver_wf receiver"
      then have heard: "heard (take (bufferedSize receiver) (sr_buffer receiver)) receiver"
        by (simp add: heard_def)
      note frame = receiver_consume_heard(2) [OF heard consumed]
      have wf': "receiver_wf receiver'" using receiver_consume_wf(1) [OF wf] consumed by (metis snd_conv)
      show "\<forall>f. fst y = Inr f \<longrightarrow>
          frame_wf f \<and> pf_requestId f = i \<and> pf_type f = t \<and> pf_status f = PS_Ok"
        using ends frame wf' 1(1) judge_accepts [of i t event] by (elim disjE) auto
    qed
  qed
  with assms show ?thesis by fastforce
qed

lemma exchange_sound:
  assumes "exchange channel request expected (c, e) = Some (Inr f, c', e')"
  shows "frame_wf f \<and> pf_requestId f = nextRequestId c \<and> pf_type f = expected \<and> pf_status f = PS_Ok \<and>
    c' = snd (allocateRequestId c)"
proof -
  from assms obtain startedAt error e1 where
    "await_response channel (dc_config c') startedAt (nextRequestId c) expected
      (mkSettingsStreamReceiver \<lparr>interByteTimeoutMs = cl_interByteTimeoutMs (dc_config c')\<rparr>)
      error e1 = Some (Inr f, e')" and "c' = snd (allocateRequestId c)"
    by (auto simp: exchange_def allocateRequestId_def Let_def split: prod.splits if_splits)
  with await_response_sound [OF this(1) refl mkReceiver_wf] show ?thesis by simp
qed

text \<open>The identifiers run through 1 to 65535 and start again.\<close>

lemma allocateRequestId_cycle:
  "nextRequestId (((snd \<circ> allocateRequestId) ^^ n) (mkSettingsDeviceClient config)) = of_nat (n mod 65535 + 1)"
proof (induction n)
  case (Suc n)
  have "(of_nat (n mod 65535 + 2) :: u16) = 0 \<longleftrightarrow> n mod 65535 = 65534"
  proof
    assume "(of_nat (n mod 65535 + 2) :: u16) = 0"
    then have "unat (of_nat (n mod 65535 + 2) :: u16) = 0" by (simp only: unsigned_0)
    then have "(n mod 65535 + 2) mod 65536 = 0"
      unfolding unsigned_of_nat take_bit_eq_mod by simp
    moreover have "n mod 65535 < 65535" by simp
    moreover have "(n mod 65535 + 2) mod 65536 = n mod 65535 + 2" if "n mod 65535 < 65534"
      using that by (intro mod_less) simp
    ultimately show "n mod 65535 = 65534" by (cases "n mod 65535 < 65534") auto
  qed simp
  moreover have "Suc n mod 65535 = (if n mod 65535 = 65534 then 0 else n mod 65535 + 1)"
    by (simp add: mod_Suc)
  ultimately show ?case
    using Suc by (auto simp: allocateRequestId_def Let_def)
qed (simp add: mkSettingsDeviceClient_def)

section \<open>Properties\<close>

text \<open>The client always returns: over a channel whose clock does not run backwards and whose bytes
  take time to arrive, every request ends with a result, whatever the device sends and however long it
  goes on sending.\<close>

theorem client_always_returns:
  assumes "\<And>e t e'. ch_now channel e = (t, e') \<Longrightarrow> t \<le> fst (ch_now channel e')"
    and "\<And>timeout error e byte error' e'.
      ch_readByte channel timeout error e = (CRS_Data, byte, error', e') \<Longrightarrow>
      fst (ch_now channel e) < fst (ch_now channel e')"
  shows "client_probe channel s \<noteq> None \<and> client_read channel s \<noteq> None \<and>
    writeAndVerify channel settings s \<noteq> None"
proof -
  have ticking: "ticking_channel channel" using assms by (rule ticking_channel.intro)
  show ?thesis
    using ticking_channel.client_probe_returns [OF ticking] ticking_channel.client_read_returns [OF ticking]
      ticking_channel.writeAndVerify_returns [OF ticking]
    by (simp add: returns_def)
qed

text \<open>A device that sends nothing but zeros, one in a nanosecond, for ever.\<close>

definition babbling :: "int SettingsDeviceChannel" where
  "babbling =
     \<lparr>ch_clearInput = \<lambda>error e. (True, [], e), ch_writeAll = \<lambda>bytes timeout error e. (True, [], e),
      ch_readByte = \<lambda>timeout error e. (CRS_Data, 0, [], e + 1), ch_now = \<lambda>e. (e, e)\<rparr>"

theorem client_always_returns_witness:
  "writeAndVerify babbling UserSettings_default
     (mkSettingsDeviceClient SettingsDeviceClientConfig_default, 0) \<noteq> None"
  using client_always_returns [of babbling "(mkSettingsDeviceClient SettingsDeviceClientConfig_default, 0)"
      UserSettings_default]
  by (simp add: babbling_def)

end
