(* ===== verification/ClientLink.thy ===== *)
theory ClientLink
  imports SettingsLink DeviceClient
begin

text \<open>
  The host client and the device on one wire: the channel of the client is a line at whose other end the
  endpoint of the firmware runs, over its store.  The main result is what a verified write means: whatever
  it returns is true of the device.
\<close>

section \<open>The device at the end of a wire\<close>

text \<open>The environment of the endpoint is the device and the bytes on the wire to the host.\<close>

definition wired_store :: "'e UserSettingsStore \<Rightarrow> ('e \<times> u8 list) UserSettingsStore" where
  "wired_store store =
     \<lparr>store_load = \<lambda>s (e, wire). (case store_load store s e of (r, e) \<Rightarrow> (r, e, wire)),
      store_save = \<lambda>s (e, wire). (case store_save store s e of (r, e) \<Rightarrow> (r, e, wire))\<rparr>"

definition wire_transport :: "('e \<times> u8 list) SettingsTransportPort" where
  "wire_transport bytes = (\<lambda>(e, wire). (True, e, wire @ bytes))"

record 'e bench =
  bn_endpoint :: "('e \<times> u8 list) SettingsProtocolEndpoint"
  bn_access :: SettingsProtocolAccess
  bn_device :: 'e
  bn_wire :: "u8 list"
  bn_clock :: int

definition bench_channel :: "'e bench SettingsDeviceChannel" where
  "bench_channel =
     \<lparr>ch_clearInput = \<lambda>error b. (True, error, b\<lparr>bn_wire := []\<rparr>),
      ch_writeAll = \<lambda>bytes timeout error b.
        (case endpoint_run (bn_access b)
                (map (\<lambda>byte. (byte, of_int (bn_clock b div 1000000))) bytes)
                (bn_endpoint b) (bn_device b, bn_wire b) of
           (results, ep, device, wire) \<Rightarrow>
             (True, error, b\<lparr>bn_endpoint := ep, bn_device := device, bn_wire := wire,
                             bn_clock := bn_clock b + 1\<rparr>)),
      ch_readByte = \<lambda>timeout error b.
        (case bn_wire b of
           [] \<Rightarrow> (CRS_Timeout, 0, error, b)
         | byte # rest \<Rightarrow>
             (CRS_Data, byte, error, b\<lparr>bn_wire := rest, bn_clock := bn_clock b + 1\<rparr>)),
      ch_now = \<lambda>b. (bn_clock b, b)\<rparr>"

interpretation bench: ticking_channel bench_channel
  by unfold_locales (auto simp: bench_channel_def split: list.splits)

locale store_on_wire = settings_store
begin

text \<open>The endpoint is this store's, between frames, and sends on the wire.\<close>

definition bench_ready :: "'a bench \<Rightarrow> bool" where
  "bench_ready b \<longleftrightarrow> ep_store (bn_endpoint b) = wired_store store \<and>
     ep_transport (bn_endpoint b) = wire_transport \<and> receiver_wf (ep_receiver (bn_endpoint b)) \<and>
     bufferedSize (ep_receiver (bn_endpoint b)) = 0 \<and> usable (bn_device b)"

end

sublocale store_on_wire \<subseteq> wired: settings_store "wired_store store" "\<lambda>(e, wire). stored e"
    "\<lambda>(e, wire). usable e"
  by unfold_locales
    (auto simp: wired_store_def load_law split: option.splits prod.splits dest: save_law stored_law)

lemma handleRead_wired:
  "handleRead (wired_store store) request (e, wire) =
     (case handleRead store request e of (response, e) \<Rightarrow> (response, e, wire))"
  by (auto simp: handleRead_def wired_store_def Let_def split: prod.splits)

lemma handleWrite_wired:
  "handleWrite (wired_store store) request access (e, wire) =
     (case handleWrite store request access e of (response, e) \<Rightarrow> (response, e, wire))"
  by (auto simp: handleWrite_def wired_store_def Let_def split: prod.splits)

lemma handle_wired:
  "SettingsProtocolService_handle (wired_store store) identity request access (e, wire) =
     (case SettingsProtocolService_handle store identity request access e of
        (response, e) \<Rightarrow> (response, e, wire))"
proof (cases "responseType_of (pf_type request)")
  case (Some t)
  show ?thesis
    unfolding SettingsProtocolService_handle_def handleRead_wired handleWrite_wired Let_def
    by (simp only: Some option.case) (simp only: split: if_split, simp)
qed (simp add: SettingsProtocolService_handle_def)

section \<open>Receiving an answer\<close>

lemma elapsed_zero: "startedAt \<le> now \<Longrightarrow> now < startedAt + 1000000 \<Longrightarrow> elapsedMilliseconds startedAt now = 0"
  by (simp add: elapsedMilliseconds_def Let_def)

lemma await_frame:
  assumes "frame_wf f" and "validateClientConfig config"
  shows "receiving f k receiver \<Longrightarrow> k < frame_size f \<Longrightarrow> lastByteTimeMs receiver = 0 \<Longrightarrow>
    bn_wire b = drop k (take (frame_size f) (frame_image f)) \<Longrightarrow> startedAt \<le> bn_clock b \<Longrightarrow>
    bn_clock b + int (frame_size f - k) < startedAt + 1000000 \<Longrightarrow>
    await_response bench_channel config startedAt i t receiver error b =
      Some (the (judge_event i t (frame_ready f)),
        b\<lparr>bn_wire := [], bn_clock := bn_clock b + int (frame_size f - k)\<rparr>)"
proof (induction "frame_size f - k" arbitrary: k receiver b)
  case (Suc d)
  let ?n = "frame_size f" and ?i = "frame_image f"
  have img: "length ?i = 56" "?n \<le> 56"
    using assms(1) frame_image_facts(1) [of f, OF _ refl] by (simp_all add: frame_wf_def frame_size_def)
  have wire: "bn_wire b = ?i ! k # drop (Suc k) (take ?n ?i)"
    using Suc.prems(2,4) img by (simp add: Cons_nth_drop_Suc [symmetric])
  obtain event r1 where c: "SettingsStreamReceiver_consume (?i ! k) 0 receiver = (event, r1)" by fastforce
  have "\<not> SettingsStreamReceiver_expired 0 receiver"
    using Suc.prems(3) by (simp add: SettingsStreamReceiver_expired_def)
  note step = receiver_consume_step [OF Suc.prems(1) assms(1) Suc.prems(2) this c]
  let ?b = "b\<lparr>bn_wire := drop (Suc k) (take ?n ?i), bn_clock := bn_clock b + 1\<rparr>"
  have "responseTimeoutMs config \<noteq> 0"
    using assms(2) by (auto simp: validateClientConfig_def word_neq_0_conv)
  moreover have "elapsedMilliseconds startedAt (bn_clock b) = 0"
    "elapsedMilliseconds startedAt (bn_clock b + 1) = 0"
    using Suc.prems by (intro elapsed_zero; simp)+
  ultimately have unfolded: "await_response bench_channel config startedAt i t receiver error b =
      (case judge_event i t event of
         None \<Rightarrow> await_response bench_channel config startedAt i t r1 error ?b
       | Some result \<Rightarrow> Some (result, ?b))"
    by (subst await_response.simps) (simp add: bench_channel_def wire c word_gt_0_no)
  show ?case
  proof (cases "Suc k < ?n")
    case True
    with step have r1: "event = no_event" "receiving f (Suc k) r1" "lastByteTimeMs r1 = 0" by simp_all
    have "await_response bench_channel config startedAt i t r1 error ?b =
      Some (the (judge_event i t (frame_ready f)),
        ?b\<lparr>bn_wire := [], bn_clock := bn_clock ?b + int (?n - Suc k)\<rparr>)"
      by (rule Suc.hyps(1)) (use Suc.prems Suc.hyps(2) True r1 in \<open>auto\<close>)
    then show ?thesis
      using unfolded r1(1) True by (simp add: judge_event_def stream_event_def of_nat_diff)
  next
    case False
    with step Suc.prems(2) have "event = frame_ready f" "Suc k = ?n" by simp_all
    moreover have "judge_event i t (frame_ready f) \<noteq> None"
      by (simp add: judge_event_def frame_ready_def)
    ultimately show ?thesis using unfolded img by auto
  qed
qed simp

section \<open>An exchange with the device\<close>

lemma timely_constant: "timely timeout t (replicate k t)"
  by (induction k) simp_all

text \<open>The endpoint answers a request that arrives whole with the answer of the service.\<close>

context store_on_wire
begin

lemma endpoint_answers:
  assumes "bench_ready b" and "frame_wf request"
    and "SettingsProtocolService_handle store (ep_identity (bn_endpoint b)) request (bn_access b)
      (bn_device b) = (response, d')" and "frame_wf response"
  shows "\<exists>results r'. endpoint_run (bn_access b)
      (map (\<lambda>byte. (byte, now)) (take (frame_size request) (frame_image request)))
      (bn_endpoint b) (bn_device b, []) =
      (results, (bn_endpoint b)\<lparr>ep_receiver := r'\<rparr>,
       d', take (frame_size response) (frame_image response)) \<and>
    receiver_wf r' \<and> bufferedSize r' = 0"
proof -
  let ?n = "frame_size request" and ?r = "ep_receiver (bn_endpoint b)"
  have ready: "receiver_wf ?r" "bufferedSize ?r = 0 \<or> SettingsStreamReceiver_expired now ?r"
    "ep_store (bn_endpoint b) = wired_store store" "ep_transport (bn_endpoint b) = wire_transport"
    using assms(1) by (simp_all add: bench_ready_def)
  have img: "length (frame_image request) = 56" "?n \<le> 56" "16 \<le> ?n"
    using assms(2) frame_image_facts(1) [of request, OF _ refl]
    by (simp_all add: frame_wf_def frame_size_def)
  have "length (replicate (?n - 1) now) = ?n - 1" by simp
  from receive_frame [OF assms(2) ready(1,2) this timely_constant] obtain first r' where
    run: "stream_run (zip (take ?n (frame_image request)) (now # replicate (?n - 1) now)) ?r =
      ((first # replicate (?n - 1 - 1) no_event) @ [frame_ready request], r')"
    and first: "sev_type first \<in> {SE_None, SE_TimedOut}" and empty: "bufferedSize r' = 0"
    by auto
  have "\<forall>event \<in> set (first # replicate (?n - 1 - 1) no_event). silent event"
    using first by (auto simp: silent_def stream_event_def)
  from endpoint_run_frame [OF run this, of "bn_access b" "(bn_device b, [])"] obtain quiet result e' where
    quiet: "endpoint_run (bn_access b)
      (zip (take ?n (frame_image request)) (now # replicate (?n - 1) now)) (bn_endpoint b) (bn_device b, []) =
        (quiet @ [result], (bn_endpoint b)\<lparr>ep_receiver := r'\<rparr>, e')"
    and handled: "handleStreamEvent (frame_ready request) (bn_access b) (bn_endpoint b) (bn_device b, []) =
      (result, e')" by blast
  have "e' = (d', take (frame_size response) (frame_image response))"
    using handled assms(3) ready(3,4) encode_frame [of response] assms(4)
    by (simp add: handleStreamEvent_def frame_ready_def handle_wired wire_transport_def frame_wf_def)
  moreover have "zip (take ?n (frame_image request)) (now # replicate (?n - 1) now) =
      map (\<lambda>byte. (byte, now)) (take ?n (frame_image request))"
    using img by (intro nth_equalityI) (auto simp: nth_Cons')
  moreover have "receiver_wf r'"
    using stream_run_wf [OF ready(1)] run by (metis snd_conv)
  ultimately show ?thesis using quiet empty by auto
qed

lemma bench_exchange:
  assumes "bench_ready b" and "validateClientConfig (dc_config c)"
    and "frame_wf (request\<lparr>pf_requestId := nextRequestId c\<rparr>)"
    and "SettingsProtocolService_handle store (ep_identity (bn_endpoint b))
      (request\<lparr>pf_requestId := nextRequestId c\<rparr>) (bn_access b) (bn_device b) = (response, d')"
    and "frame_wf response" and "usable d'"
  shows "\<exists>b'. exchange bench_channel request expected (c, b) =
      Some (the (judge_event (nextRequestId c) expected (frame_ready response)),
        snd (allocateRequestId c), b') \<and>
    bench_ready b' \<and> bn_device b' = d' \<and> bn_access b' = bn_access b \<and>
    ep_identity (bn_endpoint b') = ep_identity (bn_endpoint b)"
proof -
  let ?q = "request\<lparr>pf_requestId := nextRequestId c\<rparr>"
  let ?now = "of_int (bn_clock b div 1000000)"
  from endpoint_answers [OF assms(1,3,4,5), of ?now] obtain results r' where
    run: "endpoint_run (bn_access b) (map (\<lambda>byte. (byte, ?now)) (take (frame_size ?q) (frame_image ?q)))
      (bn_endpoint b) (bn_device b, []) =
      (results, (bn_endpoint b)\<lparr>ep_receiver := r'\<rparr>, d',
       take (frame_size response) (frame_image response))"
    and r': "receiver_wf r'" "bufferedSize r' = 0" by blast
  let ?b1 = "b\<lparr>bn_endpoint := (bn_endpoint b)\<lparr>ep_receiver := r'\<rparr>, bn_device := d',
    bn_wire := take (frame_size response) (frame_image response), bn_clock := bn_clock b + 1\<rparr>"
  let ?config = "dc_config c"
  let ?receiver = "mkSettingsStreamReceiver \<lparr>interByteTimeoutMs = cl_interByteTimeoutMs ?config\<rparr>"
  have size: "frame_size response \<le> 56" "16 \<le> frame_size response"
    using assms(5) by (simp_all add: frame_wf_def frame_size_def)
  have "receiving response 0 ?receiver" using mkReceiver_wf by (simp add: receiving_def mkSettingsStreamReceiver_def)
  moreover have "lastByteTimeMs ?receiver = 0" by (simp add: mkSettingsStreamReceiver_def)
  ultimately have await: "await_response bench_channel ?config (bn_clock b + 1) (nextRequestId c) expected
      ?receiver [] ?b1 = Some (the (judge_event (nextRequestId c) expected (frame_ready response)),
        ?b1\<lparr>bn_wire := [], bn_clock := bn_clock ?b1 + int (frame_size response)\<rparr>)"
    using size by (subst await_frame [OF assms(5,2), of 0]) simp_all
  have "SettingsProtocolCodec_encode ?q = (True, frame_image ?q, frame_size ?q)"
    using encode_frame [of ?q] assms(3) by (simp add: frame_wf_def)
  then have "exchange bench_channel request expected (c, b) =
      Some (the (judge_event (nextRequestId c) expected (frame_ready response)),
        snd (allocateRequestId c),
        ?b1\<lparr>bn_wire := [], bn_clock := bn_clock ?b1 + int (frame_size response)\<rparr>)"
    using assms(2) run await
    by (simp add: exchange_def allocateRequestId_def Let_def bench_channel_def)
  then show ?thesis using assms(1,6) r' by (auto simp: bench_ready_def)
qed

lemma bench_request:
  assumes "bench_ready b" and "\<And>i. frame_wf (request\<lparr>pf_requestId := i\<rparr>)"
  obtains
    (invalid) "\<not> validateClientConfig (dc_config c)"
      "exchange bench_channel request expected (c, b) =
        Some (Inl ''temporisations de liaison invalides'', c, b)"
  | (answered) response b' where "validateClientConfig (dc_config c)"
      "SettingsProtocolService_handle store (ep_identity (bn_endpoint b))
        (request\<lparr>pf_requestId := nextRequestId c\<rparr>) (bn_access b) (bn_device b) = (response, bn_device b')"
      "exchange bench_channel request expected (c, b) =
        Some (the (judge_event (nextRequestId c) expected (frame_ready response)),
          snd (allocateRequestId c), b')"
      "bench_ready b'" "bn_access b' = bn_access b"
      "ep_identity (bn_endpoint b') = ep_identity (bn_endpoint b)"
      "pf_requestId response = nextRequestId c"
proof (cases "validateClientConfig (dc_config c)")
  case True
  let ?q = "request\<lparr>pf_requestId := nextRequestId c\<rparr>"
  obtain response d' where h: "SettingsProtocolService_handle store (ep_identity (bn_endpoint b)) ?q
      (bn_access b) (bn_device b) = (response, d')" by fastforce
  have "usable (bn_device b)" "length (pf_payload ?q) = 40"
    using assms by (simp_all add: bench_ready_def frame_wf_def)
  from handle_law [OF this h] have law: "usable d'" "frame_wf response"
    "pf_requestId response = nextRequestId c" by simp_all
  from bench_exchange [OF assms(1) True assms(2) h law(2,1), of expected] obtain b' where
    "exchange bench_channel request expected (c, b) =
      Some (the (judge_event (nextRequestId c) expected (frame_ready response)),
        snd (allocateRequestId c), b')" "bench_ready b'" "bn_device b' = d'"
    "bn_access b' = bn_access b" "ep_identity (bn_endpoint b') = ep_identity (bn_endpoint b)" by blast
  with True h law(3) answered show ?thesis by blast
qed (use invalid in \<open>simp add: exchange_def\<close>)

text \<open>The probe and the read leave what is stored, and the read gives it.\<close>

lemma request_frames_wf:
  "frame_wf (SettingsProtocolFrame_default\<lparr>pf_type := MT_IdentifyRequest, pf_requestId := i\<rparr>)"
  "frame_wf (SettingsProtocolFrame_default\<lparr>pf_type := MT_ReadRequest, pf_requestId := i\<rparr>)"
  "frame_wf (write_request (payload_image s)\<lparr>pf_requestId := i\<rparr>)"
  by (simp_all add: frame_wf_def SettingsMessageType_of_def SettingsProtocolStatus_of_def
      SettingsProtocolFrame_default_def write_request_def UserSettingsPayloadSize_def blank_payload_def)

lemma unchanged_by_others:
  assumes "bench_ready b" and "length (pf_payload request) = 40" and "pf_type request \<noteq> MT_WriteRequest"
    and "SettingsProtocolService_handle store (ep_identity (bn_endpoint b)) request (bn_access b)
      (bn_device b) = (response, d')"
  shows "stored d' = stored (bn_device b)"
  using handle_law [OF _ assms(2,4)] assms(1,3) by (auto simp: bench_ready_def write_allowed_def)

lemma bench_probe:
  assumes "bench_ready b"
  shows "\<exists>r c' b'. client_probe bench_channel (c, b) = Some (r, c', b') \<and> bench_ready b' \<and>
    bn_access b' = bn_access b \<and> ep_identity (bn_endpoint b') = ep_identity (bn_endpoint b) \<and>
    stored (bn_device b') = stored (bn_device b) \<and> dc_config c' = dc_config c \<and>
    (validateClientConfig (dc_config c) \<and> authorized (bn_access b) \<and>
     SettingsHardwareTarget_of (SettingsHardwareTarget_byte
       (hardwareTarget (ep_identity (bn_endpoint b)))) = hardwareTarget (ep_identity (bn_endpoint b)) \<longrightarrow>
     r = Inr (ep_identity (bn_endpoint b)))"
  using assms request_frames_wf(1)
proof (cases rule: bench_request [where c = c and expected = MT_IdentifyResponse and
    request = "SettingsProtocolFrame_default\<lparr>pf_type := MT_IdentifyRequest\<rparr>"])
  case invalid
  with assms show ?thesis by (simp add: client_probe_def after_def)
next
  case (answered response b')
  let ?q = "SettingsProtocolFrame_default\<lparr>pf_type := MT_IdentifyRequest, pf_requestId := nextRequestId c\<rparr>"
  let ?identity = "ep_identity (bn_endpoint b)"
  have "length (pf_payload ?q) = 40" by (simp add: SettingsProtocolFrame_default_def)
  from unchanged_by_others [OF assms this _ answered(2)]
  have same: "stored (bn_device b') = stored (bn_device b)" by simp
  obtain ok p where enc: "encodeSettingsDeviceIdentity ?identity blank_payload = (ok, p)" by fastforce
  have "response = (responseFor ?q MT_IdentifyResponse PS_Ok)\<lparr>pf_payload := p, pf_payloadSize := 12\<rparr>"
    if "authorized (bn_access b)"
    using answered(2) that identity_payload [OF enc] enc
    by (simp add: SettingsProtocolService_handle_def responseType_of_def handleIdentify_def
        SettingsDeviceIdentityPayloadSize_def SettingsProtocolFrame_default_def responseFor_def)
  with answered same decode_identity_payload [OF enc] show ?thesis
    by (auto simp: client_probe_def after_def judge_event_def frame_ready_def allocateRequestId_def
        Let_def responseFor_def SettingsProtocolFrame_default_def split: sum.splits prod.splits bool.splits)
qed

lemma bench_read:
  assumes "bench_ready b" and "validateClientConfig (dc_config c)" and "authorized (bn_access b)"
    and "stored (bn_device b) = Some s"
  shows "\<exists>c' b'. client_read bench_channel (c, b) = Some (Inr s, c', b') \<and> bench_ready b' \<and>
    stored (bn_device b') = Some s"
  using assms(1) request_frames_wf(2)
proof (cases rule: bench_request [where c = c and expected = MT_ReadResponse and
    request = "SettingsProtocolFrame_default\<lparr>pf_type := MT_ReadRequest\<rparr>"])
  case invalid
  with assms show ?thesis by simp
next
  case (answered response b')
  let ?q = "SettingsProtocolFrame_default\<lparr>pf_type := MT_ReadRequest, pf_requestId := nextRequestId c\<rparr>"
  have usable: "usable (bn_device b)" using assms(1) by (simp add: bench_ready_def)
  have "handleRead store ?q (bn_device b) = (response, bn_device b')"
    using answered(2) assms(3)
    by (simp add: SettingsProtocolService_handle_def responseType_of_def SettingsProtocolFrame_default_def)
  then have "response = (responseFor ?q MT_ReadResponse PS_Ok)
      \<lparr>pf_payload := payload_image s, pf_payloadSize := 40\<rparr>" and "bn_device b' = bn_device b"
    using read_law [OF usable, of ?q] assms(4) by simp_all
  moreover have "settings_in_range s" using stored_law [OF usable assms(4)] .
  ultimately show ?thesis
    using answered assms(4)
    by (simp add: client_read_def after_def judge_event_def frame_ready_def UserSettingsPayloadSize_def
        responseFor_def decode_payload_image)
qed

text \<open>A write is accepted exactly when it was stored.\<close>

lemma bench_write:
  assumes "bench_ready b" and "settings_in_range s" and "request = write_request (payload_image s)"
  shows "\<exists>r c' b'. exchange bench_channel request MT_WriteResponse (c, b) = Some (r, c', b') \<and>
    bench_ready b' \<and> bn_access b' = bn_access b \<and> dc_config c' = dc_config c \<and>
    (case r of Inl _ \<Rightarrow> stored (bn_device b') = stored (bn_device b)
     | Inr response \<Rightarrow> stored (bn_device b') = Some s \<and> pf_payloadSize response = 0 \<and>
         authorized (bn_access b) \<and> validateClientConfig (dc_config c)) \<and>
    (validateClientConfig (dc_config c) \<and> authorized (bn_access b) \<and>
     acc_controllerState (bn_access b) = CS_Idle \<and> (\<exists>error. r = Inl error) \<longrightarrow>
     r = Inl ''requete refusee par le boitier : storage_failure'')"
  using assms(1) request_frames_wf(3) [where s = s, folded assms(3)]
proof (cases rule: bench_request [where c = c and expected = MT_WriteResponse and request = request])
  case invalid
  with assms show ?thesis by simp
next
  case (answered response b')
  let ?q = "request\<lparr>pf_requestId := nextRequestId c\<rparr>"
  have usable: "usable (bn_device b)" using assms(1) by (simp add: bench_ready_def)
  have q: "length (pf_payload ?q) = 40" "pf_payload ?q = payload_image s" "pf_type ?q = MT_WriteRequest"
    "pf_status ?q = PS_Ok" "unat (pf_payloadSize ?q) = 40"
    by (simp_all add: assms(3) write_request_def UserSettingsPayloadSize_def SettingsProtocolFrame_default_def)
  show ?thesis
  proof (cases "write_allowed ?q (bn_access b)")
    case True
    then have "handleWrite store ?q (bn_access b) (bn_device b) = (response, bn_device b')"
      using answered(2) q
      by (simp add: SettingsProtocolService_handle_def responseType_of_def write_allowed_def
          UserSettingsPayloadSize_def)
    note handled = this
    from write_law [OF usable True q(1) this] obtain st where
      response: "response = responseFor ?q MT_WriteResponse st"
      and effect: "if st = PS_Ok then \<exists>t. stored (bn_device b') = Some t \<and> settings_in_range t \<and>
          pf_payload ?q = payload_image t
        else st \<in> {PS_InvalidSettings, PS_StorageFailure} \<and>
          stored (bn_device b') = stored (bn_device b)" by blast
    have "decodeUserSettingsPayload (pf_payload ?q) (unat (pf_payloadSize ?q)) UserSettings_default = (True, s)"
      using q(2,5) decode_payload_image [OF assms(2)] by simp
    then have "pf_status response \<in> {PS_Ok, PS_StorageFailure}"
      using handled True
      by (auto simp: handleWrite_def write_allowed_def responseFor_def split: prod.splits if_splits)
    then have st: "st \<in> {PS_Ok, PS_StorageFailure}" using response by (simp add: responseFor_def)
    have "stored (bn_device b') = Some s" if "st = PS_Ok"
    proof -
      from effect that obtain t where "stored (bn_device b') = Some t" "settings_in_range t"
        "payload_image s = payload_image t" using q(2) by auto
      moreover from this have "t = s" using assms(2) decoded_payload_image by metis
      ultimately show ?thesis by simp
    qed
    with st effect answered response True show ?thesis
      by (auto simp: judge_event_def frame_ready_def responseFor_def allocateRequestId_def Let_def
          SettingsProtocolFrame_default_def write_allowed_def)
  next
    case False
    have refused: "pf_status response \<noteq> PS_Ok \<and> bn_device b' = bn_device b"
      using answered(2)
    proof (cases rule: handle_cases)
      case (refused t st)
      then show ?thesis by (simp add: responseFor_def)
    qed (use q False in \<open>auto simp: read_allowed_def\<close>)
    have "\<not> (authorized (bn_access b) \<and> acc_controllerState (bn_access b) = CS_Idle)"
      using False q by (simp add: write_allowed_def)
    with refused answered show ?thesis
      by (auto simp: judge_event_def frame_ready_def allocateRequestId_def Let_def)
  qed
qed

lemma bench_verified_write:
  assumes "bench_ready b"
  shows "\<exists>r c' b'. writeAndVerify bench_channel s (c, b) = Some (r, c', b') \<and> bench_ready b' \<and>
    (case r of Inl _ \<Rightarrow> stored (bn_device b') = stored (bn_device b)
     | Inr _ \<Rightarrow> settings_in_range s \<and> stored (bn_device b') = Some s) \<and>
    (settings_in_range s \<and> validateClientConfig (dc_config c) \<and> authorized (bn_access b) \<and>
     acc_controllerState (bn_access b) = CS_Idle \<and>
     (\<exists>target. ep_identity (bn_endpoint b) = settingsPrototypeIdentity target \<and>
       SettingsHardwareTarget_of (SettingsHardwareTarget_byte target) = target) \<longrightarrow>
     r = Inr () \<or> r = Inl ''requete refusee par le boitier : storage_failure'')"
proof (cases "settings_in_range s")
  case False
  with assms show ?thesis by (simp add: writeAndVerify_def valid_settings_iff)
next
  case range: True
  let ?capable = "\<lambda>identity. hasCapability identity SC_SettingsWrite \<and> hasCapability identity SC_PersistentSettings"
  let ?request = "write_request (payload_image s)"
  have enc: "encodeUserSettingsPayload s blank_payload = (True, payload_image s)"
    using encode_valid [OF range] by simp
  from bench_probe [OF assms, of c] obtain r1 c1 b1 where probe:
    "client_probe bench_channel (c, b) = Some (r1, c1, b1)" "bench_ready b1" "bn_access b1 = bn_access b"
    "stored (bn_device b1) = stored (bn_device b)" "dc_config c1 = dc_config c"
    "validateClientConfig (dc_config c) \<and> authorized (bn_access b) \<and>
     SettingsHardwareTarget_of (SettingsHardwareTarget_byte
       (hardwareTarget (ep_identity (bn_endpoint b)))) = hardwareTarget (ep_identity (bn_endpoint b)) \<longrightarrow>
     r1 = Inr (ep_identity (bn_endpoint b))" by blast
  from bench_write [OF probe(2) range refl, of c1] obtain r2 c2 b2 where wrote:
    "exchange bench_channel ?request MT_WriteResponse (c1, b1) = Some (r2, c2, b2)" "bench_ready b2"
    "bn_access b2 = bn_access b1" "dc_config c2 = dc_config c1"
    "case r2 of Inl _ \<Rightarrow> stored (bn_device b2) = stored (bn_device b1)
     | Inr response \<Rightarrow> stored (bn_device b2) = Some s \<and> pf_payloadSize response = 0 \<and>
         authorized (bn_access b1) \<and> validateClientConfig (dc_config c1)"
    "validateClientConfig (dc_config c1) \<and> authorized (bn_access b1) \<and>
     acc_controllerState (bn_access b1) = CS_Idle \<and> (\<exists>error. r2 = Inl error) \<longrightarrow>
     r2 = Inl ''requete refusee par le boitier : storage_failure''" by blast
  have read: "\<exists>c3 b3. client_read bench_channel (c2, b2) = Some (Inr s, c3, b3) \<and> bench_ready b3 \<and>
      stored (bn_device b3) = Some s" if "r2 = Inr response" for response
    using bench_read [OF wrote(2), of c2 s] wrote that by simp
  have capable: "?capable (settingsPrototypeIdentity target)" for target
    by (simp add: hasCapability_def settingsPrototypeIdentity_def)
  have unfolded: "writeAndVerify bench_channel s (c, b) =
      (case r1 of Inl e \<Rightarrow> Some (Inl (''identification du boitier impossible : '' @ e), c1, b1)
       | Inr identity \<Rightarrow>
           if \<not> ?capable identity
           then Some (Inl ''le boitier n'annonce pas l'ecriture persistante des reglages'', c1, b1)
           else (case r2 of Inl e \<Rightarrow> Some (Inl e, c2, b2)
             | Inr response \<Rightarrow> (case client_read bench_channel (c2, b2) of
                 Some (Inr verified, s3) \<Rightarrow> Some (Inr (), s3) | _ \<Rightarrow> None)))"
  proof (cases r1)
    case (Inr identity)
    have "(if pf_payloadSize response \<noteq> 0
        then Some (Inl ''payload inattendu dans la reponse d'ecriture'', c2, b2)
        else after (on_error (\<lambda>error. ''ecriture acceptee mais relecture impossible : '' @ error)
               (client_read bench_channel (c2, b2)))
             (\<lambda>verified s'. if \<not> userSettingsEqual s verified
               then Some (Inl ''la relecture du boitier differe de la configuration envoyee'', s')
               else Some (Inr (), s'))) =
        (case client_read bench_channel (c2, b2) of
           Some (Inr verified, s3) \<Rightarrow> Some (Inr (), s3) | _ \<Rightarrow> None)" if "r2 = Inr response" for response
      using read [OF that] wrote(5) that by (auto simp: after_def on_error_def userSettingsEqual_iff)
    with Inr range probe(1) wrote(1) enc show ?thesis
      by (cases r2) (simp_all add: writeAndVerify_def valid_settings_iff after_def on_error_def)
  qed (use range probe(1) in \<open>simp add: writeAndVerify_def valid_settings_iff after_def on_error_def\<close>)
  show ?thesis
  proof (cases r1)
    case (Inl e)
    with unfolded probe show ?thesis by (auto simp: settingsPrototypeIdentity_def)
  next
    case (Inr identity)
    show ?thesis
    proof (cases "?capable identity")
      case False
      with unfolded probe Inr capable show ?thesis by (auto simp: settingsPrototypeIdentity_def)
    next
      case True
      show ?thesis
      proof (cases r2)
        case (Inl e)
        with unfolded probe wrote Inr True show ?thesis by auto
      next
        case (Inr response)
        from read [OF this] obtain c3 b3 where "client_read bench_channel (c2, b2) = Some (Inr s, c3, b3)"
          "bench_ready b3" "stored (bn_device b3) = Some s" by blast
        with unfolded \<open>r1 = Inr identity\<close> Inr True range show ?thesis by simp
      qed
    qed
  qed
qed

end

text \<open>The store of the firmware, the journal in NVS, at the end of the wire.\<close>

interpretation nvs_wired: store_on_wire "journaled_store (nvs_byte_storage api)"
    "\<lambda>(st, w). stored_in (nvs_committed st)" nvs.holds_journal
proof -
  have eq: "(\<lambda>e. stored_in ((\<lambda>(st, w). nvs_committed st) e)) = (\<lambda>(st, w). stored_in (nvs_committed st))"
    by auto
  show "store_on_wire (journaled_store (nvs_byte_storage api))
      (\<lambda>(st, w). stored_in (nvs_committed st)) nvs.holds_journal"
    using nvs.journal.settings_store_axioms [of api] unfolding store_on_wire_def eq .
qed

text \<open>What a verified write to the firmware leads to.\<close>

lemma nvs_verified_write:
  assumes "ep_store (bn_endpoint b) = wired_store (journaled_store (nvs_byte_storage api))"
    and "ep_transport (bn_endpoint b) = wire_transport"
    and "ep_receiver (bn_endpoint b) = snd (stream_run history (mkSettingsStreamReceiver config))"
    and "bufferedSize (ep_receiver (bn_endpoint b)) = 0"
    and "bn_device b = (st, w)" and "nvs_open (st, w)" and "\<not> nvs_dirty st"
  shows "\<exists>r c' b'. writeAndVerify bench_channel s (c, b) = Some (r, c', b') \<and>
    (case r of Inl _ \<Rightarrow> loads api (bn_device b') = loads api (st, w)
     | Inr _ \<Rightarrow> settings_in_range s \<and> loads api (bn_device b') = (True, s)) \<and>
    (settings_in_range s \<and> validateClientConfig (dc_config c) \<and> authorized (bn_access b) \<and>
     acc_controllerState (bn_access b) = CS_Idle \<and>
     ep_identity (bn_endpoint b) = settingsPrototypeIdentity HT_Esp32S3DevKitC1 \<longrightarrow>
     r = Inr () \<or> r = Inl ''requete refusee par le boitier : storage_failure'')"
proof -
  have usable: "nvs.holds_journal (st, w)" using assms(6,7) by (rule nvs_clean)
  have "receiver_wf (ep_receiver (bn_endpoint b))"
    using stream_run_wf [OF mkReceiver_wf [of config], of history] assms(3) by simp
  with assms usable have "nvs_wired.bench_ready api b" by (simp add: nvs_wired.bench_ready_def)
  from nvs_wired.bench_verified_write [OF this, of s c] obtain r c' b' where
    result: "writeAndVerify bench_channel s (c, b) = Some (r, c', b')" "nvs_wired.bench_ready api b'"
    "case r of Inl _ \<Rightarrow> (case bn_device b' of (st, w) \<Rightarrow> stored_in (nvs_committed st)) =
        (case bn_device b of (st, w) \<Rightarrow> stored_in (nvs_committed st))
     | Inr _ \<Rightarrow> settings_in_range s \<and> (case bn_device b' of (st, w) \<Rightarrow> stored_in (nvs_committed st)) = Some s"
    "settings_in_range s \<and> validateClientConfig (dc_config c) \<and> authorized (bn_access b) \<and>
     acc_controllerState (bn_access b) = CS_Idle \<and>
     (\<exists>target. ep_identity (bn_endpoint b) = settingsPrototypeIdentity target \<and>
       SettingsHardwareTarget_of (SettingsHardwareTarget_byte target) = target) \<longrightarrow>
     r = Inr () \<or> r = Inl ''requete refusee par le boitier : storage_failure''" by blast
  obtain st' w' where b': "bn_device b' = (st', w')" by fastforce
  have "nvs.holds_journal (st', w')"
    using result(2) b' by (simp add: nvs_wired.bench_ready_def)
  note loaded = loads_stored [OF this, of api] loads_stored [OF usable, of api]
  have "SettingsHardwareTarget_of (SettingsHardwareTarget_byte HT_Esp32S3DevKitC1) = HT_Esp32S3DevKitC1"
    by (simp add: SettingsHardwareTarget_of_def)
  with result loaded b' assms(5) show ?thesis by (cases r) auto
qed

section \<open>Properties\<close>



end
