(* ===== verification/HostConsole.thy ===== *)
theory HostConsole
  imports HostText
begin

text \<open>
  The console of the host programs: the text still to be read from the standard input and what was
  written to the two output streams; reading a line (\<^verbatim>\<open>std::getline\<close> on \<^verbatim>\<open>std::cin\<close>) and the case
  conversions of the C locale.
\<close>

section \<open>The streams\<close>

record console =
  con_in :: string
  con_out :: string
  con_err :: string

definition console_on :: "string \<Rightarrow> console" where
  "console_on input = \<lparr>con_in = input, con_out = [], con_err = []\<rparr>"

definition print :: "string \<Rightarrow> console \<Rightarrow> console" where
  "print s c = c\<lparr>con_out := con_out c @ s\<rparr>"

definition print_error :: "string \<Rightarrow> console \<Rightarrow> console" where
  "print_error s c = c\<lparr>con_err := con_err c @ s\<rparr>"

definition line :: "string list \<Rightarrow> string" where
  "line parts = concat parts @ [newline]"

text \<open>A line of the input without its newline; none at the end of the input, for ever.\<close>

definition console_getline :: "console \<Rightarrow> string option \<times> console" where
  "console_getline c =
     (if con_in c = [] then (None, c)
      else (let l = takeWhile (\<lambda>x. x \<noteq> newline) (con_in c) in
            (Some l, c\<lparr>con_in := drop (length l + 1) (con_in c)\<rparr>)))"

section \<open>Case conversion\<close>

definition char_upper :: "char \<Rightarrow> char" where
  "char_upper c = (let n = of_char c :: nat in if 97 \<le> n \<and> n \<le> 122 then char_of (n - 32) else c)"

definition char_lower :: "char \<Rightarrow> char" where
  "char_lower c = (let n = of_char c :: nat in if 65 \<le> n \<and> n \<le> 90 then char_of (n + 32) else c)"

section \<open>What reading and writing keep\<close>

lemma print_simps [simp]:
  "con_in (print s c) = con_in c" "con_err (print s c) = con_err c" "con_out (print s c) = con_out c @ s"
  "con_in (print_error s c) = con_in c" "con_out (print_error s c) = con_out c"
  "con_err (print_error s c) = con_err c @ s"
  by (simp_all add: print_def print_error_def)

lemma console_on_simps [simp]:
  "con_in (console_on t) = t" "con_out (console_on t) = []" "con_err (console_on t) = []"
  by (simp_all add: console_on_def)

lemma getline_shortens: "console_getline c = (Some l, c') \<Longrightarrow> length (con_in c') < length (con_in c)"
  by (auto simp: console_getline_def Let_def split: if_splits)

text \<open>The lines that successive reads deliver are the lines of the text.\<close>

lemma getline_line:
  "newline \<notin> set l \<Longrightarrow> con_in c = l @ newline # rest \<Longrightarrow>
     console_getline c = (Some l, c\<lparr>con_in := rest\<rparr>)"
  by (simp add: console_getline_def Let_def takeWhile_append)

lemma getline_none [simp]: "con_in c = [] \<Longrightarrow> console_getline c = (None, c)"
  by (simp add: console_getline_def)

end
