(* ===== verification/SerialChannel.thy ===== *)
theory SerialChannel
  imports HostConsole DeviceClient
begin

text \<open>
  The serial port of the host programs (\<^verbatim>\<open>tools/serial_settings_channel.hpp/.cpp\<close>), the branch for
  Windows: opening and configuring a port, the byte channel of the settings client on it, and the list of
  ports.  The functions of the Win32 API that the code calls are the fields of \<open>serial_api\<close>, over an
  environment of any type; what is proved holds for every such interface, or for those that keep the
  documented behaviour a theorem names.
\<close>

section \<open>The Win32 interface\<close>

type_synonym HANDLE = u64

definition nullptr :: HANDLE where "nullptr = 0"
definition INVALID_HANDLE_VALUE :: HANDLE where "INVALID_HANDLE_VALUE = - 1"

definition GENERIC_READ :: u32 where "GENERIC_READ = 0x80000000"
definition GENERIC_WRITE :: u32 where "GENERIC_WRITE = 0x40000000"
definition OPEN_EXISTING :: u32 where "OPEN_EXISTING = 3"
definition FILE_ATTRIBUTE_NORMAL :: u32 where "FILE_ATTRIBUTE_NORMAL = 0x80"
definition MAXDWORD :: u32 where "MAXDWORD = - 1"
definition PURGE_ALL :: u32 where "PURGE_ALL = 2 OR 8 OR 1 OR 4"
definition FORMAT_MESSAGE_FLAGS :: u32 where "FORMAT_MESSAGE_FLAGS = 0x100 OR 0x1000 OR 0x200"
definition ERROR_SUCCESS :: u32 where "ERROR_SUCCESS = 0"
definition ERROR_INSUFFICIENT_BUFFER :: u32 where "ERROR_INSUFFICIENT_BUFFER = 122"

record DCB =
  DCBlength :: u32
  BaudRate :: u32
  ByteSize :: u8
  Parity :: u8
  StopBits :: u8
  fBinary :: bool
  fParity :: bool
  fOutxCtsFlow :: bool
  fOutxDsrFlow :: bool
  fDtrControl :: u32
  fDsrSensitivity :: bool
  fTXContinueOnXoff :: bool
  fOutX :: bool
  fInX :: bool
  fErrorChar :: bool
  fNull :: bool
  fRtsControl :: u32
  fAbortOnError :: bool

record COMMTIMEOUTS =
  ReadIntervalTimeout :: u32
  ReadTotalTimeoutMultiplier :: u32
  ReadTotalTimeoutConstant :: u32
  WriteTotalTimeoutMultiplier :: u32
  WriteTotalTimeoutConstant :: u32

text \<open>
  \<open>w_WriteFile\<close> gets the bytes from the current position on and tells how many it wrote;
  \<open>w_ReadFile\<close>, asked for one byte, tells how many it read and what the buffer then holds;
  \<open>w_FormatMessageA\<close> gives the allocated text, none for a null pointer.  The clock is
  \<^verbatim>\<open>std::chrono::steady_clock\<close>, in nanoseconds.
\<close>

record 'e serial_api =
  w_CreateFileA :: "string \<Rightarrow> u32 \<Rightarrow> u32 \<Rightarrow> u32 \<Rightarrow> u32 \<Rightarrow> 'e \<Rightarrow> HANDLE \<times> 'e"
  w_CloseHandle :: "HANDLE \<Rightarrow> 'e \<Rightarrow> 'e"
  w_GetCommState :: "HANDLE \<Rightarrow> DCB \<Rightarrow> 'e \<Rightarrow> bool \<times> DCB \<times> 'e"
  w_SetCommState :: "HANDLE \<Rightarrow> DCB \<Rightarrow> 'e \<Rightarrow> bool \<times> 'e"
  w_SetupComm :: "HANDLE \<Rightarrow> u32 \<Rightarrow> u32 \<Rightarrow> 'e \<Rightarrow> bool \<times> 'e"
  w_PurgeComm :: "HANDLE \<Rightarrow> u32 \<Rightarrow> 'e \<Rightarrow> bool \<times> 'e"
  w_SetCommTimeouts :: "HANDLE \<Rightarrow> COMMTIMEOUTS \<Rightarrow> 'e \<Rightarrow> bool \<times> 'e"
  w_WriteFile :: "HANDLE \<Rightarrow> u8 list \<Rightarrow> 'e \<Rightarrow> bool \<times> u32 \<times> 'e"
  w_ReadFile :: "HANDLE \<Rightarrow> u32 \<Rightarrow> 'e \<Rightarrow> bool \<times> u32 \<times> u8 \<times> 'e"
  w_GetLastError :: "'e \<Rightarrow> u32 \<times> 'e"
  w_SetLastError :: "u32 \<Rightarrow> 'e \<Rightarrow> 'e"
  w_FormatMessageA :: "u32 \<Rightarrow> u32 \<Rightarrow> 'e \<Rightarrow> string option \<times> 'e"
  w_QueryDosDeviceA :: "string \<Rightarrow> u32 \<Rightarrow> 'e \<Rightarrow> u32 \<times> 'e"
  w_now :: "'e \<Rightarrow> int \<times> 'e"

section \<open>Helpers\<close>

definition windowsError :: "'e serial_api \<Rightarrow> string \<Rightarrow> 'e \<Rightarrow> string \<times> 'e" where
  "windowsError api operation e =
     (let (code, e) = w_GetLastError api e;
          (message, e) = w_FormatMessageA api FORMAT_MESSAGE_FLAGS code e;
          detail = (case message of None \<Rightarrow> [] | Some d \<Rightarrow> rev (dropWhile is_space (rev d)))
      in (operation @ '' (erreur Windows '' @ nat_text (unat code) @ '')'' @
          (if detail = [] then [] else '': '' @ detail), e))"

definition port_prefix :: string where
  "port_prefix = [CHR 0x5C, CHR 0x5C, CHR ''.'', CHR 0x5C]"

definition is_digit :: "char \<Rightarrow> bool" where
  "is_digit c \<longleftrightarrow> digit_value 10 c \<noteq> None"

definition normalizedPortPath :: "string \<Rightarrow> string option" where
  "normalizedPortPath portName =
     (let normalized = (if take 4 portName = port_prefix then drop 4 portName else portName);
          normalized = map char_upper normalized in
      if length normalized < 4 \<or> length normalized > 6 \<or> take 3 normalized \<noteq> ''COM'' then None
      else if \<not> list_all is_digit (drop 3 normalized) then None
      else (let number = digits_value 10 (drop 3 normalized) in
            if number = 0 \<or> number > 256 then None else Some (port_prefix @ normalized)))"

definition setTimeouts ::
    "'e serial_api \<Rightarrow> HANDLE \<Rightarrow> u32 \<Rightarrow> u32 \<Rightarrow> string \<Rightarrow> 'e \<Rightarrow> bool \<times> string \<times> 'e" where
  "setTimeouts api h readTimeoutMs writeTimeoutMs error e =
     (let (ok, e) = w_SetCommTimeouts api h
            \<lparr>ReadIntervalTimeout = MAXDWORD, ReadTotalTimeoutMultiplier = 0,
             ReadTotalTimeoutConstant = readTimeoutMs, WriteTotalTimeoutMultiplier = 0,
             WriteTotalTimeoutConstant = writeTimeoutMs\<rparr> e in
      if \<not> ok
      then (let (error, e) = windowsError api ''impossible de regler les delais du port serie'' e
            in (False, error, e))
      else (True, error, e))"

definition remainingMilliseconds :: "int \<Rightarrow> int \<Rightarrow> u32 \<Rightarrow> u32" where
  "remainingMilliseconds startedAt now timeoutMs =
     (let elapsed = (now - startedAt) div 1000000 in
      if elapsed \<le> 0 then timeoutMs
      else if elapsed \<ge> uint timeoutMs then 0
      else timeoutMs - of_int elapsed)"

section \<open>The channel\<close>

text \<open>The operations work on the channel and the environment of the interface.\<close>

record SerialSettingsChannel =
  sc_handle :: HANDLE

definition SerialSettingsChannel_default :: SerialSettingsChannel where
  "SerialSettingsChannel_default = \<lparr>sc_handle = nullptr\<rparr>"

definition serial_isOpen :: "SerialSettingsChannel \<Rightarrow> bool" where
  "serial_isOpen c \<longleftrightarrow> sc_handle c \<noteq> nullptr"

definition serial_close ::
    "'e serial_api \<Rightarrow> SerialSettingsChannel \<times> 'e \<Rightarrow> SerialSettingsChannel \<times> 'e" where
  "serial_close api = (\<lambda>(c, e).
     if sc_handle c \<noteq> nullptr then (c\<lparr>sc_handle := nullptr\<rparr>, w_CloseHandle api (sc_handle c) e) else (c, e))"

definition serial_clearInput ::
    "'e serial_api \<Rightarrow> SerialSettingsChannel \<times> 'e \<Rightarrow> bool \<times> string \<times> SerialSettingsChannel \<times> 'e" where
  "serial_clearInput api = (\<lambda>(c, e).
     if \<not> serial_isOpen c then (False, ''port serie non ouvert'', c, e)
     else
      (let (ok, e) = w_PurgeComm api (sc_handle c) PURGE_ALL e in
       if \<not> ok
       then (let (error, e) = windowsError api ''impossible de purger le port serie'' e
             in (False, error, c, e))
       else (True, [], c, e)))"

definition serial_configuration :: "u32 \<Rightarrow> DCB \<Rightarrow> DCB" where
  "serial_configuration baudRate configuration =
     configuration
       \<lparr>BaudRate := baudRate, ByteSize := 8, Parity := 0, StopBits := 0, fBinary := True,
        fParity := False, fOutxCtsFlow := False, fOutxDsrFlow := False, fDtrControl := 0,
        fDsrSensitivity := False, fTXContinueOnXoff := True, fOutX := False, fInX := False,
        fErrorChar := False, fNull := False, fRtsControl := 0, fAbortOnError := False\<rparr>"

definition blank_DCB :: DCB where
  "blank_DCB =
     \<lparr>DCBlength = 28, BaudRate = 0, ByteSize = 0, Parity = 0, StopBits = 0, fBinary = False,
      fParity = False, fOutxCtsFlow = False, fOutxDsrFlow = False, fDtrControl = 0,
      fDsrSensitivity = False, fTXContinueOnXoff = False, fOutX = False, fInX = False,
      fErrorChar = False, fNull = False, fRtsControl = 0, fAbortOnError = False\<rparr>"

text \<open>The way out of \<^verbatim>\<open>open\<close> once the port is open and a call on it fails.\<close>

definition open_failed ::
    "'e serial_api \<Rightarrow> HANDLE \<Rightarrow> string \<Rightarrow> SerialSettingsChannel \<times> 'e \<Rightarrow>
       bool \<times> string \<times> SerialSettingsChannel \<times> 'e" where
  "open_failed api h operation = (\<lambda>(c, e).
     let (error, e) = windowsError api operation e in (False, error, c, w_CloseHandle api h e))"

definition serial_open ::
    "'e serial_api \<Rightarrow> string \<Rightarrow> u32 \<Rightarrow> SerialSettingsChannel \<times> 'e \<Rightarrow>
       bool \<times> string \<times> SerialSettingsChannel \<times> 'e" where
  "serial_open api portName baudRate s =
     (let (c, e) = serial_close api s in
      case normalizedPortPath portName of
        None \<Rightarrow> (False, ''nom de port invalide ; format attendu : COM3'', c, e)
      | Some path \<Rightarrow>
          if baudRate = 0 then (False, ''debit serie invalide'', c, e)
          else
           (let (h, e) = w_CreateFileA api path (GENERIC_READ OR GENERIC_WRITE) 0 OPEN_EXISTING
                  FILE_ATTRIBUTE_NORMAL e in
            if h = INVALID_HANDLE_VALUE
            then (let (error, e) = windowsError api (''impossible d'ouvrir '' @ portName) e
                  in (False, error, c, e))
            else
             (let (ok, configuration, e) = w_GetCommState api h blank_DCB e in
              if \<not> ok then open_failed api h ''impossible de lire la configuration serie'' (c, e)
              else
               (let (ok, e) = w_SetCommState api h (serial_configuration baudRate configuration) e in
                if \<not> ok then open_failed api h ''impossible de configurer le port serie'' (c, e)
                else
                 (let (ok, e) = w_SetupComm api h 256 256 e in
                  if \<not> ok then open_failed api h ''impossible de dimensionner les tampons serie'' (c, e)
                  else
                   (case serial_clearInput api (c\<lparr>sc_handle := h\<rparr>, e) of
                      (False, error, s) \<Rightarrow> (False, error, serial_close api s)
                    | (True, error, s) \<Rightarrow> (True, [], s)))))))"

text \<open>
  One round of the loop of \<^verbatim>\<open>writeAll\<close>: the error it ends with, or the offset, the error text and the
  environment the next round starts with.  A round that goes on has written something.
\<close>

definition write_round ::
    "'e serial_api \<Rightarrow> HANDLE \<Rightarrow> int \<Rightarrow> u32 \<Rightarrow> u8 list \<Rightarrow> nat \<Rightarrow> string \<Rightarrow> 'e \<Rightarrow>
       (string \<times> 'e) + (nat \<times> string \<times> 'e)" where
  "write_round api h startedAt timeoutMs bytes off error e =
     (let (now, e) = w_now api e; remaining = remainingMilliseconds startedAt now timeoutMs;
          (timed, error, e) =
            (if remaining = 0 then (False, error, e) else setTimeouts api h 0 remaining error e)
      in
      if \<not> timed then Inl (unless_empty error ''delai d'ecriture serie depasse'', e)
      else
       (let (ok, written, e) = w_WriteFile api h (drop off bytes) e in
        if \<not> ok then Inl (windowsError api ''echec d'ecriture serie'' e)
        else if written = 0 then Inl (''delai d'ecriture serie depasse'', e)
        else Inr (off + unat written, error, e)))"

lemma write_round_advances:
  "write_round api h startedAt timeoutMs bytes off error e = Inr (off', error', e') \<Longrightarrow> off < off'"
  by (auto simp: write_round_def Let_def unat_gt_0 split: prod.splits if_splits)

function serial_write_loop ::
    "'e serial_api \<Rightarrow> HANDLE \<Rightarrow> int \<Rightarrow> u32 \<Rightarrow> u8 list \<Rightarrow> nat \<Rightarrow> string \<Rightarrow> 'e \<Rightarrow> bool \<times> string \<times> 'e"
where
  "serial_write_loop api h startedAt timeoutMs bytes off error e =
     (if off < length bytes
      then
       (case write_round api h startedAt timeoutMs bytes off error e of
          Inl (error, e) \<Rightarrow> (False, error, e)
        | Inr (off, error, e) \<Rightarrow> serial_write_loop api h startedAt timeoutMs bytes off error e)
      else (True, [], e))"
  by pat_completeness auto
termination
  by (relation "measure (\<lambda>(api, h, startedAt, timeoutMs, bytes, off, error, e). length bytes - off)")
    (auto dest: write_round_advances)

declare serial_write_loop.simps [simp del]

definition serial_writeAll ::
    "'e serial_api \<Rightarrow> u8 list \<Rightarrow> u32 \<Rightarrow> string \<Rightarrow> SerialSettingsChannel \<times> 'e \<Rightarrow>
       bool \<times> string \<times> SerialSettingsChannel \<times> 'e" where
  "serial_writeAll api bytes timeoutMs error = (\<lambda>(c, e).
     if \<not> serial_isOpen c \<or> timeoutMs = 0 \<or> int (length bytes) > 2 ^ 32 - 1
     then (False, ''parametres d'ecriture serie invalides'', c, e)
     else
      (let (startedAt, e) = w_now api e;
           (ok, error, e) = serial_write_loop api (sc_handle c) startedAt timeoutMs bytes 0 error e
       in (ok, error, c, e)))"

definition serial_readByte ::
    "'e serial_api \<Rightarrow> u32 \<Rightarrow> string \<Rightarrow> SerialSettingsChannel \<times> 'e \<Rightarrow>
       SettingsChannelReadStatus \<times> u8 \<times> string \<times> SerialSettingsChannel \<times> 'e" where
  "serial_readByte api timeoutMs error = (\<lambda>(c, e).
     if \<not> serial_isOpen c \<or> timeoutMs = 0
     then (CRS_Failure, 0, ''parametres de lecture serie invalides'', c, e)
     else
      (case setTimeouts api (sc_handle c) timeoutMs 0 error e of
         (False, error, e) \<Rightarrow> (CRS_Failure, 0, error, c, e)
       | (True, error, e) \<Rightarrow>
          (let (ok, received, byte, e) = w_ReadFile api (sc_handle c) 1 e in
           if \<not> ok
           then (let (error, e) = windowsError api ''echec de lecture serie'' e
                 in (CRS_Failure, byte, error, c, e))
           else if received = 0 then (CRS_Timeout, byte, [], c, e)
           else if received \<noteq> 1
           then (CRS_Failure, byte, ''taille de lecture serie inattendue'', c, e)
           else (CRS_Data, byte, [], c, e))))"

text \<open>The port as the channel of the client, with the clock the client reads.\<close>

definition serial_port :: "'e serial_api \<Rightarrow> (SerialSettingsChannel \<times> 'e) SettingsDeviceChannel" where
  "serial_port api =
     \<lparr>ch_clearInput = \<lambda>error. serial_clearInput api, ch_writeAll = serial_writeAll api,
      ch_readByte = serial_readByte api,
      ch_now = \<lambda>(c, e). (case w_now api e of (t, e) \<Rightarrow> (t, c, e))\<rparr>"

section \<open>The ports of the machine\<close>

definition port_exists :: "'e serial_api \<Rightarrow> nat \<Rightarrow> 'e \<Rightarrow> bool \<times> 'e" where
  "port_exists api number e =
     (let (result, e) = w_QueryDosDeviceA api (''COM'' @ nat_text number) 512
            (w_SetLastError api ERROR_SUCCESS e) in
      if result \<noteq> 0 then (True, e)
      else (case w_GetLastError api e of (code, e) \<Rightarrow> (code = ERROR_INSUFFICIENT_BUFFER, e)))"

fun ports_from :: "'e serial_api \<Rightarrow> nat list \<Rightarrow> 'e \<Rightarrow> string list \<times> 'e" where
  "ports_from api [] e = ([], e)"
| "ports_from api (number # numbers) e =
     (let (exists, e) = port_exists api number e; (ports, e) = ports_from api numbers e
      in (if exists then (''COM'' @ nat_text number) # ports else ports, e))"

definition listSerialPorts :: "'e serial_api \<Rightarrow> 'e \<Rightarrow> string list \<times> 'e" where
  "listSerialPorts api e = ports_from api [1..<257] e"

section \<open>Handles\<close>

text \<open>
  The interface under observation: the handles that are open, and whether a call was made on one that
  is not.
\<close>

record 'e watched =
  wt_env :: 'e
  wt_open :: "HANDLE list"
  wt_misused :: bool

definition on_env :: "('e \<Rightarrow> 'a \<times> 'e) \<Rightarrow> 'e watched \<Rightarrow> 'a \<times> 'e watched" where
  "on_env f w = (case f (wt_env w) of (a, e) \<Rightarrow> (a, w\<lparr>wt_env := e\<rparr>))"

definition touching :: "HANDLE \<Rightarrow> 'e watched \<Rightarrow> 'e watched" where
  "touching h w = w\<lparr>wt_misused := wt_misused w \<or> h \<notin> set (wt_open w)\<rparr>"

definition watched_api :: "'e serial_api \<Rightarrow> 'e watched serial_api" where
  "watched_api api =
     \<lparr>w_CreateFileA = \<lambda>path access share disposition flags w.
        (case on_env (w_CreateFileA api path access share disposition flags) w of
           (h, w) \<Rightarrow> (h, w\<lparr>wt_open := (if h = INVALID_HANDLE_VALUE then wt_open w else h # wt_open w)\<rparr>)),
      w_CloseHandle = \<lambda>h w.
        (touching h w)\<lparr>wt_env := w_CloseHandle api h (wt_env w), wt_open := remove1 h (wt_open w)\<rparr>,
      w_GetCommState = \<lambda>h dcb w.
        (case on_env (\<lambda>e. case w_GetCommState api h dcb e of (ok, dcb, e) \<Rightarrow> ((ok, dcb), e)) (touching h w)
         of ((ok, dcb), w) \<Rightarrow> (ok, dcb, w)),
      w_SetCommState = \<lambda>h dcb w. on_env (w_SetCommState api h dcb) (touching h w),
      w_SetupComm = \<lambda>h a b w. on_env (w_SetupComm api h a b) (touching h w),
      w_PurgeComm = \<lambda>h flags w. on_env (w_PurgeComm api h flags) (touching h w),
      w_SetCommTimeouts = \<lambda>h timeouts w. on_env (w_SetCommTimeouts api h timeouts) (touching h w),
      w_WriteFile = \<lambda>h bytes w.
        (case on_env (\<lambda>e. case w_WriteFile api h bytes e of (ok, n, e) \<Rightarrow> ((ok, n), e)) (touching h w)
         of ((ok, n), w) \<Rightarrow> (ok, n, w)),
      w_ReadFile = \<lambda>h count w.
        (case on_env (\<lambda>e. case w_ReadFile api h count e of (ok, n, b, e) \<Rightarrow> ((ok, n, b), e)) (touching h w)
         of ((ok, n, b), w) \<Rightarrow> (ok, n, b, w)),
      w_GetLastError = on_env (w_GetLastError api),
      w_SetLastError = \<lambda>code w. w\<lparr>wt_env := w_SetLastError api code (wt_env w)\<rparr>,
      w_FormatMessageA = \<lambda>flags code. on_env (w_FormatMessageA api flags code),
      w_QueryDosDeviceA = \<lambda>name room. on_env (w_QueryDosDeviceA api name room),
      w_now = on_env (w_now api)\<rparr>"

text \<open>The open handles are these, and no call was made on another.\<close>

definition holding :: "HANDLE list \<Rightarrow> 'e watched \<Rightarrow> bool" where
  "holding hs w \<longleftrightarrow> wt_open w = hs \<and> \<not> wt_misused w"

named_theorems watch_simps "the observed interface keeps the open handles"

lemma on_env_holding: "holding hs (snd (on_env f w)) \<longleftrightarrow> holding hs w"
  by (simp add: on_env_def holding_def case_prod_unfold)

lemma touching_holding: "holding [h] (touching h w) \<longleftrightarrow> holding [h] w"
  by (auto simp: touching_def holding_def)

lemma call_holding [watch_simps]:
  "holding [h] (snd (snd (w_GetCommState (watched_api api) h dcb w))) \<longleftrightarrow> holding [h] w"
  "holding [h] (snd (w_SetCommState (watched_api api) h dcb w)) \<longleftrightarrow> holding [h] w"
  "holding [h] (snd (w_SetupComm (watched_api api) h a b w)) \<longleftrightarrow> holding [h] w"
  "holding [h] (snd (w_PurgeComm (watched_api api) h flags w)) \<longleftrightarrow> holding [h] w"
  "holding [h] (snd (w_SetCommTimeouts (watched_api api) h timeouts w)) \<longleftrightarrow> holding [h] w"
  "holding [h] (snd (snd (w_WriteFile (watched_api api) h bytes w))) \<longleftrightarrow> holding [h] w"
  "holding [h] (snd (snd (snd (w_ReadFile (watched_api api) h count w)))) \<longleftrightarrow> holding [h] w"
  "holding hs (snd (w_now (watched_api api) w)) \<longleftrightarrow> holding hs w"
  "holding hs (snd (w_GetLastError (watched_api api) w)) \<longleftrightarrow> holding hs w"
  "holding hs (snd (w_FormatMessageA (watched_api api) flags code w)) \<longleftrightarrow> holding hs w"
  by (simp_all add: watched_api_def case_prod_unfold on_env_holding touching_holding)

lemma close_holding [watch_simps]:
  "holding [h] w \<Longrightarrow> holding [] (w_CloseHandle (watched_api api) h w)"
  by (simp add: watched_api_def holding_def touching_def)

lemma create_holding:
  "holding [] w \<Longrightarrow> w_CreateFileA (watched_api api) path access share disposition flags w = (h, w') \<Longrightarrow>
     holding (if h = INVALID_HANDLE_VALUE then [] else [h]) w'"
  by (auto simp: watched_api_def holding_def on_env_def split: prod.splits)

lemma created_handle:
  "\<exists>e. fst (w_CreateFileA (watched_api api) path access share disposition flags w) =
     fst (w_CreateFileA api path access share disposition flags e)"
  by (auto simp: watched_api_def on_env_def case_prod_unfold)

lemma windowsError_holding [watch_simps]:
  "holding hs (snd (windowsError (watched_api api) operation w)) \<longleftrightarrow> holding hs w"
  by (simp add: windowsError_def Let_def case_prod_unfold watch_simps)

lemma setTimeouts_holding [watch_simps]:
  "holding [h] (snd (snd (setTimeouts (watched_api api) h r t error w))) \<longleftrightarrow> holding [h] w"
  by (simp add: setTimeouts_def Let_def case_prod_unfold watch_simps)

text \<open>What a round keeps, the loop keeps.\<close>

lemma write_loop_keeps:
  assumes "P off e"
    and "\<And>off error e off' error' e'. P off e \<Longrightarrow> off < length bytes \<Longrightarrow>
      write_round api h startedAt timeoutMs bytes off error e = Inr (off', error', e') \<Longrightarrow> P off' e'"
    and "\<And>off error e error' e'. P off e \<Longrightarrow> off < length bytes \<Longrightarrow>
      write_round api h startedAt timeoutMs bytes off error e = Inl (error', e') \<Longrightarrow> Q e'"
    and "serial_write_loop api h startedAt timeoutMs bytes off error e = (ok, error', e')"
  shows "if ok then \<exists>off \<ge> length bytes. P off e' else Q e'"
  using assms(1,4)
proof (induction "length bytes - off" arbitrary: off error e rule: less_induct)
  case less
  show ?case
  proof (cases "off < length bytes")
    case True
    show ?thesis
    proof (cases "write_round api h startedAt timeoutMs bytes off error e")
      case (Inl failed)
      with True less.prems show ?thesis
        by (subst (asm) serial_write_loop.simps) (auto split: prod.splits dest: assms(3))
    next
      case (Inr state)
      then obtain off1 error1 e1 where
        round: "write_round api h startedAt timeoutMs bytes off error e = Inr (off1, error1, e1)"
        by (cases state) auto
      have "length bytes - off1 < length bytes - off"
        using write_round_advances [OF round] True by simp
      moreover have "P off1 e1" using assms(2) less.prems(1) True round by blast
      moreover have "serial_write_loop api h startedAt timeoutMs bytes off1 error1 e1 = (ok, error', e')"
        using less.prems(2) True round by (subst (asm) serial_write_loop.simps) simp
      ultimately show ?thesis by (rule less.hyps)
    qed
  next
    case False
    with less.prems show ?thesis by (subst (asm) serial_write_loop.simps) (auto simp: not_less)
  qed
qed

lemma write_round_holding:
  "write_round (watched_api api) h startedAt timeoutMs bytes off error w = Inr (off', error', w') \<Longrightarrow>
     holding [h] w' \<longleftrightarrow> holding [h] w"
  "write_round (watched_api api) h startedAt timeoutMs bytes off error w = Inl (error', w') \<Longrightarrow>
     holding [h] w' \<longleftrightarrow> holding [h] w"
  by (auto simp: write_round_def Let_def case_prod_unfold watch_simps split: if_splits)
    (metis snd_conv watch_simps windowsError_holding)+

lemma write_loop_holding:
  assumes "holding [h] w"
  shows "holding [h] (snd (snd (serial_write_loop (watched_api api) h startedAt timeoutMs bytes off error w)))"
proof -
  let ?round = "write_round (watched_api api) h startedAt timeoutMs bytes"
  obtain ok error' w' where
    looped: "serial_write_loop (watched_api api) h startedAt timeoutMs bytes off error w = (ok, error', w')"
    by (metis surj_pair)
  have "if ok then \<exists>off \<ge> length bytes. holding [h] w' else holding [h] w'"
  proof (rule write_loop_keeps [where P = "\<lambda>off. holding [h]" and Q = "holding [h]", OF assms _ _ looped])
  qed (simp_all add: write_round_holding)
  then show ?thesis using looped by (auto split: if_splits)
qed

section \<open>The operations keep hold of exactly the port of the channel\<close>

definition serial_held :: "SerialSettingsChannel \<times> 'e watched \<Rightarrow> bool" where
  "serial_held = (\<lambda>(c, w). holding (if sc_handle c = nullptr then [] else [sc_handle c]) w)"

datatype serial_call =
    SC_Open string u32 | SC_Close | SC_ClearInput | SC_WriteAll "u8 list" u32 | SC_ReadByte u32

definition serial_perform ::
    "'e serial_api \<Rightarrow> serial_call \<Rightarrow> SerialSettingsChannel \<times> 'e \<Rightarrow> SerialSettingsChannel \<times> 'e" where
  "serial_perform api call s =
     (case call of
        SC_Open portName baudRate \<Rightarrow> snd (snd (serial_open api portName baudRate s))
      | SC_Close \<Rightarrow> serial_close api s
      | SC_ClearInput \<Rightarrow> snd (snd (serial_clearInput api s))
      | SC_WriteAll bytes timeoutMs \<Rightarrow> snd (snd (serial_writeAll api bytes timeoutMs [] s))
      | SC_ReadByte timeoutMs \<Rightarrow> snd (snd (snd (serial_readByte api timeoutMs [] s))))"


lemma held_iff:
  "serial_held (c, w) \<longleftrightarrow> holding (if serial_isOpen c then [sc_handle c] else []) w"
  by (simp add: serial_held_def serial_isOpen_def)

lemma close_held:
  "serial_held s \<Longrightarrow> serial_held (serial_close (watched_api api) s)"
  "\<not> serial_isOpen (fst (serial_close (watched_api api) s))"
  by (cases s, auto simp: serial_close_def serial_held_def serial_isOpen_def watch_simps)+

lemma clearInput_held:
  "serial_held s \<Longrightarrow> serial_held (snd (snd (serial_clearInput (watched_api api) s)))"
  by (cases s) (auto simp: serial_clearInput_def Let_def case_prod_unfold held_iff watch_simps)

lemma writeAll_held:
  "serial_held s \<Longrightarrow> serial_held (snd (snd (serial_writeAll (watched_api api) bytes timeoutMs error s)))"
  by (cases s)
    (auto simp: serial_writeAll_def Let_def case_prod_unfold held_iff watch_simps write_loop_holding)

lemma readByte_held:
  "serial_held s \<Longrightarrow> serial_held (snd (snd (snd (serial_readByte (watched_api api) timeoutMs error s))))"
  by (cases s)
    (auto simp: serial_readByte_def Let_def case_prod_unfold held_iff watch_simps
      split: bool.split)

text \<open>A port that could be opened has a handle: the interface never hands out the null pointer.\<close>

lemma open_failed_held:
  "\<not> serial_isOpen c \<Longrightarrow> holding [h] w \<Longrightarrow>
     serial_held (snd (snd (open_failed (watched_api api) h operation (c, w))))"
  by (simp add: open_failed_def Let_def case_prod_unfold held_iff watch_simps)

lemma open_held:
  assumes "serial_held s"
    and null: "\<And>path access share disposition flags e.
      fst (w_CreateFileA api path access share disposition flags e) \<noteq> nullptr"
  shows "serial_held (snd (snd (serial_open (watched_api api) portName baudRate s)))"
proof -
  let ?api = "watched_api api"
  obtain c w where closed: "serial_close ?api s = (c, w)" by fastforce
  with close_held(1) [OF assms(1), of api] close_held(2) [of api s] have c: "serial_held (c, w)" "\<not> serial_isOpen c" by simp_all
  show ?thesis
  proof (cases "normalizedPortPath portName")
    case (Some path)
    obtain h w1 where created: "w_CreateFileA ?api path (GENERIC_READ OR GENERIC_WRITE) 0 OPEN_EXISTING
        FILE_ATTRIBUTE_NORMAL w = (h, w1)" by fastforce
    have h: "h \<noteq> nullptr" using created null by (metis created_handle fst_conv)
    have h1: "holding (if h = INVALID_HANDLE_VALUE then [] else [h]) w1"
      using create_holding [OF _ created] c by (simp add: held_iff)
    have opened: "serial_held (c\<lparr>sc_handle := h\<rparr>, w') \<longleftrightarrow> holding [h] w'" for w'
      using h by (simp add: held_iff serial_isOpen_def)
    have finish: "serial_held (snd (snd (case serial_clearInput ?api (c\<lparr>sc_handle := h\<rparr>, w') of
        (False, error, s) \<Rightarrow> (False, error, serial_close ?api s)
      | (True, error, s) \<Rightarrow> (True, [], s))))" if "holding [h] w'" for w'
    proof -
      have "serial_held (c\<lparr>sc_handle := h\<rparr>, w')" using that opened by blast
      note cleared = clearInput_held [OF this, of api]
      show ?thesis
        using cleared close_held(1) [OF cleared, of api] by (simp add: case_prod_unfold split: bool.split)
    qed
    show ?thesis
    proof (cases "h = INVALID_HANDLE_VALUE")
      case True
      with c h1 show ?thesis
        unfolding serial_open_def closed prod.case Some option.case created Let_def
        by (simp add: case_prod_unfold held_iff watch_simps)
    next
      case False
      with h1 have "holding [h] w1" by simp
      with False show ?thesis
        unfolding serial_open_def closed prod.case Some option.case created Let_def
        using c finish by (simp add: case_prod_unfold watch_simps open_failed_held)
    qed
  qed (use c closed in \<open>simp add: serial_open_def\<close>)
qed

lemma perform_held:
  assumes "\<And>path access share disposition flags e.
      fst (w_CreateFileA api path access share disposition flags e) \<noteq> nullptr"
    and "serial_held s"
  shows "serial_held (fold (serial_perform (watched_api api)) calls s)"
  using assms(2)
proof (induction calls arbitrary: s)
  case (Cons call calls)
  then have "serial_held (serial_perform (watched_api api) call s)"
    using open_held [OF Cons.prems assms(1)] close_held clearInput_held writeAll_held readByte_held
    unfolding serial_perform_def by (cases call) simp_all
  then show ?case using Cons.IH by simp
qed simp

section \<open>What was written\<close>

text \<open>
  An observation of the bytes that left the port, which only the calls that write extend, by the bytes
  they report.
\<close>

definition reports_writes :: "'e serial_api \<Rightarrow> ('e \<Rightarrow> u8 list) \<Rightarrow> bool" where
  "reports_writes api sent \<longleftrightarrow>
     (\<forall>h bytes e ok n e'. w_WriteFile api h bytes e = (ok, n, e') \<longrightarrow>
        unat n \<le> length bytes \<and> sent e' = sent e @ take (unat n) bytes) \<and>
     (\<forall>h timeouts e. sent (snd (w_SetCommTimeouts api h timeouts e)) = sent e) \<and>
     (\<forall>e. sent (snd (w_now api e)) = sent e) \<and>
     (\<forall>e. sent (snd (w_GetLastError api e)) = sent e) \<and>
     (\<forall>flags code e. sent (snd (w_FormatMessageA api flags code e)) = sent e)"

lemma reports_simps:
  assumes "reports_writes api sent"
  shows "sent (snd (w_SetCommTimeouts api h timeouts e)) = sent e" "sent (snd (w_now api e)) = sent e"
    "sent (snd (w_GetLastError api e)) = sent e" "sent (snd (w_FormatMessageA api flags code e)) = sent e"
  using assms by (simp_all add: reports_writes_def)

lemma WriteFile_sent:
  assumes "reports_writes api sent" and "w_WriteFile api h bytes e = (ok, n, e')"
  shows "unat n \<le> length bytes \<and> sent e' = sent e @ take (unat n) bytes"
  using assms unfolding reports_writes_def by blast

lemma windowsError_sent:
  "reports_writes api sent \<Longrightarrow> sent (snd (windowsError api operation e)) = sent e"
  by (simp add: windowsError_def Let_def case_prod_unfold reports_simps)

lemma setTimeouts_sent:
  "reports_writes api sent \<Longrightarrow> sent (snd (snd (setTimeouts api h r t error e))) = sent e"
  by (simp add: setTimeouts_def Let_def case_prod_unfold reports_simps windowsError_sent)

text \<open>After \<open>off\<close> bytes; a round that fails has sent some of the rest.\<close>

definition sent_upto :: "('e \<Rightarrow> u8 list) \<Rightarrow> u8 list \<Rightarrow> u8 list \<Rightarrow> nat \<Rightarrow> 'e \<Rightarrow> bool" where
  "sent_upto sent before bytes off e \<longleftrightarrow> off \<le> length bytes \<and> sent e = before @ take off bytes"

lemma write_round_sent:
  assumes reports: "reports_writes api sent" and upto: "sent_upto sent before bytes off e"
    and "off < length bytes"
  shows "write_round api h startedAt timeoutMs bytes off error e = Inr (off', error', e') \<Longrightarrow>
      sent_upto sent before bytes off' e'"
    and "write_round api h startedAt timeoutMs bytes off error e = Inl (error', e') \<Longrightarrow>
      \<exists>off. sent_upto sent before bytes off e'"
proof -
  obtain now e1 where now: "w_now api e = (now, e1)" by fastforce
  let ?remaining = "remainingMilliseconds startedAt now timeoutMs"
  obtain timed error1 e2 where timed:
    "(if ?remaining = 0 then (False, error, e1) else setTimeouts api h 0 ?remaining error e1) =
      (timed, error1, e2)"
    by (metis surj_pair)
  obtain wrote n e3 where wrote: "w_WriteFile api h (drop off bytes) e2 = (wrote, n, e3)"
    by (metis surj_pair)
  have "sent e1 = sent e" using reports_simps(2) [OF reports, of e] now by simp
  moreover have "sent e2 = sent e1"
    using timed setTimeouts_sent [OF reports, of h 0 ?remaining error e1] by (auto split: if_splits)
  ultimately have s2: "sent_upto sent before bytes off e2" using upto by (simp add: sent_upto_def)
  from WriteFile_sent [OF reports wrote] s2 have s3: "sent_upto sent before bytes (off + unat n) e3"
    by (auto simp: sent_upto_def take_add)
  obtain error4 e4 where failed: "windowsError api ''echec d'ecriture serie'' e3 = (error4, e4)" by fastforce
  then have s4: "sent_upto sent before bytes (off + unat n) e4"
    using windowsError_sent [OF reports, of "''echec d'ecriture serie''" e3] s3 by (simp add: sent_upto_def)
  have round: "write_round api h startedAt timeoutMs bytes off error e =
      (if \<not> timed then Inl (unless_empty error1 ''delai d'ecriture serie depasse'', e2)
       else if \<not> wrote then Inl (error4, e4)
       else if n = 0 then Inl (''delai d'ecriture serie depasse'', e3)
       else Inr (off + unat n, error1, e3))"
    unfolding write_round_def now prod.case Let_def timed by (simp add: wrote failed)
  show "write_round api h startedAt timeoutMs bytes off error e = Inr (off', error', e') \<Longrightarrow>
      sent_upto sent before bytes off' e'"
    using s3 by (simp add: round split: if_splits)
  show "write_round api h startedAt timeoutMs bytes off error e = Inl (error', e') \<Longrightarrow>
      \<exists>off. sent_upto sent before bytes off e'"
    using s2 s3 s4 by (simp add: round split: if_splits) blast+
qed

lemma write_loop_sent:
  assumes "reports_writes api sent"
    and "serial_write_loop api h startedAt timeoutMs bytes 0 error e = (ok, error', e')"
  shows "\<exists>n. sent e' = sent e @ take n bytes \<and> (ok \<longrightarrow> n = length bytes)"
proof -
  have start: "sent_upto sent (sent e) bytes 0 e" by (simp add: sent_upto_def)
  have "if ok then \<exists>off \<ge> length bytes. sent_upto sent (sent e) bytes off e'
    else \<exists>off. sent_upto sent (sent e) bytes off e'"
    by (rule write_loop_keeps [where P = "sent_upto sent (sent e) bytes"
          and Q = "\<lambda>e'. \<exists>off. sent_upto sent (sent e) bytes off e'", OF start _ _ assms(2)])
      (simp_all add: write_round_sent [OF assms(1)])
  then show ?thesis by (auto simp: sent_upto_def split: if_splits)
qed

section \<open>Properties\<close>

text \<open>C17: The port is used only while it is open: whatever the sequence of calls on a channel and whatever
  the interface answers, as long as it does not hand out the null pointer, every call is made on a handle
  that is open at that moment, every handle that was opened is closed once and by the call that no longer
  needs it, and at the end the open handles are the one of the channel, or none if the channel is closed,
  as its destructor leaves it.\<close>

theorem serial_handles_are_safe:
  assumes "\<And>path access share disposition flags e.
    fst (w_CreateFileA api path access share disposition flags e) \<noteq> nullptr"
    and "fold (serial_perform (watched_api api)) calls
      (SerialSettingsChannel_default, \<lparr>wt_env = e, wt_open = [], wt_misused = False\<rparr>) = (c, w)"
  shows "\<not> wt_misused w \<and> wt_open w = (if serial_isOpen c then [sc_handle c] else []) \<and>
    wt_open (snd (serial_close (watched_api api) (c, w))) = [] \<and>
    \<not> wt_misused (snd (serial_close (watched_api api) (c, w)))"
proof -
  have "serial_held (SerialSettingsChannel_default, \<lparr>wt_env = e, wt_open = [], wt_misused = False\<rparr>)"
    by (simp add: serial_held_def SerialSettingsChannel_default_def holding_def)
  from perform_held [OF assms(1) this, of calls] assms(2) have held: "serial_held (c, w)" by simp
  obtain c' w' where closed: "serial_close (watched_api api) (c, w) = (c', w')" by fastforce
  then have "serial_held (c', w')" "\<not> serial_isOpen c'"
    using close_held [where s = "(c, w)" and api = api] held by simp_all
  with held closed show ?thesis by (auto simp: held_iff holding_def)
qed

text \<open>Two bytes on a port that takes one byte a call.\<close>

definition slow_port :: "(u8 list \<times> int) serial_api" where
  "slow_port =
     \<lparr>w_CreateFileA = \<lambda>path access share disposition flags e. (7, e), w_CloseHandle = \<lambda>h e. e,
      w_GetCommState = \<lambda>h dcb e. (True, dcb, e), w_SetCommState = \<lambda>h dcb e. (True, e),
      w_SetupComm = \<lambda>h a b e. (True, e), w_PurgeComm = \<lambda>h flags e. (True, e),
      w_SetCommTimeouts = \<lambda>h timeouts e. (True, e),
      w_WriteFile = \<lambda>h bytes (line, t). (True, of_bool (bytes \<noteq> []), line @ take 1 bytes, t + 1),
      w_ReadFile = \<lambda>h count e. (True, 0, 0, e), w_GetLastError = \<lambda>e. (0, e),
      w_SetLastError = \<lambda>code e. e, w_FormatMessageA = \<lambda>flags code e. (None, e),
      w_QueryDosDeviceA = \<lambda>name room e. (0, e), w_now = \<lambda>(line, t). (t, line, t)\<rparr>"

theorem serial_handles_are_safe_witness:
  "wt_open (snd (fold (serial_perform (watched_api slow_port))
     [SC_Open ''com3'' 115200, SC_WriteAll [1, 2] 100, SC_Open ''COM4'' 9600]
     (SerialSettingsChannel_default, \<lparr>wt_env = ([], 0), wt_open = [], wt_misused = False\<rparr>))) = [7]"
proof -
  let ?calls = "[SC_Open ''com3'' 115200, SC_WriteAll [1, 2] 100, SC_Open ''COM4'' 9600]"
  let ?s = "(SerialSettingsChannel_default, \<lparr>wt_env = ([], 0 :: int), wt_open = [], wt_misused = False\<rparr>)"
  obtain c w where run: "fold (serial_perform (watched_api slow_port)) ?calls ?s = (c, w)" by fastforce
  have null: "fst (w_CreateFileA slow_port path access share disposition flags e) \<noteq> nullptr"
    for path access share disposition flags e
    by (simp add: slow_port_def nullptr_def)
  have "sc_handle (fst (fold (serial_perform (watched_api slow_port)) ?calls ?s)) = 7" by code_simp
  then have "sc_handle c = 7" using run by simp
  with serial_handles_are_safe [OF null run] run show ?thesis
    by (simp add: serial_isOpen_def nullptr_def)
qed

text \<open>C19: A successful write has put the bytes on the line, all of them and in order, however few of them
  each call takes; a write that fails has put a prefix of them there, and nothing else.\<close>

theorem written_bytes_leave_in_order:
  assumes "reports_writes api sent"
    and "serial_writeAll api bytes timeoutMs error (c, e) = (ok, error', c', e')"
  shows "\<exists>n. sent e' = sent e @ take n bytes \<and> (ok \<longrightarrow> n = length bytes)"
proof (cases "\<not> serial_isOpen c \<or> timeoutMs = 0 \<or> int (length bytes) > 2 ^ 32 - 1")
  case True
  with assms(2) show ?thesis by (auto simp: serial_writeAll_def intro: exI [of _ 0])
next
  case False
  obtain startedAt e1 where now: "w_now api e = (startedAt, e1)" by fastforce
  with assms(2) False have
    "serial_write_loop api (sc_handle c) startedAt timeoutMs bytes 0 error e1 = (ok, error', e')"
    by (auto simp: serial_writeAll_def split: prod.splits)
  from write_loop_sent [OF assms(1) this] reports_simps(2) [OF assms(1), of e] now show ?thesis by simp
qed

theorem written_bytes_leave_in_order_witness:
  "\<exists>n. fst (snd (snd (snd (serial_writeAll slow_port [1, 2, 3] 100 [] (\<lparr>sc_handle = 7\<rparr>, [], 0))))) =
     take n [1, 2, 3] \<and> n = 3"
proof -
  have "reports_writes slow_port fst"
    by (auto simp: reports_writes_def slow_port_def case_prod_unfold Suc_le_eq)
  note writes = written_bytes_leave_in_order [OF this, of "[1, 2, 3]" 100 "[]" "\<lparr>sc_handle = 7\<rparr>" "([], 0)"]
  have "fst (serial_writeAll slow_port [1, 2, 3] 100 [] (\<lparr>sc_handle = 7\<rparr>, [], 0))" by code_simp
  then obtain error' c' e' where
    result: "serial_writeAll slow_port [1, 2, 3] 100 [] (\<lparr>sc_handle = 7\<rparr>, [], 0) = (True, error', c', e')"
    by (metis prod.collapse)
  from writes [OF this] show ?thesis unfolding result by auto
qed

end
