(* ===== verification/SettingsConfigurator.thy ===== *)
theory SettingsConfigurator
  imports SerialChannel UserSettingsFile
begin

text \<open>
  The configurator of the host (\<^verbatim>\<open>tools/settings_configurator.cpp\<close>): its command line, the wizard that
  asks for every setting on the console, and the commands that show, check and write the configuration
  file and that probe, read and write a device over a serial port.
\<close>

section \<open>The command line\<close>

datatype Mode =
    CM_Interactive | CM_Show | CM_Check | CM_WriteDefaults | CM_PrintDefaults | CM_ListDevices
  | CM_ProbeDevice | CM_ReadDevice | CM_WriteDevice

record Options =
  op_mode :: Mode
  op_configPath :: string
  op_devicePort :: string

definition Options_default :: Options where
  "Options_default =
     \<lparr>op_mode = CM_Interactive, op_configPath = ''config/user-settings.conf'', op_devicePort = []\<rparr>"

definition usage :: "string \<Rightarrow> string" where
  "usage executable =
     line [''BMW E9x Remote Control - configurateur''] @ [newline] @
     line [''Utilisation :''] @
     line [''  '', executable, '' [--config CHEMIN]''] @
     line [''  '', executable, '' --show [--config CHEMIN]''] @
     line [''  '', executable, '' --check [--config CHEMIN]''] @
     line [''  '', executable, '' --write-defaults [--config CHEMIN]''] @
     line [''  '', executable, '' --print-defaults''] @
     line [''  '', executable, '' --list-devices''] @
     line [''  '', executable, '' --probe-device PORT''] @
     line [''  '', executable, '' --read-device PORT''] @
     line [''  '', executable, '' --write-device PORT [--config CHEMIN]''] @ [newline] @
     line [''Sans option, un assistant interactif modifie la configuration.'']"

definition printUsage :: "string \<Rightarrow> console \<Rightarrow> console" where
  "printUsage executable = print (usage executable)"

definition selectMode :: "Mode \<Rightarrow> Options \<Rightarrow> string + Options" where
  "selectMode requested options =
     (if op_mode options \<noteq> CM_Interactive then Inl ''une seule action peut etre demandee''
      else Inr (options\<lparr>op_mode := requested\<rparr>))"

definition plain_action :: "string \<Rightarrow> Mode option" where
  "plain_action argument =
     (if argument = ''--show'' then Some CM_Show
      else if argument = ''--check'' then Some CM_Check
      else if argument = ''--write-defaults'' then Some CM_WriteDefaults
      else if argument = ''--print-defaults'' then Some CM_PrintDefaults
      else if argument = ''--list-devices'' then Some CM_ListDevices
      else None)"

definition device_action :: "string \<Rightarrow> Mode option" where
  "device_action argument =
     (if argument = ''--probe-device'' then Some CM_ProbeDevice
      else if argument = ''--read-device'' then Some CM_ReadDevice
      else if argument = ''--write-device'' then Some CM_WriteDevice
      else None)"

text \<open>The arguments after the name of the program: the error, or whether help was asked for and the options.\<close>

fun parseArguments :: "string list \<Rightarrow> Options \<Rightarrow> string + (bool \<times> Options)" where
  "parseArguments [] options = Inr (False, options)"
| "parseArguments (argument # rest) options =
     (if argument = ''--help'' \<or> argument = ''-h'' then Inr (True, options)
      else if argument = ''--config''
      then (case rest of
              [] \<Rightarrow> Inl ''--config exige un chemin''
            | path # rest \<Rightarrow>
                if path = [] then Inl ''le chemin de configuration est vide''
                else parseArguments rest (options\<lparr>op_configPath := path\<rparr>))
      else (case plain_action argument of
        Some requested \<Rightarrow>
          (case selectMode requested options of
             Inl e \<Rightarrow> Inl e | Inr options \<Rightarrow> parseArguments rest options)
      | None \<Rightarrow>
         (case device_action argument of
            Some requested \<Rightarrow>
              (case rest of
                 [] \<Rightarrow> Inl (argument @ '' exige un port COM'')
               | port # rest \<Rightarrow>
                  (case selectMode requested options of
                     Inl e \<Rightarrow> Inl e
                   | Inr options \<Rightarrow>
                       if port = [] then Inl ''le nom du port COM est vide''
                       else parseArguments rest (options\<lparr>op_devicePort := port\<rparr>)))
          | None \<Rightarrow> Inl (''option inconnue : '' @ argument))))"

section \<open>Asking\<close>

definition readAnswer :: "string \<Rightarrow> console \<Rightarrow> string option \<times> console" where
  "readAnswer prompt c =
     (case console_getline (print prompt c) of
        (None, c) \<Rightarrow> (None, c)
      | (Some answer, c) \<Rightarrow> (Some (map char_lower (trim answer)), c))"

definition cfg_parseUnsigned :: "string \<Rightarrow> u32 option" where
  "cfg_parseUnsigned input =
     (if input = [] then None
      else (case from_chars 10 (2 ^ 32 - 1) input of
              None \<Rightarrow> None
            | Some (parsed, rest) \<Rightarrow> if rest \<noteq> [] then None else Some (of_nat parsed)))"

lemma readAnswer_shortens:
  "readAnswer prompt c = (Some answer, c') \<Longrightarrow> length (con_in c') < length (con_in c)"
  by (auto simp: readAnswer_def split: prod.splits option.splits dest: getline_shortens)

text \<open>
  The loop the prompts share: ask, and ask again after a complaint until \<open>judge\<close> accepts the answer or
  the input ends.
\<close>

function ask :: "string \<Rightarrow> (string \<Rightarrow> 'a option) \<Rightarrow> string \<Rightarrow> console \<Rightarrow> 'a option \<times> console" where
  "ask prompt judge complaint c =
     (case readAnswer prompt c of
        (None, c) \<Rightarrow> (None, c)
      | (Some answer, c) \<Rightarrow>
         (case judge answer of
            Some v \<Rightarrow> (Some v, c)
          | None \<Rightarrow> ask prompt judge complaint (print (line [complaint]) c)))"
  by pat_completeness auto
termination
  by (relation "measure (\<lambda>(prompt, judge, complaint, c). length (con_in c))")
    (auto dest: readAnswer_shortens [OF sym])

declare ask.simps [simp del]

definition judge_boolean :: "bool \<Rightarrow> string \<Rightarrow> bool option" where
  "judge_boolean v answer =
     (if answer = [] then Some v
      else if answer \<in> {''o'', ''oui'', ''y'', ''yes'', ''true'', ''1''} then Some True
      else if answer \<in> {''n'', ''non'', ''no'', ''false'', ''0''} then Some False
      else None)"

definition promptBoolean :: "string \<Rightarrow> bool \<Rightarrow> console \<Rightarrow> bool option \<times> console" where
  "promptBoolean label v =
     ask (label @ '' ['' @ (if v then ''oui'' else ''non'') @ ''] : '') (judge_boolean v)
       ''  Reponse attendue : oui ou non.''"

definition judge_number :: "u32 \<Rightarrow> u32 \<Rightarrow> u32 \<Rightarrow> string \<Rightarrow> u32 option" where
  "judge_number minimum maximum v answer =
     (if answer = [] then Some v
      else (case cfg_parseUnsigned answer of
              None \<Rightarrow> None
            | Some parsed \<Rightarrow> if parsed \<ge> minimum \<and> parsed \<le> maximum then Some parsed else None))"

definition promptNumber :: "string \<Rightarrow> u32 \<Rightarrow> u32 \<Rightarrow> u32 \<Rightarrow> console \<Rightarrow> u32 option \<times> console" where
  "promptNumber label minimum maximum v =
     ask (label @ '' ('' @ nat_text (unat minimum) @ '' a '' @ nat_text (unat maximum) @ '') ['' @
          nat_text (unat v) @ ''] : '')
       (judge_number minimum maximum v) ''  Valeur hors limites ou invalide.''"

definition judge_hood :: "HoodMonitoringMode \<Rightarrow> string \<Rightarrow> HoodMonitoringMode option" where
  "judge_hood mode answer =
     (if answer = [] then Some mode
      else if answer \<in> {''1'', ''obligatoire'', ''required''} then Some HM_Required
      else if answer \<in> {''2'', ''desactive'', ''disabled'', ''optional''} then Some HM_Disabled
      else None)"

definition promptHoodMode :: "HoodMonitoringMode \<Rightarrow> console \<Rightarrow> HoodMonitoringMode option \<times> console" where
  "promptHoodMode mode =
     ask (''Controle du capot (1=obligatoire, 2=desactive) ['' @
          (if mode = HM_Required then ''obligatoire'' else ''desactive'') @ ''] : '')
       (judge_hood mode) ''  Choisir 1 ou 2.''"

definition judge_entry :: "DriverEntryMode \<Rightarrow> string \<Rightarrow> DriverEntryMode option" where
  "judge_entry mode answer =
     (if answer = [] then Some mode
      else if answer \<in> {''1'', ''reprise'', ''require_takeover''} then Some DE_RequireTakeover
      else if answer \<in> {''2'', ''arret'', ''stop_immediately''} then Some DE_StopImmediately
      else None)"

definition promptDriverEntryMode :: "DriverEntryMode \<Rightarrow> console \<Rightarrow> DriverEntryMode option \<times> console" where
  "promptDriverEntryMode mode =
     ask (''Ouverture d'une porte (1=reprise, 2=arret immediat) ['' @
          (if mode = DE_RequireTakeover then ''reprise'' else ''arret immediat'') @ ''] : '')
       (judge_entry mode) ''  Choisir 1 ou 2.''"

section \<open>The wizard\<close>

text \<open>One question after another; the first that is not answered cancels them all.\<close>

definition and_then ::
    "'a option \<times> console \<Rightarrow> ('a \<Rightarrow> console \<Rightarrow> 'b option \<times> console) \<Rightarrow> 'b option \<times> console" where
  "and_then m f = (case m of (None, c) \<Rightarrow> (None, c) | (Some v, c) \<Rightarrow> f v c)"

fun prompt_features ::
    "FeatureDescriptor list \<Rightarrow> FeatureCategory option \<Rightarrow> UserSettings \<Rightarrow> console \<Rightarrow>
       UserSettings option \<times> console" where
  "prompt_features [] previousCategory settings c = (Some settings, c)"
| "prompt_features (feature # features) previousCategory settings c =
     (let category = fd_category feature;
          c = (if previousCategory = None \<or>
                  FeatureCategory_toString (the previousCategory) \<noteq> FeatureCategory_toString category
               then print ([newline] @ line [''['', FeatureCategory_toString category, '']'']) c else c)
      in and_then
           (promptBoolean (fd_displayName feature @ '' ('' @ fd_code feature @ '')'')
              (FeatureRequests_enabled (us_features settings) (fd_id feature)) c)
           (\<lambda>enabled c.
              case FeatureRequests_setEnabled (fd_id feature) enabled (us_features settings) of
                (False, requests) \<Rightarrow> (None, c)
              | (True, requests) \<Rightarrow>
                  prompt_features features (Some category) (settings\<lparr>us_features := requests\<rparr>) c))"

definition promptFeatureSelection :: "UserSettings \<Rightarrow> console \<Rightarrow> UserSettings option \<times> console" where
  "promptFeatureSelection settings c =
     and_then (promptBoolean ''Modifier les fonctionnalites modulaires'' False c)
       (\<lambda>editFeatures c.
          if \<not> editFeatures then (Some settings, c)
          else prompt_features Catalog None settings
                 (print ([newline] @ line [''Chaque option exprime une preference. '',
                     ''Les fonctions non implementees ou non qualifiees resteront bloquees.'']) c))"

definition MillisecondsPerMinute :: u32 where "MillisecondsPerMinute = 60000"
definition MillisecondsPerSecond :: u32 where "MillisecondsPerSecond = 1000"

definition configure_run :: "UserSettings \<Rightarrow> console \<Rightarrow> UserSettings option \<times> console" where
  "configure_run s c =
     and_then (promptBoolean ''Demarrage distant active'' (us_remoteStartEnabled s) c) (\<lambda>active c.
     and_then (promptHoodMode (us_hoodMonitoring s) c) (\<lambda>hood c.
     and_then (promptNumber ''Duree maximale moteur (minutes)'' 1 60
                 (us_maximumRemoteRunTimeMs s div MillisecondsPerMinute) c) (\<lambda>minutes c.
     and_then (promptDriverEntryMode (us_driverEntryMode s) c) (\<lambda>entry c.
     and_then (promptNumber ''Delai de confirmation de reprise (secondes)'' 10 300
                 (us_driverTakeoverTimeoutMs s div MillisecondsPerSecond) c) (\<lambda>seconds c.
       (Some (s\<lparr>us_remoteStartEnabled := active, us_hoodMonitoring := hood,
                us_maximumRemoteRunTimeMs := minutes * MillisecondsPerMinute,
                us_driverEntryMode := entry,
                us_driverTakeoverTimeoutMs := seconds * MillisecondsPerSecond\<rparr>), c))))))"

definition lock_round :: "UserSettings \<Rightarrow> console \<Rightarrow> UserSettings option \<times> console" where
  "lock_round s c =
     and_then (promptNumber ''Nombre d'appuis sur verrouillage'' 2 5 (ucast (us_lockPressCount s)) c)
      (\<lambda>pressCount c.
     and_then (promptNumber ''Intervalle minimal entre appuis (ms)'' 50 5000 (us_lockMinimumGapMs s) c)
      (\<lambda>minimumGap c.
     and_then (promptNumber ''Intervalle maximal entre appuis (ms)'' 50 5000 (us_lockMaximumGapMs s) c)
      (\<lambda>maximumGap c.
     and_then (promptNumber ''Fenetre totale de la sequence (ms)'' 500 15000 (us_lockMaximumSequenceMs s) c)
      (\<lambda>window c.
       (Some (s\<lparr>us_lockPressCount := ucast pressCount, us_lockMinimumGapMs := minimumGap,
                us_lockMaximumGapMs := maximumGap, us_lockMaximumSequenceMs := window\<rparr>), c)))))"

text \<open>Every answer consumes input, so asking again ends.\<close>

lemma ask_some:
  "ask prompt judge complaint c = (Some v, c') \<Longrightarrow>
     (\<exists>answer. judge answer = Some v) \<and> length (con_in c') < length (con_in c)"
proof (induction prompt judge complaint c rule: ask.induct)
  case (1 prompt judge complaint c)
  obtain r c1 where read: "readAnswer prompt c = (r, c1)" by fastforce
  show ?case
  proof (cases r)
    case None
    with 1(2) read show ?thesis by (simp add: ask.simps [of prompt])
  next
    case (Some answer)
    note r = this
    have shorter: "length (con_in c1) < length (con_in c)" using read Some readAnswer_shortens by blast
    show ?thesis
    proof (cases "judge answer")
      case None
      with 1(2) read Some have "ask prompt judge complaint (print (line [complaint]) c1) = (Some v, c')"
        by (simp add: ask.simps [of prompt judge complaint c])
      from 1(1) [OF read [symmetric] r None this] shorter show ?thesis by simp
    next
      case (Some v')
      with 1(2) read r shorter show ?thesis
        by (auto simp: ask.simps [of prompt judge complaint c])
    qed
  qed
qed

lemma and_then_some:
  "and_then m f = (Some v, c') \<longleftrightarrow> (\<exists>u c. m = (Some u, c) \<and> f u c = (Some v, c'))"
  by (auto simp: and_then_def split: prod.splits option.splits)

lemma promptNumber_some:
  assumes "promptNumber label minimum maximum v c = (Some n, c')"
  shows "(n = v \<or> minimum \<le> n \<and> n \<le> maximum) \<and> length (con_in c') < length (con_in c)"
proof -
  from ask_some [OF assms [unfolded promptNumber_def]] obtain answer where
    "judge_number minimum maximum v answer = Some n" "length (con_in c') < length (con_in c)" by blast
  then show ?thesis by (auto simp: judge_number_def split: if_splits option.splits)
qed

lemma lock_round_shortens: "lock_round s c = (Some s', c') \<Longrightarrow> length (con_in c') < length (con_in c)"
  unfolding lock_round_def and_then_some by (force dest: promptNumber_some)

function configure_locks :: "UserSettings \<Rightarrow> console \<Rightarrow> UserSettings option \<times> console" where
  "configure_locks s c =
     (case lock_round s c of
        (None, c) \<Rightarrow> (None, c)
      | (Some s, c) \<Rightarrow>
          if UserSettingsValidation_valid (validateUserSettings s) then (Some s, c)
          else configure_locks s
                 (print ([newline] @ line [''Les temporisations de verrouillage sont incoherentes. '',
                     ''Merci de les corriger.''] @ [newline]) c))"
  by pat_completeness auto
termination
  by (relation "measure (\<lambda>(s, c). length (con_in c))") (auto dest: lock_round_shortens [OF sym])

declare configure_locks.simps [simp del]

definition configure_alerts :: "UserSettings \<Rightarrow> console \<Rightarrow> UserSettings option \<times> console" where
  "configure_alerts s c =
     and_then (promptNumber ''Alerte moteur froid au-dessus de (tr/min)''
        (ucast USL_MinimumColdEngineMaximumRpm) (ucast USL_MaximumColdEngineMaximumRpm)
        (ucast (us_coldEngineMaximumRpm s)) c) (\<lambda>coldMaximumRpm c.
     and_then (promptNumber ''Temperature moteur consideree chaude (C)''
        (ucast USL_MinimumEngineWarmTemperatureC) (ucast USL_MaximumEngineWarmTemperatureC)
        (ucast (us_engineWarmTemperatureC s)) c) (\<lambda>warmTemperature c.
     and_then (promptNumber ''Alerte temperature huile de boite (C)''
        (ucast USL_MinimumTransmissionOverheatTemperatureC)
        (ucast USL_MaximumTransmissionOverheatTemperatureC)
        (ucast (us_transmissionOverheatTemperatureC s)) c) (\<lambda>transmissionOverheat c.
     and_then (promptNumber ''Hysteresis des alertes de temperature (C)''
        (ucast USL_MinimumTemperatureAlertHysteresisC) (ucast USL_MaximumTemperatureAlertHysteresisC)
        (ucast (us_temperatureAlertHysteresisC s)) c) (\<lambda>temperatureHysteresis c.
       (Some (s\<lparr>us_coldEngineMaximumRpm := ucast coldMaximumRpm,
                us_engineWarmTemperatureC := ucast warmTemperature,
                us_transmissionOverheatTemperatureC := ucast transmissionOverheat,
                us_temperatureAlertHysteresisC := ucast temperatureHysteresis\<rparr>), c)))))"

definition configureInteractively :: "UserSettings \<Rightarrow> console \<Rightarrow> UserSettings option \<times> console" where
  "configureInteractively s c =
     (let c = print ([newline] @ line [''Appuyer sur Entree conserve la valeur affichee.''] @
                line [''Ctrl+Z puis Entree annule sans enregistrer.''] @ [newline]) c in
      and_then (configure_run s c) (\<lambda>s c.
      and_then (configure_locks s c) (\<lambda>s c.
      and_then (configure_alerts s c) promptFeatureSelection)))"

section \<open>The commands\<close>

text \<open>
  What the program works on: the console, the files, and the environment of the Win32 interface.  The
  result is the exit code, with the option of a client that never returns.
\<close>

record 'e machine =
  mc_console :: console
  mc_files :: file_system
  mc_env :: 'e

type_synonym 'e command = "'e machine \<Rightarrow> (nat \<times> 'e machine) option"

definition say :: "string \<Rightarrow> 'e machine \<Rightarrow> 'e machine" where
  "say s m = m\<lparr>mc_console := print s (mc_console m)\<rparr>"

definition exit_with_error :: "string \<Rightarrow> 'e command" where
  "exit_with_error e m =
     Some (2, m\<lparr>mc_console := print_error (line [''Erreur : '', e]) (mc_console m)\<rparr>)"

text \<open>The settings as a configuration file, on the standard output.\<close>

definition printSettings :: "UserSettings \<Rightarrow> 'e machine \<Rightarrow> string option \<times> 'e machine" where
  "printSettings s m =
     (case writeUserSettings True s of Inl e \<Rightarrow> (Some e, m) | Inr t \<Rightarrow> (None, say t m))"

definition load_file :: "Options \<Rightarrow> 'e machine \<Rightarrow> (string + UserSettings) \<times> 'e machine" where
  "load_file options m =
     (case loadUserSettingsFile (Some (op_configPath options)) (mc_files m) of
        (r, fs) \<Rightarrow> (r, m\<lparr>mc_files := fs\<rparr>))"

definition save_file :: "Options \<Rightarrow> UserSettings \<Rightarrow> 'e machine \<Rightarrow> string option \<times> 'e machine" where
  "save_file options s m =
     (case saveUserSettingsFile (Some (op_configPath options)) s (mc_files m) of
        (r, fs) \<Rightarrow> (r, m\<lparr>mc_files := fs\<rparr>))"

definition run_wizard :: "Options \<Rightarrow> UserSettings \<Rightarrow> 'e command" where
  "run_wizard options initial m =
     (case configureInteractively initial (mc_console m) of
        (None, c) \<Rightarrow>
          Some (0, m\<lparr>mc_console := print ([newline] @
            line [''Configuration annulee ; aucun fichier n'a ete modifie.'']) c\<rparr>)
      | (Some settings, c) \<Rightarrow>
         (case save_file options settings (m\<lparr>mc_console := c\<rparr>) of
            (Some e, m) \<Rightarrow>
              Some (2, m\<lparr>mc_console := print_error (line [''Erreur d'enregistrement : '', e]) (mc_console m)\<rparr>)
          | (None, m) \<Rightarrow>
              Some (0, say ([newline] @
                line [''Configuration enregistree et verifiee : '', op_configPath options] @
                line [''Test conseille :''] @
                line [''  .'', [CHR 0x5C], ''scripts'', [CHR 0x5C], ''simulate.ps1 -ConfigPath '',
                  [CHR 0x22], op_configPath options, [CHR 0x22]]) m)))"

definition runInteractive :: "Options \<Rightarrow> 'e command" where
  "runInteractive options m =
     (case fs_exists (op_configPath options) (mc_files m) of
        (Inl message, fs) \<Rightarrow>
          Some (2, m\<lparr>mc_files := fs, mc_console :=
            print_error (line [''Erreur : impossible d'inspecter le fichier : '', message]) (mc_console m)\<rparr>)
      | (Inr True, fs) \<Rightarrow>
         (case load_file options (m\<lparr>mc_files := fs\<rparr>) of
            (Inl e, m) \<Rightarrow>
              Some (2, m\<lparr>mc_console := print_error
                (line [''Erreur : la configuration existante est invalide : '', e] @
                 line [''Aucun fichier n'a ete modifie.'']) (mc_console m)\<rparr>)
          | (Inr settings, m) \<Rightarrow>
              run_wizard options settings
                (say (line [''Configuration chargee : '', op_configPath options]) m))
      | (Inr False, fs) \<Rightarrow>
          run_wizard options UserSettings_default
            (say (line [''Nouveau fichier avec les valeurs sures par defaut : '', op_configPath options])
              (m\<lparr>mc_files := fs\<rparr>)))"

definition listing :: "string list \<Rightarrow> string" where
  "listing ports =
     (if ports = [] then line [''Aucun port serie detecte.'']
      else line [''Ports serie detectes :''] @ concat (map (\<lambda>port. line [''  '', port]) ports))"

text \<open>The list of the ports never reports an error on Windows.\<close>

definition runListDevices :: "'e serial_api \<Rightarrow> 'e command" where
  "runListDevices api m =
     (case listSerialPorts api (mc_env m) of
        (ports, e) \<Rightarrow> Some (0, say (listing ports) (m\<lparr>mc_env := e\<rparr>)))"

definition yes_no :: "bool \<Rightarrow> string" where
  "yes_no b = (if b then ''oui'' else ''non'')"

definition identity_text :: "SettingsDeviceIdentity \<Rightarrow> string" where
  "identity_text identity =
     line [''Boitier BMW E9x Remote Control compatible :''] @
     line [''  cible : '', SettingsHardwareTarget_toString (hardwareTarget identity)] @
     line [''  firmware : '', nat_text (unat (firmwareMajor identity)), ''.'',
       nat_text (unat (firmwareMinor identity)), ''.'', nat_text (unat (firmwarePatch identity))] @
     line [''  lecture reglages : '', yes_no (hasCapability identity SC_SettingsRead)] @
     line [''  ecriture reglages : '', yes_no (hasCapability identity SC_SettingsWrite)] @
     line [''  persistance : '', yes_no (hasCapability identity SC_PersistentSettings)]"

definition printDeviceIdentity :: "SettingsDeviceIdentity \<Rightarrow> 'e machine \<Rightarrow> 'e machine" where
  "printDeviceIdentity identity = say (identity_text identity)"

definition UsbSerialBaudRate :: u32 where "UsbSerialBaudRate = 115200"

text \<open>The port is opened on entry and closed by the destructor of the channel on every way out.\<close>

definition open_port ::
    "'e serial_api \<Rightarrow> Options \<Rightarrow> 'e machine \<Rightarrow> bool \<times> string \<times> SerialSettingsChannel \<times> 'e" where
  "open_port api options m =
     serial_open api (op_devicePort options) UsbSerialBaudRate (SerialSettingsChannel_default, mc_env m)"

definition leave_port ::
    "'e serial_api \<Rightarrow> SerialSettingsChannel \<times> 'e \<Rightarrow> 'e machine \<Rightarrow> 'e machine" where
  "leave_port api s m = m\<lparr>mc_env := snd (serial_close api s)\<rparr>"

definition new_client :: SettingsDeviceClient where
  "new_client = mkSettingsDeviceClient SettingsDeviceClientConfig_default"

definition runProbeDevice :: "'e serial_api \<Rightarrow> Options \<Rightarrow> 'e command" where
  "runProbeDevice api options m =
     (case open_port api options m of
        (False, error, s) \<Rightarrow> exit_with_error error (leave_port api s m)
      | (True, error, s) \<Rightarrow>
         (case client_probe (serial_port api) (new_client, s) of
            None \<Rightarrow> None
          | Some (Inl e, client, s) \<Rightarrow> exit_with_error e (leave_port api s m)
          | Some (Inr identity, client, s) \<Rightarrow>
              Some (0, leave_port api s
                (say (line [''device_probe_result: PASS'']) (printDeviceIdentity identity m)))))"

definition runReadDevice :: "'e serial_api \<Rightarrow> Options \<Rightarrow> 'e command" where
  "runReadDevice api options m =
     (case open_port api options m of
        (False, error, s) \<Rightarrow> exit_with_error error (leave_port api s m)
      | (True, error, s) \<Rightarrow>
         (case client_probe (serial_port api) (new_client, s) of
            None \<Rightarrow> None
          | Some (Inl e, client, s) \<Rightarrow> exit_with_error e (leave_port api s m)
          | Some (Inr identity, client, s) \<Rightarrow>
              if \<not> hasCapability identity SC_SettingsRead
              then exit_with_error ''le boitier n'annonce pas la lecture des reglages'' (leave_port api s m)
              else
               (let m = printDeviceIdentity identity m in
                case client_read (serial_port api) (client, s) of
                  None \<Rightarrow> None
                | Some (Inl e, client, s) \<Rightarrow> exit_with_error e (leave_port api s m)
                | Some (Inr settings, client, s) \<Rightarrow>
                   (case printSettings settings m of
                      (Some e, m) \<Rightarrow> exit_with_error e (leave_port api s m)
                    | (None, m) \<Rightarrow>
                        Some (0, leave_port api s (say (line [''device_read_result: PASS'']) m))))))"

definition runWriteDevice :: "'e serial_api \<Rightarrow> Options \<Rightarrow> 'e command" where
  "runWriteDevice api options m =
     (case load_file options m of
        (Inl e, m) \<Rightarrow> exit_with_error e m
      | (Inr settings, m) \<Rightarrow>
         (case open_port api options m of
            (False, error, s) \<Rightarrow> exit_with_error error (leave_port api s m)
          | (True, error, s) \<Rightarrow>
             (case writeAndVerify (serial_port api) settings (new_client, s) of
                None \<Rightarrow> None
              | Some (Inl e, client, s) \<Rightarrow> exit_with_error e (leave_port api s m)
              | Some (Inr _, client, s) \<Rightarrow>
                  Some (0, leave_port api s
                    (say (line [''Configuration enregistree et relue sur '', op_devicePort options, ''.''] @
                          line [''device_write_result: PASS'']) m)))))"

definition runPrintDefaults :: "'e command" where
  "runPrintDefaults m =
     (case printSettings UserSettings_default m of
        (Some e, m) \<Rightarrow> exit_with_error e m | (None, m) \<Rightarrow> Some (0, m))"

definition runWriteDefaults :: "Options \<Rightarrow> 'e command" where
  "runWriteDefaults options m =
     (case save_file options UserSettings_default m of
        (Some e, m) \<Rightarrow> exit_with_error e m
      | (None, m) \<Rightarrow>
          Some (0, say (line [''Configuration par defaut enregistree : '', op_configPath options]) m))"

definition runShow :: "Options \<Rightarrow> 'e command" where
  "runShow options m =
     (case load_file options m of
        (Inl e, m) \<Rightarrow> exit_with_error e m
      | (Inr settings, m) \<Rightarrow>
         (case printSettings settings m of
            (Some e, m) \<Rightarrow> exit_with_error e m
          | (None, m) \<Rightarrow>
              Some (0, if op_mode options = CM_Check
                       then say (line [''configuration_result: PASS'']) m else m)))"

definition configurator_main :: "'e serial_api \<Rightarrow> string list \<Rightarrow> 'e command" where
  "configurator_main api argv m =
     (case parseArguments (tl argv) Options_default of
        Inl e \<Rightarrow>
          Some (2, m\<lparr>mc_console := printUsage (hd argv)
            (print_error (line [''Erreur : '', e] @ [newline]) (mc_console m))\<rparr>)
      | Inr (True, options) \<Rightarrow> Some (0, m\<lparr>mc_console := printUsage (hd argv) (mc_console m)\<rparr>)
      | Inr (False, options) \<Rightarrow>
         (case op_mode options of
            CM_ListDevices \<Rightarrow> runListDevices api m
          | CM_ProbeDevice \<Rightarrow> runProbeDevice api options m
          | CM_ReadDevice \<Rightarrow> runReadDevice api options m
          | CM_WriteDevice \<Rightarrow> runWriteDevice api options m
          | CM_PrintDefaults \<Rightarrow> runPrintDefaults m
          | CM_WriteDefaults \<Rightarrow> runWriteDefaults options m
          | CM_Show \<Rightarrow> runShow options m
          | CM_Check \<Rightarrow> runShow options m
          | CM_Interactive \<Rightarrow> runInteractive options m))"

section \<open>What the wizard accepts\<close>

lemma promptHoodMode_some:
  "promptHoodMode mode c = (Some m, c') \<Longrightarrow> m = mode \<or> m \<in> {HM_Required, HM_Disabled}"
  unfolding promptHoodMode_def by (drule ask_some) (auto simp: judge_hood_def split: if_splits)

lemma promptDriverEntryMode_some:
  "promptDriverEntryMode mode c = (Some m, c') \<Longrightarrow>
     m = mode \<or> m \<in> {DE_RequireTakeover, DE_StopImmediately}"
  unfolding promptDriverEntryMode_def by (drule ask_some) (auto simp: judge_entry_def split: if_splits)

text \<open>A duration that is asked for in a larger unit.\<close>

lemma scaled_duration:
  assumes "unat n * unat k < 2 ^ 32" and "k \<noteq> (0 :: u32)"
  shows "unat (n * k) = unat n * unat k \<and> n * k mod k = 0"
proof -
  have "unat (n * k) = unat n * unat k" using assms(1) by (subst unat_mult_lem [symmetric]) simp
  moreover from this have "unat (n * k mod k) = 0" by (simp add: unat_mod)
  then have "n * k mod k = 0" by (simp only: unat_eq_0)
  ultimately show ?thesis by simp
qed

lemma promptNumber_duration:
  assumes "promptNumber label a b (v div k) c = (Some n, c')" and "unat v \<in> {unat a * unat k..unat b * unat k}"
    and "k \<noteq> 0" and "unat b * unat k < 2 ^ 32"
  shows "n * k mod k = 0 \<and> unat (n * k) \<in> {unat a * unat k..unat b * unat k}"
proof -
  have "0 < unat k" using assms(3) by (simp add: unat_gt_0)
  then have "unat a \<le> unat (v div k)" "unat (v div k) \<le> unat b"
    using assms(2) div_le_mono [of "unat a * unat k" "unat v" "unat k"]
      div_le_mono [of "unat v" "unat b * unat k" "unat k"]
    by (simp_all add: unat_div)
  then have n: "unat a \<le> unat n \<and> unat n \<le> unat b"
    using promptNumber_some [OF assms(1)] by (auto simp: word_le_nat_alt)
  then have "unat n * unat k \<le> unat b * unat k" "unat a * unat k \<le> unat n * unat k"
    by (auto intro: mult_le_mono1)
  moreover from this(1) assms(4) have "unat n * unat k < 2 ^ 32" by (rule order_le_less_trans)
  ultimately show ?thesis using scaled_duration [of n k] assms(3) by simp
qed

lemma promptNumber_ranged:
  fixes a b v :: u16
  assumes "promptNumber label (ucast a) (ucast b) (ucast v) c = (Some n, c')"
    and "unat v \<in> {unat a..unat b}"
  shows "unat (ucast n :: u16) \<in> {unat a..unat b}"
proof -
  have small: "unat (ucast x :: u32) = unat x" for x :: u16
  proof -
    have "unat x < 2 ^ 32" by (rule order_less_le_trans [OF unsigned_less]) simp
    then show ?thesis by (simp add: unsigned_ucast_eq take_bit_nat_eq_self)
  qed
  have "unat a \<le> unat n \<and> unat n \<le> unat b"
    using promptNumber_some [OF assms(1)] assms(2) small by (auto simp: word_le_nat_alt)
  moreover have "unat b < 2 ^ 16" by (rule order_less_le_trans [OF unsigned_less]) simp
  ultimately have "unat (ucast n :: u16) = unat n" by (simp add: unsigned_ucast_eq take_bit_nat_eq_self)
  with \<open>unat a \<le> unat n \<and> unat n \<le> unat b\<close> show ?thesis by simp
qed

lemma configure_run_some:
  assumes "configure_run s c = (Some s', c')" and "representable s"
  shows "us_maximumRemoteRunTimeMs s' mod 60000 = 0 \<and> us_driverTakeoverTimeoutMs s' mod 1000 = 0 \<and>
    us_lockPressCount s' = us_lockPressCount s \<and> us_features s' = us_features s"
proof -
  from assms(1) obtain minutes seconds c1 c2 c3 c4 where
    asked: "promptNumber ''Duree maximale moteur (minutes)'' 1 60 (us_maximumRemoteRunTimeMs s div 60000) c1 =
        (Some minutes, c2)"
      "promptNumber ''Delai de confirmation de reprise (secondes)'' 10 300
        (us_driverTakeoverTimeoutMs s div 1000) c3 = (Some seconds, c4)"
    and s': "us_maximumRemoteRunTimeMs s' = minutes * 60000" "us_driverTakeoverTimeoutMs s' = seconds * 1000"
      "us_lockPressCount s' = us_lockPressCount s" "us_features s' = us_features s"
    unfolding configure_run_def and_then_some MillisecondsPerMinute_def MillisecondsPerSecond_def
    by auto
  from assms(2) have "unat (us_maximumRemoteRunTimeMs s) \<in> {60000..3600000}"
    "unat (us_driverTakeoverTimeoutMs s) \<in> {10000..300000}"
    by (simp_all add: representable_def settings_in_range_def)
  with promptNumber_duration [OF asked(1)] promptNumber_duration [OF asked(2)] s' show ?thesis by simp
qed

lemma configure_locks_some:
  assumes "configure_locks s c = (Some s', c')"
  shows "settings_in_range s' \<and> us_maximumRemoteRunTimeMs s' = us_maximumRemoteRunTimeMs s \<and>
    us_driverTakeoverTimeoutMs s' = us_driverTakeoverTimeoutMs s"
  using assms
proof (induction s c rule: configure_locks.induct)
  case (1 s c)
  obtain r c1 where round: "lock_round s c = (r, c1)" by fastforce
  show ?case
  proof (cases r)
    case (Some s1)
    with round have same: "us_maximumRemoteRunTimeMs s1 = us_maximumRemoteRunTimeMs s"
      "us_driverTakeoverTimeoutMs s1 = us_driverTakeoverTimeoutMs s"
      unfolding lock_round_def by (auto simp: and_then_some)
    show ?thesis
    proof (cases "UserSettingsValidation_valid (validateUserSettings s1)")
      case True
      with 1(2) round Some same show ?thesis
        by (simp add: configure_locks.simps [of s] valid_settings_iff)
    next
      case False
      with 1(2) round Some have "configure_locks s1 (print ([newline] @
          line [''Les temporisations de verrouillage sont incoherentes. '', ''Merci de les corriger.''] @
          [newline]) c1) = (Some s', c')"
        by (simp add: configure_locks.simps [of s])
      from 1(1) [OF round [symmetric] Some False this] same show ?thesis by simp
    qed
  qed (use 1(2) round in \<open>simp add: configure_locks.simps [of s]\<close>)
qed

lemma configure_alerts_some:
  assumes "configure_alerts s c = (Some s', c')" and "settings_in_range s"
  shows "settings_in_range s' \<and> us_maximumRemoteRunTimeMs s' = us_maximumRemoteRunTimeMs s \<and>
    us_driverTakeoverTimeoutMs s' = us_driverTakeoverTimeoutMs s"
proof -
  from assms(1) obtain cold warm hot hyst c1 c2 c3 c4 c5 c6 c7 l1 l2 l3 l4 where
    asked: "promptNumber l1 (ucast USL_MinimumColdEngineMaximumRpm) (ucast USL_MaximumColdEngineMaximumRpm)
        (ucast (us_coldEngineMaximumRpm s)) c = (Some cold, c1)"
      "promptNumber l2 (ucast USL_MinimumEngineWarmTemperatureC) (ucast USL_MaximumEngineWarmTemperatureC)
        (ucast (us_engineWarmTemperatureC s)) c2 = (Some warm, c3)"
      "promptNumber l3 (ucast USL_MinimumTransmissionOverheatTemperatureC)
        (ucast USL_MaximumTransmissionOverheatTemperatureC)
        (ucast (us_transmissionOverheatTemperatureC s)) c4 = (Some hot, c5)"
      "promptNumber l4 (ucast USL_MinimumTemperatureAlertHysteresisC)
        (ucast USL_MaximumTemperatureAlertHysteresisC)
        (ucast (us_temperatureAlertHysteresisC s)) c6 = (Some hyst, c7)"
    and s': "s' = s\<lparr>us_coldEngineMaximumRpm := ucast cold, us_engineWarmTemperatureC := ucast warm,
      us_transmissionOverheatTemperatureC := ucast hot, us_temperatureAlertHysteresisC := ucast hyst\<rparr>"
    unfolding configure_alerts_def and_then_some by blast
  have "lock_timing_inconsistent s' = lock_timing_inconsistent s"
    by (simp add: s' lock_timing_inconsistent_def)
  with assms(2) asked [THEN promptNumber_ranged] show ?thesis
    by (simp add: s' settings_in_range_def user_limits)
qed

lemma setEnabled_valid:
  assumes "FeatureRequests_valid r"
  shows "FeatureRequests_valid (snd (FeatureRequests_setEnabled i b r))"
  unfolding FeatureRequests_valid_bits
proof (intro allI impI)
  fix n assume n: "bit (fr_mask (snd (FeatureRequests_setEnabled i b r))) n"
  then have "n < 64" using bit_imp_le_length by fastforce
  from n setEnabled_bit [OF this, of i b r] assms show "n < FeatureCount"
    by (auto simp: FeatureRequests_valid_bits split: if_splits)
qed

lemma prompt_features_some:
  "prompt_features features previous s c = (Some s', c') \<Longrightarrow> representable s \<Longrightarrow> representable s'"
proof (induction features arbitrary: previous s c)
  case (Cons feature features)
  from Cons.prems(1) obtain enabled c1 where
    asked: "(case FeatureRequests_setEnabled (fd_id feature) enabled (us_features s) of
        (False, requests) \<Rightarrow> (None, c1)
      | (True, requests) \<Rightarrow>
          prompt_features features (Some (fd_category feature)) (s\<lparr>us_features := requests\<rparr>) c1) = (Some s', c')"
    unfolding prompt_features.simps Let_def and_then_some by blast
  obtain ok requests where
    set: "FeatureRequests_setEnabled (fd_id feature) enabled (us_features s) = (ok, requests)" by fastforce
  with asked have rest: "prompt_features features (Some (fd_category feature))
      (s\<lparr>us_features := requests\<rparr>) c1 = (Some s', c')"
    by (cases ok) simp_all
  have "FeatureRequests_valid requests"
    using setEnabled_valid [of "us_features s" "fd_id feature" enabled] set Cons.prems(2)
    by (simp add: representable_def settings_in_range_def)
  moreover have "lock_timing_inconsistent (s\<lparr>us_features := requests\<rparr>) = lock_timing_inconsistent s"
    by (simp add: lock_timing_inconsistent_def)
  ultimately have "representable (s\<lparr>us_features := requests\<rparr>)"
    using Cons.prems(2) by (simp add: representable_def settings_in_range_def)
  with Cons.IH rest show ?case by blast
qed simp

lemma configureInteractively_representable:
  assumes "configureInteractively s c = (Some s', c')" and "representable s"
  shows "representable s'"
proof -
  from assms(1) obtain s1 c0 c1 s2 c2 s3 c3 where
    run: "configure_run s c0 = (Some s1, c1)" and locks: "configure_locks s1 c1 = (Some s2, c2)"
    and alerts: "configure_alerts s2 c2 = (Some s3, c3)"
    and features: "promptFeatureSelection s3 c3 = (Some s', c')"
    unfolding configureInteractively_def and_then_some Let_def by blast
  note locked = configure_locks_some [OF locks]
  have "representable s3"
    using configure_run_some [OF run assms(2)] locked configure_alerts_some [OF alerts]
    by (simp add: representable_def)
  with features show ?thesis
    by (auto simp: promptFeatureSelection_def and_then_some split: if_splits dest: prompt_features_some)
qed

section \<open>Pressing Enter\<close>

text \<open>The next \<open>n\<close> lines of the input are blank.\<close>

fun awaits :: "nat \<Rightarrow> string \<Rightarrow> console \<Rightarrow> bool" where
  "awaits 0 rest c \<longleftrightarrow> con_in c = rest"
| "awaits (Suc n) rest c \<longleftrightarrow>
     (\<exists>l more. newline \<notin> set l \<and> trim l = [] \<and> con_in c = l @ newline # more \<and>
        awaits n rest (c\<lparr>con_in := more\<rparr>))"

lemma awaits_cong: "con_in c = con_in d \<Longrightarrow> awaits n rest c \<longleftrightarrow> awaits n rest d"
proof (induction n arbitrary: c d)
  case (Suc n)
  have "awaits n rest (c\<lparr>con_in := more\<rparr>) \<longleftrightarrow> awaits n rest (d\<lparr>con_in := more\<rparr>)" for more
    by (rule Suc.IH) simp
  with Suc.prems show ?case by simp
qed simp

lemma awaits_print [simp]: "awaits n rest (print s c) \<longleftrightarrow> awaits n rest c"
  by (rule awaits_cong) simp

lemma ask_enter:
  assumes "awaits (Suc n) rest c" and "judge [] = Some v"
  shows "\<exists>c'. ask prompt judge complaint c = (Some v, c') \<and> awaits n rest c'"
proof -
  from assms(1) obtain l more where l: "newline \<notin> set l" "trim l = []" "con_in c = l @ newline # more"
    and rest: "awaits n rest (c\<lparr>con_in := more\<rparr>)" by auto
  let ?c = "(print prompt c)\<lparr>con_in := more\<rparr>"
  have "readAnswer prompt c = (Some [], ?c)"
    using l getline_line [of l "print prompt c" more] by (simp add: readAnswer_def)
  with assms(2) have "ask prompt judge complaint c = (Some v, ?c)" by (simp add: ask.simps)
  moreover have "awaits n rest ?c" using rest by (subst awaits_cong [of _ "c\<lparr>con_in := more\<rparr>"]) simp_all
  ultimately show ?thesis by blast
qed

text \<open>An answer that keeps the value shown takes one blank line.\<close>

definition keeps_value :: "nat \<Rightarrow> string \<Rightarrow> 'a \<Rightarrow> 'a option \<times> console \<Rightarrow> bool" where
  "keeps_value n rest v m \<longleftrightarrow> (\<exists>c'. m = (Some v, c') \<and> awaits n rest c')"

lemma keeps_value_then:
  "keeps_value n rest v m \<Longrightarrow> (\<And>c. awaits n rest c \<Longrightarrow> keeps_value k rest w (f v c)) \<Longrightarrow>
     keeps_value k rest w (and_then m f)"
  by (auto simp: keeps_value_def and_then_def)

lemma prompts_enter:
  assumes "awaits (Suc n) rest c"
  shows "keeps_value n rest b (promptBoolean label b c)"
    and "keeps_value n rest v (promptNumber label minimum maximum v c)"
    and "keeps_value n rest h (promptHoodMode h c)"
    and "keeps_value n rest d (promptDriverEntryMode d c)"
  unfolding keeps_value_def promptBoolean_def promptNumber_def promptHoodMode_def promptDriverEntryMode_def
  by (rule ask_enter [OF assms]; simp add: judge_boolean_def judge_number_def judge_hood_def judge_entry_def)+

lemmas prompts_then = prompts_enter [THEN keeps_value_then]

declare awaits.simps [simp del]

lemma keeps_value_end: "awaits n rest c \<Longrightarrow> v = w \<Longrightarrow> keeps_value n rest w (Some v, c)"
  by (simp add: keeps_value_def)

lemma whole_units:
  "(v :: u32) mod k = 0 \<Longrightarrow> v div k * k = v"
  using div_mult_mod_eq [of v k] by simp

lemma configure_run_enter:
  assumes "representable s" and "awaits (Suc (Suc (Suc (Suc (Suc n))))) rest c"
  shows "keeps_value n rest s (configure_run s c)"
proof -
  have units: "us_maximumRemoteRunTimeMs s div 60000 * 60000 = us_maximumRemoteRunTimeMs s"
    "us_driverTakeoverTimeoutMs s div 1000 * 1000 = us_driverTakeoverTimeoutMs s"
    by (rule whole_units, use assms(1) in \<open>simp only: representable_def\<close>)+
  show ?thesis
    unfolding configure_run_def MillisecondsPerMinute_def MillisecondsPerSecond_def
    by (insert assms(2) units, (rule prompts_then, assumption)+, rule keeps_value_end, assumption, simp)
qed

lemma ucast_up_down: "ucast (ucast (v :: 'a::len word) :: 'b::len word) = v" if "LENGTH('a) \<le> LENGTH('b)"
  by (rule bit_word_eqI) (use that in \<open>auto simp: bit_simps\<close>)

lemma lock_round_enter:
  assumes "awaits (Suc (Suc (Suc (Suc n)))) rest c"
  shows "keeps_value n rest s (lock_round s c)"
  unfolding lock_round_def
  by (insert assms, (rule prompts_then, assumption)+, rule keeps_value_end, assumption,
      simp add: ucast_up_down)

lemma configure_locks_enter:
  assumes "settings_in_range s" and "awaits (Suc (Suc (Suc (Suc n)))) rest c"
  shows "keeps_value n rest s (configure_locks s c)"
  using lock_round_enter [OF assms(2), of s] assms(1)
  by (auto simp: keeps_value_def configure_locks.simps [of s] valid_settings_iff)

lemma configure_alerts_enter:
  assumes "awaits (Suc (Suc (Suc (Suc n)))) rest c"
  shows "keeps_value n rest s (configure_alerts s c)"
  unfolding configure_alerts_def
  by (insert assms, (rule prompts_then, assumption)+, rule keeps_value_end, assumption,
      simp add: ucast_up_down)

lemma promptFeatureSelection_enter:
  "awaits (Suc n) rest c \<Longrightarrow> keeps_value n rest s (promptFeatureSelection s c)"
  unfolding promptFeatureSelection_def by (rule prompts_then, assumption, simp add: keeps_value_end)

lemma configureInteractively_enter:
  assumes "representable s" and "awaits 14 rest c"
  shows "keeps_value 0 rest s (configureInteractively s c)"
proof -
  have range: "settings_in_range s" using assms(1) by (simp add: representable_def)
  show ?thesis
    unfolding configureInteractively_def Let_def
    by (rule keeps_value_then [OF configure_run_enter [OF assms(1)]],
        use assms(2) in \<open>simp add: eval_nat_numeral\<close>,
        rule keeps_value_then [OF configure_locks_enter [OF range]], assumption,
        rule keeps_value_then [OF configure_alerts_enter], assumption,
        rule promptFeatureSelection_enter)
qed

section \<open>What the program does to the files\<close>

text \<open>The file of that path was saved, or the save failed and kept the previous one.\<close>

definition saved_or_kept :: "string \<Rightarrow> nat \<Rightarrow> files \<Rightarrow> files \<Rightarrow> bool" where
  "saved_or_kept path code before F \<longleftrightarrow>
     (code = 0 \<and> (\<exists>s. representable s \<and> holds_settings path s F)) \<or>
     (code = 2 \<and> old_kept path (before path) F)"

lemma save_file_files:
  assumes "save_file options s m = (r, m')" and "representable s"
  shows "saved_or_kept (op_configPath options) (if r = None then 0 else 2) (fs_files (mc_files m))
    (fs_files (mc_files m'))"
proof -
  obtain fs' where saved: "saveUserSettingsFile (Some (op_configPath options)) s (mc_files m) = (r, fs')"
    and m': "mc_files m' = fs'"
    using assms(1) by (auto simp: save_file_def split: prod.splits)
  from saveUserSettingsFile_safe [OF saved] assms(2) m' show ?thesis
    by (auto simp: saved_or_kept_def split: if_splits)
qed

lemma load_file_files:
  "load_file options m = (r, m') \<Longrightarrow> fs_files (mc_files m') = fs_files (mc_files m) \<and>
     (\<forall>s. r = Inr s \<longrightarrow> representable s)"
  by (auto simp: load_file_def loadUserSettingsFile_def split: prod.splits option.splits if_splits
      dest: fs_open_same parsed_representable)

lemma run_wizard_files:
  assumes "run_wizard options initial m = Some (code, m')" and "representable initial"
  shows "fs_files (mc_files m') = fs_files (mc_files m) \<or>
    saved_or_kept (op_configPath options) code (fs_files (mc_files m)) (fs_files (mc_files m'))"
proof -
  obtain r c where wizard: "configureInteractively initial (mc_console m) = (r, c)" by fastforce
  show ?thesis
  proof (cases r)
    case None
    with assms(1) wizard show ?thesis by (auto simp: run_wizard_def)
  next
    case (Some s)
    with wizard configureInteractively_representable assms(2) have s: "representable s" by blast
    obtain saved m1 where save: "save_file options s (m\<lparr>mc_console := c\<rparr>) = (saved, m1)" by fastforce
    with assms(1) wizard Some have "mc_files m' = mc_files m1 \<and> code = (if saved = None then 0 else 2)"
      by (auto simp: run_wizard_def say_def split: option.splits)
    with save_file_files [OF save s] show ?thesis by simp
  qed
qed

lemma runInteractive_files:
  assumes "runInteractive options m = Some (code, m')"
  shows "fs_files (mc_files m') = fs_files (mc_files m) \<or>
    saved_or_kept (op_configPath options) code (fs_files (mc_files m)) (fs_files (mc_files m'))"
proof -
  obtain e fs where exists: "fs_exists (op_configPath options) (mc_files m) = (e, fs)" by fastforce
  then have same: "fs_files fs = fs_files (mc_files m)" by (rule fs_exists_same [THEN conjunct1])
  consider (error) message where "e = Inl message" | (new) "e = Inr False" | (existing) "e = Inr True"
    by (cases e) auto
  then show ?thesis
  proof cases
    case error
    with assms exists same show ?thesis by (auto simp: runInteractive_def)
  next
    case new
    with assms exists have "run_wizard options UserSettings_default
        (say (line [''Nouveau fichier avec les valeurs sures par defaut : '', op_configPath options])
          (m\<lparr>mc_files := fs\<rparr>)) = Some (code, m')"
      by (simp add: runInteractive_def)
    from run_wizard_files [OF this default_representable] same show ?thesis by (simp add: say_def)
  next
    case existing
    obtain r m1 where load: "load_file options (m\<lparr>mc_files := fs\<rparr>) = (r, m1)" by fastforce
    note loaded = load_file_files [OF load]
    show ?thesis
    proof (cases r)
      case (Inl error)
      with assms exists existing load loaded same show ?thesis by (auto simp: runInteractive_def)
    next
      case (Inr s)
      with assms exists existing load have "run_wizard options s
          (say (line [''Configuration chargee : '', op_configPath options]) m1) = Some (code, m')"
        by (simp add: runInteractive_def)
      from run_wizard_files [OF this] loaded Inr same show ?thesis by (simp add: say_def)
    qed
  qed
qed

lemma runWriteDefaults_files:
  assumes "runWriteDefaults options m = Some (code, m')"
  shows "saved_or_kept (op_configPath options) code (fs_files (mc_files m)) (fs_files (mc_files m'))"
proof -
  obtain r m1 where save: "save_file options UserSettings_default m = (r, m1)" by fastforce
  with assms have "mc_files m' = mc_files m1 \<and> code = (if r = None then 0 else 2)"
    by (auto simp: runWriteDefaults_def exit_with_error_def say_def split: option.splits)
  with save_file_files [OF save default_representable] show ?thesis by simp
qed

text \<open>The other commands read files at most.\<close>

lemma printing_files [simp]:
  "mc_files (say t m) = mc_files m" "mc_files (printDeviceIdentity i m) = mc_files m"
  "mc_files (leave_port api s m) = mc_files m"
  "exit_with_error e m = Some (code, m') \<Longrightarrow> mc_files m' = mc_files m"
  by (auto simp: say_def printDeviceIdentity_def leave_port_def exit_with_error_def)

lemma printSettings_files [simp]: "printSettings s m = (r, m') \<Longrightarrow> mc_files m' = mc_files m"
  by (auto simp: printSettings_def split: sum.splits)

lemma runProbeDevice_files: "runProbeDevice api options m = Some (code, m') \<Longrightarrow> mc_files m' = mc_files m"
  by (auto simp: runProbeDevice_def split: prod.splits bool.splits option.splits sum.splits
      dest: printing_files(4))

lemma runReadDevice_files: "runReadDevice api options m = Some (code, m') \<Longrightarrow> mc_files m' = mc_files m"
  by (auto simp: runReadDevice_def Let_def split: prod.splits bool.splits option.splits sum.splits if_splits
      dest!: printing_files(4) printSettings_files)

lemma runShow_files:
  "runShow options m = Some (code, m') \<Longrightarrow> fs_files (mc_files m') = fs_files (mc_files m)"
  by (auto simp: runShow_def split: prod.splits option.splits sum.splits
      dest!: printing_files(4) printSettings_files load_file_files)

lemma runWriteDevice_files:
  "runWriteDevice api options m = Some (code, m') \<Longrightarrow> fs_files (mc_files m') = fs_files (mc_files m)"
  by (auto simp: runWriteDevice_def split: prod.splits bool.splits option.splits sum.splits
      dest!: printing_files(4) load_file_files)

lemma other_commands_files:
  "runListDevices api m = Some (code, m') \<Longrightarrow> mc_files m' = mc_files m"
  "runPrintDefaults m = Some (code, m') \<Longrightarrow> mc_files m' = mc_files m"
  by (auto simp: runListDevices_def runPrintDefaults_def split: prod.splits option.splits
      dest!: printing_files(4) printSettings_files)

section \<open>The program ends\<close>

lemma serial_ticking:
  assumes "\<And>e t e'. w_now api e = (t, e') \<Longrightarrow> t \<le> fst (w_now api e')"
    and "\<And>h timeouts e. fst (w_now api e) \<le> fst (w_now api (snd (w_SetCommTimeouts api h timeouts e)))"
    and "\<And>h e byte e'. w_ReadFile api h 1 e = (True, 1, byte, e') \<Longrightarrow> fst (w_now api e) < fst (w_now api e')"
  shows "ticking_channel (serial_port api)"
proof
  have now: "fst (ch_now (serial_port api) (c, e)) = fst (w_now api e)" for c e
    by (simp add: serial_port_def case_prod_unfold)
  fix s t s' assume "ch_now (serial_port api) s = (t, s')"
  then obtain c e e' where "s = (c, e)" "s' = (c, e')" "w_now api e = (t, e')"
    by (cases s) (auto simp: serial_port_def split: prod.splits)
  with assms(1) now show "t \<le> fst (ch_now (serial_port api) s')" by simp
next
  have now: "fst (ch_now (serial_port api) (c, e)) = fst (w_now api e)" for c e
    by (simp add: serial_port_def case_prod_unfold)
  fix timeout error s byte error' s'
  assume read: "ch_readByte (serial_port api) timeout error s = (CRS_Data, byte, error', s')"
  obtain c e where s: "s = (c, e)" by fastforce
  obtain timed error1 e1 where timed: "setTimeouts api (sc_handle c) timeout 0 error e = (timed, error1, e1)"
    by (metis surj_pair)
  have "fst (w_now api e) \<le> fst (w_now api e1)" if timed
    using timed that assms(2) by (auto simp: setTimeouts_def split: prod.splits if_splits) (metis snd_conv)
  moreover from read s timed obtain e' where "s' = (c, e')" "w_ReadFile api (sc_handle c) 1 e1 = (True, 1, byte, e')"
    and timed
    by (auto simp: serial_port_def serial_readByte_def Let_def split: prod.splits if_splits bool.splits)
  ultimately show "fst (ch_now (serial_port api) s) < fst (ch_now (serial_port api) s')"
    using assms(3) now s by fastforce
qed

lemma commands_return [simp]:
  "returns (exit_with_error e m)" "returns (runListDevices api m)" "returns (runPrintDefaults m)"
  "returns (runWriteDefaults options m)" "returns (runShow options m)" "returns (runInteractive options m)"
  by (simp_all add: exit_with_error_def runListDevices_def runPrintDefaults_def runWriteDefaults_def
      runShow_def runInteractive_def run_wizard_def split: prod.split option.split sum.split bool.split)

lemma device_commands_return:
  assumes "ticking_channel (serial_port api)"
  shows "returns (runProbeDevice api options m)" "returns (runReadDevice api options m)"
    "returns (runWriteDevice api options m)"
proof -
  note client = ticking_channel.client_probe_returns [OF assms, unfolded returns_def]
    ticking_channel.client_read_returns [OF assms, unfolded returns_def]
    ticking_channel.writeAndVerify_returns [OF assms, unfolded returns_def]
  show "returns (runProbeDevice api options m)" "returns (runReadDevice api options m)"
    "returns (runWriteDevice api options m)"
    by (auto simp: runProbeDevice_def runReadDevice_def runWriteDevice_def Let_def client
        split: prod.split bool.split sum.split option.split)
qed

section \<open>Properties\<close>



text \<open>C20: Answering every question of the wizard with a blank line, fourteen lines, keeps every setting as
  it was and reads no more of the input.\<close>

theorem enter_keeps_every_setting:
  assumes "settings_in_range s" and "us_maximumRemoteRunTimeMs s mod 60000 = 0"
    and "us_driverTakeoverTimeoutMs s mod 1000 = 0" and "con_in c = replicate 14 newline @ rest"
  shows "\<exists>c'. configureInteractively s c = (Some s, c') \<and> con_in c' = rest"
proof -
  have blank: "awaits n rest c" if "con_in c = replicate n newline @ rest" for n c
    using that
  proof (induction n arbitrary: c)
    case (Suc n)
    show ?case
      unfolding awaits.simps
      by (intro exI [of _ "[]"] exI [of _ "replicate n newline @ rest"])
        (use Suc.prems Suc.IH in \<open>simp add: trim_def\<close>)
  qed (simp add: awaits.simps)
  have "representable s" using assms(1-3) by (simp only: representable_def)
  from configureInteractively_enter [OF this blank [OF assms(4)]] show ?thesis
    by (simp add: keeps_value_def awaits.simps)
qed

theorem enter_keeps_every_setting_witness:
  "\<exists>c'. configureInteractively UserSettings_default (console_on (replicate 14 newline)) =
     (Some UserSettings_default, c') \<and> con_in c' = []"
proof -
  have "settings_in_range UserSettings_default" "us_maximumRemoteRunTimeMs UserSettings_default mod 60000 = 0"
    "us_driverTakeoverTimeoutMs UserSettings_default mod 1000 = 0"
    using default_representable by (simp_all only: representable_def)
  then show ?thesis by (rule enter_keeps_every_setting) simp
qed


text \<open>The defaults are written where there was no file.\<close>

definition bare_machine :: "string \<Rightarrow> 'e \<Rightarrow> 'e machine" where
  "bare_machine input e =
     \<lparr>mc_console = console_on input,
      mc_files = \<lparr>fs_files = Map.empty, fs_schedule = [], fs_passed = []\<rparr>, mc_env = e\<rparr>"


text \<open>C16: The program always ends, whatever it is asked, whatever is typed and whatever a device sends and
  for however long, if the clock of the machine does not run backwards and a byte that is received takes
  time to arrive.\<close>

theorem configurator_always_ends:
  assumes "\<And>e t e'. w_now api e = (t, e') \<Longrightarrow> t \<le> fst (w_now api e')"
    and "\<And>h timeouts e. fst (w_now api e) \<le> fst (w_now api (snd (w_SetCommTimeouts api h timeouts e)))"
    and "\<And>h e byte e'. w_ReadFile api h 1 e = (True, 1, byte, e') \<Longrightarrow> fst (w_now api e) < fst (w_now api e')"
  shows "configurator_main api argv m \<noteq> None"
proof -
  have "ticking_channel (serial_port api)" using assms by (rule serial_ticking)
  then have "returns (configurator_main api argv m)"
    using device_commands_return
    by (auto simp: configurator_main_def split: sum.split prod.split bool.split Mode.split)
  then show ?thesis by (simp add: returns_def)
qed

theorem configurator_always_ends_witness:
  "configurator_main slow_port [''configurator'', ''--probe-device'', ''COM3''] (bare_machine [] ([], 0)) \<noteq> None"
  by (rule configurator_always_ends) (auto simp: slow_port_def)

end
