(* ===== verification/DeviceProgramming.thy ===== *)
theory DeviceProgramming
  imports ClientLink SettingsConfigurator
begin

text \<open>
  The whole way of a configuration: from the file on the host through the configurator, the serial port
  and the settings link into the non-volatile storage of the device.  The serial port at whose other end
  the firmware runs simulates the wire of ClientLink, so what holds of the client there holds of the
  program.
\<close>

section \<open>Channels that simulate each other\<close>

lemma encoded_length:
  assumes "SettingsProtocolCodec_encode request = (True, encoded, n)"
  shows "length encoded = 56 \<and> 16 \<le> n \<and> n \<le> 56"
  using assms by (auto simp: SettingsProtocolCodec_encode_def frame_layout Let_def split: if_splits)

text \<open>The same answer from both channels, in related states; a success leaves no error text.\<close>

definition same_answer ::
    "('a \<Rightarrow> 'b \<Rightarrow> bool) \<Rightarrow> bool \<times> string \<times> 'a \<Rightarrow> bool \<times> string \<times> 'b \<Rightarrow> bool" where
  "same_answer R = (\<lambda>(ok, error, a) (ok', error', b). ok = ok' \<and> error = error' \<and> (ok \<longrightarrow> error = []) \<and> R a b)"

definition same_byte ::
    "('a \<Rightarrow> 'b \<Rightarrow> bool) \<Rightarrow> SettingsChannelReadStatus \<times> u8 \<times> string \<times> 'a \<Rightarrow>
       SettingsChannelReadStatus \<times> u8 \<times> string \<times> 'b \<Rightarrow> bool" where
  "same_byte R = (\<lambda>(status, byte, error, a) (status', byte', error', b).
     status = status' \<and> byte = byte' \<and> error = error' \<and> (status = CRS_Data \<longrightarrow> error = []) \<and> R a b)"

locale channel_simulation =
  fixes A :: "'a SettingsDeviceChannel" and B :: "'b SettingsDeviceChannel" and R :: "'a \<Rightarrow> 'b \<Rightarrow> bool"
  assumes clear_sim: "R a b \<Longrightarrow> same_answer R (ch_clearInput A [] a) (ch_clearInput B [] b)"
    and write_sim: "R a b \<Longrightarrow> bytes \<noteq> [] \<Longrightarrow> length bytes \<le> 56 \<Longrightarrow> timeout \<noteq> 0 \<Longrightarrow>
      same_answer R (ch_writeAll A bytes timeout [] a) (ch_writeAll B bytes timeout [] b)"
    and read_sim: "R a b \<Longrightarrow> timeout \<noteq> 0 \<Longrightarrow>
      same_byte R (ch_readByte A timeout [] a) (ch_readByte B timeout [] b)"
    and now_sim: "R a b \<Longrightarrow> fst (ch_now A a) = fst (ch_now B b) \<and> R (snd (ch_now A a)) (snd (ch_now B b))"
begin

text \<open>Where the first channel returns, the second returns the same.\<close>

definition follows :: "('r \<times> 'a) option \<Rightarrow> ('r \<times> 'b) option \<Rightarrow> bool" where
  "follows m n \<longleftrightarrow> (\<forall>r a. m = Some (r, a) \<longrightarrow> (\<exists>b. n = Some (r, b) \<and> R a b))"

lemma await_follows:
  assumes "R a b" and "validateClientConfig config"
  shows "follows (await_response A config startedAt i t receiver [] a)
    (await_response B config startedAt i t receiver [] b)"
proof -
  have "A' = A \<longrightarrow> error = [] \<longrightarrow> validateClientConfig config \<longrightarrow> (\<forall>b. R a b \<longrightarrow>
      (\<exists>b'. await_response B config startedAt i t receiver [] b = Some (fst y, b') \<and> R (snd y) b'))"
    if "await_response A' config startedAt i t receiver error a = Some y" for A' error y
  proof (rule await_response.raw_induct [where P = "\<lambda>A' config startedAt i t receiver error a y.
      A' = A \<longrightarrow> error = [] \<longrightarrow> validateClientConfig config \<longrightarrow> (\<forall>b. R a b \<longrightarrow>
        (\<exists>b'. await_response B config startedAt i t receiver [] b = Some (fst y, b') \<and> R (snd y) b'))",
      OF _ that], goal_cases)
    case (1 rec A' config startedAt i t receiver error a y)
    show ?case
    proof (intro impI allI)
      fix b
      assume here: "A' = A" "error = []" "validateClientConfig config" "R a b"
      obtain now a1 where now: "ch_now A a = (now, a1)" by fastforce
      then obtain b1 where now': "ch_now B b = (now, b1)" and R1: "R a1 b1"
        using now_sim [OF here(4)] by (metis fst_conv snd_conv surj_pair)
      let ?elapsed = "elapsedMilliseconds startedAt now"
      let ?timeout = "if bufferedSize receiver = 0 then responseTimeoutMs config - ?elapsed
        else min (responseTimeoutMs config - ?elapsed) (cl_interByteTimeoutMs config)"
      show "\<exists>b'. await_response B config startedAt i t receiver [] b = Some (fst y, b') \<and> R (snd y) b'"
      proof (cases "?elapsed \<ge> responseTimeoutMs config")
        case True
        with 1(2) here now now' R1 show ?thesis by (subst await_response.simps) (auto simp: Let_def)
      next
        case False
        have "?timeout \<noteq> 0"
          using False here(3) by (auto simp: validateClientConfig_def min_def)
        note read_rel = read_sim [OF R1 this]
        obtain st byte error1 a2 where read: "ch_readByte A ?timeout [] a1 = (st, byte, error1, a2)"
          by (metis surj_pair)
        with read_rel obtain b2 where read': "ch_readByte B ?timeout [] b1 = (st, byte, error1, b2)"
          and R2: "R a2 b2" and quiet: "st = CRS_Data \<Longrightarrow> error1 = []"
          by (auto simp: same_byte_def)
        obtain now3 a3 where now3: "ch_now A a2 = (now3, a3)" by fastforce
        then obtain b3 where now3': "ch_now B b2 = (now3, b3)" and R3: "R a3 b3"
          using now_sim [OF R2] by (metis fst_conv snd_conv surj_pair)
        obtain event receiver' where consumed: "SettingsStreamReceiver_consume byte
            (elapsedMilliseconds startedAt now3) receiver = (event, receiver')" by fastforce
        note unfolded = await_response.simps [of B config startedAt i t receiver "[]" b]
        show ?thesis
        proof (cases "st = CRS_Data \<and> judge_event i t event = None")
          case True
          with 1(2) here now read now3 consumed False
          have "rec A config startedAt i t receiver' [] a3 = Some y"
            using quiet by (simp add: Let_def)
          with 1(1) here R3 obtain b' where
            "await_response B config startedAt i t receiver' [] b3 = Some (fst y, b')" "R (snd y) b'"
            by blast
          with True False now' read' now3' consumed quiet show ?thesis
            by (subst unfolded) (simp add: Let_def)
        next
          case ends: False
          with 1(2) here now read now3 consumed False show ?thesis
            by (subst unfolded)
              (cases st; auto simp: Let_def now' read' now3' consumed R2 R3 split: option.splits)
        qed
      qed
    qed
  qed
  with assms show ?thesis unfolding follows_def by fastforce
qed

text \<open>The client beside the channel.\<close>

definition client_follows ::
    "('r, SettingsDeviceClient \<times> 'a) outcome_of \<Rightarrow> ('r, SettingsDeviceClient \<times> 'b) outcome_of \<Rightarrow> bool" where
  "client_follows m n \<longleftrightarrow>
     (\<forall>r c a. m = Some (r, c, a) \<longrightarrow> (\<exists>b. n = Some (r, c, b) \<and> R a b))"

lemma client_followsI: "R a b \<Longrightarrow> client_follows (Some (r, c, a)) (Some (r, c, b))"
  by (simp add: client_follows_def)

lemma after_follows:
  assumes "client_follows m n" and "\<And>v c a b. R a b \<Longrightarrow> client_follows (f v (c, a)) (g v (c, b))"
  shows "client_follows (after m f) (after n g)"
proof (cases m)
  case (Some result)
  obtain r c a where m: "m = Some (r, c, a)" using Some by (cases result) auto
  with assms(1) obtain b where n: "n = Some (r, c, b)" "R a b" by (auto simp: client_follows_def)
  show ?thesis using assms(2) n(2) by (cases r) (simp_all add: m n(1) after_def client_followsI)
qed (simp add: after_def client_follows_def)

lemma on_error_follows: "client_follows m n \<Longrightarrow> client_follows (on_error h m) (on_error h n)"
  by (fastforce simp: client_follows_def on_error_def)

lemma exchange_follows:
  assumes "R a b"
  shows "client_follows (exchange A request expected (c, a)) (exchange B request expected (c, b))"
proof (cases "validateClientConfig (dc_config c)")
  case True
  obtain i c' where allocated: "allocateRequestId c = (i, c')" by fastforce
  then have config: "validateClientConfig (dc_config c')"
    using True by (auto simp: allocateRequestId_def Let_def)
  then have timeout: "responseTimeoutMs (dc_config c') \<noteq> 0"
    by (auto simp: validateClientConfig_def word_neq_0_conv)
  obtain encodable encoded n where
    encoded: "SettingsProtocolCodec_encode (request\<lparr>pf_requestId := i\<rparr>) = (encodable, encoded, n)"
    by (metis surj_pair)
  show ?thesis
  proof (cases encodable)
    case True
    have bytes: "take n encoded \<noteq> []" "length (take n encoded) \<le> 56"
      using encoded_length encoded True by fastforce+
    obtain cleared error a1 where clear: "ch_clearInput A [] a = (cleared, error, a1)" by (metis surj_pair)
    with clear_sim [OF assms] obtain b1 where clear': "ch_clearInput B [] b = (cleared, error, b1)"
      and R1: "R a1 b1" and quiet: "cleared \<Longrightarrow> error = []"
      by (auto simp: same_answer_def)
    obtain sent error2 a2 where
      sent: "ch_writeAll A (take n encoded) (responseTimeoutMs (dc_config c')) [] a1 = (sent, error2, a2)"
      by (metis surj_pair)
    with write_sim [OF R1 bytes timeout] obtain b2 where
      sent': "ch_writeAll B (take n encoded) (responseTimeoutMs (dc_config c')) [] b1 = (sent, error2, b2)"
      and R2: "R a2 b2" and quiet2: "sent \<Longrightarrow> error2 = []"
      by (auto simp: same_answer_def)
    obtain startedAt a3 where now: "ch_now A a2 = (startedAt, a3)" by fastforce
    then obtain b3 where now': "ch_now B b2 = (startedAt, b3)" and R3: "R a3 b3"
      using now_sim [OF R2] by (metis fst_conv snd_conv surj_pair)
    note awaited = await_follows [OF R3 config, of startedAt i expected]
    show ?thesis
    proof (cases "cleared \<and> sent")
      case True
      with awaited show ?thesis
        unfolding exchange_def prod.case allocated Let_def encoded clear clear'
        using \<open>validateClientConfig (dc_config c)\<close> \<open>encodable\<close> quiet quiet2
        by (fastforce simp: sent sent' now now' client_follows_def follows_def)
    next
      case False
      then show ?thesis
        unfolding exchange_def prod.case allocated Let_def encoded clear clear'
        using \<open>validateClientConfig (dc_config c)\<close> \<open>encodable\<close> quiet quiet2 R1 R2
        by (cases cleared) (simp_all add: sent sent' client_followsI)
    qed
  next
    case False
    with True assms show ?thesis by (simp add: exchange_def allocated encoded client_followsI)
  qed
qed (use assms in \<open>simp add: exchange_def client_followsI\<close>)

lemma client_probe_follows: "R a b \<Longrightarrow> client_follows (client_probe A (c, a)) (client_probe B (c, b))"
  unfolding client_probe_def
  by (rule after_follows [OF exchange_follows]) (auto split: prod.split bool.split intro: client_followsI)

lemma client_read_follows: "R a b \<Longrightarrow> client_follows (client_read A (c, a)) (client_read B (c, b))"
  unfolding client_read_def
  by (rule after_follows [OF exchange_follows]) (auto split: prod.split bool.split intro: client_followsI)

lemma writeAndVerify_follows:
  assumes "R a b"
  shows "client_follows (writeAndVerify A s (c, a)) (writeAndVerify B s (c, b))"
proof (cases "UserSettingsValidation_valid (validateUserSettings s)")
  case True
  show ?thesis
    unfolding writeAndVerify_def
    using True assms
    by (auto intro!: after_follows on_error_follows client_probe_follows client_read_follows
        exchange_follows client_followsI split: prod.split bool.split)
qed (use assms in \<open>simp add: writeAndVerify_def client_followsI\<close>)

end

section \<open>The port with the firmware at its other end\<close>

text \<open>
  A machine with one serial port, of the given path, on which nothing fails: what is written reaches the
  endpoint of the firmware, and a read delivers the next byte of its answer.
\<close>

definition bench_api :: "string \<Rightarrow> 'e bench serial_api" where
  "bench_api path =
     \<lparr>w_CreateFileA = \<lambda>p access share disposition flags b.
        (if p = path then 1 else INVALID_HANDLE_VALUE, b),
      w_CloseHandle = \<lambda>h b. b,
      w_GetCommState = \<lambda>h dcb b. (True, dcb, b), w_SetCommState = \<lambda>h dcb b. (True, b),
      w_SetupComm = \<lambda>h input output b. (True, b),
      w_PurgeComm = \<lambda>h flags b. (True, b\<lparr>bn_wire := []\<rparr>),
      w_SetCommTimeouts = \<lambda>h timeouts b. (True, b),
      w_WriteFile = \<lambda>h bytes b.
        (case ch_writeAll bench_channel bytes 0 [] b of (ok, error, b) \<Rightarrow> (True, of_nat (length bytes), b)),
      w_ReadFile = \<lambda>h count b.
        (case ch_readByte bench_channel 0 [] b of
           (status, byte, error, b) \<Rightarrow> (True, if status = CRS_Data then 1 else 0, byte, b)),
      w_GetLastError = \<lambda>b. (2, b), w_SetLastError = \<lambda>code b. b,
      w_FormatMessageA = \<lambda>flags code b. (None, b),
      w_QueryDosDeviceA = \<lambda>name room b. (if port_prefix @ name = path then 1 else 0, b),
      w_now = ch_now bench_channel\<rparr>"

lemma bench_api_simps:
  "w_CreateFileA (bench_api path) p access share disposition flags b =
     (if p = path then 1 else INVALID_HANDLE_VALUE, b)"
  "w_CloseHandle (bench_api path) h b = b"
  "w_GetCommState (bench_api path) h dcb b = (True, dcb, b)"
  "w_SetCommState (bench_api path) h dcb b = (True, b)"
  "w_SetupComm (bench_api path) h x y b = (True, b)"
  "w_PurgeComm (bench_api path) h flags b = (True, b\<lparr>bn_wire := []\<rparr>)"
  "w_SetCommTimeouts (bench_api path) h timeouts b = (True, b)"
  "w_now (bench_api path) b = (bn_clock b, b)"
  by (simp_all add: bench_api_def bench_channel_def)

lemma remaining_all: "remainingMilliseconds t t timeout = timeout"
  by (simp add: remainingMilliseconds_def)

lemma bench_write_loop:
  assumes "bytes \<noteq> []" and "length bytes \<le> 56" and "timeout \<noteq> 0"
    and "ch_writeAll bench_channel bytes timeout [] b = (ok, error, b')"
  shows "serial_write_loop (bench_api path) h (bn_clock b) timeout bytes 0 [] b = (True, [], b')"
proof -
  have size: "unat (of_nat (length bytes) :: u32) = length bytes"
    using assms(2) by (simp add: unsigned_of_nat take_bit_nat_eq_self)
  with assms(1) have "(of_nat (length bytes) :: u32) \<noteq> 0" by (metis length_0_conv unsigned_0)
  moreover have "ch_writeAll bench_channel bytes 0 [] b = (ok, error, b')"
    using assms(4) by (simp add: bench_channel_def)
  then have "w_WriteFile (bench_api path) h bytes b = (True, of_nat (length bytes), b')"
    by (simp add: bench_api_def)
  ultimately have "write_round (bench_api path) h (bn_clock b) timeout bytes 0 [] b =
      Inr (length bytes, [], b')"
    using assms(3) size
    by (simp add: write_round_def Let_def bench_api_simps remaining_all setTimeouts_def)
  then show ?thesis
    using assms(1) by (subst serial_write_loop.simps) (simp add: serial_write_loop.simps)
qed

definition at_bench :: "'e bench \<Rightarrow> SerialSettingsChannel \<times> 'e bench \<Rightarrow> bool" where
  "at_bench b = (\<lambda>(c, b'). serial_isOpen c \<and> b' = b)"

interpretation usb: channel_simulation bench_channel "serial_port (bench_api path)" at_bench
proof
  fix a :: "'e bench" and b :: "SerialSettingsChannel \<times> 'e bench" and timeout :: u32 and bytes :: "u8 list"
  assume "at_bench a b"
  then obtain c where b: "b = (c, a)" "serial_isOpen c" by (cases b) (simp add: at_bench_def)
  show "same_answer at_bench (ch_clearInput bench_channel [] a)
      (ch_clearInput (serial_port (bench_api path)) [] b)"
    using b by (simp add: same_answer_def serial_port_def serial_clearInput_def bench_api_simps at_bench_def)
      (simp add: bench_channel_def)
  show "fst (ch_now bench_channel a) = fst (ch_now (serial_port (bench_api path)) b) \<and>
      at_bench (snd (ch_now bench_channel a)) (snd (ch_now (serial_port (bench_api path)) b))"
    using b by (simp add: serial_port_def bench_api_simps at_bench_def) (simp add: bench_channel_def)
  show "same_byte at_bench (ch_readByte bench_channel timeout [] a)
      (ch_readByte (serial_port (bench_api path)) timeout [] b)" if "timeout \<noteq> 0"
    using b that
    by (cases "bn_wire a")
      (simp_all add: same_byte_def serial_port_def serial_readByte_def setTimeouts_def bench_api_simps
        at_bench_def, simp_all add: bench_api_def bench_channel_def)
  show "same_answer at_bench (ch_writeAll bench_channel bytes timeout [] a)
      (ch_writeAll (serial_port (bench_api path)) bytes timeout [] b)"
    if "bytes \<noteq> []" "length bytes \<le> 56" "timeout \<noteq> 0"
  proof -
    obtain ok error a' where wrote: "ch_writeAll bench_channel bytes timeout [] a = (ok, error, a')"
      by (metis surj_pair)
    then have "ok \<and> error = []" by (auto simp: bench_channel_def split: prod.splits)
    with b that wrote bench_write_loop [OF that wrote] show ?thesis
      by (simp add: same_answer_def serial_port_def serial_writeAll_def bench_api_simps at_bench_def)
  qed
qed

section \<open>The run of the program\<close>

lemma bench_open:
  assumes "normalizedPortPath portName = Some path" and "baudRate \<noteq> 0"
  shows "serial_open (bench_api path) portName baudRate (SerialSettingsChannel_default, b) =
    (True, [], \<lparr>sc_handle = 1\<rparr>, b\<lparr>bn_wire := []\<rparr>)"
  using assms
  by (simp add: serial_open_def serial_close_def SerialSettingsChannel_default_def bench_api_simps
      serial_clearInput_def serial_isOpen_def nullptr_def INVALID_HANDLE_VALUE_def)

lemma write_arguments:
  assumes "port \<noteq> []" and "file \<noteq> []"
  shows "parseArguments [''--write-device'', port, ''--config'', file] Options_default =
    Inr (False, \<lparr>op_mode = CM_WriteDevice, op_configPath = file, op_devicePort = port\<rparr>)"
  using assms by (simp add: plain_action_def device_action_def selectMode_def Options_default_def)

lemma write_command:
  assumes "normalizedPortPath port = Some path" and "port \<noteq> []" and "file \<noteq> []"
    and loaded: "loadUserSettingsFile (Some file) (mc_files m) = (r, fs)"
    and wrote: "\<And>s. r = Inr s \<Longrightarrow>
      writeAndVerify bench_channel s (new_client, (mc_env m)\<lparr>bn_wire := []\<rparr>) = Some (result, c, b)"
  shows "\<exists>code m'. configurator_main (bench_api path) [executable, ''--write-device'', port, ''--config'', file] m =
      Some (code, m') \<and>
    (case r of
       Inl e \<Rightarrow> code = 2 \<and> mc_env m' = mc_env m
     | Inr s \<Rightarrow> mc_env m' = b \<and>
         (case result of
            Inr _ \<Rightarrow> code = 0
          | Inl e \<Rightarrow> code = 2 \<and> con_err (mc_console m') = con_err (mc_console m) @ line [''Erreur : '', e]))"
proof -
  let ?options = "\<lparr>op_mode = CM_WriteDevice, op_configPath = file, op_devicePort = port\<rparr>"
  have main: "configurator_main (bench_api path) [executable, ''--write-device'', port, ''--config'', file] m =
      runWriteDevice (bench_api path) ?options m"
    using write_arguments [OF assms(2,3)] by (simp add: configurator_main_def)
  show ?thesis
  proof (cases r)
    case (Inl e)
    then show ?thesis
      by (simp add: main runWriteDevice_def load_file_def loaded exit_with_error_def)
  next
    case (Inr s)
    have "at_bench ((mc_env m)\<lparr>bn_wire := []\<rparr>) (\<lparr>sc_handle = 1\<rparr>, (mc_env m)\<lparr>bn_wire := []\<rparr>)"
      by (simp add: at_bench_def serial_isOpen_def nullptr_def)
    from usb.writeAndVerify_follows [OF this, of s new_client] wrote [OF Inr] obtain channel where
      "writeAndVerify (serial_port (bench_api path)) s
        (new_client, \<lparr>sc_handle = 1\<rparr>, (mc_env m)\<lparr>bn_wire := []\<rparr>) = Some (result, c, channel, b)"
      unfolding usb.client_follows_def at_bench_def by fastforce
    moreover have "snd (serial_close (bench_api path) (channel, b)) = b"
      by (simp add: serial_close_def bench_api_simps)
    moreover have "UsbSerialBaudRate \<noteq> 0" by (simp add: UsbSerialBaudRate_def)
    ultimately show ?thesis
      using Inr bench_open [OF assms(1), of UsbSerialBaudRate "mc_env m"]
      by (auto simp: main runWriteDevice_def load_file_def loaded open_port_def leave_port_def say_def
          exit_with_error_def split: sum.split)
  qed
qed

section \<open>Properties\<close>



end
