(* ===== verification/CanTraceCsv.thy ===== *)
theory CanTraceCsv
  imports HostFiles Assembler
begin

text \<open>
  The reader of recorded CAN traces (\<^verbatim>\<open>tools/can_trace_csv.cpp\<close>).  Writing past the end of the eight data
  bytes of a frame is undefined in C++; it is a result of its own here, and one theorem says exactly which
  lines lead to it.
\<close>

section \<open>Fields\<close>

definition Header :: string where "Header = ''timestamp_ms,identifier,extended,dlc,data_hex''"

text \<open>The fields of a line: all but the last end with a comma.\<close>

fun splitFields_from :: "nat \<Rightarrow> string \<Rightarrow> string list option" where
  "splitFields_from 0 rest = (if CHR '','' \<in> set rest then None else Some [rest])"
| "splitFields_from (Suc n) rest =
     (if CHR '','' \<notin> set rest then None
      else (let field = takeWhile (\<lambda>c. c \<noteq> CHR '','') rest in
            map_option (\<lambda>columns. field # columns)
              (splitFields_from n (drop (length field + 1) rest))))"

definition splitFields :: "string \<Rightarrow> string list option" where
  "splitFields line = splitFields_from 4 line"

definition csv_parseUnsigned :: "nat \<Rightarrow> string \<Rightarrow> nat \<Rightarrow> 'w::len word option" where
  "csv_parseUnsigned base input maximum =
     (if input = [] then None
      else (case from_chars base (2 ^ 64 - 1) input of
              None \<Rightarrow> None
            | Some (parsed, rest) \<Rightarrow>
                if rest \<noteq> [] \<or> parsed > maximum then None else Some (of_nat parsed)))"

definition parseIdentifier :: "string \<Rightarrow> u32 option" where
  "parseIdentifier input =
     (if length input \<le> 2 \<or> input ! 0 \<noteq> CHR ''0'' \<or>
         (input ! 1 \<noteq> CHR ''x'' \<and> input ! 1 \<noteq> CHR ''X'')
      then None else csv_parseUnsigned 16 (drop 2 input) (2 ^ 32 - 1))"

definition csv_parseBoolean :: "string \<Rightarrow> bool option" where
  "csv_parseBoolean input =
     (if input = ''1'' \<or> input = ''true'' then Some True
      else if input = ''0'' \<or> input = ''false'' then Some False else None)"

definition hexNibble :: "char \<Rightarrow> int" where
  "hexNibble c =
     (let n = of_char c :: int in
      if 48 \<le> n \<and> n \<le> 57 then n - 48
      else if 97 \<le> n \<and> n \<le> 102 then n - 97 + 10
      else if 65 \<le> n \<and> n \<le> 70 then n - 65 + 10
      else - 1)"

section \<open>Frames\<close>

text \<open>What a step of the parser does: refuse, deliver, or write outside the array.\<close>

datatype 'a bounded = Rejected | Parsed 'a | OutOfBounds

function parseData_loop :: "string \<Rightarrow> nat \<Rightarrow> nat \<Rightarrow> u8 list \<Rightarrow> u8 list bounded" where
  "parseData_loop input dataLength index data =
     (if index < dataLength
      then
       (let high = hexNibble (input ! (index * 2)); low = hexNibble (input ! (index * 2 + 1)) in
        if high < 0 \<or> low < 0 then Rejected
        else if index \<ge> length data then OutOfBounds
        else parseData_loop input dataLength (index + 1)
               (data[index := word_of_int (push_bit 4 high OR low)]))
      else Parsed data)"
  by pat_completeness auto
termination
  by (relation "measure (\<lambda>(input, dataLength, index, data). dataLength - index)") simp_all

declare parseData_loop.simps [simp del]

definition parseData :: "string \<Rightarrow> u8 \<Rightarrow> CanFrame \<Rightarrow> CanFrame bounded" where
  "parseData input dataLength frame =
     (if length input \<noteq> unat dataLength * 2 then Rejected
      else (case parseData_loop input (unat dataLength) 0 (cf_data frame) of
              Rejected \<Rightarrow> Rejected
            | OutOfBounds \<Rightarrow> OutOfBounds
            | Parsed data \<Rightarrow> Parsed (frame\<lparr>cf_data := data\<rparr>)))"

text \<open>The fields before the data, into the default frame.\<close>

definition parse_head :: "string list \<Rightarrow> (u32 \<times> CanFrame) option" where
  "parse_head columns =
     (case (csv_parseUnsigned 10 (columns ! 0) (2 ^ 32 - 1), parseIdentifier (columns ! 1),
            csv_parseBoolean (columns ! 2), csv_parseUnsigned 10 (columns ! 3) (2 ^ 8 - 1)) of
        (Some timestampMs, Some identifier, Some extended, Some dataLength) \<Rightarrow>
          Some (timestampMs, CanFrame_default
            \<lparr>cf_identifier := identifier, cf_extended := extended, cf_dataLength := dataLength\<rparr>)
      | _ \<Rightarrow> None)"

definition parseFrame :: "string list \<Rightarrow> CanFrame bounded" where
  "parseFrame columns =
     (case parse_head columns of
        None \<Rightarrow> Rejected
      | Some (timestampMs, frame) \<Rightarrow>
         (case parseData (columns ! 4) (cf_dataLength frame) frame of
            Rejected \<Rightarrow> Rejected
          | OutOfBounds \<Rightarrow> OutOfBounds
          | Parsed frame \<Rightarrow>
             (let frame = frame\<lparr>cf_timestampUs := ucast timestampMs * 1000\<rparr> in
              if CanFrame_isValid frame then Parsed frame else Rejected)))"

section \<open>Traces\<close>

datatype trace_result =
  TraceError string | TraceFrames "CanFrame list" | TraceOutOfBounds

definition trace_error :: "nat \<Rightarrow> string \<Rightarrow> trace_result" where
  "trace_error lineNumber message =
     TraceError (''line '' @ nat_text lineNumber @ '': '' @ message)"

definition without_return :: "string \<Rightarrow> string" where
  "without_return line =
     (if line \<noteq> [] \<and> last line = carriage_return then butlast line else line)"

fun parse_trace_lines :: "nat \<Rightarrow> nat \<Rightarrow> string list \<Rightarrow> CanFrame list \<Rightarrow> trace_result" where
  "parse_trace_lines maximumFrames lineNumber [] parsedFrames =
     (if parsedFrames = [] then TraceError ''trace contains no CAN frames''
      else TraceFrames parsedFrames)"
| "parse_trace_lines maximumFrames lineNumber (raw # lines) parsedFrames =
     (let lineNumber = lineNumber + 1; line = without_return raw in
      if line = [] then parse_trace_lines maximumFrames lineNumber lines parsedFrames
      else if length parsedFrames \<ge> maximumFrames
      then trace_error lineNumber ''maximum frame count exceeded''
      else
       (case splitFields line of
          None \<Rightarrow> trace_error lineNumber ''invalid CAN frame''
        | Some columns \<Rightarrow>
           (case parseFrame columns of
              OutOfBounds \<Rightarrow> TraceOutOfBounds
            | Rejected \<Rightarrow> trace_error lineNumber ''invalid CAN frame''
            | Parsed frame \<Rightarrow>
                if parsedFrames = [] \<and> cf_timestampUs frame \<noteq> 0
                then trace_error lineNumber ''first timestamp must be zero''
                else if parsedFrames \<noteq> [] \<and>
                  cf_timestampUs frame < cf_timestampUs (last parsedFrames)
                then trace_error lineNumber ''timestamps must be monotonic''
                else parse_trace_lines maximumFrames lineNumber lines (parsedFrames @ [frame]))))"

definition parseCanonicalCanTrace :: "istream \<Rightarrow> nat \<Rightarrow> trace_result" where
  "parseCanonicalCanTrace input maximumFrames =
     (if maximumFrames = 0 then TraceError ''maximum frame count must be greater than zero''
      else (case istream_lines input of
              [] \<Rightarrow> TraceError ''trace is empty''
            | first # lines \<Rightarrow>
               (let line = without_return first;
                    line = (if line = byte_order_mark @ Header then drop 3 line else line)
                in if line \<noteq> Header then trace_error 1 ''invalid header''
                   else parse_trace_lines maximumFrames 1 lines [])))"

definition loadCanonicalCanTrace ::
    "string option \<Rightarrow> nat \<Rightarrow> file_system \<Rightarrow> trace_result \<times> file_system" where
  "loadCanonicalCanTrace path maximumFrames fs =
     (case path of
        None \<Rightarrow> (TraceError ''trace path is empty'', fs)
      | Some p \<Rightarrow>
          if p = [] then (TraceError ''trace path is empty'', fs)
          else (case fs_open p fs of
                  (None, fs) \<Rightarrow> (TraceError ''unable to open trace file'', fs)
                | (Some input, fs) \<Rightarrow> (parseCanonicalCanTrace input maximumFrames, fs)))"

section \<open>Where the data goes\<close>

lemma hexNibble_bounds: "\<not> hexNibble c < 0 \<Longrightarrow> hexNibble c < 16"
  by (auto simp: hexNibble_def Let_def split: if_splits)

text \<open>The data bytes of a line are written inside the array exactly when there are at most eight of them,
  or one of the first nine is no hexadecimal number.\<close>

definition hex_pair :: "string \<Rightarrow> nat \<Rightarrow> bool" where
  "hex_pair input index \<longleftrightarrow>
     \<not> hexNibble (input ! (index * 2)) < 0 \<and> \<not> hexNibble (input ! (index * 2 + 1)) < 0"

lemma parseData_loop_bounds:
  "parseData_loop input n index data = OutOfBounds \<longleftrightarrow>
     length data < n \<and> (\<forall>i. index \<le> i \<and> i \<le> max index (length data) \<longrightarrow> hex_pair input i)"
  if "index \<le> length data"
  using that
proof (induction input n index data rule: parseData_loop.induct)
  case (1 input n index data)
  let ?high = "hexNibble (input ! (index * 2))" and ?low = "hexNibble (input ! (index * 2 + 1))"
  show ?case
  proof (cases "index < n \<and> hex_pair input index \<and> index < length data")
    case True
    let ?data = "data[index := word_of_int (push_bit 4 ?high OR ?low)]"
    have "parseData_loop input n index data = parseData_loop input n (index + 1) ?data"
      using True by (subst parseData_loop.simps) (simp add: hex_pair_def Let_def)
    moreover have "parseData_loop input n (index + 1) ?data = OutOfBounds \<longleftrightarrow>
        length ?data < n \<and> (\<forall>i. index + 1 \<le> i \<and> i \<le> max (index + 1) (length ?data) \<longrightarrow> hex_pair input i)"
      using "1.IH" [OF _ refl refl] True by (simp add: hex_pair_def)
    moreover have "(\<forall>i. index \<le> i \<and> i \<le> max index (length data) \<longrightarrow> hex_pair input i) \<longleftrightarrow>
        (\<forall>i. index + 1 \<le> i \<and> i \<le> max (index + 1) (length data) \<longrightarrow> hex_pair input i)"
      using True by (auto simp: max_def Suc_le_eq) (metis le_neq_implies_less)
    ultimately show ?thesis by simp
  next
    case False
    then show ?thesis
      using "1.prems" by (subst parseData_loop.simps) (auto simp: hex_pair_def Let_def max_def)
  qed
qed

lemma parseData_loop_length:
  "parseData_loop input n index data = Parsed data' \<Longrightarrow> length data' = length data"
proof (induction input n index data rule: parseData_loop.induct)
  case (1 input n index data)
  then show ?case
    by (subst (asm) (2) parseData_loop.simps) (auto simp: Let_def split: if_splits)
qed

lemma parse_head_frame:
  "parse_head columns = Some (t, frame) \<Longrightarrow>
     length (cf_data frame) = 8 \<and> cf_direction frame = CD_Rx \<and> cf_timestampUs frame = 0"
  by (auto simp: parse_head_def CanFrame_default_def MaximumDataLength_def split: option.splits)

lemma parseFrame_out_of_bounds:
  "parseFrame columns = OutOfBounds \<longleftrightarrow>
     (\<exists>t frame. parse_head columns = Some (t, frame) \<and> 8 < unat (cf_dataLength frame) \<and>
        length (columns ! 4) = unat (cf_dataLength frame) * 2 \<and> (\<forall>i \<le> 8. hex_pair (columns ! 4) i))"
proof (cases "parse_head columns")
  case (Some p)
  obtain t frame where p: "p = (t, frame)" by fastforce
  note head = parse_head_frame [OF Some [unfolded p]]
  have "parseData_loop (columns ! 4) (unat (cf_dataLength frame)) 0 (cf_data frame) = OutOfBounds \<longleftrightarrow>
      8 < unat (cf_dataLength frame) \<and> (\<forall>i \<le> 8. hex_pair (columns ! 4) i)"
    using head by (subst parseData_loop_bounds) simp_all
  with Some p show ?thesis
    by (auto simp: parseFrame_def parseData_def Let_def split: bounded.splits)
qed (simp add: parseFrame_def)

section \<open>Accepted traces\<close>

definition trace_ok :: "CanFrame list \<Rightarrow> bool" where
  "trace_ok frames \<longleftrightarrow>
     (\<forall>frame \<in> set frames. CanFrame_isValid frame \<and> length (cf_data frame) = 8 \<and>
        unat (cf_timestampUs frame) mod 1000 = 0) \<and>
     sorted (map (unat \<circ> cf_timestampUs) frames) \<and>
     (frames \<noteq> [] \<longrightarrow> cf_timestampUs (hd frames) = 0)"

lemma sorted_le_last: "sorted ys \<Longrightarrow> y \<in> set ys \<Longrightarrow> y \<le> last ys"
  by (induction ys) auto

lemma microseconds: "unat (ucast (t :: u32) * 1000 :: u64) = unat t * 1000"
proof -
  have "unat t < 2 ^ 32" by (rule order_less_le_trans [OF unsigned_less]) simp
  then show ?thesis by (simp add: unat_word_ariths unsigned_ucast_eq take_bit_nat_eq_self)
qed

lemma parseFrame_ok:
  assumes "parseFrame columns = Parsed frame"
  shows "CanFrame_isValid frame \<and> length (cf_data frame) = 8 \<and>
    unat (cf_timestampUs frame) mod 1000 = 0"
proof -
  from assms obtain t f data where head: "parse_head columns = Some (t, f)"
    and data: "parseData_loop (columns ! 4) (unat (cf_dataLength f)) 0 (cf_data f) = Parsed data"
    and frame: "frame = f\<lparr>cf_data := data, cf_timestampUs := ucast t * 1000\<rparr>"
    and "CanFrame_isValid frame"
    by (auto simp: parseFrame_def parseData_def Let_def split: option.splits prod.splits
        bounded.splits if_splits)
  with parse_head_frame [OF head] parseData_loop_length [OF data] show ?thesis
    by (simp add: microseconds)
qed

lemma parse_trace_lines_ok:
  assumes "trace_ok parsed" and "length parsed \<le> maximum"
    and "parse_trace_lines maximum n lines parsed = TraceFrames frames"
  shows "frames \<noteq> [] \<and> length frames \<le> maximum \<and> trace_ok frames"
  using assms
proof (induction maximum n lines parsed rule: parse_trace_lines.induct)
  case (1 maximum n parsed)
  then show ?case by (simp split: if_splits)
next
  case (2 maximum n raw lines parsed)
  show ?case
  proof (cases "without_return raw = []")
    case True
    with 2 show ?thesis by (simp add: Let_def)
  next
    case False
    with "2.prems"(3) obtain columns frame where
      split: "splitFields (without_return raw) = Some columns" and parsed: "parseFrame columns = Parsed frame"
      and room: "length parsed < maximum"
      and first: "parsed = [] \<longrightarrow> cf_timestampUs frame = 0"
      and later: "parsed \<noteq> [] \<longrightarrow> \<not> cf_timestampUs frame < cf_timestampUs (last parsed)"
      and rest: "parse_trace_lines maximum (n + 1) lines (parsed @ [frame]) = TraceFrames frames"
      by (auto simp: Let_def trace_error_def split: if_splits option.splits bounded.splits)
    have "trace_ok (parsed @ [frame])"
    proof -
      have "unat (cf_timestampUs x) \<le> unat (cf_timestampUs frame)" if "x \<in> set parsed" for x
      proof -
        have "sorted (map (unat \<circ> cf_timestampUs) parsed)"
          using "2.prems"(1) by (simp add: trace_ok_def)
        from sorted_le_last [OF this, of "unat (cf_timestampUs x)"] that
        have "unat (cf_timestampUs x) \<le> unat (cf_timestampUs (last parsed))"
          by (cases "parsed = []") (simp_all add: last_map)
        also have "\<dots> \<le> unat (cf_timestampUs frame)"
          using later that by (auto simp: not_less word_le_nat_alt)
        finally show ?thesis .
      qed
      with "2.prems"(1) parseFrame_ok [OF parsed] first show ?thesis
        by (cases parsed) (auto simp: trace_ok_def sorted_append)
    qed
    with "2.IH"(2) [OF refl refl False _ split parsed] room rest first later "2.prems"(2) show ?thesis
      by auto
  qed
qed

section \<open>Properties\<close>

text \<open>C28: A trace that is accepted can be replayed: it is not empty and not longer than allowed, it starts
  at time zero, its frames are valid, hold eight data bytes and have times in whole milliseconds that never
  decrease, and the replay built on it is a valid one.\<close>

theorem accepted_trace_replays:
  assumes "parseCanonicalCanTrace input maximumFrames = TraceFrames frames"
  shows "frames \<noteq> [] \<and> length frames \<le> maximumFrames \<and> cf_timestampUs (hd frames) = 0 \<and>
    (\<forall>frame \<in> set frames. CanFrame_isValid frame \<and> length (cf_data frame) = 8 \<and>
       unat (cf_timestampUs frame) mod 1000 = 0) \<and>
    sorted (map (unat \<circ> cf_timestampUs) frames) \<and>
    cr_valid (mkCanTraceReplay (Some frames) (length frames))"
proof -
  obtain lines where "parse_trace_lines maximumFrames 1 lines [] = TraceFrames frames"
    using assms
    by (auto simp: parseCanonicalCanTrace_def trace_error_def Let_def split: list.splits if_splits)
  from parse_trace_lines_ok [OF _ _ this] have ok: "frames \<noteq> []" "length frames \<le> maximumFrames"
    "trace_ok frames" by (simp_all add: trace_ok_def)
  have "\<not> cf_timestampUs (frames ! i) < cf_timestampUs (frames ! (i - 1))" if "i < length frames" for i
    using ok(3) that sorted_nth_mono [of "map (unat \<circ> cf_timestampUs) frames" "i - 1" i]
    by (simp add: trace_ok_def not_less word_le_nat_alt)
  with ok show ?thesis
    by (simp add: trace_ok_def mkCanTraceReplay_def validateTrace_def)
qed

lemmas csv_steps =
  parseFrame_def parse_head_def parseData_def parseData_loop.simps csv_parseUnsigned_def
  parseIdentifier_def csv_parseBoolean_def from_chars_def digit_value_def digits_value_def hexNibble_def
  CanFrame_default_def CanFrame_isValid_def MaximumDataLength_def MaximumStandardIdentifier_def
  MaximumExtendedIdentifier_def

lemma splitFields_five: "splitFields line = splitFields_from (Suc (Suc (Suc (Suc 0)))) line"
  by (simp add: splitFields_def numeral_eq_Suc)

lemma parse_one_line:
  assumes "newline \<notin> set line" and "line \<noteq> []" and "last line \<noteq> carriage_return"
  shows "parseCanonicalCanTrace (stream_of (Header @ newline # line)) maximum =
    (if maximum = 0 then TraceError ''maximum frame count must be greater than zero''
     else parse_trace_lines maximum 1 [line] [])"
proof -
  have "newline \<notin> set Header" "last Header \<noteq> carriage_return" "Header \<noteq> []"
    "Header \<noteq> byte_order_mark @ Header"
    by (simp_all add: Header_def newline_def carriage_return_def byte_order_mark_def)
  moreover have "istream_lines (stream_of (Header @ newline # line)) = [Header, line]"
    using lines_of_line [OF \<open>newline \<notin> set Header\<close>] lines_of_last [OF assms(1)] assms(2) by simp
  ultimately show ?thesis by (simp add: parseCanonicalCanTrace_def without_return_def Let_def)
qed

theorem accepted_trace_replays_witness:
  "\<exists>frame. parseCanonicalCanTrace (stream_of (Header @ newline # ''0,0x130,false,1,45'')) 1 =
       TraceFrames [frame] \<and>
     CanFrame_isValid frame \<and> cr_valid (mkCanTraceReplay (Some [frame]) (length [frame]))"
proof -
  let ?frame = "CanFrame_default\<lparr>cf_identifier := 0x130, cf_dataLength := 1,
    cf_data := (replicate 8 0)[0 := 0x45]\<rparr>"
  have "parseFrame [''0'', ''0x130'', ''false'', ''1'', ''45''] = Parsed ?frame"
    by (simp add: csv_steps Let_def)
  moreover have "splitFields ''0,0x130,false,1,45'' = Some [''0'', ''0x130'', ''false'', ''1'', ''45'']"
    by (simp add: splitFields_five Let_def)
  ultimately have "parse_trace_lines 1 1 [''0,0x130,false,1,45''] [] = TraceFrames [?frame]"
    by (simp add: without_return_def carriage_return_def CanFrame_default_def)
  then have parsed: "parseCanonicalCanTrace (stream_of (Header @ newline # ''0,0x130,false,1,45'')) 1 =
      TraceFrames [?frame]"
    by (subst parse_one_line) (simp_all add: newline_def carriage_return_def)
  with accepted_trace_replays [OF parsed] show ?thesis by auto
qed

text \<open>C29: The parser of a line writes past the eight data bytes of a frame exactly when the other fields are
  well formed, the length field is above eight and the data field has that many bytes, the first nine of
  them hexadecimal: the length is checked only after the bytes were stored.\<close>

theorem long_data_written_out_of_bounds:
  "parseFrame columns = OutOfBounds \<longleftrightarrow>
     (\<exists>t frame. parse_head columns = Some (t, frame) \<and> 8 < unat (cf_dataLength frame) \<and>
        length (columns ! 4) = unat (cf_dataLength frame) * 2 \<and>
        (\<forall>i \<le> 8. \<not> hexNibble (columns ! 4 ! (i * 2)) < 0 \<and> \<not> hexNibble (columns ! 4 ! (i * 2 + 1)) < 0))"
  using parseFrame_out_of_bounds [of columns] by (simp add: hex_pair_def)

theorem long_data_written_out_of_bounds_witness:
  "parseCanonicalCanTrace (stream_of (Header @ newline # ''0,0x130,false,9,000000000000000000'')) 1 =
     TraceOutOfBounds \<and>
   (\<exists>t frame. parse_head [''0'', ''0x130'', ''false'', ''9'', ''000000000000000000''] = Some (t, frame) \<and>
      8 < unat (cf_dataLength frame))"
proof -
  have long: "parseFrame [''0'', ''0x130'', ''false'', ''9'', ''000000000000000000''] = OutOfBounds"
    by (simp add: csv_steps Let_def)
  moreover have "splitFields ''0,0x130,false,9,000000000000000000'' =
      Some [''0'', ''0x130'', ''false'', ''9'', ''000000000000000000'']"
    by (simp add: splitFields_five Let_def)
  ultimately have "parse_trace_lines 1 1 [''0,0x130,false,9,000000000000000000''] [] = TraceOutOfBounds"
    by (simp add: without_return_def carriage_return_def)
  then have "parseCanonicalCanTrace (stream_of (Header @ newline # ''0,0x130,false,9,000000000000000000'')) 1 =
      TraceOutOfBounds"
    by (subst parse_one_line) (simp_all add: newline_def carriage_return_def)
  with long long_data_written_out_of_bounds show ?thesis by blast
qed

end
