(* ===== verification/Sandbox.thy ===== *)
theory Sandbox
  imports SupervisedSystem UserSettings SyntheticCan HostText
begin

text \<open>
  The interactive sandbox of the host tools (\<^verbatim>\<open>tools/sandbox_session.hpp/.cpp\<close>): the real controller,
  runtime and supervisor over a driver, a timer and a vehicle that live in memory, driven by text
  commands and answering each with a line of JSON.
\<close>

section \<open>The ports of the sandbox\<close>

definition SupervisorServicePeriodMs :: u32 where "SupervisorServicePeriodMs = 250"

text \<open>The gateway, the driver, the timer and the notifications: the world under the runtime.\<close>

record SandboxWorld =
  sw_requestCount :: u32
  sw_ignition :: bool
  sw_starter :: bool
  sw_armed :: bool
  sw_changed :: bool
  sw_duration :: u32
  sw_due :: u32
  sw_notification :: ActionType
  sw_notified :: bool

definition SandboxWorld_default :: SandboxWorld where
  "SandboxWorld_default =
     \<lparr>sw_requestCount = 0, sw_ignition = False, sw_starter = False, sw_armed = False,
      sw_changed = False, sw_duration = 0, sw_due = 0, sw_notification = AT_NotifyReady,
      sw_notified = False\<rparr>"

definition SandboxGateway :: "SandboxWorld VehicleGateway" where
  "SandboxGateway = \<lparr>requestState = \<lambda>w. (True, w\<lparr>sw_requestCount := sw_requestCount w + 1\<rparr>)\<rparr>"

definition driver_reset :: "SandboxWorld \<Rightarrow> SandboxWorld" where
  "driver_reset w = w\<lparr>sw_ignition := False, sw_starter := False\<rparr>"

definition SandboxActuatorDriver :: "SandboxWorld ActuatorPort" where
  "SandboxActuatorDriver =
     \<lparr>ap_enableIgnition = \<lambda>w. (True, w\<lparr>sw_ignition := True\<rparr>),
      ap_engageStarter = \<lambda>w. (True, w\<lparr>sw_starter := True\<rparr>),
      ap_disengageStarter = \<lambda>w. (True, w\<lparr>sw_starter := False\<rparr>),
      ap_releaseRemoteControl = \<lambda>w. (True, driver_reset w),
      ap_secureOutputs = \<lambda>w. (True, driver_reset w)\<rparr>"

definition driver_feedback :: "SandboxWorld \<Rightarrow> ActuatorFeedback" where
  "driver_feedback w =
     \<lparr>fb_available = True, ignitionActive = sw_ignition w, starterActive = sw_starter w\<rparr>"

definition SandboxTimer :: "SandboxWorld TimerPort" where
  "SandboxTimer =
     \<lparr>timer_arm = \<lambda>durationMs w.
        (True, w\<lparr>sw_armed := True, sw_duration := durationMs, sw_changed := True\<rparr>),
      timer_cancel = \<lambda>w.
        (True, w\<lparr>sw_armed := False, sw_duration := 0, sw_due := 0, sw_changed := False\<rparr>)\<rparr>"

definition timer_settle :: "u32 \<Rightarrow> SandboxWorld \<Rightarrow> SandboxWorld" where
  "timer_settle nowMs w =
     (if sw_armed w \<and> sw_changed w
      then w\<lparr>sw_due := nowMs + sw_duration w, sw_changed := False\<rparr> else w)"

definition timer_reset :: "SandboxWorld \<Rightarrow> SandboxWorld" where
  "timer_reset w = w\<lparr>sw_armed := False, sw_changed := False, sw_duration := 0, sw_due := 0\<rparr>"

definition SandboxNotifications :: "SandboxWorld NotificationSink" where
  "SandboxNotifications =
     \<lparr>publish = \<lambda>notification state fault safety readiness w.
        w\<lparr>sw_notification := notification, sw_notified := True\<rparr>\<rparr>"

definition sandbox_platform :: "SandboxWorld Platform" where
  "sandbox_platform =
     \<lparr>pl_driver = SandboxActuatorDriver, pl_gateway = SandboxGateway, pl_timer = SandboxTimer,
      pl_sink = SandboxNotifications\<rparr>"

definition makeSafeVehicle :: VehicleState where
  "makeSafeVehicle = VehicleState_default
     \<lparr>vs_batteryMillivolts := Observed_fresh 12500, vs_engineRpm := Observed_fresh 0,
      vs_coolantTemperatureC := Observed_fresh 20, vs_engineOilTemperatureC := Observed_fresh 20,
      vs_transmissionOilTemperatureC := Observed_fresh 20,
      vs_dpfRegenerationActive := Observed_fresh False, vs_hoodClosed := Observed_fresh True,
      vs_doorsClosed := Observed_fresh True, vs_trunkClosed := Observed_fresh True,
      vs_brakePressed := Observed_fresh False, vs_parkingBrakeApplied := Observed_fresh True,
      vs_transmission := Observed_fresh TR_Automatic, vs_gear := Observed_fresh GE_Park,
      vs_criticalFaultPresent := Observed_fresh False\<rparr>"

section \<open>Reading commands\<close>

definition sandbox_trim :: "string \<Rightarrow> string" where
  "sandbox_trim input =
     (let contentStart = (if take 3 input = byte_order_mark then 3 else 0);
          first = contentStart + length (takeWhile is_space (drop contentStart input));
          last = length input - length (takeWhile is_space (rev input))
      in if first < last then take (last - first) (drop first input) else [])"

definition parseOnOff :: "string \<Rightarrow> bool option" where
  "parseOnOff input =
     (if input = ''on'' then Some True else if input = ''off'' then Some False else None)"

definition parseClosedOpen :: "string \<Rightarrow> bool option" where
  "parseClosedOpen input =
     (if input = ''closed'' then Some True else if input = ''open'' then Some False else None)"

text \<open>The digits of a number that never exceeds \<open>maximum\<close> on the way.\<close>

fun parse_digits :: "nat \<Rightarrow> string \<Rightarrow> nat \<Rightarrow> nat option" where
  "parse_digits maximum [] parsed = Some parsed"
| "parse_digits maximum (c # cs) parsed =
     (case digit_value 10 c of
        None \<Rightarrow> None
      | Some d \<Rightarrow> if parsed * 10 + d > maximum then None
                  else parse_digits maximum cs (parsed * 10 + d))"

definition sandbox_parseUnsigned :: "string \<Rightarrow> nat \<Rightarrow> nat option" where
  "sandbox_parseUnsigned input maximum = (if input = [] then None else parse_digits maximum input 0)"

definition sandbox_parseSigned :: "string \<Rightarrow> int \<Rightarrow> int \<Rightarrow> int option" where
  "sandbox_parseSigned input minimum maximum =
     (let negative = (input \<noteq> [] \<and> hd input = CHR ''-'');
          digits = (if negative then tl input else input)
      in
      if digits = [] then None
      else (case parse_digits 1000 digits 0 of
              None \<Rightarrow> None
            | Some parsed \<Rightarrow>
               (let result = (if negative then - int parsed else int parsed) in
                if minimum \<le> result \<and> result \<le> maximum then Some result else None)))"

fun gearToString :: "Gear \<Rightarrow> string" where
  "gearToString GE_Park = ''park''"
| "gearToString GE_Neutral = ''neutral''"
| "gearToString GE_Reverse = ''reverse''"
| "gearToString GE_Drive = ''drive''"
| "gearToString GE_Unknown = ''unknown''"

definition escape_char :: "char \<Rightarrow> string" where
  "escape_char c =
     (if c = CHR 0x22 then [CHR 0x5C, CHR 0x22]
      else if c = CHR 0x5C then [CHR 0x5C, CHR 0x5C]
      else if c = CHR 0x08 then [CHR 0x5C, CHR ''b'']
      else if c = CHR 0x0C then [CHR 0x5C, CHR ''f'']
      else if c = CHR 0x0A then [CHR 0x5C, CHR ''n'']
      else if c = CHR 0x0D then [CHR 0x5C, CHR ''r'']
      else if c = CHR 0x09 then [CHR 0x5C, CHR ''t'']
      else if (of_char c :: nat) < 0x20 then ''?''
      else [c])"

definition escapeJson :: "string \<Rightarrow> string" where
  "escapeJson input = concat (map escape_char input)"

section \<open>The session\<close>

record SandboxSession =
  sb_system :: "SandboxWorld system"
  sb_vehicle :: VehicleState
  sb_lastDecision :: Decision
  sb_settings :: UserSettings
  sb_telemetryMonitor :: TelemetryMonitor
  sb_telemetryReport :: TelemetryReport
  sb_lastEvent :: EventType
  sb_nowMs :: u32
  sb_lastServiceMs :: u32
  sb_permitted :: bool
  sb_hoodRequired :: bool

definition sb_runtime :: "SandboxSession \<Rightarrow> SandboxWorld supervised Runtime" where
  "sb_runtime b = fst (sb_system b)"

definition sb_supervisor :: "SandboxSession \<Rightarrow> ActuatorSafetySupervisor" where
  "sb_supervisor b = fst (snd (sb_system b))"

definition sb_world :: "SandboxSession \<Rightarrow> SandboxWorld" where
  "sb_world b = snd (snd (sb_system b))"

definition sb_state :: "SandboxSession \<Rightarrow> ControllerState" where
  "sb_state b = Runtime_state (sb_runtime b)"

definition sb_faulted :: "SandboxSession \<Rightarrow> bool" where
  "sb_faulted b \<longleftrightarrow> st_fault (supervisor_status (sb_supervisor b)) \<noteq> AF_None"

definition sb_step :: "system_event \<Rightarrow> SandboxSession \<Rightarrow> SandboxSession" where
  "sb_step e b = b\<lparr>sb_system := system_step sandbox_platform e (sb_system b)\<rparr>"

definition sb_poll :: "u32 \<Rightarrow> SandboxSession \<Rightarrow> SandboxSession" where
  "sb_poll atMs b = sb_step (SE_Poll atMs (sb_permitted b) (driver_feedback (sb_world b))) b"

text \<open>A heartbeat, a poll and the note of when.\<close>

definition sb_supervise :: "u32 \<Rightarrow> SandboxSession \<Rightarrow> SandboxSession" where
  "sb_supervise atMs b = (sb_poll atMs (sb_step (SE_Heartbeat atMs) b))\<lparr>sb_lastServiceMs := atMs\<rparr>"

definition simulated_telemetry :: "UserSettings \<Rightarrow> TelemetryMonitorConfig" where
  "simulated_telemetry settings =
     (let telemetry = uc_telemetry (makeUserConfiguration settings (Some syntheticVehicleProfile)) in
      telemetry\<lparr>tm_runtime := (tm_runtime telemetry)
        \<lparr>rc_target := FET_Simulation,
         implementedFeatures := push_bit (featureIndex FI_ColdEngineGuard) 1 OR
           push_bit (featureIndex FI_DpfRegenerationIndicator) 1 OR
           push_bit (featureIndex FI_TransmissionOverheatAlert) 1,
         availableCapabilities := featureCapabilityMask FP_VehicleStateRead,
         vehicleSignalsQualified := True\<rparr>\<rparr>)"

definition rebuildTelemetryMonitor :: "SandboxSession \<Rightarrow> SandboxSession" where
  "rebuildTelemetryMonitor b =
     (let (report, monitor) = TelemetryMonitor_evaluate (sb_vehicle b)
            (mkTelemetryMonitor (simulated_telemetry (sb_settings b)))
      in b\<lparr>sb_telemetryMonitor := monitor, sb_telemetryReport := report\<rparr>)"

definition sb_evaluate :: "SandboxSession \<Rightarrow> SandboxSession" where
  "sb_evaluate b =
     (let (report, monitor) = TelemetryMonitor_evaluate (sb_vehicle b) (sb_telemetryMonitor b)
      in b\<lparr>sb_telemetryMonitor := monitor, sb_telemetryReport := report\<rparr>)"

text \<open>A fresh system over the world with driver, timer and notifications cleared.\<close>

definition restart_settings :: "bool \<Rightarrow> UserSettings" where
  "restart_settings requireHood = UserSettings_default
     \<lparr>us_hoodMonitoring := (if requireHood then HM_Required else HM_Disabled)\<rparr>"

definition restart_world :: "SandboxWorld \<Rightarrow> SandboxWorld" where
  "restart_world w =
     (timer_reset ((driver_reset w)\<lparr>sw_requestCount := 0\<rparr>))
       \<lparr>sw_notification := AT_NotifyReady, sw_notified := False\<rparr>"

definition sb_started ::
    "bool \<Rightarrow> DiagnosticJournal \<Rightarrow> SandboxWorld \<Rightarrow> SandboxSession" where
  "sb_started requireHood journal w =
     (let settings = restart_settings requireHood;
          configuration = makeUserConfiguration settings (Some syntheticVehicleProfile)
      in
      \<lparr>sb_system = system_start sandbox_platform (uc_controller configuration)
         ActuatorSafetyConfig_default (Some journal) (restart_world w),
       sb_vehicle = makeSafeVehicle, sb_lastDecision = Decision_default, sb_settings = settings,
       sb_telemetryMonitor = mkTelemetryMonitor (simulated_telemetry settings),
       sb_telemetryReport = TelemetryReport_default, sb_lastEvent = ET_VehicleStateUpdated,
       sb_nowMs = 0, sb_lastServiceMs = 0, sb_permitted = True, sb_hoodRequired = requireHood\<rparr>)"

definition sb_restart :: "bool \<Rightarrow> SandboxSession \<Rightarrow> SandboxSession" where
  "sb_restart requireHood b =
     (let journal = DiagnosticJournal_clear (the (diagnosticJournal (sb_runtime b)));
          b = sb_started requireHood journal (sb_world b);
          b = sb_poll 0 (sb_step (SE_Heartbeat 0) b)
      in rebuildTelemetryMonitor b)"

definition SandboxSession_new :: SandboxSession where
  "SandboxSession_new =
     (let b = sb_started True DiagnosticJournal_default SandboxWorld_default;
          b = sb_poll 0 (sb_step (SE_Heartbeat 0) b)
      in rebuildTelemetryMonitor b)"

definition sb_settle :: "SandboxSession \<Rightarrow> SandboxSession" where
  "sb_settle b = b\<lparr>sb_system := (sb_runtime b, sb_supervisor b, timer_settle (sb_nowMs b) (sb_world b))\<rparr>"

definition sb_dispatch :: "Event \<Rightarrow> SandboxSession \<Rightarrow> SandboxSession" where
  "sb_dispatch event b =
     (let b = b\<lparr>sb_lastEvent := ev_type event\<rparr>;
          (decision, system) = Runtime_dispatch event (sb_vehicle b) (sb_nowMs b) (sb_system b)
      in sb_settle (b\<lparr>sb_lastDecision := decision, sb_system := system\<rparr>))"

lemma supervise_last [simp]: "sb_lastServiceMs (sb_supervise atMs b) = atMs"
  by (simp add: sb_supervise_def)

function serviceSupervisor :: "u32 \<Rightarrow> SandboxSession \<Rightarrow> SandboxSession" where
  "serviceSupervisor targetMs b =
     (if targetMs - sb_lastServiceMs b > SupervisorServicePeriodMs
      then
       (let b = sb_supervise (sb_lastServiceMs b + SupervisorServicePeriodMs) b in
        if sb_faulted b then b else serviceSupervisor targetMs b)
      else sb_supervise targetMs b)"
  by pat_completeness auto
termination
proof (relation "measure (\<lambda>(targetMs, b). unat (targetMs - sb_lastServiceMs b))", goal_cases)
  case (2 targetMs b b')
  then have step: "targetMs - sb_lastServiceMs b' = (targetMs - sb_lastServiceMs b) - 250"
    by (simp add: SupervisorServicePeriodMs_def algebra_simps)
  have above: "(250 :: u32) < targetMs - sb_lastServiceMs b"
    using 2(1) by (simp add: SupervisorServicePeriodMs_def)
  then have "unat (targetMs - sb_lastServiceMs b - 250) < unat (targetMs - sb_lastServiceMs b)"
    by (subst unat_sub) (auto simp: word_less_nat_alt word_le_nat_alt)
  then show ?case by (simp only: step in_measure prod.case)
qed simp

declare serviceSupervisor.simps [simp del]

definition propagateSupervisorFault :: "SandboxSession \<Rightarrow> SandboxSession" where
  "propagateSupervisorFault b =
     (if \<not> sb_faulted b \<or> sb_state b = CS_Fault then b
      else sb_dispatch (infrastructureFailure FC_ActuatorFailure) b)"

section \<open>Results\<close>

record SandboxSnapshot =
  ss_timeMs :: u32
  ss_state :: ControllerState
  ss_fault :: FaultCode
  ss_supervisorFault :: ActuatorSupervisorFault
  ss_timerArmed :: bool
  ss_timerDueMs :: u32
  ss_timerDurationMs :: u32
  ss_ignitionActive :: bool
  ss_starterActive :: bool
  ss_hardwareStartPermitted :: bool
  ss_hoodMonitoringRequired :: bool
  ss_vehicle :: VehicleState
  ss_requestedFeatures :: FeatureRequests
  ss_telemetry :: TelemetryReport
  ss_lastEvent :: EventType
  ss_lastDecision :: Decision
  ss_diagnosticRecords :: nat

definition sb_snapshot :: "SandboxSession \<Rightarrow> SandboxSnapshot" where
  "sb_snapshot b =
     \<lparr>ss_timeMs = sb_nowMs b, ss_state = sb_state b, ss_fault = d_fault (sb_lastDecision b),
      ss_supervisorFault = st_fault (supervisor_status (sb_supervisor b)),
      ss_timerArmed = sw_armed (sb_world b), ss_timerDueMs = sw_due (sb_world b),
      ss_timerDurationMs = sw_duration (sb_world b), ss_ignitionActive = sw_ignition (sb_world b),
      ss_starterActive = sw_starter (sb_world b), ss_hardwareStartPermitted = sb_permitted b,
      ss_hoodMonitoringRequired = sb_hoodRequired b, ss_vehicle = sb_vehicle b,
      ss_requestedFeatures = us_features (sb_settings b), ss_telemetry = sb_telemetryReport b,
      ss_lastEvent = sb_lastEvent b, ss_lastDecision = sb_lastDecision b,
      ss_diagnosticRecords = dj_size (the (diagnosticJournal (sb_runtime b)))\<rparr>"

record SandboxResult =
  rs_ok :: bool
  rs_error :: string
  rs_snapshot :: SandboxSnapshot

definition sb_success :: "SandboxSession \<Rightarrow> SandboxResult \<times> SandboxSession" where
  "sb_success b = (\<lparr>rs_ok = True, rs_error = [], rs_snapshot = sb_snapshot b\<rparr>, b)"

definition sb_failure :: "string \<Rightarrow> SandboxSession \<Rightarrow> SandboxResult \<times> SandboxSession" where
  "sb_failure message b = (\<lparr>rs_ok = False, rs_error = message, rs_snapshot = sb_snapshot b\<rparr>, b)"

section \<open>Commands\<close>

text \<open>An event, unless the controller is in fault.\<close>

definition sb_dispatch_unless_fault :: "Event \<Rightarrow> SandboxSession \<Rightarrow> SandboxSession" where
  "sb_dispatch_unless_fault event b = (if sb_state b \<noteq> CS_Fault then sb_dispatch event b else b)"

definition dispatchWithoutArguments ::
    "string list \<Rightarrow> EventType \<Rightarrow> bool \<Rightarrow> SandboxSession \<Rightarrow> SandboxResult \<times> SandboxSession" where
  "dispatchWithoutArguments arguments t feedAuthorizationState b =
     (if arguments \<noteq> [] then sb_failure ''command does not accept arguments'' b
      else
       (let b = propagateSupervisorFault (serviceSupervisor (sb_nowMs b) b) in
        if sb_state b = CS_Fault then sb_success b
        else
         (let b = sb_dispatch (Event_of t) b in
          sb_success (if feedAuthorizationState \<and> sb_state b = CS_Authorizing
                      then sb_dispatch (Event_of ET_VehicleStateUpdated) b else b))))"

definition sb_timer :: "string list \<Rightarrow> SandboxSession \<Rightarrow> SandboxResult \<times> SandboxSession" where
  "sb_timer arguments b =
     (if arguments \<noteq> [] then sb_failure ''timer does not accept arguments'' b
      else if \<not> sw_armed (sb_world b) then sb_failure ''no timer is armed'' b
      else
       (let due = sw_due (sb_world b);
            b = serviceSupervisor due b;
            b = b\<lparr>sb_nowMs := sw_due (sb_world b)\<rparr>;
            b = propagateSupervisorFault b
        in sb_success (sb_dispatch_unless_fault (Event_of ET_TimerElapsed) b)))"

definition sb_reset :: "string list \<Rightarrow> SandboxSession \<Rightarrow> SandboxResult \<times> SandboxSession" where
  "sb_reset arguments b =
     (if arguments \<noteq> [] then sb_failure ''reset does not accept arguments'' b
      else if sb_faulted b
      then
       (case supervisor_resetFault SandboxActuatorDriver (sb_nowMs b) (driver_feedback (sb_world b))
               (snd (sb_system b)) of
          (accepted, supervised) \<Rightarrow>
           (let b = b\<lparr>sb_system := (sb_runtime b, supervised)\<rparr> in
            if \<not> accepted
            then sb_failure ''actuator supervisor cannot be reset while outputs are unsafe'' b
            else sb_success (sb_dispatch (Event_of ET_ResetRequested) (sb_supervise (sb_nowMs b) b))))
      else sb_success (sb_dispatch (Event_of ET_ResetRequested) b))"

definition sb_watchdog :: "string list \<Rightarrow> SandboxSession \<Rightarrow> SandboxResult \<times> SandboxSession" where
  "sb_watchdog arguments b =
     (if arguments \<noteq> [] then sb_failure ''watchdog does not accept arguments'' b
      else
       (let b = b\<lparr>sb_nowMs := sb_lastServiceMs b + 501\<rparr>;
            b = (sb_poll (sb_nowMs b) b)\<lparr>sb_lastServiceMs := sb_nowMs b\<rparr>
        in sb_success (propagateSupervisorFault b)))"

definition sb_interlock :: "string list \<Rightarrow> SandboxSession \<Rightarrow> SandboxResult \<times> SandboxSession" where
  "sb_interlock arguments b =
     (case map parseOnOff arguments of
        [Some enabled] \<Rightarrow>
          sb_success (propagateSupervisorFault
            (sb_supervise (sb_nowMs b) (b\<lparr>sb_permitted := enabled\<rparr>)))
      | _ \<Rightarrow> sb_failure ''usage: interlock on|off'' b)"

definition sb_new :: "string list \<Rightarrow> SandboxSession \<Rightarrow> SandboxResult \<times> SandboxSession" where
  "sb_new arguments b =
     (if arguments = [''required''] \<or> arguments = [''optional'']
      then sb_success (sb_restart (arguments = [''required'']) b)
      else sb_failure ''usage: new required|optional'' b)"

text \<open>A value of a vehicle field, read or refused with the message.\<close>

definition or_message :: "string \<Rightarrow> 'a option \<Rightarrow> ('a \<Rightarrow> VehicleState) \<Rightarrow> string + VehicleState" where
  "or_message message v f = (case v of None \<Rightarrow> Inl message | Some x \<Rightarrow> Inr (f x))"

definition vehicle_field :: "string \<Rightarrow> string \<Rightarrow> VehicleState \<Rightarrow> string + VehicleState" where
  "vehicle_field key v candidate =
     (if key = ''rpm''
      then or_message ''rpm must be between 0 and 8000'' (sandbox_parseUnsigned v 8000)
             (\<lambda>n. candidate\<lparr>vs_engineRpm := Observed_fresh (of_nat n)\<rparr>)
      else if key = ''battery''
      then or_message ''battery must be between 9000 and 16000 millivolts''
             (case sandbox_parseUnsigned v 16000 of
                None \<Rightarrow> None | Some n \<Rightarrow> if n < 9000 then None else Some n)
             (\<lambda>n. candidate\<lparr>vs_batteryMillivolts := Observed_fresh (of_nat n)\<rparr>)
      else if key = ''coolant''
      then or_message ''coolant must be between -40 and 215 C'' (sandbox_parseSigned v (- 40) 215)
             (\<lambda>t. candidate\<lparr>vs_coolantTemperatureC := Observed_fresh (of_int t)\<rparr>)
      else if key = ''oil''
      then or_message ''oil must be between -40 and 215 C'' (sandbox_parseSigned v (- 40) 215)
             (\<lambda>t. candidate\<lparr>vs_engineOilTemperatureC := Observed_fresh (of_int t)\<rparr>)
      else if key = ''transmission_temperature''
      then or_message ''transmission_temperature must be between -40 and 215 C''
             (sandbox_parseSigned v (- 40) 215)
             (\<lambda>t. candidate\<lparr>vs_transmissionOilTemperatureC := Observed_fresh (of_int t)\<rparr>)
      else if key = ''dpf''
      then or_message ''dpf must be on or off'' (parseOnOff v)
             (\<lambda>b. candidate\<lparr>vs_dpfRegenerationActive := Observed_fresh b\<rparr>)
      else if key = ''doors''
      then or_message ''doors must be closed or open'' (parseClosedOpen v)
             (\<lambda>b. candidate\<lparr>vs_doorsClosed := Observed_fresh b\<rparr>)
      else if key = ''hood''
      then (if v = ''unavailable'' then Inr (candidate\<lparr>vs_hoodClosed := Observed_default False\<rparr>)
            else or_message ''hood must be closed, open or unavailable'' (parseClosedOpen v)
                   (\<lambda>b. candidate\<lparr>vs_hoodClosed := Observed_fresh b\<rparr>))
      else if key = ''trunk''
      then or_message ''trunk must be closed or open'' (parseClosedOpen v)
             (\<lambda>b. candidate\<lparr>vs_trunkClosed := Observed_fresh b\<rparr>)
      else if key = ''brake''
      then or_message ''brake must be pressed or released''
             (if v = ''pressed'' then Some True else if v = ''released'' then Some False else None)
             (\<lambda>b. candidate\<lparr>vs_brakePressed := Observed_fresh b\<rparr>)
      else if key = ''parking''
      then or_message ''parking must be applied or released''
             (if v = ''applied'' then Some True else if v = ''released'' then Some False else None)
             (\<lambda>b. candidate\<lparr>vs_parkingBrakeApplied := Observed_fresh b\<rparr>)
      else if key = ''gear''
      then or_message ''gear must be park, neutral, reverse or drive''
             (if v = ''park'' then Some GE_Park else if v = ''neutral'' then Some GE_Neutral
              else if v = ''reverse'' then Some GE_Reverse else if v = ''drive'' then Some GE_Drive
              else None)
             (\<lambda>g. candidate\<lparr>vs_gear := Observed_fresh g\<rparr>)
      else if key = ''critical''
      then or_message ''critical must be on or off'' (parseOnOff v)
             (\<lambda>b. candidate\<lparr>vs_criticalFaultPresent := Observed_fresh b\<rparr>)
      else Inl (''unknown vehicle field: '' @ key))"

fun vehicle_fields :: "string list \<Rightarrow> VehicleState \<Rightarrow> string + VehicleState" where
  "vehicle_fields [] candidate = Inr candidate"
| "vehicle_fields (token # tokens) candidate =
     (let key = takeWhile (\<lambda>c. c \<noteq> CHR ''='') token; v = drop (length key + 1) token in
      if CHR ''='' \<notin> set token \<or> key = [] \<or> v = []
      then Inl ''vehicle values must use key=value''
      else (case vehicle_field key v candidate of
              Inl e \<Rightarrow> Inl e | Inr candidate \<Rightarrow> vehicle_fields tokens candidate))"

definition updateVehicle :: "string list \<Rightarrow> SandboxSession \<Rightarrow> SandboxResult \<times> SandboxSession" where
  "updateVehicle tokens b =
     (case vehicle_fields tokens (sb_vehicle b) of
        Inl e \<Rightarrow> sb_failure e b
      | Inr candidate \<Rightarrow>
          if tokens = [] then sb_failure ''vehicle requires at least one key=value'' b
          else
           (let b = b\<lparr>sb_vehicle := candidate\<rparr>;
                b = propagateSupervisorFault (serviceSupervisor (sb_nowMs b) b);
                b = sb_dispatch_unless_fault (Event_of ET_VehicleStateUpdated) b
            in sb_success (sb_evaluate b)))"

definition updateFeature :: "string list \<Rightarrow> SandboxSession \<Rightarrow> SandboxResult \<times> SandboxSession" where
  "updateFeature arguments b =
     (case arguments of
        [code, v] \<Rightarrow>
         (case parseOnOff v of
            None \<Rightarrow> sb_failure ''usage: feature <code> on|off'' b
          | Some enabled \<Rightarrow>
             (case findFeatureByCode (Some code) of
                None \<Rightarrow> sb_failure (''unknown feature: '' @ code) b
              | Some feature \<Rightarrow>
                 (case FeatureRequests_setEnabled (fd_id feature) enabled (us_features (sb_settings b)) of
                    (False, _) \<Rightarrow> sb_failure ''feature cannot be represented'' b
                  | (True, requests) \<Rightarrow>
                      sb_success (rebuildTelemetryMonitor
                        (b\<lparr>sb_settings := (sb_settings b)\<lparr>us_features := requests\<rparr>\<rparr>)))))
      | _ \<Rightarrow> sb_failure ''usage: feature <code> on|off'' b)"

definition sb_execute :: "string \<Rightarrow> SandboxSession \<Rightarrow> SandboxResult \<times> SandboxSession" where
  "sb_execute rawCommand b =
     (case words (sandbox_trim rawCommand) of
        [] \<Rightarrow> sb_failure ''empty command'' b
      | verb # arguments \<Rightarrow>
          if verb = ''status'' \<or> verb = ''quit''
          then (if arguments \<noteq> [] then sb_failure (''unexpected argument for '' @ verb) b
                else sb_success b)
          else if verb = ''new'' then sb_new arguments b
          else if verb = ''start''
          then dispatchWithoutArguments arguments ET_RemoteStartRequested True b
          else if verb = ''stop''
          then dispatchWithoutArguments arguments ET_RemoteStopRequested False b
          else if verb = ''takeover''
          then dispatchWithoutArguments arguments ET_DriverTakeoverConfirmed False b
          else if verb = ''timer'' then sb_timer arguments b
          else if verb = ''reset'' then sb_reset arguments b
          else if verb = ''watchdog'' then sb_watchdog arguments b
          else if verb = ''interlock'' then sb_interlock arguments b
          else if verb = ''vehicle'' then updateVehicle arguments b
          else if verb = ''feature'' then updateFeature arguments b
          else sb_failure (''unknown command: '' @ verb) b)"

section \<open>Answers\<close>

text \<open>The parts of the answer: a member with its value, and a list of quoted names.\<close>

definition quote :: char where "quote = CHR 0x22"

definition in_quotes :: "string \<Rightarrow> string" where
  "in_quotes v = [quote] @ v @ [quote]"

definition json_member :: "string \<Rightarrow> string \<Rightarrow> string" where
  "json_member name v = in_quotes name @ '':'' @ v"

fun separated :: "string list \<Rightarrow> string" where
  "separated [] = []"
| "separated [v] = v"
| "separated (v # vs) = v @ '','' @ separated vs"

definition json_object :: "string list \<Rightarrow> string" where
  "json_object members = ''{'' @ separated members @ ''}''"

definition json_names :: "string list \<Rightarrow> string" where
  "json_names names = ''['' @ separated (map in_quotes names) @ '']''"

definition word_text :: "'w::len word \<Rightarrow> string" where
  "word_text w = nat_text (unat w)"

definition signed_text :: "'w::len word \<Rightarrow> string" where
  "signed_text w = int_text (sint w)"

definition vehicle_json :: "VehicleState \<Rightarrow> string" where
  "vehicle_json v = json_object
     [json_member ''battery_mv'' (word_text (obs_value (vs_batteryMillivolts v))),
      json_member ''rpm'' (word_text (obs_value (vs_engineRpm v))),
      json_member ''coolant_temperature_c'' (signed_text (obs_value (vs_coolantTemperatureC v))),
      json_member ''engine_oil_temperature_c'' (signed_text (obs_value (vs_engineOilTemperatureC v))),
      json_member ''transmission_oil_temperature_c''
        (signed_text (obs_value (vs_transmissionOilTemperatureC v))),
      json_member ''dpf_regeneration_active'' (bool_text (obs_value (vs_dpfRegenerationActive v))),
      json_member ''hood_available'' (bool_text (quality (vs_hoodClosed v) \<noteq> SQ_Unavailable)),
      json_member ''hood_closed'' (bool_text (obs_value (vs_hoodClosed v))),
      json_member ''doors_closed'' (bool_text (obs_value (vs_doorsClosed v))),
      json_member ''trunk_closed'' (bool_text (obs_value (vs_trunkClosed v))),
      json_member ''brake_pressed'' (bool_text (obs_value (vs_brakePressed v))),
      json_member ''parking_applied'' (bool_text (obs_value (vs_parkingBrakeApplied v))),
      json_member ''gear'' (in_quotes (gearToString (obs_value (vs_gear v)))),
      json_member ''critical_fault'' (bool_text (obs_value (vs_criticalFaultPresent v)))]"

definition features_json :: "FeatureRequests \<Rightarrow> string" where
  "features_json r = json_object
     [json_member ''cold_engine_guard'' (bool_text (FeatureRequests_enabled r FI_ColdEngineGuard)),
      json_member ''dpf_regeneration_indicator''
        (bool_text (FeatureRequests_enabled r FI_DpfRegenerationIndicator)),
      json_member ''transmission_overheat_alert''
        (bool_text (FeatureRequests_enabled r FI_TransmissionOverheatAlert))]"

definition telemetry_json :: "TelemetryReport \<Rightarrow> string" where
  "telemetry_json t = json_object
     [json_member ''cold_engine_guard''
        (in_quotes (TelemetryConditionState_toString (tr_coldEngineGuard t))),
      json_member ''dpf_regeneration''
        (in_quotes (TelemetryConditionState_toString (tr_dpfRegeneration t))),
      json_member ''transmission_overheat''
        (in_quotes (TelemetryConditionState_toString (tr_transmissionOverheat t))),
      json_member ''alerts'' (json_names (map TelemetryAlertType_toString (tr_alerts t)))]"

definition encodeSandboxResult :: "SandboxResult \<Rightarrow> string" where
  "encodeSandboxResult result =
     (let s = rs_snapshot result in json_object
       [json_member ''ok'' (bool_text (rs_ok result)),
        json_member ''error'' (in_quotes (escapeJson (rs_error result))),
        json_member ''time_ms'' (word_text (ss_timeMs s)),
        json_member ''state'' (in_quotes (ControllerState_toString (ss_state s))),
        json_member ''fault'' (in_quotes (FaultCode_toString (ss_fault s))),
        json_member ''supervisor_fault''
          (in_quotes (ActuatorSupervisorFault_toString (ss_supervisorFault s))),
        json_member ''timer_armed'' (bool_text (ss_timerArmed s)),
        json_member ''timer_due_ms'' (word_text (ss_timerDueMs s)),
        json_member ''timer_duration_ms'' (word_text (ss_timerDurationMs s)),
        json_member ''ignition_active'' (bool_text (ss_ignitionActive s)),
        json_member ''starter_active'' (bool_text (ss_starterActive s)),
        json_member ''hardware_start_permitted'' (bool_text (ss_hardwareStartPermitted s)),
        json_member ''hood_monitoring_required'' (bool_text (ss_hoodMonitoringRequired s)),
        json_member ''vehicle'' (vehicle_json (ss_vehicle s)),
        json_member ''features'' (features_json (ss_requestedFeatures s)),
        json_member ''telemetry'' (telemetry_json (ss_telemetry s)),
        json_member ''last_event'' (in_quotes (EventType_toString (ss_lastEvent s))),
        json_member ''safety_reasons'' (word_text (sa_reasons (d_safety (ss_lastDecision s)))),
        json_member ''diagnostic_records'' (nat_text (ss_diagnosticRecords s)),
        json_member ''last_actions''
          (json_names (map (ActionType_toString \<circ> act_type) (actions (ss_lastDecision s))))])"

section \<open>The protocol\<close>

text \<open>The text written for the lines read, and the exit code.\<close>

fun sandbox_protocol :: "string list \<Rightarrow> SandboxSession \<Rightarrow> string \<times> nat" where
  "sandbox_protocol [] b = ([], 0)"
| "sandbox_protocol (line # lines) b =
     (let command = sandbox_trim line;
          (result, b) = sb_execute command b;
          answer = encodeSandboxResult result @ [newline]
      in if command = ''quit'' then (answer, if rs_ok result then 0 else 64)
         else (let (output, code) = sandbox_protocol lines b in (answer @ output, code)))"

definition runSandboxProtocol :: "istream \<Rightarrow> string \<times> nat" where
  "runSandboxProtocol input = sandbox_protocol (istream_lines input) SandboxSession_new"

end
