(* ===== verification/SandboxSafety.thy ===== *)
theory SandboxSafety
  imports Sandbox
begin

text \<open>
  What the sandbox session (\<open>Sandbox\<close>) keeps over any sequence of commands: its simulated driver
  shows exactly what the supervisor commands, the outputs never exceed the controller's state, and
  a fault of the supervisor is a fault of the controller by the time a command is answered.  The
  runtime's contract \<open>runtime_ports\<close> is interpreted once more, with the driver's outputs in the
  invariant.  The second part is about the answers.
\<close>

section \<open>The driver shows what the supervisor commands\<close>

definition agree :: "SandboxWorld supervised \<Rightarrow> bool" where
  "agree = (\<lambda>(s, w). sw_ignition w = ignitionCommanded s \<and> sw_starter w = starterCommanded s)"

lemma agree_iff [simp]:
  "agree (s, w) \<longleftrightarrow> sw_ignition w = ignitionCommanded s \<and> sw_starter w = starterCommanded s"
  by (simp add: agree_def)

lemma driver_calls:
  "ap_enableIgnition SandboxActuatorDriver w = (True, w\<lparr>sw_ignition := True\<rparr>)"
  "ap_engageStarter SandboxActuatorDriver w = (True, w\<lparr>sw_starter := True\<rparr>)"
  "ap_disengageStarter SandboxActuatorDriver w = (True, w\<lparr>sw_starter := False\<rparr>)"
  "ap_releaseRemoteControl SandboxActuatorDriver w = (True, driver_reset w)"
  "ap_secureOutputs SandboxActuatorDriver w = (True, driver_reset w)"
  "sw_ignition (driver_reset w) = False" "sw_starter (driver_reset w) = False"
  by (simp_all add: SandboxActuatorDriver_def driver_reset_def)

lemma safeDownstream_agree: "agree (snd (safeDownstream SandboxActuatorDriver x))"
  by (cases x) (simp add: safeDownstream_def driver_calls)

lemma trip_agree: "agree (trip SandboxActuatorDriver f x)"
  by (cases x) (simp only: trip_def prod.case safeDownstream_agree)

lemma observeClock_agree: "agree x \<Longrightarrow> agree (snd (observeClock SandboxActuatorDriver now x))"
  by (cases x) (simp add: observeClock_def trip_agree)

lemma canEnergize_agree: "agree x \<Longrightarrow> agree (snd (canEnergize SandboxActuatorDriver x))"
  by (cases x) (simp add: canEnergize_def trip_agree)

lemma supervisor_agree:
  assumes "agree x"
  shows "agree (snd (supervisor_enableIgnition SandboxActuatorDriver x))"
    and "agree (snd (supervisor_engageStarter SandboxActuatorDriver x))"
    and "agree (snd (supervisor_disengageStarter SandboxActuatorDriver x))"
    and "agree (snd (supervisor_releaseRemoteControl SandboxActuatorDriver x))"
    and "agree (snd (supervisor_secureOutputs SandboxActuatorDriver x))"
proof -
  obtain s w where x: "x = (s, w)" by fastforce
  obtain ok s1 w1 where can: "canEnergize SandboxActuatorDriver (s, w) = (ok, s1, w1)"
    by (metis surj_pair)
  have agree1: "agree (s1, w1)" using canEnergize_agree [OF assms] by (simp add: x can)
  obtain ok2 s2 w2 where safe: "safeDownstream SandboxActuatorDriver (s, w) = (ok2, s2, w2)"
    by (metis surj_pair)
  have agree2: "agree (s2, w2)" using safeDownstream_agree [of "(s, w)"] by (simp add: safe)
  show "agree (snd (supervisor_enableIgnition SandboxActuatorDriver x))"
    "agree (snd (supervisor_engageStarter SandboxActuatorDriver x))"
    "agree (snd (supervisor_releaseRemoteControl SandboxActuatorDriver x))"
    using agree1
    by (simp_all add: x can supervisor_enableIgnition_def supervisor_engageStarter_def
        supervisor_releaseRemoteControl_def driver_calls trip_agree Let_def)
  show "agree (snd (supervisor_disengageStarter SandboxActuatorDriver x))"
    using assms by (simp add: x supervisor_disengageStarter_def driver_calls)
  show "agree (snd (supervisor_secureOutputs SandboxActuatorDriver x))"
    using agree2 by (simp add: x safe supervisor_secureOutputs_def)
qed

lemma heartbeat_agree:
  assumes "agree x"
  shows "agree (snd (supervisor_heartbeat SandboxActuatorDriver now x))"
proof -
  obtain ok s w where c: "observeClock SandboxActuatorDriver now x = (ok, s, w)"
    by (metis surj_pair)
  with observeClock_agree [OF assms, of now] show ?thesis
    by (simp add: supervisor_heartbeat_def trip_agree)
qed

lemma poll_checks_agree:
  "agree x \<Longrightarrow> agree (poll_checks SandboxActuatorDriver now permitted fb x)"
  by (cases x) (simp add: poll_checks_def Let_def trip_agree)

lemma poll_agree:
  assumes "agree x"
  shows "agree (snd (supervisor_poll SandboxActuatorDriver now permitted fb x))"
proof -
  obtain ok s w where c: "observeClock SandboxActuatorDriver now x = (ok, s, w)"
    by (metis surj_pair)
  obtain s1 w1 where p: "poll_checks SandboxActuatorDriver now permitted fb (s, w) = (s1, w1)"
    by fastforce
  from observeClock_agree [OF assms, of now] poll_checks_agree [of "(s, w)" now permitted fb]
  show ?thesis by (auto simp: supervisor_poll_def c p)
qed

lemma resetFault_agree:
  assumes "agree x"
  shows "agree (snd (supervisor_resetFault SandboxActuatorDriver now fb x))"
proof -
  obtain ok s w where c: "observeClock SandboxActuatorDriver now x = (ok, s, w)"
    by (metis surj_pair)
  obtain ok2 s2 w2 where safe: "safeDownstream SandboxActuatorDriver (s, w) = (ok2, s2, w2)"
    by (metis surj_pair)
  from observeClock_agree [OF assms, of now] safeDownstream_agree [of "(s, w)"]
  show ?thesis
    by (auto simp: supervisor_resetFault_def c safe safeDownstream_agree)
qed

interpretation sandbox: runtime_ports "supervisor_port SandboxActuatorDriver"
    "\<lambda>x. sup_inv (fst x) \<and> agree x" "\<lambda>x. ignitionCommanded (fst x)"
    "\<lambda>x. starterCommanded (fst x)" "lift_gateway SandboxGateway" "lift_timer SandboxTimer"
    "lift_sink SandboxNotifications"
proof (unfold_locales, goal_cases)
  case (1 e ok e')
  with sup.enable [of e SandboxActuatorDriver ok e'] supervisor_agree(1) [of e] show ?case
    by (simp add: supervisor_port_def)
next
  case (2 e ok e')
  with sup.engage [of e SandboxActuatorDriver ok e'] supervisor_agree(2) [of e] show ?case
    by (simp add: supervisor_port_def)
next
  case (3 e ok e')
  with sup.disengage [of e SandboxActuatorDriver ok e'] supervisor_agree(3) [of e] show ?case
    by (simp add: supervisor_port_def)
next
  case (4 e ok e')
  with sup.release [of e SandboxActuatorDriver ok e'] supervisor_agree(4) [of e] show ?case
    by (simp add: supervisor_port_def)
next
  case (5 e ok e')
  with sup.secure [of e SandboxActuatorDriver ok e'] supervisor_agree(5) [of e] show ?case
    by (simp add: supervisor_port_def)
qed (auto simp: lift_gateway_def lift_timer_def lift_sink_def lift_call_def SandboxGateway_def
    SandboxTimer_def SandboxNotifications_def)

section \<open>A call that succeeds leaves the fault alone\<close>

lemma canEnergize_ok: "canEnergize driver x = (True, x') \<Longrightarrow> x' = x"
  by (cases x; cases x') (simp add: canEnergize_True)

lemma disengage_fault:
  "supervisor_disengageStarter SandboxActuatorDriver (s, w) = (ok, s', w') \<Longrightarrow> as_fault s' = as_fault s"
  by (auto simp: supervisor_disengageStarter_def driver_calls)

lemma secure_fault:
  "supervisor_secureOutputs SandboxActuatorDriver (s, w) = (ok, s', w') \<Longrightarrow> as_fault s' = as_fault s"
  by (auto simp: supervisor_secureOutputs_def safeDownstream_def driver_calls)

lemma supervisor_ok_fault:
  "supervisor_enableIgnition SandboxActuatorDriver x = (True, x') \<Longrightarrow> as_fault (fst x') = as_fault (fst x)"
  "supervisor_engageStarter SandboxActuatorDriver x = (True, x') \<Longrightarrow> as_fault (fst x') = as_fault (fst x)"
  "supervisor_releaseRemoteControl SandboxActuatorDriver x = (True, x') \<Longrightarrow>
     as_fault (fst x') = as_fault (fst x)"
  "supervisor_disengageStarter SandboxActuatorDriver x = (True, x') \<Longrightarrow>
     as_fault (fst x') = as_fault (fst x)"
  "supervisor_secureOutputs SandboxActuatorDriver x = (True, x') \<Longrightarrow>
     as_fault (fst x') = as_fault (fst x)"
  by (auto simp: supervisor_enableIgnition_def supervisor_engageStarter_def
      supervisor_releaseRemoteControl_def driver_calls split: prod.splits if_splits
      dest!: canEnergize_ok) (cases x; cases x'; simp add: disengage_fault secure_fault)+

lemma lifted_call_fault:
  "lift_call f x = (ok, x') \<Longrightarrow> as_fault (fst x') = as_fault (fst x)"
  by (auto simp: lift_call_def split: prod.splits)

lemma execute_fault:
  assumes "sandbox.wired rt"
  shows "execute_from rt d as x = (FC_None, x') \<Longrightarrow> as_fault (fst x') = as_fault (fst x)"
proof (induction as arbitrary: x)
  case (Cons a as)
  then obtain y where a: "executeAction rt a d x = (FC_None, y)"
    and rest: "execute_from rt d as y = (FC_None, x')"
    by (auto split: prod.splits if_splits)
  have w: "rt_actuators rt = supervisor_port SandboxActuatorDriver"
    "vehicleGateway rt = lift_gateway SandboxGateway" "rt_timer rt = lift_timer SandboxTimer"
    "notifications rt = lift_sink SandboxNotifications"
    using assms by (simp_all add: sandbox.wired_def)
  have "as_fault (fst y) = as_fault (fst x)"
    using a
    by (cases "act_type a")
       (auto simp: executeAction_def w sandbox.outcome_iff supervisor_port_def
          lift_gateway_def lift_timer_def lift_sink_def notify_def split: if_splits prod.splits
          dest: supervisor_ok_fault lifted_call_fault)
  with Cons.IH [OF rest] show ?case by simp
qed simp

lemma dispatch_fault:
  assumes "sandbox.wired rt" "Runtime_dispatch event v ts (rt, x) = (d, rt', x')"
  shows "as_fault (fst x') = as_fault (fst x) \<or> Runtime_state rt' = CS_Fault"
  using assms(2)
proof (cases rule: dispatch_cases)
  case success
  then show ?thesis using execute_fault sandbox.wired_cong [OF assms(1)] by metis
next
  case failure
  then show ?thesis by (simp add: Runtime_state_def failure_actions(2))
qed

lemma dispatch_failure_state:
  assumes "Runtime_dispatch (infrastructureFailure f) v ts (rt, x) = (d, rt', x')"
  shows "Runtime_state rt' = CS_Fault"
  using assms
  by (cases rule: dispatch_cases) (simp_all add: Runtime_state_def failure_actions(2))

section \<open>The invariant of a session\<close>

definition sb_safe :: "SandboxSession \<Rightarrow> bool" where
  "sb_safe b \<longleftrightarrow> sandbox.safe_state (sb_runtime b) (snd (sb_system b))"

definition fault_told :: "SandboxSession \<Rightarrow> bool" where
  "fault_told b \<longleftrightarrow> (sb_faulted b \<longrightarrow> sb_state b = CS_Fault)"

definition sb_inv :: "SandboxSession \<Rightarrow> bool" where
  "sb_inv b \<longleftrightarrow> sb_safe b \<and> fault_told b"

lemmas sb_parts = sb_runtime_def sb_supervisor_def sb_world_def sb_state_def sb_faulted_def
  supervisor_status_def

lemma sb_safe_iff:
  "sb_safe b \<longleftrightarrow> sandbox.wired (sb_runtime b) \<and> sup_inv (sb_supervisor b) \<and>
     agree (snd (sb_system b)) \<and>
     (ignitionCommanded (sb_supervisor b) \<longrightarrow>
        out_ignition (outputs_for (c_config (rt_controller (sb_runtime b))) (sb_state b))) \<and>
     (starterCommanded (sb_supervisor b) \<longrightarrow>
        out_starter (outputs_for (c_config (rt_controller (sb_runtime b))) (sb_state b)))"
  by (simp add: sb_safe_def sandbox.safe_state_def sandbox.below_def sb_parts Runtime_state_def)

lemma sb_safe_updates [simp]:
  "sb_safe (b\<lparr>sb_vehicle := v\<rparr>) = sb_safe b" "sb_safe (b\<lparr>sb_lastDecision := d\<rparr>) = sb_safe b"
  "sb_safe (b\<lparr>sb_settings := s\<rparr>) = sb_safe b" "sb_safe (b\<lparr>sb_lastEvent := e\<rparr>) = sb_safe b"
  "sb_safe (b\<lparr>sb_telemetryMonitor := m\<rparr>) = sb_safe b"
  "sb_safe (b\<lparr>sb_telemetryReport := r\<rparr>) = sb_safe b"
  "sb_safe (b\<lparr>sb_nowMs := t\<rparr>) = sb_safe b" "sb_safe (b\<lparr>sb_lastServiceMs := t\<rparr>) = sb_safe b"
  "sb_safe (b\<lparr>sb_permitted := p\<rparr>) = sb_safe b"
  by (simp_all add: sb_safe_def sb_parts)

lemma fault_told_updates [simp]:
  "fault_told (b\<lparr>sb_vehicle := v\<rparr>) = fault_told b"
  "fault_told (b\<lparr>sb_lastDecision := d\<rparr>) = fault_told b"
  "fault_told (b\<lparr>sb_settings := s\<rparr>) = fault_told b"
  "fault_told (b\<lparr>sb_lastEvent := e\<rparr>) = fault_told b"
  "fault_told (b\<lparr>sb_telemetryMonitor := m\<rparr>) = fault_told b"
  "fault_told (b\<lparr>sb_telemetryReport := r\<rparr>) = fault_told b"
  "fault_told (b\<lparr>sb_nowMs := t\<rparr>) = fault_told b"
  "fault_told (b\<lparr>sb_lastServiceMs := t\<rparr>) = fault_told b"
  "fault_told (b\<lparr>sb_permitted := p\<rparr>) = fault_told b"
  by (simp_all add: fault_told_def sb_parts)

text \<open>A call of the supervisor that never raises the outputs.\<close>

lemma supervised_step_safe:
  assumes "sb_safe b" "sup_inv s \<and> (ignitionCommanded s \<longrightarrow> ignitionCommanded (sb_supervisor b)) \<and>
      (starterCommanded s \<longrightarrow> starterCommanded (sb_supervisor b))" "agree (s, w)"
  shows "sb_safe (b\<lparr>sb_system := (sb_runtime b, s, w)\<rparr>)"
  using assms by (simp add: sb_safe_iff sb_parts)

lemma sb_system_parts: "sb_system b = (sb_runtime b, sb_supervisor b, sb_world b)"
  by (simp add: sb_parts)

lemma safe_agree: "sb_safe b \<Longrightarrow> agree (sb_supervisor b, sb_world b)"
  by (simp add: sb_safe_iff sb_parts case_prod_unfold agree_def)

lemma heartbeat_safe:
  assumes "sb_safe b"
  shows "sb_safe (sb_step (SE_Heartbeat t) b)"
proof -
  let ?x = "(sb_supervisor b, sb_world b)"
  obtain ok s w where h: "supervisor_heartbeat SandboxActuatorDriver t ?x = (ok, s, w)"
    by (metis surj_pair)
  have "agree (s, w)" using heartbeat_agree [OF safe_agree [OF assms], of t] by (simp add: h)
  with supervised_step_safe [OF assms] heartbeat_step [OF h] assms show ?thesis
    by (simp add: sb_safe_iff sb_step_def sb_system_parts h sandbox_platform_def)
qed

lemma poll_safe:
  assumes "sb_safe b"
  shows "sb_safe (sb_poll t b)"
proof -
  let ?x = "(sb_supervisor b, sb_world b)" and ?fb = "driver_feedback (sb_world b)"
  obtain st s w where h:
    "supervisor_poll SandboxActuatorDriver t (sb_permitted b) ?fb ?x = (st, s, w)"
    by (metis surj_pair)
  have agree: "agree (s, w)"
    using poll_agree [OF safe_agree [OF assms], of t "sb_permitted b" ?fb] by (simp add: h)
  have "sb_safe (b\<lparr>sb_system := (sb_runtime b, s, w)\<rparr>)"
    using poll_step [OF h] assms by (intro supervised_step_safe [OF assms _ agree]) (simp add: sb_safe_iff)
  then show ?thesis by (simp add: sb_poll_def sb_step_def sb_system_parts h sandbox_platform_def)
qed

lemma supervise_safe: "sb_safe b \<Longrightarrow> sb_safe (sb_supervise t b)"
  by (simp add: sb_supervise_def heartbeat_safe poll_safe)

lemma service_safe: "sb_safe b \<Longrightarrow> sb_safe (serviceSupervisor t b)"
proof (induction t b rule: serviceSupervisor.induct)
  case (1 t b)
  then show ?case
    by (subst serviceSupervisor.simps) (simp add: supervise_safe Let_def)
qed

lemma settle_safe: "sb_safe b \<Longrightarrow> sb_safe (sb_settle b)"
  by (auto simp: sb_safe_iff sb_settle_def sb_parts timer_settle_def case_prod_unfold agree_def)

lemma settle_told [simp]: "fault_told (sb_settle b) = fault_told b"
  by (simp add: fault_told_def sb_settle_def sb_parts)

lemma dispatch_inv:
  assumes "sb_safe b" and "\<not> sb_faulted b \<or> event = infrastructureFailure f"
  shows "sb_inv (sb_dispatch event b)"
proof -
  let ?b = "b\<lparr>sb_lastEvent := ev_type event\<rparr>"
  obtain d rt s w where call:
    "Runtime_dispatch event (sb_vehicle b) (sb_nowMs b) (sb_system b) = (d, rt, s, w)"
    by (metis surj_pair)
  note disp = this [unfolded sb_system_parts]
  let ?b1 = "?b\<lparr>sb_lastDecision := d, sb_system := (rt, s, w)\<rparr>"
  have safe: "sandbox.safe_state (sb_runtime b) (sb_supervisor b, sb_world b)"
    using assms(1) by (simp add: sb_safe_def sb_system_parts)
  from sandbox.safe_dispatch [OF this disp] have "sb_safe ?b1" by (simp add: sb_safe_def sb_parts)
  moreover have "as_fault s = AF_None \<or> Runtime_state rt = CS_Fault"
    using assms(2)
  proof
    assume "\<not> sb_faulted b"
    with dispatch_fault [OF _ disp] safe show ?thesis
      by (auto simp: sandbox.safe_state_def sb_faulted_def supervisor_status_def)
  next
    assume failure: "event = infrastructureFailure f"
    from dispatch_failure_state [OF disp [unfolded failure]] show ?thesis ..
  qed
  then have "fault_told ?b1" by (auto simp: fault_told_def sb_parts)
  ultimately show ?thesis
    by (simp add: sb_inv_def sb_dispatch_def call settle_safe)
qed

section \<open>Commands keep the invariant\<close>

lemma supervise_runtime [simp]:
  "sb_runtime (sb_step (SE_Heartbeat t) b) = sb_runtime b"
  "sb_runtime (sb_poll t b) = sb_runtime b"
  "sb_runtime (b\<lparr>sb_lastServiceMs := t\<rparr>) = sb_runtime b"
  by (cases "sb_system b"; simp add: sb_poll_def sb_step_def sb_runtime_def)+

lemma propagate_inv: "sb_safe b \<Longrightarrow> sb_inv (propagateSupervisorFault b)"
  by (auto simp: propagateSupervisorFault_def sb_inv_def fault_told_def
      dispatch_inv [unfolded sb_inv_def fault_told_def])

lemma dispatch_unless_inv: "sb_inv b \<Longrightarrow> sb_inv (sb_dispatch_unless_fault event b)"
  by (auto simp: sb_dispatch_unless_fault_def sb_inv_def fault_told_def
      dispatch_inv [unfolded sb_inv_def fault_told_def])

lemma sb_inv_frame [simp]:
  "sb_inv (rebuildTelemetryMonitor b) = sb_inv b" "sb_inv (sb_evaluate b) = sb_inv b"
  by (simp_all add: rebuildTelemetryMonitor_def sb_evaluate_def sb_inv_def case_prod_unfold Let_def)

lemma fresh_supervisor:
  "mkActuatorSafetySupervisor SandboxActuatorDriver ActuatorSafetyConfig_default w =
     (\<lparr>as_config = ActuatorSafetyConfig_default, as_fault = AF_None, as_lastObservedMs = 0,
       lastHeartbeatMs = 0, starterEngagedAtMs = 0, lastOutputChangeMs = 0,
       as_initialized = True, as_clockInitialized = False, heartbeatInitialized = False,
       hardwareStartPermitted = False, ignitionCommanded = False, starterCommanded = False,
       ignitionFeedbackConfirmed = False, safingFailed = False\<rparr>,
      driver_reset (w\<lparr>sw_starter := False\<rparr>))"
  by (simp add: mkActuatorSafetySupervisor_def safeDownstream_def driver_calls
      actuatorConfigIsValid_def ActuatorSafetyConfig_default_def MaximumWatchdogTimeoutMs_def
      MaximumStarterActiveMs_def MaximumFeedbackGraceMs_def)

lemma started_safe: "sb_safe (sb_started requireHood journal w)"
proof -
  have "sup_inv (fst (mkActuatorSafetySupervisor SandboxActuatorDriver ActuatorSafetyConfig_default w'))"
    for w' by (rule mkSupervisor_inv [OF surjective_pairing, THEN conjunct1])
  then show ?thesis
    by (simp add: sb_safe_iff sb_started_def sb_parts system_start_def sandbox_platform_def
        sandbox.wired_def mkRuntime_def fresh_supervisor driver_calls Let_def)
qed

text \<open>A supervisor with nothing energised accepts a heartbeat and a poll at the time it knows.\<close>

definition quiet_at :: "u32 \<Rightarrow> ActuatorSafetySupervisor \<Rightarrow> bool" where
  "quiet_at t s \<longleftrightarrow> as_fault s = AF_None \<and> as_initialized s \<and> sup_off s \<and> lastOutputChangeMs s = t \<and>
     (as_clockInitialized s \<longrightarrow> as_lastObservedMs s = t)"

lemma supervise_quiet:
  assumes "quiet_at t (sb_supervisor b)"
  shows "\<not> sb_faulted (sb_poll t (sb_step (SE_Heartbeat t) b))"
proof -
  obtain rt s w where b: "sb_system b = (rt, s, w)" by (metis surj_pair)
  with assms show ?thesis
    by (auto simp: quiet_at_def sup_off_def sb_parts sb_poll_def sb_step_def
        supervisor_heartbeat_def supervisor_poll_def observeClock_def poll_checks_def
        sandbox_platform_def Let_def)
qed

lemma started_quiet: "quiet_at 0 (sb_supervisor (sb_started requireHood journal w))"
  by (simp add: quiet_at_def sb_started_def sb_parts system_start_def sandbox_platform_def
      fresh_supervisor sup_off_def Let_def)

lemma begun_inv: "sb_inv (sb_poll 0 (sb_step (SE_Heartbeat 0) (sb_started requireHood journal w)))"
  by (simp add: sb_inv_def fault_told_def supervise_quiet [OF started_quiet] poll_safe
      heartbeat_safe started_safe)

lemma new_inv: "sb_inv SandboxSession_new"
  by (simp add: SandboxSession_new_def begun_inv Let_def)

lemma restart_inv: "sb_inv (sb_restart requireHood b)"
  by (simp add: sb_restart_def begun_inv Let_def)

lemma reset_quiet:
  assumes "supervisor_resetFault SandboxActuatorDriver t fb (s, w) = (True, s', w')"
  shows "quiet_at t s'"
proof -
  obtain ok s1 w1 where c: "observeClock SandboxActuatorDriver t (s, w) = (ok, s1, w1)"
    by (metis surj_pair)
  have "ok" by (rule ccontr) (use assms in \<open>simp add: supervisor_resetFault_def c\<close>)
  with c have "as_lastObservedMs s1 = t" by (cases rule: observeClock_cases) simp_all
  with assms c show ?thesis
    by (auto simp: supervisor_resetFault_def quiet_at_def sup_off_def safeDownstream_def
        driver_calls Let_def split: if_splits)
qed

text \<open>An answer that describes the session it leaves, which keeps the invariant.\<close>

definition answered :: "SandboxResult \<times> SandboxSession \<Rightarrow> bool" where
  "answered = (\<lambda>(result, b). sb_inv b \<and> rs_snapshot result = sb_snapshot b)"

lemma answered_simps [simp]:
  "answered (sb_success b) = sb_inv b" "answered (sb_failure message b) = sb_inv b"
  by (simp_all add: answered_def sb_success_def sb_failure_def)

lemma sb_inv_updates [simp]:
  "sb_inv (b\<lparr>sb_vehicle := v\<rparr>) = sb_inv b" "sb_inv (b\<lparr>sb_settings := s\<rparr>) = sb_inv b"
  "sb_inv (b\<lparr>sb_nowMs := t\<rparr>) = sb_inv b" "sb_inv (b\<lparr>sb_permitted := p\<rparr>) = sb_inv b"
  by (simp_all add: sb_inv_def)

lemma inv_safe: "sb_inv b \<Longrightarrow> sb_safe b"
  by (simp add: sb_inv_def)

lemma running_not_faulted: "sb_inv b \<Longrightarrow> sb_state b \<noteq> CS_Fault \<Longrightarrow> \<not> sb_faulted b"
  by (auto simp: sb_inv_def fault_told_def)

lemma dispatch_running: "sb_inv b \<Longrightarrow> sb_state b \<noteq> CS_Fault \<Longrightarrow> sb_inv (sb_dispatch event b)"
  by (simp add: dispatch_inv inv_safe running_not_faulted)

lemma serviced_inv: "sb_inv b \<Longrightarrow> sb_inv (propagateSupervisorFault (serviceSupervisor t b))"
  by (simp add: propagate_inv service_safe inv_safe)

lemma without_arguments_inv:
  assumes "sb_inv b"
  shows "answered (dispatchWithoutArguments arguments t feed b)"
proof -
  let ?b = "propagateSupervisorFault (serviceSupervisor (sb_nowMs b) b)"
  have "sb_inv ?b" using assms by (rule serviced_inv)
  moreover from this have "sb_inv (sb_dispatch (Event_of t) ?b)" if "sb_state ?b \<noteq> CS_Fault"
    using that by (rule dispatch_running)
  ultimately show ?thesis
    using assms by (auto simp: dispatchWithoutArguments_def Let_def dispatch_running)
qed

lemma timer_inv: "sb_inv b \<Longrightarrow> answered (sb_timer arguments b)"
  by (simp add: sb_timer_def Let_def dispatch_unless_inv propagate_inv service_safe inv_safe)

lemma watchdog_inv: "sb_inv b \<Longrightarrow> answered (sb_watchdog arguments b)"
  by (simp add: sb_watchdog_def Let_def propagate_inv poll_safe inv_safe)

lemma interlock_inv: "sb_inv b \<Longrightarrow> answered (sb_interlock arguments b)"
  by (auto simp: sb_interlock_def propagate_inv supervise_safe inv_safe split: list.splits option.splits)

lemma reset_inv_session:
  assumes "sb_inv b"
  shows "answered (sb_reset arguments b)"
proof (cases "sb_faulted b")
  case False
  with assms show ?thesis by (simp add: sb_reset_def dispatch_inv inv_safe)
next
  case True
  let ?x = "(sb_supervisor b, sb_world b)" and ?fb = "driver_feedback (sb_world b)"
  obtain ok s w where r: "supervisor_resetFault SandboxActuatorDriver (sb_nowMs b) ?fb ?x = (ok, s, w)"
    by (metis surj_pair)
  let ?b = "b\<lparr>sb_system := (sb_runtime b, s, w)\<rparr>"
  have "agree (s, w)"
    using resetFault_agree [OF safe_agree, OF inv_safe [OF assms], of "sb_nowMs b" ?fb] by (simp add: r)
  then have safe: "sb_safe ?b"
    using resetFault_step [OF r]
    by (intro supervised_step_safe [OF inv_safe [OF assms]]) (simp_all add: sup_off_def)
  have told: "sb_state ?b = CS_Fault"
    using assms True by (simp add: sb_inv_def fault_told_def sb_parts)
  have pair: "snd (sb_system b) = ?x" by (simp add: sb_parts)
  show ?thesis
  proof (cases ok)
    case False
    with safe told True assms show ?thesis
      by (auto simp: sb_reset_def pair r sb_inv_def fault_told_def)
  next
    case ok: True
    have "quiet_at (sb_nowMs b) (sb_supervisor ?b)"
      using reset_quiet r ok by (simp add: sb_supervisor_def)
    from supervise_quiet [OF this] have "\<not> sb_faulted (sb_supervise (sb_nowMs b) ?b)"
      by (simp add: sb_supervise_def sb_parts)
    then show ?thesis
      using True ok assms by (simp add: sb_reset_def pair r dispatch_inv supervise_safe safe)
  qed
qed

lemma updateVehicle_inv: "sb_inv b \<Longrightarrow> answered (updateVehicle tokens b)"
  by (auto simp: updateVehicle_def Let_def dispatch_unless_inv serviced_inv split: sum.splits)

lemma updateFeature_inv: "sb_inv b \<Longrightarrow> answered (updateFeature arguments b)"
  by (auto simp: updateFeature_def split: list.splits option.splits prod.splits bool.splits)

lemma execute_answered:
  assumes "sb_inv b"
  shows "answered (sb_execute command b)"
proof (cases "words (sandbox_trim command)")
  case Nil
  with assms show ?thesis by (simp add: sb_execute_def)
next
  case (Cons verb arguments)
  with assms show ?thesis
    by (auto simp: sb_execute_def sb_new_def without_arguments_inv timer_inv watchdog_inv
        interlock_inv reset_inv_session updateVehicle_inv updateFeature_inv restart_inv)
qed

definition sandbox_after :: "string list \<Rightarrow> SandboxSession" where
  "sandbox_after commands = fold (\<lambda>command b. snd (sb_execute command b)) commands SandboxSession_new"

lemma after_inv: "sb_inv (sandbox_after commands)"
  unfolding sandbox_after_def
proof (rule fold_invariant)
  fix command b assume "sb_inv b"
  from execute_answered [OF this, of command] show "sb_inv (snd (sb_execute command b))"
    by (simp add: answered_def case_prod_unfold)
qed (rule new_inv)

section \<open>Answers are single lines\<close>

definition one_line :: "string \<Rightarrow> bool" where
  "one_line s \<longleftrightarrow> newline \<notin> set s"

lemma one_line_simps [simp]:
  "one_line []" "one_line (c # cs) \<longleftrightarrow> c \<noteq> newline \<and> one_line cs"
  "one_line (s @ t) \<longleftrightarrow> one_line s \<and> one_line t"
  by (auto simp: one_line_def)

lemma char_not_newline [simp]:
  "CHR ''{'' \<noteq> newline" "CHR ''}'' \<noteq> newline" "CHR ''['' \<noteq> newline" "CHR '']'' \<noteq> newline"
  "CHR '','' \<noteq> newline" "CHR '':'' \<noteq> newline" "quote \<noteq> newline" "CHR ''-'' \<noteq> newline"
  by (simp_all add: newline_def quote_def)

lemma one_line_numbers [simp]:
  "one_line (nat_text n)" "one_line (int_text i)" "one_line (word_text w)"
  "one_line (signed_text w)" "one_line (bool_text b)"
proof -
  have "plain_char newline = False" by (simp add: plain_char_def is_space_def newline_def)
  then show digits: "one_line (nat_text n)" for n
    using nat_text_plain [of n] by (auto simp: one_line_def list_all_iff)
  then show "one_line (int_text i)" for i by (simp add: int_text_def)
  then show "one_line (signed_text w)" for w :: "'w::len word" by (simp add: signed_text_def)
  show "one_line (word_text w)" by (simp add: word_text_def digits)
  show "one_line (bool_text b)" by (simp add: bool_text_def newline_def)
qed

lemma one_line_escape [simp]: "one_line (escapeJson s)"
  by (induction s) (auto simp: escapeJson_def escape_char_def newline_def)

lemma one_line_json [simp]:
  "one_line (in_quotes v) = one_line v"
  "one_line (json_member name v) \<longleftrightarrow> one_line name \<and> one_line v"
  "one_line (separated vs) = list_all one_line vs"
  "one_line (json_object vs) = list_all one_line vs"
  "one_line (json_names vs) = list_all one_line vs"
proof -
  show [simp]: "one_line (in_quotes v) = one_line v" for v by (simp add: in_quotes_def)
  then show "one_line (json_member name v) \<longleftrightarrow> one_line name \<and> one_line v"
    by (simp add: json_member_def)
  show [simp]: "one_line (separated vs) = list_all one_line vs" for vs
    by (induction vs rule: separated.induct) simp_all
  then show "one_line (json_object vs) = list_all one_line vs" by (simp add: json_object_def)
  show "one_line (json_names vs) = list_all one_line vs"
    by (simp add: json_names_def list_all_iff)
qed

lemma one_line_names [simp]:
  "one_line (gearToString g)" "one_line (ControllerState_toString st)"
  "one_line (FaultCode_toString f)" "one_line (ActuatorSupervisorFault_toString af)"
  "one_line (EventType_toString e)" "one_line (ActionType_toString a)"
  "one_line (TelemetryConditionState_toString t)" "one_line (TelemetryAlertType_toString ta)"
proof -
  show "one_line (gearToString g)" by (cases g) (simp_all add: newline_def)
  show "one_line (ControllerState_toString st)" by (cases st) (simp_all add: newline_def)
  show "one_line (FaultCode_toString f)" by (cases f) (simp_all add: newline_def)
  show "one_line (ActuatorSupervisorFault_toString af)" by (cases af) (simp_all add: newline_def)
  show "one_line (EventType_toString e)" by (cases e) (simp_all add: newline_def)
  show "one_line (ActionType_toString a)" by (cases a) (simp_all add: newline_def)
  show "one_line (TelemetryConditionState_toString t)" by (cases t) (simp_all add: newline_def)
  show "one_line (TelemetryAlertType_toString ta)" by (cases ta) (simp_all add: newline_def)
qed

lemma one_line_parts [simp]:
  "one_line (vehicle_json v)" "one_line (features_json r)" "one_line (telemetry_json t)"
  by (simp_all add: vehicle_json_def features_json_def telemetry_json_def newline_def list_all_iff)

lemma one_line_answer: "one_line (encodeSandboxResult result)"
  by (simp add: encodeSandboxResult_def Let_def newline_def list_all_iff)

text \<open>The results of the commands, up to and including the first \<^verbatim>\<open>quit\<close>.\<close>

fun sandbox_results :: "string list \<Rightarrow> SandboxSession \<Rightarrow> SandboxResult list" where
  "sandbox_results [] b = []"
| "sandbox_results (line # lines) b =
     (let (result, b') = sb_execute (sandbox_trim line) b in
      result # (if sandbox_trim line = ''quit'' then [] else sandbox_results lines b'))"

lemma trim_quit: "sandbox_trim ''quit'' = ''quit''"
  by (simp add: sandbox_trim_def is_space_def byte_order_mark_def)

lemma execute_quit: "sb_execute ''quit'' b = sb_success b"
  by (simp add: sb_execute_def trim_quit words_def is_space_def)

lemma protocol_results:
  "snd (sandbox_protocol lines b) = 0 \<and>
   fst (sandbox_protocol lines b) =
     concat (map (\<lambda>r. encodeSandboxResult r @ [newline]) (sandbox_results lines b))"
proof (induction lines arbitrary: b)
  case (Cons line lines)
  obtain r b' where x: "sb_execute (sandbox_trim line) b = (r, b')" by fastforce
  show ?case
  proof (cases "sandbox_trim line = ''quit''")
    case True
    with x have "rs_ok r" by (auto simp: execute_quit sb_success_def)
    with True x show ?thesis by (simp add: Let_def)
  next
    case False
    with x Cons.IH [of b'] show ?thesis by (simp add: Let_def case_prod_unfold)
  qed
qed simp

lemma lines_of_answers:
  "lines_of (concat (map (\<lambda>r. encodeSandboxResult r @ [newline]) rs)) = map encodeSandboxResult rs"
proof (induction rs)
  case (Cons r rs)
  have "newline \<notin> set (encodeSandboxResult r)" using one_line_answer by (simp add: one_line_def)
  from lines_of_line [OF this] Cons.IH show ?case by simp
qed simp

section \<open>Reading an error text back\<close>

text \<open>A reader of JSON strings, started behind the opening quote: the text and what follows.\<close>

definition unescape :: "char \<Rightarrow> char option" where
  "unescape c =
     (if c = quote \<or> c = CHR 0x5C then Some c
      else if c = CHR ''b'' then Some (CHR 0x08) else if c = CHR ''f'' then Some (CHR 0x0C)
      else if c = CHR ''n'' then Some (CHR 0x0A) else if c = CHR ''r'' then Some (CHR 0x0D)
      else if c = CHR ''t'' then Some (CHR 0x09) else None)"

fun read_json_string :: "string \<Rightarrow> (string \<times> string) option" where
  "read_json_string [] = None"
| "read_json_string (c # cs) =
     (if c = quote then Some ([], cs)
      else if c = CHR 0x5C
      then (case cs of
              [] \<Rightarrow> None
            | e # rest \<Rightarrow>
               (case unescape e of
                  None \<Rightarrow> None
                | Some d \<Rightarrow> map_option (apfst (Cons d)) (read_json_string rest)))
      else if (of_char c :: nat) < 0x20 then None
      else map_option (apfst (Cons c)) (read_json_string cs))"

text \<open>The characters a JSON text can show; the other control characters are replaced.\<close>

definition shown :: "char \<Rightarrow> char" where
  "shown c =
     (if (of_char c :: nat) < 0x20 \<and>
         c \<notin> {CHR 0x08, CHR 0x09, CHR 0x0A, CHR 0x0C, CHR 0x0D} then CHR ''?'' else c)"

lemma read_escape_char:
  "read_json_string (escape_char c @ rest) = map_option (apfst (Cons (shown c))) (read_json_string rest)"
  by (auto simp: escape_char_def shown_def unescape_def quote_def)

section \<open>Properties\<close>

text \<open>C21: After any sequence of sandbox commands, the snapshot in an answer is that of the session it
  leaves, and the simulated outputs it shows never exceed the controller's state: the starter is
  active only while cranking and with ignition, ignition only from preparation to takeover, and a
  fault of the supervisor is told to the controller before the answer is given, which is then in
  fault with both outputs off.\<close>

theorem sandbox_outputs_follow_state:
  assumes "sb_execute command (sandbox_after commands) = (result, b)" and "s = rs_snapshot result"
  shows "s = sb_snapshot b \<and>
    (ss_starterActive s \<longrightarrow> ss_ignitionActive s \<and> ss_state s = CS_Cranking) \<and>
    (ss_ignitionActive s \<longrightarrow>
       ss_state s \<in> {CS_Preparing, CS_Cranking, CS_Running, CS_AwaitingTakeover}) \<and>
    (ss_supervisorFault s \<noteq> AF_None \<longrightarrow>
       ss_state s = CS_Fault \<and> \<not> ss_ignitionActive s \<and> \<not> ss_starterActive s)"
proof -
  from execute_answered [OF after_inv, of command commands] assms
  have inv: "sb_inv b" and s: "s = sb_snapshot b" by (simp_all add: answered_def)
  from safe_agree [OF inv_safe [OF inv]]
  have "ss_ignitionActive s = ignitionCommanded (sb_supervisor b)"
    "ss_starterActive s = starterCommanded (sb_supervisor b)"
    "ss_state s = sb_state b" "ss_supervisorFault s = as_fault (sb_supervisor b)"
    by (simp_all add: s sb_snapshot_def supervisor_status_def)
  with inv show ?thesis
    by (auto simp: s sb_inv_def fault_told_def sb_faulted_def supervisor_status_def sb_safe_iff
        outputs_for_def sup_inv_def sup_off_def)
qed

lemma sandbox_outputs_follow_state_witness:
  "\<exists>result b. sb_execute ''timer'' (sandbox_after [''start'']) = (result, b) \<and>
     ss_starterActive (rs_snapshot result) \<and> ss_ignitionActive (rs_snapshot result) \<and>
     ss_state (rs_snapshot result) = CS_Cranking"
proof -
  obtain result b where x: "sb_execute ''timer'' (sandbox_after [''start'']) = (result, b)"
    by fastforce
  have "ss_starterActive (rs_snapshot (fst (sb_execute ''timer'' (sandbox_after [''start'']))))"
    by code_simp
  then have "ss_starterActive (rs_snapshot result)" by (simp only: x fst_conv)
  with sandbox_outputs_follow_state [OF x refl] x show ?thesis by blast
qed

text \<open>C30: The protocol answers every command, up to and including the first \<^verbatim>\<open>quit\<close>, with exactly one
  line, the encoding of that command's result, writes nothing else and exits with 0, whatever the
  input and even if it breaks off.\<close>

theorem sandbox_answers_line_by_line:
  "runSandboxProtocol input = (written, code) \<longrightarrow>
     lines_of written =
       map encodeSandboxResult (sandbox_results (istream_lines input) SandboxSession_new) \<and>
     code = 0"
  using protocol_results [of "istream_lines input" SandboxSession_new]
  by (auto simp: runSandboxProtocol_def lines_of_answers)

lemma sandbox_answers_line_by_line_witness:
  "\<exists>written. runSandboxProtocol (stream_of ''quit'') = (written, 0) \<and>
     lines_of written = [encodeSandboxResult (fst (sb_success SandboxSession_new))]"
proof -
  obtain written code where run: "runSandboxProtocol (stream_of ''quit'') = (written, code)"
    by fastforce
  have "lines_of ''quit'' = [''quit'']" by (simp add: newline_def)
  with sandbox_answers_line_by_line [of "stream_of ''quit''" written code] run show ?thesis
    by (simp add: trim_quit execute_quit sb_success_def)
qed

text \<open>An error text embedded in an answer is read back by a JSON reader exactly up to its closing
  quote, with what follows untouched: quotes, backslashes and the five control characters with a
  short escape survive, other control characters become question marks.\<close>

theorem error_text_reads_back:
  "read_json_string (escapeJson message @ quote # rest) = Some (map shown message, rest)"
proof (induction message)
  case Nil
  then show ?case by (simp add: escapeJson_def quote_def)
next
  case (Cons c message)
  have "escapeJson (c # message) = escape_char c @ escapeJson message" by (simp add: escapeJson_def)
  then show ?case by (simp add: read_escape_char Cons.IH)
qed

end
