(* ===== verification/Spec2Isabelle.thy ===== *)
theory Spec2Isabelle
  imports BmwPrelude VehicleModel StartObservation SafetyPolicy Controller ControllerSafety LockGate
    Telemetry UserSettings DiagnosticJournal Runtime ActuatorSupervisor SupervisedSystem CanCore SpscQueue
    TwaiSafety TwaiReceiver Firmware Assembler SyntheticCan LockAdapter
    Checksum SettingsPayload SettingsStorage EspSettings SettingsProtocol SettingsStream SettingsLink
    HostText HostFiles UserSettingsFile DeviceClient ClientLink DeviceProgramming CanTraceCsv Sandbox SandboxSafety
begin

text \<open>
  A model of the BMW E9x remote-control firmware and its host tools, with the theorems that make it
  correct.

  \<^bold>\<open>The program.\<close>  A controller decides, from a vehicle state, whether a remote start may be
  authorised, prepares and cranks the engine, and hands over to the driver or stops
  (\<^verbatim>\<open>application/\<close>).  A runtime executes its decisions through ports; between runtime and actuators
  stands an independent safety supervisor (\<^verbatim>\<open>infrastructure/\<close>).  The vehicle state is assembled from
  CAN frames that a listen-only receiver queues, the start request comes from a lock-press gesture on
  the bus, and a user changes settings over a framed serial link into a journaled flash store.  Host
  programs (\<^verbatim>\<open>tools/\<close>) edit those settings and run the whole system on simulated vehicles.

  \<^bold>\<open>Conventions.\<close>  A class is a record and a method a function named \<open>Class_method\<close> that returns the
  updated record (with its result first); out-parameters are returned, a nullable pointer is an
  option, an enum is a datatype whose constructors carry a prefix, with an extra \<open>Unnamed\<close>
  constructor where the code casts a raw byte to it.  Integers keep their width as words, signed ones
  are read with \<open>sint\<close>; \<^verbatim>\<open>size_t\<close> is a natural number.  A port or SDK is a record of functions over
  an environment, so everything proved holds for every behaviour of it; what is assumed about an
  SDK is a named predicate (\<open>nvs_durable\<close>).  Loops are structural recursion or functions with a
  termination proof; a loop without end (the firmware's main loop, the receive task) is one cycle and
  its iteration.

  \<^bold>\<open>Theories, in the order of the code.\<close>
  \<^item> \<^theory_text>\<open>BmwPrelude\<close>: integer types, little-endian accessors, the wrap-around order of 32-bit counters.
  \<^item> \<^theory_text>\<open>VehicleModel\<close> (\<^verbatim>\<open>domain/vehicle_*\<close>, \<^verbatim>\<open>reference_profiles\<close>): signals, observations with quality,
    the vehicle state, profiles and registry.
  \<^item> \<^theory_text>\<open>StartObservation\<close> (\<^verbatim>\<open>domain/start_observation\<close>, \<^verbatim>\<open>application/vehicle_start_observer\<close>): decoding and
    classification of the start state; the classification is characterised exactly.
  \<^item> \<^theory_text>\<open>SafetyPolicy\<close> (\<^verbatim>\<open>application/safety_policy\<close>, \<^verbatim>\<open>profile_readiness\<close>): each assessment approves exactly
    when its interlocks hold.
  \<^item> \<^theory_text>\<open>Controller\<close>, \<^theory_text>\<open>ControllerSafety\<close> (\<^verbatim>\<open>application/controller\<close>), \<^theory_text>\<open>Samples\<close>: the state machine; the relation of
    transitions, the outputs each state commands (\<open>outputs_for\<close>, the abstract specification), the
    fault latch, and that two timer expiries end every session.
  \<^item> \<^theory_text>\<open>LockGate\<close> (\<^verbatim>\<open>application/lock_sequence_detector\<close>, \<^verbatim>\<open>lock_command_gate\<close>): the locale
    \<open>gesture_detector\<close> is the contract of the detector; the gate lets only a whole gesture through.
  \<^item> \<^theory_text>\<open>Telemetry\<close> (\<^verbatim>\<open>application/feature_catalog\<close>, \<^verbatim>\<open>telemetry_monitor\<close>), \<^theory_text>\<open>UserSettings\<close>
    (\<^verbatim>\<open>application/user_settings\<close>): features, alarms with hysteresis, validated settings and the
    configurations made from them.
  \<^item> \<^theory_text>\<open>DiagnosticJournal\<close>, \<^theory_text>\<open>Runtime\<close> (\<^verbatim>\<open>infrastructure/ports\<close>, \<^verbatim>\<open>runtime\<close>), \<^theory_text>\<open>ActuatorSupervisor\<close>,
    \<^theory_text>\<open>SupervisedSystem\<close>: decisions executed, failures secured; the locales \<open>failsafe_actuators\<close> and
    \<open>runtime_ports\<close> state what a runtime needs of its actuators and are interpreted on the supervisor,
    which gives the safety of runtime, controller and supervisor together for every driver.
  \<^item> \<^theory_text>\<open>Checksum\<close>, \<^theory_text>\<open>SettingsPayload\<close>, \<^theory_text>\<open>SettingsStorage\<close>, \<^theory_text>\<open>EspSettings\<close>: the settings image, the journal of two
    slots with generations, and the flash under it; the locales \<open>settings_store\<close> and \<open>byte_storage\<close>
    connect them (a sublocale gives the journal over any byte storage), so that settings survive a
    restart and a torn save.
  \<^item> \<^theory_text>\<open>SettingsProtocol\<close>, \<^theory_text>\<open>SettingsStream\<close>, \<^theory_text>\<open>SettingsLink\<close>: frames, the byte stream, the service, and the
    endpoint over the journal; round trips, damage detected by the checksum, resynchronisation, and
    the contract of every request.
  \<^item> \<^theory_text>\<open>CanCore\<close>, \<^theory_text>\<open>SpscQueue\<close> (\<^verbatim>\<open>libs/can-core\<close>): frames and the lock-free queue, whose two threads interleave
    at every load and store.
  \<^item> \<^theory_text>\<open>TwaiSafety\<close>, \<^theory_text>\<open>TwaiReceiver\<close>, \<^theory_text>\<open>Firmware\<close> (\<^verbatim>\<open>infrastructure/twai_listen_only\<close>, \<^verbatim>\<open>esp_idf_*\<close>,
    \<^verbatim>\<open>main.cpp\<close>): the barriers before the receiver starts, the receiver with its task, and the firmware
    cycle.
  \<^item> \<^theory_text>\<open>Assembler\<close>, \<^theory_text>\<open>SyntheticCan\<close> (\<^verbatim>\<open>infrastructure/vehicle_state_assembler\<close>, \<^verbatim>\<open>can_trace_replay\<close>,
    \<^verbatim>\<open>replay_vehicle_gateway\<close>, \<^verbatim>\<open>simulation/synthetic_can\<close>): from frames to the vehicle state, as a map
    from signals to the last accepted value and time.
  \<^item> \<^theory_text>\<open>LockAdapter\<close> (\<^verbatim>\<open>infrastructure/can_lock_command_adapter\<close>): from frames to lock commands.
  \<^item> \<^theory_text>\<open>HostText\<close>, \<^theory_text>\<open>HostFiles\<close>, \<^theory_text>\<open>UserSettingsFile\<close> (\<^verbatim>\<open>tools/user_settings_file\<close>): text streams, a file system whose
    calls succeed, fail or store something else by a schedule, and the settings file over both: round trip,
    and no configuration is lost in any state the files pass through.
  \<^item> \<^theory_text>\<open>DeviceClient\<close> (\<^verbatim>\<open>tools/settings_device_client\<close>): requests with deadlines over any channel with a clock
    (locale \<open>ticking_channel\<close>); every call returns.  \<^theory_text>\<open>ClientLink\<close> puts the client at one end of a line and
    the firmware's endpoint over its flash at the other, and shows a verified write to be true of the device.
  \<^item> \<^theory_text>\<open>CanTraceCsv\<close> (\<^verbatim>\<open>tools/can_trace_csv\<close>): the trace parser with its stores in and out of bounds; an accepted
    trace can be replayed.
  \<^item> \<^theory_text>\<open>Sandbox\<close>, \<^theory_text>\<open>SandboxSafety\<close> (\<^verbatim>\<open>tools/sandbox_session\<close>): the interactive session, command by command, over
    the system of \<^theory_text>\<open>SupervisedSystem\<close>; the contract \<open>runtime_ports\<close> is interpreted on its simulated driver, so
    the outputs it shows follow the controller's state; every answer is one line.
  \<^item> \<^theory_text>\<open>HostConsole\<close>, \<^theory_text>\<open>SerialChannel\<close> (\<^verbatim>\<open>tools/serial_settings_channel\<close>): the console streams, and the serial
    port with the Win32 interface as a parameter; under observation of its handles none is used after it
    was closed and none is left open, and a write that succeeds has sent every byte in order.
  \<^item> \<^theory_text>\<open>SettingsConfigurator\<close> (\<^verbatim>\<open>tools/settings_configurator.cpp\<close>): command line, wizard and commands; the wizard
    ends with valid settings or none, no command spoils a file, and the program ends over every port with
    a clock that does not run backwards.  \<^theory_text>\<open>DeviceProgramming\<close> puts the firmware at the other end of that
    port (the locale \<open>channel_simulation\<close> relates the port to the wire of \<^theory_text>\<open>ClientLink\<close>): what the
    configurator reports of programming a device from a file is true of the device's flash.
  \<^bold>\<open>Bounds and fuel.\<close>  No definition has fuel except \<open>wait_for_exit\<close> in \<^theory_text>\<open>TwaiReceiver\<close>, whose argument is the
  number of delays the stop of the receiver waits for its task.  \<open>await_response\<close>, which a device that
  talks for ever and a clock that stands still could keep waiting, is a partial function; that it returns
  over a ticking channel is \<open>client_always_returns\<close>.  The firmware's main loop is
  \<open>app_cycles n\<close> for every \<open>n\<close>.  The queue's counters are 64-bit words that wrap; the properties hold
  for capacities that divide \<open>2 ^ 64\<close> (128 in the code).

  \<^bold>\<open>Not modelled.\<close>  Memory ordering of the queue below sequential consistency of its single loads and
  stores; the ESP-IDF SDK itself (a parameter); of the host tools the desktop
  simulator (\<^verbatim>\<open>tools/vehicle_simulator.cpp\<close>), the Win32 interface under the serial port (a parameter) and
  the stubs the port has on other platforms; the tests, the
  data-curation scripts in Python and PowerShell.
\<close>

end
